(* ===== verification/Prelude.thy ===== *)
theory Prelude
  imports Main "HOL-Library.Char_ord" "HOL-Library.Sublist"
begin

text \<open>
  Shared vocabulary of the development: results and state-passing computations with
  exceptions, the character classes and patterns of the Python regular expressions, the
  string methods the code calls, aware and naive date-times, and the two generic machines
  (an invariant kept by every operation, a preorder every operation respects) that the
  stateful components interpret.
\<close>

named_theorems effect_simps \<open>evaluation of the sequencing combinators\<close>
named_theorems pattern_defs \<open>definitions of the string patterns\<close>
named_theorems frame_simps \<open>what an operation leaves unchanged\<close>

section \<open>Results and sequencing\<close>

text \<open>
  A computation that may raise returns \<open>Inl\<close> with the exception or \<open>Inr\<close> with the value; a
  computation over a state returns the state next to the result, also when it raises: what
  was written before the exception stays written, as in Python.
\<close>

type_synonym ('e, 'a, 's) outcome = "('e + 'a) \<times> 's"

definition and_then :: "('e, 'a, 's) outcome \<Rightarrow> ('a \<Rightarrow> 's \<Rightarrow> ('e, 'b, 's) outcome) \<Rightarrow> ('e, 'b, 's) outcome" where
  "and_then r k = (case r of (Inl e, s) \<Rightarrow> (Inl e, s) | (Inr x, s) \<Rightarrow> k x s)"

text \<open>For evaluation a continuation is the branch of a case: it runs only once its input is known.\<close>

declare and_then_def [code_unfold]

lemma and_then_Inl [simp, effect_simps]: "and_then (Inl e, s) k = (Inl e, s)"
  by (simp add: and_then_def)

lemma and_then_Inr [simp, effect_simps]: "and_then (Inr x, s) k = k x s"
  by (simp add: and_then_def)

lemma and_then_split:
  "P (and_then r k) \<longleftrightarrow>
     (\<forall>e s. r = (Inl e, s) \<longrightarrow> P (Inl e, s)) \<and> (\<forall>x s. r = (Inr x, s) \<longrightarrow> P (k x s))"
  by (auto simp: and_then_def split: prod.splits sum.splits)

lemma and_then_split_asm:
  "P (and_then r k) \<longleftrightarrow>
     \<not> ((\<exists>e s. r = (Inl e, s) \<and> \<not> P (Inl e, s)) \<or> (\<exists>x s. r = (Inr x, s) \<and> \<not> P (k x s)))"
  by (auto simp: and_then_def split: prod.splits sum.splits)

lemmas and_then_splits = and_then_split and_then_split_asm

lemma and_then_InrE:
  assumes "and_then r k = (Inr y, t)"
  obtains x s where "r = (Inr x, s)" and "k x s = (Inr y, t)"
  using assms by (auto simp: and_then_def split: prod.splits sum.splits)

lemma and_then_preserves:
  assumes "P (snd r)" and "\<And>x s. r = (Inr x, s) \<Longrightarrow> P s \<Longrightarrow> P (snd (k x s))"
  shows "P (snd (and_then r k))"
  using assms by (cases r; cases "fst r") auto

text \<open>What neither part of a sequence changes, the sequence does not change.\<close>

lemma frame_then:
  assumes "F (snd r) = F s" and "\<And>x t. r = (Inr x, t) \<Longrightarrow> F (snd (k x t)) = F t"
  shows "F (snd (and_then r k)) = F s"
  using assms by (cases r; cases "fst r") auto

text \<open>The steps of a computation: a value that may be an error, a dict lookup, a raising guard.\<close>

definition lift :: "'e + 'a \<Rightarrow> 's \<Rightarrow> ('e, 'a, 's) outcome" where
  "lift x s = (x, s)"

definition fetch :: "('k \<rightharpoonup> 'v) \<Rightarrow> 'k \<Rightarrow> 'e \<Rightarrow> 's \<Rightarrow> ('e, 'v, 's) outcome" where
  "fetch m k e s = (case m k of None \<Rightarrow> (Inl e, s) | Some v \<Rightarrow> (Inr v, s))"

definition raise_if :: "bool \<Rightarrow> 'e \<Rightarrow> 's \<Rightarrow> ('e, unit, 's) outcome" where
  "raise_if b e s = (if b then (Inl e, s) else (Inr (), s))"

definition raise_opt :: "'e option \<Rightarrow> 's \<Rightarrow> ('e, unit, 's) outcome" where
  "raise_opt x s = (case x of Some e \<Rightarrow> (Inl e, s) | None \<Rightarrow> (Inr (), s))"

lemma and_then_eq [effect_simps]:
  "and_then r k = (Inr y, t) \<longleftrightarrow> (\<exists>x s. r = (Inr x, s) \<and> k x s = (Inr y, t))"
  "and_then r k = (Inl e, t) \<longleftrightarrow> r = (Inl e, t) \<or> (\<exists>x s. r = (Inr x, s) \<and> k x s = (Inl e, t))"
  by (auto simp: and_then_def split: prod.splits sum.splits)

lemma lift_eq [effect_simps]: "lift x s = (y, t) \<longleftrightarrow> x = y \<and> s = t"
  by (auto simp: lift_def)

lemma fetch_eq [effect_simps]:
  "fetch m k e s = (Inr v, t) \<longleftrightarrow> m k = Some v \<and> s = t"
  "fetch m k e s = (Inl e', t) \<longleftrightarrow> m k = None \<and> e = e' \<and> s = t"
  by (auto simp: fetch_def split: option.splits)

lemma raise_if_eq [effect_simps]:
  "raise_if b e s = (Inr u, t) \<longleftrightarrow> \<not> b \<and> s = t"
  "raise_if b e s = (Inl e', t) \<longleftrightarrow> b \<and> e = e' \<and> s = t"
  by (auto simp: raise_if_def)

lemma raise_opt_eq [effect_simps]:
  "raise_opt x s = (Inr u, t) \<longleftrightarrow> x = None \<and> s = t"
  "raise_opt x s = (Inl e', t) \<longleftrightarrow> x = Some e' \<and> s = t"
  by (auto simp: raise_opt_def split: option.splits)

lemma step_evals [simp]:
  "and_then (lift (Inr x) s) k = k x s" "and_then (lift (Inl e) s) k = (Inl e, s)"
  "m key = Some v \<Longrightarrow> and_then (fetch m key e s) kv = kv v s"
  "m key = None \<Longrightarrow> and_then (fetch m key e s) kv = (Inl e, s)"
  "\<not> b \<Longrightarrow> and_then (raise_if b e s) ku = ku () s" "b \<Longrightarrow> and_then (raise_if b e s) ku = (Inl e, s)"
  "and_then (raise_opt None s) ku = ku () s" "and_then (raise_opt (Some e) s) ku = (Inl e, s)"
  by (simp_all add: lift_def fetch_def raise_if_def raise_opt_def)

text \<open>A chain of guards \<open>if c: raise e\<close>: the first that holds decides.\<close>

primrec first_error :: "(bool \<times> 'e) list \<Rightarrow> 'e option" where
  "first_error [] = None"
| "first_error (ce # ces) = (if fst ce then Some (snd ce) else first_error ces)"

declare first_error.simps(2) [simp del]

lemma first_error_None [simp]: "first_error ces = None \<longleftrightarrow> (\<forall>ce \<in> set ces. \<not> fst ce)"
  by (induction ces) (auto simp: first_error.simps)

lemma first_error_Some: "first_error ces = Some e \<Longrightarrow> e \<in> snd ` set ces"
  by (induction ces) (auto simp: first_error.simps split: if_splits)

text \<open>A frozen dataclass: constructing runs \<open>__post_init__\<close>, which returns or raises.\<close>

definition construct :: "('a \<Rightarrow> 'e option) \<Rightarrow> 'a \<Rightarrow> 'e + 'a" where
  "construct post_init x = (case post_init x of Some e \<Rightarrow> Inl e | None \<Rightarrow> Inr x)"

lemma construct_Inr: "construct p x = Inr y \<longleftrightarrow> p x = None \<and> y = x"
  by (auto simp: construct_def split: option.splits)

lemma construct_Inl: "construct p x = Inl e \<longleftrightarrow> p x = Some e"
  by (auto simp: construct_def split: option.splits)

lemma construct_ok [simp]: "p x = None \<Longrightarrow> construct p x = Inr x"
  by (simp add: construct_def)

section \<open>Character classes, patterns and string methods\<close>

text \<open>
  Strings are lists of code points below 256. Every pattern of the code is anchored and
  matched with \<open>fullmatch\<close>: a first character, then a run of characters with length bounds.
\<close>

definition is_digit :: "char \<Rightarrow> bool" where
  [pattern_defs]: "is_digit c \<longleftrightarrow> CHR ''0'' \<le> c \<and> c \<le> CHR ''9''"

definition is_lower :: "char \<Rightarrow> bool" where
  [pattern_defs]: "is_lower c \<longleftrightarrow> CHR ''a'' \<le> c \<and> c \<le> CHR ''z''"

definition is_upper :: "char \<Rightarrow> bool" where
  [pattern_defs]: "is_upper c \<longleftrightarrow> CHR ''A'' \<le> c \<and> c \<le> CHR ''Z''"

definition is_alnum :: "char \<Rightarrow> bool" where
  [pattern_defs]: "is_alnum c \<longleftrightarrow> is_lower c \<or> is_upper c \<or> is_digit c"

definition is_hex :: "char \<Rightarrow> bool" where
  [pattern_defs]: "is_hex c \<longleftrightarrow> is_digit c \<or> CHR ''a'' \<le> c \<and> c \<le> CHR ''f''"

text \<open>The classes on the bits of a character, for evaluation.\<close>

lemma char_class_code [code]:
  "is_digit (Char b0 b1 b2 b3 b4 b5 b6 b7) \<longleftrightarrow> \<not> b7 \<and> \<not> b6 \<and> b5 \<and> b4 \<and> (\<not> b3 \<or> \<not> b2 \<and> \<not> b1)"
  "is_lower (Char b0 b1 b2 b3 b4 b5 b6 b7) \<longleftrightarrow> \<not> b7 \<and> b6 \<and> b5 \<and> (b4 \<or> b3 \<or> b2 \<or> b1 \<or> b0) \<and>
     \<not> (b4 \<and> b3 \<and> (b2 \<or> b1 \<and> b0))"
  "is_upper (Char b0 b1 b2 b3 b4 b5 b6 b7) \<longleftrightarrow> \<not> b7 \<and> b6 \<and> \<not> b5 \<and> (b4 \<or> b3 \<or> b2 \<or> b1 \<or> b0) \<and>
     \<not> (b4 \<and> b3 \<and> (b2 \<or> b1 \<and> b0))"
  "is_hex (Char b0 b1 b2 b3 b4 b5 b6 b7) \<longleftrightarrow> is_digit (Char b0 b1 b2 b3 b4 b5 b6 b7) \<or>
     \<not> b7 \<and> b6 \<and> b5 \<and> \<not> b4 \<and> \<not> b3 \<and> (b2 \<or> b1 \<or> b0) \<and> \<not> (b2 \<and> b1 \<and> b0)"
  by (simp_all add: is_digit_def is_lower_def is_upper_def is_hex_def)
    (cases b0; cases b1; cases b2; cases b3; cases b4; cases b5; cases b6; cases b7; simp)+

definition is_printable :: "char \<Rightarrow> bool" where
  "is_printable c \<longleftrightarrow> CHR '' '' \<le> c \<and> c \<le> CHR ''~''"

definition is_ascii_char :: "char \<Rightarrow> bool" where
  "is_ascii_char c \<longleftrightarrow> (of_char c :: nat) < 128"

lemma char_range_code [code]:
  "is_printable (Char b0 b1 b2 b3 b4 b5 b6 b7) \<longleftrightarrow> \<not> b7 \<and> (b6 \<or> b5) \<and>
     \<not> (b6 \<and> b5 \<and> b4 \<and> b3 \<and> b2 \<and> b1 \<and> b0)"
  "is_ascii_char (Char b0 b1 b2 b3 b4 b5 b6 b7) \<longleftrightarrow> \<not> b7"
  by (simp_all add: is_printable_def is_ascii_char_def)
    (cases b0; cases b1; cases b2; cases b3; cases b4; cases b5; cases b6; cases b7; simp)+

definition run_match :: "(char \<Rightarrow> bool) \<Rightarrow> nat \<Rightarrow> nat \<Rightarrow> string \<Rightarrow> bool" where
  [pattern_defs]: "run_match p lo hi s \<longleftrightarrow> lo \<le> length s \<and> length s \<le> hi \<and> list_all p s"

fun head_match :: "(char \<Rightarrow> bool) \<Rightarrow> (char \<Rightarrow> bool) \<Rightarrow> nat \<Rightarrow> nat \<Rightarrow> string \<Rightarrow> bool" where
  "head_match first rest lo hi [] = False"
| "head_match first rest lo hi (c # cs) = (first c \<and> run_match rest lo hi cs)"

lemma head_match_nonempty: "head_match f r lo hi s \<Longrightarrow> s \<noteq> []"
  by (cases s) auto

lemma head_match_length: "head_match f r lo hi s \<Longrightarrow> lo < length s \<and> length s \<le> Suc hi"
  by (cases s) (auto simp: run_match_def)

definition hex64 :: "string \<Rightarrow> bool" where
  [pattern_defs]: "hex64 s = run_match is_hex 64 64 s"

text \<open>\<open>str.strip\<close>, \<open>str.lower\<close>, \<open>str.replace\<close> of one character, \<open>str.join\<close>, \<open>removeprefix\<close>.\<close>

definition is_space :: "char \<Rightarrow> bool" where
  "is_space c \<longleftrightarrow> (let n = (of_char c :: nat) in
     (9 \<le> n \<and> n \<le> 13) \<or> (28 \<le> n \<and> n \<le> 32) \<or> n = 133 \<or> n = 160)"

definition py_strip :: "string \<Rightarrow> string" where
  "py_strip s = rev (dropWhile is_space (rev (dropWhile is_space s)))"

definition lower_char :: "char \<Rightarrow> char" where
  "lower_char c = (let n = (of_char c :: nat) in
     if (65 \<le> n \<and> n \<le> 90) \<or> (192 \<le> n \<and> n \<le> 222 \<and> n \<noteq> 215) then char_of (n + 32) else c)"

definition py_lower :: "string \<Rightarrow> string" where
  "py_lower s = map lower_char s"

definition replace_char :: "char \<Rightarrow> char \<Rightarrow> string \<Rightarrow> string" where
  "replace_char a b s = map (\<lambda>c. if c = a then b else c) s"

fun join :: "string \<Rightarrow> string list \<Rightarrow> string" where
  "join sep [] = []"
| "join sep [x] = x"
| "join sep (x # y # ys) = x @ sep @ join sep (y # ys)"

definition remove_prefix :: "string \<Rightarrow> string \<Rightarrow> string" where
  "remove_prefix p s = (if prefix p s then drop (length p) s else s)"

fun digits_of :: "nat \<Rightarrow> string" where
  "digits_of n = (if n < 10 then [char_of (48 + n)] else digits_of (n div 10) @ [char_of (48 + n mod 10)])"

declare digits_of.simps [simp del]

text \<open>For evaluation, the digits by division of integers.\<close>

definition int_digit :: "int \<Rightarrow> char" where
  "int_digit i =
     (if i \<le> 0 then CHR ''0'' else if i = 1 then CHR ''1'' else if i = 2 then CHR ''2'' else if i = 3 then CHR ''3''
      else if i = 4 then CHR ''4'' else if i = 5 then CHR ''5'' else if i = 6 then CHR ''6'' else if i = 7 then CHR ''7''
      else if i = 8 then CHR ''8'' else CHR ''9'')"

function int_digits :: "int \<Rightarrow> string" where
  "int_digits i = (if i < 10 then [int_digit i] else int_digits (i div 10) @ [int_digit (i mod 10)])"
  by auto
termination by (relation "measure nat") auto

declare int_digits.simps [simp del]

lemma int_digit_char:
  assumes "n < 10"
  shows "int_digit (int n) = char_of (48 + n)"
proof -
  have "list_all (\<lambda>k. int_digit (int k) = char_of (48 + k)) [0..<10]" by code_simp
  with assms show ?thesis by (simp add: list_all_iff)
qed

lemma int_digits_nat: "int_digits (int n) = digits_of n"
proof (induction n rule: digits_of.induct)
  case (1 n)
  have "int n div 10 = int (n div 10)" "int n mod 10 = int (n mod 10)" by (simp_all add: zdiv_int zmod_int)
  with 1 int_digit_char [of n] int_digit_char [of "n mod 10"] show ?case
    by (simp add: int_digits.simps [of "int n"] digits_of.simps [of n])
qed

lemma digits_of_nat [code_unfold]: "digits_of (nat i) = int_digits i"
proof (cases "0 \<le> i")
  case True
  then show ?thesis using int_digits_nat [of "nat i"] by simp
next
  case False
  then show ?thesis using int_digits_nat [of 0] by (simp add: int_digits.simps [of i] int_digits.simps [of 0] int_digit_def)
qed

definition py_str_int :: "int \<Rightarrow> string" where
  "py_str_int i = (if i < 0 then CHR ''-'' # digits_of (nat (- i)) else digits_of (nat i))"

section \<open>Date-times\<close>

text \<open>
  A Python \<open>datetime\<close>: the wall clock in microseconds since 1970-01-01T00:00 and, when it is
  aware, the UTC offset in microseconds. Comparisons of aware values compare instants; the
  code compares only values that passed \<open>require_utc\<close>.
\<close>

datatype datetime = Naive int | Aware int int

fun is_aware :: "datetime \<Rightarrow> bool" where
  "is_aware (Naive w) = False"
| "is_aware (Aware w off) = True"

fun instant :: "datetime \<Rightarrow> int" where
  "instant (Naive w) = w"
| "instant (Aware w off) = w - off"

definition as_utc :: "datetime \<Rightarrow> datetime" where
  "as_utc d = Aware (instant d) 0"

fun dt_add :: "datetime \<Rightarrow> int \<Rightarrow> datetime" where
  "dt_add (Naive w) us = Naive (w + us)"
| "dt_add (Aware w off) us = Aware (w + us) off"

definition dt_less :: "datetime \<Rightarrow> datetime \<Rightarrow> bool" where
  "dt_less a b \<longleftrightarrow> instant a < instant b"

definition dt_le :: "datetime \<Rightarrow> datetime \<Rightarrow> bool" where
  "dt_le a b \<longleftrightarrow> instant a \<le> instant b"

definition dt_max :: "datetime \<Rightarrow> datetime \<Rightarrow> datetime" where
  "dt_max a b = (if dt_less a b then b else a)"

abbreviation seconds :: "int \<Rightarrow> int" where
  "seconds n \<equiv> n * 1000000"

lemma as_utc_simps [simp]: "is_aware (as_utc d)" "instant (as_utc d) = instant d" "as_utc (as_utc d) = as_utc d"
  by (simp_all add: as_utc_def)

lemma dt_add_simps [simp]: "is_aware (dt_add d us) = is_aware d" "instant (dt_add d us) = instant d + us"
  by (cases d; simp)+

lemma dt_max_simps [simp]:
  "instant (dt_max a b) = max (instant a) (instant b)"
  "is_aware a \<Longrightarrow> is_aware b \<Longrightarrow> is_aware (dt_max a b)"
  by (auto simp: dt_max_def dt_less_def)

section \<open>Machines\<close>

text \<open>
  The interface of a stateful component to its whole-run theorems: one step per operation and
  an invariant each step keeps. A preorder machine adds a relation between an earlier and a
  later state (versions only grow, a settled case stays as it is) that each step respects.
\<close>

locale invariant_machine =
  fixes step :: "'op \<Rightarrow> 's \<Rightarrow> 's"
    and inv :: "'s \<Rightarrow> bool"
  assumes step_inv: "inv s \<Longrightarrow> inv (step op s)"
begin

lemma run_inv: "inv s \<Longrightarrow> inv (fold step ops s)"
  by (induction ops arbitrary: s) (auto intro: step_inv)

end

locale preorder_machine = invariant_machine step inv
  for step :: "'op \<Rightarrow> 's \<Rightarrow> 's" and inv :: "'s \<Rightarrow> bool" +
  fixes rel :: "'s \<Rightarrow> 's \<Rightarrow> bool"
  assumes rel_refl: "rel s s"
    and rel_trans: "rel s t \<Longrightarrow> rel t u \<Longrightarrow> rel s u"
    and step_rel: "inv s \<Longrightarrow> rel s (step op s)"
begin

lemma run_rel: "inv s \<Longrightarrow> rel s (fold step ops s)"
proof (induction ops arbitrary: s)
  case Nil
  show ?case by (simp add: rel_refl)
next
  case (Cons op ops)
  from Cons.prems have "rel s (step op s)" and "inv (step op s)"
    by (auto intro: step_rel step_inv)
  with Cons.IH [of "step op s"] show ?case
    by (auto intro: rel_trans)
qed

end

section \<open>Lemmas on lists and maps\<close>

lemma filter_last_in: "filter P xs \<noteq> [] \<Longrightarrow> last (filter P xs) \<in> set xs \<and> P (last (filter P xs))"
  using last_in_set [of "filter P xs"] by auto

lemma sorted_wrt_length3:
  "length xs \<le> 3 \<Longrightarrow> xs = [] \<or> (\<exists>a. xs = [a]) \<or> (\<exists>a b. xs = [a, b]) \<or> (\<exists>a b c. xs = [a, b, c])"
  by (cases xs rule: list.exhaust, simp, rename_tac a ys, case_tac ys, simp, rename_tac b zs,
      case_tac zs, simp, rename_tac c ws, case_tac ws, simp, simp)

end
