(* ===== verification/Dispatch_Errors.thy ===== *)
theory Dispatch_Errors
  imports Prelude
begin

text \<open>
  The typed failures of the dispatch boundary (\<open>src/data/dispatch/errors.py\<close>): one constructor
  per exception class with the constructor arguments that vary, and the three attributes every
  handler reads (\<open>code\<close>, \<open>retryable\<close>, \<open>http_status\<close>). Messages are constants of the classes and
  are not modelled. \<open>OtherError\<close> stands for an exception that is no \<open>DispatchError\<close>
  (a \<open>KeyError\<close>, or anything a provider lets through).
\<close>

datatype dispatch_error =
    DispatchError string bool int
  | DispatchValidationError string
  | DispatchNotAuthorized
  | DispatchContactUnavailable bool bool
  | DispatchResourceNotFound
  | DispatchIdempotencyConflict
  | DispatchStateConflict string
  | DispatchRetryNotDue
  | VoiceProviderUnavailable string
  | VoiceSubmissionUncertain
  | DispatchConfigurationError string
  | InvalidWebhookSignature
  | WebhookCallMismatch

fun error_code :: "dispatch_error \<Rightarrow> string" where
  "error_code (DispatchError c r h) = c"
| "error_code (DispatchValidationError c) = c"
| "error_code DispatchNotAuthorized = ''dispatch_not_authorized''"
| "error_code (DispatchContactUnavailable ambiguous retryable) =
     (if ambiguous then ''dispatch_directory_ambiguous'' else ''dispatch_contact_unavailable'')"
| "error_code DispatchResourceNotFound = ''dispatch_resource_not_found''"
| "error_code DispatchIdempotencyConflict = ''dispatch_idempotency_conflict''"
| "error_code (DispatchStateConflict c) = c"
| "error_code DispatchRetryNotDue = ''dispatch_retry_not_due''"
| "error_code (VoiceProviderUnavailable c) = c"
| "error_code VoiceSubmissionUncertain = ''voice_submission_uncertain''"
| "error_code (DispatchConfigurationError c) = c"
| "error_code InvalidWebhookSignature = ''twilio_signature_invalid''"
| "error_code WebhookCallMismatch = ''twilio_call_mismatch''"

fun error_retryable :: "dispatch_error \<Rightarrow> bool" where
  "error_retryable (DispatchError c r h) = r"
| "error_retryable (DispatchContactUnavailable ambiguous retryable) = retryable"
| "error_retryable (DispatchStateConflict c) = (c = ''dispatch_repository_conflict'')"
| "error_retryable DispatchRetryNotDue = True"
| "error_retryable (VoiceProviderUnavailable c) = True"
| "error_retryable _ = False"

fun error_http_status :: "dispatch_error \<Rightarrow> int" where
  "error_http_status (DispatchError c r h) = h"
| "error_http_status (DispatchValidationError c) = 422"
| "error_http_status DispatchNotAuthorized = 409"
| "error_http_status (DispatchContactUnavailable ambiguous retryable) = 409"
| "error_http_status DispatchResourceNotFound = 404"
| "error_http_status DispatchIdempotencyConflict = 409"
| "error_http_status (DispatchStateConflict c) = 409"
| "error_http_status DispatchRetryNotDue = 409"
| "error_http_status (VoiceProviderUnavailable c) = 503"
| "error_http_status VoiceSubmissionUncertain = 503"
| "error_http_status (DispatchConfigurationError c) = 503"
| "error_http_status InvalidWebhookSignature = 403"
| "error_http_status WebhookCallMismatch = 403"

datatype exn = Raised dispatch_error | OtherError string

abbreviation validation_error :: "string \<Rightarrow> exn" where
  "validation_error c \<equiv> Raised (DispatchValidationError c)"

abbreviation state_conflict :: "string \<Rightarrow> exn" where
  "state_conflict c \<equiv> Raised (DispatchStateConflict c)"

abbreviation key_error :: exn where
  "key_error \<equiv> OtherError ''KeyError''"

end
