(* ===== verification/Dispatch_Models.thy ===== *)
theory Dispatch_Models
  imports Dispatch_Errors
begin

text \<open>
  The tenant-scoped records of voice dispatch (\<open>src/data/dispatch/models.py\<close>): the enums, the
  contact with its calling windows, the confirmed incident, the dispatch case, the call attempt
  and the event. Each frozen dataclass is a record with its \<open>__post_init__\<close> as the list of its
  guards in the order the code has them; \<open>construct\<close> runs it, so every \<open>replace\<close> of the code
  validates again. The IANA database behind \<open>ZoneInfo\<close> is a parameter: a zone name maps to
  the UTC offset at an instant, or to nothing when the zone does not exist.
\<close>

section \<open>Identifiers and timestamps\<close>

definition match_identifier :: "string \<Rightarrow> bool" where
  [pattern_defs]: "match_identifier s =
     head_match is_alnum (\<lambda>c. is_alnum c \<or> c \<in> set ''_.:-'') 0 127 s"

definition match_case_reference :: "string \<Rightarrow> bool" where
  [pattern_defs]: "match_case_reference s =
     head_match (\<lambda>c. is_upper c \<or> is_digit c) (\<lambda>c. is_upper c \<or> is_digit c \<or> c = CHR ''-'') 3 31 s"

definition label_char :: "char \<Rightarrow> bool" where
  [pattern_defs]: "label_char c \<longleftrightarrow> is_alnum c \<or> c \<in> set '' &()/-'' \<or> c = CHR 0x27"

definition match_broad_label :: "string \<Rightarrow> bool" where
  [pattern_defs]: "match_broad_label s = head_match is_alnum label_char 0 119 s"

definition match_zone_id :: "string \<Rightarrow> bool" where
  [pattern_defs]: "match_zone_id s =
     head_match (\<lambda>c. is_lower c \<or> is_digit c) (\<lambda>c. is_lower c \<or> is_digit c \<or> c \<in> set ''_-'') 0 79 s"

definition match_h3_cell :: "string \<Rightarrow> bool" where
  [pattern_defs]: "match_h3_cell s = run_match is_hex 15 15 s"

definition match_secret_reference :: "string \<Rightarrow> bool" where
  [pattern_defs]: "match_secret_reference s \<longleftrightarrow>
     prefix ''secret://'' s \<and>
     head_match is_alnum (\<lambda>c. is_alnum c \<or> c \<in> set ''_./:-'') 0 511 (remove_prefix ''secret://'' s)"

definition match_callback_token :: "string \<Rightarrow> bool" where
  [pattern_defs]: "match_callback_token s = run_match (\<lambda>c. is_alnum c \<or> c \<in> set ''_-'') 32 128 s"

definition match_error_code :: "string \<Rightarrow> bool" where
  [pattern_defs]: "match_error_code s =
     run_match (\<lambda>c. is_lower c \<or> is_digit c \<or> c = CHR ''_'') 1 80 s"

definition require_utc :: "datetime \<Rightarrow> string \<Rightarrow> exn + datetime" where
  "require_utc value field_name =
     (if \<not> is_aware value then Inl (validation_error ''dispatch_timestamp_invalid'')
      else Inr (as_utc value))"

definition require_identifier :: "string \<Rightarrow> string \<Rightarrow> exn + string" where
  "require_identifier value field_name =
     (if \<not> match_identifier value then Inl (validation_error ''dispatch_identifier_invalid'')
      else Inr value)"

definition bad_identifier :: "string \<Rightarrow> bool \<times> exn" where
  "bad_identifier v = (\<not> match_identifier v, validation_error ''dispatch_identifier_invalid'')"

definition bad_utc :: "datetime \<Rightarrow> bool \<times> exn" where
  "bad_utc d = (\<not> is_aware d, validation_error ''dispatch_timestamp_invalid'')"

definition bad_utc_opt :: "datetime option \<Rightarrow> bool \<times> exn" where
  "bad_utc_opt v = (case v of None \<Rightarrow> (False, validation_error ''dispatch_timestamp_invalid'')
     | Some d \<Rightarrow> bad_utc d)"

definition aware_opt :: "datetime option \<Rightarrow> bool" where
  "aware_opt v = (case v of None \<Rightarrow> True | Some d \<Rightarrow> is_aware d)"

lemma aware_opt_simps [simp]: "aware_opt None" "aware_opt (Some d) = is_aware d"
  by (simp_all add: aware_opt_def)

lemma bad_guards [simp]:
  "fst (bad_identifier v) \<longleftrightarrow> \<not> match_identifier v"
  "fst (bad_utc d) \<longleftrightarrow> \<not> is_aware d"
  "fst (bad_utc_opt w) \<longleftrightarrow> \<not> aware_opt w"
  by (auto simp: bad_identifier_def bad_utc_def bad_utc_opt_def split: option.splits)

lemma require_utc_Inr: "require_utc d n = Inr u \<longleftrightarrow> is_aware d \<and> u = as_utc d"
  by (auto simp: require_utc_def)

section \<open>Enums\<close>

datatype contact_role = Role_PRIMARY | Role_SUPERVISOR

datatype dispatch_status =
    D_QUEUED | D_DIALING | D_AWAITING_ACKNOWLEDGEMENT | D_PROVIDER_RETRY | D_RETRY_SCHEDULED
  | D_SUPERVISOR_SCHEDULED | D_ACKNOWLEDGED | D_MANUAL_FOLLOW_UP | D_UNACKNOWLEDGED | D_CANCELED

fun dispatch_status_value :: "dispatch_status \<Rightarrow> string" where
  "dispatch_status_value D_QUEUED = ''queued''"
| "dispatch_status_value D_DIALING = ''dialing''"
| "dispatch_status_value D_AWAITING_ACKNOWLEDGEMENT = ''awaiting_acknowledgement''"
| "dispatch_status_value D_PROVIDER_RETRY = ''provider_retry''"
| "dispatch_status_value D_RETRY_SCHEDULED = ''retry_scheduled''"
| "dispatch_status_value D_SUPERVISOR_SCHEDULED = ''supervisor_scheduled''"
| "dispatch_status_value D_ACKNOWLEDGED = ''acknowledged''"
| "dispatch_status_value D_MANUAL_FOLLOW_UP = ''manual_follow_up''"
| "dispatch_status_value D_UNACKNOWLEDGED = ''unacknowledged''"
| "dispatch_status_value D_CANCELED = ''canceled''"

definition terminal_dispatch :: "dispatch_status \<Rightarrow> bool" where
  "terminal_dispatch s \<longleftrightarrow> s \<in> {D_ACKNOWLEDGED, D_MANUAL_FOLLOW_UP, D_UNACKNOWLEDGED, D_CANCELED}"

datatype attempt_status =
    A_RESERVED | A_PROVIDER_RETRY | A_INITIATED | A_RINGING | A_ANSWERED | A_ACKNOWLEDGED
  | A_MANUAL_FOLLOW_UP | A_UNACKNOWLEDGED | A_CANCELED

definition terminal_attempt :: "attempt_status \<Rightarrow> bool" where
  "terminal_attempt s \<longleftrightarrow> s \<in> {A_ACKNOWLEDGED, A_MANUAL_FOLLOW_UP, A_UNACKNOWLEDGED, A_CANCELED}"

datatype event_kind =
    E_AUTHORIZED | E_ATTEMPT_RESERVED | E_CALL_INITIATED | E_PROVIDER_RETRY | E_PROVIDER_STATUS
  | E_ANSWERING_MACHINE | E_ACKNOWLEDGED | E_MANUAL_FOLLOW_UP | E_INVALID_GATHER_INPUT
  | E_RETRY_SCHEDULED | E_SUPERVISOR_SCHEDULED | E_EXHAUSTED | E_CANCELED

text \<open>The escalation order of the roles: the primary contact comes before the supervisor.\<close>

instantiation contact_role :: linorder
begin

definition less_eq_contact_role :: "contact_role \<Rightarrow> contact_role \<Rightarrow> bool" where
  "less_eq_contact_role a b \<longleftrightarrow> a = Role_PRIMARY \<or> b = Role_SUPERVISOR"

definition less_contact_role :: "contact_role \<Rightarrow> contact_role \<Rightarrow> bool" where
  "less_contact_role a b \<longleftrightarrow> a = Role_PRIMARY \<and> b = Role_SUPERVISOR"

instance
  by standard (use contact_role.exhaust in \<open>auto simp: less_eq_contact_role_def less_contact_role_def\<close>)

end

lemma terminal_simps [simp]:
  "terminal_dispatch D_ACKNOWLEDGED" "terminal_dispatch D_MANUAL_FOLLOW_UP"
  "terminal_dispatch D_UNACKNOWLEDGED" "terminal_dispatch D_CANCELED"
  "\<not> terminal_dispatch D_QUEUED" "\<not> terminal_dispatch D_DIALING"
  "\<not> terminal_dispatch D_AWAITING_ACKNOWLEDGEMENT" "\<not> terminal_dispatch D_PROVIDER_RETRY"
  "\<not> terminal_dispatch D_RETRY_SCHEDULED" "\<not> terminal_dispatch D_SUPERVISOR_SCHEDULED"
  "terminal_attempt A_ACKNOWLEDGED" "terminal_attempt A_MANUAL_FOLLOW_UP"
  "terminal_attempt A_UNACKNOWLEDGED" "terminal_attempt A_CANCELED"
  "\<not> terminal_attempt A_RESERVED" "\<not> terminal_attempt A_PROVIDER_RETRY"
  "\<not> terminal_attempt A_INITIATED" "\<not> terminal_attempt A_RINGING" "\<not> terminal_attempt A_ANSWERED"
  by (simp_all add: terminal_dispatch_def terminal_attempt_def)

section \<open>Calling windows\<close>

record py_time =
  tod :: int
  tod_aware :: bool

record calling_window =
  cw_weekdays :: "int set"
  cw_start :: py_time
  cw_end :: py_time

definition calling_window_post_init :: "calling_window \<Rightarrow> exn option" where
  "calling_window_post_init w = first_error
     [(cw_weekdays w = {} \<or> \<not> cw_weekdays w \<subseteq> {0..<7}, validation_error ''dispatch_calling_window_invalid''),
      (tod_aware (cw_start w) \<or> tod_aware (cw_end w), validation_error ''dispatch_calling_window_invalid''),
      (tod (cw_start w) = tod (cw_end w), validation_error ''dispatch_calling_window_invalid'')]"

abbreviation day_us :: int where
  "day_us \<equiv> 86400000000"

fun wall :: "datetime \<Rightarrow> int" where
  "wall (Naive w) = w"
| "wall (Aware w off) = w"

text \<open>1970-01-01 was a Thursday, weekday 3 of Python's Monday-based count.\<close>

definition local_time :: "datetime \<Rightarrow> int" where
  "local_time d = wall d mod day_us"

definition weekday :: "datetime \<Rightarrow> int" where
  "weekday d = (wall d div day_us + 3) mod 7"

definition window_contains :: "calling_window \<Rightarrow> datetime \<Rightarrow> bool" where
  "window_contains w local_value =
     (let t = local_time local_value; wd = weekday local_value in
      if tod (cw_start w) < tod (cw_end w)
      then wd \<in> cw_weekdays w \<and> tod (cw_start w) \<le> t \<and> t < tod (cw_end w)
      else (wd \<in> cw_weekdays w \<and> t \<ge> tod (cw_start w)) \<or>
           ((wd - 1) mod 7 \<in> cw_weekdays w \<and> t < tod (cw_end w)))"

section \<open>Contacts\<close>

type_synonym tzdb = "string \<Rightarrow> (int \<Rightarrow> int) option"

record response_contact =
  k_contact_id :: string
  k_tenant_id :: string
  k_zone_id :: string
  k_role :: contact_role
  k_phone_secret_ref :: string
  k_display_name :: string
  k_enabled :: bool
  k_opted_in_at :: "datetime option"
  k_verified_at :: "datetime option"
  k_coverage_cells :: "string set"
  k_timezone :: string
  k_calling_windows :: "calling_window list"

definition contact_post_init :: "tzdb \<Rightarrow> response_contact \<Rightarrow> exn option" where
  "contact_post_init tz k = first_error
     [bad_identifier (k_contact_id k),
      bad_identifier (k_tenant_id k),
      (\<not> match_zone_id (k_zone_id k), validation_error ''dispatch_contact_invalid''),
      (\<not> match_secret_reference (k_phone_secret_ref k), validation_error ''dispatch_contact_invalid''),
      (k_display_name k = [] \<or> length (k_display_name k) > 120, validation_error ''dispatch_contact_invalid''),
      (\<exists>cell \<in> k_coverage_cells k. \<not> match_h3_cell cell, validation_error ''dispatch_contact_invalid''),
      bad_utc_opt (k_opted_in_at k),
      bad_utc_opt (k_verified_at k),
      (tz (k_timezone k) = None, validation_error ''dispatch_contact_invalid'')]"

definition astimezone :: "(int \<Rightarrow> int) \<Rightarrow> datetime \<Rightarrow> datetime" where
  "astimezone offset_at d = Aware (instant d + offset_at (instant d)) (offset_at (instant d))"

definition in_calling_windows :: "tzdb \<Rightarrow> response_contact \<Rightarrow> datetime \<Rightarrow> exn + bool" where
  "in_calling_windows tz k when =
     (case tz (k_timezone k) of
        None \<Rightarrow> Inl (OtherError ''ZoneInfoNotFoundError'')
      | Some offset_at \<Rightarrow> Inr (k_calling_windows k = [] \<or>
          (\<exists>w \<in> set (k_calling_windows k). window_contains w (astimezone offset_at when))))"

definition is_available :: "tzdb \<Rightarrow> response_contact \<Rightarrow> datetime \<Rightarrow> exn + bool" where
  "is_available tz k at =
     (case require_utc at ''availability time'' of Inl e \<Rightarrow> Inl e | Inr when \<Rightarrow>
      if \<not> k_enabled k then Inr False
      else (case k_opted_in_at k of None \<Rightarrow> Inr False | Some opted \<Rightarrow>
      (case k_verified_at k of None \<Rightarrow> Inr False | Some verified \<Rightarrow>
      (case require_utc opted ''opted_in_at'' of Inl e \<Rightarrow> Inl e | Inr opted_utc \<Rightarrow>
      if dt_less when opted_utc then Inr False
      else (case require_utc verified ''verified_at'' of Inl e \<Rightarrow> Inl e | Inr verified_utc \<Rightarrow>
      if dt_less when verified_utc then Inr False
      else in_calling_windows tz k when)))))"

section \<open>Coverage, resolved contacts and confirmed incidents\<close>

record coverage_target =
  t_zone_id :: string
  t_cell_id :: string

definition coverage_post_init :: "coverage_target \<Rightarrow> exn option" where
  "coverage_post_init t = first_error
     [(\<not> match_zone_id (t_zone_id t) \<or> \<not> match_h3_cell (t_cell_id t), validation_error ''dispatch_coverage_invalid'')]"

record resolved_contacts =
  r_primary :: response_contact
  r_supervisor :: response_contact

definition resolved_post_init :: "resolved_contacts \<Rightarrow> exn option" where
  "resolved_post_init r = first_error
     [(k_tenant_id (r_primary r) \<noteq> k_tenant_id (r_supervisor r), validation_error ''dispatch_contact_invalid''),
      (k_role (r_primary r) \<noteq> Role_PRIMARY, validation_error ''dispatch_contact_invalid''),
      (k_role (r_supervisor r) \<noteq> Role_SUPERVISOR, validation_error ''dispatch_contact_invalid''),
      (k_zone_id (r_primary r) \<noteq> k_zone_id (r_supervisor r), validation_error ''dispatch_contact_invalid'')]"

definition confirmed_categories :: "string set" where
  "confirmed_categories = {''property'', ''violence'', ''public_order'', ''traffic_safety'', ''other''}"

record confirmed_incident =
  i_tenant_id :: string
  i_incident_id :: string
  i_confirmed_review_id :: string
  i_incident_source_id :: string
  i_incident_external_event_id :: string
  i_cell_id :: string
  i_zone_id :: string
  i_case_reference :: string
  i_category :: string
  i_broad_location_label :: string
  i_occurred_at :: datetime
  i_review_decision :: string

definition incident_post_init :: "confirmed_incident \<Rightarrow> exn option" where
  "incident_post_init i = first_error
     [bad_identifier (i_tenant_id i),
      bad_identifier (i_incident_id i),
      bad_identifier (i_confirmed_review_id i),
      bad_identifier (i_incident_source_id i),
      (\<not> match_zone_id (i_zone_id i) \<or> \<not> match_h3_cell (i_cell_id i), validation_error ''dispatch_coverage_invalid''),
      (i_incident_external_event_id i = [] \<or> length (i_incident_external_event_id i) > 256,
         validation_error ''dispatch_incident_invalid''),
      (\<not> match_case_reference (i_case_reference i), validation_error ''dispatch_incident_invalid''),
      (i_category i \<notin> confirmed_categories, validation_error ''dispatch_incident_invalid''),
      (\<not> match_broad_label (i_broad_location_label i), validation_error ''dispatch_incident_invalid''),
      bad_utc (i_occurred_at i),
      (i_review_decision i \<notin> {''confirmed'', ''rejected''}, validation_error ''dispatch_incident_invalid'')]"

definition incident_coverage :: "confirmed_incident \<Rightarrow> exn + coverage_target" where
  "incident_coverage i = construct coverage_post_init \<lparr>t_zone_id = i_zone_id i, t_cell_id = i_cell_id i\<rparr>"

section \<open>Dispatch cases\<close>

record dispatch_case =
  c_case_id :: string
  c_tenant_id :: string
  c_incident_id :: string
  c_confirmed_review_id :: string
  c_incident_source_id :: string
  c_incident_external_event_id :: string
  c_zone_id :: string
  c_primary_contact_id :: string
  c_supervisor_contact_id :: string
  c_case_reference :: string
  c_category :: string
  c_broad_location_label :: string
  c_occurred_at :: datetime
  c_authorized_by :: string
  c_authorization_fingerprint :: string
  c_idempotency_key_hash :: string
  c_policy_version :: string
  c_message_template_version :: string
  c_retry_delay_seconds :: int
  c_status :: dispatch_status
  c_created_at :: datetime
  c_updated_at :: datetime
  c_next_attempt_at :: "datetime option"
  c_attempt_count :: int
  c_final_outcome :: "string option"
  c_closed_at :: "datetime option"
  c_version :: int

text \<open>The guards on the fields no \<open>replace\<close> of the coordinator or the repository touches.\<close>

definition case_identity_guards :: "dispatch_case \<Rightarrow> (bool \<times> exn) list" where
  "case_identity_guards c =
     [bad_identifier (c_case_id c),
      bad_identifier (c_tenant_id c),
      bad_identifier (c_incident_id c),
      bad_identifier (c_confirmed_review_id c),
      bad_identifier (c_incident_source_id c),
      bad_identifier (c_primary_contact_id c),
      bad_identifier (c_supervisor_contact_id c),
      (\<not> match_zone_id (c_zone_id c), validation_error ''dispatch_incident_invalid''),
      (c_incident_external_event_id c = [] \<or> length (c_incident_external_event_id c) > 256,
         validation_error ''dispatch_incident_invalid''),
      (c_primary_contact_id c = c_supervisor_contact_id c, validation_error ''dispatch_contact_invalid''),
      (\<not> match_case_reference (c_case_reference c), validation_error ''dispatch_incident_invalid''),
      (c_category c \<notin> confirmed_categories, validation_error ''dispatch_incident_invalid''),
      (\<not> match_broad_label (c_broad_location_label c), validation_error ''dispatch_incident_invalid''),
      (c_authorized_by c = [] \<or> length (c_authorized_by c) > 128, validation_error ''dispatch_authorization_invalid''),
      (\<not> hex64 (c_authorization_fingerprint c), validation_error ''dispatch_authorization_invalid''),
      (\<not> hex64 (c_idempotency_key_hash c), validation_error ''dispatch_authorization_invalid''),
      bad_identifier (c_policy_version c),
      bad_identifier (c_message_template_version c),
      (\<not> (5 \<le> c_retry_delay_seconds c \<and> c_retry_delay_seconds c \<le> 3600), validation_error ''dispatch_policy_invalid''),
      bad_utc (c_occurred_at c),
      bad_utc (c_created_at c)]"

definition case_progress_guards :: "dispatch_case \<Rightarrow> (bool \<times> exn) list" where
  "case_progress_guards c =
     [bad_utc (c_updated_at c),
      bad_utc_opt (c_next_attempt_at c),
      bad_utc_opt (c_closed_at c),
      (\<not> (0 \<le> c_attempt_count c \<and> c_attempt_count c \<le> 3), validation_error ''dispatch_attempt_invalid''),
      (terminal_dispatch (c_status c) \<and>
         (c_final_outcome c \<noteq> Some (dispatch_status_value (c_status c)) \<or> c_closed_at c = None \<or>
          c_next_attempt_at c \<noteq> None), validation_error ''dispatch_state_invalid''),
      (\<not> terminal_dispatch (c_status c) \<and> (c_final_outcome c \<noteq> None \<or> c_closed_at c \<noteq> None),
         validation_error ''dispatch_state_invalid''),
      (c_version c < 1, validation_error ''dispatch_version_invalid'')]"

definition case_post_init :: "dispatch_case \<Rightarrow> exn option" where
  "case_post_init c = first_error (case_identity_guards c @ case_progress_guards c)"

definition new_case :: "dispatch_case \<Rightarrow> exn + dispatch_case" where
  "new_case = construct case_post_init"

section \<open>Call attempts\<close>

record call_attempt =
  a_attempt_id :: string
  a_case_id :: string
  a_tenant_id :: string
  a_sequence :: int
  a_target_role :: contact_role
  a_contact_id :: string
  a_callback_token :: string
  a_provider_call_reference :: "string option"
  a_status :: attempt_status
  a_created_at :: datetime
  a_updated_at :: datetime
  a_outcome :: "string option"
  a_initiated_at :: "datetime option"
  a_answered_at :: "datetime option"
  a_completed_at :: "datetime option"
  a_next_action_at :: "datetime option"
  a_safe_error_code :: "string option"
  a_version :: int

definition role_for_sequence :: "int \<Rightarrow> contact_role" where
  "role_for_sequence n = (if n \<le> 2 then Role_PRIMARY else Role_SUPERVISOR)"

definition attempt_outcomes :: "string option set" where
  "attempt_outcomes = {None, Some ''acknowledged'', Some ''callback_requested'', Some ''no_answer'',
     Some ''busy'', Some ''failed'', Some ''no_acknowledgement'', Some ''canceled''}"

definition attempt_identity_guards :: "call_attempt \<Rightarrow> (bool \<times> exn) list" where
  "attempt_identity_guards a =
     [bad_identifier (a_attempt_id a),
      bad_identifier (a_case_id a),
      bad_identifier (a_tenant_id a),
      bad_identifier (a_contact_id a),
      (a_sequence a \<notin> {1, 2, 3}, validation_error ''dispatch_attempt_invalid''),
      (a_target_role a \<noteq> role_for_sequence (a_sequence a), validation_error ''dispatch_attempt_invalid''),
      (\<not> match_callback_token (a_callback_token a), validation_error ''dispatch_attempt_invalid'')]"

definition attempt_progress_guards :: "call_attempt \<Rightarrow> (bool \<times> exn) list" where
  "attempt_progress_guards a =
     [(a_provider_call_reference a = Some [], validation_error ''dispatch_attempt_invalid''),
      bad_utc (a_created_at a),
      bad_utc (a_updated_at a),
      bad_utc_opt (a_initiated_at a),
      bad_utc_opt (a_answered_at a),
      bad_utc_opt (a_completed_at a),
      bad_utc_opt (a_next_action_at a),
      (a_outcome a \<notin> attempt_outcomes, validation_error ''dispatch_attempt_invalid''),
      (case a_safe_error_code a of None \<Rightarrow> False | Some code \<Rightarrow> \<not> match_error_code code,
         validation_error ''dispatch_attempt_invalid''),
      (a_version a < 1, validation_error ''dispatch_version_invalid'')]"

definition attempt_post_init :: "call_attempt \<Rightarrow> exn option" where
  "attempt_post_init a = first_error (attempt_identity_guards a @ attempt_progress_guards a)"

definition new_attempt :: "call_attempt \<Rightarrow> exn + call_attempt" where
  "new_attempt = construct attempt_post_init"

section \<open>Dispatch events\<close>

record dispatch_event =
  e_event_id :: string
  e_tenant_id :: string
  e_case_id :: string
  e_attempt_id :: "string option"
  e_kind :: event_kind
  e_occurred_at :: datetime
  e_deduplication_key :: string
  e_detail_code :: "string option"

definition event_post_init :: "dispatch_event \<Rightarrow> exn option" where
  "event_post_init e = first_error
     [bad_identifier (e_event_id e),
      bad_identifier (e_tenant_id e),
      bad_identifier (e_case_id e),
      (case e_attempt_id e of None \<Rightarrow> False | Some a \<Rightarrow> \<not> match_identifier a,
         validation_error ''dispatch_identifier_invalid''),
      bad_utc (e_occurred_at e),
      (\<not> hex64 (e_deduplication_key e), validation_error ''dispatch_event_invalid''),
      (case e_detail_code e of None \<Rightarrow> False | Some d \<Rightarrow> \<not> match_identifier d,
         validation_error ''dispatch_identifier_invalid'')]"

definition new_event :: "dispatch_event \<Rightarrow> exn + dispatch_event" where
  "new_event = construct event_post_init"

section \<open>What validity gives\<close>

definition valid_case :: "dispatch_case \<Rightarrow> bool" where
  "valid_case c \<longleftrightarrow> case_post_init c = None"

definition valid_attempt :: "call_attempt \<Rightarrow> bool" where
  "valid_attempt a \<longleftrightarrow> attempt_post_init a = None"

lemma new_case_Inr: "new_case c = Inr d \<longleftrightarrow> valid_case c \<and> d = c"
  by (auto simp: new_case_def construct_Inr valid_case_def)

lemma new_attempt_Inr: "new_attempt a = Inr b \<longleftrightarrow> valid_attempt a \<and> b = a"
  by (auto simp: new_attempt_def construct_Inr valid_attempt_def)

lemma new_event_Inr: "new_event e = Inr f \<longleftrightarrow> event_post_init e = None \<and> f = e"
  by (auto simp: new_event_def construct_Inr)

definition case_identity_ok :: "dispatch_case \<Rightarrow> bool" where
  "case_identity_ok c \<longleftrightarrow> first_error (case_identity_guards c) = None"

definition case_progress_ok :: "dispatch_case \<Rightarrow> bool" where
  "case_progress_ok c \<longleftrightarrow>
     is_aware (c_updated_at c) \<and> aware_opt (c_next_attempt_at c) \<and> aware_opt (c_closed_at c) \<and>
     0 \<le> c_attempt_count c \<and> c_attempt_count c \<le> 3 \<and> 1 \<le> c_version c \<and>
     (if terminal_dispatch (c_status c)
      then c_final_outcome c = Some (dispatch_status_value (c_status c)) \<and> c_closed_at c \<noteq> None \<and>
           c_next_attempt_at c = None
      else c_final_outcome c = None \<and> c_closed_at c = None)"

lemma valid_case_iff: "valid_case c \<longleftrightarrow> case_identity_ok c \<and> case_progress_ok c"
  by (auto simp: valid_case_def case_post_init_def case_identity_ok_def case_progress_ok_def
      first_error_None case_progress_guards_def)

definition attempt_identity_ok :: "call_attempt \<Rightarrow> bool" where
  "attempt_identity_ok a \<longleftrightarrow> first_error (attempt_identity_guards a) = None"

definition attempt_progress_ok :: "call_attempt \<Rightarrow> bool" where
  "attempt_progress_ok a \<longleftrightarrow>
     a_provider_call_reference a \<noteq> Some [] \<and> is_aware (a_created_at a) \<and> is_aware (a_updated_at a) \<and>
     aware_opt (a_initiated_at a) \<and> aware_opt (a_answered_at a) \<and> aware_opt (a_completed_at a) \<and>
     aware_opt (a_next_action_at a) \<and> a_outcome a \<in> attempt_outcomes \<and>
     (\<forall>code. a_safe_error_code a = Some code \<longrightarrow> match_error_code code) \<and> 1 \<le> a_version a"

lemma valid_attempt_iff: "valid_attempt a \<longleftrightarrow> attempt_identity_ok a \<and> attempt_progress_ok a"
  by (auto simp: valid_attempt_def attempt_post_init_def attempt_identity_ok_def attempt_progress_ok_def
      first_error_None attempt_progress_guards_def split: option.splits)

text \<open>The identity of a case and of an attempt: what every transition must leave alone.\<close>

definition same_case :: "dispatch_case \<Rightarrow> dispatch_case \<Rightarrow> bool" where
  "same_case c d \<longleftrightarrow>
     d = c\<lparr>c_status := c_status d, c_updated_at := c_updated_at d, c_next_attempt_at := c_next_attempt_at d,
           c_attempt_count := c_attempt_count d, c_final_outcome := c_final_outcome d,
           c_closed_at := c_closed_at d, c_version := c_version d\<rparr>"

definition same_attempt :: "call_attempt \<Rightarrow> call_attempt \<Rightarrow> bool" where
  "same_attempt a b \<longleftrightarrow>
     b = a\<lparr>a_provider_call_reference := a_provider_call_reference b, a_status := a_status b,
           a_updated_at := a_updated_at b, a_outcome := a_outcome b, a_initiated_at := a_initiated_at b,
           a_answered_at := a_answered_at b, a_completed_at := a_completed_at b,
           a_next_action_at := a_next_action_at b, a_safe_error_code := a_safe_error_code b,
           a_version := a_version b\<rparr>"

lemma same_case_identity_ok: "same_case c d \<Longrightarrow> case_identity_ok d = case_identity_ok c"
  unfolding same_case_def case_identity_ok_def case_identity_guards_def
  by (cases c; cases d) simp

lemma same_attempt_identity_ok: "same_attempt a b \<Longrightarrow> attempt_identity_ok b = attempt_identity_ok a"
  unfolding same_attempt_def attempt_identity_ok_def attempt_identity_guards_def
  by (cases a; cases b) simp

lemma same_case_fields:
  assumes "same_case c d"
  shows "c_case_id d = c_case_id c" "c_tenant_id d = c_tenant_id c"
    "c_primary_contact_id d = c_primary_contact_id c" "c_supervisor_contact_id d = c_supervisor_contact_id c"
    "c_authorization_fingerprint d = c_authorization_fingerprint c"
    "c_broad_location_label d = c_broad_location_label c"
  using assms unfolding same_case_def by (cases c; cases d; simp)+

lemma same_attempt_fields:
  assumes "same_attempt a b"
  shows "a_attempt_id b = a_attempt_id a" "a_case_id b = a_case_id a" "a_tenant_id b = a_tenant_id a"
    "a_sequence b = a_sequence a" "a_target_role b = a_target_role a" "a_contact_id b = a_contact_id a"
    "a_callback_token b = a_callback_token a"
  using assms unfolding same_attempt_def by (cases a; cases b; simp)+

lemma same_case_refl [simp]: "same_case c c"
  by (simp add: same_case_def)

lemma same_attempt_refl [simp]: "same_attempt a a"
  by (simp add: same_attempt_def)

lemma same_case_trans: "same_case c d \<Longrightarrow> same_case d e \<Longrightarrow> same_case c e"
  unfolding same_case_def by (cases c; cases d; cases e) simp

end
