(* ===== verification/Dispatch_Repository.thy ===== *)
theory Dispatch_Repository
  imports Dispatch_Models
begin

text \<open>
  The dispatch repository (\<open>src/data/dispatch/repository.py\<close>, \<open>InMemoryDispatchRepository\<close>): one
  record field per dict of the class, one definition per method. Each method runs under the
  repository lock, so it is one atomic state transformer; it returns its result next to the
  repository also when it raises. A missing dict key is the \<open>KeyError\<close> Python raises. SHA-256 of
  the UTF-8 encoding is the parameter \<open>sha\<close>.
\<close>

section \<open>State\<close>

datatype submission_state = S_PENDING | S_CLAIMED | S_SUBMITTED | S_UNCERTAIN

datatype submission_outcome = O_SUBMITTED | O_RETRYABLE_FAILURE | O_UNCERTAIN

record provider_submission =
  s_state :: submission_state
  s_owner_hash :: "string option"
  s_claimed_at :: "datetime option"
  s_deadline :: "datetime option"
  s_completed_at :: "datetime option"

definition fresh_submission :: provider_submission where
  "fresh_submission = \<lparr>s_state = S_PENDING, s_owner_hash = None, s_claimed_at = None,
     s_deadline = None, s_completed_at = None\<rparr>"

type_synonym key2 = "string \<times> string"

record repository =
  rp_cases :: "key2 \<rightharpoonup> dispatch_case"
  rp_idempotency :: "key2 \<rightharpoonup> string"
  rp_attempts :: "key2 \<rightharpoonup> call_attempt"
  rp_attempt_ids :: "key2 \<rightharpoonup> string list"
  rp_callback :: "string \<rightharpoonup> key2"
  rp_submissions :: "key2 \<rightharpoonup> provider_submission"
  rp_events :: "key2 \<rightharpoonup> dispatch_event list"
  rp_dedupe :: "key2 set"

definition empty_repository :: repository where
  "empty_repository = \<lparr>rp_cases = Map.empty, rp_idempotency = Map.empty, rp_attempts = Map.empty,
     rp_attempt_ids = Map.empty, rp_callback = Map.empty, rp_submissions = Map.empty,
     rp_events = Map.empty, rp_dedupe = {}\<rparr>"

type_synonym 'a repo_op = "repository \<Rightarrow> (exn, 'a, repository) outcome"

abbreviation not_found :: exn where
  "not_found \<equiv> Raised DispatchResourceNotFound"

abbreviation repository_conflict :: exn where
  "repository_conflict \<equiv> state_conflict ''dispatch_repository_conflict''"

abbreviation default_conflict :: exn where
  "default_conflict \<equiv> state_conflict ''dispatch_state_conflict''"

text \<open>\<open>compare_digest\<close> on two strings raises \<open>TypeError\<close> unless both are ASCII.\<close>

definition is_ascii :: "string \<Rightarrow> bool" where
  "is_ascii s = list_all is_ascii_char s"

definition compare_digest :: "string \<Rightarrow> string \<Rightarrow> exn + bool" where
  "compare_digest a b =
     (if is_ascii a \<and> is_ascii b then Inr (a = b) else Inl (OtherError ''TypeError''))"

section \<open>Shared checks\<close>

definition validate_event :: "dispatch_event \<Rightarrow> dispatch_case \<Rightarrow> call_attempt option \<Rightarrow> exn option" where
  "validate_event event c attempt =
     (if e_tenant_id event \<noteq> c_tenant_id c \<or> e_case_id event \<noteq> c_case_id c then Some default_conflict
      else (case attempt of
          None \<Rightarrow> if e_attempt_id event \<noteq> None then Some default_conflict else None
        | Some a \<Rightarrow> if e_attempt_id event \<noteq> Some (a_attempt_id a) \<or> a_tenant_id a \<noteq> c_tenant_id c \<or>
              a_case_id a \<noteq> c_case_id c then Some default_conflict else None))"

definition validate_submission_outcome ::
  "submission_outcome \<Rightarrow> dispatch_case \<Rightarrow> call_attempt \<Rightarrow> exn option" where
  "validate_submission_outcome outcome c a =
     (let valid =
        (outcome = O_SUBMITTED \<and> a_status a = A_INITIATED \<and>
           a_provider_call_reference a \<notin> {None, Some []} \<and> c_status c = D_DIALING \<and> c_next_attempt_at c = None) \<or>
        (outcome = O_RETRYABLE_FAILURE \<and> a_status a = A_PROVIDER_RETRY \<and>
           a_provider_call_reference a = None \<and> c_status c = D_PROVIDER_RETRY) \<or>
        (outcome = O_UNCERTAIN \<and> a_status a = A_MANUAL_FOLLOW_UP \<and> c_status c = D_MANUAL_FOLLOW_UP)
      in if valid then None else Some (state_conflict ''dispatch_submission_transition_invalid''))"

definition provider_reference_matches :: "(string \<Rightarrow> string) \<Rightarrow> string \<Rightarrow> string \<Rightarrow> exn + bool" where
  "provider_reference_matches sha stored incoming =
     (if prefix ''sha256:'' stored
      then (let expected = remove_prefix ''sha256:'' stored in
            if length expected = 64 then compare_digest expected (sha incoming) else Inr False)
      else compare_digest stored incoming)"

definition append_event_locked :: "dispatch_event \<Rightarrow> unit repo_op" where
  "append_event_locked event r =
     and_then (fetch (rp_events r) (e_tenant_id event, e_case_id event) key_error r) (\<lambda>es r.
     (Inr (), r\<lparr>rp_events := (rp_events r)((e_tenant_id event, e_case_id event) \<mapsto> es @ [event]),
                rp_dedupe := insert (e_tenant_id event, e_deduplication_key event) (rp_dedupe r)\<rparr>))"

fun attempts_at :: "repository \<Rightarrow> string \<Rightarrow> string list \<Rightarrow> exn + call_attempt list" where
  "attempts_at r tenant_id [] = Inr []"
| "attempts_at r tenant_id (i # ids) =
     (case rp_attempts r (tenant_id, i) of None \<Rightarrow> Inl key_error | Some a \<Rightarrow>
      (case attempts_at r tenant_id ids of Inl e \<Rightarrow> Inl e | Inr as \<Rightarrow> Inr (a # as)))"

section \<open>Reading\<close>

definition find_case_by_idempotency :: "string \<Rightarrow> string \<Rightarrow> dispatch_case option repo_op" where
  "find_case_by_idempotency tenant_id idempotency_key r =
     (case rp_idempotency r (tenant_id, idempotency_key) of
        None \<Rightarrow> (Inr None, r)
      | Some case_id \<Rightarrow> and_then (fetch (rp_cases r) (tenant_id, case_id) key_error r) (\<lambda>c r. (Inr (Some c), r)))"

definition get_case :: "string \<Rightarrow> string \<Rightarrow> dispatch_case repo_op" where
  "get_case tenant_id case_id r = fetch (rp_cases r) (tenant_id, case_id) not_found r"

definition list_attempts :: "string \<Rightarrow> string \<Rightarrow> call_attempt list repo_op" where
  "list_attempts tenant_id case_id r =
     and_then (raise_if (rp_cases r (tenant_id, case_id) = None) not_found r) (\<lambda>_ r.
     and_then (fetch (rp_attempt_ids r) (tenant_id, case_id) key_error r) (\<lambda>ids r.
     lift (attempts_at r tenant_id ids) r))"

definition list_events :: "string \<Rightarrow> string \<Rightarrow> dispatch_event list repo_op" where
  "list_events tenant_id case_id r =
     and_then (raise_if (rp_cases r (tenant_id, case_id) = None) not_found r) (\<lambda>_ r.
     fetch (rp_events r) (tenant_id, case_id) key_error r)"

definition resolve_callback :: "string \<Rightarrow> (dispatch_case \<times> call_attempt) repo_op" where
  "resolve_callback callback_token r =
     and_then (fetch (rp_callback r) callback_token not_found r) (\<lambda>mapping r.
     and_then (fetch (rp_attempts r) mapping key_error r) (\<lambda>attempt r.
     and_then (fetch (rp_cases r) (fst mapping, a_case_id attempt) key_error r) (\<lambda>c r.
     (Inr (c, attempt), r))))"

section \<open>Creating a case and reserving an attempt\<close>

definition create_case :: "dispatch_case \<Rightarrow> string \<Rightarrow> dispatch_event \<Rightarrow> (dispatch_case \<times> bool) repo_op" where
  "create_case c idempotency_key event r =
     (let scope = (c_tenant_id c, idempotency_key); case_key = (c_tenant_id c, c_case_id c) in
      case rp_idempotency r scope of
        Some existing_id \<Rightarrow>
          and_then (fetch (rp_cases r) (c_tenant_id c, existing_id) key_error r) (\<lambda>existing r. (Inr (existing, False), r))
      | None \<Rightarrow>
          and_then (raise_if (rp_cases r case_key \<noteq> None) repository_conflict r) (\<lambda>_ r.
          and_then (raise_opt (validate_event event c None) r) (\<lambda>_ r.
          (Inr (c, True),
           r\<lparr>rp_cases := (rp_cases r)(case_key \<mapsto> c),
             rp_idempotency := (rp_idempotency r)(scope \<mapsto> c_case_id c),
             rp_attempt_ids := (rp_attempt_ids r)(case_key \<mapsto> []),
             rp_events := (rp_events r)(case_key \<mapsto> [event]),
             rp_dedupe := insert (c_tenant_id c, e_deduplication_key event) (rp_dedupe r)\<rparr>))))"

record attempt_reservation =
  rv_case :: dispatch_case
  rv_attempt :: call_attempt
  rv_created :: bool

definition reserved_attempt ::
  "dispatch_case \<Rightarrow> int \<Rightarrow> string \<Rightarrow> string \<Rightarrow> datetime \<Rightarrow> call_attempt" where
  "reserved_attempt c sequence attempt_id callback_token now =
     \<lparr>a_attempt_id = attempt_id, a_case_id = c_case_id c, a_tenant_id = c_tenant_id c, a_sequence = sequence,
      a_target_role = role_for_sequence sequence,
      a_contact_id = (if role_for_sequence sequence = Role_PRIMARY then c_primary_contact_id c
                      else c_supervisor_contact_id c),
      a_callback_token = callback_token, a_provider_call_reference = None, a_status = A_RESERVED,
      a_created_at = now, a_updated_at = now, a_outcome = None, a_initiated_at = None, a_answered_at = None,
      a_completed_at = None, a_next_action_at = None, a_safe_error_code = None, a_version = 1\<rparr>"

definition reserve_next_attempt ::
  "string \<Rightarrow> string \<Rightarrow> string \<Rightarrow> string \<Rightarrow> datetime \<Rightarrow> dispatch_event \<Rightarrow> attempt_reservation repo_op" where
  "reserve_next_attempt tenant_id case_id attempt_id callback_token at event r =
     and_then (lift (require_utc at ''attempt reservation time'') r) (\<lambda>now r.
     and_then (fetch (rp_cases r) (tenant_id, case_id) not_found r) (\<lambda>c r.
     and_then (fetch (rp_attempt_ids r) (tenant_id, case_id) key_error r) (\<lambda>ids r.
     and_then (lift (attempts_at r tenant_id ids) r) (\<lambda>attempts r.
     let active = filter (\<lambda>a. \<not> terminal_attempt (a_status a)) attempts in
     if active \<noteq> [] then (Inr \<lparr>rv_case = c, rv_attempt = last active, rv_created = False\<rparr>, r)
     else
     and_then (raise_if (terminal_dispatch (c_status c)) (state_conflict ''dispatch_case_terminal'') r) (\<lambda>_ r.
     and_then (raise_if (case c_next_attempt_at c of None \<Rightarrow> False | Some due \<Rightarrow> dt_less now due)
                 (Raised DispatchRetryNotDue) r) (\<lambda>_ r.
     let sequence = int (length attempts) + 1 in
     and_then (raise_if (sequence > 3) (state_conflict ''dispatch_attempt_limit_reached'') r) (\<lambda>_ r.
     and_then (lift (new_attempt (reserved_attempt c sequence attempt_id callback_token now)) r) (\<lambda>attempt r.
     and_then (raise_if (rp_attempts r (tenant_id, attempt_id) \<noteq> None \<or> rp_callback r callback_token \<noteq> None)
                 repository_conflict r) (\<lambda>_ r.
     and_then (lift (new_case (c\<lparr>c_status := D_DIALING, c_next_attempt_at := None, c_attempt_count := sequence,
                 c_updated_at := now, c_version := c_version c + 1\<rparr>)) r) (\<lambda>updated_case r.
     and_then (raise_opt (validate_event event updated_case (Some attempt)) r) (\<lambda>_ r.
     and_then (append_event_locked event
        (r\<lparr>rp_cases := (rp_cases r)((tenant_id, case_id) \<mapsto> updated_case),
           rp_attempts := (rp_attempts r)((tenant_id, attempt_id) \<mapsto> attempt),
           rp_submissions := (rp_submissions r)((tenant_id, attempt_id) \<mapsto> fresh_submission),
           rp_attempt_ids := (rp_attempt_ids r)((tenant_id, case_id) \<mapsto> ids @ [attempt_id]),
           rp_callback := (rp_callback r)(callback_token \<mapsto> (tenant_id, attempt_id))\<rparr>)) (\<lambda>_ r.
     (Inr \<lparr>rv_case = updated_case, rv_attempt = attempt, rv_created = True\<rparr>, r)))))))))))))"

section \<open>The one external side effect: claiming, binding, finishing and expiring a submission\<close>

record submission_claim =
  cl_case :: dispatch_case
  cl_attempt :: call_attempt
  cl_acquired :: bool
  cl_stale :: bool
  cl_retry_at :: "datetime option"

definition claim_denied :: "dispatch_case \<Rightarrow> call_attempt \<Rightarrow> submission_claim" where
  "claim_denied c a = \<lparr>cl_case = c, cl_attempt = a, cl_acquired = False, cl_stale = False, cl_retry_at = None\<rparr>"

definition claim_provider_submission ::
  "(string \<Rightarrow> string) \<Rightarrow> string \<Rightarrow> string \<Rightarrow> string \<Rightarrow> string \<Rightarrow> datetime \<Rightarrow> datetime \<Rightarrow> submission_claim repo_op" where
  "claim_provider_submission sha tenant_id case_id attempt_id claim_token at deadline r =
     and_then (lift (require_utc at ''provider submission claim time'') r) (\<lambda>now r.
     and_then (lift (require_utc deadline ''provider submission claim deadline'') r) (\<lambda>expires r.
     and_then (raise_if (dt_le expires now \<or> claim_token = [])
                 (state_conflict ''dispatch_submission_claim_invalid'') r) (\<lambda>_ r.
     and_then (fetch (rp_cases r) (tenant_id, case_id) not_found r) (\<lambda>c r.
     and_then (fetch (rp_attempts r) (tenant_id, attempt_id) not_found r) (\<lambda>attempt r.
     and_then (fetch (rp_submissions r) (tenant_id, attempt_id) not_found r) (\<lambda>submission r.
     and_then (raise_if (a_case_id attempt \<noteq> case_id) default_conflict r) (\<lambda>_ r.
     if terminal_dispatch (c_status c) then (Inr (claim_denied c attempt), r)
     else if s_state submission = S_CLAIMED then
       (Inr ((claim_denied c attempt)\<lparr>
               cl_stale := (case s_deadline submission of None \<Rightarrow> False | Some d \<Rightarrow> dt_le d now),
               cl_retry_at := s_deadline submission\<rparr>), r)
     else if s_state submission \<in> {S_SUBMITTED, S_UNCERTAIN} then (Inr (claim_denied c attempt), r)
     else
     and_then (raise_if (case c_next_attempt_at c of None \<Rightarrow> False | Some due \<Rightarrow> dt_less now due)
                 (Raised DispatchRetryNotDue) r) (\<lambda>_ r.
     if a_status attempt \<notin> {A_RESERVED, A_PROVIDER_RETRY} then (Inr (claim_denied c attempt), r)
     else
     and_then (lift (new_case (c\<lparr>c_next_attempt_at := Some expires, c_updated_at := now,
                 c_version := c_version c + 1\<rparr>)) r) (\<lambda>claimed_case r.
     and_then (lift (new_attempt (attempt\<lparr>a_updated_at := now, a_version := a_version attempt + 1\<rparr>)) r) (\<lambda>claimed_attempt r.
     (Inr \<lparr>cl_case = claimed_case, cl_attempt = claimed_attempt, cl_acquired = True, cl_stale = False,
           cl_retry_at = Some expires\<rparr>,
      r\<lparr>rp_cases := (rp_cases r)((tenant_id, case_id) \<mapsto> claimed_case),
        rp_attempts := (rp_attempts r)((tenant_id, attempt_id) \<mapsto> claimed_attempt),
        rp_submissions := (rp_submissions r)((tenant_id, attempt_id) \<mapsto>
          \<lparr>s_state = S_CLAIMED, s_owner_hash = Some (sha claim_token), s_claimed_at = Some now,
           s_deadline = Some expires, s_completed_at = None\<rparr>)\<rparr>)))))))))))"

definition versions_agree ::
  "dispatch_case \<Rightarrow> call_attempt \<Rightarrow> dispatch_case \<Rightarrow> call_attempt \<Rightarrow> int \<Rightarrow> int \<Rightarrow> bool" where
  "versions_agree current_case current_attempt c a expected_case_version expected_attempt_version \<longleftrightarrow>
     c_version current_case = expected_case_version \<and> a_version current_attempt = expected_attempt_version \<and>
     c_version c = expected_case_version + 1 \<and> a_version a = expected_attempt_version + 1"

definition owns_claim :: "(string \<Rightarrow> string) \<Rightarrow> provider_submission \<Rightarrow> string \<Rightarrow> exn + bool" where
  "owns_claim sha submission claim_token =
     (if s_state submission \<noteq> S_CLAIMED then Inr False
      else (case s_owner_hash submission of None \<Rightarrow> Inr False
            | Some owner \<Rightarrow> compare_digest owner (sha claim_token)))"

definition next_submission :: "submission_outcome \<Rightarrow> provider_submission \<Rightarrow> call_attempt \<Rightarrow> provider_submission" where
  "next_submission outcome submission attempt =
     (if outcome = O_RETRYABLE_FAILURE then fresh_submission
      else submission\<lparr>s_state := (if outcome = O_SUBMITTED then S_SUBMITTED else S_UNCERTAIN),
                      s_completed_at := Some (a_updated_at attempt)\<rparr>)"

definition finish_provider_submission ::
  "(string \<Rightarrow> string) \<Rightarrow> dispatch_case \<Rightarrow> call_attempt \<Rightarrow> dispatch_event \<Rightarrow> string \<Rightarrow> submission_outcome \<Rightarrow>
   int \<Rightarrow> int \<Rightarrow> bool repo_op" where
  "finish_provider_submission sha c attempt event claim_token outcome expected_case_version expected_attempt_version r =
     (let case_key = (c_tenant_id c, c_case_id c); attempt_key = (a_tenant_id attempt, a_attempt_id attempt) in
     and_then (fetch (rp_cases r) case_key not_found r) (\<lambda>current_case r.
     and_then (fetch (rp_attempts r) attempt_key not_found r) (\<lambda>current_attempt r.
     and_then (fetch (rp_submissions r) attempt_key not_found r) (\<lambda>submission r.
     if (c_tenant_id c, e_deduplication_key event) \<in> rp_dedupe r then (Inr False, r)
     else
     and_then (lift (owns_claim sha submission claim_token) r) (\<lambda>owned r.
     and_then (raise_if (\<not> owned \<or> \<not> versions_agree current_case current_attempt c attempt
                           expected_case_version expected_attempt_version) repository_conflict r) (\<lambda>_ r.
     and_then (raise_opt (validate_submission_outcome outcome c attempt) r) (\<lambda>_ r.
     and_then (raise_opt (validate_event event c (Some attempt)) r) (\<lambda>_ r.
     and_then (append_event_locked event
        (r\<lparr>rp_cases := (rp_cases r)(case_key \<mapsto> c),
           rp_attempts := (rp_attempts r)(attempt_key \<mapsto> attempt),
           rp_submissions := (rp_submissions r)(attempt_key \<mapsto> next_submission outcome submission attempt)\<rparr>)) (\<lambda>_ r.
     (Inr True, r))))))))))"

definition binding_time :: "datetime \<Rightarrow> provider_submission \<Rightarrow> datetime" where
  "binding_time now submission = dt_max now (case s_claimed_at submission of None \<Rightarrow> now | Some t \<Rightarrow> t)"

definition bind_provider_callback ::
  "(string \<Rightarrow> string) \<Rightarrow> string \<Rightarrow> string \<Rightarrow> datetime \<Rightarrow> dispatch_event \<Rightarrow> (dispatch_case \<times> call_attempt) repo_op" where
  "bind_provider_callback sha callback_token provider_call_reference at event r =
     and_then (lift (require_utc at ''provider callback binding time'') r) (\<lambda>now r.
     and_then (raise_if (provider_call_reference = []) (Raised WebhookCallMismatch) r) (\<lambda>_ r.
     and_then (fetch (rp_callback r) callback_token not_found r) (\<lambda>mapping r.
     and_then (fetch (rp_attempts r) mapping key_error r) (\<lambda>current_attempt r.
     let case_key = (fst mapping, a_case_id current_attempt) in
     and_then (fetch (rp_cases r) case_key key_error r) (\<lambda>current_case r.
     and_then (fetch (rp_submissions r) mapping key_error r) (\<lambda>submission r.
     case a_provider_call_reference current_attempt of
       Some stored_reference \<Rightarrow>
         and_then (lift (provider_reference_matches sha stored_reference provider_call_reference) r) (\<lambda>matches r.
         and_then (raise_if (\<not> matches) (Raised WebhookCallMismatch) r) (\<lambda>_ r.
         (Inr (current_case, current_attempt), r)))
     | None \<Rightarrow>
     and_then (raise_if (terminal_dispatch (c_status current_case) \<or> s_state submission \<noteq> S_CLAIMED)
                 (state_conflict ''dispatch_callback_binding_unavailable'') r) (\<lambda>_ r.
     and_then (raise_if ((fst mapping, e_deduplication_key event) \<in> rp_dedupe r) repository_conflict r) (\<lambda>_ r.
     let completed_at = binding_time now submission in
     and_then (lift (new_attempt (current_attempt\<lparr>a_provider_call_reference := Some provider_call_reference,
                 a_status := A_INITIATED,
                 a_initiated_at := (case a_initiated_at current_attempt of None \<Rightarrow> Some completed_at | Some t \<Rightarrow> Some t),
                 a_safe_error_code := None, a_updated_at := completed_at,
                 a_version := a_version current_attempt + 1\<rparr>)) r) (\<lambda>updated_attempt r.
     and_then (lift (new_case (current_case\<lparr>c_status := D_DIALING, c_next_attempt_at := None,
                 c_updated_at := completed_at, c_version := c_version current_case + 1\<rparr>)) r) (\<lambda>updated_case r.
     and_then (raise_opt (validate_submission_outcome O_SUBMITTED updated_case updated_attempt) r) (\<lambda>_ r.
     and_then (raise_opt (validate_event event updated_case (Some updated_attempt)) r) (\<lambda>_ r.
     and_then (append_event_locked event
        (r\<lparr>rp_cases := (rp_cases r)(case_key \<mapsto> updated_case),
           rp_attempts := (rp_attempts r)(mapping \<mapsto> updated_attempt),
           rp_submissions := (rp_submissions r)(mapping \<mapsto>
             submission\<lparr>s_state := S_SUBMITTED, s_completed_at := Some completed_at\<rparr>)\<rparr>)) (\<lambda>_ r.
     (Inr (updated_case, updated_attempt), r))))))))))))))"

definition expire_provider_submission ::
  "dispatch_case \<Rightarrow> call_attempt \<Rightarrow> dispatch_event \<Rightarrow> datetime \<Rightarrow> int \<Rightarrow> int \<Rightarrow> bool repo_op" where
  "expire_provider_submission c attempt event expired_at expected_case_version expected_attempt_version r =
     and_then (lift (require_utc expired_at ''provider submission expiry time'') r) (\<lambda>now r.
     let case_key = (c_tenant_id c, c_case_id c); attempt_key = (a_tenant_id attempt, a_attempt_id attempt) in
     and_then (fetch (rp_cases r) case_key not_found r) (\<lambda>current_case r.
     and_then (fetch (rp_attempts r) attempt_key not_found r) (\<lambda>current_attempt r.
     and_then (fetch (rp_submissions r) attempt_key not_found r) (\<lambda>submission r.
     if (c_tenant_id c, e_deduplication_key event) \<in> rp_dedupe r then (Inr False, r)
     else
     and_then (raise_if (s_state submission \<noteq> S_CLAIMED \<or>
                  (case s_deadline submission of None \<Rightarrow> True | Some d \<Rightarrow> dt_less now d) \<or>
                  \<not> versions_agree current_case current_attempt c attempt
                      expected_case_version expected_attempt_version) repository_conflict r) (\<lambda>_ r.
     and_then (raise_opt (validate_submission_outcome O_UNCERTAIN c attempt) r) (\<lambda>_ r.
     and_then (raise_opt (validate_event event c (Some attempt)) r) (\<lambda>_ r.
     and_then (append_event_locked event
        (r\<lparr>rp_cases := (rp_cases r)(case_key \<mapsto> c),
           rp_attempts := (rp_attempts r)(attempt_key \<mapsto> attempt),
           rp_submissions := (rp_submissions r)(attempt_key \<mapsto>
             submission\<lparr>s_state := S_UNCERTAIN, s_completed_at := Some now\<rparr>)\<rparr>)) (\<lambda>_ r.
     (Inr True, r)))))))))"

section \<open>Transitions under optimistic concurrency\<close>

definition cancellation_in_flight ::
  "dispatch_event \<Rightarrow> provider_submission option \<Rightarrow> call_attempt \<Rightarrow> call_attempt \<Rightarrow> bool" where
  "cancellation_in_flight event submission current_attempt attempt \<longleftrightarrow>
     e_kind event = E_CANCELED \<and>
     (case submission of None \<Rightarrow> False | Some sub \<Rightarrow>
        s_state sub = S_CLAIMED \<or>
        (s_state sub = S_SUBMITTED \<and>
         a_provider_call_reference current_attempt \<noteq> a_provider_call_reference attempt))"

definition apply_transition ::
  "dispatch_case \<Rightarrow> call_attempt \<Rightarrow> dispatch_event \<Rightarrow> int \<Rightarrow> int \<Rightarrow> bool repo_op" where
  "apply_transition c attempt event expected_case_version expected_attempt_version r =
     (let case_key = (c_tenant_id c, c_case_id c); attempt_key = (a_tenant_id attempt, a_attempt_id attempt) in
     and_then (fetch (rp_cases r) case_key not_found r) (\<lambda>current_case r.
     and_then (fetch (rp_attempts r) attempt_key not_found r) (\<lambda>current_attempt r.
     if (c_tenant_id c, e_deduplication_key event) \<in> rp_dedupe r then (Inr False, r)
     else
     and_then (raise_if (\<not> versions_agree current_case current_attempt c attempt
                           expected_case_version expected_attempt_version) repository_conflict r) (\<lambda>_ r.
     and_then (raise_if (cancellation_in_flight event (rp_submissions r attempt_key) current_attempt attempt)
                 (state_conflict ''dispatch_submission_in_flight'') r) (\<lambda>_ r.
     and_then (raise_if (a_tenant_id attempt \<noteq> c_tenant_id c \<or> a_case_id attempt \<noteq> c_case_id c \<or>
                         a_case_id current_attempt \<noteq> c_case_id current_case) default_conflict r) (\<lambda>_ r.
     and_then (raise_opt (validate_event event c (Some attempt)) r) (\<lambda>_ r.
     and_then (append_event_locked event
        (r\<lparr>rp_cases := (rp_cases r)(case_key \<mapsto> c),
           rp_attempts := (rp_attempts r)(attempt_key \<mapsto> attempt)\<rparr>)) (\<lambda>_ r.
     (Inr True, r)))))))))"

definition apply_case_transition :: "dispatch_case \<Rightarrow> dispatch_event \<Rightarrow> int \<Rightarrow> bool repo_op" where
  "apply_case_transition c event expected_case_version r =
     (let case_key = (c_tenant_id c, c_case_id c) in
     and_then (fetch (rp_cases r) case_key not_found r) (\<lambda>current r.
     if (c_tenant_id c, e_deduplication_key event) \<in> rp_dedupe r then (Inr False, r)
     else
     and_then (raise_if (c_version current \<noteq> expected_case_version \<or> c_version c \<noteq> expected_case_version + 1)
                 repository_conflict r) (\<lambda>_ r.
     and_then (raise_opt (validate_event event c None) r) (\<lambda>_ r.
     and_then (append_event_locked event (r\<lparr>rp_cases := (rp_cases r)(case_key \<mapsto> c)\<rparr>)) (\<lambda>_ r.
     (Inr True, r))))))"

definition append_event :: "dispatch_event \<Rightarrow> bool repo_op" where
  "append_event event r =
     and_then (fetch (rp_cases r) (e_tenant_id event, e_case_id event) not_found r) (\<lambda>c r.
     if (e_tenant_id event, e_deduplication_key event) \<in> rp_dedupe r then (Inr False, r)
     else
     let attempt = (case e_attempt_id event of None \<Rightarrow> None | Some i \<Rightarrow> rp_attempts r (e_tenant_id event, i)) in
     and_then (raise_if (e_attempt_id event \<noteq> None \<and> attempt = None) not_found r) (\<lambda>_ r.
     and_then (raise_opt (validate_event event c attempt) r) (\<lambda>_ r.
     and_then (append_event_locked event r) (\<lambda>_ r. (Inr True, r)))))"

end
