(* ===== verification/Dispatch_Directory.thy ===== *)
theory Dispatch_Directory
  imports Dispatch_Models "HOL-Library.AList"
begin

text \<open>
  The response directory (\<open>src/data/dispatch/directory.py\<close>): the in-memory directory as the
  association list its dict is (insertion order, in-place update), resolution of the primary and
  the supervisor for a coverage target, and the interface the coordinator relies on as a locale.
\<close>

section \<open>The in-memory directory\<close>

type_synonym directory = "((string \<times> string) \<times> response_contact) list"

definition upsert :: "response_contact \<Rightarrow> directory \<Rightarrow> directory" where
  "upsert contact d = AList.update (k_tenant_id contact, k_contact_id contact) contact d"

definition directory_init :: "response_contact list \<Rightarrow> directory" where
  "directory_init contacts = fold upsert contacts []"

definition get_contact :: "directory \<Rightarrow> string \<Rightarrow> string \<Rightarrow> exn + response_contact" where
  "get_contact d tenant_id contact_id =
     (case map_of d (tenant_id, contact_id) of
        None \<Rightarrow> Inl (Raised DispatchResourceNotFound) | Some contact \<Rightarrow> Inr contact)"

fun matching_contacts ::
  "tzdb \<Rightarrow> string \<Rightarrow> coverage_target \<Rightarrow> datetime \<Rightarrow> response_contact list \<Rightarrow> exn + response_contact list" where
  "matching_contacts tz tenant_id coverage when [] = Inr []"
| "matching_contacts tz tenant_id coverage when (contact # rest) =
     (let candidate = k_tenant_id contact = tenant_id \<and> k_zone_id contact = t_zone_id coverage \<and>
            (k_coverage_cells contact = {} \<or> t_cell_id coverage \<in> k_coverage_cells contact) in
      case (if candidate then is_available tz contact when else Inr False) of
        Inl e \<Rightarrow> Inl e
      | Inr keep \<Rightarrow>
          (case matching_contacts tz tenant_id coverage when rest of
             Inl e \<Rightarrow> Inl e
           | Inr ms \<Rightarrow> Inr (if keep then contact # ms else ms)))"

definition resolve :: "tzdb \<Rightarrow> directory \<Rightarrow> string \<Rightarrow> coverage_target \<Rightarrow> datetime \<Rightarrow> exn + resolved_contacts" where
  "resolve tz d tenant_id coverage at =
     (case require_utc at ''directory resolution time'' of Inl e \<Rightarrow> Inl e | Inr when \<Rightarrow>
      (case matching_contacts tz tenant_id coverage when (map snd d) of Inl e \<Rightarrow> Inl e | Inr matches \<Rightarrow>
      (let primary = filter (\<lambda>k. k_role k = Role_PRIMARY) matches;
           supervisor = filter (\<lambda>k. k_role k = Role_SUPERVISOR) matches in
       if length primary > 1 \<or> length supervisor > 1
       then Inl (Raised (DispatchContactUnavailable True False))
       else if length primary \<noteq> 1 \<or> length supervisor \<noteq> 1
       then Inl (Raised (DispatchContactUnavailable False False))
       else construct resolved_post_init \<lparr>r_primary = primary ! 0, r_supervisor = supervisor ! 0\<rparr>)))"

section \<open>Well-formedness\<close>

definition directory_inv :: "directory \<Rightarrow> bool" where
  "directory_inv d \<longleftrightarrow> distinct (map fst d) \<and>
     (\<forall>e \<in> set d. fst e = (k_tenant_id (snd e), k_contact_id (snd e)) \<and>
        match_identifier (k_contact_id (snd e)))"

lemma directory_inv_Nil [simp]: "directory_inv []"
  by (simp add: directory_inv_def)

lemma set_alist_update: "set (AList.update k v d) \<subseteq> insert (k, v) (set d)"
  by (induction d) auto

lemma upsert_inv:
  "directory_inv d \<Longrightarrow> match_identifier (k_contact_id k) \<Longrightarrow> directory_inv (upsert k d)"
  using set_alist_update [of "(k_tenant_id k, k_contact_id k)" k d]
  by (fastforce simp: directory_inv_def upsert_def intro: distinct_update)

lemma directory_init_inv:
  "\<forall>k \<in> set ks. match_identifier (k_contact_id k) \<Longrightarrow> directory_inv d \<Longrightarrow> directory_inv (fold upsert ks d)"
  by (induction ks arbitrary: d) (auto intro: upsert_inv)

lemma get_contact_upsert:
  "get_contact (upsert k d) t c =
     (if (t, c) = (k_tenant_id k, k_contact_id k) then Inr k else get_contact d t c)"
  by (auto simp: get_contact_def upsert_def update_conv')

lemma get_contact_Inr: "get_contact d t c = Inr k \<longleftrightarrow> map_of d (t, c) = Some k"
  by (auto simp: get_contact_def split: option.splits)

lemma get_contact_tenant:
  "directory_inv d \<Longrightarrow> get_contact d t c = Inr k \<Longrightarrow>
     k_tenant_id k = t \<and> k_contact_id k = c \<and> match_identifier c"
  by (fastforce simp: get_contact_Inr directory_inv_def dest: map_of_SomeD)

section \<open>Resolution\<close>

lemma matching_contacts_member:
  "matching_contacts tz t cov when ks = Inr ms \<Longrightarrow> k \<in> set ms \<Longrightarrow>
     k \<in> set ks \<and> k_tenant_id k = t \<and> k_zone_id k = t_zone_id cov \<and>
     (k_coverage_cells k = {} \<or> t_cell_id cov \<in> k_coverage_cells k) \<and> is_available tz k when = Inr True"
proof (induction ks arbitrary: ms)
  case Nil
  then show ?case by simp
next
  case (Cons x ks)
  then show ?case by (auto simp: Let_def split: sum.splits if_splits)
qed

lemma matching_contacts_complete:
  "matching_contacts tz t cov when ks = Inr ms \<Longrightarrow> k \<in> set ks \<Longrightarrow> k_tenant_id k = t \<Longrightarrow>
     k_zone_id k = t_zone_id cov \<Longrightarrow> k_coverage_cells k = {} \<or> t_cell_id cov \<in> k_coverage_cells k \<Longrightarrow>
     is_available tz k when = Inr True \<Longrightarrow> k \<in> set ms"
proof (induction ks arbitrary: ms)
  case Nil
  then show ?case by simp
next
  case (Cons x ks)
  then show ?case by (auto simp: Let_def split: sum.splits if_splits)
qed

lemma is_available_as_utc: "is_available tz k (as_utc at) = Inr b \<Longrightarrow> is_aware at \<Longrightarrow> is_available tz k at = Inr b"
  by (simp add: is_available_def require_utc_def)

lemma resolve_InrE:
  assumes "resolve tz d t cov at = Inr r"
  obtains ms where "is_aware at" and "matching_contacts tz t cov (as_utc at) (map snd d) = Inr ms"
    and "filter (\<lambda>k. k_role k = Role_PRIMARY) ms = [r_primary r]"
    and "filter (\<lambda>k. k_role k = Role_SUPERVISOR) ms = [r_supervisor r]"
    and "resolved_post_init r = None"
proof -
  from assms obtain ms where ms: "is_aware at" "matching_contacts tz t cov (as_utc at) (map snd d) = Inr ms"
    and len: "length (filter (\<lambda>k. k_role k = Role_PRIMARY) ms) = 1"
      "length (filter (\<lambda>k. k_role k = Role_SUPERVISOR) ms) = 1"
    and r: "construct resolved_post_init \<lparr>r_primary = filter (\<lambda>k. k_role k = Role_PRIMARY) ms ! 0,
      r_supervisor = filter (\<lambda>k. k_role k = Role_SUPERVISOR) ms ! 0\<rparr> = Inr r"
    by (auto simp: resolve_def require_utc_def Let_def split: sum.splits if_splits)
  from len obtain p s where "filter (\<lambda>k. k_role k = Role_PRIMARY) ms = [p]"
    "filter (\<lambda>k. k_role k = Role_SUPERVISOR) ms = [s]"
    by (auto simp: length_Suc_conv)
  with ms r that [of ms] show thesis by (auto simp: construct_Inr)
qed

lemma resolve_member:
  assumes "resolve tz d t cov at = Inr r" and "k \<in> {r_primary r, r_supervisor r}"
  shows "k \<in> snd ` set d \<and> k_tenant_id k = t \<and> k_zone_id k = t_zone_id cov \<and>
     (k_coverage_cells k = {} \<or> t_cell_id cov \<in> k_coverage_cells k) \<and> is_available tz k at = Inr True"
proof -
  from assms(1) obtain ms where ms: "is_aware at"
    "matching_contacts tz t cov (as_utc at) (map snd d) = Inr ms"
    "filter (\<lambda>k. k_role k = Role_PRIMARY) ms = [r_primary r]"
    "filter (\<lambda>k. k_role k = Role_SUPERVISOR) ms = [r_supervisor r]"
    by (rule resolve_InrE)
  have "k \<in> set (filter (\<lambda>k. k_role k = Role_PRIMARY) ms) \<union> set (filter (\<lambda>k. k_role k = Role_SUPERVISOR) ms)"
    unfolding ms using assms(2) by auto
  then have "k \<in> set ms" by auto
  from matching_contacts_member [OF ms(2) this] show ?thesis
    using is_available_as_utc [OF _ ms(1)] by auto
qed

lemma resolve_roles:
  assumes "resolve tz d t cov at = Inr r"
  shows "k_role (r_primary r) = Role_PRIMARY \<and> k_role (r_supervisor r) = Role_SUPERVISOR"
proof -
  from assms obtain ms where "resolved_post_init r = None" by (rule resolve_InrE)
  then show ?thesis by (simp add: resolved_post_init_def first_error_None)
qed

section \<open>The interface of a directory\<close>

text \<open>
  What the coordinator relies on: both resolved contacts are stored in the directory under the
  tenant, have the role they are resolved for and can be called at the time of resolution.
\<close>

locale contact_directory =
  fixes dir_resolve :: "'d \<Rightarrow> string \<Rightarrow> coverage_target \<Rightarrow> datetime \<Rightarrow> exn + resolved_contacts"
    and dir_get :: "'d \<Rightarrow> string \<Rightarrow> string \<Rightarrow> exn + response_contact"
    and available :: "response_contact \<Rightarrow> datetime \<Rightarrow> exn + bool"
    and dir_inv :: "'d \<Rightarrow> bool"
  assumes stored: "dir_inv d \<Longrightarrow> dir_resolve d t cov at = Inr r \<Longrightarrow> k \<in> {r_primary r, r_supervisor r} \<Longrightarrow>
      dir_get d t (k_contact_id k) = Inr k \<and> match_identifier (k_contact_id k) \<and> available k at = Inr True"
    and primary_role: "dir_resolve d t cov at = Inr r \<Longrightarrow> k_role (r_primary r) = Role_PRIMARY"
    and supervisor_role: "dir_resolve d t cov at = Inr r \<Longrightarrow> k_role (r_supervisor r) = Role_SUPERVISOR"
begin

lemma distinct_contacts:
  assumes "dir_inv d" and "dir_resolve d t cov at = Inr r"
  shows "k_contact_id (r_primary r) \<noteq> k_contact_id (r_supervisor r)"
proof
  assume eq: "k_contact_id (r_primary r) = k_contact_id (r_supervisor r)"
  have "dir_get d t (k_contact_id (r_primary r)) = Inr (r_primary r)"
    using stored [OF assms, of "r_primary r"] by blast
  moreover have "dir_get d t (k_contact_id (r_supervisor r)) = Inr (r_supervisor r)"
    using stored [OF assms, of "r_supervisor r"] by blast
  ultimately have "r_primary r = r_supervisor r"
    unfolding eq by (metis sum.inject(2))
  with primary_role [OF assms(2)] supervisor_role [OF assms(2)] show False by simp
qed

lemma contact_identifiers:
  assumes "dir_inv d" and "dir_resolve d t cov at = Inr r"
  shows "match_identifier (k_contact_id (r_primary r))" "match_identifier (k_contact_id (r_supervisor r))"
  using stored [OF assms] by blast+

end

interpretation mem_dir: contact_directory "resolve tz" get_contact "is_available tz" directory_inv for tz
proof unfold_locales
  fix d t cov at r k
  assume inv: "directory_inv d" and res: "resolve tz d t cov at = Inr r"
    and k: "k \<in> {r_primary r, r_supervisor r}"
  from resolve_member [OF res k] obtain e where e: "e \<in> set d" "k = snd e"
    and k': "k_tenant_id k = t" "is_available tz k at = Inr True" by auto
  from inv e(1) have "fst e = (k_tenant_id k, k_contact_id k)" and idk: "match_identifier (k_contact_id k)"
    by (auto simp: directory_inv_def e(2))
  with k' e have mem: "((t, k_contact_id k), k) \<in> set d" by (cases e) simp
  note idk
  moreover from inv mem have "map_of d (t, k_contact_id k) = Some k"
    by (simp add: directory_inv_def)
  ultimately show "get_contact d t (k_contact_id k) = Inr k \<and> match_identifier (k_contact_id k) \<and>
      is_available tz k at = Inr True"
    using k' by (simp add: get_contact_Inr)
qed (auto dest: resolve_roles)

end
