(* ===== verification/Dispatch_Voice.thy ===== *)
theory Dispatch_Voice
  imports Dispatch_Models
begin

text \<open>
  The voice boundary (\<open>src/data/dispatch/twilio.py\<close>): the call script and the outbound request
  with their validation, the mock provider as a state machine over its dicts, the SDK adapter
  over a client and a secret resolver that are parameters, webhook verification, and the
  contract of a provider as a locale that both providers interpret. The contract is the one the
  \<open>VoiceProvider\<close> protocol states: an ordinary \<open>DispatchError\<close> means that no call was submitted.
\<close>

section \<open>Scripts and requests\<close>

datatype twilio_mode = M_MOCK | M_SANDBOX | M_LIVE

record call_script =
  sc_case_reference :: string
  sc_category :: string
  sc_broad_location_label :: string
  sc_occurred_at :: datetime

definition match_safe_case_reference :: "string \<Rightarrow> bool" where
  [pattern_defs]: "match_safe_case_reference s =
     head_match (\<lambda>c. is_upper c \<or> is_digit c) (\<lambda>c. is_upper c \<or> is_digit c \<or> c = CHR ''-'') 0 31 s"

definition match_safe_label :: "string \<Rightarrow> bool" where
  [pattern_defs]: "match_safe_label s = head_match is_alnum label_char 0 79 s"

definition script_post_init :: "call_script \<Rightarrow> exn option" where
  "script_post_init s = first_error
     [(\<not> match_safe_case_reference (sc_case_reference s), validation_error ''dispatch_call_script_invalid''),
      bad_identifier (sc_category s),
      (\<not> match_safe_label (sc_broad_location_label s), validation_error ''dispatch_call_script_invalid''),
      bad_utc (sc_occurred_at s)]"

record call_request =
  rq_request_id :: string
  rq_destination_secret_ref :: string
  rq_callback_token :: string
  rq_attempt_number :: int
  rq_target_role :: contact_role
  rq_script :: call_script
  rq_ring_timeout_seconds :: int

definition request_post_init :: "call_request \<Rightarrow> exn option" where
  "request_post_init q = first_error
     [bad_identifier (rq_request_id q),
      (\<not> prefix ''secret://'' (rq_destination_secret_ref q), validation_error ''dispatch_call_request_invalid''),
      (\<not> match_callback_token (rq_callback_token q), validation_error ''dispatch_call_request_invalid''),
      (rq_attempt_number q \<notin> {1, 2, 3}, validation_error ''dispatch_call_request_invalid''),
      (rq_target_role q \<noteq> role_for_sequence (rq_attempt_number q), validation_error ''dispatch_call_request_invalid''),
      (\<not> (5 \<le> rq_ring_timeout_seconds q \<and> rq_ring_timeout_seconds q \<le> 60),
         validation_error ''dispatch_call_request_invalid'')]"

definition new_script :: "call_script \<Rightarrow> exn + call_script" where
  "new_script = construct script_post_init"

definition new_request :: "call_request \<Rightarrow> exn + call_request" where
  "new_request = construct request_post_init"

text \<open>An \<open>OutboundCallResult\<close> is its reference, which must not be empty.\<close>

definition new_result :: "string \<Rightarrow> exn + string" where
  "new_result reference =
     (if reference = [] then Inl (validation_error ''dispatch_provider_response_invalid'') else Inr reference)"

section \<open>The mock provider\<close>

record mock_provider =
  mp_failures_remaining :: int
  mp_invocations :: int
  mp_results :: "string \<rightharpoonup> string"
  mp_requests :: "call_request list"
  mp_canceled :: "string set"

definition mock_init :: "int \<Rightarrow> mock_provider" where
  "mock_init failures_before_success = \<lparr>mp_failures_remaining = max 0 failures_before_success,
     mp_invocations = 0, mp_results = Map.empty, mp_requests = [], mp_canceled = {}\<rparr>"

definition reference_for_request :: "string \<Rightarrow> exn + string" where
  "reference_for_request request_id =
     (case require_identifier request_id ''request_id'' of Inl e \<Rightarrow> Inl e | Inr i \<Rightarrow> Inr (''mock-call-'' @ i))"

definition mock_place_call :: "call_request \<Rightarrow> mock_provider \<Rightarrow> (exn, string, mock_provider) outcome" where
  "mock_place_call request m =
     (let m = m\<lparr>mp_invocations := mp_invocations m + 1\<rparr> in
      case mp_results m (rq_request_id request) of
        Some existing \<Rightarrow> (Inr existing, m)
      | None \<Rightarrow>
          if mp_failures_remaining m \<noteq> 0
          then (Inl (Raised (VoiceProviderUnavailable ''voice_provider_mock_failure'')),
                m\<lparr>mp_failures_remaining := mp_failures_remaining m - 1\<rparr>)
          else
            and_then (lift (reference_for_request (rq_request_id request)) m) (\<lambda>reference m.
            and_then (lift (new_result reference) m) (\<lambda>result m.
            (Inr result, m\<lparr>mp_results := (mp_results m)(rq_request_id request \<mapsto> result),
                           mp_requests := mp_requests m @ [request]\<rparr>))))"

definition mock_cancel_call :: "string \<Rightarrow> mock_provider \<Rightarrow> (exn, unit, mock_provider) outcome" where
  "mock_cancel_call reference m =
     (if reference \<noteq> [] then (Inr (), m\<lparr>mp_canceled := insert reference (mp_canceled m)\<rparr>) else (Inr (), m))"

section \<open>The SDK adapter\<close>

text \<open>
  The Twilio client is outside the repository: \<open>client_create\<close> and \<open>client_complete\<close> are
  parameters over its state, as is the secret store behind \<open>resolve_secret\<close>. The adapter state
  records the destinations for which \<open>calls.create\<close> was started.
\<close>

record outbound_call =
  oc_request_id :: string
  oc_to :: string
  oc_from :: string
  oc_token :: string
  oc_timeout :: int

record 'c sdk_config =
  sdk_sha :: "string \<Rightarrow> string"
  sdk_enabled :: bool
  sdk_approved :: "string set"
  sdk_from_ref :: string
  sdk_resolve_secret :: "string \<Rightarrow> exn + string"
  sdk_create :: "outbound_call \<Rightarrow> 'c \<Rightarrow> (exn, string, 'c) outcome"
  sdk_complete :: "string \<Rightarrow> 'c \<Rightarrow> (exn, unit, 'c) outcome"

record 'c sdk_state =
  sdk_client :: 'c
  sdk_started :: "outbound_call list"

definition match_e164 :: "string \<Rightarrow> bool" where
  [pattern_defs]: "match_e164 s \<longleftrightarrow> prefix ''+'' s \<and>
     head_match (\<lambda>c. is_digit c \<and> c \<noteq> CHR ''0'') is_digit 7 14 (remove_prefix ''+'' s)"

definition sdk_post_init :: "'c sdk_config \<Rightarrow> exn option" where
  "sdk_post_init cfg = first_error
     [(\<not> prefix ''secret://'' (sdk_from_ref cfg), Raised (DispatchConfigurationError ''dispatch_configuration_invalid'')),
      (\<exists>h \<in> sdk_approved cfg. \<not> hex64 h, Raised (DispatchConfigurationError ''twilio_destination_allowlist_invalid'')),
      (sdk_enabled cfg \<and> sdk_approved cfg = {}, Raised (DispatchConfigurationError ''twilio_destination_allowlist_empty''))]"

definition resolve_number :: "'c sdk_config \<Rightarrow> string \<Rightarrow> exn + string" where
  "resolve_number cfg reference =
     (case sdk_resolve_secret cfg reference of
        Inl e \<Rightarrow> Inl (Raised (DispatchConfigurationError ''twilio_phone_secret_unavailable''))
      | Inr v \<Rightarrow> if \<not> match_e164 v then Inl (Raised (DispatchConfigurationError ''twilio_phone_secret_invalid''))
                else Inr v)"

text \<open>The guarded part: once \<open>calls.create\<close> has started, every failure is an uncertain submission.\<close>

definition sdk_submit :: "'c sdk_config \<Rightarrow> outbound_call \<Rightarrow> 'c sdk_state \<Rightarrow> (exn, string, 'c sdk_state) outcome" where
  "sdk_submit cfg call st =
     (case sdk_create cfg call (sdk_client st) of
       (Inl e, c) \<Rightarrow> (Inl (Raised VoiceSubmissionUncertain), \<lparr>sdk_client = c, sdk_started = sdk_started st @ [call]\<rparr>)
     | (Inr sid, c) \<Rightarrow>
         ((if sid = [] then Inl (Raised VoiceSubmissionUncertain) else Inr sid),
          \<lparr>sdk_client = c, sdk_started = sdk_started st @ [call]\<rparr>))"

definition sdk_place_call :: "'c sdk_config \<Rightarrow> call_request \<Rightarrow> 'c sdk_state \<Rightarrow> (exn, string, 'c sdk_state) outcome" where
  "sdk_place_call cfg request st =
     and_then (raise_if (\<not> sdk_enabled cfg) (Raised (DispatchConfigurationError ''twilio_live_calls_disabled'')) st) (\<lambda>_ st.
     and_then (lift (resolve_number cfg (rq_destination_secret_ref request)) st) (\<lambda>destination st.
     and_then (raise_if (sdk_sha cfg destination \<notin> sdk_approved cfg)
                 (Raised (DispatchConfigurationError ''twilio_destination_not_approved'')) st) (\<lambda>_ st.
     and_then (lift (resolve_number cfg (sdk_from_ref cfg)) st) (\<lambda>origin st.
     let call = \<lparr>oc_request_id = rq_request_id request, oc_to = destination, oc_from = origin,
                 oc_token = rq_callback_token request, oc_timeout = rq_ring_timeout_seconds request\<rparr> in
     sdk_submit cfg call st))))"

definition sdk_cancel_call :: "'c sdk_config \<Rightarrow> string \<Rightarrow> 'c sdk_state \<Rightarrow> (exn, unit, 'c sdk_state) outcome" where
  "sdk_cancel_call cfg reference st =
     and_then (raise_if (\<not> sdk_enabled cfg) (Raised (DispatchConfigurationError ''twilio_live_calls_disabled'')) st) (\<lambda>_ st.
     case sdk_complete cfg reference (sdk_client st) of
       (Inl e, c) \<Rightarrow> (Inl (Raised (VoiceProviderUnavailable ''voice_provider_unavailable'')), st\<lparr>sdk_client := c\<rparr>)
     | (Inr u, c) \<Rightarrow> (Inr (), st\<lparr>sdk_client := c\<rparr>))"

section \<open>Webhook signatures\<close>

text \<open>The validator of the SDK is a parameter; it may raise, which verifies as false.\<close>

definition verify_signature :: "(string \<Rightarrow> (string \<times> string) list \<Rightarrow> string \<Rightarrow> exn + bool) \<Rightarrow>
    string \<Rightarrow> (string \<times> string) list \<Rightarrow> string \<Rightarrow> bool" where
  "verify_signature validate url form signature =
     (if signature = [] then False
      else (case validate url form signature of Inl e \<Rightarrow> False | Inr b \<Rightarrow> b))"

definition verify_or_raise :: "(string \<Rightarrow> (string \<times> string) list \<Rightarrow> string \<Rightarrow> exn + bool) \<Rightarrow>
    string \<Rightarrow> (string \<times> string) list \<Rightarrow> string \<Rightarrow> exn + unit" where
  "verify_or_raise validate url form signature =
     (if verify_signature validate url form signature then Inr () else Inl (Raised InvalidWebhookSignature))"

section \<open>The contract of a provider\<close>

fun no_call_submitted :: "exn \<Rightarrow> bool" where
  "no_call_submitted (Raised VoiceSubmissionUncertain) = False"
| "no_call_submitted (Raised e) = True"
| "no_call_submitted (OtherError m) = False"

lemma no_call_submitted_iff: "no_call_submitted x \<longleftrightarrow> (\<exists>e. x = Raised e \<and> e \<noteq> VoiceSubmissionUncertain)"
  by (cases x rule: no_call_submitted.cases) auto

text \<open>
  \<open>submitted\<close> lists the request ids for which a physical call may have been started. Placing a
  call starts at most one, for the id of the request; it starts none when it reports an ordinary
  \<open>DispatchError\<close>; the reference of a successful call is not empty; cancelling starts none.
\<close>

locale voice_provider =
  fixes place :: "call_request \<Rightarrow> 'p \<Rightarrow> (exn, string, 'p) outcome"
    and cancel :: "string \<Rightarrow> 'p \<Rightarrow> (exn, unit, 'p) outcome"
    and submitted :: "'p \<Rightarrow> string list"
    and prov_inv :: "'p \<Rightarrow> bool"
  assumes place_at_most_one: "place q p = (x, p') \<Longrightarrow> submitted p' \<in> {submitted p, submitted p @ [rq_request_id q]}"
    and place_certain_error: "place q p = (Inl e, p') \<Longrightarrow> no_call_submitted e \<Longrightarrow> submitted p' = submitted p"
    and place_reference: "prov_inv p \<Longrightarrow> place q p = (Inr ref, p') \<Longrightarrow> ref \<noteq> []"
    and cancel_submits_none: "cancel r p = (y, p') \<Longrightarrow> submitted p' = submitted p"
    and place_inv: "prov_inv p \<Longrightarrow> place q p = (x, p') \<Longrightarrow> prov_inv p'"
    and cancel_inv: "prov_inv p \<Longrightarrow> cancel r p = (y, p') \<Longrightarrow> prov_inv p'"
begin

lemma place_distinct:
  assumes "place q p = (x, p')" and "distinct (submitted p)" and "rq_request_id q \<notin> set (submitted p)"
  shows "distinct (submitted p')"
  using place_at_most_one [OF assms(1)] assms(2,3) by auto

lemma place_set: "place q p = (x, p') \<Longrightarrow> set (submitted p') \<subseteq> insert (rq_request_id q) (set (submitted p))"
  using place_at_most_one [of q p x p'] by auto

end

definition mock_submitted :: "mock_provider \<Rightarrow> string list" where
  "mock_submitted m = map rq_request_id (mp_requests m)"

definition mock_inv :: "mock_provider \<Rightarrow> bool" where
  "mock_inv m \<longleftrightarrow> (\<forall>i ref. mp_results m i = Some ref \<longrightarrow> ref = ''mock-call-'' @ i)"

lemma mock_init_inv: "mock_inv (mock_init n)"
  by (simp add: mock_inv_def mock_init_def)

text \<open>The four ways \<open>place_call\<close> of the mock ends.\<close>

lemma mock_place_cases:
  assumes "mock_place_call q m = (x, m')"
  obtains (known) ref where "mp_results m (rq_request_id q) = Some ref" "x = Inr ref"
      "mp_requests m' = mp_requests m" "mp_results m' = mp_results m"
  | (failed) e where "x = Inl e" "mp_requests m' = mp_requests m" "mp_results m' = mp_results m"
  | (placed) "x = Inr (''mock-call-'' @ rq_request_id q)" "mp_requests m' = mp_requests m @ [q]"
      "mp_results m' = (mp_results m)(rq_request_id q \<mapsto> ''mock-call-'' @ rq_request_id q)"
  using assms
  by (cases x)
    (auto simp: mock_place_call_def Let_def effect_simps reference_for_request_def require_identifier_def new_result_def
      split: option.splits if_splits)

interpretation mock: voice_provider mock_place_call mock_cancel_call mock_submitted mock_inv
proof unfold_locales
  fix q p x p' assume op: "mock_place_call q p = (x, p')"
  then show "mock_submitted p' \<in> {mock_submitted p, mock_submitted p @ [rq_request_id q]}"
    by (cases rule: mock_place_cases) (simp_all add: mock_submitted_def)
  show "mock_inv p'" if "mock_inv p"
    using op that by (cases rule: mock_place_cases) (simp_all add: mock_inv_def)
next
  fix q p e p' assume "mock_place_call q p = (Inl e, p')"
  then show "mock_submitted p' = mock_submitted p"
    by (cases rule: mock_place_cases) (simp_all add: mock_submitted_def)
next
  fix q p ref p' assume "mock_inv p" and "mock_place_call q p = (Inr ref, p')"
  from this(2,1) show "ref \<noteq> []"
    by (cases rule: mock_place_cases) (auto simp: mock_inv_def)
next
  fix r p y p' assume op: "mock_cancel_call r p = (y, p')"
  then show "mock_submitted p' = mock_submitted p"
    by (auto simp: mock_cancel_call_def mock_submitted_def split: if_splits)
  show "mock_inv p'" if "mock_inv p"
    using op that by (auto simp: mock_cancel_call_def mock_inv_def split: if_splits)
qed

definition sdk_submitted :: "'c sdk_state \<Rightarrow> string list" where
  "sdk_submitted st = map oc_request_id (sdk_started st)"

lemma sdk_submit_cases:
  assumes "sdk_submit cfg call st = (x, st')"
  shows "sdk_started st' = sdk_started st @ [call] \<and>
     (x = Inl (Raised VoiceSubmissionUncertain) \<or> (\<exists>sid. x = Inr sid \<and> sid \<noteq> []))"
  using assms by (auto simp: sdk_submit_def split: prod.splits sum.splits if_splits)

lemma sdk_place_cases:
  assumes "sdk_place_call cfg q st = (x, st')"
  obtains (refused) e where "x = Inl e" "sdk_submitted st' = sdk_submitted st"
  | (uncertain) "x = Inl (Raised VoiceSubmissionUncertain)" "sdk_submitted st' = sdk_submitted st @ [rq_request_id q]"
  | (placed) sid where "x = Inr sid" "sid \<noteq> []" "sdk_submitted st' = sdk_submitted st @ [rq_request_id q]"
  using assms
  by (cases x) (auto simp: sdk_place_call_def Let_def effect_simps sdk_submitted_def dest!: sdk_submit_cases)

interpretation sdk: voice_provider "sdk_place_call cfg" "sdk_cancel_call cfg" sdk_submitted "\<lambda>_. True"
  for cfg :: "'c sdk_config"
proof unfold_locales
  fix q and p p' :: "'c sdk_state" and x
  assume "sdk_place_call cfg q p = (x, p')"
  then show "sdk_submitted p' \<in> {sdk_submitted p, sdk_submitted p @ [rq_request_id q]}"
    by (cases rule: sdk_place_cases) simp_all
next
  fix q and p p' :: "'c sdk_state" and e
  assume "sdk_place_call cfg q p = (Inl e, p')" and "no_call_submitted e"
  then show "sdk_submitted p' = sdk_submitted p"
    by (cases rule: sdk_place_cases) simp_all
next
  fix q and p p' :: "'c sdk_state" and ref
  assume "sdk_place_call cfg q p = (Inr ref, p')"
  then show "ref \<noteq> []"
    by (cases rule: sdk_place_cases) simp_all
next
  fix r and p p' :: "'c sdk_state" and y
  assume "sdk_cancel_call cfg r p = (y, p')"
  then show "sdk_submitted p' = sdk_submitted p"
    by (cases y) (auto simp: sdk_cancel_call_def and_then_def raise_if_def sdk_submitted_def
        split: prod.splits sum.splits if_splits)
qed simp_all

end
