(* ===== verification/Py_Json.thy ===== *)
theory Py_Json
  imports Prelude "HOL-Library.List_Lexorder"
begin

text \<open>
  The part of Python's \<open>json\<close> module the code relies on: values, \<open>dumps\<close> with
  \<open>separators=(",", ":")\<close>, with and without \<open>sort_keys\<close>, and \<open>loads\<close>, a recursive descent
  parser with fuel. \<open>loads_dumps\<close> is the round trip the queue messages and the restricted
  payloads rest on. An object is the list of its members in document order (a dict keeps
  insertion order); a float is kept by its literal, \<open>NaN\<close> and the infinities included; an escape of a code point above 255 is
  outside the strings of the model and is rejected by \<open>loads\<close>.
\<close>

section \<open>Strings\<close>

definition hex_char :: "nat \<Rightarrow> char" where
  "hex_char n = (if n < 10 then char_of (48 + n) else char_of (87 + n))"

definition json_escape :: "char \<Rightarrow> string" where
  "json_escape c =
     (if c = CHR 0x22 then [CHR 0x5C, CHR 0x22]
      else if c = CHR 0x5C then [CHR 0x5C, CHR 0x5C]
      else if c = CHR 0x0A then [CHR 0x5C, CHR ''n'']
      else if c = CHR 0x0D then [CHR 0x5C, CHR ''r'']
      else if c = CHR 0x09 then [CHR 0x5C, CHR ''t'']
      else if c = CHR 0x0C then [CHR 0x5C, CHR ''f'']
      else if c = CHR 0x08 then [CHR 0x5C, CHR ''b'']
      else if is_printable c then [c]
      else [CHR 0x5C, CHR ''u'', CHR ''0'', CHR ''0'', hex_char (of_char c div 16), hex_char (of_char c mod 16)])"

lemma json_escape_code [code]:
  "json_escape c = (if is_printable c \<and> c \<noteq> CHR 0x22 \<and> c \<noteq> CHR 0x5C then [c]
     else if c = CHR 0x22 then [CHR 0x5C, CHR 0x22]
     else if c = CHR 0x5C then [CHR 0x5C, CHR 0x5C]
     else if c = CHR 0x0A then [CHR 0x5C, CHR ''n'']
     else if c = CHR 0x0D then [CHR 0x5C, CHR ''r'']
     else if c = CHR 0x09 then [CHR 0x5C, CHR ''t'']
     else if c = CHR 0x0C then [CHR 0x5C, CHR ''f'']
     else if c = CHR 0x08 then [CHR 0x5C, CHR ''b'']
     else [CHR 0x5C, CHR ''u'', CHR ''0'', CHR ''0'', hex_char (of_char c div 16), hex_char (of_char c mod 16)])"
  by (auto simp: json_escape_def is_printable_def)

definition json_string :: "string \<Rightarrow> string" where
  "json_string s = CHR 0x22 # concat (map json_escape s) @ [CHR 0x22]"

definition hex_value :: "char \<Rightarrow> nat option" where
  "hex_value c =
     (if is_digit c then Some (of_char c - 48)
      else if CHR ''a'' \<le> c \<and> c \<le> CHR ''f'' then Some (of_char c - 87)
      else if CHR ''A'' \<le> c \<and> c \<le> CHR ''F'' then Some (of_char c - 55)
      else None)"

definition unescape :: "char \<Rightarrow> char option" where
  "unescape e =
     (if e = CHR ''n'' then Some (CHR 0x0A) else if e = CHR ''r'' then Some (CHR 0x0D)
      else if e = CHR ''t'' then Some (CHR 0x09) else if e = CHR ''f'' then Some (CHR 0x0C)
      else if e = CHR ''b'' then Some (CHR 0x08)
      else if e \<in> {CHR 0x22, CHR 0x5C, CHR ''/''} then Some e else None)"

definition low_escape :: "char \<Rightarrow> char \<Rightarrow> char \<Rightarrow> char \<Rightarrow> char option" where
  "low_escape z y h l =
     (if z = CHR ''0'' \<and> y = CHR ''0'' then
        (case (hex_value h, hex_value l) of
           (Some a, Some b) \<Rightarrow> Some (char_of (16 * a + b))
         | _ \<Rightarrow> None)
      else None)"

text \<open>The rest of a string literal, after its opening quote: its characters and what follows it.\<close>

abbreviation push :: "char \<Rightarrow> (string \<times> string) option \<Rightarrow> (string \<times> string) option" where
  "push c \<equiv> map_option (\<lambda>(s, r). (c # s, r))"

fun json_read :: "string \<Rightarrow> (string \<times> string) option" where
  "json_read [] = None"
| "json_read (c # cs) =
     (if c = CHR 0x22 then Some ([], cs)
      else if c = CHR 0x5C then
        (case cs of
           [] \<Rightarrow> None
         | e # rest \<Rightarrow>
             if e = CHR ''u'' then
               (case rest of
                  z # y # h # l # rest2 \<Rightarrow>
                    (case low_escape z y h l of None \<Rightarrow> None | Some x \<Rightarrow> push x (json_read rest2))
                | _ \<Rightarrow> None)
             else (case unescape e of None \<Rightarrow> None | Some x \<Rightarrow> push x (json_read rest)))
      else if c < CHR '' '' then None
      else push c (json_read cs))"

lemma of_char_less: "(of_char (c::char) :: nat) < 256"
  by (metis mod_less_divisor of_char_mod_256 zero_less_numeral)

lemma low_escape_char:
  "low_escape (CHR ''0'') (CHR ''0'') (hex_char (of_char c div 16)) (hex_char (of_char c mod 16)) = Some c"
proof -
  have hex: "hex_value (hex_char n) = Some n" if "n < 16" for n
  proof -
    have "list_all (\<lambda>k. hex_value (hex_char k) = Some k) [0..<16]" by code_simp
    with that show ?thesis by (simp add: list_all_iff)
  qed
  have "(of_char c div 16 :: nat) < 16" using of_char_less [of c] by linarith
  moreover have "char_of (16 * (of_char c div 16) + of_char c mod 16 :: nat) = c"
    by (metis char_of_char mult_div_mod_eq)
  ultimately show ?thesis by (simp add: low_escape_def hex)
qed

lemma json_read_escape: "json_read (json_escape c @ cs) = push c (json_read cs)"
proof (cases "is_printable c \<and> c \<noteq> CHR 0x22 \<and> c \<noteq> CHR 0x5C")
  case True
  then have "json_escape c = [c]" "\<not> c < CHR '' ''"
    by (auto simp: json_escape_code is_printable_def)
  with True show ?thesis by simp
next
  case plain: False
  show ?thesis
  proof (cases "c \<in> {CHR 0x22, CHR 0x5C, CHR 0x0A, CHR 0x0D, CHR 0x09, CHR 0x0C, CHR 0x08}")
    case True
    then show ?thesis by (auto simp: json_escape_def unescape_def)
  next
    case False
    with plain have "json_escape c =
        [CHR 0x5C, CHR ''u'', CHR ''0'', CHR ''0'', hex_char (of_char c div 16), hex_char (of_char c mod 16)]"
      by (simp add: json_escape_def)
    then show ?thesis by (simp add: low_escape_char)
  qed
qed

lemma json_read_string: "json_read (concat (map json_escape s) @ CHR 0x22 # rest) = Some (s, rest)"
  by (induction s) (simp_all add: json_read_escape del: json_read.simps, simp)

lemma json_string_inj:
  assumes "json_string s @ u = json_string t @ v"
  shows "s = t \<and> u = v"
proof -
  from assms have "concat (map json_escape s) @ CHR 0x22 # u = concat (map json_escape t) @ CHR 0x22 # v"
    unfolding json_string_def by simp
  then have "Some (s, u) = Some (t, v)" unfolding json_read_string [symmetric] by (rule arg_cong)
  then show ?thesis by simp
qed

section \<open>Values and their text\<close>

datatype json =
    JNull
  | JBool bool
  | JInt int
  | JFloat string
  | JStr string
  | JArr "json list"
  | JObj "(string \<times> json) list"

fun dumps :: "json \<Rightarrow> string" where
  "dumps JNull = ''null''"
| "dumps (JBool b) = (if b then ''true'' else ''false'')"
| "dumps (JInt i) = py_str_int i"
| "dumps (JFloat t) = t"
| "dumps (JStr s) = json_string s"
| "dumps (JArr vs) = ''['' @ join '','' (map dumps vs) @ '']''"
| "dumps (JObj kvs) = ''{'' @ join '','' (map (\<lambda>(k, v). json_string k @ '':'' @ dumps v) kvs) @ ''}''"

text \<open>\<open>sort_keys=True\<close> sorts the members of every object by key.\<close>

fun sort_keys :: "json \<Rightarrow> json" where
  "sort_keys (JArr vs) = JArr (map sort_keys vs)"
| "sort_keys (JObj kvs) = JObj (sort_key fst (map (\<lambda>(k, v). (k, sort_keys v)) kvs))"
| "sort_keys v = v"

text \<open>A member lookup: a repeated key keeps its last value.\<close>

definition member :: "(string \<times> json) list \<Rightarrow> string \<Rightarrow> json option" where
  "member kvs k = map_of (rev kvs) k"

section \<open>Parsing\<close>

definition json_space :: "char \<Rightarrow> bool" where
  "json_space c \<longleftrightarrow> c \<in> {CHR '' '', CHR 0x09, CHR 0x0A, CHR 0x0D}"

definition skip_ws :: "string \<Rightarrow> string" where
  "skip_ws s = dropWhile json_space s"

definition int_of_digits :: "string \<Rightarrow> int" where
  "int_of_digits s = foldl (\<lambda>n c. 10 * n + int (of_char c - 48)) 0 s"

text \<open>The fraction and the exponent of a number: the text consumed and the rest.\<close>

definition fraction :: "string \<Rightarrow> string \<times> string" where
  "fraction s = (case s of
     c # r \<Rightarrow> if c = CHR ''.'' \<and> takeWhile is_digit r \<noteq> []
              then (c # takeWhile is_digit r, dropWhile is_digit r) else ([], s)
   | [] \<Rightarrow> ([], s))"

definition exponent :: "string \<Rightarrow> string \<times> string" where
  "exponent s = (case s of
     c # r \<Rightarrow> if c \<in> {CHR ''e'', CHR ''E''} then
         (let sign = (case r of d # _ \<Rightarrow> if d \<in> {CHR ''+'', CHR ''-''} then [d] else [] | [] \<Rightarrow> []);
              t = drop (length sign) r in
          if takeWhile is_digit t \<noteq> [] then (c # sign @ takeWhile is_digit t, dropWhile is_digit t) else ([], s))
       else ([], s)
   | [] \<Rightarrow> ([], s))"

definition digit_run :: "string \<Rightarrow> string" where
  "digit_run s = (if prefix ''0'' s then ''0'' else takeWhile is_digit s)"

definition parse_unsigned :: "bool \<Rightarrow> string \<Rightarrow> (json \<times> string) option" where
  "parse_unsigned neg t =
     (let ds = digit_run t; r = drop (length ds) t in
      if ds = [] then None
      else (case fraction r of (frac, r2) \<Rightarrow> case exponent r2 of (ex, r3) \<Rightarrow>
        if frac = [] \<and> ex = []
        then Some (JInt (if neg then - int_of_digits ds else int_of_digits ds), r)
        else Some (JFloat ((if neg then ''-'' else []) @ ds @ frac @ ex), r3)))"

definition parse_number :: "string \<Rightarrow> (json \<times> string) option" where
  "parse_number s = (if prefix ''-'' s then parse_unsigned True (tl s) else parse_unsigned False s)"

fun parse_value :: "nat \<Rightarrow> string \<Rightarrow> (json \<times> string) option"
  and parse_items :: "nat \<Rightarrow> string \<Rightarrow> (json list \<times> string) option"
  and parse_members :: "nat \<Rightarrow> string \<Rightarrow> ((string \<times> json) list \<times> string) option" where
  "parse_value 0 s = None"
| "parse_value (Suc n) s =
     (if prefix [CHR 0x22] s then map_option (\<lambda>(t, r). (JStr t, r)) (json_read (tl s))
      else if prefix ''{'' s then
        (let t = skip_ws (tl s) in
         if prefix ''}'' t then Some (JObj [], tl t)
         else map_option (\<lambda>(kvs, r). (JObj kvs, r)) (parse_members n t))
      else if prefix ''['' s then
        (let t = skip_ws (tl s) in
         if prefix '']'' t then Some (JArr [], tl t)
         else map_option (\<lambda>(vs, r). (JArr vs, r)) (parse_items n t))
      else if prefix ''null'' s then Some (JNull, drop 4 s)
      else if prefix ''true'' s then Some (JBool True, drop 4 s)
      else if prefix ''false'' s then Some (JBool False, drop 5 s)
      else if prefix ''NaN'' s then Some (JFloat ''NaN'', drop 3 s)
      else if prefix ''Infinity'' s then Some (JFloat ''Infinity'', drop 8 s)
      else if prefix ''-Infinity'' s then Some (JFloat ''-Infinity'', drop 9 s)
      else parse_number s)"
| "parse_items 0 s = None"
| "parse_items (Suc n) s =
     (case parse_value n s of
        None \<Rightarrow> None
      | Some (v, r) \<Rightarrow>
          (let t = skip_ws r in
           if prefix '','' t then map_option (\<lambda>(vs, r). (v # vs, r)) (parse_items n (skip_ws (tl t)))
           else if prefix '']'' t then Some ([v], tl t) else None))"
| "parse_members 0 s = None"
| "parse_members (Suc n) s =
     (if \<not> prefix [CHR 0x22] s then None
      else (case json_read (tl s) of
        None \<Rightarrow> None
      | Some (k, r) \<Rightarrow>
          (let t = skip_ws r in
           if \<not> prefix '':'' t then None
           else (case parse_value n (skip_ws (tl t)) of
             None \<Rightarrow> None
           | Some (v, r2) \<Rightarrow>
               (let u = skip_ws r2 in
                if prefix '','' u
                then map_option (\<lambda>(kvs, r). ((k, v) # kvs, r)) (parse_members n (skip_ws (tl u)))
                else if prefix ''}'' u then Some ([(k, v)], tl u) else None)))))"

text \<open>
  Every call consumes a character before the next one, two calls per item, so twice the length
  of the text is enough fuel.
\<close>

definition loads :: "string \<Rightarrow> json option" where
  "loads s =
     (case parse_value (Suc (2 * length s)) (skip_ws s) of
        None \<Rightarrow> None
      | Some (v, r) \<Rightarrow> if skip_ws r = [] then Some v else None)"

section \<open>The round trip\<close>

text \<open>Values whose floats are literals, not \<open>NaN\<close> or an infinity.\<close>

definition float_literal :: "string \<Rightarrow> bool" where
  "float_literal t \<longleftrightarrow> parse_number t = Some (JFloat t, [])"

fun plain :: "json \<Rightarrow> bool" where
  "plain (JFloat t) = float_literal t"
| "plain (JArr vs) = list_all plain vs"
| "plain (JObj kvs) = list_all (\<lambda>(k, v). plain v) kvs"
| "plain v = True"

definition number_end :: "string \<Rightarrow> bool" where
  "number_end r \<longleftrightarrow> (case r of [] \<Rightarrow> True | c # _ \<Rightarrow> \<not> is_digit c \<and> c \<notin> {CHR ''.'', CHR ''e'', CHR ''E''})"

lemma number_end_simps [simp]:
  "number_end []" "number_end (CHR '','' # r)" "number_end (CHR '']'' # r)" "number_end (CHR ''}'' # r)"
  by (simp_all add: number_end_def is_digit_def)

lemma digit_char: "n < 10 \<Longrightarrow> is_digit (char_of (48 + n))" "n < 10 \<Longrightarrow> (of_char (char_of (48 + n) :: char) :: nat) = 48 + n"
  for n :: nat
proof -
  assume "n < 10"
  have "list_all (\<lambda>k. is_digit (char_of (48 + k)) \<and> of_char (char_of (48 + k) :: char) = 48 + k) [0..<10]" by code_simp
  with \<open>n < 10\<close> show "is_digit (char_of (48 + n))" "(of_char (char_of (48 + n) :: char) :: nat) = 48 + n"
    by (simp_all add: list_all_iff)
qed

lemma digits_of_digits: "list_all is_digit (digits_of n)"
  by (induction n rule: digits_of.induct) (subst digits_of.simps, simp add: digit_char)

lemma digits_of_nonempty [simp]: "digits_of n \<noteq> []"
  by (subst digits_of.simps) simp

lemma digits_of_value: "int_of_digits (digits_of n) = int n"
proof (induction n rule: digits_of.induct)
  case (1 n)
  show ?case
  proof (cases "n < 10")
    case True
    then show ?thesis by (subst digits_of.simps) (simp add: int_of_digits_def digit_char)
  next
    case False
    then have "int_of_digits (digits_of n) = 10 * int_of_digits (digits_of (n div 10)) + int (n mod 10)"
      by (subst digits_of.simps) (simp add: int_of_digits_def digit_char)
    with 1 False show ?thesis by presburger
  qed
qed

lemma digits_of_head: "0 < n \<Longrightarrow> hd (digits_of n) \<noteq> CHR ''0''"
proof (induction n rule: digits_of.induct)
  case (1 n)
  show ?case
  proof (cases "n < 10")
    case True
    then have "(of_char (hd (digits_of n)) :: nat) = 48 + n" by (subst digits_of.simps) (simp add: digit_char)
    with 1 show ?thesis by auto
  next
    case False
    with 1 show ?thesis by (subst digits_of.simps) simp
  qed
qed

lemma number_end_rest: "number_end r \<Longrightarrow> fraction r = ([], r) \<and> exponent r = ([], r)"
  by (cases r) (simp_all add: number_end_def fraction_def exponent_def)

lemma digits_prefix: "number_end r \<Longrightarrow> takeWhile is_digit (digits_of n @ r) = digits_of n"
  using digits_of_digits [of n] by (cases r) (auto simp: number_end_def list_all_iff)

lemma digits_no_sign: "\<not> prefix ''-'' (digits_of n @ r)"
  using digits_of_digits [of n] by (cases "digits_of n") (auto simp: is_digit_def dest: digits_of_nonempty [THEN notE])

lemma char_of_48: "char_of (48 :: nat) = CHR ''0''"
  by code_simp

lemma digits_of_0: "digits_of 0 = ''0''"
  by (subst digits_of.simps) (simp add: char_of_48)

lemma digits_zero: "prefix ''0'' (digits_of n @ r) \<longleftrightarrow> n = 0"
proof (cases "n = 0")
  case True
  then show ?thesis by (simp add: digits_of_0)
next
  case False
  with digits_of_head [of n] show ?thesis by (cases "digits_of n") (auto dest: digits_of_nonempty [THEN notE])
qed

lemma parse_unsigned_digits:
  assumes "number_end r"
  shows "parse_unsigned neg (digits_of n @ r) = Some (JInt (if neg then - int n else int n), r)"
proof -
  have "digit_run (digits_of n @ r) = digits_of n"
    using assms by (simp add: digit_run_def digits_zero digits_prefix digits_of_0)
  with assms show ?thesis
    by (simp add: parse_unsigned_def number_end_rest digits_of_value)
qed

lemma parse_number_int: "number_end r \<Longrightarrow> parse_number (py_str_int i @ r) = Some (JInt i, r)"
  by (simp add: parse_number_def py_str_int_def parse_unsigned_digits digits_no_sign)

lemma takeWhile_digits: "number_end r \<Longrightarrow> takeWhile is_digit (u @ r) = takeWhile is_digit u"
  by (induction u) (auto simp: number_end_def split: list.splits)

lemma dropWhile_digits: "number_end r \<Longrightarrow> dropWhile is_digit (u @ r) = dropWhile is_digit u @ r"
  by (induction u) (auto simp: number_end_def split: list.splits)

lemma fraction_append:
  assumes "number_end r"
  shows "fraction (u @ r) = (fst (fraction u), snd (fraction u) @ r)"
  using assms number_end_rest [OF assms]
  by (cases u) (auto simp: fraction_def takeWhile_digits dropWhile_digits)

lemma exponent_append:
  assumes "number_end r" and "snd (exponent u) = []"
  shows "exponent (u @ r) = (fst (exponent u), r)"
proof (cases u)
  case Nil
  with number_end_rest [OF assms(1)] show ?thesis by (simp add: exponent_def)
next
  case (Cons c v)
  with assms(2) have "v \<noteq> []" by (auto simp: exponent_def split: if_split_asm)
  then obtain d w where "v = d # w" by (cases v) auto
  with assms Cons show ?thesis
    by (auto simp: exponent_def Let_def takeWhile_digits dropWhile_digits split: if_split_asm)
qed

lemma parse_unsigned_float:
  assumes "number_end r" and "parse_unsigned neg u = Some (JFloat t, [])"
  shows "parse_unsigned neg (u @ r) = Some (JFloat t, r)"
proof -
  obtain frac r2 where f: "fraction (drop (length (digit_run u)) u) = (frac, r2)" by fastforce
  obtain ex r3 where e: "exponent r2 = (ex, r3)" by fastforce
  from assms(2) f e have ds: "digit_run u \<noteq> []" and full: "\<not> (frac = [] \<and> ex = [])" "r3 = []"
    and t: "(if neg then ''-'' else []) @ digit_run u @ frac @ ex = t"
    by (auto simp: parse_unsigned_def Let_def split: if_split_asm)
  have same: "digit_run (u @ r) = digit_run u"
    using ds assms(1) by (cases u) (auto simp: digit_run_def takeWhile_digits [of r "c # cs" for c cs, simplified])
  have "length (digit_run u) \<le> length u"
    using length_takeWhile_le [of is_digit u] ds by (cases u) (auto simp: digit_run_def)
  then have "drop (length (digit_run u)) (u @ r) = drop (length (digit_run u)) u @ r" by simp
  then have "fraction (drop (length (digit_run u)) (u @ r)) = (frac, r2 @ r)"
    using fraction_append [OF assms(1)] f by simp
  moreover have "exponent (r2 @ r) = (ex, r)"
    using exponent_append [OF assms(1), of r2] e full by simp
  ultimately show ?thesis using ds full t same by (auto simp: parse_unsigned_def Let_def)
qed

lemma parse_number_float:
  assumes "float_literal t" and "number_end r"
  shows "parse_number (t @ r) = Some (JFloat t, r)"
proof -
  from assms(1) have "t \<noteq> []" by (auto simp: float_literal_def parse_number_def parse_unsigned_def digit_run_def)
  then obtain c cs where t: "t = c # cs" by (cases t) auto
  with assms parse_unsigned_float [OF assms(2), of True cs t] parse_unsigned_float [OF assms(2), of False t t] show ?thesis
    by (auto simp: float_literal_def parse_number_def split: if_split_asm)
qed

lemma parse_unsigned_head:
  assumes "parse_unsigned neg u = Some (JFloat t, [])"
  shows "u \<noteq> [] \<and> is_digit (hd u) \<and> tl u \<noteq> []"
  using assms
  by (cases u) (auto simp: parse_unsigned_def digit_run_def fraction_def exponent_def Let_def is_digit_def split: if_split_asm)

lemma float_head:
  assumes "float_literal t"
  obtains c cs where "t = c # cs" and "is_digit c \<or> c = CHR ''-''" and "c = CHR ''-'' \<longrightarrow> is_digit (hd cs)" and "cs \<noteq> []"
proof -
  have "t \<noteq> []" using assms by (auto simp: float_literal_def parse_number_def parse_unsigned_def digit_run_def)
  then obtain c cs where t: "t = c # cs" by (cases t) auto
  show thesis
  proof (cases "c = CHR ''-''")
    case True
    with assms t parse_unsigned_head [of True cs t] show thesis
      by (intro that [OF t]) (simp_all add: float_literal_def parse_number_def)
  next
    case False
    with assms t parse_unsigned_head [of False t t] show thesis
      by (intro that [OF t]) (simp_all add: float_literal_def parse_number_def)
  qed
qed

text \<open>No value starts with white space, a comma or a closing bracket; the first character tells its kind.\<close>

lemma int_head:
  obtains c cs where "py_str_int i = c # cs" and "is_digit c \<or> c = CHR ''-''"
proof (cases "i < 0")
  case True
  then show ?thesis using that by (simp add: py_str_int_def)
next
  case False
  obtain c cs where ds: "digits_of (nat i) = c # cs" by (cases "digits_of (nat i)") auto
  then have "is_digit c" using digits_of_digits [of "nat i"] by simp
  with False ds that show ?thesis by (simp add: py_str_int_def)
qed

lemma int_not_infinite: "\<not> prefix ''-Infinity'' (py_str_int i @ r)"
proof (cases "i < 0")
  case True
  then have "hd (digits_of (nat (- i))) \<noteq> CHR ''I''"
    using digits_of_digits [of "nat (- i)"] by (cases "digits_of (nat (- i))") (auto simp: is_digit_def)
  with True show ?thesis by (cases "digits_of (nat (- i))") (auto simp: py_str_int_def)
next
  case False
  then show ?thesis
    using digits_of_digits [of "nat i"] by (cases "digits_of (nat i)") (auto simp: py_str_int_def is_digit_def)
qed

lemma dumps_head:
  assumes "plain v"
  shows "\<exists>c cs. dumps v = c # cs \<and> \<not> json_space c \<and> c \<noteq> CHR '']''"
proof (cases v)
  case (JInt i)
  obtain c cs where "py_str_int i = c # cs" "is_digit c \<or> c = CHR ''-''" by (rule int_head)
  moreover from this(2) have "\<not> json_space c" "c \<noteq> CHR '']''" by (auto simp: is_digit_def json_space_def)
  ultimately show ?thesis using JInt by simp
next
  case (JBool b)
  then show ?thesis by (cases b) (simp_all add: json_space_def)
next
  case (JFloat t)
  with assms obtain c cs where "t = c # cs" "is_digit c \<or> c = CHR ''-''" by (auto elim: float_head)
  then show ?thesis using JFloat by (auto simp: is_digit_def json_space_def)
qed (use assms in \<open>simp_all add: json_string_def json_space_def\<close>)

lemma dumps_not_space: "plain v \<Longrightarrow> skip_ws (dumps v @ r) = dumps v @ r"
  by (drule dumps_head) (auto simp: skip_ws_def)

lemma parse_items_dumps:
  assumes "\<And>v n r. v \<in> set vs \<Longrightarrow> number_end r \<Longrightarrow> 2 * length (dumps v) \<le> n \<Longrightarrow> parse_value n (dumps v @ r) = Some (v, r)"
    and "list_all plain vs" and "vs \<noteq> []" and "2 * length (join '','' (map dumps vs)) < n"
  shows "parse_items n (join '','' (map dumps vs) @ '']'' @ r) = Some (vs, r)"
  using assms
proof (induction vs arbitrary: n)
  case Nil
  then show ?case by simp
next
  case (Cons v vs)
  then obtain m where n: "n = Suc m" by (cases n) auto
  show ?case
  proof (cases vs)
    case Nil
    with Cons.prems n show ?thesis by (simp add: skip_ws_def json_space_def)
  next
    case (Cons w ws)
    with Cons.prems n have "parse_value m (dumps v @ '','' @ join '','' (map dumps vs) @ '']'' @ r) = Some (v, '','' @ join '','' (map dumps vs) @ '']'' @ r)"
      by simp
    moreover have "parse_items m (join '','' (map dumps vs) @ '']'' @ r) = Some (vs, r)"
      using Cons.prems n Cons by (intro Cons.IH) auto
    moreover have "skip_ws (join '','' (map dumps vs) @ '']'' @ r) = join '','' (map dumps vs) @ '']'' @ r"
      using Cons.prems Cons dumps_not_space [of w] by (cases ws) auto
    ultimately show ?thesis using n Cons by (simp add: skip_ws_def json_space_def)
  qed
qed

abbreviation member_text :: "string \<times> json \<Rightarrow> string" where
  "member_text \<equiv> \<lambda>(k, v). json_string k @ '':'' @ dumps v"

lemma member_not_space: "skip_ws (member_text kv @ r) = member_text kv @ r"
  by (cases kv) (simp add: json_string_def skip_ws_def json_space_def)

lemma parse_members_dumps:
  assumes "\<And>k v n r. (k, v) \<in> set kvs \<Longrightarrow> number_end r \<Longrightarrow> 2 * length (dumps v) \<le> n \<Longrightarrow> parse_value n (dumps v @ r) = Some (v, r)"
    and "list_all (\<lambda>(k, v). plain v) kvs" and "kvs \<noteq> []" and "2 * length (join '','' (map member_text kvs)) < n"
  shows "parse_members n (join '','' (map member_text kvs) @ ''}'' @ r) = Some (kvs, r)"
  using assms
proof (induction kvs arbitrary: n)
  case Nil
  then show ?case by simp
next
  case (Cons kv kvs)
  obtain k v where kv: "kv = (k, v)" by force
  from Cons.prems obtain m where n: "n = Suc m" by (cases n) auto
  have head: "prefix [CHR 0x22] (member_text kv @ t) \<and>
      json_read (tl (member_text kv @ t)) = Some (k, '':'' @ dumps v @ t)" for t
    using json_read_string [of k "'':'' @ dumps v @ t"] by (simp add: kv json_string_def)
  have val: "skip_ws (dumps v @ t) = dumps v @ t" for t
    using Cons.prems(2) by (simp add: kv dumps_not_space)
  show ?case
  proof (cases kvs)
    case Nil
    have "parse_value m (dumps v @ ''}'' @ r) = Some (v, ''}'' @ r)"
      using Cons.prems n Nil kv by (intro Cons.prems(1) [of k]) auto
    with n Nil kv head [of "''}'' @ r"] val [of "''}'' @ r"] show ?thesis
      by (simp add: skip_ws_def json_space_def)
  next
    case (Cons kw ks)
    let ?rest = "join '','' (map member_text kvs) @ ''}'' @ r"
    have "parse_value m (dumps v @ '','' @ ?rest) = Some (v, '','' @ ?rest)"
      using Cons.prems n Cons kv by (intro Cons.prems(1) [of k]) auto
    moreover have "parse_members m ?rest = Some (kvs, r)"
      using Cons.prems n Cons by (intro Cons.IH) auto
    moreover have "skip_ws ?rest = ?rest"
      using Cons member_not_space [of kw] by (cases ks) auto
    ultimately show ?thesis
      using n Cons kv head [of "'','' @ ?rest"] val [of "'','' @ ?rest"] by (simp add: skip_ws_def json_space_def)
  qed
qed

lemma parse_value_dumps:
  "plain v \<Longrightarrow> number_end r \<Longrightarrow> 2 * length (dumps v) \<le> n \<Longrightarrow> parse_value n (dumps v @ r) = Some (v, r)"
proof (induction v arbitrary: n r)
  case (JInt i)
  obtain c cs where head: "py_str_int i = c # cs" "is_digit c \<or> c = CHR ''-''" by (rule int_head)
  with JInt obtain m where "n = Suc m" by (cases n) auto
  moreover have "\<not> prefix [d] (py_str_int i @ r)" if "d \<in> {CHR 0x22, CHR ''{'', CHR ''[''}" for d
    using head that by (auto simp: is_digit_def)
  moreover have "\<not> prefix ''null'' (py_str_int i @ r)" "\<not> prefix ''true'' (py_str_int i @ r)" "\<not> prefix ''false'' (py_str_int i @ r)"
    "\<not> prefix ''NaN'' (py_str_int i @ r)" "\<not> prefix ''Infinity'' (py_str_int i @ r)"
    using head by (auto simp: is_digit_def)
  ultimately show ?case using JInt int_not_infinite [of i r] by (simp add: parse_number_int)
next
  case (JStr s)
  then obtain m where "n = Suc m" by (cases n) (auto simp: json_string_def)
  with json_read_string [of s r] show ?case by (simp add: json_string_def)
next
  case (JArr vs)
  then obtain m where n: "n = Suc m" by (cases n) auto
  show ?case
  proof (cases vs)
    case Nil
    with n show ?thesis by (simp add: skip_ws_def json_space_def)
  next
    case (Cons w ws)
    have "parse_items m (join '','' (map dumps vs) @ '']'' @ r) = Some (vs, r)"
      using JArr n Cons by (intro parse_items_dumps) (auto simp: list_all_iff)
    moreover obtain c cs where "dumps w = c # cs" "\<not> json_space c" "c \<noteq> CHR '']''"
      using JArr.prems(1) Cons dumps_head [of w] by auto
    then have "skip_ws (join '','' (map dumps vs) @ '']'' @ r) = join '','' (map dumps vs) @ '']'' @ r"
      "\<not> prefix '']'' (join '','' (map dumps vs) @ '']'' @ r)"
      using Cons by (cases ws; simp add: skip_ws_def)+
    ultimately show ?thesis using n by simp
  qed
next
  case (JObj kvs)
  then obtain m where n: "n = Suc m" by (cases n) auto
  show ?case
  proof (cases kvs)
    case Nil
    with n show ?thesis by (simp add: skip_ws_def json_space_def)
  next
    case (Cons kw ks)
    have "parse_members m (join '','' (map member_text kvs) @ ''}'' @ r) = Some (kvs, r)"
    proof (rule parse_members_dumps)
      fix k v n' r'
      assume "(k, v) \<in> set kvs" "number_end r'" "2 * length (dumps v) \<le> n'"
      with JObj.prems(1) show "parse_value n' (dumps v @ r') = Some (v, r')"
        by (intro JObj.IH [of "(k, v)"]) (auto simp: list_all_iff snds.simps)
    qed (use JObj.prems n Cons in auto)
    moreover have "skip_ws (join '','' (map member_text kvs) @ ''}'' @ r) = join '','' (map member_text kvs) @ ''}'' @ r"
      "\<not> prefix ''}'' (join '','' (map member_text kvs) @ ''}'' @ r)"
      using Cons member_not_space [of kw] by (cases ks; cases kw; simp add: json_string_def)+
    ultimately show ?thesis using n by simp
  qed
next
  case JNull
  then obtain m where "n = Suc m" by (cases n) auto
  then show ?case by simp
next
  case (JBool b)
  then obtain m where "n = Suc m" by (cases n; cases b) auto
  then show ?case by simp
next
  case (JFloat t)
  then have lit: "float_literal t" by simp
  then obtain c cs where head: "t = c # cs" "is_digit c \<or> c = CHR ''-''" "c = CHR ''-'' \<longrightarrow> is_digit (hd cs)" "cs \<noteq> []" by (rule float_head)
  with JFloat obtain m where "n = Suc m" by (cases n) auto
  moreover have "\<not> prefix [d] (t @ r)" if "d \<in> {CHR 0x22, CHR ''{'', CHR ''[''}" for d
    using head that by (auto simp: is_digit_def)
  moreover have "\<not> prefix ''null'' (t @ r)" "\<not> prefix ''true'' (t @ r)" "\<not> prefix ''false'' (t @ r)"
    "\<not> prefix ''NaN'' (t @ r)" "\<not> prefix ''Infinity'' (t @ r)" "\<not> prefix ''-Infinity'' (t @ r)"
    using head by (cases cs; auto simp: is_digit_def)+
  ultimately show ?case using JFloat parse_number_float [OF lit] by simp
qed

lemma loads_dumps: "plain v \<Longrightarrow> loads (dumps v) = Some v"
  using parse_value_dumps [of v "[]" "Suc (2 * length (dumps v))"] dumps_not_space [of v "[]"]
  by (simp add: loads_def skip_ws_def del: parse_value.simps)

lemma plain_sort_keys: "plain v \<Longrightarrow> plain (sort_keys v)"
  by (induction v) (auto simp: list_all_iff)

text \<open>Sorting the members keeps what a dict holds, when no key is repeated.\<close>

lemma member_sort_keys:
  assumes "distinct (map fst kvs)"
  shows "member (sort_key fst (map (\<lambda>(k, v). (k, sort_keys v)) kvs)) k = map_option sort_keys (member kvs k)"
proof -
  let ?m = "map (\<lambda>(k, v). (k, sort_keys v)) kvs"
  have "map fst ?m = map fst kvs" by (simp add: comp_def case_prod_beta)
  with assms have d: "distinct ?m" "inj_on fst (set ?m)" by (metis distinct_map)+
  then have "distinct (map fst (rev (sort_key fst ?m)))" "distinct (map fst (rev ?m))"
    unfolding distinct_map [of fst] by (simp_all only: distinct_rev distinct_sort set_rev set_sort)
  moreover have "set (rev (sort_key fst ?m)) = set (rev ?m)" by simp
  ultimately have "map_of (rev (sort_key fst ?m)) = map_of (rev ?m)" by (metis map_of_inject_set)
  moreover have "map_of (rev ?m) k = map_option sort_keys (map_of (rev kvs) k)"
    by (simp add: rev_map map_of_map)
  ultimately show ?thesis by (simp add: member_def)
qed

end
