(* ===== verification/Dispatch_Service.thy ===== *)
theory Dispatch_Service
  imports Dispatch_Repository Dispatch_Directory Dispatch_Voice Py_Json
begin

text \<open>
  The escalation coordinator (\<open>src/data/dispatch/service.py\<close>, \<open>DispatchCoordinator\<close>): its policy,
  its state and one definition per method. The injected callables (clock, id, token and claim
  factories), SHA-256, the zone database and the two provider operations are fields of an
  environment; a factory is a function of the number of the call, so that its calls are ordered.
  The \<open>event_key\<close> arguments the webhook handlers ignore are kept.
\<close>

section \<open>Policy, environment and state\<close>

record escalation_policy =
  ep_retry_delay :: int
  ep_ring_timeout_seconds :: int
  ep_gather_timeout_seconds :: int
  ep_provider_submission_timeout :: int
  ep_policy_version :: string
  ep_message_template_version :: string

definition default_policy :: escalation_policy where
  "default_policy = \<lparr>ep_retry_delay = seconds 30, ep_ring_timeout_seconds = 20, ep_gather_timeout_seconds = 10,
     ep_provider_submission_timeout = seconds 90, ep_policy_version = ''dispatch-escalation-v1'',
     ep_message_template_version = ''dispatch-voice-v1''\<rparr>"

definition policy_post_init :: "escalation_policy \<Rightarrow> exn option" where
  "policy_post_init p = first_error
     [(\<not> (seconds 5 \<le> ep_retry_delay p \<and> ep_retry_delay p \<le> seconds 3600), validation_error ''dispatch_policy_invalid''),
      (\<not> (5 \<le> ep_ring_timeout_seconds p \<and> ep_ring_timeout_seconds p \<le> 60), validation_error ''dispatch_policy_invalid''),
      (\<not> (3 \<le> ep_gather_timeout_seconds p \<and> ep_gather_timeout_seconds p \<le> 30), validation_error ''dispatch_policy_invalid''),
      (\<not> (seconds 30 \<le> ep_provider_submission_timeout p \<and> ep_provider_submission_timeout p \<le> seconds 43200),
         validation_error ''dispatch_policy_invalid''),
      bad_identifier (ep_policy_version p),
      bad_identifier (ep_message_template_version p)]"

record 'p coord_env =
  ce_sha :: "string \<Rightarrow> string"
  ce_tz :: tzdb
  ce_policy :: escalation_policy
  ce_clock :: "nat \<Rightarrow> datetime"
  ce_new_id :: "nat \<Rightarrow> string"
  ce_new_token :: "nat \<Rightarrow> string \<Rightarrow> string"
  ce_new_claim :: "nat \<Rightarrow> string"
  ce_place :: "call_request \<Rightarrow> 'p \<Rightarrow> (exn, string, 'p) outcome"
  ce_cancel :: "string \<Rightarrow> 'p \<Rightarrow> (exn, unit, 'p) outcome"

record 'p coordinator =
  co_repo :: repository
  co_directory :: directory
  co_provider :: 'p
  co_clock :: nat
  co_ids :: nat
  co_tokens :: nat
  co_claims :: nat

definition initial_coordinator :: "directory \<Rightarrow> 'p \<Rightarrow> 'p coordinator" where
  "initial_coordinator d p = \<lparr>co_repo = empty_repository, co_directory = d, co_provider = p,
     co_clock = 0, co_ids = 0, co_tokens = 0, co_claims = 0\<rparr>"

type_synonym ('p, 'a) coord_op = "'p coordinator \<Rightarrow> (exn, 'a, 'p coordinator) outcome"

definition on_repo :: "'a repo_op \<Rightarrow> ('p, 'a) coord_op" where
  "on_repo op s = (fst (op (co_repo s)), s\<lparr>co_repo := snd (op (co_repo s))\<rparr>)"

definition on_provider :: "('p \<Rightarrow> (exn, 'a, 'p) outcome) \<Rightarrow> ('p, 'a) coord_op" where
  "on_provider op s = (fst (op (co_provider s)), s\<lparr>co_provider := snd (op (co_provider s))\<rparr>)"

lemma on_repo_code [code]: "on_repo op s = (case op (co_repo s) of (x, r) \<Rightarrow> (x, s\<lparr>co_repo := r\<rparr>))"
  by (simp add: on_repo_def split: prod.splits)

lemma on_provider_code [code]: "on_provider op s = (case op (co_provider s) of (x, p) \<Rightarrow> (x, s\<lparr>co_provider := p\<rparr>))"
  by (simp add: on_provider_def split: prod.splits)

definition read_clock :: "'p coord_env \<Rightarrow> string \<Rightarrow> ('p, datetime) coord_op" where
  "read_clock env field s =
     (require_utc (ce_clock env (co_clock s)) field, s\<lparr>co_clock := Suc (co_clock s)\<rparr>)"

definition next_id :: "'p coord_env \<Rightarrow> ('p, string) coord_op" where
  "next_id env s = (Inr (ce_new_id env (co_ids s)), s\<lparr>co_ids := Suc (co_ids s)\<rparr>)"

definition next_token :: "'p coord_env \<Rightarrow> string \<Rightarrow> ('p, string) coord_op" where
  "next_token env attempt_id s =
     (Inr (ce_new_token env (co_tokens s) attempt_id), s\<lparr>co_tokens := Suc (co_tokens s)\<rparr>)"

definition next_claim :: "'p coord_env \<Rightarrow> ('p, string) coord_op" where
  "next_claim env s = (Inr (ce_new_claim env (co_claims s)), s\<lparr>co_claims := Suc (co_claims s)\<rparr>)"

section \<open>Digests, fingerprints and events\<close>

definition digest :: "(string \<Rightarrow> string) \<Rightarrow> string list \<Rightarrow> string" where
  "digest sha values = sha (join [CHR 0x1F] values)"

text \<open>The object with its keys sorted and \<open>","\<close>, \<open>":"\<close> as separators.\<close>

definition authorization_payload :: "confirmed_incident \<Rightarrow> string \<Rightarrow> string \<Rightarrow> string" where
  "authorization_payload i authorized_by template_version =
     ''{'' @ json_string ''authorize_call'' @ '':true,'' @
     json_string ''authorized_by'' @ '':'' @ json_string authorized_by @ '','' @
     json_string ''confirmed_review_id'' @ '':'' @ json_string (i_confirmed_review_id i) @ '','' @
     json_string ''incident_external_event_id'' @ '':'' @ json_string (i_incident_external_event_id i) @ '','' @
     json_string ''incident_id'' @ '':'' @ json_string (i_incident_id i) @ '','' @
     json_string ''incident_source_id'' @ '':'' @ json_string (i_incident_source_id i) @ '','' @
     json_string ''message_template_version'' @ '':'' @ json_string template_version @ '','' @
     json_string ''tenant_id'' @ '':'' @ json_string (i_tenant_id i) @ ''}''"

definition authorization_fingerprint :: "(string \<Rightarrow> string) \<Rightarrow> confirmed_incident \<Rightarrow> string \<Rightarrow> string \<Rightarrow> string" where
  "authorization_fingerprint sha i authorized_by template_version =
     sha (authorization_payload i authorized_by template_version)"

definition make_event :: "'p coord_env \<Rightarrow> dispatch_case \<Rightarrow> event_kind \<Rightarrow> datetime \<Rightarrow> string option \<Rightarrow> string list \<Rightarrow>
    string option \<Rightarrow> ('p, dispatch_event) coord_op" where
  "make_event env c kind at attempt_id dedupe_parts detail_code s =
     and_then (next_id env s) (\<lambda>event_id s.
     lift (new_event \<lparr>e_event_id = event_id, e_tenant_id = c_tenant_id c, e_case_id = c_case_id c,
        e_attempt_id = attempt_id, e_kind = kind, e_occurred_at = at,
        e_deduplication_key = digest (ce_sha env) dedupe_parts, e_detail_code = detail_code\<rparr>) s)"

definition case_script :: "dispatch_case \<Rightarrow> exn + call_script" where
  "case_script c = new_script \<lparr>sc_case_reference = c_case_reference c, sc_category = c_category c,
     sc_broad_location_label = c_broad_location_label c, sc_occurred_at = c_occurred_at c\<rparr>"

section \<open>Authorization\<close>

definition match_idempotency_key :: "string \<Rightarrow> bool" where
  [pattern_defs]: "match_idempotency_key s = head_match is_alnum (\<lambda>c. is_alnum c \<or> c \<in> set ''_.:-'') 7 127 s"

text \<open>Python's \<open>value or default\<close> for an optional string: \<open>None\<close> and the empty string are falsy.\<close>

definition or_default :: "string option \<Rightarrow> string \<Rightarrow> string" where
  "or_default v d = (case v of None \<Rightarrow> d | Some x \<Rightarrow> if x = [] then d else x)"

definition same_fingerprint :: "dispatch_case \<Rightarrow> string \<Rightarrow> ('p, dispatch_case) coord_op" where
  "same_fingerprint c fingerprint s =
     and_then (lift (compare_digest (c_authorization_fingerprint c) fingerprint) s) (\<lambda>same s.
     and_then (raise_if (\<not> same) (Raised DispatchIdempotencyConflict) s) (\<lambda>_ s. (Inr c, s)))"

definition authorized_case :: "'p coord_env \<Rightarrow> confirmed_incident \<Rightarrow> string \<Rightarrow> string \<Rightarrow> string \<Rightarrow> string \<Rightarrow>
    resolved_contacts \<Rightarrow> datetime \<Rightarrow> string \<Rightarrow> datetime \<Rightarrow> dispatch_case" where
  "authorized_case env i authorized_by idempotency_key template_version fingerprint contacts now case_id occurred_at =
     \<lparr>c_case_id = case_id, c_tenant_id = i_tenant_id i, c_incident_id = i_incident_id i,
      c_confirmed_review_id = i_confirmed_review_id i, c_incident_source_id = i_incident_source_id i,
      c_incident_external_event_id = i_incident_external_event_id i, c_zone_id = i_zone_id i,
      c_primary_contact_id = k_contact_id (r_primary contacts),
      c_supervisor_contact_id = k_contact_id (r_supervisor contacts),
      c_case_reference = i_case_reference i, c_category = i_category i,
      c_broad_location_label = i_broad_location_label i, c_occurred_at = occurred_at,
      c_authorized_by = authorized_by, c_authorization_fingerprint = fingerprint,
      c_idempotency_key_hash = digest (ce_sha env) [idempotency_key],
      c_policy_version = ep_policy_version (ce_policy env), c_message_template_version = template_version,
      c_retry_delay_seconds = ep_retry_delay (ce_policy env) div 1000000, c_status = D_QUEUED,
      c_created_at = now, c_updated_at = now, c_next_attempt_at = Some now, c_attempt_count = 0,
      c_final_outcome = None, c_closed_at = None, c_version = 1\<rparr>"

definition authorize_new :: "'p coord_env \<Rightarrow> confirmed_incident \<Rightarrow> string \<Rightarrow> string \<Rightarrow> string \<Rightarrow> string \<Rightarrow>
    ('p, dispatch_case) coord_op" where
  "authorize_new env i authorized_by idempotency_key template_version fingerprint s =
     and_then (read_clock env ''authorization time'' s) (\<lambda>now s.
     and_then (lift (incident_coverage i) s) (\<lambda>coverage s.
     and_then (lift (resolve (ce_tz env) (co_directory s) (i_tenant_id i) coverage now) s) (\<lambda>contacts s.
     and_then (next_id env s) (\<lambda>case_id s.
     and_then (lift (require_utc (i_occurred_at i) ''occurred_at'') s) (\<lambda>occurred_at s.
     and_then (lift (new_case (authorized_case env i authorized_by idempotency_key template_version fingerprint
                 contacts now case_id occurred_at)) s) (\<lambda>c s.
     and_then (make_event env c E_AUTHORIZED now None [''authorized'', i_tenant_id i, idempotency_key] None s) (\<lambda>event s.
     and_then (on_repo (create_case c idempotency_key event) s) (\<lambda>stored s.
     same_fingerprint (fst stored) fingerprint s))))))))"

definition authorize :: "'p coord_env \<Rightarrow> confirmed_incident \<Rightarrow> string \<Rightarrow> string \<Rightarrow> bool \<Rightarrow> string option \<Rightarrow>
    ('p, dispatch_case) coord_op" where
  "authorize env i authorized_by idempotency_key authorize_call message_template_version s =
     and_then (raise_if (\<not> authorize_call \<or> i_review_decision i \<noteq> ''confirmed'') (Raised DispatchNotAuthorized) s) (\<lambda>_ s.
     and_then (raise_if (\<not> match_idempotency_key idempotency_key)
                 (validation_error ''dispatch_idempotency_key_invalid'') s) (\<lambda>_ s.
     and_then (raise_if (authorized_by = [] \<or> length authorized_by > 128)
                 (validation_error ''dispatch_authorization_invalid'') s) (\<lambda>_ s.
     let template_version = or_default message_template_version (ep_message_template_version (ce_policy env)) in
     and_then (lift (require_identifier template_version ''message_template_version'') s) (\<lambda>_ s.
     let fingerprint = authorization_fingerprint (ce_sha env) i authorized_by template_version in
     and_then (on_repo (find_case_by_idempotency (i_tenant_id i) idempotency_key) s) (\<lambda>existing s.
     case existing of
       Some c \<Rightarrow> same_fingerprint c fingerprint s
     | None \<Rightarrow> authorize_new env i authorized_by idempotency_key template_version fingerprint s)))))"

section \<open>Binding a callback to its call\<close>

definition stored_reference_matches :: "(string \<Rightarrow> string) \<Rightarrow> string \<Rightarrow> string \<Rightarrow> exn + bool" where
  "stored_reference_matches sha stored incoming =
     (if prefix ''sha256:'' stored
      then (let expected = remove_prefix ''sha256:'' stored in
            if hex64 expected then compare_digest expected (sha incoming) else Inr False)
      else compare_digest stored incoming)"

definition coord_resolve_callback :: "'p coord_env \<Rightarrow> string \<Rightarrow> string \<Rightarrow> ('p, dispatch_case \<times> call_attempt) coord_op" where
  "coord_resolve_callback env callback_token reference s =
     and_then (on_repo (resolve_callback callback_token) s) (\<lambda>found s.
     let c = fst found; attempt = snd found; stored = or_default (a_provider_call_reference attempt) [] in
     if stored \<noteq> [] \<and> reference \<noteq> []
     then and_then (lift (stored_reference_matches (ce_sha env) stored reference) s) (\<lambda>matches s.
          and_then (raise_if (\<not> matches) (Raised WebhookCallMismatch) s) (\<lambda>_ s. (Inr found, s)))
     else
     and_then (raise_if (reference = []) (Raised WebhookCallMismatch) s) (\<lambda>_ s.
     and_then (read_clock env ''provider callback binding time'' s) (\<lambda>now s.
     and_then (make_event env c E_CALL_INITIATED now (Some (a_attempt_id attempt))
                 [''call-initiated'', a_attempt_id attempt] None s) (\<lambda>event s.
     on_repo (bind_provider_callback (ce_sha env) callback_token reference now event) s))))"

definition callback_time :: "'p coord_env \<Rightarrow> datetime option \<Rightarrow> ('p, datetime) coord_op" where
  "callback_time env occurred_at s =
     (case occurred_at of None \<Rightarrow> read_clock env ''callback time'' s
      | Some at \<Rightarrow> lift (require_utc at ''callback time'') s)"

section \<open>Outcomes of a submission\<close>

definition mark_provider_retry :: "'p coord_env \<Rightarrow> dispatch_case \<Rightarrow> call_attempt \<Rightarrow> datetime \<Rightarrow> string \<Rightarrow> string \<Rightarrow>
    ('p, unit) coord_op" where
  "mark_provider_retry env c a at claim_token safe_error_code s =
     (let code = (if match_error_code safe_error_code then safe_error_code else ''voice_provider_unavailable'') in
     and_then (lift (new_attempt (a\<lparr>a_status := A_PROVIDER_RETRY, a_safe_error_code := Some code,
                 a_updated_at := at, a_version := a_version a + 1\<rparr>)) s) (\<lambda>updated_attempt s.
     and_then (lift (new_case (c\<lparr>c_status := D_PROVIDER_RETRY, c_next_attempt_at := Some at,
                 c_updated_at := at, c_version := c_version c + 1\<rparr>)) s) (\<lambda>updated_case s.
     and_then (make_event env c E_PROVIDER_RETRY at (Some (a_attempt_id a))
                 [''provider-retry'', a_attempt_id a, py_str_int (a_version a + 1)] (Some code) s) (\<lambda>event s.
     and_then (on_repo (finish_provider_submission (ce_sha env) updated_case updated_attempt event claim_token
                 O_RETRYABLE_FAILURE (c_version c) (a_version a)) s) (\<lambda>_ s. (Inr (), s))))))"

definition mark_submission_uncertain :: "'p coord_env \<Rightarrow> dispatch_case \<Rightarrow> call_attempt \<Rightarrow> datetime \<Rightarrow> string \<Rightarrow>
    string option \<Rightarrow> bool \<Rightarrow> ('p, unit) coord_op" where
  "mark_submission_uncertain env c a at safe_error_code claim_token stale s =
     and_then (lift (new_attempt (a\<lparr>a_status := A_MANUAL_FOLLOW_UP, a_outcome := Some ''callback_requested'',
                 a_completed_at := Some at, a_next_action_at := None, a_safe_error_code := Some safe_error_code,
                 a_updated_at := at, a_version := a_version a + 1\<rparr>)) s) (\<lambda>updated_attempt s.
     and_then (lift (new_case (c\<lparr>c_status := D_MANUAL_FOLLOW_UP, c_next_attempt_at := None,
                 c_final_outcome := Some (dispatch_status_value D_MANUAL_FOLLOW_UP), c_closed_at := Some at,
                 c_updated_at := at, c_version := c_version c + 1\<rparr>)) s) (\<lambda>updated_case s.
     and_then (make_event env c E_MANUAL_FOLLOW_UP at (Some (a_attempt_id a))
                 [''provider-submission-uncertain'', a_attempt_id a] (Some safe_error_code) s) (\<lambda>event s.
     if stale then
       and_then (on_repo (expire_provider_submission updated_case updated_attempt event at
                   (c_version c) (a_version a)) s) (\<lambda>_ s. (Inr (), s))
     else (case claim_token of
       None \<Rightarrow> (Inl (state_conflict ''dispatch_submission_claim_unavailable''), s)
     | Some token \<Rightarrow>
       and_then (on_repo (finish_provider_submission (ce_sha env) updated_case updated_attempt event token
                   O_UNCERTAIN (c_version c) (a_version a)) s) (\<lambda>_ s. (Inr (), s))))))"

section \<open>Dispatching the next call\<close>

text \<open>From the acquired claim to the end: build the request, place the call, settle the claim.\<close>

definition place_claimed_call :: "'p coord_env \<Rightarrow> dispatch_case \<Rightarrow> call_attempt \<Rightarrow> response_contact \<Rightarrow> datetime \<Rightarrow> string \<Rightarrow>
    ('p, call_attempt option) coord_op" where
  "place_claimed_call env c a contact now claim_token s =
     and_then (lift (case_script c) s) (\<lambda>script s.
     and_then (lift (new_request \<lparr>rq_request_id = a_attempt_id a, rq_destination_secret_ref = k_phone_secret_ref contact,
                 rq_callback_token = a_callback_token a, rq_attempt_number = a_sequence a,
                 rq_target_role = a_target_role a, rq_script = script,
                 rq_ring_timeout_seconds = ep_ring_timeout_seconds (ce_policy env)\<rparr>) s) (\<lambda>request s.
     case on_provider (ce_place env request) s of
       (Inl (Raised VoiceSubmissionUncertain), s) \<Rightarrow>
         and_then (mark_submission_uncertain env c a now ''voice_submission_uncertain'' (Some claim_token) False s)
           (\<lambda>_ s. (Inr None, s))
     | (Inl (Raised e), s) \<Rightarrow>
         and_then (mark_provider_retry env c a now claim_token (error_code e) s) (\<lambda>_ s. (Inl (Raised e), s))
     | (Inl (OtherError m), s) \<Rightarrow>
         and_then (mark_submission_uncertain env c a now ''voice_submission_uncertain'' (Some claim_token) False s)
           (\<lambda>_ s. (Inr None, s))
     | (Inr reference, s) \<Rightarrow>
         and_then (coord_resolve_callback env (a_callback_token a) reference s) (\<lambda>bound s.
         (Inr (Some (snd bound)), s))))"

definition in_progress :: "attempt_status \<Rightarrow> bool" where
  "in_progress st \<longleftrightarrow> st \<in> {A_INITIATED, A_RINGING, A_ANSWERED}"

definition claim_and_place :: "'p coord_env \<Rightarrow> string \<Rightarrow> string \<Rightarrow> call_attempt \<Rightarrow> response_contact \<Rightarrow> datetime \<Rightarrow>
    ('p, call_attempt option) coord_op" where
  "claim_and_place env tenant_id case_id attempt contact now s =
     and_then (next_claim env s) (\<lambda>claim_token s.
     and_then (on_repo (claim_provider_submission (ce_sha env) tenant_id case_id (a_attempt_id attempt) claim_token now
                 (dt_add now (ep_provider_submission_timeout (ce_policy env)))) s) (\<lambda>claim s.
     let c = cl_case claim; a = cl_attempt claim in
     if terminal_dispatch (c_status c) then (Inr None, s)
     else if cl_stale claim then
       and_then (mark_submission_uncertain env c a now ''voice_submission_claim_expired'' None True s)
         (\<lambda>_ s. (Inr None, s))
     else if \<not> cl_acquired claim then
       and_then (raise_if (cl_retry_at claim \<noteq> None) (Raised DispatchRetryNotDue) s) (\<lambda>_ s.
       if in_progress (a_status a) then (Inr (Some a), s)
       else (Inl (state_conflict ''dispatch_submission_claim_unavailable''), s))
     else place_claimed_call env c a contact now claim_token s))"

definition dispatch_reserved :: "'p coord_env \<Rightarrow> string \<Rightarrow> string \<Rightarrow> call_attempt \<Rightarrow> datetime \<Rightarrow>
    ('p, call_attempt option) coord_op" where
  "dispatch_reserved env tenant_id case_id attempt now s =
     (if in_progress (a_status attempt) then (Inr (Some attempt), s)
      else
      and_then (raise_if (a_status attempt \<notin> {A_RESERVED, A_PROVIDER_RETRY}) default_conflict s) (\<lambda>_ s.
      and_then (lift (get_contact (co_directory s) tenant_id (a_contact_id attempt)) s) (\<lambda>contact s.
      and_then (lift (is_available (ce_tz env) contact now) s) (\<lambda>available s.
      and_then (raise_if (\<not> available \<or> k_role contact \<noteq> a_target_role attempt)
                  (Raised (DispatchContactUnavailable False True)) s) (\<lambda>_ s.
      claim_and_place env tenant_id case_id attempt contact now s)))))"

definition dispatch_next :: "'p coord_env \<Rightarrow> string \<Rightarrow> string \<Rightarrow> ('p, call_attempt option) coord_op" where
  "dispatch_next env tenant_id case_id s =
     and_then (on_repo (get_case tenant_id case_id) s) (\<lambda>c s.
     if terminal_dispatch (c_status c) then (Inr None, s)
     else
     and_then (read_clock env ''dispatch time'' s) (\<lambda>now s.
     and_then (next_id env s) (\<lambda>attempt_id s.
     and_then (next_token env attempt_id s) (\<lambda>callback_token s.
     and_then (make_event env c E_ATTEMPT_RESERVED now (Some attempt_id)
                 [''attempt-reserved'', tenant_id, case_id, attempt_id] None s) (\<lambda>event s.
     and_then (on_repo (reserve_next_attempt tenant_id case_id attempt_id callback_token now event) s) (\<lambda>reservation s.
     dispatch_reserved env tenant_id case_id (rv_attempt reservation) now s))))))"

section \<open>Webhook handlers\<close>

definition record_event :: "'p coord_env \<Rightarrow> dispatch_case \<Rightarrow> call_attempt \<Rightarrow> event_kind \<Rightarrow> datetime \<Rightarrow> string list \<Rightarrow>
    string option \<Rightarrow> ('p, unit) coord_op" where
  "record_event env c attempt kind now dedupe detail s =
     and_then (make_event env c kind now (Some (a_attempt_id attempt)) dedupe detail s) (\<lambda>event s.
     and_then (on_repo (append_event event) s) (\<lambda>_ s. (Inr (), s)))"

definition apply_update :: "'p coord_env \<Rightarrow> dispatch_case \<Rightarrow> call_attempt \<Rightarrow> dispatch_case \<Rightarrow> call_attempt \<Rightarrow>
    event_kind \<Rightarrow> datetime \<Rightarrow> string list \<Rightarrow> string option \<Rightarrow> ('p, unit) coord_op" where
  "apply_update env c attempt updated_case updated_attempt kind now dedupe detail s =
     and_then (make_event env c kind now (Some (a_attempt_id attempt)) dedupe detail s) (\<lambda>event s.
     and_then (on_repo (apply_transition updated_case updated_attempt event (c_version c) (a_version attempt)) s) (\<lambda>_ s.
     (Inr (), s)))"

definition normalize_status :: "string \<Rightarrow> string" where
  "normalize_status status = replace_char (CHR ''-'') (CHR ''_'') (py_lower (py_strip status))"

definition provider_statuses :: "string set" where
  "provider_statuses = {''queued'', ''initiated'', ''ringing'', ''answered'', ''in_progress'', ''completed'',
     ''busy'', ''no_answer'', ''failed'', ''canceled''}"

definition terminal_provider_statuses :: "string set" where
  "terminal_provider_statuses = {''completed'', ''busy'', ''no_answer'', ''failed'', ''canceled''}"

definition amd_results :: "string set" where
  "amd_results = {''human'', ''machine_start'', ''machine_end_beep'', ''machine_end_silence'',
     ''machine_end_other'', ''fax'', ''unknown''}"

definition terminal_outcome :: "string \<Rightarrow> string" where
  "terminal_outcome provider_status =
     (if provider_status = ''completed'' then ''no_acknowledgement'' else provider_status)"

definition status_rank :: "attempt_status \<Rightarrow> int" where
  "status_rank st = (case st of A_RESERVED \<Rightarrow> 0 | A_PROVIDER_RETRY \<Rightarrow> 0 | A_INITIATED \<Rightarrow> 1 | A_RINGING \<Rightarrow> 2
     | A_ANSWERED \<Rightarrow> 3 | _ \<Rightarrow> - 1)"

definition desired_status :: "string \<Rightarrow> attempt_status" where
  "desired_status provider_status =
     (if provider_status \<in> {''queued'', ''initiated''} then A_INITIATED
      else if provider_status = ''ringing'' then A_RINGING
      else A_ANSWERED)"

definition progress_status :: "attempt_status \<Rightarrow> string \<Rightarrow> attempt_status" where
  "progress_status current provider_status =
     (let desired = desired_status provider_status in
      if status_rank desired > status_rank current then desired else current)"

text \<open>The step after a call nobody acknowledged: retry the primary, then the supervisor, then give up.\<close>

definition unacknowledged_step :: "'p coord_env \<Rightarrow> call_attempt \<Rightarrow> datetime \<Rightarrow>
    dispatch_status \<times> event_kind \<times> datetime option" where
  "unacknowledged_step env a at =
     (let later = Some (dt_add at (ep_retry_delay (ce_policy env))) in
      if a_sequence a = 1 then (D_RETRY_SCHEDULED, E_RETRY_SCHEDULED, later)
      else if a_sequence a = 2 then (D_SUPERVISOR_SCHEDULED, E_SUPERVISOR_SCHEDULED, later)
      else (D_UNACKNOWLEDGED, E_EXHAUSTED, None))"

definition unacknowledged :: "'p coord_env \<Rightarrow> dispatch_case \<Rightarrow> call_attempt \<Rightarrow> datetime \<Rightarrow> string \<Rightarrow>
    ('p, dispatch_case \<times> call_attempt \<times> event_kind) coord_op" where
  "unacknowledged env c a at outcome s =
     (case unacknowledged_step env a at of (status, kind, next_attempt) \<Rightarrow>
     and_then (lift (new_attempt (a\<lparr>a_status := A_UNACKNOWLEDGED, a_outcome := Some outcome, a_completed_at := Some at,
                 a_next_action_at := next_attempt, a_updated_at := at, a_version := a_version a + 1\<rparr>)) s) (\<lambda>updated_attempt s.
     and_then (lift (new_case (c\<lparr>c_status := status, c_next_attempt_at := next_attempt,
                 c_final_outcome := (if status = D_UNACKNOWLEDGED then Some (dispatch_status_value D_UNACKNOWLEDGED) else None),
                 c_closed_at := (if status = D_UNACKNOWLEDGED then Some at else None),
                 c_updated_at := at, c_version := c_version c + 1\<rparr>)) s) (\<lambda>updated_case s.
     (Inr (updated_case, updated_attempt, kind), s))))"

definition progressed :: "dispatch_case \<Rightarrow> call_attempt \<Rightarrow> datetime \<Rightarrow> string \<Rightarrow>
    ('p, dispatch_case \<times> call_attempt \<times> event_kind) coord_op" where
  "progressed c a now normalized s =
     (let new_status = progress_status (a_status a) normalized;
          or_now = (\<lambda>v b. case v of Some t \<Rightarrow> Some t | None \<Rightarrow> if b then Some now else None) in
     and_then (lift (new_attempt (a\<lparr>a_status := new_status,
                 a_initiated_at := or_now (a_initiated_at a) (new_status \<noteq> A_RESERVED),
                 a_answered_at := or_now (a_answered_at a) (new_status = A_ANSWERED),
                 a_updated_at := now, a_version := a_version a + 1\<rparr>)) s) (\<lambda>updated_attempt s.
     and_then (lift (new_case (c\<lparr>c_status := (if new_status = A_ANSWERED then D_AWAITING_ACKNOWLEDGEMENT else D_DIALING),
                 c_updated_at := now, c_version := c_version c + 1\<rparr>)) s) (\<lambda>updated_case s.
     (Inr (updated_case, updated_attempt, E_PROVIDER_STATUS), s))))"

text \<open>What each handler does once the callback is resolved and the time is known.\<close>

definition status_step :: "'p coord_env \<Rightarrow> dispatch_case \<Rightarrow> call_attempt \<Rightarrow> datetime \<Rightarrow> string list \<Rightarrow> string \<Rightarrow>
    ('p, dispatch_case) coord_op" where
  "status_step env c attempt now dedupe normalized s =
     (if terminal_dispatch (c_status c) \<or> terminal_attempt (a_status attempt) then
       and_then (record_event env c attempt E_PROVIDER_STATUS now dedupe (Some normalized) s) (\<lambda>_ s.
       on_repo (get_case (c_tenant_id c) (c_case_id c)) s)
     else
       and_then (if normalized \<in> terminal_provider_statuses
                 then unacknowledged env c attempt now (terminal_outcome normalized) s
                 else progressed c attempt now normalized s) (\<lambda>updated s.
       case updated of (updated_case, updated_attempt, kind) \<Rightarrow>
       and_then (apply_update env c attempt updated_case updated_attempt kind now dedupe (Some normalized) s) (\<lambda>_ s.
       on_repo (get_case (c_tenant_id c) (c_case_id c)) s)))"

definition handle_status :: "'p coord_env \<Rightarrow> string \<Rightarrow> string \<Rightarrow> string \<Rightarrow> string \<Rightarrow> datetime option \<Rightarrow>
    ('p, dispatch_case) coord_op" where
  "handle_status env callback_token reference status event_key occurred_at s =
     (let normalized = normalize_status status in
     and_then (raise_if (normalized \<notin> provider_statuses) (validation_error ''twilio_status_invalid'') s) (\<lambda>_ s.
     and_then (coord_resolve_callback env callback_token reference s) (\<lambda>found s.
     and_then (callback_time env occurred_at s) (\<lambda>now s.
     status_step env (fst found) (snd found) now [''provider-status'', reference, normalized] normalized s))))"

definition gather_case :: "dispatch_case \<Rightarrow> string \<Rightarrow> datetime \<Rightarrow> dispatch_case" where
  "gather_case c digits now =
     (let status = (if digits = ''1'' then D_ACKNOWLEDGED else D_MANUAL_FOLLOW_UP) in
      c\<lparr>c_status := status, c_next_attempt_at := None, c_final_outcome := Some (dispatch_status_value status),
        c_closed_at := Some now, c_updated_at := now, c_version := c_version c + 1\<rparr>)"

definition gather_attempt :: "call_attempt \<Rightarrow> string \<Rightarrow> datetime \<Rightarrow> call_attempt" where
  "gather_attempt a digits now =
     a\<lparr>a_status := (if digits = ''1'' then A_ACKNOWLEDGED else A_MANUAL_FOLLOW_UP),
       a_outcome := Some (if digits = ''1'' then ''acknowledged'' else ''callback_requested''),
       a_completed_at := Some now, a_next_action_at := None, a_updated_at := now, a_version := a_version a + 1\<rparr>"

definition gather_step :: "'p coord_env \<Rightarrow> dispatch_case \<Rightarrow> call_attempt \<Rightarrow> datetime \<Rightarrow> string list \<Rightarrow> string \<Rightarrow>
    ('p, dispatch_case) coord_op" where
  "gather_step env c attempt now dedupe digits s =
     (let kind = (if digits = ''1'' then E_ACKNOWLEDGED else E_MANUAL_FOLLOW_UP) in
     if digits \<notin> {''1'', ''2''} then
       and_then (record_event env c attempt E_INVALID_GATHER_INPUT now dedupe None s) (\<lambda>_ s.
       on_repo (get_case (c_tenant_id c) (c_case_id c)) s)
     else if c_status c \<in> {D_ACKNOWLEDGED, D_MANUAL_FOLLOW_UP, D_CANCELED} then
       and_then (record_event env c attempt kind now dedupe None s) (\<lambda>_ s.
       on_repo (get_case (c_tenant_id c) (c_case_id c)) s)
     else
       and_then (lift (new_attempt (gather_attempt attempt digits now)) s) (\<lambda>updated_attempt s.
       and_then (lift (new_case (gather_case c digits now)) s) (\<lambda>updated_case s.
       and_then (apply_update env c attempt updated_case updated_attempt kind now dedupe None s) (\<lambda>_ s.
       on_repo (get_case (c_tenant_id c) (c_case_id c)) s))))"

definition handle_gather :: "'p coord_env \<Rightarrow> string \<Rightarrow> string \<Rightarrow> string \<Rightarrow> string \<Rightarrow> datetime option \<Rightarrow>
    ('p, dispatch_case) coord_op" where
  "handle_gather env callback_token reference digits event_key occurred_at s =
     and_then (coord_resolve_callback env callback_token reference s) (\<lambda>found s.
     and_then (callback_time env occurred_at s) (\<lambda>now s.
     gather_step env (fst found) (snd found) now [''gather'', reference, digits] digits s))"

definition answering_machine_step :: "'p coord_env \<Rightarrow> dispatch_case \<Rightarrow> call_attempt \<Rightarrow> datetime \<Rightarrow> string list \<Rightarrow> string \<Rightarrow>
    ('p, dispatch_case) coord_op" where
  "answering_machine_step env c attempt now dedupe normalized s =
     (if terminal_dispatch (c_status c) \<or> terminal_attempt (a_status attempt) then
       and_then (record_event env c attempt E_ANSWERING_MACHINE now dedupe (Some normalized) s) (\<lambda>_ s.
       on_repo (get_case (c_tenant_id c) (c_case_id c)) s)
     else if normalized = ''human'' then
       and_then (record_event env c attempt E_ANSWERING_MACHINE now dedupe (Some normalized) s) (\<lambda>_ s. (Inr c, s))
     else
       and_then (unacknowledged env c attempt now ''no_acknowledgement'' s) (\<lambda>updated s.
       case updated of (updated_case, updated_attempt, kind) \<Rightarrow>
       and_then (apply_update env c attempt updated_case updated_attempt kind now dedupe (Some normalized) s) (\<lambda>_ s.
       on_repo (get_case (c_tenant_id c) (c_case_id c)) s)))"

definition handle_answering_machine :: "'p coord_env \<Rightarrow> string \<Rightarrow> string \<Rightarrow> string \<Rightarrow> string \<Rightarrow> datetime option \<Rightarrow>
    ('p, dispatch_case) coord_op" where
  "handle_answering_machine env callback_token reference result event_key occurred_at s =
     (let normalized = normalize_status result in
     and_then (raise_if (normalized \<notin> amd_results) (validation_error ''twilio_amd_result_invalid'') s) (\<lambda>_ s.
     and_then (coord_resolve_callback env callback_token reference s) (\<lambda>found s.
     and_then (callback_time env occurred_at s) (\<lambda>now s.
     answering_machine_step env (fst found) (snd found) now [''amd'', reference, normalized] normalized s))))"

section \<open>Cancellation and exhausted delivery\<close>

text \<open>The last attempt that is not terminal, if any.\<close>

definition active_attempt :: "call_attempt list \<Rightarrow> call_attempt option" where
  "active_attempt attempts =
     (let active = filter (\<lambda>a. \<not> terminal_attempt (a_status a)) attempts in
      if active = [] then None else Some (last active))"

definition closed_case :: "dispatch_case \<Rightarrow> dispatch_status \<Rightarrow> datetime \<Rightarrow> dispatch_case" where
  "closed_case c status now = c\<lparr>c_status := status, c_next_attempt_at := None,
     c_final_outcome := Some (dispatch_status_value status), c_closed_at := Some now, c_updated_at := now,
     c_version := c_version c + 1\<rparr>"

definition cancel_provider_call :: "'p coord_env \<Rightarrow> call_attempt \<Rightarrow> ('p, unit) coord_op" where
  "cancel_provider_call env a s =
     (let reference = or_default (a_provider_call_reference a) [] in
      if reference = [] then (Inr (), s)
      else if prefix ''sha256:'' reference
      then (Inl (state_conflict ''dispatch_active_call_cancellation_unavailable''), s)
      else on_provider (ce_cancel env reference) s)"

text \<open>Closing a case together with its active attempt, if it has one.\<close>

definition canceled_attempt :: "call_attempt \<Rightarrow> datetime \<Rightarrow> call_attempt" where
  "canceled_attempt a now = a\<lparr>a_status := A_CANCELED, a_outcome := Some ''canceled'', a_completed_at := Some now,
     a_next_action_at := None, a_updated_at := now, a_version := a_version a + 1\<rparr>"

definition close_case :: "dispatch_case \<Rightarrow> dispatch_case \<Rightarrow> call_attempt option \<Rightarrow> (call_attempt \<Rightarrow> call_attempt) \<Rightarrow>
    dispatch_event \<Rightarrow> ('p, bool) coord_op" where
  "close_case c updated_case active update event s =
     (case active of
        None \<Rightarrow> on_repo (apply_case_transition updated_case event (c_version c)) s
      | Some a \<Rightarrow>
          and_then (lift (new_attempt (update a)) s) (\<lambda>updated_attempt s.
          on_repo (apply_transition updated_case updated_attempt event (c_version c) (a_version a)) s))"

definition cancel :: "'p coord_env \<Rightarrow> string \<Rightarrow> string \<Rightarrow> string \<Rightarrow> string \<Rightarrow> ('p, dispatch_case) coord_op" where
  "cancel env tenant_id case_id canceled_by event_key s =
     and_then (raise_if (canceled_by = [] \<or> length canceled_by > 256)
                 (validation_error ''dispatch_cancellation_invalid'') s) (\<lambda>_ s.
     and_then (on_repo (get_case tenant_id case_id) s) (\<lambda>c s.
     if terminal_dispatch (c_status c) then (Inr c, s)
     else
     and_then (read_clock env ''cancellation time'' s) (\<lambda>now s.
     and_then (on_repo (list_attempts tenant_id case_id) s) (\<lambda>attempts s.
     let active = active_attempt attempts in
     and_then (make_event env c E_CANCELED now (map_option a_attempt_id active)
                 [''cancel'', tenant_id, case_id, event_key] None s) (\<lambda>event s.
     and_then (lift (new_case (closed_case c D_CANCELED now)) s) (\<lambda>updated_case s.
     and_then (case active of None \<Rightarrow> (Inr (), s) | Some a \<Rightarrow> cancel_provider_call env a s) (\<lambda>_ s.
     and_then (close_case c updated_case active (\<lambda>a. canceled_attempt a now) event s) (\<lambda>_ s.
     on_repo (get_case tenant_id case_id) s))))))))"

definition exhausted_attempt :: "call_attempt \<Rightarrow> datetime \<Rightarrow> call_attempt" where
  "exhausted_attempt a now = a\<lparr>a_status := A_MANUAL_FOLLOW_UP, a_outcome := Some ''failed'',
     a_completed_at := (case a_completed_at a of None \<Rightarrow> Some now | Some t \<Rightarrow> Some t), a_next_action_at := None,
     a_safe_error_code := Some ''dispatch_delivery_exhausted'', a_updated_at := now, a_version := a_version a + 1\<rparr>"

text \<open>The two iterations of the loop: a repository conflict in the first one starts the second.\<close>

primrec exhaust_loop :: "nat \<Rightarrow> 'p coord_env \<Rightarrow> string \<Rightarrow> string \<Rightarrow> ('p, dispatch_case) coord_op" where
  "exhaust_loop 0 env tenant_id case_id s = (Inl repository_conflict, s)"
| "exhaust_loop (Suc n) env tenant_id case_id s =
     and_then (on_repo (get_case tenant_id case_id) s) (\<lambda>c s.
     if terminal_dispatch (c_status c) then (Inr c, s)
     else
     and_then (read_clock env ''delivery exhaustion time'' s) (\<lambda>now s.
     and_then (on_repo (list_attempts tenant_id case_id) s) (\<lambda>attempts s.
     let active = active_attempt attempts in
     and_then (make_event env c E_MANUAL_FOLLOW_UP now (map_option a_attempt_id active)
                 [''delivery-exhausted'', tenant_id, case_id] (Some ''dispatch_delivery_exhausted'') s) (\<lambda>event s.
     and_then (lift (new_case (closed_case c D_MANUAL_FOLLOW_UP now)) s) (\<lambda>updated_case s.
     case close_case c updated_case active (\<lambda>a. exhausted_attempt a now) event s of
       (Inl e, s) \<Rightarrow>
         if e = repository_conflict \<and> n \<noteq> 0 then exhaust_loop n env tenant_id case_id s else (Inl e, s)
     | (Inr _, s) \<Rightarrow> on_repo (get_case tenant_id case_id) s)))))"

definition mark_delivery_exhausted :: "'p coord_env \<Rightarrow> string \<Rightarrow> string \<Rightarrow> ('p, dispatch_case) coord_op" where
  "mark_delivery_exhausted = exhaust_loop 2"

definition voice_script :: "'p coord_env \<Rightarrow> string \<Rightarrow> string \<Rightarrow> ('p, call_script) coord_op" where
  "voice_script env callback_token reference s =
     and_then (coord_resolve_callback env callback_token reference s) (\<lambda>found s.
     and_then (raise_if (terminal_dispatch (c_status (fst found))) (state_conflict ''dispatch_case_terminal'') s) (\<lambda>_ s.
     lift (case_script (fst found)) s))"

section \<open>Operations and runs\<close>

text \<open>
  Every public method, and the administrator's \<open>upsert\<close> of the directory the coordinator shares,
  as one operation of a run.
\<close>

datatype service_op =
    Op_authorize confirmed_incident string string bool "string option"
  | Op_dispatch_next string string
  | Op_status string string string string "datetime option"
  | Op_gather string string string string "datetime option"
  | Op_answering_machine string string string string "datetime option"
  | Op_cancel string string string string
  | Op_delivery_exhausted string string
  | Op_voice_script string string
  | Op_upsert_contact response_contact

definition upsert_contact :: "tzdb \<Rightarrow> response_contact \<Rightarrow> 'p coordinator \<Rightarrow> 'p coordinator" where
  "upsert_contact tz k s =
     (if contact_post_init tz k = None then s\<lparr>co_directory := upsert k (co_directory s)\<rparr> else s)"

fun service_step :: "'p coord_env \<Rightarrow> service_op \<Rightarrow> 'p coordinator \<Rightarrow> 'p coordinator" where
  "service_step env (Op_authorize i by key flag version) s = snd (authorize env i by key flag version s)"
| "service_step env (Op_dispatch_next t c) s = snd (dispatch_next env t c s)"
| "service_step env (Op_status tok ref st ek at) s = snd (handle_status env tok ref st ek at s)"
| "service_step env (Op_gather tok ref ds ek at) s = snd (handle_gather env tok ref ds ek at s)"
| "service_step env (Op_answering_machine tok ref res ek at) s = snd (handle_answering_machine env tok ref res ek at s)"
| "service_step env (Op_cancel t c by ek) s = snd (cancel env t c by ek s)"
| "service_step env (Op_delivery_exhausted t c) s = snd (mark_delivery_exhausted env t c s)"
| "service_step env (Op_voice_script tok ref) s = snd (voice_script env tok ref s)"
| "service_step env (Op_upsert_contact k) s = upsert_contact (ce_tz env) k s"

definition run :: "'p coord_env \<Rightarrow> service_op list \<Rightarrow> 'p coordinator \<Rightarrow> 'p coordinator" where
  "run env ops s = fold (service_step env) ops s"

end
