(* ===== verification/Dispatch_Repository_Inv.thy ===== *)
theory Dispatch_Repository_Inv
  imports Dispatch_Repository
begin

text \<open>
  The invariant of the dispatch repository and its preservation: each operation, given records
  that are a legal successor of the stored ones, keeps it, and an operation that raises leaves
  the repository as it was. The invariant says that the dicts agree with each other, that every
  record is valid, that a case has at most three attempts, numbered in order, addressed to the
  primary contact twice and then to the supervisor, of which all but the last are finished, and
  that the submission state matches the provider reference of its attempt.
\<close>

section \<open>The invariant\<close>

definition contact_for :: "dispatch_case \<Rightarrow> contact_role \<Rightarrow> string" where
  "contact_for c role = (if role = Role_PRIMARY then c_primary_contact_id c else c_supervisor_contact_id c)"

definition attempt_slot :: "repository \<Rightarrow> dispatch_case \<Rightarrow> nat \<Rightarrow> nat \<Rightarrow> string \<Rightarrow> bool" where
  "attempt_slot r c n j i \<longleftrightarrow> (\<exists>a. rp_attempts r (c_tenant_id c, i) = Some a \<and> a_case_id a = c_case_id c \<and>
     a_sequence a = int j + 1 \<and> a_contact_id a = contact_for c (a_target_role a) \<and>
     (Suc j < n \<longrightarrow> terminal_attempt (a_status a)))"

definition case_attempts :: "repository \<Rightarrow> dispatch_case \<Rightarrow> string list \<Rightarrow> bool" where
  "case_attempts r c ids \<longleftrightarrow> distinct ids \<and> length ids \<le> 3 \<and> c_attempt_count c = int (length ids) \<and>
     (\<forall>j < length ids. attempt_slot r c (length ids) j (ids ! j))"

definition cases_ok :: "repository \<Rightarrow> bool" where
  "cases_ok r \<longleftrightarrow> (\<forall>t i c. rp_cases r (t, i) = Some c \<longrightarrow>
     c_tenant_id c = t \<and> c_case_id c = i \<and> valid_case c \<and> rp_events r (t, i) \<noteq> None \<and>
     (\<exists>ids. rp_attempt_ids r (t, i) = Some ids \<and> case_attempts r c ids))"

definition submission_ok :: "dispatch_case \<Rightarrow> call_attempt \<Rightarrow> provider_submission \<Rightarrow> bool" where
  "submission_ok c a s \<longleftrightarrow>
     (a_provider_call_reference a = None \<longleftrightarrow> s_state s \<noteq> S_SUBMITTED) \<and>
     (s_state s = S_CLAIMED \<longrightarrow> s_owner_hash s \<noteq> None \<and> s_claimed_at s \<noteq> None \<and> s_deadline s \<noteq> None) \<and>
     aware_opt (s_claimed_at s) \<and> aware_opt (s_deadline s) \<and>
     (s_state s = S_UNCERTAIN \<longrightarrow> terminal_dispatch (c_status c)) \<and>
     (terminal_attempt (a_status a) \<longrightarrow> terminal_dispatch (c_status c) \<or> s_state s = S_SUBMITTED) \<and>
     (\<not> terminal_attempt (a_status a) \<longrightarrow>
        (a_status a \<in> {A_RESERVED, A_PROVIDER_RETRY} \<longleftrightarrow> a_provider_call_reference a = None))"

definition attempts_ok :: "repository \<Rightarrow> bool" where
  "attempts_ok r \<longleftrightarrow> (\<forall>t i a. rp_attempts r (t, i) = Some a \<longrightarrow>
     a_tenant_id a = t \<and> a_attempt_id a = i \<and> valid_attempt a \<and> rp_callback r (a_callback_token a) = Some (t, i) \<and>
     (\<exists>c ids s. rp_cases r (t, a_case_id a) = Some c \<and> rp_attempt_ids r (t, a_case_id a) = Some ids \<and>
        i \<in> set ids \<and> rp_submissions r (t, i) = Some s \<and> submission_ok c a s))"

definition callbacks_ok :: "repository \<Rightarrow> bool" where
  "callbacks_ok r \<longleftrightarrow> (\<forall>tok m. rp_callback r tok = Some m \<longrightarrow>
     (\<exists>a. rp_attempts r m = Some a \<and> a_callback_token a = tok))"

definition idempotency_ok :: "repository \<Rightarrow> bool" where
  "idempotency_ok r \<longleftrightarrow> (\<forall>t k i. rp_idempotency r (t, k) = Some i \<longrightarrow> rp_cases r (t, i) \<noteq> None)"

definition events_ok :: "repository \<Rightarrow> bool" where
  "events_ok r \<longleftrightarrow> (\<forall>t i es. rp_events r (t, i) = Some es \<longrightarrow> rp_cases r (t, i) \<noteq> None \<and>
     (\<forall>e \<in> set es. e_tenant_id e = t \<and> e_case_id e = i \<and> (t, e_deduplication_key e) \<in> rp_dedupe r))"

definition repo_inv :: "repository \<Rightarrow> bool" where
  "repo_inv r \<longleftrightarrow> cases_ok r \<and> attempts_ok r \<and> callbacks_ok r \<and> idempotency_ok r \<and> events_ok r"

lemmas repo_inv_defs = repo_inv_def cases_ok_def attempts_ok_def callbacks_ok_def idempotency_ok_def events_ok_def

lemma empty_repository_inv: "repo_inv empty_repository"
  by (simp add: repo_inv_defs empty_repository_def)

section \<open>Reading the invariant\<close>

lemma repo_caseD:
  assumes "repo_inv r" and "rp_cases r (t, i) = Some c"
  shows "c_tenant_id c = t" "c_case_id c = i" "valid_case c" "rp_events r (t, i) \<noteq> None"
    "\<exists>ids. rp_attempt_ids r (t, i) = Some ids \<and> case_attempts r c ids"
  using assms by (auto simp: repo_inv_defs)

lemma repo_attemptD:
  assumes "repo_inv r" and "rp_attempts r (t, i) = Some a"
  shows "a_tenant_id a = t" "a_attempt_id a = i" "valid_attempt a" "rp_callback r (a_callback_token a) = Some (t, i)"
    "\<exists>c ids s. rp_cases r (t, a_case_id a) = Some c \<and> rp_attempt_ids r (t, a_case_id a) = Some ids \<and>
        i \<in> set ids \<and> rp_submissions r (t, i) = Some s \<and> submission_ok c a s"
proof -
  from assms(1) have "attempts_ok r" by (simp add: repo_inv_def)
  from this [unfolded attempts_ok_def, rule_format, OF assms(2)]
  show "a_tenant_id a = t" "a_attempt_id a = i" "valid_attempt a" "rp_callback r (a_callback_token a) = Some (t, i)"
    "\<exists>c ids s. rp_cases r (t, a_case_id a) = Some c \<and> rp_attempt_ids r (t, a_case_id a) = Some ids \<and>
        i \<in> set ids \<and> rp_submissions r (t, i) = Some s \<and> submission_ok c a s"
    by simp_all
qed

lemma repo_callbackD:
  assumes "repo_inv r" and "rp_callback r tok = Some m"
  shows "\<exists>a. rp_attempts r m = Some a \<and> a_callback_token a = tok"
  using assms by (cases m) (simp add: repo_inv_def callbacks_ok_def)

lemma attempts_at_Inr:
  "attempts_at r t ids = Inr as \<longleftrightarrow>
     length as = length ids \<and> (\<forall>j < length ids. rp_attempts r (t, ids ! j) = Some (as ! j))"
proof (induction ids arbitrary: as)
  case Nil
  show ?case by auto
next
  case (Cons i ids)
  show ?case
    using Cons.IH [of "tl as"]
    by (cases as; cases "attempts_at r t ids") (auto simp: All_less_Suc2 split: option.splits)
qed

lemma case_attempts_read:
  assumes "case_attempts r c ids"
  obtains as where "attempts_at r (c_tenant_id c) ids = Inr as" and "length as = length ids"
    and "\<And>j. j < length ids \<Longrightarrow> rp_attempts r (c_tenant_id c, ids ! j) = Some (as ! j)"
    and "\<And>j. j < length ids \<Longrightarrow> a_sequence (as ! j) = int j + 1"
    and "\<And>j. Suc j < length ids \<Longrightarrow> terminal_attempt (a_status (as ! j))"
proof -
  have slot: "attempt_slot r c (length ids) j (ids ! j)" if "j < length ids" for j
    using assms that by (simp add: case_attempts_def)
  let ?as = "map (\<lambda>i. the (rp_attempts r (c_tenant_id c, i))) ids"
  have "rp_attempts r (c_tenant_id c, ids ! j) = Some (?as ! j)" if "j < length ids" for j
    using slot [OF that] that by (auto simp: attempt_slot_def)
  then have "attempts_at r (c_tenant_id c) ids = Inr ?as" by (simp add: attempts_at_Inr)
  then obtain as where at: "attempts_at r (c_tenant_id c) ids = Inr as" ..
  then have len: "length as = length ids"
    and lk: "\<And>j. j < length ids \<Longrightarrow> rp_attempts r (c_tenant_id c, ids ! j) = Some (as ! j)"
    by (simp_all add: attempts_at_Inr)
  have sq: "a_sequence (as ! j) = int j + 1" if "j < length ids" for j
    using slot [OF that] lk [OF that] by (auto simp: attempt_slot_def)
  have tm: "terminal_attempt (a_status (as ! j))" if "Suc j < length ids" for j
    using slot [of j] lk [of j] that by (auto simp: attempt_slot_def)
  show thesis by (rule that [OF at len lk sq tm])
qed

section \<open>Committing a legal successor\<close>

definition legal_step :: "dispatch_case \<Rightarrow> call_attempt \<Rightarrow> dispatch_case \<Rightarrow> call_attempt \<Rightarrow> bool" where
  "legal_step c a c' a' \<longleftrightarrow> same_case c c' \<and> same_attempt a a' \<and> valid_case c' \<and> valid_attempt a' \<and>
     c_attempt_count c' = c_attempt_count c \<and>
     (terminal_attempt (a_status a) \<longrightarrow> terminal_attempt (a_status a')) \<and>
     (terminal_dispatch (c_status c) \<longrightarrow> terminal_dispatch (c_status c'))"

lemma attempt_slot_same_case:
  "same_case c c' \<Longrightarrow> attempt_slot r c' n j i = attempt_slot r c n j i"
  by (simp add: attempt_slot_def contact_for_def same_case_fields)

lemma attempt_slot_update:
  assumes "attempt_slot r c n j i" and "rp_attempts r k = Some a" and "same_attempt a a'"
    and "terminal_attempt (a_status a) \<longrightarrow> terminal_attempt (a_status a')"
    and "rp_attempts r' = (rp_attempts r)(k \<mapsto> a')"
  shows "attempt_slot r' c n j i"
  using assms by (auto simp: attempt_slot_def same_attempt_fields)

lemma submission_ok_case_mono:
  "submission_ok c a s \<Longrightarrow> (terminal_dispatch (c_status c) \<longrightarrow> terminal_dispatch (c_status c')) \<Longrightarrow> submission_ok c' a s"
  by (auto simp: submission_ok_def)

lemma commit_inv:
  assumes inv: "repo_inv r" and c: "rp_cases r (t, i) = Some c" and a: "rp_attempts r (t, n) = Some a"
    and ai: "a_case_id a = i" and legal: "legal_step c a c' a'" and sub: "submission_ok c' a' s'"
  shows "repo_inv (r\<lparr>rp_cases := (rp_cases r)((t, i) \<mapsto> c'), rp_attempts := (rp_attempts r)((t, n) \<mapsto> a'),
      rp_submissions := (rp_submissions r)((t, n) \<mapsto> s')\<rparr>)" (is "repo_inv ?r")
proof -
  note L = legal [unfolded legal_step_def]
  have sc: "same_case c c'" and sa: "same_attempt a a'" using L by auto
  note cf = same_case_fields [OF sc] and af = same_attempt_fields [OF sa]
  have slots: "attempt_slot ?r d m j x" if "attempt_slot r d m j x" for d m j x
    by (rule attempt_slot_update [OF that a sa]) (use L in auto)
  have "cases_ok ?r"
  proof -
    have "case_attempts ?r d ids" if "case_attempts r d ids" for d ids
      using that slots by (auto simp: case_attempts_def)
    moreover have "case_attempts ?r c' ids" if "case_attempts r c ids" for ids
      using that slots L by (auto simp: case_attempts_def attempt_slot_same_case [OF sc])
    note keep = this calculation
    show ?thesis
      unfolding cases_ok_def
    proof (intro allI impI)
      fix u x d assume d: "rp_cases ?r (u, x) = Some d"
      show "c_tenant_id d = u \<and> c_case_id d = x \<and> valid_case d \<and> rp_events ?r (u, x) \<noteq> None \<and>
         (\<exists>ids. rp_attempt_ids ?r (u, x) = Some ids \<and> case_attempts ?r d ids)"
      proof (cases "(u, x) = (t, i)")
        case True
        with d have "d = c'" by simp
        with True repo_caseD [OF inv c] L cf keep(1) show ?thesis by auto
      next
        case False
        with d have "rp_cases r (u, x) = Some d" by auto
        from repo_caseD [OF inv this] keep(2) show ?thesis by auto
      qed
    qed
  qed
  moreover have "attempts_ok ?r"
    unfolding attempts_ok_def
  proof (intro allI impI)
    fix u x b assume b: "rp_attempts ?r (u, x) = Some b"
    show "a_tenant_id b = u \<and> a_attempt_id b = x \<and> valid_attempt b \<and> rp_callback ?r (a_callback_token b) = Some (u, x) \<and>
     (\<exists>c ids s. rp_cases ?r (u, a_case_id b) = Some c \<and> rp_attempt_ids ?r (u, a_case_id b) = Some ids \<and>
        x \<in> set ids \<and> rp_submissions ?r (u, x) = Some s \<and> submission_ok c b s)"
    proof (cases "(u, x) = (t, n)")
      case True
      with b have "b = a'" by simp
      with True repo_attemptD [OF inv a] L af ai sub show ?thesis by auto
    next
      case False
      with b have b': "rp_attempts r (u, x) = Some b" by auto
      note D = repo_attemptD [OF inv b']
      show ?thesis
        using D False c L by (auto intro: submission_ok_case_mono)
    qed
  qed
  moreover have "callbacks_ok ?r"
    using a af by (fastforce simp: callbacks_ok_def dest: repo_callbackD [OF inv])
  moreover have "idempotency_ok ?r" "events_ok ?r"
    using inv by (auto simp: repo_inv_def idempotency_ok_def events_ok_def)
  ultimately show ?thesis by (simp add: repo_inv_def)
qed

lemma commit_inv_same_submission:
  assumes "repo_inv r" and "rp_cases r (t, i) = Some c" and "rp_attempts r (t, n) = Some a"
    and "a_case_id a = i" and "legal_step c a c' a'" and "rp_submissions r (t, n) = Some s" and "submission_ok c' a' s"
  shows "repo_inv (r\<lparr>rp_cases := (rp_cases r)((t, i) \<mapsto> c'), rp_attempts := (rp_attempts r)((t, n) \<mapsto> a')\<rparr>)"
  using commit_inv [OF assms(1-5,7)] assms(6) by (simp add: fun_upd_idem)

lemma commit_case_inv:
  assumes inv: "repo_inv r" and c: "rp_cases r (t, i) = Some c" and sc: "same_case c c'" and v: "valid_case c'"
    and n: "c_attempt_count c' = c_attempt_count c"
    and tmd: "terminal_dispatch (c_status c) \<longrightarrow> terminal_dispatch (c_status c')"
  shows "repo_inv (r\<lparr>rp_cases := (rp_cases r)((t, i) \<mapsto> c')\<rparr>)" (is "repo_inv ?r")
proof -
  note cf = same_case_fields [OF sc]
  have slots: "attempt_slot ?r d m j x = attempt_slot r d m j x" for d m j x
    by (simp add: attempt_slot_def)
  then have "cases_ok ?r"
    using repo_caseD [OF inv] c v n cf
    by (auto simp: cases_ok_def case_attempts_def attempt_slot_same_case [OF sc])
  moreover have "attempts_ok ?r"
    unfolding attempts_ok_def
  proof (intro allI impI)
    fix u x b assume "rp_attempts ?r (u, x) = Some b"
    then have b: "rp_attempts r (u, x) = Some b" by simp
    have mono: "submission_ok c b s \<Longrightarrow> submission_ok c' b s" for s
      by (erule submission_ok_case_mono [OF _ tmd])
    from repo_attemptD [OF inv b] c mono
    show "a_tenant_id b = u \<and> a_attempt_id b = x \<and> valid_attempt b \<and> rp_callback ?r (a_callback_token b) = Some (u, x) \<and>
     (\<exists>c ids s. rp_cases ?r (u, a_case_id b) = Some c \<and> rp_attempt_ids ?r (u, a_case_id b) = Some ids \<and>
        x \<in> set ids \<and> rp_submissions ?r (u, x) = Some s \<and> submission_ok c b s)"
      by auto
  qed
  moreover have "callbacks_ok ?r" "idempotency_ok ?r" "events_ok ?r"
    using inv by (auto simp: repo_inv_def callbacks_ok_def idempotency_ok_def events_ok_def)
  ultimately show ?thesis by (simp add: repo_inv_def)
qed

lemma append_event_locked_inv:
  assumes "repo_inv r" and "append_event_locked e r = (x, r')"
  shows "repo_inv r'"
proof (cases "rp_events r (e_tenant_id e, e_case_id e)")
  case None
  with assms show ?thesis by (simp add: append_event_locked_def)
next
  case (Some es)
  with assms(2) have r': "r' = r\<lparr>rp_events := (rp_events r)((e_tenant_id e, e_case_id e) \<mapsto> es @ [e]),
      rp_dedupe := insert (e_tenant_id e, e_deduplication_key e) (rp_dedupe r)\<rparr>"
    by (simp add: append_event_locked_def)
  have slots: "attempt_slot r' d m j x = attempt_slot r d m j x" for d m j x
    by (simp add: attempt_slot_def r')
  have "cases_ok r'"
    using repo_caseD [OF assms(1)] by (auto simp: cases_ok_def case_attempts_def slots) (auto simp: r' slots)
  moreover have "attempts_ok r'" "callbacks_ok r'" "idempotency_ok r'"
    using assms(1) by (auto simp: repo_inv_defs r')
  moreover have "events_ok r'"
    using assms(1) Some by (auto simp: repo_inv_def events_ok_def r')
  ultimately show ?thesis by (simp add: repo_inv_def)
qed

lemma append_event_locked_total:
  assumes "repo_inv r" and "rp_cases r (e_tenant_id e, e_case_id e) \<noteq> None"
  shows "\<exists>r'. append_event_locked e r = (Inr (), r') \<and> rp_cases r' = rp_cases r \<and> rp_attempts r' = rp_attempts r \<and>
    rp_submissions r' = rp_submissions r \<and> rp_callback r' = rp_callback r \<and> rp_idempotency r' = rp_idempotency r \<and>
    rp_attempt_ids r' = rp_attempt_ids r \<and> rp_dedupe r' = insert (e_tenant_id e, e_deduplication_key e) (rp_dedupe r)"
proof -
  from assms obtain es where "rp_events r (e_tenant_id e, e_case_id e) = Some es"
    by (fastforce simp: repo_inv_def cases_ok_def)
  then show ?thesis by (simp add: append_event_locked_def)
qed

section \<open>Each operation keeps the invariant\<close>

lemma append_event_locked_eq [effect_simps]:
  "append_event_locked e r = (Inr u, r') \<longleftrightarrow> (\<exists>es. rp_events r (e_tenant_id e, e_case_id e) = Some es \<and>
     r' = r\<lparr>rp_events := (rp_events r)((e_tenant_id e, e_case_id e) \<mapsto> es @ [e]),
            rp_dedupe := insert (e_tenant_id e, e_deduplication_key e) (rp_dedupe r)\<rparr>)"
  "append_event_locked e r = (Inl x, r') \<longleftrightarrow>
     rp_events r (e_tenant_id e, e_case_id e) = None \<and> x = key_error \<and> r' = r"
  by (auto simp: append_event_locked_def fetch_def split: option.splits)

lemma validate_event_None:
  "validate_event e c (Some a) = None \<longleftrightarrow> e_tenant_id e = c_tenant_id c \<and> e_case_id e = c_case_id c \<and>
     e_attempt_id e = Some (a_attempt_id a) \<and> a_tenant_id a = c_tenant_id c \<and> a_case_id a = c_case_id c"
  "validate_event e c None = None \<longleftrightarrow> e_tenant_id e = c_tenant_id c \<and> e_case_id e = c_case_id c \<and> e_attempt_id e = None"
  by (auto simp: validate_event_def)

lemma get_case_eq [effect_simps]:
  "get_case t i r = (Inr c, r') \<longleftrightarrow> rp_cases r (t, i) = Some c \<and> r' = r"
  "get_case t i r = (Inl e, r') \<longleftrightarrow> rp_cases r (t, i) = None \<and> e = not_found \<and> r' = r"
  by (auto simp: get_case_def effect_simps)

lemma resolve_callback_unchanged: "resolve_callback tok r = (x, r') \<Longrightarrow> r' = r"
  by (cases x) (auto simp: resolve_callback_def effect_simps)

lemma resolve_callback_read:
  assumes "repo_inv r" and "rp_callback r tok = Some (t, n)"
  shows "\<exists>a c. rp_attempts r (t, n) = Some a \<and> rp_cases r (t, a_case_id a) = Some c \<and> a_callback_token a = tok \<and>
     resolve_callback tok r = (Inr (c, a), r)"
proof -
  from repo_callbackD [OF assms] obtain a where a: "rp_attempts r (t, n) = Some a" "a_callback_token a = tok"
    by auto
  from repo_attemptD(5) [OF assms(1) a(1)] obtain c where "rp_cases r (t, a_case_id a) = Some c" by auto
  with a assms(2) show ?thesis by (simp add: resolve_callback_def)
qed

lemma resolve_callback_Inr:
  assumes "resolve_callback tok r = (Inr (c, a), r')"
  shows "\<exists>t n. r' = r \<and> rp_callback r tok = Some (t, n) \<and> rp_attempts r (t, n) = Some a \<and>
     rp_cases r (t, a_case_id a) = Some c"
  using assms by (auto simp: resolve_callback_def effect_simps)

lemma create_case_inv:
  assumes inv: "repo_inv r" and v: "valid_case c" and z: "c_attempt_count c = 0"
    and op: "create_case c k ev r = (x, r')"
  shows "repo_inv r'"
proof (cases "r' = r")
  case False
  have fresh: "rp_idempotency r (c_tenant_id c, k) = None"
    using op False by (cases x) (auto simp: create_case_def Let_def effect_simps split: option.splits)
  with op False have new: "rp_cases r (c_tenant_id c, c_case_id c) = None"
    and ev: "validate_event ev c None = None"
    and r': "r' = r\<lparr>rp_cases := (rp_cases r)((c_tenant_id c, c_case_id c) \<mapsto> c),
             rp_idempotency := (rp_idempotency r)((c_tenant_id c, k) \<mapsto> c_case_id c),
             rp_attempt_ids := (rp_attempt_ids r)((c_tenant_id c, c_case_id c) \<mapsto> []),
             rp_events := (rp_events r)((c_tenant_id c, c_case_id c) \<mapsto> [ev]),
             rp_dedupe := insert (c_tenant_id c, e_deduplication_key ev) (rp_dedupe r)\<rparr>"
    by (cases x; auto simp: create_case_def effect_simps Let_def)+
  have slots: "attempt_slot r' d m j y = attempt_slot r d m j y" for d m j y
    by (simp add: attempt_slot_def r')
  have "cases_ok r'"
    unfolding cases_ok_def
  proof (intro allI impI)
    fix u x d assume d: "rp_cases r' (u, x) = Some d"
    show "c_tenant_id d = u \<and> c_case_id d = x \<and> valid_case d \<and> rp_events r' (u, x) \<noteq> None \<and>
       (\<exists>ids. rp_attempt_ids r' (u, x) = Some ids \<and> case_attempts r' d ids)"
    proof (cases "(u, x) = (c_tenant_id c, c_case_id c)")
      case True
      with d v z show ?thesis by (auto simp: r' case_attempts_def)
    next
      case False
      with d have "rp_cases r (u, x) = Some d" by (auto simp: r')
      from repo_caseD [OF inv this] False show ?thesis by (auto simp: case_attempts_def slots) (auto simp: r')
    qed
  qed
  moreover have "attempts_ok r'"
    unfolding attempts_ok_def
  proof (intro allI impI)
    fix u y b assume "rp_attempts r' (u, y) = Some b"
    then have b: "rp_attempts r (u, y) = Some b" by (simp add: r')
    note D = repo_attemptD [OF inv b]
    then have "(u, a_case_id b) \<noteq> (c_tenant_id c, c_case_id c)" using new by auto
    with D show "a_tenant_id b = u \<and> a_attempt_id b = y \<and> valid_attempt b \<and> rp_callback r' (a_callback_token b) = Some (u, y) \<and>
     (\<exists>c ids s. rp_cases r' (u, a_case_id b) = Some c \<and> rp_attempt_ids r' (u, a_case_id b) = Some ids \<and>
        y \<in> set ids \<and> rp_submissions r' (u, y) = Some s \<and> submission_ok c b s)"
      by (simp add: r')
  qed
  moreover have "callbacks_ok r'" "idempotency_ok r'"
    using inv by (auto simp: repo_inv_def callbacks_ok_def idempotency_ok_def r')
  moreover have "events_ok r'"
    using inv ev by (auto simp: repo_inv_def events_ok_def r' validate_event_None)
  ultimately show ?thesis by (simp add: repo_inv_def)
qed (simp add: inv)

lemma create_case_error: "create_case c k ev r = (Inl e, r') \<Longrightarrow> r' = r"
  by (auto simp: create_case_def effect_simps Let_def split: option.splits)

lemma create_case_stored:
  assumes inv: "repo_inv r" and op: "create_case c k ev r = (Inr (d, b), r')"
  shows "rp_cases r' (c_tenant_id c, c_case_id d) = Some d \<and>
     rp_idempotency r' (c_tenant_id c, k) = Some (c_case_id d) \<and> (b \<longrightarrow> d = c) \<and> (\<not> b \<longrightarrow> r' = r)"
  using op repo_caseD(2) [OF inv]
  by (auto simp: create_case_def effect_simps Let_def split: option.splits)

lemma reserve_commit_inv:
  assumes inv: "repo_inv r" and c: "rp_cases r (t, i) = Some c" and ids: "rp_attempt_ids r (t, i) = Some ids"
    and fin: "\<forall>j < length ids. \<forall>a. rp_attempts r (t, ids ! j) = Some a \<longrightarrow> terminal_attempt (a_status a)"
    and few: "length ids < 3" and a: "a = reserved_attempt c (int (length ids) + 1) n tok now" and va: "valid_attempt a"
    and c': "c' = c\<lparr>c_status := D_DIALING, c_next_attempt_at := None, c_attempt_count := int (length ids) + 1,
                c_updated_at := now, c_version := c_version c + 1\<rparr>" and vc: "valid_case c'"
    and open_case: "\<not> terminal_dispatch (c_status c)"
    and new: "rp_attempts r (t, n) = None" "rp_callback r tok = None"
  shows "repo_inv (r\<lparr>rp_cases := (rp_cases r)((t, i) \<mapsto> c'), rp_attempts := (rp_attempts r)((t, n) \<mapsto> a),
           rp_submissions := (rp_submissions r)((t, n) \<mapsto> fresh_submission),
           rp_attempt_ids := (rp_attempt_ids r)((t, i) \<mapsto> ids @ [n]),
           rp_callback := (rp_callback r)(tok \<mapsto> (t, n))\<rparr>)" (is "repo_inv ?r")
proof -
  have cid: "c_tenant_id c = t" "c_case_id c = i" and att: "case_attempts r c ids"
    using repo_caseD [OF inv c] ids by auto
  have sc: "same_case c c'" by (simp add: c' same_case_def)
  note cf = same_case_fields [OF sc]
  have af: "a_tenant_id a = t" "a_attempt_id a = n" "a_case_id a = i" "a_callback_token a = tok"
    by (simp_all add: a reserved_attempt_def cid)
  have slots: "attempt_slot r d m j y \<Longrightarrow> attempt_slot ?r d m j y" for d m j y
    using new(1) by (auto simp: attempt_slot_def)
  have "case_attempts ?r c' (ids @ [n])"
  proof -
    have "n \<notin> set ids"
      using att new(1) by (auto simp: case_attempts_def attempt_slot_def in_set_conv_nth cid)
    moreover have "attempt_slot ?r c' (length (ids @ [n])) j ((ids @ [n]) ! j)" if "j < length (ids @ [n])" for j
    proof (cases "j = length ids")
      case True
      then show ?thesis
        by (simp add: attempt_slot_def cf cid a reserved_attempt_def contact_for_def)
    next
      case False
      with that have j: "j < length ids" by simp
      with att have "attempt_slot r c (length ids) j (ids ! j)" by (simp add: case_attempts_def)
      with j fin have "attempt_slot r c (length (ids @ [n])) j (ids ! j)"
        by (auto simp: attempt_slot_def cid)
      with j slots show ?thesis by (simp add: attempt_slot_same_case [OF sc] nth_append)
    qed
    moreover have "distinct ids" using att by (simp add: case_attempts_def)
    ultimately show ?thesis using few by (simp add: case_attempts_def c')
  qed
  then have "cases_ok ?r"
    unfolding cases_ok_def
  proof (intro allI impI)
    fix u x d assume d: "rp_cases ?r (u, x) = Some d"
    show "c_tenant_id d = u \<and> c_case_id d = x \<and> valid_case d \<and> rp_events ?r (u, x) \<noteq> None \<and>
       (\<exists>ids. rp_attempt_ids ?r (u, x) = Some ids \<and> case_attempts ?r d ids)"
    proof (cases "(u, x) = (t, i)")
      case True
      with d have "d = c'" by simp
      with True repo_caseD [OF inv c] vc cf \<open>case_attempts ?r c' (ids @ [n])\<close> show ?thesis by auto
    next
      case False
      with d have "rp_cases r (u, x) = Some d" by auto
      from repo_caseD [OF inv this] slots False show ?thesis by (auto simp: case_attempts_def)
    qed
  qed
  moreover have "attempts_ok ?r"
    unfolding attempts_ok_def
  proof (intro allI impI)
    fix u x b assume b: "rp_attempts ?r (u, x) = Some b"
    show "a_tenant_id b = u \<and> a_attempt_id b = x \<and> valid_attempt b \<and> rp_callback ?r (a_callback_token b) = Some (u, x) \<and>
     (\<exists>c ids s. rp_cases ?r (u, a_case_id b) = Some c \<and> rp_attempt_ids ?r (u, a_case_id b) = Some ids \<and>
        x \<in> set ids \<and> rp_submissions ?r (u, x) = Some s \<and> submission_ok c b s)"
    proof (cases "(u, x) = (t, n)")
      case True
      with b have "b = a" by simp
      moreover have "submission_ok c' a fresh_submission"
        by (simp add: submission_ok_def fresh_submission_def a reserved_attempt_def)
      ultimately show ?thesis using True af va by auto
    next
      case False
      with b have b': "rp_attempts r (u, x) = Some b" by auto
      note D = repo_attemptD [OF inv b']
      have mono: "submission_ok c b s \<Longrightarrow> submission_ok c' b s" for s
        by (erule submission_ok_case_mono) (simp add: open_case)
      from D False c ids new mono show ?thesis by auto
    qed
  qed
  moreover have "callbacks_ok ?r"
    using new af by (auto simp: callbacks_ok_def dest!: repo_callbackD [OF inv])
  moreover have "idempotency_ok ?r" "events_ok ?r"
    using inv by (auto simp: repo_inv_def idempotency_ok_def events_ok_def)
  ultimately show ?thesis by (simp add: repo_inv_def)
qed

end
