(* ===== verification/Dispatch_Repository_Ops.thy ===== *)
theory Dispatch_Repository_Ops
  imports Dispatch_Repository_Inv
begin

text \<open>
  The repository operations one by one: what a successful call did, that it keeps the repository
  invariant, and that a call that raises changes nothing.
\<close>

lemma repo_no_events: "repo_inv r \<Longrightarrow> rp_events r (t, i) = None \<Longrightarrow> rp_cases r (t, i) = None"
  by (cases "rp_cases r (t, i)") (auto dest: repo_caseD(4))

section \<open>Reserving an attempt\<close>

definition reserved_case :: "dispatch_case \<Rightarrow> int \<Rightarrow> datetime \<Rightarrow> dispatch_case" where
  "reserved_case c n now = c\<lparr>c_status := D_DIALING, c_next_attempt_at := None, c_attempt_count := n,
     c_updated_at := now, c_version := c_version c + 1\<rparr>"

text \<open>The two ways a reservation succeeds: an active attempt is found, or a new one is recorded.\<close>

lemma reserve_cases:
  assumes inv: "repo_inv r" and op: "reserve_next_attempt t i n tok at ev r = (Inr v, r')"
  obtains (active) c a where "rp_cases r (t, i) = Some c" "rp_attempts r (t, a_attempt_id a) = Some a" "a_case_id a = i"
      "\<not> terminal_attempt (a_status a)" "r' = r" "v = \<lparr>rv_case = c, rv_attempt = a, rv_created = False\<rparr>"
  | (created) c ids a c' where "rp_cases r (t, i) = Some c" "rp_attempt_ids r (t, i) = Some ids"
      "\<forall>j < length ids. \<forall>a. rp_attempts r (t, ids ! j) = Some a \<longrightarrow> terminal_attempt (a_status a)"
      "length ids < 3" "a = reserved_attempt c (int (length ids) + 1) n tok (as_utc at)" "valid_attempt a"
      "c' = reserved_case c (int (length ids) + 1) (as_utc at)" "valid_case c'"
      "\<not> terminal_dispatch (c_status c)" "rp_attempts r (t, n) = None" "rp_callback r tok = None"
      "v = \<lparr>rv_case = c', rv_attempt = a, rv_created = True\<rparr>"
      "append_event_locked ev (r\<lparr>rp_cases := (rp_cases r)((t, i) \<mapsto> c'), rp_attempts := (rp_attempts r)((t, n) \<mapsto> a),
           rp_submissions := (rp_submissions r)((t, n) \<mapsto> fresh_submission),
           rp_attempt_ids := (rp_attempt_ids r)((t, i) \<mapsto> ids @ [n]),
           rp_callback := (rp_callback r)(tok \<mapsto> (t, n))\<rparr>) = (Inr (), r')"
proof -
  from op obtain c ids as where rd: "is_aware at" "rp_cases r (t, i) = Some c" "rp_attempt_ids r (t, i) = Some ids"
      "attempts_at r t ids = Inr as"
    by (auto simp: reserve_next_attempt_def effect_simps require_utc_def split: if_splits)
  have at: "length as = length ids" "\<forall>j < length ids. rp_attempts r (t, ids ! j) = Some (as ! j)"
    using rd(4) by (simp_all add: attempts_at_Inr)
  let ?active = "filter (\<lambda>a. \<not> terminal_attempt (a_status a)) as"
  show thesis
  proof (cases "?active = []")
    case False
    define b where "b = last ?active"
    from False have b: "b \<in> set as" "\<not> terminal_attempt (a_status b)"
      using filter_last_in [of "\<lambda>a. \<not> terminal_attempt (a_status a)" as] by (auto simp: b_def)
    then obtain j where j: "j < length ids" "b = as ! j" using at by (auto simp: in_set_conv_nth)
    have "case_attempts r c ids" "c_tenant_id c = t" "c_case_id c = i"
      using repo_caseD [OF inv rd(2)] rd(3) by auto
    then have bi: "a_case_id b = i" and bt: "rp_attempts r (t, ids ! j) = Some b"
      using j at by (auto simp: case_attempts_def attempt_slot_def)
    have "a_attempt_id b = ids ! j" using repo_attemptD(2) [OF inv bt] .
    with bt have "rp_attempts r (t, a_attempt_id b) = Some b" by simp
    from active [OF rd(2) this bi b(2)] op False rd show thesis
      by (simp add: reserve_next_attempt_def require_utc_def b_def)
  next
    case True
    then have tm: "\<forall>j < length ids. \<forall>a. rp_attempts r (t, ids ! j) = Some a \<longrightarrow> terminal_attempt (a_status a)"
      using at by (auto simp: filter_empty_conv)
    let ?a = "reserved_attempt c (int (length ids) + 1) n tok (as_utc at)"
    let ?c = "reserved_case c (int (length ids) + 1) (as_utc at)"
    have "length ids < 3 \<and> valid_attempt ?a \<and> valid_case ?c \<and> \<not> terminal_dispatch (c_status c) \<and>
        rp_attempts r (t, n) = None \<and> rp_callback r tok = None \<and>
        v = \<lparr>rv_case = ?c, rv_attempt = ?a, rv_created = True\<rparr> \<and>
        append_event_locked ev (r\<lparr>rp_cases := (rp_cases r)((t, i) \<mapsto> ?c), rp_attempts := (rp_attempts r)((t, n) \<mapsto> ?a),
           rp_submissions := (rp_submissions r)((t, n) \<mapsto> fresh_submission),
           rp_attempt_ids := (rp_attempt_ids r)((t, i) \<mapsto> ids @ [n]),
           rp_callback := (rp_callback r)(tok \<mapsto> (t, n))\<rparr>) = (Inr (), r')"
      using op True rd at(1)
      by (cases "rp_callback r tok") (auto simp add: reserve_next_attempt_def effect_simps require_utc_def Let_def new_attempt_Inr new_case_Inr
          reserved_case_def simp del: append_event_locked_eq)
    then show thesis by (intro created [OF rd(2,3) tm _ refl _ refl]) auto
  qed
qed

lemma reserve_inv:
  assumes inv: "repo_inv r" and op: "reserve_next_attempt t i n tok at ev r = (Inr v, r')"
  shows "repo_inv r'"
  using inv op
proof (cases rule: reserve_cases)
  case active
  then show ?thesis using inv by simp
next
  case (created c ids a c')
  from reserve_commit_inv [OF inv created(1,2,3,4,5,6) created(7) [unfolded reserved_case_def] created(8,9,10,11)]
  show ?thesis by (rule append_event_locked_inv) (rule created(13))
qed

lemma reserve_error:
  assumes inv: "repo_inv r" and op: "reserve_next_attempt t i n tok at ev r = (Inl e, r')"
  shows "r' = r"
  using op repo_caseD(1,2) [OF inv]
  by (auto simp: reserve_next_attempt_def effect_simps Let_def validate_event_None new_case_Inr
      dest!: repo_no_events [OF inv] split: if_splits)

section \<open>Claiming the submission\<close>

definition claimed_case :: "dispatch_case \<Rightarrow> datetime \<Rightarrow> datetime \<Rightarrow> dispatch_case" where
  "claimed_case c now expires = c\<lparr>c_next_attempt_at := Some expires, c_updated_at := now, c_version := c_version c + 1\<rparr>"

definition claimed_attempt :: "call_attempt \<Rightarrow> datetime \<Rightarrow> call_attempt" where
  "claimed_attempt a now = a\<lparr>a_updated_at := now, a_version := a_version a + 1\<rparr>"

definition claimed_submission :: "string \<Rightarrow> datetime \<Rightarrow> datetime \<Rightarrow> provider_submission" where
  "claimed_submission owner now expires = \<lparr>s_state = S_CLAIMED, s_owner_hash = Some owner, s_claimed_at = Some now,
     s_deadline = Some expires, s_completed_at = None\<rparr>"

lemma claim_cases:
  assumes op: "claim_provider_submission sha t i n tok at deadline r = (Inr v, r')"
  obtains (denied) c a s where "rp_cases r (t, i) = Some c" "rp_attempts r (t, n) = Some a" "a_case_id a = i"
      "rp_submissions r (t, n) = Some s" "r' = r" "cl_case v = c" "cl_attempt v = a" "\<not> cl_acquired v"
      "cl_stale v \<longrightarrow> \<not> terminal_dispatch (c_status c) \<and> s_state s = S_CLAIMED \<and>
         (\<exists>d. s_deadline s = Some d \<and> instant d \<le> instant at)"
  | (acquired) c a s c' a' where "rp_cases r (t, i) = Some c" "rp_attempts r (t, n) = Some a" "a_case_id a = i"
      "rp_submissions r (t, n) = Some s" "s_state s = S_PENDING" "a_status a \<in> {A_RESERVED, A_PROVIDER_RETRY}"
      "\<not> terminal_dispatch (c_status c)" "c' = claimed_case c (as_utc at) (as_utc deadline)" "valid_case c'"
      "a' = claimed_attempt a (as_utc at)" "valid_attempt a'"
      "v = \<lparr>cl_case = c', cl_attempt = a', cl_acquired = True, cl_stale = False, cl_retry_at = Some (as_utc deadline)\<rparr>"
      "r' = r\<lparr>rp_cases := (rp_cases r)((t, i) \<mapsto> c'), rp_attempts := (rp_attempts r)((t, n) \<mapsto> a'),
             rp_submissions := (rp_submissions r)((t, n) \<mapsto> claimed_submission (sha tok) (as_utc at) (as_utc deadline))\<rparr>"
proof -
  from op obtain c a s where rd: "is_aware at" "is_aware deadline" "\<not> (dt_le (as_utc deadline) (as_utc at) \<or> tok = [])"
      "rp_cases r (t, i) = Some c" "rp_attempts r (t, n) = Some a" "rp_submissions r (t, n) = Some s" "a_case_id a = i"
    by (auto simp: claim_provider_submission_def effect_simps require_utc_def split: if_splits)
  note simps = claim_provider_submission_def require_utc_def rd
  show thesis
  proof (cases "terminal_dispatch (c_status c) \<or> s_state s \<noteq> S_PENDING \<or> a_status a \<notin> {A_RESERVED, A_PROVIDER_RETRY}")
    case True
    have "r' = r \<and> cl_case v = c \<and> cl_attempt v = a \<and> \<not> cl_acquired v \<and>
       (cl_stale v \<longrightarrow> \<not> terminal_dispatch (c_status c) \<and> s_state s = S_CLAIMED \<and>
         (\<exists>d. s_deadline s = Some d \<and> instant d \<le> instant at))"
      using op True
      by (cases "s_state s") (auto simp: simps effect_simps claim_denied_def dt_le_def split: if_splits option.splits)
    then show thesis by (intro denied [OF rd(4,5,7,6)]) auto
  next
    case False
    then have "valid_case (claimed_case c (as_utc at) (as_utc deadline)) \<and> valid_attempt (claimed_attempt a (as_utc at)) \<and>
      v = \<lparr>cl_case = claimed_case c (as_utc at) (as_utc deadline), cl_attempt = claimed_attempt a (as_utc at),
           cl_acquired = True, cl_stale = False, cl_retry_at = Some (as_utc deadline)\<rparr> \<and>
      r' = r\<lparr>rp_cases := (rp_cases r)((t, i) \<mapsto> claimed_case c (as_utc at) (as_utc deadline)),
             rp_attempts := (rp_attempts r)((t, n) \<mapsto> claimed_attempt a (as_utc at)),
             rp_submissions := (rp_submissions r)((t, n) \<mapsto> claimed_submission (sha tok) (as_utc at) (as_utc deadline))\<rparr>"
      using op
      by (simp add: simps effect_simps new_case_Inr new_attempt_Inr claimed_case_def claimed_attempt_def
          claimed_submission_def)
    with False show thesis by (intro acquired [OF rd(4,5,7,6)]) auto
  qed
qed

lemma claim_inv:
  assumes inv: "repo_inv r" and op: "claim_provider_submission sha t i n tok at deadline r = (Inr v, r')"
  shows "repo_inv r'"
  using op
proof (cases rule: claim_cases)
  case denied
  then show ?thesis using inv by simp
next
  case (acquired c a s c' a')
  have "legal_step c a c' a'"
    using acquired by (simp add: legal_step_def same_case_def same_attempt_def claimed_case_def claimed_attempt_def)
  moreover have "submission_ok c' a' (claimed_submission (sha tok) (as_utc at) (as_utc deadline))"
  proof -
    from repo_attemptD(5) [OF inv acquired(2)] acquired(1,3,4) have "submission_ok c a s" by auto
    with acquired show ?thesis by (auto simp: submission_ok_def claimed_submission_def claimed_attempt_def)
  qed
  ultimately show ?thesis
    unfolding acquired(13) by (rule commit_inv [OF inv acquired(1-3)])
qed

lemma claim_error: "claim_provider_submission sha t i n tok at deadline r = (Inl e, r') \<Longrightarrow> r' = r"
  by (auto simp: claim_provider_submission_def effect_simps split: if_splits)

section \<open>Transitions\<close>

definition transition_ok :: "dispatch_case \<Rightarrow> call_attempt \<Rightarrow> dispatch_case \<Rightarrow> call_attempt \<Rightarrow> bool" where
  "transition_ok c a c' a' \<longleftrightarrow> legal_step c a c' a' \<and>
     a_provider_call_reference a' = a_provider_call_reference a \<and>
     (terminal_attempt (a_status a') \<longrightarrow> terminal_dispatch (c_status c') \<or> a_provider_call_reference a' \<noteq> None) \<and>
     (\<not> terminal_attempt (a_status a') \<longrightarrow>
        (a_status a' \<in> {A_RESERVED, A_PROVIDER_RETRY} \<longleftrightarrow> a_provider_call_reference a' = None))"

lemma transition_submission_ok:
  "transition_ok c a c' a' \<Longrightarrow> submission_ok c a s \<Longrightarrow> submission_ok c' a' s"
  by (auto simp: transition_ok_def legal_step_def submission_ok_def)

lemma apply_transition_cases:
  assumes op: "apply_transition c' a' ev v w r = (Inr b, r')"
    and c: "rp_cases r (c_tenant_id c', c_case_id c') = Some c"
    and a: "rp_attempts r (a_tenant_id a', a_attempt_id a') = Some a"
  obtains (duplicate) "b = False" "r' = r" "(c_tenant_id c', e_deduplication_key ev) \<in> rp_dedupe r"
  | (applied) "b = True" "versions_agree c a c' a' v w" "a_tenant_id a' = c_tenant_id c'" "a_case_id a' = c_case_id c'"
      "a_case_id a = c_case_id c" "e_tenant_id ev = c_tenant_id c'" "e_case_id ev = c_case_id c'"
      "\<not> cancellation_in_flight ev (rp_submissions r (a_tenant_id a', a_attempt_id a')) a a'"
      "(c_tenant_id c', e_deduplication_key ev) \<notin> rp_dedupe r"
      "append_event_locked ev (r\<lparr>rp_cases := (rp_cases r)((c_tenant_id c', c_case_id c') \<mapsto> c'),
           rp_attempts := (rp_attempts r)((a_tenant_id a', a_attempt_id a') \<mapsto> a')\<rparr>) = (Inr (), r')"
proof (cases "(c_tenant_id c', e_deduplication_key ev) \<in> rp_dedupe r")
  case True
  then show thesis using op c a duplicate by (simp add: apply_transition_def)
next
  case False
  then show thesis
    using op c a
    by (intro applied)
      (auto simp add: apply_transition_def Let_def effect_simps validate_event_None simp del: append_event_locked_eq)
qed

lemma apply_transition_inv:
  assumes inv: "repo_inv r" and op: "apply_transition c' a' ev v w r = (Inr b, r')"
    and c: "rp_cases r (c_tenant_id c', c_case_id c') = Some c"
    and a: "rp_attempts r (a_tenant_id a', a_attempt_id a') = Some a"
    and ok: "transition_ok c a c' a'"
  shows "repo_inv r'"
  using op c a
proof (cases rule: apply_transition_cases)
  case duplicate
  then show ?thesis using inv by simp
next
  case applied
  have aid: "a_case_id a = c_case_id c'" and key: "a_tenant_id a' = c_tenant_id c'"
    using applied repo_caseD(2) [OF inv c] by auto
  from repo_attemptD(5) [OF inv a] c aid key obtain s where
    s: "rp_submissions r (a_tenant_id a', a_attempt_id a') = Some s" "submission_ok c a s" by auto
  have "repo_inv (r\<lparr>rp_cases := (rp_cases r)((c_tenant_id c', c_case_id c') \<mapsto> c'),
           rp_attempts := (rp_attempts r)((a_tenant_id a', a_attempt_id a') \<mapsto> a')\<rparr>)"
    unfolding key
    by (rule commit_inv_same_submission [OF inv c a [unfolded key] aid _ s(1) [unfolded key]])
      (use ok transition_submission_ok [OF ok s(2)] in \<open>simp_all add: transition_ok_def\<close>)
  then show ?thesis by (rule append_event_locked_inv) (rule applied(10))
qed

lemma apply_transition_error:
  assumes inv: "repo_inv r" and op: "apply_transition c' a' ev v w r = (Inl e, r')"
  shows "r' = r"
  using op
  by (auto simp: apply_transition_def effect_simps Let_def validate_event_None
      dest!: repo_no_events [OF inv] split: if_splits)

lemma apply_case_transition_inv:
  assumes inv: "repo_inv r" and op: "apply_case_transition c' ev v r = (Inr b, r')"
    and c: "rp_cases r (c_tenant_id c', c_case_id c') = Some c"
    and ok: "same_case c c'" "valid_case c'" "c_attempt_count c' = c_attempt_count c"
      "terminal_dispatch (c_status c) \<longrightarrow> terminal_dispatch (c_status c')"
  shows "repo_inv r'"
proof (cases "(c_tenant_id c', e_deduplication_key ev) \<in> rp_dedupe r")
  case True
  then show ?thesis using op inv c by (simp add: apply_case_transition_def Let_def)
next
  case False
  have "append_event_locked ev (r\<lparr>rp_cases := (rp_cases r)((c_tenant_id c', c_case_id c') \<mapsto> c')\<rparr>) = (Inr (), r')"
    using op c False
    by (auto simp add: apply_case_transition_def Let_def effect_simps simp del: append_event_locked_eq)
  with commit_case_inv [OF inv c ok] show ?thesis by (rule append_event_locked_inv)
qed

lemma apply_case_transition_error:
  assumes inv: "repo_inv r" and op: "apply_case_transition c' ev v r = (Inl e, r')"
  shows "r' = r"
  using op
  by (auto simp: apply_case_transition_def effect_simps Let_def validate_event_None
      dest!: repo_no_events [OF inv] split: if_splits)

lemma append_event_inv:
  assumes inv: "repo_inv r" and op: "append_event ev r = (x, r')"
  shows "repo_inv r'"
proof (cases x)
  case (Inl e)
  then show ?thesis
    using op inv by (auto simp: append_event_def effect_simps Let_def split: if_splits)
next
  case (Inr b)
  then show ?thesis
    using op inv
    by (auto simp add: append_event_def effect_simps Let_def simp del: append_event_locked_eq
        intro: append_event_locked_inv split: if_splits)
qed

lemma append_event_frame:
  "append_event ev r = (x, r') \<Longrightarrow> rp_cases r' = rp_cases r \<and> rp_attempts r' = rp_attempts r \<and>
     rp_submissions r' = rp_submissions r \<and> rp_idempotency r' = rp_idempotency r \<and> rp_callback r' = rp_callback r \<and>
     rp_attempt_ids r' = rp_attempt_ids r"
  by (cases x) (auto simp: append_event_def effect_simps Let_def split: if_splits)

section \<open>Finishing, expiring and binding a submission\<close>

lemma finish_inv:
  assumes inv: "repo_inv r" and op: "finish_provider_submission sha c' a' ev tok outcome v w r = (Inr b, r')"
    and c: "rp_cases r (c_tenant_id c', c_case_id c') = Some c"
    and a: "rp_attempts r (a_tenant_id a', a_attempt_id a') = Some a"
    and ok: "legal_step c a c' a'" "a_provider_call_reference a' = a_provider_call_reference a"
  shows "repo_inv r'"
proof (cases "(c_tenant_id c', e_deduplication_key ev) \<in> rp_dedupe r")
  case True
  then show ?thesis using op inv c a by (auto simp: finish_provider_submission_def Let_def effect_simps)
next
  case False
  from op c a obtain s where s: "rp_submissions r (a_tenant_id a', a_attempt_id a') = Some s"
    by (auto simp: finish_provider_submission_def Let_def effect_simps)
  let ?s = "next_submission outcome s a'"
  from op c a s False have ow: "s_state s = S_CLAIMED" and out: "validate_submission_outcome outcome c' a' = None"
    and key: "a_tenant_id a' = c_tenant_id c'" and aid: "a_case_id a' = c_case_id c'"
    and app: "append_event_locked ev (r\<lparr>rp_cases := (rp_cases r)((c_tenant_id c', c_case_id c') \<mapsto> c'),
           rp_attempts := (rp_attempts r)((a_tenant_id a', a_attempt_id a') \<mapsto> a'),
           rp_submissions := (rp_submissions r)((a_tenant_id a', a_attempt_id a') \<mapsto> ?s)\<rparr>) = (Inr (), r')"
    by (auto simp add: finish_provider_submission_def owns_claim_def Let_def effect_simps validate_event_None
        simp del: append_event_locked_eq split: if_splits)
  have aid': "a_case_id a = c_case_id c'"
    using aid ok(1) same_attempt_fields(2) [of a a'] by (simp add: legal_step_def)
  from repo_attemptD(5) [OF inv a] c aid' key s have "submission_ok c a s" by auto
  then have "submission_ok c' a' ?s"
    using out ow ok unfolding submission_ok_def legal_step_def validate_submission_outcome_def
      next_submission_def fresh_submission_def
    by (cases outcome) (auto split: if_splits)
  with commit_inv [OF inv c a [unfolded key] aid' ok(1)] app key show ?thesis
    by (auto intro: append_event_locked_inv)
qed

lemma finish_error:
  assumes inv: "repo_inv r" and op: "finish_provider_submission sha c' a' ev tok outcome v w r = (Inl e, r')"
  shows "r' = r"
  using op
  by (auto simp: finish_provider_submission_def effect_simps Let_def validate_event_None
      dest!: repo_no_events [OF inv] split: if_splits)

lemma expire_inv:
  assumes inv: "repo_inv r" and op: "expire_provider_submission c' a' ev at v w r = (Inr b, r')"
    and c: "rp_cases r (c_tenant_id c', c_case_id c') = Some c"
    and a: "rp_attempts r (a_tenant_id a', a_attempt_id a') = Some a"
    and ok: "legal_step c a c' a'" "a_provider_call_reference a' = a_provider_call_reference a"
  shows "repo_inv r'"
proof (cases "(c_tenant_id c', e_deduplication_key ev) \<in> rp_dedupe r")
  case True
  then show ?thesis using op inv c a by (auto simp: expire_provider_submission_def Let_def effect_simps)
next
  case False
  from op c a obtain s where s: "rp_submissions r (a_tenant_id a', a_attempt_id a') = Some s"
    by (auto simp: expire_provider_submission_def Let_def effect_simps)
  let ?s = "s\<lparr>s_state := S_UNCERTAIN, s_completed_at := Some (as_utc at)\<rparr>"
  from op c a s False have ow: "s_state s = S_CLAIMED" and out: "validate_submission_outcome O_UNCERTAIN c' a' = None"
    and key: "a_tenant_id a' = c_tenant_id c'" and aid: "a_case_id a' = c_case_id c'"
    and app: "append_event_locked ev (r\<lparr>rp_cases := (rp_cases r)((c_tenant_id c', c_case_id c') \<mapsto> c'),
           rp_attempts := (rp_attempts r)((a_tenant_id a', a_attempt_id a') \<mapsto> a'),
           rp_submissions := (rp_submissions r)((a_tenant_id a', a_attempt_id a') \<mapsto> ?s)\<rparr>) = (Inr (), r')"
    by (auto simp add: expire_provider_submission_def Let_def effect_simps validate_event_None require_utc_Inr
        simp del: append_event_locked_eq)
  have aid': "a_case_id a = c_case_id c'"
    using aid ok(1) same_attempt_fields(2) [of a a'] by (simp add: legal_step_def)
  from repo_attemptD(5) [OF inv a] c aid' key s have "submission_ok c a s" by auto
  then have "submission_ok c' a' ?s"
    using out ow ok by (auto simp: submission_ok_def validate_submission_outcome_def split: if_splits)
  with commit_inv [OF inv c a [unfolded key] aid' ok(1)] app key show ?thesis
    by (auto intro: append_event_locked_inv)
qed

lemma expire_error:
  assumes inv: "repo_inv r" and op: "expire_provider_submission c' a' ev at v w r = (Inl e, r')"
  shows "r' = r"
  using op
  by (auto simp: expire_provider_submission_def effect_simps Let_def validate_event_None
      dest!: repo_no_events [OF inv] split: if_splits)

definition bound_attempt :: "call_attempt \<Rightarrow> string \<Rightarrow> datetime \<Rightarrow> call_attempt" where
  "bound_attempt a ref at = a\<lparr>a_provider_call_reference := Some ref, a_status := A_INITIATED,
     a_initiated_at := (case a_initiated_at a of None \<Rightarrow> Some at | Some t \<Rightarrow> Some t),
     a_safe_error_code := None, a_updated_at := at, a_version := a_version a + 1\<rparr>"

definition bound_case :: "dispatch_case \<Rightarrow> datetime \<Rightarrow> dispatch_case" where
  "bound_case c at = c\<lparr>c_status := D_DIALING, c_next_attempt_at := None, c_updated_at := at,
     c_version := c_version c + 1\<rparr>"

lemma bind_cases:
  assumes op: "bind_provider_callback sha tok ref at ev r = (Inr (c', a'), r')"
  obtains (known) t n stored where "rp_callback r tok = Some (t, n)" "rp_attempts r (t, n) = Some a'"
      "rp_cases r (t, a_case_id a') = Some c'" "r' = r" "a_provider_call_reference a' = Some stored"
      "provider_reference_matches sha stored ref = Inr True"
  | (bound) t n c a s done_at where "rp_callback r tok = Some (t, n)" "rp_attempts r (t, n) = Some a"
      "rp_cases r (t, a_case_id a) = Some c" "rp_submissions r (t, n) = Some s" "s_state s = S_CLAIMED"
      "a_provider_call_reference a = None" "ref \<noteq> []" "\<not> terminal_dispatch (c_status c)"
      "a' = bound_attempt a ref done_at" "valid_attempt a'" "c' = bound_case c done_at" "valid_case c'"
      "append_event_locked ev (r\<lparr>rp_cases := (rp_cases r)((t, a_case_id a) \<mapsto> c'),
           rp_attempts := (rp_attempts r)((t, n) \<mapsto> a'),
           rp_submissions := (rp_submissions r)((t, n) \<mapsto> s\<lparr>s_state := S_SUBMITTED, s_completed_at := Some done_at\<rparr>)\<rparr>) =
         (Inr (), r')"
      "e_tenant_id ev = c_tenant_id c" "e_case_id ev = c_case_id c"
proof -
  from op obtain t n a c s where rd: "is_aware at" "ref \<noteq> []" "rp_callback r tok = Some (t, n)" "rp_attempts r (t, n) = Some a"
      "rp_cases r (t, a_case_id a) = Some c" "rp_submissions r (t, n) = Some s"
    by (auto simp: bind_provider_callback_def effect_simps Let_def require_utc_def split: if_splits)
  note simps = bind_provider_callback_def require_utc_def Let_def rd effect_simps
  show thesis
  proof (cases "a_provider_call_reference a")
    case (Some stored)
    then have "provider_reference_matches sha stored ref = Inr True \<and> r' = r \<and> c' = c \<and> a' = a"
      using op by (auto simp: simps)
    then show thesis using known [OF rd(3)] rd Some by simp
  next
    case None
    let ?at = "binding_time (as_utc at) s"
    have "s_state s = S_CLAIMED \<and> \<not> terminal_dispatch (c_status c) \<and> a' = bound_attempt a ref ?at \<and> valid_attempt a' \<and>
      c' = bound_case c ?at \<and> valid_case c' \<and> e_tenant_id ev = c_tenant_id c \<and> e_case_id ev = c_case_id c \<and>
      append_event_locked ev (r\<lparr>rp_cases := (rp_cases r)((t, a_case_id a) \<mapsto> c'),
           rp_attempts := (rp_attempts r)((t, n) \<mapsto> a'),
           rp_submissions := (rp_submissions r)((t, n) \<mapsto> s\<lparr>s_state := S_SUBMITTED, s_completed_at := Some ?at\<rparr>)\<rparr>) =
         (Inr (), r')"
      using op None
      by (auto simp add: simps new_attempt_Inr new_case_Inr validate_event_None bound_attempt_def bound_case_def
          simp del: append_event_locked_eq)
    then show thesis by (intro bound [OF rd(3-6) _ None rd(2)]) auto
  qed
qed

lemma bind_inv:
  assumes inv: "repo_inv r" and op: "bind_provider_callback sha tok ref at ev r = (Inr (c', a'), r')"
  shows "repo_inv r'"
  using op
proof (cases rule: bind_cases)
  case known
  then show ?thesis using inv by simp
next
  case (bound t n c a s done_at)
  from repo_attemptD(5) [OF inv bound(2)] bound(3,4) have sub: "submission_ok c a s" by auto
  then have "\<not> terminal_attempt (a_status a)" using bound(5,8) by (auto simp: submission_ok_def)
  then have "legal_step c a c' a'"
    using bound by (simp add: legal_step_def same_case_def same_attempt_def bound_case_def bound_attempt_def)
  moreover have "submission_ok c' a' (s\<lparr>s_state := S_SUBMITTED, s_completed_at := Some done_at\<rparr>)"
    using sub bound by (simp add: submission_ok_def bound_attempt_def)
  ultimately show ?thesis
    using bound(13) commit_inv [OF inv bound(3,2) refl] by (auto intro: append_event_locked_inv)
qed

lemma bind_error:
  assumes inv: "repo_inv r" and op: "bind_provider_callback sha tok ref at ev r = (Inl e, r')"
  shows "r' = r"
  using op repo_caseD(1,2) [OF inv]
  by (auto simp: bind_provider_callback_def effect_simps Let_def validate_event_None new_case_Inr
      dest!: repo_no_events [OF inv] split: if_splits option.splits)

end
