(* ===== verification/Dispatch_Repository_Advance.thy ===== *)
theory Dispatch_Repository_Advance
  imports Dispatch_Repository_Ops
begin

text \<open>
  The history a repository keeps: how a later repository relates to an earlier one. Records never
  disappear, their identity never changes, a version grows with every change (so a stale version
  is always detected), a provider reference is written once, a settled case stays as it is, and
  event logs only grow. The relation is a preorder; each operation respects it.
\<close>

definition case_advance :: "dispatch_case \<Rightarrow> dispatch_case \<Rightarrow> bool" where
  "case_advance c c' \<longleftrightarrow> same_case c c' \<and> (c' = c \<or> c_version c < c_version c') \<and>
     c_attempt_count c \<le> c_attempt_count c' \<and>
     (terminal_dispatch (c_status c) \<longrightarrow>
        c' = c \<or> c_status c = D_UNACKNOWLEDGED \<and> c_status c' \<in> {D_ACKNOWLEDGED, D_MANUAL_FOLLOW_UP})"

definition attempt_advance :: "call_attempt \<Rightarrow> call_attempt \<Rightarrow> bool" where
  "attempt_advance a a' \<longleftrightarrow> same_attempt a a' \<and> (a' = a \<or> a_version a < a_version a') \<and>
     (a_provider_call_reference a \<noteq> None \<longrightarrow> a_provider_call_reference a' = a_provider_call_reference a) \<and>
     (terminal_attempt (a_status a) \<longrightarrow> terminal_attempt (a_status a'))"

lemma same_attempt_trans: "same_attempt a b \<Longrightarrow> same_attempt b c \<Longrightarrow> same_attempt a c"
  unfolding same_attempt_def by (cases a; cases b; cases c) simp

lemma case_advance_refl [simp]: "case_advance c c"
  by (simp add: case_advance_def)

lemma attempt_advance_refl [simp]: "attempt_advance a a"
  by (simp add: attempt_advance_def)

lemma case_advance_trans: "case_advance c d \<Longrightarrow> case_advance d e \<Longrightarrow> case_advance c e"
  unfolding case_advance_def by (auto intro: same_case_trans)

lemma attempt_advance_trans: "attempt_advance a b \<Longrightarrow> attempt_advance b c \<Longrightarrow> attempt_advance a c"
  unfolding attempt_advance_def by (auto intro: same_attempt_trans)

text \<open>A map whose entries are kept, each related to the entry at the same key later.\<close>

definition keeps :: "('v \<Rightarrow> 'v \<Rightarrow> bool) \<Rightarrow> ('k \<rightharpoonup> 'v) \<Rightarrow> ('k \<rightharpoonup> 'v) \<Rightarrow> bool" where
  "keeps rel m m' \<longleftrightarrow> (\<forall>k v. m k = Some v \<longrightarrow> (\<exists>v'. m' k = Some v' \<and> rel v v'))"

lemma keeps_refl: "(\<And>v. rel v v) \<Longrightarrow> keeps rel m m"
  by (simp add: keeps_def)

lemma keeps_trans:
  "(\<And>u v w. rel u v \<Longrightarrow> rel v w \<Longrightarrow> rel u w) \<Longrightarrow> keeps rel m n \<Longrightarrow> keeps rel n p \<Longrightarrow> keeps rel m p"
  unfolding keeps_def by blast

lemma keeps_upd: "(\<And>v. rel v v) \<Longrightarrow> (\<And>v. m k = Some v \<Longrightarrow> rel v w) \<Longrightarrow> keeps rel m (m(k \<mapsto> w))"
  by (auto simp: keeps_def)

lemma keepsD: "keeps rel m m' \<Longrightarrow> m k = Some v \<Longrightarrow> \<exists>v'. m' k = Some v' \<and> rel v v'"
  by (simp add: keeps_def)

definition repo_advance :: "repository \<Rightarrow> repository \<Rightarrow> bool" where
  "repo_advance r r' \<longleftrightarrow> keeps case_advance (rp_cases r) (rp_cases r') \<and>
     keeps attempt_advance (rp_attempts r) (rp_attempts r') \<and>
     keeps (=) (rp_callback r) (rp_callback r') \<and> keeps (=) (rp_idempotency r) (rp_idempotency r') \<and>
     keeps prefix (rp_events r) (rp_events r') \<and> rp_dedupe r \<subseteq> rp_dedupe r'"

lemma repo_advance_refl [simp]: "repo_advance r r"
  by (simp add: repo_advance_def keeps_refl)

lemma repo_advance_trans:
  assumes "repo_advance r s" and "repo_advance s t"
  shows "repo_advance r t"
  using assms unfolding repo_advance_def
  by (auto intro: keeps_trans [where rel = case_advance, OF case_advance_trans]
      keeps_trans [where rel = attempt_advance, OF attempt_advance_trans]
      keeps_trans [where rel = prefix, OF prefix_order.trans] keeps_trans [where rel = "(=)", OF trans])

lemma append_event_locked_advance: "append_event_locked e r = (x, r') \<Longrightarrow> repo_advance r r'"
  by (cases x) (auto simp: effect_simps repo_advance_def intro!: keeps_refl keeps_upd)

lemma commit_advance:
  assumes "rp_cases r ck = Some c" and "rp_attempts r ak = Some a" and "case_advance c c'" and "attempt_advance a a'"
  shows "repo_advance r (r\<lparr>rp_cases := (rp_cases r)(ck \<mapsto> c'), rp_attempts := (rp_attempts r)(ak \<mapsto> a')\<rparr>)"
    and "repo_advance r (r\<lparr>rp_cases := (rp_cases r)(ck \<mapsto> c'), rp_attempts := (rp_attempts r)(ak \<mapsto> a'),
           rp_submissions := sub\<rparr>)"
  using assms by (auto simp: repo_advance_def intro!: keeps_refl keeps_upd)

lemma commit_case_advance:
  assumes "rp_cases r ck = Some c" and "case_advance c c'"
  shows "repo_advance r (r\<lparr>rp_cases := (rp_cases r)(ck \<mapsto> c')\<rparr>)"
  using assms by (auto simp: repo_advance_def intro!: keeps_refl keeps_upd)

section \<open>The operations advance the repository\<close>

lemma create_case_advance:
  assumes inv: "repo_inv r" and op: "create_case c k ev r = (x, r')"
  shows "repo_advance r r'"
proof (cases x)
  case (Inl e)
  then show ?thesis using create_case_error [of c k ev r e r'] op by simp
next
  case (Inr y)
  from op Inr consider "r' = r" | "rp_idempotency r (c_tenant_id c, k) = None" "rp_cases r (c_tenant_id c, c_case_id c) = None"
      "r' = r\<lparr>rp_cases := (rp_cases r)((c_tenant_id c, c_case_id c) \<mapsto> c),
             rp_idempotency := (rp_idempotency r)((c_tenant_id c, k) \<mapsto> c_case_id c),
             rp_attempt_ids := (rp_attempt_ids r)((c_tenant_id c, c_case_id c) \<mapsto> []),
             rp_events := (rp_events r)((c_tenant_id c, c_case_id c) \<mapsto> [ev]),
             rp_dedupe := insert (c_tenant_id c, e_deduplication_key ev) (rp_dedupe r)\<rparr>"
    by (auto simp: create_case_def effect_simps Let_def split: option.splits)
  then show ?thesis
  proof cases
    case 2
    have "rp_events r (c_tenant_id c, c_case_id c) = None"
    proof (cases "rp_events r (c_tenant_id c, c_case_id c)")
      case (Some es)
      with inv have "rp_cases r (c_tenant_id c, c_case_id c) \<noteq> None" by (auto simp: repo_inv_def events_ok_def)
      with 2(2) show ?thesis by simp
    qed
    with 2 show ?thesis
      by (auto simp: repo_advance_def intro!: keeps_refl keeps_upd)
  qed simp
qed

lemma reserve_advance:
  assumes inv: "repo_inv r" and op: "reserve_next_attempt t i n tok at ev r = (x, r')"
  shows "repo_advance r r'"
proof (cases x)
  case (Inl e)
  then show ?thesis using reserve_error [OF inv op [unfolded Inl]] by simp
next
  case (Inr v)
  from inv op [unfolded Inr] show ?thesis
  proof (cases rule: reserve_cases)
    case active
    then show ?thesis by simp
  next
    case (created c ids a c')
    have n: "c_attempt_count c = int (length ids)"
      using repo_caseD(5) [OF inv created(1)] created(2) by (auto simp: case_attempts_def)
    have "case_advance c c'"
      using created(9) n by (simp add: created(7) case_advance_def reserved_case_def same_case_def)
    with created(1,10,11)
    have "repo_advance r (r\<lparr>rp_cases := (rp_cases r)((t, i) \<mapsto> c'), rp_attempts := (rp_attempts r)((t, n) \<mapsto> a),
           rp_submissions := (rp_submissions r)((t, n) \<mapsto> fresh_submission),
           rp_attempt_ids := (rp_attempt_ids r)((t, i) \<mapsto> ids @ [n]),
           rp_callback := (rp_callback r)(tok \<mapsto> (t, n))\<rparr>)"
      by (auto simp: repo_advance_def intro!: keeps_refl keeps_upd)
    with append_event_locked_advance [OF created(13)] show ?thesis by (blast intro: repo_advance_trans)
  qed
qed

lemma claim_advance:
  assumes op: "claim_provider_submission sha t i n tok at deadline r = (x, r')"
  shows "repo_advance r r'"
proof (cases x)
  case (Inl e)
  then show ?thesis using claim_error [OF op [unfolded Inl]] by simp
next
  case (Inr v)
  from op [unfolded Inr] show ?thesis
  proof (cases rule: claim_cases)
    case denied
    then show ?thesis by simp
  next
    case (acquired c a s c' a')
    have "case_advance c c'" "attempt_advance a a'"
      using acquired(7) by (simp_all add: acquired(8,10) case_advance_def attempt_advance_def claimed_case_def
          claimed_attempt_def same_case_def same_attempt_def)
    then show ?thesis
      unfolding acquired(13) by (rule commit_advance(2) [OF acquired(1,2)])
  qed
qed

lemma bind_advance:
  assumes inv: "repo_inv r" and op: "bind_provider_callback sha tok ref at ev r = (x, r')"
  shows "repo_advance r r'"
proof (cases x)
  case (Inl e)
  then show ?thesis using bind_error [OF inv op [unfolded Inl]] by simp
next
  case (Inr v)
  obtain c' a' where v: "v = (c', a')" by (cases v)
  from op [unfolded Inr v] show ?thesis
  proof (cases rule: bind_cases)
    case known
    then show ?thesis by simp
  next
    case (bound t n c a s done_at)
    from repo_attemptD(5) [OF inv bound(2)] bound(3,4) have "submission_ok c a s" by auto
    then have "\<not> terminal_attempt (a_status a)" using bound(5,8) by (auto simp: submission_ok_def)
    then have "case_advance c c'" "attempt_advance a a'"
      using bound(6,8) by (simp_all add: bound(9,11) case_advance_def attempt_advance_def bound_case_def
          bound_attempt_def same_case_def same_attempt_def)
    from commit_advance(2) [OF bound(3,2) this] append_event_locked_advance [OF bound(13)]
    show ?thesis by (blast intro: repo_advance_trans)
  qed
qed

lemma append_event_advance: "append_event ev r = (x, r') \<Longrightarrow> repo_advance r r'"
  by (cases x)
    (auto simp add: append_event_def effect_simps Let_def simp del: append_event_locked_eq
      dest: append_event_locked_advance split: if_splits)

text \<open>For the three transitions the written records must advance the stored ones.\<close>

lemma apply_transition_advance:
  assumes inv: "repo_inv r" and op: "apply_transition c' a' ev v w r = (x, r')"
    and c: "rp_cases r (c_tenant_id c', c_case_id c') = Some c"
    and a: "rp_attempts r (a_tenant_id a', a_attempt_id a') = Some a"
    and adv: "case_advance c c'" "attempt_advance a a'"
  shows "repo_advance r r'"
proof (cases x)
  case (Inl e)
  then show ?thesis using apply_transition_error [OF inv op [unfolded Inl]] by simp
next
  case (Inr b)
  from op [unfolded Inr] c a show ?thesis
  proof (cases rule: apply_transition_cases)
    case applied
    from commit_advance(1) [OF c a adv] append_event_locked_advance [OF applied(10)]
    show ?thesis by (rule repo_advance_trans)
  qed simp
qed

lemma apply_case_transition_advance:
  assumes inv: "repo_inv r" and op: "apply_case_transition c' ev v r = (x, r')"
    and c: "rp_cases r (c_tenant_id c', c_case_id c') = Some c" and adv: "case_advance c c'"
  shows "repo_advance r r'"
proof (cases x)
  case (Inl e)
  then show ?thesis using apply_case_transition_error [OF inv op [unfolded Inl]] by simp
next
  case (Inr b)
  with op c have "r' = r \<or>
      append_event_locked ev (r\<lparr>rp_cases := (rp_cases r)((c_tenant_id c', c_case_id c') \<mapsto> c')\<rparr>) = (Inr (), r')"
    by (auto simp add: apply_case_transition_def Let_def effect_simps simp del: append_event_locked_eq split: if_splits)
  then show ?thesis
    using commit_case_advance [OF c adv] by (auto dest: append_event_locked_advance intro: repo_advance_trans)
qed

lemma finish_advance:
  assumes inv: "repo_inv r" and op: "finish_provider_submission sha c' a' ev tok outcome v w r = (x, r')"
    and c: "rp_cases r (c_tenant_id c', c_case_id c') = Some c"
    and a: "rp_attempts r (a_tenant_id a', a_attempt_id a') = Some a"
    and adv: "case_advance c c'" "attempt_advance a a'"
  shows "repo_advance r r'"
proof (cases x)
  case (Inl e)
  then show ?thesis using finish_error [OF inv op [unfolded Inl]] by simp
next
  case (Inr b)
  with op c a obtain sub where "r' = r \<or>
      append_event_locked ev (r\<lparr>rp_cases := (rp_cases r)((c_tenant_id c', c_case_id c') \<mapsto> c'),
        rp_attempts := (rp_attempts r)((a_tenant_id a', a_attempt_id a') \<mapsto> a'), rp_submissions := sub\<rparr>) = (Inr (), r')"
    by (auto simp add: finish_provider_submission_def Let_def effect_simps simp del: append_event_locked_eq split: if_splits)
  then show ?thesis
    using commit_advance(2) [OF c a adv] by (auto dest: append_event_locked_advance intro: repo_advance_trans)
qed

lemma expire_advance:
  assumes inv: "repo_inv r" and op: "expire_provider_submission c' a' ev at v w r = (x, r')"
    and c: "rp_cases r (c_tenant_id c', c_case_id c') = Some c"
    and a: "rp_attempts r (a_tenant_id a', a_attempt_id a') = Some a"
    and adv: "case_advance c c'" "attempt_advance a a'"
  shows "repo_advance r r'"
proof (cases x)
  case (Inl e)
  then show ?thesis using expire_error [OF inv op [unfolded Inl]] by simp
next
  case (Inr b)
  with op c a obtain sub where "r' = r \<or>
      append_event_locked ev (r\<lparr>rp_cases := (rp_cases r)((c_tenant_id c', c_case_id c') \<mapsto> c'),
        rp_attempts := (rp_attempts r)((a_tenant_id a', a_attempt_id a') \<mapsto> a'), rp_submissions := sub\<rparr>) = (Inr (), r')"
    by (auto simp add: expire_provider_submission_def Let_def effect_simps simp del: append_event_locked_eq split: if_splits)
  then show ?thesis
    using commit_advance(2) [OF c a adv] by (auto dest: append_event_locked_advance intro: repo_advance_trans)
qed

section \<open>The submission of an attempt never becomes pending again\<close>

text \<open>
  Only a reservation adds attempts, and only \<open>finish_provider_submission\<close> with a retryable
  failure makes a submission pending again.
\<close>

definition not_pending_kept :: "provider_submission \<Rightarrow> provider_submission \<Rightarrow> bool" where
  "not_pending_kept x y \<longleftrightarrow> (s_state x \<noteq> S_PENDING \<longrightarrow> s_state y \<noteq> S_PENDING)"

definition calls_kept :: "repository \<Rightarrow> repository \<Rightarrow> bool" where
  "calls_kept r r' \<longleftrightarrow> dom (rp_attempts r') = dom (rp_attempts r) \<and>
     keeps not_pending_kept (rp_submissions r) (rp_submissions r')"

lemma calls_kept_refl [simp]: "calls_kept r r"
  by (simp add: calls_kept_def keeps_refl not_pending_kept_def)

lemma calls_kept_upd:
  assumes "rp_attempts r k = Some a"
    and "\<And>x. rp_submissions r k = Some x \<Longrightarrow> s_state y \<noteq> S_PENDING \<or> s_state x = S_PENDING"
    and "rp_attempts r' = (rp_attempts r)(k \<mapsto> a')" and "rp_submissions r' = (rp_submissions r)(k \<mapsto> y)"
  shows "calls_kept r r'"
  using assms by (auto simp: calls_kept_def not_pending_kept_def intro!: keeps_upd)

lemma calls_kept_attempt:
  assumes "rp_attempts r k = Some a" and "rp_attempts r' = (rp_attempts r)(k \<mapsto> a')" and "rp_submissions r' = rp_submissions r"
  shows "calls_kept r r'"
  using assms by (auto simp: calls_kept_def not_pending_kept_def intro!: keeps_refl)

lemma create_case_calls: "create_case c k ev r = (x, r') \<Longrightarrow> calls_kept r r'"
  by (cases x)
    (auto simp: create_case_def effect_simps Let_def calls_kept_def not_pending_kept_def intro!: keeps_refl
      split: option.splits)

lemma append_event_calls: "append_event ev r = (x, r') \<Longrightarrow> calls_kept r r'"
  by (drule append_event_frame) (simp add: calls_kept_def keeps_refl not_pending_kept_def)

lemma apply_case_transition_calls: "apply_case_transition c ev v r = (x, r') \<Longrightarrow> calls_kept r r'"
  by (cases x)
    (auto simp: apply_case_transition_def effect_simps Let_def calls_kept_def not_pending_kept_def
      intro!: keeps_refl split: if_splits)

lemma apply_transition_calls:
  assumes "apply_transition c a ev v w r = (x, r')"
  shows "calls_kept r r'"
proof (cases "r' = r")
  case False
  with assms obtain b where "rp_attempts r (a_tenant_id a, a_attempt_id a) = Some b"
      "rp_attempts r' = (rp_attempts r)((a_tenant_id a, a_attempt_id a) \<mapsto> a)" "rp_submissions r' = rp_submissions r"
    by (cases x) (auto simp: apply_transition_def effect_simps Let_def split: if_splits)
  then show ?thesis by (rule calls_kept_attempt)
qed simp

lemma claim_calls:
  assumes "claim_provider_submission sha t i n tok at deadline r = (x, r')"
  shows "calls_kept r r'"
proof (cases x)
  case (Inl e)
  then show ?thesis using claim_error [OF assms [unfolded Inl]] by simp
next
  case (Inr v)
  from assms [unfolded Inr] show ?thesis
  proof (cases rule: claim_cases)
    case (acquired c a s c' a')
    show ?thesis
      by (rule calls_kept_upd [OF acquired(2)]) (auto simp: acquired(13) claimed_submission_def)
  qed simp
qed

lemma bind_calls:
  assumes inv: "repo_inv r" and op: "bind_provider_callback sha tok ref at ev r = (x, r')"
  shows "calls_kept r r'"
proof (cases x)
  case (Inl e)
  then show ?thesis using bind_error [OF inv op [unfolded Inl]] by simp
next
  case (Inr v)
  obtain c' a' where v: "v = (c', a')" by (cases v)
  from op [unfolded Inr v] show ?thesis
  proof (cases rule: bind_cases)
    case (bound t n c a s done_at)
    from bound(13) have "rp_attempts r' = (rp_attempts r)((t, n) \<mapsto> a')"
        "rp_submissions r' = (rp_submissions r)((t, n) \<mapsto> s\<lparr>s_state := S_SUBMITTED, s_completed_at := Some done_at\<rparr>)"
      by (auto simp: effect_simps)
    with bound(2) show ?thesis by (intro calls_kept_upd) auto
  qed simp
qed

lemma expire_calls:
  assumes "expire_provider_submission c a ev at v w r = (x, r')"
  shows "calls_kept r r'"
proof (cases "r' = r")
  case False
  with assms obtain b s done_at where "rp_attempts r (a_tenant_id a, a_attempt_id a) = Some b"
      "rp_attempts r' = (rp_attempts r)((a_tenant_id a, a_attempt_id a) \<mapsto> a)"
      "rp_submissions r' = (rp_submissions r)((a_tenant_id a, a_attempt_id a) \<mapsto>
         s\<lparr>s_state := S_UNCERTAIN, s_completed_at := done_at\<rparr>)"
    by (cases x) (auto simp: expire_provider_submission_def effect_simps Let_def split: if_splits)
  then show ?thesis by (intro calls_kept_upd) auto
qed simp

lemma finish_calls:
  assumes "finish_provider_submission sha c a ev tok outcome v w r = (x, r')" and "outcome \<noteq> O_RETRYABLE_FAILURE"
  shows "calls_kept r r'"
proof (cases "r' = r")
  case False
  with assms(1) obtain b s where "rp_attempts r (a_tenant_id a, a_attempt_id a) = Some b"
      "rp_attempts r' = (rp_attempts r)((a_tenant_id a, a_attempt_id a) \<mapsto> a)"
      "rp_submissions r' = (rp_submissions r)((a_tenant_id a, a_attempt_id a) \<mapsto> next_submission outcome s a)"
    by (cases x) (auto simp: finish_provider_submission_def effect_simps Let_def split: if_splits)
  moreover have "s_state (next_submission outcome s a) \<noteq> S_PENDING"
    using assms(2) by (cases outcome) (simp_all add: next_submission_def)
  ultimately show ?thesis by (intro calls_kept_upd) auto
qed simp

text \<open>A retryable failure touches only the submission of its own attempt.\<close>

lemma finish_calls_retry:
  assumes "finish_provider_submission sha c a ev tok outcome v w r = (x, r')"
  shows "dom (rp_attempts r') = dom (rp_attempts r)"
    and "k \<noteq> (a_tenant_id a, a_attempt_id a) \<Longrightarrow> rp_submissions r' k = rp_submissions r k"
  using assms
  by (cases x; auto simp: finish_provider_submission_def effect_simps Let_def split: if_splits)+

end
