(* ===== verification/Dispatch_Service_Inv.thy ===== *)
theory Dispatch_Service_Inv
  imports Dispatch_Service Dispatch_Repository_Advance
begin

text \<open>
  The coordinator keeps its invariant and only advances its state, whatever sequence of
  authorizations, dispatches, webhooks, cancellations and directory updates it serves. The proofs
  are done once over the contract of a voice provider and hold for the mock and for the SDK
  adapter through the interpretations at the end.
\<close>

section \<open>Invariant and order\<close>

text \<open>
  Every attempt id was drawn from the id factory, no two tenants share one, and a physical call
  may have been started only for an attempt whose submission is no longer pending; each at most
  once.
\<close>

definition calls_ok :: "'p coord_env \<Rightarrow> string list \<Rightarrow> 'p coordinator \<Rightarrow> bool" where
  "calls_ok env sub s \<longleftrightarrow> inj (ce_new_id env) \<and> distinct sub \<and>
     (\<forall>t i. (t, i) \<in> dom (rp_attempts (co_repo s)) \<longrightarrow> (\<exists>k < co_ids s. i = ce_new_id env k)) \<and>
     (\<forall>t u i. (t, i) \<in> dom (rp_attempts (co_repo s)) \<longrightarrow> (u, i) \<in> dom (rp_attempts (co_repo s)) \<longrightarrow> t = u) \<and>
     (\<forall>i \<in> set sub. \<exists>t x. (t, i) \<in> dom (rp_attempts (co_repo s)) \<and>
        rp_submissions (co_repo s) (t, i) = Some x \<and> s_state x \<noteq> S_PENDING)"

definition co_inv :: "'p coord_env \<Rightarrow> ('p \<Rightarrow> string list) \<Rightarrow> ('p \<Rightarrow> bool) \<Rightarrow> 'p coordinator \<Rightarrow> bool" where
  "co_inv env submitted prov_inv s \<longleftrightarrow> repo_inv (co_repo s) \<and> directory_inv (co_directory s) \<and>
     prov_inv (co_provider s) \<and> calls_ok env (submitted (co_provider s)) s"

definition co_advance :: "'p coordinator \<Rightarrow> 'p coordinator \<Rightarrow> bool" where
  "co_advance s t \<longleftrightarrow> repo_advance (co_repo s) (co_repo t) \<and> co_ids s \<le> co_ids t"

definition safe :: "'p coord_env \<Rightarrow> ('p \<Rightarrow> string list) \<Rightarrow> ('p \<Rightarrow> bool) \<Rightarrow> 'p coordinator \<Rightarrow> 'p coordinator \<Rightarrow> bool" where
  "safe env sub pinv s t \<longleftrightarrow> (co_inv env sub pinv s \<longrightarrow> co_inv env sub pinv t \<and> co_advance s t)"

lemma co_advance_refl [simp]: "co_advance s s"
  by (simp add: co_advance_def)

lemma co_advance_trans: "co_advance s t \<Longrightarrow> co_advance t u \<Longrightarrow> co_advance s u"
  unfolding co_advance_def by (auto intro: repo_advance_trans)

lemma safe_refl [simp]: "safe env sub pinv s s"
  by (simp add: safe_def)

lemma safe_trans: "safe env sub pinv s t \<Longrightarrow> safe env sub pinv t u \<Longrightarrow> safe env sub pinv s u"
  unfolding safe_def by (auto intro: co_advance_trans)

lemma safe_then:
  assumes "safe env sub pinv s (snd r)" and "\<And>x t. r = (Inr x, t) \<Longrightarrow> safe env sub pinv t (snd (k x t))"
  shows "safe env sub pinv s (snd (and_then r k))"
  using assms by (cases r; cases "fst r") (auto intro: safe_trans)

lemma calls_ok_kept:
  assumes ok: "calls_ok env sub s" and kept: "calls_kept (co_repo s) (co_repo t)" and ids: "co_ids s \<le> co_ids t"
  shows "calls_ok env sub t"
proof -
  from kept have d: "dom (rp_attempts (co_repo t)) = dom (rp_attempts (co_repo s))"
    and k: "keeps not_pending_kept (rp_submissions (co_repo s)) (rp_submissions (co_repo t))"
    by (simp_all add: calls_kept_def)
  have "\<exists>u x. (u, i) \<in> dom (rp_attempts (co_repo t)) \<and> rp_submissions (co_repo t) (u, i) = Some x \<and> s_state x \<noteq> S_PENDING"
    if "i \<in> set sub" for i
  proof -
    from ok that obtain u x where "(u, i) \<in> dom (rp_attempts (co_repo s))"
        "rp_submissions (co_repo s) (u, i) = Some x" "s_state x \<noteq> S_PENDING"
      unfolding calls_ok_def by blast
    with keepsD [OF k] show ?thesis unfolding d not_pending_kept_def by blast
  qed
  moreover have "\<exists>n < co_ids t. i = ce_new_id env n" if "(u, i) \<in> dom (rp_attempts (co_repo s))" for u i
  proof -
    from ok that obtain n where "n < co_ids s" "i = ce_new_id env n" unfolding calls_ok_def by blast
    with ids show ?thesis by (intro exI [of _ n]) simp
  qed
  ultimately show ?thesis using ok by (simp add: calls_ok_def d)
qed

text \<open>Steps that touch only the counters of the factories.\<close>

definition quiet :: "'p coordinator \<Rightarrow> 'p coordinator \<Rightarrow> bool" where
  "quiet s t \<longleftrightarrow> co_repo t = co_repo s \<and> co_directory t = co_directory s \<and> co_provider t = co_provider s \<and>
     co_ids s \<le> co_ids t"

lemma quiet_safe: "quiet s t \<Longrightarrow> safe env sub pinv s t"
  by (auto simp: quiet_def safe_def co_inv_def co_advance_def intro: calls_ok_kept)

lemma quiet_steps [simp]:
  "quiet s (snd (lift x s))" "quiet s (snd (raise_if b e s))" "quiet s (snd (read_clock env f s))"
  "quiet s (snd (next_id env s))" "quiet s (snd (next_token env i s))" "quiet s (snd (next_claim env s))"
  "quiet s (snd (make_event env c kind at aid parts det s))"
  by (simp_all add: lift_def raise_if_def read_clock_def next_id_def next_token_def next_claim_def make_event_def quiet_def)

lemma safe_quiet_steps [simp]:
  "safe env sub pinv s (snd (lift x s))" "safe env sub pinv s (snd (raise_if b e s))"
  "safe env sub pinv s (snd (read_clock ev f s))" "safe env sub pinv s (snd (next_id ev s))"
  "safe env sub pinv s (snd (next_token ev i s))" "safe env sub pinv s (snd (next_claim ev s))"
  "safe env sub pinv s (snd (make_event ev c kind at aid parts det s))"
  by (simp_all add: quiet_safe)

text \<open>A step on the repository alone.\<close>

lemma on_repo_safe:
  assumes "\<And>x r. repo_inv (co_repo s) \<Longrightarrow> op (co_repo s) = (x, r) \<Longrightarrow>
     repo_inv r \<and> repo_advance (co_repo s) r \<and> calls_kept (co_repo s) r"
  shows "safe env sub pinv s (snd (on_repo op s))"
  using assms [of "fst (op (co_repo s))" "snd (op (co_repo s))"]
  by (auto simp: safe_def on_repo_def co_inv_def co_advance_def intro: calls_ok_kept)

lemma on_repo_eq: "on_repo op s = (x, t) \<longleftrightarrow> (\<exists>r. op (co_repo s) = (x, r) \<and> t = s\<lparr>co_repo := r\<rparr>)"
  by (cases "op (co_repo s)") (auto simp: on_repo_def)

lemma on_repo_read:
  assumes "\<And>x r. op (co_repo s) = (x, r) \<Longrightarrow> r = co_repo s"
  shows "snd (on_repo op s) = s"
  using assms [of "fst (op (co_repo s))" "snd (op (co_repo s))"] by (simp add: on_repo_def)

lemma safeI: "(co_inv env sub pinv s \<Longrightarrow> safe env sub pinv s t) \<Longrightarrow> safe env sub pinv s t"
  by (auto simp: safe_def)

lemma co_inv_repo: "co_inv env sub pinv s \<Longrightarrow> repo_inv (co_repo s)"
  by (simp add: co_inv_def)

section \<open>Reading a case with its attempt\<close>

definition stored_pair :: "repository \<Rightarrow> dispatch_case \<Rightarrow> call_attempt \<Rightarrow> bool" where
  "stored_pair r c a \<longleftrightarrow> rp_cases r (c_tenant_id c, c_case_id c) = Some c \<and>
     rp_attempts r (a_tenant_id a, a_attempt_id a) = Some a \<and> a_tenant_id a = c_tenant_id c \<and> a_case_id a = c_case_id c"

lemma stored_pairI:
  assumes "repo_inv r" and "rp_cases r (t, a_case_id a) = Some c" and "rp_attempts r (t, n) = Some a"
  shows "stored_pair r c a"
  using assms repo_caseD(1,2) [OF assms(1,2)] repo_attemptD(1,2) [OF assms(1,3)] by (simp add: stored_pair_def)

lemma stored_pair_submission:
  assumes "repo_inv r" and "stored_pair r c a"
  obtains s where "rp_submissions r (a_tenant_id a, a_attempt_id a) = Some s" and "submission_ok c a s"
proof -
  from assms(2) have a: "rp_attempts r (a_tenant_id a, a_attempt_id a) = Some a"
    and c: "rp_cases r (a_tenant_id a, a_case_id a) = Some c" unfolding stored_pair_def by auto
  from repo_attemptD(5) [OF assms(1) a] c that show thesis by auto
qed

lemma stored_pair_valid:
  assumes "repo_inv r" and "stored_pair r c a"
  shows "valid_case c" "valid_attempt a"
  using assms repo_caseD(3) [OF assms(1)] repo_attemptD(3) [OF assms(1)] by (auto simp: stored_pair_def)

lemma or_default_nonempty: "or_default v [] \<noteq> [] \<Longrightarrow> v \<noteq> None"
  by (cases v) (simp_all add: or_default_def)

lemma resolve_bound:
  assumes op: "coord_resolve_callback env tok ref s = (Inr (c, a), t)" and inv: "repo_inv (co_repo t)"
  shows "stored_pair (co_repo t) c a \<and> a_provider_call_reference a \<noteq> None"
proof -
  from op obtain c0 a0 where rd: "resolve_callback tok (co_repo s) = (Inr (c0, a0), co_repo s)"
    by (auto simp: coord_resolve_callback_def effect_simps on_repo_eq dest: resolve_callback_unchanged)
  show ?thesis
  proof (cases "or_default (a_provider_call_reference a0) [] \<noteq> [] \<and> ref \<noteq> []")
    case True
    with op rd have "t = s" "c = c0" "a = a0"
      by (auto simp: coord_resolve_callback_def on_repo_def Let_def effect_simps)
    moreover from True have "a_provider_call_reference a0 \<noteq> None" by (auto dest: or_default_nonempty)
    moreover from resolve_callback_Inr [OF rd] obtain u n where
      "rp_attempts (co_repo s) (u, n) = Some a0" "rp_cases (co_repo s) (u, a_case_id a0) = Some c0" by auto
    ultimately show ?thesis using inv by (auto intro: stored_pairI)
  next
    case False
    with op rd obtain r2 now ev where "bind_provider_callback (ce_sha env) tok ref now ev r2 = (Inr (c, a), co_repo t)"
      by (auto simp: coord_resolve_callback_def on_repo_eq Let_def effect_simps)
    then show ?thesis
    proof (cases rule: bind_cases)
      case (known u n stored)
      then show ?thesis using inv by (auto intro: stored_pairI)
    next
      case (bound u n d b x at)
      from bound(13) have "rp_attempts (co_repo t) (u, n) = Some a" "rp_cases (co_repo t) (u, a_case_id b) = Some c"
        by (auto simp: effect_simps)
      moreover have "a_provider_call_reference a \<noteq> None" "a_case_id a = a_case_id b"
        by (simp_all add: bound bound_attempt_def)
      ultimately show ?thesis using inv by (auto intro: stored_pairI)
    qed
  qed
qed

lemma bind_keeps_inv: "repo_inv r \<Longrightarrow> bind_provider_callback sha tok ref at ev r = (x, r') \<Longrightarrow> repo_inv r'"
  by (cases x) (auto dest: bind_error intro: bind_inv)

lemma resolve_safe: "safe env sub pinv s (snd (coord_resolve_callback ev tok ref s))"
  unfolding coord_resolve_callback_def Let_def
proof (rule safe_then)
  have "snd (on_repo (resolve_callback tok) s) = s"
    by (rule on_repo_read) (rule resolve_callback_unchanged)
  then show "safe env sub pinv s (snd (on_repo (resolve_callback tok) s))" by simp
next
  fix x t
  have "safe env sub pinv u (snd (on_repo (bind_provider_callback (ce_sha ev) tok ref now event) u))" for u now event
    by (intro on_repo_safe) (auto intro: bind_keeps_inv bind_advance bind_calls)
  then show "safe env sub pinv t (snd (if or_default (a_provider_call_reference (snd x)) [] \<noteq> [] \<and> ref \<noteq> []
      then and_then (lift (stored_reference_matches (ce_sha ev) (or_default (a_provider_call_reference (snd x)) []) ref) t)
            (\<lambda>matches s. and_then (raise_if (\<not> matches) (Raised WebhookCallMismatch) s) (\<lambda>_ s. (Inr x, s)))
      else and_then (raise_if (ref = []) (Raised WebhookCallMismatch) t) (\<lambda>_ s.
           and_then (read_clock ev ''provider callback binding time'' s) (\<lambda>now s.
           and_then (make_event ev (fst x) E_CALL_INITIATED now (Some (a_attempt_id (snd x)))
                 [''call-initiated'', a_attempt_id (snd x)] None s) (\<lambda>event s.
           on_repo (bind_provider_callback (ce_sha ev) tok ref now event) s)))))"
    by (simp add: safe_then)
qed

lemma callback_time_safe [simp]: "safe env sub pinv s (snd (callback_time ev at s))"
  by (cases at) (simp_all add: callback_time_def)

lemma get_case_safe [simp]: "safe env sub pinv s (snd (on_repo (get_case t i) s))"
proof -
  have "snd (on_repo (get_case t i) s) = s"
    by (rule on_repo_read) (simp add: get_case_def fetch_def split: option.splits)
  then show ?thesis by simp
qed

lemma record_event_safe [simp]: "safe env sub pinv s (snd (record_event ev c a kind now dedupe det s))"
  unfolding record_event_def
  by (intro safe_then) (auto intro!: on_repo_safe intro: append_event_inv append_event_advance append_event_calls)

section \<open>Legal updates\<close>

definition legal_update :: "dispatch_case \<Rightarrow> call_attempt \<Rightarrow> dispatch_case \<Rightarrow> call_attempt \<Rightarrow> bool" where
  "legal_update c a c' a' \<longleftrightarrow> transition_ok c a c' a' \<and> case_advance c c' \<and> attempt_advance a a'"

lemma legal_update_keys:
  assumes "legal_update c a c' a'"
  shows "c_tenant_id c' = c_tenant_id c" "c_case_id c' = c_case_id c" "a_tenant_id a' = a_tenant_id a"
    "a_attempt_id a' = a_attempt_id a" "a_case_id a' = a_case_id a"
  using assms same_case_fields [of c c'] same_attempt_fields [of a a']
  by (auto simp: legal_update_def case_advance_def attempt_advance_def)

lemma apply_transition_safe:
  assumes pair: "stored_pair (co_repo s) c a" and legal: "legal_update c a c' a'"
  shows "safe env sub pinv s (snd (on_repo (apply_transition c' a' ev v w) s))"
proof (rule on_repo_safe)
  fix x r assume inv: "repo_inv (co_repo s)" and op: "apply_transition c' a' ev v w (co_repo s) = (x, r)"
  have keys: "rp_cases (co_repo s) (c_tenant_id c', c_case_id c') = Some c"
    "rp_attempts (co_repo s) (a_tenant_id a', a_attempt_id a') = Some a"
    using pair by (auto simp: stored_pair_def legal_update_keys [OF legal])
  have ok: "transition_ok c a c' a'" "case_advance c c'" "attempt_advance a a'"
    using legal by (simp_all add: legal_update_def)
  have "repo_inv r"
  proof (cases x)
    case (Inl e)
    then show ?thesis using apply_transition_error [OF inv] op inv by blast
  next
    case (Inr b)
    then show ?thesis using apply_transition_inv [OF inv _ keys ok(1)] op by blast
  qed
  with apply_transition_advance [OF inv op keys ok(2,3)] apply_transition_calls [OF op]
  show "repo_inv r \<and> repo_advance (co_repo s) r \<and> calls_kept (co_repo s) r" by simp
qed

lemma apply_update_safe:
  assumes pair: "stored_pair (co_repo s) c a" and legal: "legal_update c a c' a'"
  shows "safe env sub pinv s (snd (apply_update ev c a c' a' kind now dedupe det s))"
  unfolding apply_update_def
proof (rule safe_then)
  fix x t assume "make_event ev c kind now (Some (a_attempt_id a)) dedupe det s = (Inr x, t)"
  then have "co_repo t = co_repo s" by (auto simp: make_event_def next_id_def lift_def)
  with pair have "stored_pair (co_repo t) c a" by simp
  from apply_transition_safe [OF this legal]
  show "safe env sub pinv t (snd (and_then (on_repo (apply_transition c' a' x (c_version c) (a_version a)) t)
      (\<lambda>_ s. (Inr (), s))))"
    by (rule safe_then) simp
qed simp

lemma unacknowledged_legal:
  assumes "unacknowledged env c a at outcome s = (Inr (c', a', kind), t)"
    and "\<not> terminal_dispatch (c_status c)" and "a_provider_call_reference a \<noteq> None"
  shows "legal_update c a c' a' \<and> t = s"
  using assms
  by (auto simp: unacknowledged_def effect_simps new_attempt_Inr new_case_Inr legal_update_def transition_ok_def
      legal_step_def case_advance_def attempt_advance_def same_case_def same_attempt_def split: prod.splits)

lemma progress_status_progress: "in_progress st \<Longrightarrow> in_progress (progress_status st x)"
  by (auto simp: progress_status_def Let_def desired_status_def in_progress_def)

lemma progressed_legal:
  assumes "progressed c a now x s = (Inr (c', a', kind), t)"
    and "\<not> terminal_dispatch (c_status c)" and "in_progress (a_status a)" and "a_provider_call_reference a \<noteq> None"
  shows "legal_update c a c' a' \<and> t = s"
  using assms progress_status_progress [OF assms(3), of x]
  by (auto simp: progressed_def Let_def effect_simps new_attempt_Inr new_case_Inr legal_update_def transition_ok_def
      legal_step_def case_advance_def attempt_advance_def same_case_def same_attempt_def in_progress_def)

lemma gather_legal:
  assumes "valid_case (gather_case c digits now)" and "valid_attempt (gather_attempt a digits now)"
    and "c_status c \<notin> {D_ACKNOWLEDGED, D_MANUAL_FOLLOW_UP, D_CANCELED}"
  shows "legal_update c a (gather_case c digits now) (gather_attempt a digits now)"
  using assms
  by (auto simp: gather_case_def gather_attempt_def Let_def legal_update_def transition_ok_def
      legal_step_def case_advance_def attempt_advance_def same_case_def same_attempt_def terminal_dispatch_def)

lemma bound_open_progress:
  assumes "repo_inv r" and "stored_pair r c a" and "a_provider_call_reference a \<noteq> None"
    and "\<not> terminal_attempt (a_status a)"
  shows "in_progress (a_status a)"
proof -
  obtain s where "submission_ok c a s" using stored_pair_submission [OF assms(1,2)] .
  with assms(3,4) show ?thesis
    by (cases "a_status a") (auto simp: submission_ok_def in_progress_def)
qed

section \<open>The webhook handlers\<close>

text \<open>A handler resolves its callback first; what follows sees the stored records.\<close>

lemma handler_safe:
  assumes "\<And>c a t. stored_pair (co_repo t) c a \<Longrightarrow> a_provider_call_reference a \<noteq> None \<Longrightarrow> co_inv env sub pinv t \<Longrightarrow>
      safe env sub pinv t (snd (k (c, a) t))"
  shows "safe env sub pinv s (snd (and_then (coord_resolve_callback ev tok ref s) k))"
proof (rule safe_then)
  fix x t assume op: "coord_resolve_callback ev tok ref s = (Inr x, t)"
  obtain c a where x: "x = (c, a)" by (cases x)
  show "safe env sub pinv t (snd (k x t))"
  proof (rule safeI)
    assume inv: "co_inv env sub pinv t"
    from resolve_bound [OF op [unfolded x] co_inv_repo [OF inv]] inv
    show "safe env sub pinv t (snd (k x t))" unfolding x by (intro assms) auto
  qed
qed (rule resolve_safe)

lemma callback_time_repo: "callback_time env at s = (x, t) \<Longrightarrow> co_repo t = co_repo s"
  by (auto simp: callback_time_def read_clock_def lift_def split: option.splits)

lemma update_safe:
  assumes "stored_pair (co_repo s) c a" and "\<And>c' a' kind t. r = (Inr (c', a', kind), t) \<Longrightarrow> legal_update c a c' a' \<and> t = s"
    and "safe env sub pinv s (snd r)"
  shows "safe env sub pinv s (snd (and_then r (\<lambda>updated s. case updated of (c', a', kind) \<Rightarrow>
      and_then (apply_update ev c a c' a' kind now dedupe det s) (\<lambda>_ s. on_repo (get_case t i) s))))"
proof (rule safe_then [OF assms(3)])
  fix x u assume r: "r = (Inr x, u)"
  obtain c' a' kind where x: "x = (c', a', kind)" by (cases x)
  from assms(2) [of c' a' kind u] r x have "legal_update c a c' a'" "u = s" by simp_all
  with assms(1) show "safe env sub pinv u (snd (case x of (c', a', kind) \<Rightarrow>
      and_then (apply_update ev c a c' a' kind now dedupe det u) (\<lambda>_ s. on_repo (get_case t i) s)))"
    by (simp add: x safe_then apply_update_safe)
qed

lemma unacknowledged_state: "snd (unacknowledged env c a at outcome s) = s"
  by (auto simp: unacknowledged_def lift_def and_then_def split: prod.splits sum.splits)

lemma progressed_state: "snd (progressed c a at outcome s) = s"
  by (auto simp: progressed_def Let_def lift_def and_then_def split: prod.splits sum.splits)

lemma stored_pair_repo: "co_repo t = co_repo s \<Longrightarrow> stored_pair (co_repo s) c a \<Longrightarrow> stored_pair (co_repo t) c a"
  by simp

text \<open>The time of a callback is read between the resolution and the rest of a handler.\<close>

lemma timed_safe:
  assumes pair: "stored_pair (co_repo s) c a" and inv: "co_inv env sub pinv s"
    and k: "\<And>now t. stored_pair (co_repo t) c a \<Longrightarrow> repo_inv (co_repo t) \<Longrightarrow> safe env sub pinv t (snd (k now t))"
  shows "safe env sub pinv s (snd (and_then (callback_time ev at s) k))"
proof (rule safe_then)
  fix now t assume "callback_time ev at s = (Inr now, t)"
  then have "co_repo t = co_repo s" by (rule callback_time_repo)
  with pair co_inv_repo [OF inv] show "safe env sub pinv t (snd (k now t))" by (intro k) simp_all
qed simp

lemma handle_status_safe: "safe env sub pinv s (snd (handle_status ev tok ref st ek at s))"
  unfolding handle_status_def Let_def
proof (rule safe_then [OF safe_quiet_steps(2)], rule handler_safe, rule timed_safe)
  fix c a t now and u :: "'a coordinator"
  assume pair: "stored_pair (co_repo u) c a" and ref: "a_provider_call_reference a \<noteq> None" and inv: "repo_inv (co_repo u)"
  show "safe env sub pinv u (snd (status_step ev (fst (c, a)) (snd (c, a)) now
      [''provider-status'', ref, normalize_status st] (normalize_status st) u))"
  proof (cases "terminal_dispatch (c_status c) \<or> terminal_attempt (a_status a)")
    case True
    then show ?thesis by (simp add: status_step_def safe_then)
  next
    case False
    note legal = unacknowledged_legal progressed_legal
    show ?thesis
      unfolding status_step_def if_not_P [OF False] fst_conv snd_conv
      by (rule update_safe [OF pair])
        (use False ref bound_open_progress [OF inv pair ref] in
          \<open>auto dest!: legal simp: unacknowledged_state progressed_state split: if_splits\<close>)
  qed
qed auto

lemma handle_answering_machine_safe: "safe env sub pinv s (snd (handle_answering_machine ev tok ref st ek at s))"
  unfolding handle_answering_machine_def Let_def
proof (rule safe_then [OF safe_quiet_steps(2)], rule handler_safe, rule timed_safe)
  fix c a t now and u :: "'a coordinator"
  assume pair: "stored_pair (co_repo u) c a" and ref: "a_provider_call_reference a \<noteq> None" and inv: "repo_inv (co_repo u)"
  show "safe env sub pinv u (snd (answering_machine_step ev (fst (c, a)) (snd (c, a)) now
      [''amd'', ref, normalize_status st] (normalize_status st) u))"
  proof (cases "terminal_dispatch (c_status c) \<or> terminal_attempt (a_status a) \<or> normalize_status st = ''human''")
    case True
    then show ?thesis by (auto simp: answering_machine_step_def safe_then)
  next
    case False
    then have open_case: "\<not> (terminal_dispatch (c_status c) \<or> terminal_attempt (a_status a))"
      "normalize_status st \<noteq> ''human''" by simp_all
    show ?thesis
      unfolding answering_machine_step_def if_not_P [OF open_case(1)] if_not_P [OF open_case(2)] fst_conv snd_conv
      by (rule update_safe [OF pair])
        (use open_case ref in \<open>auto dest!: unacknowledged_legal simp: unacknowledged_state\<close>)
  qed
qed auto

lemma handle_gather_safe: "safe env sub pinv s (snd (handle_gather ev tok ref ds ek at s))"
  unfolding handle_gather_def Let_def
proof (rule handler_safe, rule timed_safe)
  fix c a t now and u :: "'a coordinator"
  assume pair: "stored_pair (co_repo u) c a"
  show "safe env sub pinv u (snd (gather_step ev (fst (c, a)) (snd (c, a)) now [''gather'', ref, ds] ds u))"
  proof (cases "ds \<notin> {''1'', ''2''} \<or> c_status c \<in> {D_ACKNOWLEDGED, D_MANUAL_FOLLOW_UP, D_CANCELED}")
    case True
    then show ?thesis by (auto simp: gather_step_def Let_def safe_then)
  next
    case False
    have "safe env sub pinv u (snd (apply_update ev c a (gather_case c ds now) (gather_attempt a ds now) k now d det u))"
      if "valid_case (gather_case c ds now)" "valid_attempt (gather_attempt a ds now)" for k d det
      using that False by (intro apply_update_safe [OF pair] gather_legal) auto
    with False show ?thesis
      by (auto simp: gather_step_def Let_def lift_eq new_case_Inr new_attempt_Inr intro!: safe_then)
  qed
qed auto

lemma voice_script_safe: "safe env sub pinv s (snd (voice_script ev tok ref s))"
  unfolding voice_script_def by (intro safe_then resolve_safe) simp_all

section \<open>Authorization\<close>

lemma same_fingerprint_safe [simp]: "safe env sub pinv s (snd (same_fingerprint c f s))"
  by (simp add: same_fingerprint_def safe_then)

lemma create_case_safe:
  assumes "valid_case c" and "c_attempt_count c = 0"
  shows "safe env sub pinv s (snd (on_repo (create_case c k ev) s))"
  by (rule on_repo_safe) (use assms in \<open>blast intro: create_case_inv create_case_advance create_case_calls\<close>)

lemma authorize_new_safe: "safe env sub pinv s (snd (authorize_new ev i by_whom key v f s))"
  unfolding authorize_new_def
  by (auto intro!: safe_then create_case_safe simp: lift_eq new_case_Inr authorized_case_def)

lemma find_case_read: "find_case_by_idempotency t k r = (x, r') \<Longrightarrow> r' = r"
  by (cases x) (auto simp: find_case_by_idempotency_def effect_simps split: option.splits)

lemma authorize_safe: "safe env sub pinv s (snd (authorize ev i by_whom key flag v s))"
proof -
  have "snd (on_repo (find_case_by_idempotency t key) u) = u" for t and u :: "'a coordinator"
    by (rule on_repo_read) (rule find_case_read)
  then show ?thesis
    unfolding authorize_def Let_def
    by (auto intro!: safe_then simp: authorize_new_safe split: option.splits)
qed

section \<open>Closing a case\<close>

lemma list_attempts_read: "list_attempts t i r = (x, r') \<Longrightarrow> r' = r"
  by (cases x) (auto simp: list_attempts_def effect_simps)

lemma on_repo_reads [simp]:
  "snd (on_repo (list_attempts t i) s) = s" "snd (on_repo (get_case t i) s) = s"
  by (rule on_repo_read, auto dest: list_attempts_read simp: get_case_def fetch_def split: option.splits)+

lemma active_attempt_pair:
  assumes inv: "repo_inv r" and c: "rp_cases r (t, i) = Some c" and at: "list_attempts t i r = (Inr as, r')"
    and a: "active_attempt as = Some a"
  shows "stored_pair r c a \<and> \<not> terminal_attempt (a_status a)"
proof -
  from a have a': "a \<in> set as" "\<not> terminal_attempt (a_status a)"
    using filter_last_in [of "\<lambda>a. \<not> terminal_attempt (a_status a)" as]
    by (auto simp: active_attempt_def Let_def split: if_splits)
  from at obtain ids where ids: "rp_attempt_ids r (t, i) = Some ids" "attempts_at r t ids = Inr as"
    by (auto simp: list_attempts_def effect_simps)
  with a' obtain j where j: "j < length ids" "rp_attempts r (t, ids ! j) = Some a"
    by (auto simp: attempts_at_Inr in_set_conv_nth)
  have "case_attempts r c ids" "c_tenant_id c = t" "c_case_id c = i"
    using repo_caseD [OF inv c] ids(1) by auto
  with j have "a_case_id a = i" by (auto simp: case_attempts_def attempt_slot_def)
  with stored_pairI [OF inv _ j(2)] c a' show ?thesis by simp
qed

lemma close_legal:
  assumes "valid_case (closed_case c st now)" and "valid_attempt a'" and "same_attempt a a'"
    and "a_provider_call_reference a' = a_provider_call_reference a" and "a_version a' = a_version a + 1"
    and "terminal_attempt (a_status a')" and "terminal_dispatch st" and "\<not> terminal_dispatch (c_status c)"
  shows "legal_update c a (closed_case c st now) a'"
  using assms
  by (auto simp: closed_case_def legal_update_def transition_ok_def legal_step_def case_advance_def
      attempt_advance_def same_case_def)

lemma apply_case_transition_safe:
  assumes "rp_cases (co_repo s) (c_tenant_id c, c_case_id c) = Some c" and "valid_case (closed_case c st now)"
    and "terminal_dispatch st" and "\<not> terminal_dispatch (c_status c)"
  shows "safe env sub pinv s (snd (on_repo (apply_case_transition (closed_case c st now) ev v) s))"
proof (rule on_repo_safe)
  fix x r assume inv: "repo_inv (co_repo s)"
    and op: "apply_case_transition (closed_case c st now) ev v (co_repo s) = (x, r)"
  have c: "rp_cases (co_repo s) (c_tenant_id (closed_case c st now), c_case_id (closed_case c st now)) = Some c"
    using assms(1) by (simp add: closed_case_def)
  have "same_case c (closed_case c st now)" "case_advance c (closed_case c st now)"
    using assms(4) by (simp_all add: closed_case_def same_case_def case_advance_def)
  moreover have "repo_inv r"
  proof (cases x)
    case (Inl e)
    then show ?thesis using apply_case_transition_error [OF inv] op inv by blast
  next
    case (Inr b)
    with op have op': "apply_case_transition (closed_case c st now) ev v (co_repo s) = (Inr b, r)" by simp
    show ?thesis
      by (rule apply_case_transition_inv [OF inv op' c calculation(1) assms(2)])
        (use assms(3) in \<open>simp_all add: closed_case_def\<close>)
  qed
  ultimately show "repo_inv r \<and> repo_advance (co_repo s) r \<and> calls_kept (co_repo s) r"
    using apply_case_transition_advance [OF inv op c] apply_case_transition_calls [OF op] by simp
qed

definition closes_attempt :: "(call_attempt \<Rightarrow> call_attempt) \<Rightarrow> bool" where
  "closes_attempt f \<longleftrightarrow> (\<forall>a. same_attempt a (f a) \<and> a_provider_call_reference (f a) = a_provider_call_reference a \<and>
     a_version (f a) = a_version a + 1 \<and> terminal_attempt (a_status (f a)))"

lemma closes_attempts: "closes_attempt (\<lambda>a. canceled_attempt a now)" "closes_attempt (\<lambda>a. exhausted_attempt a now)"
  by (simp_all add: closes_attempt_def canceled_attempt_def exhausted_attempt_def same_attempt_def)

lemma close_case_safe:
  assumes c: "rp_cases (co_repo s) (t, i) = Some c" and "valid_case (closed_case c st now)"
    and "terminal_dispatch st" and "\<not> terminal_dispatch (c_status c)" and f: "closes_attempt f"
    and at: "fst (list_attempts t i (co_repo s)) = Inr as"
  shows "safe env sub pinv s (snd (close_case c (closed_case c st now) (active_attempt as) f ev s))"
proof (rule safeI)
  assume "co_inv env sub pinv s"
  then have inv: "repo_inv (co_repo s)" by (rule co_inv_repo)
  show "safe env sub pinv s (snd (close_case c (closed_case c st now) (active_attempt as) f ev s))"
  proof (cases "active_attempt as")
    case None
    with apply_case_transition_safe [of s c st now] assms repo_caseD(1,2) [OF inv c] show ?thesis
      by (simp add: close_case_def)
  next
    case (Some a)
    from at have "list_attempts t i (co_repo s) = (Inr as, snd (list_attempts t i (co_repo s)))"
      by (simp add: prod_eq_iff)
    from active_attempt_pair [OF inv c this Some] have pair: "stored_pair (co_repo s) c a" by simp
    have "safe env sub pinv s (snd (on_repo (apply_transition (closed_case c st now) (f a) ev v w) s))"
      if "valid_attempt (f a)" for v w
      using that assms f by (intro apply_transition_safe [OF pair] close_legal) (simp_all add: closes_attempt_def)
    with Some show ?thesis by (auto simp: close_case_def lift_eq new_attempt_Inr intro!: safe_then)
  qed
qed

lemma make_event_repo: "make_event ev c kind at aid parts det s = (x, t) \<Longrightarrow> co_repo t = co_repo s"
  by (auto simp: make_event_def next_id_def lift_def)

lemma read_clock_repo: "read_clock ev f s = (x, t) \<Longrightarrow> co_repo t = co_repo s"
  by (auto simp: read_clock_def)

lemma on_repo_read_eq: "on_repo (list_attempts t i) s = (x, u) \<Longrightarrow> u = s \<and> fst (list_attempts t i (co_repo s)) = x"
  using on_repo_reads(1) [of t i s] by (auto simp: on_repo_def)

lemma on_repo_case: "on_repo (get_case t i) s = (Inr c, u) \<longleftrightarrow> u = s \<and> rp_cases (co_repo s) (t, i) = Some c"
  by (auto simp: on_repo_eq get_case_eq)

lemma exhaust_loop_safe: "safe env sub pinv s (snd (exhaust_loop n ev t i s))"
proof (induction n arbitrary: s)
  case 0
  show ?case by simp
next
  case (Suc n)
  show ?case
    unfolding exhaust_loop.simps Let_def
  proof (rule safe_then, simp)
    fix c u assume "on_repo (get_case t i) s = (Inr c, u)"
    then have c: "rp_cases (co_repo u) (t, i) = Some c" by (auto simp: on_repo_case)
    have close: "safe env sub pinv w (snd (case close_case c d (active_attempt as) (\<lambda>a. exhausted_attempt a now) e w of
        (Inl e, s) \<Rightarrow> if e = repository_conflict \<and> n \<noteq> 0 then exhaust_loop n ev t i s else (Inl e, s)
      | (Inr x, s) \<Rightarrow> on_repo (get_case t i) s))"
      if "co_repo w = co_repo u" "fst (list_attempts t i (co_repo u)) = Inr as" "\<not> terminal_dispatch (c_status c)"
        "new_case (closed_case c D_MANUAL_FOLLOW_UP now) = Inr d" for w as now d e
    proof -
      from that c have "safe env sub pinv w (snd (close_case c d (active_attempt as) (\<lambda>a. exhausted_attempt a now) e w))"
        by (auto simp: new_case_Inr intro!: close_case_safe closes_attempts)
      then show ?thesis using Suc.IH by (auto split: prod.splits sum.splits intro: safe_trans)
    qed
    show "safe env sub pinv u (snd (if terminal_dispatch (c_status c) then (Inr c, u)
       else and_then (read_clock ev ''delivery exhaustion time'' u) (\<lambda>now s.
       and_then (on_repo (list_attempts t i) s) (\<lambda>attempts s.
       and_then (make_event ev c E_MANUAL_FOLLOW_UP now (map_option a_attempt_id (active_attempt attempts))
                 [''delivery-exhausted'', t, i] (Some ''dispatch_delivery_exhausted'') s) (\<lambda>event s.
       and_then (lift (new_case (closed_case c D_MANUAL_FOLLOW_UP now)) s) (\<lambda>updated_case s.
       case close_case c updated_case (active_attempt attempts) (\<lambda>a. exhausted_attempt a now) event s of
         (Inl e, s) \<Rightarrow> if e = repository_conflict \<and> n \<noteq> 0 then exhaust_loop n ev t i s else (Inl e, s)
       | (Inr _, s) \<Rightarrow> on_repo (get_case t i) s))))))"
      by (auto intro!: safe_then close simp: lift_eq dest!: read_clock_repo make_event_repo on_repo_read_eq)
  qed
qed

section \<open>Reserving and claiming\<close>

lemma reserve_dom:
  assumes "repo_inv r" and "reserve_next_attempt t i n tok at ev r = (x, r')"
  shows "r' = r \<or> dom (rp_attempts r') = insert (t, n) (dom (rp_attempts r)) \<and>
     rp_submissions r' = (rp_submissions r)((t, n) \<mapsto> fresh_submission) \<and> rp_attempts r (t, n) = None"
proof (cases x)
  case (Inl e)
  then show ?thesis using reserve_error [OF assms(1)] assms(2) by blast
next
  case (Inr v)
  from assms(1) assms(2) [unfolded Inr] show ?thesis
  proof (cases rule: reserve_cases)
    case (created c ids a c')
    then show ?thesis by (auto simp: effect_simps)
  qed simp
qed

text \<open>The reserved id is the one drawn after every stored id, so it is new in all tenants.\<close>

lemma reserve_safe:
  assumes ids: "\<And>u j. (u, j) \<in> dom (rp_attempts (co_repo s)) \<Longrightarrow> \<exists>k < n. j = ce_new_id env k" and n: "n < co_ids s"
  shows "safe env sub pinv s (snd (on_repo (reserve_next_attempt t i (ce_new_id env n) tok at ev) s))"
proof (rule safeI)
  assume inv: "co_inv env sub pinv s"
  let ?op = "reserve_next_attempt t i (ce_new_id env n) tok at ev"
  obtain x r where op: "?op (co_repo s) = (x, r)" by (cases "?op (co_repo s)")
  have R: "repo_inv (co_repo s)" and C: "calls_ok env (sub (co_provider s)) s" using inv by (simp_all add: co_inv_def)
  have "repo_inv r"
    using op R by (cases x) (auto dest: reserve_error reserve_inv)
  moreover have "calls_ok env (sub (co_provider s)) (s\<lparr>co_repo := r\<rparr>)"
  proof (cases "r = co_repo s")
    case True
    then show ?thesis using C by simp
  next
    case False
    with reserve_dom [OF R op] have d: "dom (rp_attempts r) = insert (t, ce_new_id env n) (dom (rp_attempts (co_repo s)))"
      and sb: "rp_submissions r = (rp_submissions (co_repo s))((t, ce_new_id env n) \<mapsto> fresh_submission)" by simp_all
    have new: "(u, ce_new_id env n) \<notin> dom (rp_attempts (co_repo s))" for u
    proof
      assume "(u, ce_new_id env n) \<in> dom (rp_attempts (co_repo s))"
      from ids [OF this] obtain k where "k < n" "ce_new_id env n = ce_new_id env k" by auto
      with C show False by (simp add: calls_ok_def inj_eq)
    qed
    have "\<exists>u y. (u, j) \<in> dom (rp_attempts r) \<and> rp_submissions r (u, j) = Some y \<and> s_state y \<noteq> S_PENDING"
      if "j \<in> set (sub (co_provider s))" for j
    proof -
      from C that obtain u y where "(u, j) \<in> dom (rp_attempts (co_repo s))"
          "rp_submissions (co_repo s) (u, j) = Some y" "s_state y \<noteq> S_PENDING" unfolding calls_ok_def by blast
      with new show ?thesis by (intro exI [of _ u] exI [of _ y]) (auto simp: d sb)
    qed
    moreover have "\<exists>k < co_ids s. j = ce_new_id env k" if "(u, j) \<in> dom (rp_attempts r)" for u j
      using that n ids [of u j] unfolding d by (auto intro: less_trans)
    moreover have "u = v" if "(u, j) \<in> dom (rp_attempts r)" "(v, j) \<in> dom (rp_attempts r)" for u v j
    proof -
      have "u = v" if "(u, j) \<in> dom (rp_attempts (co_repo s))" "(v, j) \<in> dom (rp_attempts (co_repo s))"
        using C that unfolding calls_ok_def by blast
      with that new show ?thesis unfolding d by blast
    qed
    ultimately show ?thesis using C by (simp add: calls_ok_def)
  qed
  ultimately show "safe env sub pinv s (snd (on_repo ?op s))"
    using inv reserve_advance [OF R op] by (simp add: safe_def on_repo_def op co_inv_def co_advance_def)
qed

lemma reserved_pair:
  assumes "repo_inv r" and "repo_inv r'" and "reserve_next_attempt t i n tok at ev r = (Inr v, r')"
  shows "rp_attempts r' (t, a_attempt_id (rv_attempt v)) = Some (rv_attempt v) \<and> a_case_id (rv_attempt v) = i \<and>
     \<not> terminal_attempt (a_status (rv_attempt v))"
  using assms(1,3)
proof (cases rule: reserve_cases)
  case (created c ids a c')
  moreover have "c_case_id c = i" using repo_caseD(2) [OF assms(1) created(1)] .
  ultimately show ?thesis by (auto simp: effect_simps reserved_attempt_def)
qed simp

text \<open>The records a claim returns are the stored ones; an acquired claim was pending before.\<close>

lemma claim_pair:
  assumes inv: "repo_inv r" and inv': "repo_inv r'" and op: "claim_provider_submission sha t i n tok at dl r = (Inr v, r')"
  shows "stored_pair r' (cl_case v) (cl_attempt v) \<and> a_attempt_id (cl_attempt v) = n \<and> c_tenant_id (cl_case v) = t \<and>
     (cl_stale v \<longrightarrow> \<not> cl_acquired v) \<and>
     (cl_acquired v \<longrightarrow> \<not> terminal_dispatch (c_status (cl_case v)) \<and> \<not> terminal_attempt (a_status (cl_attempt v)) \<and>
        a_provider_call_reference (cl_attempt v) = None \<and>
        (\<exists>s. rp_submissions r (t, n) = Some s \<and> s_state s = S_PENDING) \<and>
        (\<exists>s. rp_submissions r' (t, n) = Some s \<and> s_state s = S_CLAIMED))"
  using op
proof (cases rule: claim_cases)
  case (denied c a s)
  with stored_pairI [OF inv, of t a c n] repo_attemptD(2) [OF inv denied(2)] repo_caseD(1) [OF inv denied(1)]
  show ?thesis by auto
next
  case (acquired c a s c' a')
  have "rp_cases r' (t, a_case_id a') = Some c'" "rp_attempts r' (t, n) = Some a'"
    using acquired by (simp_all add: claimed_attempt_def)
  with stored_pairI [OF inv' this] repo_attemptD(2) [OF inv', of t n a'] repo_caseD(1) [OF inv'] have
    "stored_pair r' c' a'" "a_attempt_id a' = n" "c_tenant_id c' = t" by auto
  moreover have "a_provider_call_reference a = None"
    using repo_attemptD(5) [OF inv acquired(2)] acquired(4,5) by (auto simp: submission_ok_def)
  ultimately show ?thesis
    using acquired by (auto simp: claimed_case_def claimed_attempt_def claimed_submission_def)
qed

lemma claim_safe: "safe env sub pinv s (snd (on_repo (claim_provider_submission sha t i n tok at dl) s))"
proof (rule on_repo_safe)
  fix x r assume inv: "repo_inv (co_repo s)" and op: "claim_provider_submission sha t i n tok at dl (co_repo s) = (x, r)"
  have "repo_inv r" using op inv by (cases x) (auto dest: claim_error claim_inv)
  with claim_advance [OF op] claim_calls [OF op]
  show "repo_inv r \<and> repo_advance (co_repo s) r \<and> calls_kept (co_repo s) r" by simp
qed

section \<open>Settling a claimed submission\<close>

definition settles :: "dispatch_case \<Rightarrow> call_attempt \<Rightarrow> dispatch_case \<Rightarrow> call_attempt \<Rightarrow> bool" where
  "settles c a c' a' \<longleftrightarrow> legal_step c a c' a' \<and> a_provider_call_reference a' = a_provider_call_reference a \<and>
     case_advance c c' \<and> attempt_advance a a'"

lemma settles_keys:
  assumes "settles c a c' a'"
  shows "c_tenant_id c' = c_tenant_id c" "c_case_id c' = c_case_id c" "a_tenant_id a' = a_tenant_id a"
    "a_attempt_id a' = a_attempt_id a"
  using assms same_case_fields [of c c'] same_attempt_fields [of a a']
  by (auto simp: settles_def case_advance_def attempt_advance_def)

lemma finish_repo:
  assumes inv: "repo_inv r" and pair: "stored_pair r c a" and ok: "settles c a c' a'"
    and op: "finish_provider_submission sha c' a' ev tok outcome v w r = (x, r')"
  shows "repo_inv r' \<and> repo_advance r r'"
proof -
  have keys: "rp_cases r (c_tenant_id c', c_case_id c') = Some c" "rp_attempts r (a_tenant_id a', a_attempt_id a') = Some a"
    using pair by (auto simp: stored_pair_def settles_keys [OF ok])
  have S: "legal_step c a c' a'" "a_provider_call_reference a' = a_provider_call_reference a"
    "case_advance c c'" "attempt_advance a a'" using ok by (simp_all add: settles_def)
  have "repo_inv r'"
  proof (cases x)
    case (Inl e)
    then show ?thesis using finish_error [OF inv] op inv by blast
  next
    case (Inr b)
    then show ?thesis using finish_inv [OF inv _ keys S(1,2)] op by blast
  qed
  with finish_advance [OF inv op keys S(3,4)] show ?thesis by simp
qed

lemma finish_uncertain_safe:
  assumes "stored_pair (co_repo s) c a" and "settles c a c' a'" and "outcome \<noteq> O_RETRYABLE_FAILURE"
  shows "safe env sub pinv s (snd (on_repo (finish_provider_submission sha c' a' ev tok outcome v w) s))"
  using finish_repo [OF _ assms(1,2)] finish_calls [OF _ assms(3)] by (intro on_repo_safe) blast

lemma expire_safe:
  assumes pair: "stored_pair (co_repo s) c a" and ok: "settles c a c' a'"
  shows "safe env sub pinv s (snd (on_repo (expire_provider_submission c' a' ev at v w) s))"
proof (rule on_repo_safe)
  fix x r assume inv: "repo_inv (co_repo s)" and op: "expire_provider_submission c' a' ev at v w (co_repo s) = (x, r)"
  have keys: "rp_cases (co_repo s) (c_tenant_id c', c_case_id c') = Some c"
    "rp_attempts (co_repo s) (a_tenant_id a', a_attempt_id a') = Some a"
    using pair by (auto simp: stored_pair_def settles_keys [OF ok])
  have S: "legal_step c a c' a'" "a_provider_call_reference a' = a_provider_call_reference a"
    "case_advance c c'" "attempt_advance a a'" using ok by (simp_all add: settles_def)
  have "repo_inv r"
  proof (cases x)
    case (Inl e)
    then show ?thesis using expire_error [OF inv] op inv by blast
  next
    case (Inr b)
    then show ?thesis using expire_inv [OF inv _ keys S(1,2)] op by blast
  qed
  with expire_advance [OF inv op keys S(3,4)] expire_calls [OF op]
  show "repo_inv r \<and> repo_advance (co_repo s) r \<and> calls_kept (co_repo s) r" by simp
qed

text \<open>Making a submission pending again is safe when no call was started for its attempt.\<close>

lemma finish_retry_safe:
  assumes pair: "stored_pair (co_repo s) c a" and ok: "settles c a c' a'"
    and free: "a_attempt_id a \<notin> set (sub (co_provider s))"
  shows "safe env sub pinv s (snd (on_repo (finish_provider_submission sha c' a' ev tok outcome v w) s))"
proof (rule safeI)
  assume inv: "co_inv env sub pinv s"
  let ?op = "finish_provider_submission sha c' a' ev tok outcome v w"
  obtain x r where op: "?op (co_repo s) = (x, r)" by (cases "?op (co_repo s)")
  have R: "repo_inv (co_repo s)" and C: "calls_ok env (sub (co_provider s)) s" using inv by (simp_all add: co_inv_def)
  note fin = finish_repo [OF R pair ok op]
  have d: "dom (rp_attempts r) = dom (rp_attempts (co_repo s))"
    and other: "rp_submissions r (u, j) = rp_submissions (co_repo s) (u, j)" if "j \<noteq> a_attempt_id a" for u j
    using finish_calls_retry [OF op] that by (simp_all add: settles_keys [OF ok])
  have d: "dom (rp_attempts r) = dom (rp_attempts (co_repo s))" using finish_calls_retry(1) [OF op] .
  have "\<exists>u y. (u, j) \<in> dom (rp_attempts r) \<and> rp_submissions r (u, j) = Some y \<and> s_state y \<noteq> S_PENDING"
    if "j \<in> set (sub (co_provider s))" for j
  proof -
    from C that obtain u y where "(u, j) \<in> dom (rp_attempts (co_repo s))"
        "rp_submissions (co_repo s) (u, j) = Some y" "s_state y \<noteq> S_PENDING" unfolding calls_ok_def by blast
    moreover have "j \<noteq> a_attempt_id a" using free that by auto
    ultimately show ?thesis using other [of j] unfolding d by auto
  qed
  then have "calls_ok env (sub (co_provider s)) (s\<lparr>co_repo := r\<rparr>)" using C unfolding calls_ok_def by (simp add: d)
  with fin show "safe env sub pinv s (snd (on_repo ?op s))"
    using inv by (simp add: safe_def on_repo_def op co_inv_def co_advance_def)
qed

lemma mark_submission_uncertain_safe:
  assumes pair: "stored_pair (co_repo s) c a" and "\<not> terminal_dispatch (c_status c)"
  shows "safe env sub pinv s (snd (mark_submission_uncertain ev c a at code tok stale s))"
proof -
  let ?a = "a\<lparr>a_status := A_MANUAL_FOLLOW_UP, a_outcome := Some ''callback_requested'', a_completed_at := Some at,
      a_next_action_at := None, a_safe_error_code := Some code, a_updated_at := at, a_version := a_version a + 1\<rparr>"
  let ?c = "c\<lparr>c_status := D_MANUAL_FOLLOW_UP, c_next_attempt_at := None,
      c_final_outcome := Some (dispatch_status_value D_MANUAL_FOLLOW_UP), c_closed_at := Some at, c_updated_at := at,
      c_version := c_version c + 1\<rparr>"
  have "settles c a ?c ?a" if "valid_case ?c" "valid_attempt ?a"
    using that assms by (simp add: settles_def legal_step_def case_advance_def attempt_advance_def same_case_def
        same_attempt_def)
  with pair show ?thesis
    unfolding mark_submission_uncertain_def
    by (auto simp: lift_eq new_attempt_Inr new_case_Inr split: option.splits dest!: make_event_repo
        intro!: safe_then expire_safe [where c = c and a = a] finish_uncertain_safe [where c = c and a = a])
qed

lemma mark_provider_retry_safe:
  assumes pair: "stored_pair (co_repo s) c a" and "\<not> terminal_dispatch (c_status c)"
    and "\<not> terminal_attempt (a_status a)" and free: "a_attempt_id a \<notin> set (sub (co_provider s))"
  shows "safe env sub pinv s (snd (mark_provider_retry ev c a at tok code s))"
proof -
  let ?a = "\<lambda>code. a\<lparr>a_status := A_PROVIDER_RETRY, a_safe_error_code := Some code, a_updated_at := at,
      a_version := a_version a + 1\<rparr>"
  let ?c = "c\<lparr>c_status := D_PROVIDER_RETRY, c_next_attempt_at := Some at, c_updated_at := at,
      c_version := c_version c + 1\<rparr>"
  have set: "settles c a ?c (?a code)" if "valid_case ?c" "valid_attempt (?a code)" for code
    using that assms by (simp add: settles_def legal_step_def case_advance_def attempt_advance_def same_case_def
        same_attempt_def)
  have ev_state: "co_repo t = co_repo s \<and> co_provider t = co_provider s"
    if "make_event ev c k at i ps d s = (x, t)" for k i ps d x t
    using that by (auto simp: make_event_def next_id_def lift_def)
  show ?thesis
    using pair free set
    unfolding mark_provider_retry_def Let_def
    by (auto simp: lift_eq new_attempt_Inr new_case_Inr dest!: ev_state
        intro!: safe_then finish_retry_safe [where c = c and a = a])
qed

section \<open>The coordinator over any voice provider\<close>

text \<open>
  The coordinator needs of its provider what \<open>voice_provider\<close> promises, for the two operations of
  its environment.
\<close>

definition claimed_here :: "'p coordinator \<Rightarrow> dispatch_case \<Rightarrow> call_attempt \<Rightarrow> bool" where
  "claimed_here s c a \<longleftrightarrow> stored_pair (co_repo s) c a \<and> \<not> terminal_dispatch (c_status c) \<and>
     \<not> terminal_attempt (a_status a) \<and>
     (\<exists>y. rp_submissions (co_repo s) (a_tenant_id a, a_attempt_id a) = Some y \<and> s_state y = S_CLAIMED)"

locale escalation_service = voice_provider "ce_place env" "ce_cancel env" submitted prov_inv
  for env :: "'p coord_env" and submitted :: "'p \<Rightarrow> string list" and prov_inv :: "'p \<Rightarrow> bool"
begin

abbreviation safe_step :: "'p coordinator \<Rightarrow> 'p coordinator \<Rightarrow> bool" where
  "safe_step \<equiv> safe env submitted prov_inv"

lemma place_call_safe:
  assumes "claimed_here s c a" and "a_attempt_id a \<notin> set (submitted (co_provider s))" and "rq_request_id q = a_attempt_id a"
  shows "safe_step s (snd (on_provider (ce_place env q) s))"
proof (rule safeI)
  assume inv: "co_inv env submitted prov_inv s"
  obtain x p where op: "ce_place env q (co_provider s) = (x, p)" by (cases "ce_place env q (co_provider s)")
  have C: "calls_ok env (submitted (co_provider s)) s" and P: "prov_inv (co_provider s)" using inv by (simp_all add: co_inv_def)
  have sub: "set (submitted p) \<subseteq> insert (a_attempt_id a) (set (submitted (co_provider s)))"
    using place_set [OF op] assms(3) by simp
  have dist: "distinct (submitted p)"
    by (rule place_distinct [OF op]) (use C assms in \<open>auto simp: calls_ok_def\<close>)
  have "\<exists>u y. (u, j) \<in> dom (rp_attempts (co_repo s)) \<and> rp_submissions (co_repo s) (u, j) = Some y \<and> s_state y \<noteq> S_PENDING"
    if "j \<in> set (submitted p)" for j
  proof (cases "j = a_attempt_id a")
    case True
    then show ?thesis using assms(1) by (auto simp: claimed_here_def stored_pair_def intro!: exI [of _ "a_tenant_id a"])
  next
    case False
    with sub that have "j \<in> set (submitted (co_provider s))" by auto
    with C show ?thesis unfolding calls_ok_def by blast
  qed
  with C dist have "calls_ok env (submitted p) (s\<lparr>co_provider := p\<rparr>)" unfolding calls_ok_def by simp
  with inv place_inv [OF P op] show "safe_step s (snd (on_provider (ce_place env q) s))"
    by (simp add: safe_def on_provider_def op co_inv_def co_advance_def)
qed

lemma cancel_call_safe: "safe_step s (snd (cancel_provider_call env a s))"
proof -
  have "safe_step s (snd (on_provider (ce_cancel env r) s))" for r
  proof (rule safeI)
    assume inv: "co_inv env submitted prov_inv s"
    obtain x p where op: "ce_cancel env r (co_provider s) = (x, p)" by (cases "ce_cancel env r (co_provider s)")
    have "prov_inv p" using cancel_inv [OF _ op] inv by (simp add: co_inv_def)
    moreover have "calls_ok env (submitted p) (s\<lparr>co_provider := p\<rparr>)"
      using inv cancel_submits_none [OF op] by (simp add: co_inv_def calls_ok_def)
    ultimately show "safe_step s (snd (on_provider (ce_cancel env r) s))"
      using inv by (simp add: safe_def on_provider_def op co_inv_def co_advance_def)
  qed
  then show ?thesis by (simp add: cancel_provider_call_def Let_def)
qed

lemma place_claimed_call_safe:
  assumes here: "claimed_here s c a" and free: "a_attempt_id a \<notin> set (submitted (co_provider s))"
  shows "safe_step s (snd (place_claimed_call env c a k now tok s))"
proof -
  have main: "safe_step s (snd (case on_provider (ce_place env q) s of
       (Inl (Raised VoiceSubmissionUncertain), s) \<Rightarrow>
         and_then (mark_submission_uncertain env c a now ''voice_submission_uncertain'' (Some tok) False s)
           (\<lambda>_ s. (Inr None, s))
     | (Inl (Raised e), s) \<Rightarrow> and_then (mark_provider_retry env c a now tok (error_code e) s) (\<lambda>_ s. (Inl (Raised e), s))
     | (Inl (OtherError m), s) \<Rightarrow>
         and_then (mark_submission_uncertain env c a now ''voice_submission_uncertain'' (Some tok) False s)
           (\<lambda>_ s. (Inr None, s))
     | (Inr reference, s) \<Rightarrow>
         and_then (coord_resolve_callback env (a_callback_token a) reference s) (\<lambda>bound s. (Inr (Some (snd bound)), s))))"
    (is "safe_step s (snd (?rest q))")
    if "rq_request_id q = a_attempt_id a" for q
  proof -
    obtain x t where op: "on_provider (ce_place env q) s = (x, t)" by (cases "on_provider (ce_place env q) s")
    have st: "safe_step s t" using place_call_safe [OF here free that] op by simp
    have repo: "co_repo t = co_repo s" using op by (auto simp: on_provider_def)
    have pair: "stored_pair (co_repo t) c a" and open_case: "\<not> terminal_dispatch (c_status c)" "\<not> terminal_attempt (a_status a)"
      using here by (simp_all add: claimed_here_def repo)
    note unc = mark_submission_uncertain_safe [OF pair open_case(1)]
    have "safe_step t (snd (?rest q))"
    proof (cases x)
      case (Inr reference)
      then show ?thesis by (simp add: op safe_then resolve_safe)
    next
      case (Inl e)
      show ?thesis
      proof (cases "no_call_submitted e")
        case True
        with op Inl place_certain_error [of q "co_provider s" e "co_provider t"]
        have "submitted (co_provider t) = submitted (co_provider s)" by (auto simp: on_provider_def prod_eq_iff)
        with free have "a_attempt_id a \<notin> set (submitted (co_provider t))" by simp
        note retry = mark_provider_retry_safe [where sub = submitted, OF pair open_case this]
        from True Inl show ?thesis
          by (auto simp: op no_call_submitted_iff safe_then retry unc split: dispatch_error.splits)
      next
        case False
        with Inl show ?thesis by (cases e rule: no_call_submitted.cases) (simp_all add: op safe_then unc)
      qed
    qed
    with st show ?thesis by (rule safe_trans)
  qed
  show ?thesis
    unfolding place_claimed_call_def
    by (auto simp: lift_eq new_request_def construct_Inr intro!: safe_then main)
qed

lemma pending_not_submitted:
  assumes "co_inv env submitted prov_inv s" and "(t, n) \<in> dom (rp_attempts (co_repo s))"
    and "rp_submissions (co_repo s) (t, n) = Some y" and "s_state y = S_PENDING"
  shows "n \<notin> set (submitted (co_provider s))"
proof
  assume n: "n \<in> set (submitted (co_provider s))"
  from assms(1) have C: "calls_ok env (submitted (co_provider s)) s" by (simp add: co_inv_def)
  with n obtain u x where u: "(u, n) \<in> dom (rp_attempts (co_repo s))" "rp_submissions (co_repo s) (u, n) = Some x"
      "s_state x \<noteq> S_PENDING" unfolding calls_ok_def by blast
  with C assms(2) have "u = t" unfolding calls_ok_def by blast
  with u assms show False by simp
qed

lemma claimed_result:
  assumes inv: "co_inv env submitted prov_inv s"
    and op: "on_repo (claim_provider_submission sha t i n tok at dl) s = (Inr v, w)"
  shows "stored_pair (co_repo w) (cl_case v) (cl_attempt v) \<and>
     (cl_acquired v \<longrightarrow> claimed_here w (cl_case v) (cl_attempt v) \<and>
        a_attempt_id (cl_attempt v) \<notin> set (submitted (co_provider w)))"
proof -
  from op have cl: "claim_provider_submission sha t i n tok at dl (co_repo s) = (Inr v, co_repo w)"
    and pr: "co_provider w = co_provider s" by (auto simp: on_repo_eq)
  have R: "repo_inv (co_repo s)" using inv by (rule co_inv_repo)
  have "repo_inv (co_repo w)" using claim_inv [OF R cl] .
  note P = claim_pair [OF R this cl]
  have "n \<notin> set (submitted (co_provider s))" if acq: "cl_acquired v"
  proof -
    from P acq obtain y where y: "rp_submissions (co_repo s) (t, n) = Some y" "s_state y = S_PENDING" by auto
    from cl have "(t, n) \<in> dom (rp_attempts (co_repo s))"
      by (auto simp: claim_provider_submission_def effect_simps)
    from pending_not_submitted [OF inv this y] show ?thesis .
  qed
  with P show ?thesis by (auto simp: claimed_here_def pr stored_pair_def)
qed

lemma claim_and_place_safe: "safe_step s (snd (claim_and_place env t i a k now s))"
proof (rule safeI)
  assume inv: "co_inv env submitted prov_inv s"
  show "safe_step s (snd (claim_and_place env t i a k now s))"
    unfolding claim_and_place_def
  proof (rule safe_then, simp, rule safe_then [OF claim_safe], goal_cases)
    case (1 tok u v w)
    have "co_inv env submitted prov_inv u"
      using 1(1) inv safe_quiet_steps(6) [of env submitted prov_inv s env] by (simp add: safe_def)
    note C = claimed_result [OF this 1(2)]
    note unc = mark_submission_uncertain_safe [OF conjunct1 [OF C]]
    have "safe_step w (snd (place_claimed_call env (cl_case v) (cl_attempt v) k now tok w))" if "cl_acquired v"
      using C that by (intro place_claimed_call_safe) auto
    then show ?case by (auto simp: Let_def intro!: safe_then unc)
  qed
qed

lemma dispatch_reserved_safe: "safe_step s (snd (dispatch_reserved env t i a now s))"
  unfolding dispatch_reserved_def by (auto intro!: safe_then claim_and_place_safe)

lemma dispatch_next_safe: "safe_step s (snd (dispatch_next env t i s))"
proof (rule safeI)
  assume inv: "co_inv env submitted prov_inv s"
  have ids: "\<exists>k < co_ids s. j = ce_new_id env k" if "(u, j) \<in> dom (rp_attempts (co_repo s))" for u j
    using inv that unfolding co_inv_def calls_ok_def by blast
  have res: "safe_step w (snd (on_repo (reserve_next_attempt t i (ce_new_id env (co_ids s)) tok now ev) w))"
    if "co_repo w = co_repo s" "co_ids s < co_ids w" for w tok now ev
    using ids that by (intro reserve_safe) auto
  have counters: "co_repo u = co_repo s \<and> co_ids u = co_ids s" if "read_clock env f s = (x, u)" for f x u
    using that by (auto simp: read_clock_def)
  have event: "co_repo u = co_repo v \<and> co_ids u = Suc (co_ids v)" if "make_event env c kind at aid ps d v = (x, u)"
    for c kind at aid ps d v x u using that by (auto simp: make_event_def next_id_def lift_def)
  have drawn: "x = ce_new_id env (co_ids v) \<and> co_repo u = co_repo v \<and> co_ids u = Suc (co_ids v)"
    if "next_id env v = (Inr x, u)" for v x u using that by (auto simp: next_id_def)
  have token: "co_repo u = co_repo v \<and> co_ids u = co_ids v" if "next_token env n v = (x, u)" for n v x u
    using that by (auto simp: next_token_def)
  show "safe_step s (snd (dispatch_next env t i s))"
    unfolding dispatch_next_def
    by (auto intro!: safe_then res dispatch_reserved_safe
        simp: on_repo_case dest!: counters event drawn token)
qed

lemma cancel_safe: "safe_step s (snd (cancel env t i by_whom ek s))"
proof -
  let ?call = "\<lambda>active w. case active of None \<Rightarrow> (Inr (), w) | Some a \<Rightarrow> cancel_provider_call env a w"
  have call: "safe_step w (snd (?call active w))" for active w
    by (simp add: cancel_call_safe split: option.splits)
  have call_repo: "co_repo v = co_repo w" if "?call active w = (x, v)" for active w x v
    using that by (auto simp: cancel_provider_call_def on_provider_def Let_def split: option.splits if_splits)
  have close: "safe_step w (snd (close_case c d (active_attempt as) (\<lambda>a. canceled_attempt a now) e w))"
    if "rp_cases (co_repo w) (t, i) = Some c" "fst (list_attempts t i (co_repo w)) = Inr as"
      "\<not> terminal_dispatch (c_status c)" "new_case (closed_case c D_CANCELED now) = Inr d" for w c as now d e
    using that by (auto simp: new_case_Inr intro!: close_case_safe closes_attempts)
  show ?thesis
    unfolding cancel_def Let_def
    by (auto intro!: safe_then close call simp: on_repo_case lift_eq raise_if_eq
        dest!: read_clock_repo make_event_repo on_repo_read_eq call_repo)
qed

lemma upsert_safe: "safe_step s (upsert_contact tz k s)"
proof -
  have "match_identifier (k_contact_id k)" if "contact_post_init tz k = None"
    using that by (simp add: contact_post_init_def)
  then show ?thesis
    by (auto simp: upsert_contact_def safe_def co_inv_def co_advance_def calls_ok_def intro!: upsert_inv)
qed

lemma step_safe: "safe_step s (service_step env op s)"
  by (cases op)
    (simp_all add: authorize_safe dispatch_next_safe handle_status_safe handle_gather_safe
      handle_answering_machine_safe cancel_safe mark_delivery_exhausted_def exhaust_loop_safe voice_script_safe upsert_safe)

lemma run_safe: "safe_step s (run env ops s)"
  by (induction ops arbitrary: s) (auto simp: run_def intro: safe_trans step_safe)

end

text \<open>Every operation of the coordinator over a provider is a step of a machine.\<close>

sublocale escalation_service \<subseteq> service: preorder_machine "service_step env" "co_inv env submitted prov_inv" co_advance
  by unfold_locales (use step_safe in \<open>auto simp: safe_def intro: co_advance_trans\<close>)

section \<open>The two providers\<close>

definition with_mock :: "mock_provider coord_env \<Rightarrow> mock_provider coord_env" where
  "with_mock env = env\<lparr>ce_place := mock_place_call, ce_cancel := mock_cancel_call\<rparr>"

definition with_sdk :: "'c sdk_config \<Rightarrow> 'c sdk_state coord_env \<Rightarrow> 'c sdk_state coord_env" where
  "with_sdk cfg env = env\<lparr>ce_place := sdk_place_call cfg, ce_cancel := sdk_cancel_call cfg\<rparr>"

interpretation mock_service: escalation_service "with_mock env" mock_submitted mock_inv for env
  by (simp add: escalation_service_def with_mock_def mock.voice_provider_axioms)

interpretation sdk_service: escalation_service "with_sdk cfg env" sdk_submitted "\<lambda>_. True" for cfg env
  by (simp add: escalation_service_def with_sdk_def sdk.voice_provider_axioms)

lemma initial_inv:
  assumes "inj (ce_new_id env)" and "directory_inv d" and "pinv p" and "submitted p = []"
  shows "co_inv env submitted pinv (initial_coordinator d p)"
  using assms by (simp add: co_inv_def initial_coordinator_def empty_repository_inv calls_ok_def)
    (simp add: empty_repository_def)

end
