(* ===== verification/Dispatch_Demo.thy ===== *)
theory Dispatch_Demo
  imports Dispatch_Service
begin

text \<open>
  A concrete deployment of the coordinator, on which the theorems are applied: a directory with a
  primary contact and a supervisor, one confirmed incident, a clock that advances a minute per
  reading, factories that never repeat a value, and a stand-in for SHA-256 (the last 32 characters
  in hexadecimal, reversed) that is injective on the values these runs hash.
\<close>

fun nibble :: "bool \<Rightarrow> bool \<Rightarrow> bool \<Rightarrow> bool \<Rightarrow> char" where
  "nibble b3 b2 b1 b0 =
     (if b3 then if b2 then if b1 then if b0 then CHR ''f'' else CHR ''e'' else if b0 then CHR ''d'' else CHR ''c''
              else if b1 then if b0 then CHR ''b'' else CHR ''a'' else if b0 then CHR ''9'' else CHR ''8''
      else if b2 then if b1 then if b0 then CHR ''7'' else CHR ''6'' else if b0 then CHR ''5'' else CHR ''4''
              else if b1 then if b0 then CHR ''3'' else CHR ''2'' else if b0 then CHR ''1'' else CHR ''0'')"

fun char_nibbles :: "char \<Rightarrow> string" where
  "char_nibbles (Char b0 b1 b2 b3 b4 b5 b6 b7) = [nibble b3 b2 b1 b0, nibble b7 b6 b5 b4]"

definition demo_sha :: "string \<Rightarrow> string" where
  "demo_sha s = take 64 (concat (map char_nibbles (rev s)) @ replicate 64 (CHR ''0''))"

definition demo_id :: "nat \<Rightarrow> string" where
  "demo_id n = ''k'' @ replicate n (CHR ''x'')"

definition demo_env_for :: "(call_request \<Rightarrow> 'p \<Rightarrow> (exn, string, 'p) outcome) \<Rightarrow> (string \<Rightarrow> 'p \<Rightarrow> (exn, unit, 'p) outcome) \<Rightarrow>
    'p coord_env" where
  "demo_env_for place cancel_call = \<lparr>ce_sha = demo_sha, ce_tz = (\<lambda>z. if z = ''UTC'' then Some (\<lambda>_. 0) else None),
     ce_policy = default_policy\<lparr>ep_policy_version := ''p1'', ep_message_template_version := ''m1''\<rparr>, ce_clock = (\<lambda>n. Aware (seconds (60 * int n)) 0),
     ce_new_id = demo_id, ce_new_token = (\<lambda>n _. replicate 32 (CHR ''t'') @ replicate n (CHR ''x'')),
     ce_new_claim = (\<lambda>n. ''c'' @ replicate n (CHR ''x'')),
     ce_place = place, ce_cancel = cancel_call\<rparr>"

definition demo_env :: "mock_provider coord_env" where
  "demo_env = demo_env_for mock_place_call mock_cancel_call"

text \<open>The SDK adapter over a client that counts its calls and always succeeds.\<close>

definition demo_cfg :: "nat sdk_config" where
  "demo_cfg = \<lparr>sdk_sha = demo_sha, sdk_enabled = True, sdk_approved = {demo_sha ''+15550000001''},
     sdk_from_ref = ''secret://phones/from'', sdk_resolve_secret = (\<lambda>ref. Inr ''+15550000001''),
     sdk_create = (\<lambda>call n. (Inr (''CA'' @ replicate n (CHR ''x'')), Suc n)),
     sdk_complete = (\<lambda>ref n. (Inr (), n))\<rparr>"

definition demo_sdk_env :: "nat sdk_state coord_env" where
  "demo_sdk_env = demo_env_for (sdk_place_call demo_cfg) (sdk_cancel_call demo_cfg)"

definition demo_contact :: "string \<Rightarrow> contact_role \<Rightarrow> response_contact" where
  "demo_contact i role = \<lparr>k_contact_id = i, k_tenant_id = ''t'', k_zone_id = ''z'', k_role = role,
     k_phone_secret_ref = ''secret://'' @ i, k_display_name = ''D'', k_enabled = True,
     k_opted_in_at = Some (Aware (- 1) 0), k_verified_at = Some (Aware (- 1) 0), k_coverage_cells = {},
     k_timezone = ''UTC'', k_calling_windows = []\<rparr>"

definition demo_directory :: directory where
  "demo_directory = directory_init [demo_contact ''p'' Role_PRIMARY, demo_contact ''s'' Role_SUPERVISOR]"

definition demo_incident :: confirmed_incident where
  "demo_incident = \<lparr>i_tenant_id = ''t'', i_incident_id = ''i'', i_confirmed_review_id = ''r'',
     i_incident_source_id = ''o'', i_incident_external_event_id = ''e'', i_cell_id = ''8928308280fffff'',
     i_zone_id = ''z'', i_case_reference = ''C001'', i_category = ''other'',
     i_broad_location_label = ''N'', i_occurred_at = Aware (- 60) 0, i_review_decision = ''confirmed''\<rparr>"

definition demo_start :: "int \<Rightarrow> mock_provider coordinator" where
  "demo_start failures = initial_coordinator demo_directory (mock_init failures)"

definition demo_authorize :: service_op where
  "demo_authorize = Op_authorize demo_incident ''u'' ''key-0001'' True None"

definition demo_token :: string where
  "demo_token = replicate 32 (CHR ''t'')"

text \<open>Authorize and place the call; authorize and cancel.\<close>

definition demo_call_ops :: "service_op list" where
  "demo_call_ops = [demo_authorize, Op_dispatch_next ''t'' ''k'']"

definition demo_cancel_ops :: "service_op list" where
  "demo_cancel_ops = [demo_authorize, Op_cancel ''t'' ''k'' ''u'' ''event-1'']"

section \<open>Facts of the deployment\<close>

lemma demo_id_inj: "inj demo_id"
  by (auto simp: inj_def demo_id_def)

lemma demo_id_ok: "n < 128 \<Longrightarrow> match_identifier (demo_id n)"
  by (auto simp: demo_id_def match_identifier_def run_match_def list_all_iff is_alnum_def is_lower_def)

lemma demo_env_inj [simp]: "inj (ce_new_id (demo_env_for p c))"
  by (simp add: demo_env_for_def demo_id_inj)

lemma demo_envs_inj [simp]: "inj (ce_new_id demo_env)" "inj (ce_new_id demo_sdk_env)"
  by (simp_all add: demo_env_def demo_sdk_env_def)

lemma demo_directory_inv [simp]: "directory_inv demo_directory"
proof -
  have "match_identifier ''p''" "match_identifier ''s''" by code_simp+
  then show ?thesis
    by (auto simp: demo_directory_def directory_init_def demo_contact_def intro!: upsert_inv)
qed

lemma demo_sha_hex [simp]: "hex64 (demo_sha x)"
proof -
  have nib: "is_hex (nibble b3 b2 b1 b0)" for b3 b2 b1 b0
    by (cases b3; cases b2; cases b1; cases b0; simp add: is_hex_def is_digit_def)
  have "list_all is_hex (char_nibbles c)" for c
    by (cases c rule: char_nibbles.cases) (simp add: nib del: nibble.simps)
  then have "\<forall>c \<in> set (concat (map char_nibbles (rev x)) @ replicate 64 (CHR ''0'')). is_hex c"
    by (auto simp: list_all_iff is_hex_def is_digit_def)
  then have "list_all is_hex (demo_sha x)"
    unfolding demo_sha_def list_all_iff by (meson in_set_takeD)
  moreover have "length (demo_sha x) = 64" by (simp add: demo_sha_def)
  ultimately show ?thesis by (simp add: hex64_def run_match_def)
qed

text \<open>The call of the first attempt is bound and its case is open: what a webhook finds.\<close>

definition demo_call_bound :: "'p coordinator \<Rightarrow> bool" where
  "demo_call_bound s \<longleftrightarrow> rp_callback (co_repo s) demo_token = Some (''t'', ''kxx'') \<and>
     (case rp_attempts (co_repo s) (''t'', ''kxx'') of None \<Rightarrow> False
      | Some a \<Rightarrow> a_case_id a = ''k'' \<and> a_provider_call_reference a = Some ''mock-call-kxx'') \<and>
     (case rp_cases (co_repo s) (''t'', ''k'') of None \<Rightarrow> False | Some c \<Rightarrow> c_status c = D_DIALING) \<and>
     (''t'', digest demo_sha [''gather'', ''mock-call-kxx'', ''1'']) \<notin> rp_dedupe (co_repo s) \<and>
     co_ids s < 20"

lemma demo_called_bound: "demo_call_bound (run demo_env demo_call_ops (initial_coordinator demo_directory (mock_init 0)))"
  by code_simp

text \<open>An incident with a label of 81 characters: its first dispatch claims the submission and stops.\<close>

definition demo_long_ops :: "service_op list" where
  "demo_long_ops = [Op_authorize (demo_incident\<lparr>i_broad_location_label := replicate 81 (CHR ''N'')\<rparr>) ''u'' ''key-0001'' True None,
     Op_dispatch_next ''t'' ''k'']"

definition demo_claim_held :: "mock_provider coordinator \<Rightarrow> bool" where
  "demo_claim_held s \<longleftrightarrow>
     (case rp_attempts (co_repo s) (''t'', ''kxx'') of None \<Rightarrow> False | Some a \<Rightarrow> a_case_id a = ''k'') \<and>
     (case rp_cases (co_repo s) (''t'', ''k'') of None \<Rightarrow> False
      | Some c \<Rightarrow> c_status c = D_DIALING \<and> length (c_broad_location_label c) = 81) \<and>
     (case rp_submissions (co_repo s) (''t'', ''kxx'') of None \<Rightarrow> False | Some x \<Rightarrow> s_state x = S_CLAIMED)"

lemma demo_long_claimed: "demo_claim_held (run demo_env demo_long_ops (initial_coordinator demo_directory (mock_init 0)))"
  by code_simp

end
