(* ===== verification/Dispatch_Acknowledge.thy ===== *)
theory Dispatch_Acknowledge
  imports Dispatch_Service_Inv Dispatch_Demo
begin

text \<open>
  Who can acknowledge a case: no operation but a keypress \<open>1\<close> on the call of one of its attempts
  turns a case into an acknowledged one. Machines, carriers, timeouts, operators and retries
  never do.
\<close>

section \<open>Writes that do not acknowledge\<close>

definition ack_kept :: "repository \<Rightarrow> repository \<Rightarrow> bool" where
  "ack_kept r r' \<longleftrightarrow> (\<forall>k c'. rp_cases r' k = Some c' \<longrightarrow> c_status c' = D_ACKNOWLEDGED \<longrightarrow>
     (\<exists>c. rp_cases r k = Some c \<and> c_status c = D_ACKNOWLEDGED))"

definition unacked :: "'p coordinator \<Rightarrow> 'p coordinator \<Rightarrow> bool" where
  "unacked s t \<longleftrightarrow> ack_kept (co_repo s) (co_repo t)"

lemma ack_kept_refl [simp]: "ack_kept r r"
  by (simp add: ack_kept_def)

lemma unacked_refl [simp]: "unacked s s"
  by (simp add: unacked_def)

lemma unacked_trans: "unacked s t \<Longrightarrow> unacked t u \<Longrightarrow> unacked s u"
  unfolding unacked_def ack_kept_def by blast

lemma ack_kept_write:
  "rp_cases r' = rp_cases r \<or> (\<exists>k c. rp_cases r' = (rp_cases r)(k \<mapsto> c) \<and> c_status c \<noteq> D_ACKNOWLEDGED) \<Longrightarrow> ack_kept r r'"
  by (auto simp: ack_kept_def split: if_splits)

lemma unacked_then:
  assumes "unacked s (snd r)" and "\<And>x t. r = (Inr x, t) \<Longrightarrow> unacked t (snd (k x t))"
  shows "unacked s (snd (and_then r k))"
  using assms by (cases r; cases "fst r") (auto intro: unacked_trans)

lemma unacked_quiet [simp]:
  "unacked s (snd (lift x s))" "unacked s (snd (raise_if b e s))" "unacked s (snd (read_clock env f s))"
  "unacked s (snd (next_id env s))" "unacked s (snd (next_token env i s))" "unacked s (snd (next_claim env s))"
  "unacked s (snd (make_event env c kind at aid parts det s))" "unacked s (snd (callback_time env at2 s))"
  "unacked s (snd (on_provider op s))" "unacked s (snd (on_repo (list_attempts t i) s))"
  "unacked s (snd (on_repo (get_case t i) s))"
  by (simp_all add: unacked_def lift_def raise_if_def read_clock_def next_id_def next_token_def next_claim_def
      make_event_def callback_time_def on_provider_def split: option.splits)

lemma on_repo_unacked:
  assumes "\<And>x r. op (co_repo s) = (x, r) \<Longrightarrow> ack_kept (co_repo s) r"
  shows "unacked s (snd (on_repo op s))"
  using assms [of "fst (op (co_repo s))" "snd (op (co_repo s))"] by (simp add: unacked_def on_repo_def)

lemma create_case_ack: "create_case c k ev r = (x, r') \<Longrightarrow> c_status c \<noteq> D_ACKNOWLEDGED \<Longrightarrow> ack_kept r r'"
  by (cases x) (auto simp: create_case_def Let_def effect_simps ack_kept_def split: option.splits if_splits)

lemma reserve_ack: "reserve_next_attempt t i n tok at ev r = (x, r') \<Longrightarrow> ack_kept r r'"
  by (cases x)
    (auto simp: reserve_next_attempt_def Let_def effect_simps new_case_Inr ack_kept_def split: if_splits)

lemma claim_ack:
  assumes "claim_provider_submission sha t i n tok at dl r = (x, r')"
  shows "ack_kept r r'"
proof (cases x)
  case (Inl e)
  then show ?thesis using claim_error [OF assms [unfolded Inl]] by simp
next
  case (Inr v)
  from assms [unfolded Inr] show ?thesis
  proof (cases rule: claim_cases)
    case (acquired c a s c' a')
    then have "c_status c' \<noteq> D_ACKNOWLEDGED" by (auto simp: claimed_case_def)
    then show ?thesis by (intro ack_kept_write) (auto simp: acquired(13))
  qed simp
qed

lemma bind_ack: "bind_provider_callback sha tok ref at ev r = (x, r') \<Longrightarrow> ack_kept r r'"
  by (cases x)
    (auto simp: bind_provider_callback_def Let_def effect_simps new_case_Inr ack_kept_def split: option.splits if_splits)

lemma transition_ack: "apply_transition c a ev v w r = (x, r') \<Longrightarrow> c_status c \<noteq> D_ACKNOWLEDGED \<Longrightarrow> ack_kept r r'"
  by (cases x) (auto simp: apply_transition_def Let_def effect_simps ack_kept_def split: if_splits)

lemma case_transition_ack: "apply_case_transition c ev v r = (x, r') \<Longrightarrow> c_status c \<noteq> D_ACKNOWLEDGED \<Longrightarrow> ack_kept r r'"
  by (cases x) (auto simp: apply_case_transition_def Let_def effect_simps ack_kept_def split: if_splits)

lemma finish_ack:
  "finish_provider_submission sha c a ev tok out v w r = (x, r') \<Longrightarrow> c_status c \<noteq> D_ACKNOWLEDGED \<Longrightarrow> ack_kept r r'"
  by (cases x) (auto simp: finish_provider_submission_def Let_def effect_simps ack_kept_def split: if_splits)

lemma expire_ack:
  "expire_provider_submission c a ev at v w r = (x, r') \<Longrightarrow> c_status c \<noteq> D_ACKNOWLEDGED \<Longrightarrow> ack_kept r r'"
  by (cases x) (auto simp: expire_provider_submission_def Let_def effect_simps ack_kept_def split: if_splits)

lemma append_event_ack: "append_event ev r = (x, r') \<Longrightarrow> ack_kept r r'"
  by (drule append_event_frame) (simp add: ack_kept_write)

lemma writes_unacked:
  "c_status c \<noteq> D_ACKNOWLEDGED \<Longrightarrow> unacked s (snd (on_repo (create_case c k ev) s))"
  "c_status c \<noteq> D_ACKNOWLEDGED \<Longrightarrow> unacked s (snd (on_repo (apply_transition c a ev v w) s))"
  "c_status c \<noteq> D_ACKNOWLEDGED \<Longrightarrow> unacked s (snd (on_repo (apply_case_transition c ev v) s))"
  "c_status c \<noteq> D_ACKNOWLEDGED \<Longrightarrow> unacked s (snd (on_repo (finish_provider_submission sha c a ev tok out v w) s))"
  "c_status c \<noteq> D_ACKNOWLEDGED \<Longrightarrow> unacked s (snd (on_repo (expire_provider_submission c a ev at v w) s))"
  by (rule on_repo_unacked, erule create_case_ack transition_ack case_transition_ack finish_ack expire_ack, assumption)+

lemma plain_writes_unacked:
  "unacked s (snd (on_repo (append_event ev) s))"
  "unacked s (snd (on_repo (bind_provider_callback sha tok ref at ev) s))"
  "unacked s (snd (on_repo (reserve_next_attempt t i n tok at ev) s))"
  "unacked s (snd (on_repo (claim_provider_submission sha t i n tok at dl) s))"
  "unacked s (snd (on_repo (resolve_callback tok) s))"
  "unacked s (snd (on_repo (find_case_by_idempotency t key) s))"
  by (rule on_repo_unacked, drule append_event_ack bind_ack reserve_ack claim_ack resolve_callback_unchanged find_case_read,
      simp)+

section \<open>Operations that do not acknowledge\<close>

lemma resolve_unacked: "unacked s (snd (coord_resolve_callback env tok ref s))"
  unfolding coord_resolve_callback_def Let_def
  by (auto intro!: unacked_then writes_unacked plain_writes_unacked)

lemma record_event_unacked: "unacked s (snd (record_event env c a kind now dedupe det s))"
  unfolding record_event_def by (auto intro!: unacked_then writes_unacked plain_writes_unacked)

lemma apply_update_unacked:
  "c_status c' \<noteq> D_ACKNOWLEDGED \<Longrightarrow> unacked s (snd (apply_update env c a c' a' kind now dedupe det s))"
  unfolding apply_update_def by (auto intro!: unacked_then writes_unacked plain_writes_unacked)

lemma unacknowledged_status:
  "unacknowledged env c a at out s = (Inr (c', a', kind), t) \<Longrightarrow> c_status c' \<noteq> D_ACKNOWLEDGED \<and> t = s"
  by (auto simp: unacknowledged_def unacknowledged_step_def Let_def effect_simps new_case_Inr split: prod.splits if_splits)

lemma progressed_status:
  "progressed c a at out s = (Inr (c', a', kind), t) \<Longrightarrow> c_status c' \<noteq> D_ACKNOWLEDGED \<and> t = s"
  by (auto simp: progressed_def Let_def effect_simps new_case_Inr split: if_splits)

lemma update_unacked [simp]:
  "unacked s (snd (unacknowledged env c a at out s))" "unacked s (snd (progressed c a at out s))"
  by (simp_all add: unacknowledged_state progressed_state)

lemma handle_status_unacked: "unacked s (snd (handle_status env tok ref st ek at s))"
  unfolding handle_status_def Let_def status_step_def
  by (auto intro!: unacked_then resolve_unacked record_event_unacked apply_update_unacked
      dest!: unacknowledged_status progressed_status split: if_splits)

lemma handle_answering_machine_unacked: "unacked s (snd (handle_answering_machine env tok ref st ek at s))"
  unfolding handle_answering_machine_def Let_def answering_machine_step_def
  by (auto intro!: unacked_then resolve_unacked record_event_unacked apply_update_unacked
      dest!: unacknowledged_status)

lemma handle_gather_unacked: "ds \<noteq> ''1'' \<Longrightarrow> unacked s (snd (handle_gather env tok ref ds ek at s))"
  unfolding handle_gather_def gather_step_def Let_def
  by (auto intro!: unacked_then resolve_unacked record_event_unacked apply_update_unacked
      simp: lift_eq new_case_Inr gather_case_def)

lemma voice_script_unacked: "unacked s (snd (voice_script env tok ref s))"
  unfolding voice_script_def by (auto intro!: unacked_then resolve_unacked)

lemma authorize_unacked: "unacked s (snd (authorize env i w key flag v s))"
  unfolding authorize_def authorize_new_def same_fingerprint_def Let_def
  by (auto intro!: unacked_then writes_unacked plain_writes_unacked
      simp: lift_eq new_case_Inr authorized_case_def split: option.splits)

lemma close_case_unacked:
  "st \<noteq> D_ACKNOWLEDGED \<Longrightarrow> unacked s (snd (close_case c (closed_case c st now) active f ev s))"
  unfolding close_case_def
  by (auto intro!: unacked_then writes_unacked plain_writes_unacked
      simp: closed_case_def split: option.splits)

lemma cancel_unacked: "unacked s (snd (cancel env t i w ek s))"
  unfolding cancel_def Let_def cancel_provider_call_def
  by (auto intro!: unacked_then close_case_unacked simp: lift_eq new_case_Inr split: option.splits)

lemma exhaust_loop_unacked: "unacked s (snd (exhaust_loop n env t i s))"
proof (induction n arbitrary: s)
  case (Suc n)
  have "unacked u (snd (case close_case c (closed_case c D_MANUAL_FOLLOW_UP now) active f e u of
      (Inl x, s) \<Rightarrow> if x = repository_conflict \<and> n \<noteq> 0 then exhaust_loop n env t i s else (Inl x, s)
    | (Inr y, s) \<Rightarrow> on_repo (get_case t i) s))" for c now active f e u
    using close_case_unacked [of D_MANUAL_FOLLOW_UP u c now active f e] Suc.IH
    by (auto split: prod.splits sum.splits intro: unacked_trans)
  then show ?case by (auto intro!: unacked_then simp: Let_def lift_eq new_case_Inr)
qed simp

lemma mark_uncertain_unacked: "unacked s (snd (mark_submission_uncertain env c a at code tok stale s))"
  unfolding mark_submission_uncertain_def
  by (auto intro!: unacked_then writes_unacked plain_writes_unacked simp: lift_eq new_case_Inr split: option.splits)

lemma mark_retry_unacked: "unacked s (snd (mark_provider_retry env c a at tok code s))"
  unfolding mark_provider_retry_def Let_def
  by (auto intro!: unacked_then writes_unacked plain_writes_unacked simp: lift_eq new_case_Inr)

lemma place_claimed_unacked: "unacked s (snd (place_claimed_call env c a k now tok s))"
proof -
  have "unacked u (snd (case on_provider (ce_place env q) u of
       (Inl (Raised VoiceSubmissionUncertain), s) \<Rightarrow>
         and_then (mark_submission_uncertain env c a now ''voice_submission_uncertain'' (Some tok) False s)
           (\<lambda>_ s. (Inr None, s))
     | (Inl (Raised e), s) \<Rightarrow> and_then (mark_provider_retry env c a now tok (error_code e) s) (\<lambda>_ s. (Inl (Raised e), s))
     | (Inl (OtherError m), s) \<Rightarrow>
         and_then (mark_submission_uncertain env c a now ''voice_submission_uncertain'' (Some tok) False s)
           (\<lambda>_ s. (Inr None, s))
     | (Inr reference, s) \<Rightarrow>
         and_then (coord_resolve_callback env (a_callback_token a) reference s) (\<lambda>bound s. (Inr (Some (snd bound)), s))))"
    for q u
  proof -
    obtain x t where op: "on_provider (ce_place env q) u = (x, t)" by (cases "on_provider (ce_place env q) u")
    then have "unacked u t" using unacked_quiet(9) [of u "ce_place env q"] by simp
    then show ?thesis
      unfolding op
      by (auto split: sum.splits exn.splits dispatch_error.splits
          intro!: unacked_trans [of u t] unacked_then mark_uncertain_unacked mark_retry_unacked resolve_unacked)
  qed
  then show ?thesis unfolding place_claimed_call_def by (auto intro!: unacked_then)
qed

lemma dispatch_next_unacked: "unacked s (snd (dispatch_next env t i s))"
  unfolding dispatch_next_def dispatch_reserved_def claim_and_place_def Let_def
  by (auto intro!: unacked_then writes_unacked plain_writes_unacked mark_uncertain_unacked place_claimed_unacked)

lemma upsert_unacked: "unacked s (upsert_contact tz k s)"
  by (simp add: unacked_def upsert_contact_def)

lemma step_unacked:
  assumes "\<And>tok ref ek at. op \<noteq> Op_gather tok ref ''1'' ek at"
  shows "unacked s (service_step env op s)"
proof (cases op)
  case (Op_gather tok ref ds ek at)
  with assms [of tok ref ek at] have "ds \<noteq> ''1''" by auto
  with Op_gather show ?thesis by (simp add: handle_gather_unacked)
qed (simp_all add: authorize_unacked dispatch_next_unacked handle_status_unacked cancel_unacked
    handle_answering_machine_unacked mark_delivery_exhausted_def exhaust_loop_unacked voice_script_unacked upsert_unacked)

section \<open>A keypress acknowledges the case of its own call\<close>

text \<open>What \<open>handle_gather\<close> writes: at most the case its token belongs to.\<close>

lemma resolve_case:
  assumes inv: "repo_inv (co_repo s)" and op: "coord_resolve_callback env tok ref s = (Inr (c, a), t)"
  shows "\<exists>u n b. rp_callback (co_repo s) tok = Some (u, n) \<and> rp_attempts (co_repo s) (u, n) = Some b \<and>
     a_case_id b = c_case_id c \<and> c_tenant_id c = u"
proof -
  from op obtain c0 a0 where rd: "resolve_callback tok (co_repo s) = (Inr (c0, a0), co_repo s)"
    by (auto simp: coord_resolve_callback_def effect_simps on_repo_eq dest: resolve_callback_unchanged)
  from resolve_callback_Inr [OF rd] obtain u n where m: "rp_callback (co_repo s) tok = Some (u, n)"
      "rp_attempts (co_repo s) (u, n) = Some a0" "rp_cases (co_repo s) (u, a_case_id a0) = Some c0" by auto
  note id0 = repo_caseD(1,2) [OF inv m(3)]
  have "c_tenant_id c = u \<and> c_case_id c = a_case_id a0"
  proof (cases "or_default (a_provider_call_reference a0) [] \<noteq> [] \<and> ref \<noteq> []")
    case True
    with op rd id0 show ?thesis by (auto simp: coord_resolve_callback_def on_repo_def Let_def effect_simps)
  next
    case False
    with op rd obtain r2 now ev where r2: "co_repo s = r2"
        "bind_provider_callback (ce_sha env) tok ref now ev r2 = (Inr (c, a), co_repo t)"
      by (auto simp: coord_resolve_callback_def on_repo_eq Let_def effect_simps dest!: read_clock_repo make_event_repo)
    from r2(2) show ?thesis
    proof (cases rule: bind_cases)
      case (known w k stored)
      with m r2(1) id0 show ?thesis by auto
    next
      case (bound w k d b x at)
      then show ?thesis using m r2(1) id0 by (auto simp: bound_case_def)
    qed
  qed
  with m show ?thesis by auto
qed

text \<open>An observation \<open>F\<close> of the state that no step of a sequence changes.\<close>

lemma case_frames [frame_simps]:
  "rp_cases (co_repo (snd (lift y s))) = rp_cases (co_repo s)"
  "rp_cases (co_repo (snd (make_event env c kd at aid ps d s))) = rp_cases (co_repo s)"
  "rp_cases (co_repo (snd (on_repo (append_event ev) s))) = rp_cases (co_repo s)"
  "rp_cases (co_repo (snd (on_repo (get_case t i) s))) = rp_cases (co_repo s)"
  using append_event_frame [of ev "co_repo s"]
  by (simp_all add: lift_def make_event_def next_id_def on_repo_def get_case_def fetch_def prod_eq_iff split: option.splits)

lemma transition_frame:
  assumes "k \<noteq> (c_tenant_id c, c_case_id c)"
  shows "rp_cases (co_repo (snd (on_repo (apply_transition c a ev v w) s))) k = rp_cases (co_repo s) k"
proof -
  obtain x r where op: "apply_transition c a ev v w (co_repo s) = (x, r)" by (cases "apply_transition c a ev v w (co_repo s)")
  have "rp_cases r k = rp_cases (co_repo s) k"
    using op assms by (cases x) (auto simp: apply_transition_def Let_def effect_simps split: if_splits)
  with op show ?thesis by (simp add: on_repo_def)
qed

lemma gather_step_cases:
  assumes "k \<noteq> (c_tenant_id c, c_case_id c)"
  shows "rp_cases (co_repo (snd (gather_step env c a now dedupe ds s))) k = rp_cases (co_repo s) k"
proof -
  have "k \<noteq> (c_tenant_id d, c_case_id d)" if "new_case (gather_case c ds now) = Inr d" for d
    using that assms by (auto simp: new_case_Inr gather_case_def)
  then show ?thesis
    unfolding gather_step_def record_event_def apply_update_def Let_def
    by (auto intro!: frame_then [where F = "\<lambda>s. rp_cases (co_repo s) k"] simp: frame_simps transition_frame lift_eq)
qed

lemma gather_ack_source:
  assumes inv: "repo_inv (co_repo s)"
    and new: "rp_cases (co_repo (snd (handle_gather env tok ref ds ek at s))) k = Some c'" "c_status c' = D_ACKNOWLEDGED"
    and old: "\<not> (\<exists>c. rp_cases (co_repo s) k = Some c \<and> c_status c = D_ACKNOWLEDGED)"
  shows "\<exists>n b. rp_callback (co_repo s) tok = Some (fst k, n) \<and> rp_attempts (co_repo s) (fst k, n) = Some b \<and>
     a_case_id b = snd k"
proof (rule ccontr)
  assume no: "\<not> ?thesis"
  have "unacked s (snd (handle_gather env tok ref ds ek at s)) \<or>
      rp_cases (co_repo (snd (handle_gather env tok ref ds ek at s))) k \<noteq> Some c'"
  proof (cases "fst (coord_resolve_callback env tok ref s)")
    case (Inl e)
    then have "snd (handle_gather env tok ref ds ek at s) = snd (coord_resolve_callback env tok ref s)"
      by (cases "coord_resolve_callback env tok ref s") (simp add: handle_gather_def)
    then show ?thesis by (simp add: resolve_unacked)
  next
    case (Inr found)
    obtain c a t where op: "coord_resolve_callback env tok ref s = (Inr (c, a), t)"
      using Inr by (cases "coord_resolve_callback env tok ref s"; cases found) auto
    from resolve_case [OF inv op] no have k: "k \<noteq> (c_tenant_id c, c_case_id c)" by (cases k) auto
    have st: "unacked s t" using resolve_unacked [of s env tok ref] op by simp
    obtain y u where tm: "callback_time env at t = (y, u)" by (cases "callback_time env at t")
    have "co_repo u = co_repo t" using callback_time_repo [OF tm] .
    then have "rp_cases (co_repo (snd (handle_gather env tok ref ds ek at s))) k = rp_cases (co_repo t) k"
      by (cases y) (simp_all add: handle_gather_def op tm gather_step_cases [OF k])
    moreover have "rp_cases (co_repo t) k \<noteq> Some c'" using st new(2) old unfolding unacked_def ack_kept_def by blast
    ultimately show ?thesis by simp
  qed
  with new old show False unfolding unacked_def ack_kept_def by blast
qed

text \<open>The digit is heard: on a bound call of an open case, \<open>1\<close> and \<open>2\<close> close the case.\<close>

lemma gather_effect:
  assumes inv: "repo_inv (co_repo s)" and cb: "rp_callback (co_repo s) tok = Some (t, n)"
    and a: "rp_attempts (co_repo s) (t, n) = Some a" and c: "rp_cases (co_repo s) (t, a_case_id a) = Some c"
    and ref: "a_provider_call_reference a = Some stored" "ref \<noteq> []" "stored_reference_matches (ce_sha env) stored ref = Inr True"
    and live: "c_status c \<notin> {D_ACKNOWLEDGED, D_MANUAL_FOLLOW_UP, D_CANCELED}" and ds: "ds \<in> {''1'', ''2''}"
    and at: "is_aware at" and ident: "match_identifier (ce_new_id env (co_ids s))"
    and sha: "\<And>x. hex64 (ce_sha env x)" and new: "(t, digest (ce_sha env) [''gather'', ref, ds]) \<notin> rp_dedupe (co_repo s)"
  shows "\<exists>s'. handle_gather env tok ref ds ek (Some at) s = (Inr (gather_case c ds (as_utc at)), s') \<and>
     rp_cases (co_repo s') (t, a_case_id a) = Some (gather_case c ds (as_utc at)) \<and>
     rp_attempts (co_repo s') (t, n) = Some (gather_attempt a ds (as_utc at))"
proof -
  note C = repo_caseD [OF inv c] and A = repo_attemptD [OF inv a]
  let ?now = "as_utc at" and ?kind = "if ds = ''1'' then E_ACKNOWLEDGED else E_MANUAL_FOLLOW_UP"
  let ?c = "gather_case c ds ?now" and ?a = "gather_attempt a ds ?now"
  let ?ev = "\<lparr>e_event_id = ce_new_id env (co_ids s), e_tenant_id = c_tenant_id c, e_case_id = c_case_id c,
      e_attempt_id = Some (a_attempt_id a), e_kind = ?kind, e_occurred_at = ?now,
      e_deduplication_key = digest (ce_sha env) [''gather'', ref, ds], e_detail_code = None\<rparr>"
  have vc: "valid_case c" and va: "valid_attempt a" using C A by simp_all
  have stored: "stored \<noteq> []" using va ref(1) by (auto simp: valid_attempt_iff attempt_progress_ok_def)
  have res: "coord_resolve_callback env tok ref s = (Inr (c, a), s)"
    using cb a c ref stored
    by (simp add: coord_resolve_callback_def resolve_callback_def on_repo_def or_default_def)
  have sc: "same_case c ?c" and sa: "same_attempt a ?a"
    by (simp_all add: gather_case_def gather_attempt_def same_case_def same_attempt_def Let_def)
  have "case_progress_ok ?c" "attempt_progress_ok ?a"
    using vc va by (auto simp: valid_case_iff valid_attempt_iff case_progress_ok_def gather_case_def
        attempt_progress_ok_def gather_attempt_def attempt_outcomes_def Let_def)
  then have vc': "valid_case ?c" and va': "valid_attempt ?a"
    using vc va same_case_identity_ok [OF sc] same_attempt_identity_ok [OF sa] by (simp_all add: valid_case_iff valid_attempt_iff)
  have ids: "match_identifier (c_tenant_id c)" "match_identifier (c_case_id c)" "match_identifier (a_attempt_id a)"
    using vc va by (simp_all add: valid_case_iff case_identity_ok_def case_identity_guards_def valid_attempt_iff
        attempt_identity_ok_def attempt_identity_guards_def)
  have ev: "event_post_init ?ev = None"
    using ids ident sha by (simp add: event_post_init_def digest_def)
  obtain es where es: "rp_events (co_repo s) (t, a_case_id a) = Some es" using C(4) by auto
  let ?r = "(co_repo s)\<lparr>rp_cases := (rp_cases (co_repo s))((t, a_case_id a) \<mapsto> ?c),
      rp_attempts := (rp_attempts (co_repo s))((t, n) \<mapsto> ?a),
      rp_events := (rp_events (co_repo s))((t, a_case_id a) \<mapsto> es @ [?ev]),
      rp_dedupe := insert (t, e_deduplication_key ?ev) (rp_dedupe (co_repo s))\<rparr>"
  note cf = same_case_fields [OF sc] and af = same_attempt_fields [OF sa]
  have app: "apply_transition ?c ?a ?ev (c_version c) (a_version a) (co_repo s) = (Inr True, ?r)"
    using c a es C A new
    by (simp add: apply_transition_def cf af versions_agree_def cancellation_in_flight_def validate_event_def
        append_event_locked_def gather_case_def gather_attempt_def Let_def)
  show ?thesis
    using live ds at ev vc' va' app C
    by (auto simp: handle_gather_def res callback_time_def require_utc_def gather_step_def apply_update_def
        make_event_def next_id_def new_event_def new_case_def new_attempt_def valid_case_def valid_attempt_def on_repo_def get_case_def fetch_def Let_def)
qed

end
