(* ===== verification/Dispatch_Authorize.thy ===== *)
theory Dispatch_Authorize
  imports Dispatch_Service_Inv
begin

text \<open>
  Authorization is idempotent and its key is bound to what was authorized: the JSON payload
  behind the fingerprint determines every authorized field, a repetition returns the case it
  created, and the same key with anything else is refused.
\<close>

section \<open>The payload determines the authorization\<close>

lemma payload_inj:
  assumes "authorization_payload i who v = authorization_payload j who' v'"
  shows "i_tenant_id i = i_tenant_id j \<and> i_incident_id i = i_incident_id j \<and>
     i_confirmed_review_id i = i_confirmed_review_id j \<and> i_incident_source_id i = i_incident_source_id j \<and>
     i_incident_external_event_id i = i_incident_external_event_id j \<and> who = who' \<and> v = v'"
  using assms json_string_inj [of "i_tenant_id i" "[]" "i_tenant_id j" "[]"]
  by (auto simp: authorization_payload_def dest!: json_string_inj)

section \<open>What a successful authorization leaves behind\<close>

definition template_of :: "'p coord_env \<Rightarrow> string option \<Rightarrow> string" where
  "template_of env version = or_default version (ep_message_template_version (ce_policy env))"

definition fingerprint_of :: "'p coord_env \<Rightarrow> confirmed_incident \<Rightarrow> string \<Rightarrow> string option \<Rightarrow> string" where
  "fingerprint_of env i who version = authorization_fingerprint (ce_sha env) i who (template_of env version)"

definition authorize_inputs_ok :: "'p coord_env \<Rightarrow> confirmed_incident \<Rightarrow> string \<Rightarrow> string \<Rightarrow> bool \<Rightarrow> string option \<Rightarrow> bool" where
  "authorize_inputs_ok env i who key flag version \<longleftrightarrow> flag \<and> i_review_decision i = ''confirmed'' \<and>
     match_idempotency_key key \<and> who \<noteq> [] \<and> length who \<le> 128 \<and> match_identifier (template_of env version)"

lemma hex64_ascii: "hex64 s \<Longrightarrow> is_ascii s"
proof -
  have "is_ascii_char c" if "is_hex c" for c
    using that by (cases c) (auto simp: char_class_code char_range_code)
  then show "hex64 s \<Longrightarrow> is_ascii s" by (auto simp: hex64_def run_match_def is_ascii_def list_all_iff)
qed

lemma valid_fingerprint_ascii: "valid_case c \<Longrightarrow> is_ascii (c_authorization_fingerprint c)"
  by (intro hex64_ascii) (simp add: valid_case_iff case_identity_ok_def case_identity_guards_def)

lemma same_fingerprint_Inr:
  "same_fingerprint c f s = (Inr d, t) \<longleftrightarrow> d = c \<and> t = s \<and> is_ascii f \<and> c_authorization_fingerprint c = f"
  by (auto simp: same_fingerprint_def compare_digest_def effect_simps)

lemma find_case_Inr:
  "find_case_by_idempotency t key r = (Inr x, r') \<longleftrightarrow> r' = r \<and>
     (case rp_idempotency r (t, key) of None \<Rightarrow> x = None
      | Some i \<Rightarrow> (\<exists>c. rp_cases r (t, i) = Some c \<and> x = Some c))"
  by (auto simp: find_case_by_idempotency_def effect_simps split: option.splits)

lemma authorized_tenant: "c_tenant_id (authorized_case env i who key v f k now n at) = i_tenant_id i"
  by (simp add: authorized_case_def)

text \<open>The case of a key is recorded, with the fingerprint of what was authorized.\<close>

lemma authorize_records:
  assumes op: "authorize env i who key flag version s = (Inr c, s')" and inv: "repo_inv (co_repo s)"
  shows "authorize_inputs_ok env i who key flag version \<and>
     rp_idempotency (co_repo s') (i_tenant_id i, key) = Some (c_case_id c) \<and>
     rp_cases (co_repo s') (i_tenant_id i, c_case_id c) = Some c \<and>
     c_authorization_fingerprint c = fingerprint_of env i who version"
proof -
  let ?f = "fingerprint_of env i who version"
  from op have ok: "authorize_inputs_ok env i who key flag version"
    by (auto simp: authorize_def authorize_inputs_ok_def template_of_def Let_def effect_simps require_identifier_def
        split: if_splits)
  let ?find = "find_case_by_idempotency (i_tenant_id i) key"
  obtain y r where found: "?find (co_repo s) = (y, r)" by (cases "?find (co_repo s)")
  with find_case_read have r: "r = co_repo s" by blast
  then have rd: "on_repo ?find s = (y, s)" using found by (simp add: on_repo_def)
  from op rd obtain x where x: "y = Inr x"
    and rest: "(case x of Some d \<Rightarrow> same_fingerprint d ?f s
        | None \<Rightarrow> authorize_new env i who key (template_of env version) ?f s) = (Inr c, s')"
    unfolding fingerprint_of_def template_of_def
    by (auto simp: authorize_def Let_def effect_simps)
  have find: "?find (co_repo s) = (Inr x, co_repo s)" using found r x by simp
  show ?thesis
  proof (cases x)
    case (Some d)
    with find obtain n where "rp_idempotency (co_repo s) (i_tenant_id i, key) = Some n"
        "rp_cases (co_repo s) (i_tenant_id i, n) = Some d" by (auto simp: find_case_Inr split: option.splits)
    moreover from this have "c_case_id d = n" using repo_caseD(2) [OF inv] by blast
    ultimately show ?thesis using ok rest Some by (auto simp: same_fingerprint_Inr)
  next
    case None
    with rest obtain nc ev d b u r where cr: "create_case nc key ev (co_repo s) = (Inr (d, b), r)"
        and t: "c_tenant_id nc = i_tenant_id i" and fp: "same_fingerprint d ?f u = (Inr c, s')" and u: "co_repo u = r"
      by (auto simp: authorize_new_def effect_simps on_repo_eq new_case_Inr authorized_tenant next_id_def
          dest!: read_clock_repo make_event_repo)
    from create_case_stored [OF inv cr] fp ok t u show ?thesis by (auto simp: same_fingerprint_Inr)
  qed
qed

text \<open>Later, the same call returns the case as it is then and writes nothing; another one is refused.\<close>

lemma authorize_known:
  assumes ok: "authorize_inputs_ok env i who key flag version" and inv: "repo_inv (co_repo s)"
    and key: "rp_idempotency (co_repo s) (i_tenant_id i, key) = Some n"
    and c: "rp_cases (co_repo s) (i_tenant_id i, n) = Some c"
    and ascii: "is_ascii (fingerprint_of env i who version)"
  shows "authorize env i who key flag version s =
     (if c_authorization_fingerprint c = fingerprint_of env i who version then (Inr c, s)
      else (Inl (Raised DispatchIdempotencyConflict), s))"
proof -
  have "is_ascii (c_authorization_fingerprint c)"
    using repo_caseD(3) [OF inv c] by (rule valid_fingerprint_ascii)
  with assms show ?thesis
    by (simp add: authorize_def authorize_inputs_ok_def template_of_def fingerprint_of_def Let_def require_identifier_def
        find_case_by_idempotency_def on_repo_def same_fingerprint_def compare_digest_def)
qed

lemma advance_key:
  assumes "co_advance s t" and "rp_idempotency (co_repo s) k = Some n" and "rp_cases (co_repo s) m = Some c"
  shows "rp_idempotency (co_repo t) k = Some n"
    and "\<exists>d. rp_cases (co_repo t) m = Some d \<and> case_advance c d"
  using assms keepsD unfolding co_advance_def repo_advance_def by fast+

end
