(* ===== verification/Dispatch_Runs.thy ===== *)
theory Dispatch_Runs
  imports Dispatch_Service_Inv Dispatch_Demo
begin

text \<open>
  Runs of the coordinator from an empty repository, over the mock and over the SDK adapter: every
  reachable state satisfies the coordinator invariant; and the reachable states of the concrete
  deployment on which theorems are applied.
\<close>

section \<open>Runs from the empty repository\<close>

definition sdk_start :: "directory \<Rightarrow> 'c \<Rightarrow> 'c sdk_state coordinator" where
  "sdk_start d client = initial_coordinator d \<lparr>sdk_client = client, sdk_started = []\<rparr>"

definition mock_start :: "directory \<Rightarrow> int \<Rightarrow> mock_provider coordinator" where
  "mock_start d failures = initial_coordinator d (mock_init failures)"

lemma sdk_run_inv:
  assumes "inj (ce_new_id env)" and "directory_inv d"
  shows "co_inv (with_sdk cfg env) sdk_submitted (\<lambda>_. True) (run (with_sdk cfg env) ops (sdk_start d client))"
  unfolding run_def
  by (rule sdk_service.service.run_inv)
    (use assms in \<open>simp add: sdk_start_def initial_inv with_sdk_def sdk_submitted_def\<close>)

lemma mock_run_inv:
  assumes "inj (ce_new_id env)" and "directory_inv d"
  shows "co_inv (with_mock env) mock_submitted mock_inv (run (with_mock env) ops (mock_start d n))"
  unfolding run_def
  by (rule mock_service.service.run_inv)
    (use assms in \<open>simp add: mock_start_def initial_inv with_mock_def mock_submitted_def mock_init_inv mock_init_def[of n]
      mock_inv_def\<close>)

section \<open>Reachable states of the concrete deployment\<close>

lemma demo_with [simp]: "with_mock demo_env = demo_env" "with_sdk demo_cfg demo_sdk_env = demo_sdk_env"
  by (simp_all add: with_mock_def with_sdk_def demo_env_def demo_sdk_env_def demo_env_for_def)

definition demo_called :: "mock_provider coordinator" where
  "demo_called = run demo_env demo_call_ops (mock_start demo_directory 0)"

lemma demo_called_inv: "repo_inv (co_repo demo_called)"
  using mock_run_inv [of demo_env demo_directory demo_call_ops 0] by (simp add: co_inv_def demo_called_def)

lemma demo_called_facts:
  "\<exists>a c. rp_callback (co_repo demo_called) demo_token = Some (''t'', ''kxx'') \<and>
     rp_attempts (co_repo demo_called) (''t'', ''kxx'') = Some a \<and> a_case_id a = ''k'' \<and>
     a_provider_call_reference a = Some ''mock-call-kxx'' \<and>
     rp_cases (co_repo demo_called) (''t'', ''k'') = Some c \<and> c_status c = D_DIALING \<and>
     (''t'', digest demo_sha [''gather'', ''mock-call-kxx'', ''1'']) \<notin> rp_dedupe (co_repo demo_called) \<and>
     match_identifier (ce_new_id demo_env (co_ids demo_called))"
proof -
  have "demo_call_bound demo_called"
    using demo_called_bound by (simp add: demo_called_def mock_start_def)
  moreover have "ce_new_id demo_env = demo_id" by (simp add: demo_env_def demo_env_for_def)
  ultimately show ?thesis
    by (auto simp: demo_call_bound_def intro: demo_id_ok split: option.splits)
qed

definition demo_claimed :: "mock_provider coordinator" where
  "demo_claimed = run demo_env demo_long_ops (mock_start demo_directory 0)"

lemma demo_claimed_inv: "repo_inv (co_repo demo_claimed)"
  using mock_run_inv [of demo_env demo_directory demo_long_ops 0] by (simp add: co_inv_def demo_claimed_def)

lemma demo_claimed_facts:
  "\<exists>a c x. rp_attempts (co_repo demo_claimed) (''t'', ''kxx'') = Some a \<and> a_case_id a = ''k'' \<and>
     rp_cases (co_repo demo_claimed) (''t'', ''k'') = Some c \<and> c_status c = D_DIALING \<and>
     length (c_broad_location_label c) = 81 \<and>
     rp_submissions (co_repo demo_claimed) (''t'', ''kxx'') = Some x \<and> s_state x = S_CLAIMED"
  using demo_long_claimed
  by (auto simp: demo_claimed_def mock_start_def demo_claim_held_def split: option.splits)

end
