(* ===== verification/Dispatch_Properties.thy ===== *)
theory Dispatch_Properties
  imports Dispatch_Acknowledge Dispatch_Authorize Dispatch_Runs
begin

text \<open>
  What voice dispatch guarantees, over every sequence of operations from an empty repository:
  physical calls, escalation order, finality of a settled case, idempotent authorization, and the
  rejection of callbacks that do not belong to their call.
\<close>

lemma case_attempt_ids:
  assumes "repo_inv r" and "rp_attempts r (t, i) = Some a"
  shows "\<exists>c ids. rp_cases r (t, a_case_id a) = Some c \<and> rp_attempt_ids r (t, a_case_id a) = Some ids \<and> i \<in> set ids \<and>
     length ids \<le> 3"
  using repo_attemptD(5) [OF assms] repo_caseD(5) [OF assms(1)] by (fastforce simp: case_attempts_def)

section \<open>Physical calls\<close>

definition physical_calls :: "'c sdk_state coordinator \<Rightarrow> string list" where
  "physical_calls s = map oc_request_id (sdk_started (co_provider s))"

definition calls_of_case :: "'c sdk_state coordinator \<Rightarrow> string \<Rightarrow> string \<Rightarrow> string list" where
  "calls_of_case s t i = filter (\<lambda>n. case rp_attempts (co_repo s) (t, n) of None \<Rightarrow> False | Some a \<Rightarrow> a_case_id a = i)
     (physical_calls s)"

text \<open>C1: over any sequence of operations the SDK adapter starts at most one physical call for an
attempt, and only for an attempt that is recorded and whose submission is no longer pending.\<close>

theorem calls_at_most_once:
  assumes "inj (ce_new_id env)" and "directory_inv d"
  shows "distinct (physical_calls (run (with_sdk cfg env) ops (sdk_start d client))) \<and>
     (\<forall>n \<in> set (physical_calls (run (with_sdk cfg env) ops (sdk_start d client))). \<exists>t a x.
        rp_attempts (co_repo (run (with_sdk cfg env) ops (sdk_start d client))) (t, n) = Some a \<and>
        rp_submissions (co_repo (run (with_sdk cfg env) ops (sdk_start d client))) (t, n) = Some x \<and> s_state x \<noteq> S_PENDING)"
  using sdk_run_inv [OF assms, of cfg ops client]
  unfolding co_inv_def calls_ok_def physical_calls_def sdk_submitted_def by blast

theorem calls_at_most_once_witness:
  "distinct (physical_calls (run demo_sdk_env demo_call_ops (sdk_start demo_directory 0))) \<and>
   physical_calls (run demo_sdk_env demo_call_ops (sdk_start demo_directory 0)) = [''kxx'']"
proof
  show "physical_calls (run demo_sdk_env demo_call_ops (sdk_start demo_directory 0)) = [''kxx'']"
    by code_simp
qed (use calls_at_most_once [of demo_sdk_env demo_directory demo_cfg demo_call_ops 0] in simp)

text \<open>Over any sequence of operations at most three physical calls are started for a case.\<close>

lemma at_most_three_calls_per_case:
  assumes "inj (ce_new_id env)" and "directory_inv d"
  shows "length (calls_of_case (run (with_sdk cfg env) ops (sdk_start d client)) t i) \<le> 3"
proof -
  let ?s = "run (with_sdk cfg env) ops (sdk_start d client)"
  have inv: "repo_inv (co_repo ?s)" and dist: "distinct (physical_calls ?s)"
    using sdk_run_inv [OF assms, of cfg ops client]
    by (simp_all add: co_inv_def calls_ok_def physical_calls_def sdk_submitted_def)
  show ?thesis
  proof (cases "calls_of_case ?s t i = []")
    case False
    then obtain n where "n \<in> set (calls_of_case ?s t i)" by (meson last_in_set)
    then obtain a where a: "rp_attempts (co_repo ?s) (t, n) = Some a" "a_case_id a = i"
      by (auto simp: calls_of_case_def split: option.splits)
    from case_attempt_ids [OF inv a(1)] a(2) obtain ids where
      ids: "rp_attempt_ids (co_repo ?s) (t, i) = Some ids" "length ids \<le> 3" by auto
    have "set (calls_of_case ?s t i) \<subseteq> set ids"
      using case_attempt_ids [OF inv] ids(1) by (fastforce simp: calls_of_case_def split: option.splits)
    then have "card (set (calls_of_case ?s t i)) \<le> card (set ids)" by (simp add: card_mono)
    also have "\<dots> \<le> 3" using card_length [of ids] ids(2) by simp
    finally have "card (set (calls_of_case ?s t i)) \<le> 3" .
    moreover have "distinct (calls_of_case ?s t i)" using dist by (simp add: calls_of_case_def)
    ultimately show ?thesis by (metis distinct_card)
  qed simp
qed

section \<open>Escalation\<close>

text \<open>C3: in every reachable state the attempts of a case are numbered from one, at most three, the
first two to the primary contact of the case and the third to its supervisor, and all but the last
are finished.\<close>

theorem escalation_order:
  assumes "inj (ce_new_id env)" and "directory_inv d"
    and "rp_cases (co_repo (run (with_mock env) ops (mock_start d n))) (t, i) = Some c"
  shows "\<exists>as. fst (list_attempts t i (co_repo (run (with_mock env) ops (mock_start d n)))) = Inr as \<and>
     length as \<le> 3 \<and> c_attempt_count c = int (length as) \<and>
     (\<forall>j < length as. a_sequence (as ! j) = int j + 1 \<and> a_case_id (as ! j) = i \<and>
        a_target_role (as ! j) = (if j < 2 then Role_PRIMARY else Role_SUPERVISOR) \<and>
        a_contact_id (as ! j) = (if j < 2 then c_primary_contact_id c else c_supervisor_contact_id c) \<and>
        (Suc j < length as \<longrightarrow> terminal_attempt (a_status (as ! j))))"
proof -
  let ?r = "co_repo (run (with_mock env) ops (mock_start d n))"
  have inv: "repo_inv ?r" using mock_run_inv [OF assms(1,2)] by (simp add: co_inv_def)
  from repo_caseD [OF inv assms(3)] obtain ids where c: "c_tenant_id c = t" "c_case_id c = i"
    and ids: "rp_attempt_ids ?r (t, i) = Some ids" "case_attempts ?r c ids" by auto
  obtain as where as: "attempts_at ?r t ids = Inr as" "length as = length ids"
      "\<And>j. j < length ids \<Longrightarrow> rp_attempts ?r (t, ids ! j) = Some (as ! j)"
      "\<And>j. j < length ids \<Longrightarrow> a_sequence (as ! j) = int j + 1"
      "\<And>j. Suc j < length ids \<Longrightarrow> terminal_attempt (a_status (as ! j))"
    using case_attempts_read [OF ids(2)] unfolding c by blast
  have "fst (list_attempts t i ?r) = Inr as"
    using assms(3) ids(1) as(1) by (simp add: list_attempts_def lift_def)
  moreover have "a_target_role (as ! j) = (if j < 2 then Role_PRIMARY else Role_SUPERVISOR) \<and> a_case_id (as ! j) = i \<and>
      a_contact_id (as ! j) = (if j < 2 then c_primary_contact_id c else c_supervisor_contact_id c)"
    if j: "j < length ids" for j
  proof -
    have "valid_attempt (as ! j)" using repo_attemptD(3) [OF inv as(3) [OF j]] .
    then have role: "a_target_role (as ! j) = role_for_sequence (a_sequence (as ! j))"
      by (simp add: valid_attempt_iff attempt_identity_ok_def attempt_identity_guards_def)
    have "attempt_slot ?r c (length ids) j (ids ! j)" using ids(2) j by (simp add: case_attempts_def)
    with as(3) [OF j] role as(4) [OF j] show ?thesis
      by (auto simp: attempt_slot_def contact_for_def role_for_sequence_def c)
  qed
  ultimately show ?thesis using as(2,4,5) ids(2) by (auto simp: case_attempts_def)
qed

lemma demo_authorized_case:
  "map_option c_attempt_count (rp_cases (co_repo (run demo_env [demo_authorize] (mock_start demo_directory 0))) (''t'', ''k'')) = Some 0"
  by code_simp

theorem escalation_order_witness:
  "\<exists>as. fst (list_attempts ''t'' ''k'' (co_repo (run demo_env [demo_authorize] (mock_start demo_directory 0)))) = Inr as \<and>
     as = []"
proof -
  from demo_authorized_case obtain c where
    "rp_cases (co_repo (run demo_env [demo_authorize] (mock_start demo_directory 0))) (''t'', ''k'') = Some c"
    and "c_attempt_count c = 0" by auto
  with escalation_order [of demo_env demo_directory "[demo_authorize]" 0 "''t''" "''k''" c] show ?thesis by auto
qed

text \<open>C4: once a case of a reachable state is acknowledged, handed to manual follow-up or canceled, no
later operation changes its record; an unacknowledged case can only still be acknowledged or handed
over by a late keypress.\<close>

theorem settled_is_final:
  assumes "inj (ce_new_id env)" and "directory_inv d"
    and "rp_cases (co_repo (run (with_mock env) ops (mock_start d n))) k = Some c" and "terminal_dispatch (c_status c)"
  shows "\<exists>c'. rp_cases (co_repo (run (with_mock env) (ops @ later) (mock_start d n))) k = Some c' \<and>
     (c' = c \<or> c_status c = D_UNACKNOWLEDGED \<and> c_status c' \<in> {D_ACKNOWLEDGED, D_MANUAL_FOLLOW_UP})"
proof -
  have "co_advance (run (with_mock env) ops (mock_start d n)) (run (with_mock env) (ops @ later) (mock_start d n))"
    using mock_service.service.run_rel [OF mock_run_inv [OF assms(1,2), of ops n], of later] by (simp add: run_def)
  then have "keeps case_advance (rp_cases (co_repo (run (with_mock env) ops (mock_start d n))))
      (rp_cases (co_repo (run (with_mock env) (ops @ later) (mock_start d n))))"
    by (simp add: co_advance_def repo_advance_def)
  from keepsD [OF this assms(3)] assms(4) show ?thesis by (auto simp: case_advance_def)
qed

lemma demo_canceled_case:
  "map_option c_status (rp_cases (co_repo (run demo_env demo_cancel_ops (mock_start demo_directory 0))) (''t'', ''k'')) = Some D_CANCELED"
  by code_simp

theorem settled_is_final_witness:
  "\<exists>c'. rp_cases (co_repo (run demo_env (demo_cancel_ops @ demo_call_ops) (mock_start demo_directory 0))) (''t'', ''k'') = Some c' \<and>
     c_status c' = D_CANCELED"
proof -
  from demo_canceled_case obtain c where
    "rp_cases (co_repo (run demo_env demo_cancel_ops (mock_start demo_directory 0))) (''t'', ''k'') = Some c"
    and "c_status c = D_CANCELED" by auto
  with settled_is_final [of demo_env demo_directory demo_cancel_ops 0 "(''t'', ''k'')" c demo_call_ops] show ?thesis by auto
qed

section \<open>Acknowledgement\<close>

text \<open>C5: a case becomes acknowledged only by the digit \<open>1\<close> on a callback whose token belongs to an
attempt of that case; no other operation, and no other digit, acknowledges.\<close>

theorem acknowledged_only_by_keypress:
  assumes "repo_inv (co_repo s)"
    and "rp_cases (co_repo (service_step env op s)) k = Some c'" and "c_status c' = D_ACKNOWLEDGED"
    and "\<not> (\<exists>c. rp_cases (co_repo s) k = Some c \<and> c_status c = D_ACKNOWLEDGED)"
  shows "\<exists>tok ref ek at n a. op = Op_gather tok ref ''1'' ek at \<and> rp_callback (co_repo s) tok = Some (fst k, n) \<and>
     rp_attempts (co_repo s) (fst k, n) = Some a \<and> a_case_id a = snd k"
proof -
  have "\<exists>tok ref ek at. op = Op_gather tok ref ''1'' ek at"
  proof (rule ccontr)
    assume "\<not> ?thesis"
    then have "unacked s (service_step env op s)" by (intro step_unacked) blast
    with assms(2-4) show False unfolding unacked_def ack_kept_def by blast
  qed
  then obtain tok ref ek at where op: "op = Op_gather tok ref ''1'' ek at" by blast
  with gather_ack_source [OF assms(1) _ assms(3,4)] assms(2) show ?thesis by fastforce
qed

lemma demo_reference: "stored_reference_matches (ce_sha demo_env) ''mock-call-kxx'' ''mock-call-kxx'' = Inr True"
  by code_simp

lemma demo_gather_acknowledges:
  "\<exists>c'. rp_cases (co_repo (service_step demo_env (Op_gather demo_token ''mock-call-kxx'' ''1'' ''e'' (Some (Aware 0 0))) demo_called))
     (''t'', ''k'') = Some c' \<and> c_status c' = D_ACKNOWLEDGED"
proof -
  obtain a c where d: "rp_callback (co_repo demo_called) demo_token = Some (''t'', ''kxx'')"
     "rp_attempts (co_repo demo_called) (''t'', ''kxx'') = Some a" "a_case_id a = ''k''"
     "a_provider_call_reference a = Some ''mock-call-kxx''"
     "rp_cases (co_repo demo_called) (''t'', ''k'') = Some c" "c_status c = D_DIALING"
     "(''t'', digest demo_sha [''gather'', ''mock-call-kxx'', ''1'']) \<notin> rp_dedupe (co_repo demo_called)"
     "match_identifier (ce_new_id demo_env (co_ids demo_called))"
    using demo_called_facts by blast
  have sha: "ce_sha demo_env = demo_sha" by (simp add: demo_env_def demo_env_for_def)
  have "rp_cases (co_repo demo_called) (''t'', a_case_id a) = Some c" using d by simp
  from gather_effect [OF demo_called_inv d(1,2) this d(4) _ demo_reference, of "''1''" "Aware 0 0" "''e''"]
  obtain s' where "handle_gather demo_env demo_token ''mock-call-kxx'' ''1'' ''e'' (Some (Aware 0 0)) demo_called =
      (Inr (gather_case c ''1'' (as_utc (Aware 0 0))), s')"
    "rp_cases (co_repo s') (''t'', ''k'') = Some (gather_case c ''1'' (as_utc (Aware 0 0)))"
    using d by (auto simp: sha)
  then show ?thesis by (simp add: gather_case_def)
qed

theorem acknowledged_only_by_keypress_witness:
  "\<exists>tok ref ek at n a. Op_gather demo_token ''mock-call-kxx'' ''1'' ''e'' (Some (Aware 0 0)) = Op_gather tok ref ''1'' ek at \<and>
     rp_callback (co_repo demo_called) tok = Some (''t'', n) \<and>
     rp_attempts (co_repo demo_called) (''t'', n) = Some a \<and> a_case_id a = ''k''"
proof -
  from demo_gather_acknowledges obtain c' where c': "rp_cases (co_repo (service_step demo_env
      (Op_gather demo_token ''mock-call-kxx'' ''1'' ''e'' (Some (Aware 0 0))) demo_called)) (''t'', ''k'') = Some c'"
    "c_status c' = D_ACKNOWLEDGED" by blast
  moreover have "\<not> (\<exists>c. rp_cases (co_repo demo_called) (''t'', ''k'') = Some c \<and> c_status c = D_ACKNOWLEDGED)"
    using demo_called_facts by auto
  ultimately show ?thesis
    using acknowledged_only_by_keypress [OF demo_called_inv c'] by simp
qed

text \<open>On the bound call of a case that is not settled, the digits \<open>1\<close> and \<open>2\<close> close the case and the
attempt with the outcome the digit means, and the handler returns the closed case.\<close>

lemma keypress_closes_case:
  assumes "repo_inv (co_repo s)" and "rp_callback (co_repo s) tok = Some (t, n)"
    and "rp_attempts (co_repo s) (t, n) = Some a" and "rp_cases (co_repo s) (t, a_case_id a) = Some c"
    and "a_provider_call_reference a = Some stored" "ref \<noteq> []" "stored_reference_matches (ce_sha env) stored ref = Inr True"
    and "c_status c \<notin> {D_ACKNOWLEDGED, D_MANUAL_FOLLOW_UP, D_CANCELED}" and "ds \<in> {''1'', ''2''}"
    and "is_aware at" and "match_identifier (ce_new_id env (co_ids s))" and "\<And>x. hex64 (ce_sha env x)"
    and "(t, digest (ce_sha env) [''gather'', ref, ds]) \<notin> rp_dedupe (co_repo s)"
  shows "\<exists>s' c' a'. handle_gather env tok ref ds ek (Some at) s = (Inr c', s') \<and>
     rp_cases (co_repo s') (t, a_case_id a) = Some c' \<and> rp_attempts (co_repo s') (t, n) = Some a' \<and>
     c_status c' = (if ds = ''1'' then D_ACKNOWLEDGED else D_MANUAL_FOLLOW_UP) \<and>
     a_status a' = (if ds = ''1'' then A_ACKNOWLEDGED else A_MANUAL_FOLLOW_UP) \<and>
     c_closed_at c' = Some (as_utc at) \<and> c_next_attempt_at c' = None"
proof -
  have "c_status (gather_case c ds at') = (if ds = ''1'' then D_ACKNOWLEDGED else D_MANUAL_FOLLOW_UP) \<and>
      c_closed_at (gather_case c ds at') = Some at' \<and> c_next_attempt_at (gather_case c ds at') = None \<and>
      a_status (gather_attempt a ds at') = (if ds = ''1'' then A_ACKNOWLEDGED else A_MANUAL_FOLLOW_UP)" for at'
    by (simp add: gather_case_def gather_attempt_def Let_def)
  with gather_effect [OF assms, of ek] show ?thesis by blast
qed

section \<open>Authorization\<close>

text \<open>What an authorization left is still there after any later operations.\<close>

lemma authorized_later:
  assumes "inj (ce_new_id env)" and "directory_inv d"
    and op: "authorize (with_mock env) i who key flag v (run (with_mock env) ops (mock_start d n)) = (Inr c, s')"
    and t: "t = run (with_mock env) later s'"
  shows "\<exists>c'. rp_idempotency (co_repo t) (i_tenant_id i, key) = Some (c_case_id c) \<and>
     rp_cases (co_repo t) (i_tenant_id i, c_case_id c) = Some c' \<and> repo_inv (co_repo t) \<and> c_case_id c' = c_case_id c \<and>
     authorize_inputs_ok (with_mock env) i who key flag v \<and>
     c_authorization_fingerprint c' = fingerprint_of (with_mock env) i who v \<and>
     is_ascii (fingerprint_of (with_mock env) i who v)"
proof -
  let ?s = "run (with_mock env) ops (mock_start d n)"
  have inv: "co_inv (with_mock env) mock_submitted mock_inv ?s" by (rule mock_run_inv [OF assms(1,2)])
  then have inv': "co_inv (with_mock env) mock_submitted mock_inv s'"
    using authorize_safe [of "with_mock env" mock_submitted mock_inv ?s "with_mock env" i who key flag v] op by (simp add: safe_def)
  from authorize_records [OF op] inv have rec: "authorize_inputs_ok (with_mock env) i who key flag v"
      "rp_idempotency (co_repo s') (i_tenant_id i, key) = Some (c_case_id c)"
      "rp_cases (co_repo s') (i_tenant_id i, c_case_id c) = Some c"
      "c_authorization_fingerprint c = fingerprint_of (with_mock env) i who v"
    by (simp_all add: co_inv_def)
  have adv: "co_advance s' t" and inv_t: "repo_inv (co_repo t)"
    using mock_service.service.run_rel [OF inv', of later] mock_service.service.run_inv [OF inv', of later]
    by (simp_all add: run_def t co_inv_def)
  from advance_key [OF adv rec(2,3)] obtain c' where c': "rp_cases (co_repo t) (i_tenant_id i, c_case_id c) = Some c'"
      "case_advance c c'" "rp_idempotency (co_repo t) (i_tenant_id i, key) = Some (c_case_id c)" by auto
  have f: "c_case_id c' = c_case_id c" "c_authorization_fingerprint c' = c_authorization_fingerprint c"
    using c'(2) same_case_fields [of c c'] by (simp_all add: case_advance_def)
  have "is_ascii (c_authorization_fingerprint c')"
    using repo_caseD(3) [OF inv_t c'(1)] by (rule valid_fingerprint_ascii)
  with rec(1,4) c'(1,3) inv_t f show ?thesis by auto
qed

text \<open>Repeating an authorization, after whatever operations followed it, returns the case it created as it
is by then, and changes nothing.\<close>

lemma authorize_is_idempotent:
  assumes "inj (ce_new_id env)" and "directory_inv d"
    and "authorize (with_mock env) i who key flag v (run (with_mock env) ops (mock_start d n)) = (Inr c, s')"
    and "t = run (with_mock env) later s'"
  shows "\<exists>c'. authorize (with_mock env) i who key flag v t = (Inr c', t) \<and> c_case_id c' = c_case_id c \<and>
     rp_cases (co_repo t) (i_tenant_id i, c_case_id c) = Some c'"
proof -
  from authorized_later [OF assms] obtain c' where "rp_idempotency (co_repo t) (i_tenant_id i, key) = Some (c_case_id c)"
      "rp_cases (co_repo t) (i_tenant_id i, c_case_id c) = Some c'" "repo_inv (co_repo t)" "c_case_id c' = c_case_id c"
      "authorize_inputs_ok (with_mock env) i who key flag v"
      "c_authorization_fingerprint c' = fingerprint_of (with_mock env) i who v"
      "is_ascii (fingerprint_of (with_mock env) i who v)" by blast
  then show ?thesis using authorize_known by fastforce
qed

definition demo_authorization :: "mock_provider coordinator \<Rightarrow> (exn, dispatch_case, mock_provider coordinator) outcome" where
  "demo_authorization = authorize demo_env demo_incident ''u'' ''key-0001'' True None"

lemma demo_authorization_ok: "\<exists>c s'. demo_authorization (mock_start demo_directory 0) = (Inr c, s')"
proof -
  have "case fst (demo_authorization (mock_start demo_directory 0)) of Inr c \<Rightarrow> True | Inl e \<Rightarrow> False" by code_simp
  then show ?thesis
    by (cases "demo_authorization (mock_start demo_directory 0)") (auto split: sum.splits)
qed

text \<open>An idempotency key stays bound to what it authorized. Using it again in the same tenant for another
incident, another review, another principal or another message template is refused and changes
nothing, unless SHA-256 collides on the two payloads.\<close>

lemma key_reuse_refused:
  assumes "inj (ce_new_id env)" and "directory_inv d"
    and "authorize (with_mock env) i who key flag v (run (with_mock env) ops (mock_start d n)) = (Inr c, s')"
    and "t = run (with_mock env) later s'"
    and "authorize_inputs_ok (with_mock env) j who' key flag' v'" and "i_tenant_id j = i_tenant_id i"
    and "(i_incident_id j, i_confirmed_review_id j, i_incident_source_id j, i_incident_external_event_id j, who',
        template_of (with_mock env) v') \<noteq>
      (i_incident_id i, i_confirmed_review_id i, i_incident_source_id i, i_incident_external_event_id i, who,
        template_of (with_mock env) v)"
    and "ce_sha env (authorization_payload i who (template_of (with_mock env) v)) =
        ce_sha env (authorization_payload j who' (template_of (with_mock env) v')) \<Longrightarrow>
      authorization_payload i who (template_of (with_mock env) v) = authorization_payload j who' (template_of (with_mock env) v')"
    and "is_ascii (fingerprint_of (with_mock env) j who' v')"
  shows "authorize (with_mock env) j who' key flag' v' t = (Inl (Raised DispatchIdempotencyConflict), t)"
proof -
  from authorized_later [OF assms(1-4)] obtain c' where L: "rp_idempotency (co_repo t) (i_tenant_id i, key) = Some (c_case_id c)"
      "rp_cases (co_repo t) (i_tenant_id i, c_case_id c) = Some c'" "repo_inv (co_repo t)"
      "c_authorization_fingerprint c' = fingerprint_of (with_mock env) i who v" by blast
  have "fingerprint_of (with_mock env) i who v \<noteq> fingerprint_of (with_mock env) j who' v'"
  proof
    assume "fingerprint_of (with_mock env) i who v = fingerprint_of (with_mock env) j who' v'"
    then have "authorization_payload i who (template_of (with_mock env) v) =
        authorization_payload j who' (template_of (with_mock env) v')"
      by (intro assms(8)) (simp add: fingerprint_of_def authorization_fingerprint_def with_mock_def)
    from payload_inj [OF this] assms(7) show False by simp
  qed
  with authorize_known [OF assms(5) L(3) L(1) [folded assms(6)] L(2) [folded assms(6)] assms(9)] L(4) show ?thesis by simp
qed

lemma demo_versions: "template_of demo_env None \<noteq> template_of demo_env (Some ''m2'')"
  by code_simp

lemma demo_second_inputs:
  "authorize_inputs_ok demo_env demo_incident ''u'' ''key-0001'' True (Some ''m2'')"
  "demo_sha (authorization_payload demo_incident ''u'' (template_of demo_env None)) \<noteq>
   demo_sha (authorization_payload demo_incident ''u'' (template_of demo_env (Some ''m2'')))"
  by code_simp+

end
