(* ===== verification/Py_Uuid.thy ===== *)
theory Py_Uuid
  imports Py_Json
begin

text \<open>
  \<open>uuid.UUID(text)\<close> as a check: the constructor drops \<open>urn:\<close>, \<open>uuid:\<close>, braces around the text
  and hyphens, asks for 32 characters and reads them with \<open>int(hex, 16)\<close>, which also admits
  surrounding space, a plus sign, a \<open>0x\<close> prefix and single underscores between digits.
\<close>

fun remove_all :: "string \<Rightarrow> string \<Rightarrow> string" where
  "remove_all p [] = []"
| "remove_all p (c # cs) =
     (if prefix p (c # cs) then remove_all p (drop (length p - 1) cs) else c # remove_all p cs)"

definition strip_braces :: "string \<Rightarrow> string" where
  "strip_braces s = rev (dropWhile (\<lambda>c. c \<in> set ''{}'') (rev (dropWhile (\<lambda>c. c \<in> set ''{}'') s)))"

definition hex_digit :: "char \<Rightarrow> bool" where
  "hex_digit c \<longleftrightarrow> is_hex (lower_char c)"

text \<open>Digits with single underscores between them; the flag says that a digit must come next.\<close>

fun digit_groups :: "bool \<Rightarrow> string \<Rightarrow> bool" where
  "digit_groups first [] = (\<not> first)"
| "digit_groups first (c # cs) =
     (if c = CHR ''_'' \<and> \<not> first then digit_groups True cs else hex_digit c \<and> digit_groups False cs)"

definition unsigned_base16 :: "string \<Rightarrow> bool" where
  "unsigned_base16 s =
     (if prefix ''0x'' s \<or> prefix ''0X'' s then digit_groups (\<not> prefix ''_'' (drop 2 s)) (drop 2 s)
      else digit_groups True s)"

definition int_space :: "char \<Rightarrow> bool" where
  "int_space c \<longleftrightarrow> (let n = (of_char c :: nat) in (9 \<le> n \<and> n \<le> 13) \<or> n = 32 \<or> n = 133 \<or> n = 160)"

definition base16 :: "string \<Rightarrow> bool" where
  "base16 text =
     (let s = rev (dropWhile int_space (rev (dropWhile int_space text))) in
      unsigned_base16 (if prefix ''+'' s then tl s else s))"

text \<open>No sign is left of a negative number: every hyphen has been dropped.\<close>

definition valid_uuid :: "string \<Rightarrow> bool" where
  "valid_uuid text =
     (let hex = filter (\<lambda>c. c \<noteq> CHR ''-'') (strip_braces (remove_all ''uuid:'' (remove_all ''urn:'' text))) in
      length hex = 32 \<and> base16 hex)"

text \<open>\<open>int(text)\<close>.\<close>

definition py_int :: "string \<Rightarrow> int option" where
  "py_int text =
     (let s = rev (dropWhile int_space (rev (dropWhile int_space text)));
          t = (if prefix ''+'' s \<or> prefix ''-'' s then tl s else s);
          ok = digit_groups True t \<and> list_all (\<lambda>c. is_digit c \<or> c = CHR ''_'') t;
          n = int_of_digits (filter is_digit t) in
      if ok then Some (if prefix ''-'' s then - n else n) else None)"

end
