(* ===== verification/Dispatch_Broker.thy ===== *)
theory Dispatch_Broker
  imports Dispatch_Errors Py_Json Py_Uuid
begin

text \<open>
  \<open>broker.py\<close>: the jobs of the dispatch queue, the in-memory queue of development and the SQS
  adapter. The SQS client is third-party code: its four calls are fields of \<open>sqs_client\<close> over
  the client's own state; a received message carries text fields, any of which may be missing.
\<close>

section \<open>Jobs\<close>

record dispatch_job =
  j_tenant_id :: string
  j_case_id :: string
  j_receipt_handle :: "string option"
  j_receive_count :: int

definition job_post_init :: "dispatch_job \<Rightarrow> exn option" where
  "job_post_init j = first_error
     [(\<not> valid_uuid (j_tenant_id j) \<or> \<not> valid_uuid (j_case_id j), validation_error ''dispatch_job_invalid''),
      (j_receive_count j < 1, validation_error ''dispatch_job_invalid'')]"

definition new_job :: "dispatch_job \<Rightarrow> exn + dispatch_job" where
  "new_job = construct job_post_init"

definition plain_job :: "string \<Rightarrow> string \<Rightarrow> dispatch_job" where
  "plain_job tenant_id case_id =
     \<lparr>j_tenant_id = tenant_id, j_case_id = case_id, j_receipt_handle = None, j_receive_count = 1\<rparr>"

text \<open>The \<open>DispatchBroker\<close> protocol.\<close>

record 'b broker_ops =
  bk_enqueue :: "string \<Rightarrow> string \<Rightarrow> int \<Rightarrow> 'b \<Rightarrow> (exn, unit, 'b) outcome"
  bk_receive :: "int \<Rightarrow> 'b \<Rightarrow> (exn, dispatch_job option, 'b) outcome"
  bk_acknowledge :: "dispatch_job \<Rightarrow> 'b \<Rightarrow> (exn, unit, 'b) outcome"
  bk_release :: "dispatch_job \<Rightarrow> int \<Rightarrow> 'b \<Rightarrow> (exn, unit, 'b) outcome"

section \<open>The in-memory queue\<close>

definition memory_enqueue :: "string \<Rightarrow> string \<Rightarrow> int \<Rightarrow> dispatch_job list \<Rightarrow> (exn, unit, dispatch_job list) outcome" where
  "memory_enqueue tenant_id case_id delay_seconds jobs =
     and_then (lift (new_job (plain_job tenant_id case_id)) jobs) (\<lambda>candidate jobs.
     (Inr (), if list_ex (\<lambda>j. j_tenant_id j = tenant_id \<and> j_case_id j = case_id) jobs then jobs
              else jobs @ [candidate]))"

definition memory_receive :: "int \<Rightarrow> dispatch_job list \<Rightarrow> (exn, dispatch_job option, dispatch_job list) outcome" where
  "memory_receive wait_seconds jobs = (Inr (if jobs = [] then None else Some (hd jobs)), jobs)"

definition memory_acknowledge :: "dispatch_job \<Rightarrow> dispatch_job list \<Rightarrow> (exn, unit, dispatch_job list) outcome" where
  "memory_acknowledge job jobs = (Inr (), if jobs \<noteq> [] \<and> hd jobs = job then tl jobs else jobs)"

definition memory_release :: "dispatch_job \<Rightarrow> int \<Rightarrow> dispatch_job list \<Rightarrow> (exn, unit, dispatch_job list) outcome" where
  "memory_release job delay_seconds jobs = (Inr (), jobs)"

definition memory_broker :: "dispatch_job list broker_ops" where
  "memory_broker = \<lparr>bk_enqueue = memory_enqueue, bk_receive = memory_receive,
     bk_acknowledge = memory_acknowledge, bk_release = memory_release\<rparr>"

section \<open>The SQS adapter\<close>

record sqs_message =
  sm_body :: "string option"
  sm_receipt_handle :: "string option"
  sm_attributes :: "(string \<times> string) list option"

record 'c sqs_client =
  sq_send :: "string \<Rightarrow> int \<Rightarrow> 'c \<Rightarrow> (exn, unit, 'c) outcome"
  sq_receive :: "int \<Rightarrow> 'c \<Rightarrow> (exn, sqs_message list, 'c) outcome"
  sq_delete :: "string \<Rightarrow> 'c \<Rightarrow> (exn, unit, 'c) outcome"
  sq_visibility :: "string \<Rightarrow> int \<Rightarrow> 'c \<Rightarrow> (exn, unit, 'c) outcome"

definition sqs_init :: "string \<Rightarrow> exn option" where
  "sqs_init queue_url = first_error
     [(\<not> prefix ''https://sqs.'' queue_url, Raised (DispatchConfigurationError ''dispatch_queue_invalid''))]"

definition sqs_body :: "string \<Rightarrow> string \<Rightarrow> exn + string" where
  "sqs_body tenant_id case_id =
     (case new_job (plain_job tenant_id case_id) of
        Inl e \<Rightarrow> Inl e
      | Inr _ \<Rightarrow> Inr (dumps (sort_keys (JObj
          [(''schema_version'', JStr ''1.0.0''), (''tenant_id'', JStr tenant_id), (''dispatch_case_id'', JStr case_id)]))))"

definition sqs_enqueue :: "'c sqs_client \<Rightarrow> string \<Rightarrow> string \<Rightarrow> int \<Rightarrow> 'c \<Rightarrow> (exn, unit, 'c) outcome" where
  "sqs_enqueue client tenant_id case_id delay_seconds c =
     and_then (raise_if (\<not> (0 \<le> delay_seconds \<and> delay_seconds \<le> 900)) (validation_error ''dispatch_delay_invalid'') c) (\<lambda>_ c.
     and_then (lift (sqs_body tenant_id case_id) c) (\<lambda>body c.
     sq_send client body delay_seconds c))"

text \<open>
  \<open>str\<close> of a member and \<open>int\<close> of the receive count. Of the values other than strings only an
  integer has a text that can be a UUID; the rest is never one, whatever its text.
\<close>

fun id_text :: "json \<Rightarrow> string" where
  "id_text (JStr s) = s"
| "id_text (JInt i) = py_str_int i"
| "id_text v = []"

definition decoded_job :: "(string \<times> json) list \<Rightarrow> string \<Rightarrow> (string \<times> string) list \<Rightarrow> dispatch_job option" where
  "decoded_job body receipt attributes =
     (case (member body ''tenant_id'', member body ''dispatch_case_id'') of
        (Some t, Some c) \<Rightarrow>
          map_option (\<lambda>n. \<lparr>j_tenant_id = id_text t, j_case_id = id_text c, j_receipt_handle = Some receipt, j_receive_count = n\<rparr>)
            (case map_of (rev attributes) ''ApproximateReceiveCount'' of None \<Rightarrow> Some 1 | Some text \<Rightarrow> py_int text)
      | _ \<Rightarrow> None)"

text \<open>Every malformed message ends in the same validation error.\<close>

definition sqs_decode :: "sqs_message \<Rightarrow> exn + dispatch_job" where
  "sqs_decode m =
     (case sm_body m of
        None \<Rightarrow> Inl (validation_error ''dispatch_job_invalid'')
      | Some text \<Rightarrow>
         (case loads text of
            Some (JObj body) \<Rightarrow>
              (if member body ''schema_version'' \<noteq> Some (JStr ''1.0.0'') then Inl (validation_error ''dispatch_job_invalid'')
               else (case sm_receipt_handle m of
                  None \<Rightarrow> Inl (validation_error ''dispatch_job_invalid'')
                | Some receipt \<Rightarrow>
                    (if receipt = [] then Inl (validation_error ''dispatch_job_invalid'')
                     else (case decoded_job body receipt (case sm_attributes m of None \<Rightarrow> [] | Some a \<Rightarrow> a) of
                        None \<Rightarrow> Inl (validation_error ''dispatch_job_invalid'')
                      | Some j \<Rightarrow> new_job j))))
          | _ \<Rightarrow> Inl (validation_error ''dispatch_job_invalid'')))"

definition sqs_receive :: "'c sqs_client \<Rightarrow> int \<Rightarrow> 'c \<Rightarrow> (exn, dispatch_job option, 'c) outcome" where
  "sqs_receive client wait_seconds c =
     and_then (raise_if (\<not> (0 \<le> wait_seconds \<and> wait_seconds \<le> 20)) (OtherError ''ValueError'') c) (\<lambda>_ c.
     and_then (sq_receive client wait_seconds c) (\<lambda>messages c.
     if messages = [] then (Inr None, c)
     else and_then (lift (sqs_decode (hd messages)) c) (\<lambda>job c. (Inr (Some job), c))))"

definition receipt_of :: "dispatch_job \<Rightarrow> string" where
  "receipt_of job = (case j_receipt_handle job of None \<Rightarrow> [] | Some h \<Rightarrow> h)"

definition sqs_acknowledge :: "'c sqs_client \<Rightarrow> dispatch_job \<Rightarrow> 'c \<Rightarrow> (exn, unit, 'c) outcome" where
  "sqs_acknowledge client job c =
     and_then (raise_if (receipt_of job = []) (validation_error ''dispatch_job_invalid'') c) (\<lambda>_ c.
     sq_delete client (receipt_of job) c)"

definition sqs_release :: "'c sqs_client \<Rightarrow> dispatch_job \<Rightarrow> int \<Rightarrow> 'c \<Rightarrow> (exn, unit, 'c) outcome" where
  "sqs_release client job delay_seconds c =
     and_then (raise_if (receipt_of job = [] \<or> \<not> (0 \<le> delay_seconds \<and> delay_seconds \<le> 43200))
                 (validation_error ''dispatch_delay_invalid'') c) (\<lambda>_ c.
     sq_visibility client (receipt_of job) delay_seconds c)"

definition sqs_broker :: "'c sqs_client \<Rightarrow> 'c broker_ops" where
  "sqs_broker client = \<lparr>bk_enqueue = sqs_enqueue client, bk_receive = sqs_receive client,
     bk_acknowledge = sqs_acknowledge client, bk_release = sqs_release client\<rparr>"

section \<open>What a broker sends it receives\<close>

lemma sqs_body_text:
  assumes "sqs_body t c = Inr text"
  shows "loads text = Some (JObj [(''dispatch_case_id'', JStr c), (''schema_version'', JStr ''1.0.0''), (''tenant_id'', JStr t)])"
    and "valid_uuid t" and "valid_uuid c"
proof -
  have "sort_keys (JObj [(''schema_version'', JStr ''1.0.0''), (''tenant_id'', JStr t), (''dispatch_case_id'', JStr c)]) =
      JObj [(''dispatch_case_id'', JStr c), (''schema_version'', JStr ''1.0.0''), (''tenant_id'', JStr t)]"
    by (simp add: list_less_def)
  with assms show "loads text = Some (JObj [(''dispatch_case_id'', JStr c), (''schema_version'', JStr ''1.0.0''), (''tenant_id'', JStr t)])"
    by (auto simp: sqs_body_def loads_dumps split: sum.splits simp del: dumps.simps)
  show "valid_uuid t" "valid_uuid c"
    using assms by (auto simp: sqs_body_def new_job_def plain_job_def construct_Inr job_post_init_def split: sum.splits)
qed

lemma memory_enqueue_distinct:
  assumes "memory_enqueue t c d jobs = (x, jobs')"
    and "distinct (map (\<lambda>j. (j_tenant_id j, j_case_id j)) jobs)"
  shows "distinct (map (\<lambda>j. (j_tenant_id j, j_case_id j)) jobs')"
  using assms by (auto simp: memory_enqueue_def new_job_def construct_def list_ex_iff plain_job_def lift_def split: option.splits if_splits)

end
