(* ===== verification/Dispatch_Worker.thy ===== *)
theory Dispatch_Worker
  imports Dispatch_Broker Dispatch_Service
begin

text \<open>
  \<open>worker.py\<close>: one poll of the dispatch worker, over any broker and any coordinator. The real
  clock behind \<open>datetime.now(UTC)\<close> is a sequence of instants, one per reading.
\<close>

record ('p, 'b) worker_env =
  we_env :: "'p coord_env"
  we_broker :: "'b broker_ops"
  we_mode :: twilio_mode
  we_now :: "nat \<Rightarrow> datetime"
  we_mock :: bool

record ('p, 'b) worker =
  wk_coord :: "'p coordinator"
  wk_broker :: 'b
  wk_reads :: nat

type_synonym ('p, 'b, 'a) worker_op = "('p, 'b) worker \<Rightarrow> (exn, 'a, ('p, 'b) worker) outcome"

definition on_coord :: "('p, 'a) coord_op \<Rightarrow> ('p, 'b, 'a) worker_op" where
  "on_coord op w = (case op (wk_coord w) of (x, s) \<Rightarrow> (x, w\<lparr>wk_coord := s\<rparr>))"

definition on_broker :: "('b \<Rightarrow> (exn, 'a, 'b) outcome) \<Rightarrow> ('p, 'b, 'a) worker_op" where
  "on_broker op w = (case op (wk_broker w) of (x, b) \<Rightarrow> (x, w\<lparr>wk_broker := b\<rparr>))"

definition worker_now :: "('p, 'b) worker_env \<Rightarrow> ('p, 'b, datetime) worker_op" where
  "worker_now we w = (Inr (we_now we (wk_reads w)), w\<lparr>wk_reads := Suc (wk_reads w)\<rparr>)"

text \<open>
  \<open>math.ceil((due - now).total_seconds())\<close>: exact for every pair of dates, since the float
  quotient by a million keeps the microseconds of spans below 285 years.
\<close>

definition ceil_seconds :: "datetime \<Rightarrow> datetime \<Rightarrow> int" where
  "ceil_seconds due now = - ((instant now - instant due) div 1000000)"

section \<open>The mock's answers\<close>

definition simulate_retry :: "('p, 'b) worker_env \<Rightarrow> dispatch_job \<Rightarrow> dispatch_case \<Rightarrow> ('p, 'b, unit) worker_op" where
  "simulate_retry we job c w =
     (case c_next_attempt_at c of
        None \<Rightarrow> (Inr (), w)
      | Some due \<Rightarrow>
          and_then (worker_now we w) (\<lambda>now w.
          on_broker (bk_enqueue (we_broker we) (j_tenant_id job) (j_case_id job)
                       (min (max 0 (ceil_seconds due now)) 900)) w))"

definition simulated_outcome :: "('p, 'b) worker_env \<Rightarrow> dispatch_job \<Rightarrow> call_attempt \<Rightarrow> string \<Rightarrow> ('p, 'b, unit) worker_op" where
  "simulated_outcome we job attempt reference w =
     (if a_sequence attempt < 3 then
       and_then (on_coord (handle_status (we_env we) (a_callback_token attempt) reference ''no_answer''
                   (''mock-no-answer-'' @ py_str_int (a_sequence attempt)) None) w) (\<lambda>c w.
       simulate_retry we job c w)
     else
       and_then (on_coord (handle_gather (we_env we) (a_callback_token attempt) reference ''1''
                   ''mock-supervisor-acknowledged'' None) w) (\<lambda>_ w. (Inr (), w)))"

definition simulate :: "('p, 'b) worker_env \<Rightarrow> dispatch_job \<Rightarrow> call_attempt \<Rightarrow> ('p, 'b, unit) worker_op" where
  "simulate we job attempt w =
     (let reference = or_default (a_provider_call_reference attempt) [] in
      if reference = [] then (Inr (), w)
      else if prefix ''sha256:'' reference then
        (if \<not> we_mock we then (Inr (), w)
         else and_then (lift (reference_for_request (a_attempt_id attempt)) w) (\<lambda>rebuilt w.
              simulated_outcome we job attempt rebuilt w))
      else simulated_outcome we job attempt reference w)"

section \<open>One delivery\<close>

definition deliver :: "('p, 'b) worker_env \<Rightarrow> dispatch_job \<Rightarrow> ('p, 'b, bool) worker_op" where
  "deliver we job w =
     and_then (on_coord (dispatch_next (we_env we) (j_tenant_id job) (j_case_id job)) w) (\<lambda>attempt w.
     and_then (case attempt of
                 None \<Rightarrow> (Inr (), w)
               | Some a \<Rightarrow> if we_mode we = M_MOCK then simulate we job a w else (Inr (), w)) (\<lambda>_ w.
     and_then (on_broker (bk_acknowledge (we_broker we) job) w) (\<lambda>_ w. (Inr True, w))))"

text \<open>The handler of \<open>DispatchRetryNotDue\<close>.\<close>

definition not_due_delay :: "('p, 'b) worker_env \<Rightarrow> dispatch_case \<Rightarrow> ('p, 'b, int) worker_op" where
  "not_due_delay we c w =
     (case c_next_attempt_at c of
        None \<Rightarrow> (Inr 1, w)
      | Some due \<Rightarrow> and_then (worker_now we w) (\<lambda>now w. (Inr (max 1 (ceil_seconds due now)), w)))"

definition release_not_due :: "('p, 'b) worker_env \<Rightarrow> dispatch_job \<Rightarrow> ('p, 'b, bool) worker_op" where
  "release_not_due we job w =
     and_then (on_coord (on_repo (get_case (j_tenant_id job) (j_case_id job))) w) (\<lambda>c w.
     and_then (not_due_delay we c w) (\<lambda>delay w.
     and_then (on_broker (bk_release (we_broker we) job (min delay 43200)) w) (\<lambda>_ w. (Inr True, w))))"

text \<open>The handler of every other \<open>DispatchError\<close>.\<close>

definition failure_delay :: "int \<Rightarrow> int" where
  "failure_delay receive_count = min 300 (max 5 (2 ^ nat (min receive_count 8)))"

definition delivery_failed :: "('p, 'b) worker_env \<Rightarrow> dispatch_job \<Rightarrow> ('p, 'b, bool) worker_op" where
  "delivery_failed we job w =
     (if j_receive_count job \<ge> 5 then
       (case on_coord (mark_delivery_exhausted (we_env we) (j_tenant_id job) (j_case_id job)) w of
          (Inl (OtherError m), w) \<Rightarrow> (Inl (OtherError m), w)
        | (_, w) \<Rightarrow> (Inr True, w))
     else
       and_then (on_broker (bk_release (we_broker we) job (failure_delay (j_receive_count job))) w) (\<lambda>_ w. (Inr True, w)))"

definition handle_job :: "('p, 'b) worker_env \<Rightarrow> dispatch_job \<Rightarrow> ('p, 'b, bool) worker_op" where
  "handle_job we job w =
     (case deliver we job w of
        (Inr b, w) \<Rightarrow> (Inr b, w)
      | (Inl (OtherError m), w) \<Rightarrow> (Inl (OtherError m), w)
      | (Inl (Raised e), w) \<Rightarrow>
          if e = DispatchRetryNotDue then release_not_due we job w else delivery_failed we job w)"

definition poll_once :: "('p, 'b) worker_env \<Rightarrow> int \<Rightarrow> ('p, 'b, bool) worker_op" where
  "poll_once we wait_seconds w =
     (case on_broker (bk_receive (we_broker we) wait_seconds) w of
        (Inl (Raised (DispatchValidationError c)), w) \<Rightarrow> (Inr True, w)
      | (Inl e, w) \<Rightarrow> (Inl e, w)
      | (Inr None, w) \<Rightarrow> (Inr False, w)
      | (Inr (Some job), w) \<Rightarrow> handle_job we job w)"

end
