(* ===== verification/Dispatch_Guarantees.thy ===== *)
theory Dispatch_Guarantees
  imports Dispatch_Acknowledge Dispatch_Runs
begin

text \<open>
  Guarantees of single operations of voice dispatch: optimistic concurrency, callbacks of another
  call, cancellation against a submission in flight, the provider statuses in any order, the
  resolution of contacts, calling windows, and the case whose label the call script refuses.
\<close>

section \<open>Optimistic concurrency\<close>

text \<open>Of two writers that read the same version of a case, the one that comes second is told so and
changes nothing, unless its event was already recorded.\<close>

lemma second_writer_conflicts:
  assumes "apply_transition c1 a1 ev1 v w1 r = (Inr True, r1)"
    and "c_tenant_id c2 = c_tenant_id c1" and "c_case_id c2 = c_case_id c1"
    and "rp_attempts r1 (a_tenant_id a2, a_attempt_id a2) \<noteq> None"
    and "(c_tenant_id c2, e_deduplication_key ev2) \<notin> rp_dedupe r1"
  shows "apply_transition c2 a2 ev2 v w2 r1 = (Inl repository_conflict, r1)"
proof -
  from assms(1) have "rp_cases r1 (c_tenant_id c1, c_case_id c1) = Some c1" and "c_version c1 = v + 1"
    by (auto simp: apply_transition_def Let_def effect_simps versions_agree_def split: if_splits)
  with assms(2-5) show ?thesis
    by (auto simp: apply_transition_def Let_def versions_agree_def)
qed

definition tiny_case :: "dispatch_status \<Rightarrow> int \<Rightarrow> dispatch_case" where
  "tiny_case st v = \<lparr>c_case_id = ''k'', c_tenant_id = ''t'', c_incident_id = ''i'', c_confirmed_review_id = ''r'',
     c_incident_source_id = ''o'', c_incident_external_event_id = ''e'', c_zone_id = ''z'', c_primary_contact_id = ''p'',
     c_supervisor_contact_id = ''s'', c_case_reference = ''C001'', c_category = ''other'', c_broad_location_label = ''N'',
     c_occurred_at = Aware 0 0, c_authorized_by = ''u'', c_authorization_fingerprint = ''f'', c_idempotency_key_hash = ''h'',
     c_policy_version = ''p1'', c_message_template_version = ''m1'', c_retry_delay_seconds = 30, c_status = st,
     c_created_at = Aware 0 0, c_updated_at = Aware 0 0, c_next_attempt_at = None, c_attempt_count = 1,
     c_final_outcome = None, c_closed_at = None, c_version = v\<rparr>"

definition tiny_attempt :: "attempt_status \<Rightarrow> string option \<Rightarrow> int \<Rightarrow> call_attempt" where
  "tiny_attempt st ref v = (reserved_attempt (tiny_case D_DIALING 1) 1 ''a'' ''tok'' (Aware 0 0))
     \<lparr>a_provider_call_reference := ref, a_status := st, a_version := v\<rparr>"

definition tiny_event :: "event_kind \<Rightarrow> string \<Rightarrow> dispatch_event" where
  "tiny_event kind key = \<lparr>e_event_id = ''e'', e_tenant_id = ''t'', e_case_id = ''k'', e_attempt_id = Some ''a'',
     e_kind = kind, e_occurred_at = Aware 0 0, e_deduplication_key = key, e_detail_code = None\<rparr>"

text \<open>A repository with one dialled case, whose call is bound.\<close>

definition tiny_repo :: repository where
  "tiny_repo = empty_repository\<lparr>rp_cases := [(''t'', ''k'') \<mapsto> tiny_case D_DIALING 2],
     rp_attempts := [(''t'', ''a'') \<mapsto> tiny_attempt A_INITIATED (Some ''CA1'') 2],
     rp_callback := [''tok'' \<mapsto> (''t'', ''a'')],
     rp_events := [(''t'', ''k'') \<mapsto> []]\<rparr>"

section \<open>Callbacks of another call\<close>

text \<open>Once a call reference is stored for an attempt, every webhook that carries the attempt's token with
another reference is refused, and nothing changes.\<close>

lemma foreign_callback_refused:
  assumes "rp_callback (co_repo s) tok = Some (t, n)" and "rp_attempts (co_repo s) (t, n) = Some a"
    and "rp_cases (co_repo s) (t, a_case_id a) = Some c"
    and "a_provider_call_reference a = Some stored" and "stored \<noteq> []" and "ref \<noteq> []"
    and "stored_reference_matches (ce_sha env) stored ref = Inr False"
  shows "handle_gather env tok ref ds ek at s = (Inl (Raised WebhookCallMismatch), s) \<and>
     (normalize_status st \<in> provider_statuses \<longrightarrow>
       handle_status env tok ref st ek at s = (Inl (Raised WebhookCallMismatch), s)) \<and>
     (normalize_status res \<in> amd_results \<longrightarrow>
       handle_answering_machine env tok ref res ek at s = (Inl (Raised WebhookCallMismatch), s)) \<and>
     voice_script env tok ref s = (Inl (Raised WebhookCallMismatch), s)"
proof -
  have "coord_resolve_callback env tok ref s = (Inl (Raised WebhookCallMismatch), s)"
    using assms by (simp add: coord_resolve_callback_def resolve_callback_def on_repo_def or_default_def)
  then show ?thesis
    by (simp add: handle_gather_def handle_status_def handle_answering_machine_def voice_script_def Let_def)
qed

definition tiny_coordinator :: "mock_provider coordinator" where
  "tiny_coordinator = (initial_coordinator [] (mock_init 0))\<lparr>co_repo := tiny_repo\<rparr>"

section \<open>Provider statuses in any order\<close>

lemma desired_rank: "1 \<le> status_rank (desired_status x)"
  by (auto simp: desired_status_def status_rank_def)

lemma rank_inj: "status_rank a = status_rank b \<Longrightarrow> 1 \<le> status_rank a \<Longrightarrow> a = b"
  by (cases a; cases b; simp add: status_rank_def)

lemma rank_progress: "status_rank (progress_status st x) = max (status_rank st) (status_rank (desired_status x))"
  by (auto simp: progress_status_def Let_def)

text \<open>The statuses of a call, one after the other.\<close>

definition progress_all :: "string list \<Rightarrow> attempt_status \<Rightarrow> attempt_status" where
  "progress_all xs st = fold (\<lambda>x st. progress_status st x) xs st"

lemma Max_insert_max: "finite S \<Longrightarrow> Max (insert (max a b) S) = Max (insert a (insert (b::int) S))"
  by (cases "S = {}") (simp_all add: max.assoc)

lemma progress_all_Cons: "progress_all (x # xs) st = progress_all xs (progress_status st x)"
  by (simp add: progress_all_def)

lemma progress_all_rank:
  "status_rank (progress_all xs st) = Max (insert (status_rank st) ((status_rank \<circ> desired_status) ` set xs))"
proof (induction xs arbitrary: st)
  case (Cons x xs)
  then show ?case by (simp add: progress_all_Cons rank_progress Max_insert_max del: Max_insert)
qed (simp add: progress_all_def)

lemma progress_all_kept: "progress_all xs st = st \<or> 1 \<le> status_rank (progress_all xs st)"
proof (induction xs arbitrary: st)
  case (Cons x xs)
  have "progress_status st x = st \<or> 1 \<le> status_rank (progress_status st x)"
    using desired_rank [of x] by (auto simp: progress_status_def Let_def)
  moreover have "status_rank st' \<le> status_rank (progress_all xs st')" for st'
    by (simp add: progress_all_rank)
  ultimately show ?case
    using Cons.IH [of st] by (auto simp: progress_all_Cons intro: order_trans)
qed (simp add: progress_all_def)

text \<open>The status an attempt reaches does not depend on the order in which the progress callbacks of its
call arrive, nor on how often each arrives, and it never falls back.\<close>

lemma progress_order_irrelevant:
  assumes "set xs = set ys"
  shows "progress_all xs st = progress_all ys st \<and> status_rank st \<le> status_rank (progress_all xs st)"
proof
  have same: "status_rank (progress_all xs st) = status_rank (progress_all ys st)"
    by (simp add: progress_all_rank assms)
  show "progress_all xs st = progress_all ys st"
  proof (cases "1 \<le> status_rank (progress_all xs st)")
    case True
    with same show ?thesis by (rule rank_inj)
  next
    case False
    with same progress_all_kept [of xs st] progress_all_kept [of ys st] show ?thesis by auto
  qed
qed (simp add: progress_all_rank)

section \<open>Cancellation against a submission in flight\<close>

lemma open_claimed_active:
  assumes inv: "repo_inv r" and c: "rp_cases r (t, i) = Some c" "\<not> terminal_dispatch (c_status c)"
    and a: "rp_attempts r (t, n) = Some a" "a_case_id a = i" and x: "rp_submissions r (t, n) = Some x" "s_state x = S_CLAIMED"
    and at: "list_attempts t i r = (Inr as, r')"
  shows "active_attempt as = Some a \<and> a_provider_call_reference a = None"
proof -
  from repo_attemptD(5) [OF inv a(1)] a(2) c(1) x(1) obtain ids where ids: "rp_attempt_ids r (t, i) = Some ids" "n \<in> set ids"
    and sub: "submission_ok c a x" by auto
  then have open_att: "\<not> terminal_attempt (a_status a)" and ref: "a_provider_call_reference a = None"
    using c(2) x(2) by (auto simp: submission_ok_def)
  from repo_caseD [OF inv c(1)] ids(1) have ca: "case_attempts r c ids" and ct: "c_tenant_id c = t" by auto
  obtain bs where bs: "attempts_at r t ids = Inr bs" "length bs = length ids"
      "\<And>j. j < length ids \<Longrightarrow> rp_attempts r (t, ids ! j) = Some (bs ! j)"
      "\<And>j. j < length ids \<Longrightarrow> a_sequence (bs ! j) = int j + 1"
      "\<And>j. Suc j < length ids \<Longrightarrow> terminal_attempt (a_status (bs ! j))"
    by (rule case_attempts_read [OF ca, unfolded ct]) (rule that)
  have as: "as = bs" using at ids(1) bs(1) by (auto simp: list_attempts_def effect_simps)
  from ids(2) obtain j where j: "j < length ids" "ids ! j = n" by (auto simp: in_set_conv_nth)
  with bs(3) [OF j(1)] a(1) have bj: "bs ! j = a" by simp
  have "\<not> Suc j < length ids" using bs(5) [of j] bj open_att by auto
  with j(1) bs(2) have "j = length bs - 1" "bs \<noteq> []" by auto
  then have "last bs = a" using bj by (simp add: last_conv_nth)
  with \<open>bs \<noteq> []\<close> have split: "bs = butlast bs @ [a]" using append_butlast_last_id [of bs] by simp
  have "\<forall>b \<in> set (butlast bs). terminal_attempt (a_status b)"
    using bs(2,5) by (auto simp: in_set_conv_nth nth_butlast)
  then have "filter (\<lambda>b. \<not> terminal_attempt (a_status b)) bs = [a]"
    by (subst split, subst filter_append) (simp add: open_att filter_empty_conv)
  then show ?thesis by (simp add: active_attempt_def as ref)
qed

lemma make_event_kind: "make_event env c kind at aid parts det s = (Inr ev, t) \<Longrightarrow> e_kind ev = kind"
  by (auto simp: make_event_def effect_simps new_event_Inr)

definition undisturbed :: "'p coordinator \<Rightarrow> 'p coordinator \<Rightarrow> bool" where
  "undisturbed s t \<longleftrightarrow> co_repo t = co_repo s \<and> co_provider t = co_provider s"

lemma undisturbed_then:
  assumes "undisturbed s (snd r)" and "\<And>x t. r = (Inr x, t) \<Longrightarrow> undisturbed s t \<Longrightarrow> undisturbed t (snd (k x t))"
  shows "undisturbed s (snd (and_then r k))"
  using assms by (cases r; cases "fst r") (auto simp: undisturbed_def)

lemma undisturbed_steps [simp]:
  "undisturbed s s" "undisturbed s (snd (on_repo (get_case u j) s))" "undisturbed s (snd (on_repo (list_attempts u j) s))"
  "undisturbed s (snd (read_clock env f s))" "undisturbed s (snd (make_event env d k at p q e s))"
  "undisturbed s (snd (lift y s))" "undisturbed s (snd (raise_if b e' s))"
  by (simp_all add: undisturbed_def read_clock_def make_event_def next_id_def lift_def raise_if_def)

text \<open>While the physical call of an attempt may be in the middle of being placed, canceling the case
leaves the case, its attempts and the provider as they are: it never reports a case canceled whose
call might still ring.\<close>

lemma cancel_waits_for_submission:
  assumes "repo_inv (co_repo s)" and "rp_cases (co_repo s) (t, i) = Some c" and "\<not> terminal_dispatch (c_status c)"
    and "rp_attempts (co_repo s) (t, n) = Some a" and "a_case_id a = i"
    and "rp_submissions (co_repo s) (t, n) = Some x" and "s_state x = S_CLAIMED"
  shows "co_repo (snd (cancel env t i who ek s)) = co_repo s \<and> co_provider (snd (cancel env t i who ek s)) = co_provider s"
proof -
  note D = repo_caseD(1,2) [OF assms(1,2)] and A = repo_attemptD(1,2) [OF assms(1,4)]
  have close: "undisturbed w (snd (close_case c (closed_case c D_CANCELED now) (Some a) (\<lambda>a. canceled_attempt a now) ev w))"
    if "undisturbed s v" "undisturbed v w" "e_kind ev = E_CANCELED" for now ev v w
  proof -
    have "snd (apply_transition (closed_case c D_CANCELED now) (canceled_attempt a now) ev v y (co_repo s)) = co_repo s" for v y
      using assms(2,4,6,7) that(3) D A
      by (simp add: apply_transition_def closed_case_def canceled_attempt_def cancellation_in_flight_def raise_if_def Let_def)
    note same = this
    show ?thesis
    proof (cases "new_attempt (canceled_attempt a now)")
      case (Inr b)
      then have "b = canceled_attempt a now" by (simp add: new_attempt_Inr)
      with Inr same that show ?thesis by (simp add: close_case_def on_repo_def undisturbed_def)
    qed (simp add: close_case_def undisturbed_def)
  qed
  have act: "active_attempt as = Some a \<and> a_provider_call_reference a = None"
    if "fst (list_attempts t i (co_repo s)) = Inr as" for as
    using that open_claimed_active [OF assms(1-7)] by (metis prod.collapse)
  have "undisturbed s (snd (cancel env t i who ek s))"
    unfolding cancel_def Let_def
    by (auto intro!: undisturbed_then intro: close simp: on_repo_case assms(2,3) raise_if_eq lift_eq new_case_Inr
        cancel_provider_call_def or_default_def dest!: read_clock_repo on_repo_read_eq act make_event_kind)
      (rule close, assumption+)
  then show ?thesis by (simp add: undisturbed_def)
qed

section \<open>A case the call script refuses\<close>

lemma long_label_script: "80 < length (c_broad_location_label c) \<Longrightarrow> \<exists>e. case_script c = Inl e"
proof -
  assume long: "80 < length (c_broad_location_label c)"
  then have "\<not> match_safe_label (c_broad_location_label c)"
    using head_match_length [of is_alnum label_char 0 79 "c_broad_location_label c"] by (auto simp: match_safe_label_def)
  then have "script_post_init \<lparr>sc_case_reference = c_case_reference c, sc_category = c_category c,
      sc_broad_location_label = c_broad_location_label c, sc_occurred_at = c_occurred_at c\<rparr> \<noteq> None"
    by (simp add: script_post_init_def)
  then show ?thesis by (auto simp: case_script_def new_script_def construct_def split: option.splits)
qed

lemma provider_steps [simp]:
  "co_provider (snd (lift y s)) = co_provider s" "co_provider (snd (raise_if b e s)) = co_provider s"
  "co_provider (snd (read_clock env f s)) = co_provider s" "co_provider (snd (next_id env s)) = co_provider s"
  "co_provider (snd (next_token env n s)) = co_provider s" "co_provider (snd (next_claim env s)) = co_provider s"
  "co_provider (snd (make_event env d k at p q e2 s)) = co_provider s" "co_provider (snd (on_repo op s)) = co_provider s"
  by (simp_all add: lift_def raise_if_def read_clock_def next_id_def next_token_def next_claim_def make_event_def on_repo_def)

lemmas provider_then = frame_then [where F = co_provider]

lemma mark_uncertain_provider [simp]: "co_provider (snd (mark_submission_uncertain env c a at code tok st s)) = co_provider s"
  unfolding mark_submission_uncertain_def by (auto intro!: provider_then split: option.splits)

definition long_labelled :: "string \<Rightarrow> string \<Rightarrow> repository \<Rightarrow> bool" where
  "long_labelled t i r \<longleftrightarrow> (\<exists>c. rp_cases r (t, i) = Some c \<and> 80 < length (c_broad_location_label c))"

lemma long_labelled_kept:
  assumes "long_labelled t i r" and "repo_advance r r'"
  shows "long_labelled t i r'"
proof -
  from assms(1) obtain c where c: "rp_cases r (t, i) = Some c" "80 < length (c_broad_location_label c)"
    by (auto simp: long_labelled_def)
  from assms(2) have "keeps case_advance (rp_cases r) (rp_cases r')" by (simp add: repo_advance_def)
  from keepsD [OF this c(1)] obtain d where "rp_cases r' (t, i) = Some d" "same_case c d" by (auto simp: case_advance_def)
  with c(2) show ?thesis by (simp add: long_labelled_def same_case_fields)
qed

lemma long_labelled_claim:
  assumes "long_labelled t i r" and "claim_provider_submission sha t i n tk at dl r = (Inr v, r')"
  shows "80 < length (c_broad_location_label (cl_case v))"
  using assms(2,1) by (cases rule: claim_cases) (auto simp: claimed_case_def long_labelled_def)

lemma claim_and_place_long:
  assumes "long_labelled t i (co_repo s)"
  shows "co_provider (snd (claim_and_place env t i a k now s)) = co_provider s"
proof -
  have place: "co_provider (snd (place_claimed_call env (cl_case v) (cl_attempt v) k now tok w)) = co_provider w"
    if "claim_provider_submission (ce_sha env) t i n tk at dl (co_repo s) = (Inr v, r)" for n tk at dl v r tok w
    using long_label_script [OF long_labelled_claim [OF assms that]] by (auto simp: place_claimed_call_def)
  show ?thesis
    unfolding claim_and_place_def
  proof (rule provider_then, simp, rule provider_then, simp, goal_cases)
    case (1 tok u v w)
    then have "\<exists>r. claim_provider_submission (ce_sha env) t i (a_attempt_id a) tok now
        (dt_add now (ep_provider_submission_timeout (ce_policy env))) (co_repo s) = (Inr v, r)"
      by (auto simp: on_repo_eq next_claim_def)
    then show ?case by (auto simp: Let_def place intro!: provider_then)
  qed
qed

text \<open>C13: a case whose location label is longer than the 80 characters of a call script is never called:
dispatching it leaves the provider untouched, whatever the state of the case.\<close>

theorem long_label_never_called:
  assumes inv: "repo_inv (co_repo s)" and c: "rp_cases (co_repo s) (t, i) = Some c" and long: "80 < length (c_broad_location_label c)"
  shows "co_provider (snd (dispatch_next env t i s)) = co_provider s"
proof -
  have "long_labelled t i (co_repo s)" using c long by (auto simp: long_labelled_def)
  then have reserve: "long_labelled t i r" if "reserve_next_attempt t i n tok at ev (co_repo s) = (Inr v, r)" for n tok at ev v r
    using reserve_advance [OF inv that] by (rule long_labelled_kept)
  have reserved: "co_provider (snd (dispatch_reserved env t i a now u)) = co_provider u" if "long_labelled t i (co_repo u)" for a now u
    unfolding dispatch_reserved_def
    by (auto intro!: provider_then claim_and_place_long simp: raise_if_eq lift_eq that)
  have frames: "co_repo u = co_repo v" if "next_id env v = (x, u)" for v x u using that by (auto simp: next_id_def)
  have frames': "co_repo u = co_repo v" if "next_token env n v = (x, u)" for n v x u using that by (auto simp: next_token_def)
  show ?thesis
    unfolding dispatch_next_def
    by (auto intro!: provider_then reserved dest!: read_clock_repo make_event_repo frames frames' simp: on_repo_eq get_case_eq)
      (erule reserve)
qed

theorem long_label_never_called_witness:
  "co_provider (snd (dispatch_next demo_env ''t'' ''k'' demo_claimed)) = co_provider demo_claimed"
proof -
  obtain c where "rp_cases (co_repo demo_claimed) (''t'', ''k'') = Some c" "length (c_broad_location_label c) = 81"
    using demo_claimed_facts by blast
  then show ?thesis using long_label_never_called [OF demo_claimed_inv] by simp
qed

section \<open>Contacts\<close>

definition covers :: "response_contact \<Rightarrow> string \<Rightarrow> coverage_target \<Rightarrow> bool" where
  "covers k t cov \<longleftrightarrow> k_tenant_id k = t \<and> k_zone_id k = t_zone_id cov \<and>
     (k_coverage_cells k = {} \<or> t_cell_id cov \<in> k_coverage_cells k)"

lemma is_available_utc: "is_aware at \<Longrightarrow> is_available tz k (as_utc at) = is_available tz k at"
  by (simp add: is_available_def require_utc_def)

text \<open>A resolution returns contacts of the tenant that cover the target, are available at that time and
have the two roles, and no other contact of the directory could have been chosen for either role.\<close>

lemma resolve_sound_and_unique:
  assumes "resolve tz d t cov at = Inr r" and "k \<in> snd ` set d"
  shows "covers (r_primary r) t cov \<and> covers (r_supervisor r) t cov \<and>
     is_available tz (r_primary r) at = Inr True \<and> is_available tz (r_supervisor r) at = Inr True \<and>
     k_role (r_primary r) = Role_PRIMARY \<and> k_role (r_supervisor r) = Role_SUPERVISOR \<and>
     (covers k t cov \<and> is_available tz k at = Inr True \<longrightarrow>
        k = (if k_role k = Role_PRIMARY then r_primary r else r_supervisor r))"
proof -
  from assms(1) obtain ms where ms: "is_aware at"
    "matching_contacts tz t cov (as_utc at) (map snd d) = Inr ms"
    "filter (\<lambda>k. k_role k = Role_PRIMARY) ms = [r_primary r]"
    "filter (\<lambda>k. k_role k = Role_SUPERVISOR) ms = [r_supervisor r]"
    by (rule resolve_InrE)
  have "k = (if k_role k = Role_PRIMARY then r_primary r else r_supervisor r)"
    if k: "covers k t cov" "is_available tz k at = Inr True"
  proof -
    have "k \<in> set ms"
      using matching_contacts_complete [OF ms(2), of k] assms(2) k is_available_utc [OF ms(1)] by (simp add: covers_def)
    then have "k \<in> set (filter (\<lambda>x. k_role x = k_role k) ms)" by simp
    then show ?thesis using ms(3,4) by (cases "k_role k") auto
  qed
  moreover have "covers x t cov \<and> is_available tz x at = Inr True" if "x \<in> {r_primary r, r_supervisor r}" for x
    using resolve_member [OF assms(1) that] by (simp add: covers_def)
  ultimately show ?thesis using resolve_roles [OF assms(1)] by simp
qed

definition demo_coverage :: coverage_target where
  "demo_coverage = \<lparr>t_zone_id = ''z'', t_cell_id = ''8928308280fffff''\<rparr>"

section \<open>Calling windows\<close>

text \<open>A calling window is open exactly during the intervals that start on its weekdays at its start
time and last, over midnight if need be, until its end time.\<close>

lemma window_is_a_daily_interval:
  assumes "calling_window_post_init w = None" and "0 \<le> tod (cw_start w)" "tod (cw_start w) < day_us"
    and "0 \<le> tod (cw_end w)" "tod (cw_end w) < day_us"
  shows "window_contains w d \<longleftrightarrow> (\<exists>n. (n + 3) mod 7 \<in> cw_weekdays w \<and> n * day_us + tod (cw_start w) \<le> wall d \<and>
     wall d < n * day_us + tod (cw_start w) + (tod (cw_end w) - tod (cw_start w)) mod day_us)"
proof -
  define N t s e where "N = wall d div day_us" and "t = wall d mod day_us" and "s = tod (cw_start w)" and "e = tod (cw_end w)"
  have wall: "wall d = N * day_us + t" and t: "0 \<le> t" "t < day_us" by (simp_all add: N_def t_def)
  have se: "0 \<le> s" "s < day_us" "0 \<le> e" "e < day_us" "s \<noteq> e"
    using assms by (simp_all add: s_def e_def calling_window_post_init_def)
  let ?wd = "cw_weekdays w"
  have contains: "window_contains w d \<longleftrightarrow> (if s < e then (N + 3) mod 7 \<in> ?wd \<and> s \<le> t \<and> t < e
      else (N + 3) mod 7 \<in> ?wd \<and> s \<le> t \<or> ((N + 3) mod 7 - 1) mod 7 \<in> ?wd \<and> t < e)"
    by (simp add: window_contains_def Let_def local_time_def weekday_def N_def t_def s_def e_def)
  note start_end = s_def [symmetric] e_def [symmetric]
  show ?thesis
  proof (cases "s < e")
    case True
    then have "(e - s) mod day_us = e - s" using se by simp
    moreover have "n * day_us + s \<le> N * day_us + t \<and> N * day_us + t < n * day_us + s + (e - s) \<longleftrightarrow>
        n = N \<and> s \<le> t \<and> t < e" for n
      using t se by (cases "n = N"; cases "n < N") auto
    ultimately show ?thesis unfolding contains start_end unfolding wall using True by auto
  next
    case False
    then have "(e - s) mod day_us = e - s + day_us"
      using se mod_pos_pos_trivial [of "e - s + day_us" day_us] by simp
    moreover have "n * day_us + s \<le> N * day_us + t \<and> N * day_us + t < n * day_us + s + (e - s + day_us) \<longleftrightarrow>
        n = N \<and> s \<le> t \<or> n = N - 1 \<and> t < e" for n
      using t se False by (cases "n = N"; cases "n = N - 1"; cases "n < N") auto
    moreover have "((N + 3) mod 7 - 1) mod 7 = (N - 1 + 3) mod 7" by presburger
    ultimately show ?thesis unfolding contains start_end unfolding wall using False by auto
  qed
qed

definition night_window :: calling_window where
  "night_window = \<lparr>cw_weekdays = {4}, cw_start = \<lparr>tod = 79200000000, tod_aware = False\<rparr>,
     cw_end = \<lparr>tod = 21600000000, tod_aware = False\<rparr>\<rparr>"

end
