(* ===== verification/Dispatch_Delivery.thy ===== *)
theory Dispatch_Delivery
  imports Dispatch_Worker Dispatch_Guarantees
begin

text \<open>
  What the queue worker guarantees: a poll handles the job it received, by operations of the
  coordinator and one of the queue, its delays are ones the queue accepts, a failed dispatch is never acknowledged, a fifth failed delivery
  ends automation, and a message decodes to the job it was made from. The last section shows
  where the in-memory queue drops a scheduled retry.
\<close>

section \<open>What a delivery does to the coordinator\<close>





lemma on_broker_eq: "on_broker op w = (x, v) \<longleftrightarrow> x = fst (op (wk_broker w)) \<and> v = w\<lparr>wk_broker := snd (op (wk_broker w))\<rparr>"
  by (auto simp: on_broker_def split: prod.splits)



lemma coord_then:
  assumes "wk_coord (snd r) = wk_coord w" and "\<And>x v. wk_coord (snd (k x v)) = wk_coord v"
  shows "wk_coord (snd (and_then r k)) = wk_coord w"
  using assms by (cases r; cases "fst r") auto

lemma on_broker_coord [simp]: "wk_coord (snd (on_broker op w)) = wk_coord w"
  by (simp add: on_broker_def split: prod.splits)

lemma worker_now_coord [simp]: "wk_coord (snd (worker_now we w)) = wk_coord w"
  by (simp add: worker_now_def)

lemma simulate_retry_coord [simp]: "wk_coord (snd (simulate_retry we job c w)) = wk_coord w"
  unfolding simulate_retry_def by (auto intro!: coord_then split: option.split)






section \<open>Delays\<close>

text \<open>A broker that refuses every delay SQS refuses.\<close>

definition strict_broker :: "'b broker_ops \<Rightarrow> 'b broker_ops" where
  "strict_broker ops = ops\<lparr>
     bk_enqueue := (\<lambda>t c d b. if 0 \<le> d \<and> d \<le> 900 then bk_enqueue ops t c d b else (Inl (OtherError ''delay''), b)),
     bk_release := (\<lambda>job d b. if 0 \<le> d \<and> d \<le> 43200 then bk_release ops job d b else (Inl (OtherError ''delay''), b))\<rparr>"

lemma failure_delay_bounds: "5 \<le> failure_delay n \<and> failure_delay n \<le> 300"
  by (simp add: failure_delay_def)

lemma and_then_eqI: "r = r' \<Longrightarrow> (\<And>x s. r' = (Inr x, s) \<Longrightarrow> k x s = k' x s) \<Longrightarrow> and_then r k = and_then r' k'"
  by (auto simp: and_then_def split: prod.splits sum.splits)

lemma strict_simps [simp]:
  "we_env (we\<lparr>we_broker := b\<rparr>) = we_env we" "we_mode (we\<lparr>we_broker := b\<rparr>) = we_mode we"
  "we_mock (we\<lparr>we_broker := b\<rparr>) = we_mock we" "we_now (we\<lparr>we_broker := b\<rparr>) = we_now we"
  "bk_receive (strict_broker ops) = bk_receive ops" "bk_acknowledge (strict_broker ops) = bk_acknowledge ops"
  by (simp_all add: strict_broker_def)

lemma not_due_delay_broker [simp]: "not_due_delay (we\<lparr>we_broker := b\<rparr>) c w = not_due_delay we c w"
  by (simp add: not_due_delay_def worker_now_def split: option.splits)

lemma strict_simulate:
  "simulate (we\<lparr>we_broker := strict_broker (we_broker we)\<rparr>) job a w = simulate we job a w"
proof -
  have "simulate_retry (we\<lparr>we_broker := strict_broker (we_broker we)\<rparr>) job c w = simulate_retry we job c w" for c w
    by (simp add: simulate_retry_def worker_now_def strict_broker_def on_broker_def split: option.splits)
  then have "simulated_outcome (we\<lparr>we_broker := strict_broker (we_broker we)\<rparr>) job a ref w = simulated_outcome we job a ref w" for ref w
    unfolding simulated_outcome_def by (auto intro!: and_then_eqI)
  then show ?thesis unfolding simulate_def Let_def by (auto intro!: and_then_eqI)
qed

text \<open>The worker only ever asks the queue for delays the queue accepts, 0 to 900 seconds for a new job and
0 to 43200 seconds for a released one: replacing the broker by one that fails on any other delay changes nothing.\<close>

lemma delays_are_accepted:
  "poll_once (we\<lparr>we_broker := strict_broker (we_broker we)\<rparr>) wait_seconds w = poll_once we wait_seconds w"
proof -
  let ?we = "we\<lparr>we_broker := strict_broker (we_broker we)\<rparr>"
  have d: "deliver ?we job v = deliver we job v" for job v
    unfolding deliver_def by (intro and_then_eqI) (auto simp: strict_simulate split: option.splits)
  have r: "release_not_due ?we job v = release_not_due we job v" for job v
  proof -
    have release: "on_broker (bk_release (strict_broker (we_broker we)) job (min d 43200)) u = on_broker (bk_release (we_broker we) job (min d 43200)) u"
      if "1 \<le> d" for d u
      using that by (simp add: strict_broker_def on_broker_def)
    have "1 \<le> d" if "not_due_delay we c u = (Inr d, u')" for c u d u'
      using that by (auto simp: not_due_delay_def worker_now_def split: option.splits)
    then show ?thesis
      unfolding release_not_due_def not_due_delay_broker by (intro and_then_eqI refl) (auto simp: release)
  qed
  have f: "delivery_failed ?we job v = delivery_failed we job v" for job v
    using failure_delay_bounds [of "j_receive_count job"] order_trans [of "failure_delay (j_receive_count job)" 300 43200]
    by (simp add: delivery_failed_def strict_broker_def on_broker_def)
  have h: "handle_job ?we = handle_job we"
    unfolding handle_job_def d r f by (rule refl)
  have "bk_receive (we_broker ?we) = bk_receive (we_broker we)" by simp
  then show ?thesis unfolding poll_once_def h by (simp only:)
qed

section \<open>Acknowledgement\<close>

text \<open>A job whose dispatch raised a dispatch error is never acknowledged: the poll does not depend on what
acknowledging would do, so the queue still holds the job and delivers it again.\<close>

lemma failed_dispatch_keeps_job:
  assumes "bk_receive (we_broker we) wait_seconds (wk_broker w) = (Inr (Some job), b)"
    and "dispatch_next (we_env we) (j_tenant_id job) (j_case_id job) (wk_coord w) = (Inl (Raised e), s)"
  shows "poll_once (we\<lparr>we_broker := (we_broker we)\<lparr>bk_acknowledge := ack\<rparr>\<rparr>) wait_seconds w = poll_once we wait_seconds w"
proof -
  let ?we = "we\<lparr>we_broker := (we_broker we)\<lparr>bk_acknowledge := ack\<rparr>\<rparr>"
  let ?v = "w\<lparr>wk_broker := b\<rparr>"
  have fail: "deliver ?we job ?v = (Inl (Raised e), ?v\<lparr>wk_coord := s\<rparr>)" "deliver we job ?v = (Inl (Raised e), ?v\<lparr>wk_coord := s\<rparr>)"
    using assms(2) by (simp_all add: deliver_def on_coord_def)
  have "release_not_due ?we job v = release_not_due we job v" for v
    by (simp add: release_not_due_def)
  moreover have "delivery_failed ?we job v = delivery_failed we job v" for v
    by (simp add: delivery_failed_def)
  ultimately show ?thesis
    using assms(1) fail by (simp add: poll_once_def handle_job_def on_broker_def)
qed

text \<open>The worker of the demo deployment: a mock provider behind the in-memory queue.\<close>

definition demo_worker_env :: "(mock_provider, dispatch_job list) worker_env" where
  "demo_worker_env = \<lparr>we_env = demo_env, we_broker = memory_broker, we_mode = M_MOCK, we_now = (\<lambda>_. Aware 0 0), we_mock = True\<rparr>"

definition demo_worker :: "dispatch_job list \<Rightarrow> (mock_provider, dispatch_job list) worker" where
  "demo_worker jobs = \<lparr>wk_coord = demo_start 0, wk_broker = jobs, wk_reads = 0\<rparr>"

section \<open>The fifth failure\<close>

text \<open>What reading the attempts of a stored case returns.\<close>

lemma listed_attempts:
  assumes inv: "repo_inv r" and c: "rp_cases r (t, i) = Some c"
  obtains as where "list_attempts t i r = (Inr as, r)"
    and "\<And>n a. rp_attempts r (t, n) = Some a \<Longrightarrow> a_case_id a = i \<Longrightarrow> \<not> terminal_attempt (a_status a) \<Longrightarrow> active_attempt as = Some a"
    and "\<And>a. active_attempt as = Some a \<Longrightarrow> rp_attempts r (t, a_attempt_id a) = Some a \<and> a_case_id a = i \<and> \<not> terminal_attempt (a_status a)"
proof -
  note C = repo_caseD [OF inv c]
  from C(5) obtain ids where ids: "rp_attempt_ids r (t, i) = Some ids" "case_attempts r c ids" by auto
  obtain as where as: "attempts_at r t ids = Inr as" "length as = length ids"
    "\<And>j. j < length ids \<Longrightarrow> rp_attempts r (t, ids ! j) = Some (as ! j)"
    "\<And>j. Suc j < length ids \<Longrightarrow> terminal_attempt (a_status (as ! j))"
    using case_attempts_read [OF ids(2)] C(1) by metis
  have read: "list_attempts t i r = (Inr as, r)"
    using c ids(1) as(1) by (simp add: list_attempts_def fetch_def lift_def raise_if_def)
  have last: "active_attempt as = Some (as ! j)" if j: "j < length ids" "\<not> terminal_attempt (a_status (as ! j))" for j
  proof -
    from j as(4) [of j] have "Suc j = length as" using as(2) by (cases "Suc j < length ids") auto
    then have "as = take j as @ [as ! j]" by (metis lessI take_Suc_conv_app_nth take_all_iff le_refl)
    then have "filter (\<lambda>a. \<not> terminal_attempt (a_status a)) as = filter (\<lambda>a. \<not> terminal_attempt (a_status a)) (take j as) @ [as ! j]"
      using j(2) by (metis (no_types, lifting) filter.simps filter_append)
    then show ?thesis by (simp add: active_attempt_def Let_def)
  qed
  show thesis
  proof (rule that [OF read])
    fix n a assume a: "rp_attempts r (t, n) = Some a" "a_case_id a = i" "\<not> terminal_attempt (a_status a)"
    with repo_attemptD(5) [OF inv a(1)] ids(1) obtain j where "j < length ids" "ids ! j = n"
      by (auto simp: in_set_conv_nth)
    with a last [of j] as(3) [of j] show "active_attempt as = Some a" by simp
  next
    fix a assume "active_attempt as = Some a"
    from active_attempt_pair [OF inv c read this]
    show "rp_attempts r (t, a_attempt_id a) = Some a \<and> a_case_id a = i \<and> \<not> terminal_attempt (a_status a)"
      using C(1,2) by (auto simp: stored_pair_def)
  qed
qed

lemma exhausted_effect:
  assumes inv: "repo_inv (co_repo s)" and c: "rp_cases (co_repo s) (t, i) = Some c"
    and live: "\<not> terminal_dispatch (c_status c)" and at: "is_aware (ce_clock env (co_clock s))"
    and ident: "match_identifier (ce_new_id env (co_ids s))" and sha: "\<And>x. hex64 (ce_sha env x)"
    and new: "(t, digest (ce_sha env) [''delivery-exhausted'', t, i]) \<notin> rp_dedupe (co_repo s)"
  shows "\<exists>s'. mark_delivery_exhausted env t i s = (Inr (closed_case c D_MANUAL_FOLLOW_UP (as_utc (ce_clock env (co_clock s)))), s') \<and>
     rp_cases (co_repo s') (t, i) = Some (closed_case c D_MANUAL_FOLLOW_UP (as_utc (ce_clock env (co_clock s)))) \<and>
     (\<forall>n a. rp_attempts (co_repo s') (t, n) = Some a \<longrightarrow> a_case_id a = i \<longrightarrow> terminal_attempt (a_status a)) \<and>
     co_provider s' = co_provider s"
proof -
  note C = repo_caseD [OF inv c]
  obtain as where read: "list_attempts t i (co_repo s) = (Inr as, co_repo s)"
    and only: "\<And>n a. rp_attempts (co_repo s) (t, n) = Some a \<Longrightarrow> a_case_id a = i \<Longrightarrow> \<not> terminal_attempt (a_status a) \<Longrightarrow> active_attempt as = Some a"
    and active: "\<And>a. active_attempt as = Some a \<Longrightarrow> rp_attempts (co_repo s) (t, a_attempt_id a) = Some a \<and> a_case_id a = i \<and> \<not> terminal_attempt (a_status a)"
    by (rule listed_attempts [OF inv c]) blast
  let ?now = "as_utc (ce_clock env (co_clock s))"
  let ?c = "closed_case c D_MANUAL_FOLLOW_UP ?now"
  let ?key = "digest (ce_sha env) [''delivery-exhausted'', t, i]"
  let ?ev = "\<lparr>e_event_id = ce_new_id env (co_ids s), e_tenant_id = c_tenant_id c, e_case_id = c_case_id c,
      e_attempt_id = map_option a_attempt_id (active_attempt as), e_kind = E_MANUAL_FOLLOW_UP, e_occurred_at = ?now,
      e_deduplication_key = ?key, e_detail_code = Some ''dispatch_delivery_exhausted''\<rparr>"
  have sc: "same_case c ?c" by (simp add: closed_case_def same_case_def)
  have vc': "valid_case ?c"
    using C(3) same_case_identity_ok [OF sc] by (auto simp: valid_case_iff case_progress_ok_def closed_case_def terminal_dispatch_def)
  have va': "valid_attempt (exhausted_attempt a ?now)" if "active_attempt as = Some a" for a
  proof -
    have "valid_attempt a" using repo_attemptD(3) [OF inv] active [OF that] by blast
    moreover have "same_attempt a (exhausted_attempt a ?now)" by (simp add: exhausted_attempt_def same_attempt_def)
    ultimately show ?thesis
      using same_attempt_identity_ok
      by (auto simp: valid_attempt_iff attempt_progress_ok_def exhausted_attempt_def attempt_outcomes_def match_error_code_def
          run_match_def is_lower_def split: option.splits)
  qed
  let ?w = "s\<lparr>co_clock := Suc (co_clock s), co_ids := Suc (co_ids s)\<rparr>"
  obtain es where es: "rp_events (co_repo s) (t, i) = Some es" using C(4) by auto
  note cf = same_case_fields [OF sc]
  have close: "\<exists>r. close_case c ?c (active_attempt as) (\<lambda>a. exhausted_attempt a ?now) ?ev ?w = (Inr True, ?w\<lparr>co_repo := r\<rparr>) \<and>
      rp_cases r (t, i) = Some ?c \<and>
      (\<forall>n a. rp_attempts r (t, n) = Some a \<longrightarrow> a_case_id a = i \<longrightarrow> terminal_attempt (a_status a))"
  proof (cases "active_attempt as")
    case None
    have "apply_case_transition ?c ?ev (c_version c) (co_repo s) =
        (Inr True, (co_repo s)\<lparr>rp_cases := (rp_cases (co_repo s))((t, i) \<mapsto> ?c),
           rp_events := (rp_events (co_repo s))((t, i) \<mapsto> es @ [?ev]),
           rp_dedupe := insert (t, ?key) (rp_dedupe (co_repo s))\<rparr>)"
      using c es C(1,2) new None
      by (simp add: apply_case_transition_def cf validate_event_def append_event_locked_def closed_case_def Let_def)
    with None only show ?thesis by (fastforce simp: close_case_def on_repo_def)
  next
    case (Some a)
    let ?a = "exhausted_attempt a ?now"
    have sa: "same_attempt a ?a" by (simp add: exhausted_attempt_def same_attempt_def)
    note af = same_attempt_fields [OF sa]
    from active [OF Some] have a: "rp_attempts (co_repo s) (t, a_attempt_id a) = Some a" "a_case_id a = i" by simp_all
    note A = repo_attemptD [OF inv a(1)]
    let ?r = "(co_repo s)\<lparr>rp_cases := (rp_cases (co_repo s))((t, i) \<mapsto> ?c),
           rp_attempts := (rp_attempts (co_repo s))((t, a_attempt_id a) \<mapsto> ?a),
           rp_events := (rp_events (co_repo s))((t, i) \<mapsto> es @ [?ev]),
           rp_dedupe := insert (t, ?key) (rp_dedupe (co_repo s))\<rparr>"
    have app: "apply_transition ?c ?a ?ev (c_version c) (a_version a) (co_repo s) = (Inr True, ?r)"
      using c es C(1,2) A(1) a new Some
      by (simp add: apply_transition_def cf af versions_agree_def cancellation_in_flight_def validate_event_def
          append_event_locked_def closed_case_def exhausted_attempt_def Let_def)
    have "terminal_attempt (a_status b)" if b: "rp_attempts ?r (t, n) = Some b" "a_case_id b = i" for n b
    proof (cases "n = a_attempt_id a")
      case True
      with b show ?thesis by (auto simp: exhausted_attempt_def terminal_attempt_def)
    next
      case False
      with b have b': "rp_attempts (co_repo s) (t, n) = Some b" by simp
      show ?thesis
      proof (rule ccontr)
        assume "\<not> terminal_attempt (a_status b)"
        with only [OF b' b(2)] Some have "b = a" by simp
        with False repo_attemptD(2) [OF inv b'] show False by simp
      qed
    qed
    with Some app va' [OF Some] show ?thesis
      by (auto simp: close_case_def on_repo_def new_attempt_def valid_attempt_def)
  qed
  then obtain r where r: "close_case c ?c (active_attempt as) (\<lambda>a. exhausted_attempt a ?now) ?ev ?w = (Inr True, ?w\<lparr>co_repo := r\<rparr>)"
    "rp_cases r (t, i) = Some ?c" "\<forall>n a. rp_attempts r (t, n) = Some a \<longrightarrow> a_case_id a = i \<longrightarrow> terminal_attempt (a_status a)"
    by blast
  have ids: "match_identifier (c_tenant_id c)" "match_identifier (c_case_id c)"
    using C(3) by (simp_all add: valid_case_iff case_identity_ok_def case_identity_guards_def)
  have "match_identifier (a_attempt_id a)" if "active_attempt as = Some a" for a
    using repo_attemptD(3) [OF inv] active [OF that]
    by (auto simp: valid_attempt_iff attempt_identity_ok_def attempt_identity_guards_def)
  moreover have "match_identifier ''dispatch_delivery_exhausted''" by code_simp
  ultimately have ev: "event_post_init ?ev = None"
    using ids ident sha by (auto simp: event_post_init_def digest_def match_error_code_def run_match_def is_lower_def split: option.splits)
  show ?thesis
    using c live at read r vc' ev
    by (simp add: mark_delivery_exhausted_def numeral_2_eq_2 on_repo_def get_case_def fetch_def read_clock_def require_utc_def
        make_event_def next_id_def new_event_def new_case_def valid_case_def Let_def)
qed
text \<open>C19: when the fifth delivery of a job has failed, automation ends: on an open case the exhaustion handler
returns, the case is stored as \<open>MANUAL_FOLLOW_UP\<close>, no attempt of it is left open, and the provider is not called.\<close>

theorem exhausted_delivery_settles:
  assumes "repo_inv (co_repo s)" and "rp_cases (co_repo s) (t, i) = Some c" and "\<not> terminal_dispatch (c_status c)"
    and "is_aware (ce_clock env (co_clock s))" and "match_identifier (ce_new_id env (co_ids s))" and "\<And>x. hex64 (ce_sha env x)"
    and "(t, digest (ce_sha env) [''delivery-exhausted'', t, i]) \<notin> rp_dedupe (co_repo s)"
  shows "\<exists>s' c'. mark_delivery_exhausted env t i s = (Inr c', s') \<and> rp_cases (co_repo s') (t, i) = Some c' \<and>
     c_status c' = D_MANUAL_FOLLOW_UP \<and> co_provider s' = co_provider s \<and>
     (\<forall>n a. rp_attempts (co_repo s') (t, n) = Some a \<longrightarrow> a_case_id a = i \<longrightarrow> terminal_attempt (a_status a))"
  using exhausted_effect [OF assms] by (auto simp: closed_case_def)

definition demo_authorized :: "mock_provider coordinator" where
  "demo_authorized = run demo_env [demo_authorize] (mock_start demo_directory 0)"

definition open_case_at :: "string \<Rightarrow> string \<Rightarrow> string \<Rightarrow> 'p coordinator \<Rightarrow> bool" where
  "open_case_at t i key s \<longleftrightarrow> (t, key) \<notin> rp_dedupe (co_repo s) \<and> co_ids s < 10 \<and>
     (case rp_cases (co_repo s) (t, i) of None \<Rightarrow> False | Some c \<Rightarrow> \<not> terminal_dispatch (c_status c))"

theorem exhausted_delivery_settles_witness:
  "\<exists>s' c'. mark_delivery_exhausted demo_env ''t'' ''k'' demo_authorized = (Inr c', s') \<and> c_status c' = D_MANUAL_FOLLOW_UP"
proof -
  have "open_case_at ''t'' ''k'' (digest demo_sha [''delivery-exhausted'', ''t'', ''k'']) demo_authorized" by code_simp
  then obtain c where "rp_cases (co_repo demo_authorized) (''t'', ''k'') = Some c" "\<not> terminal_dispatch (c_status c)"
    "(''t'', digest demo_sha [''delivery-exhausted'', ''t'', ''k'']) \<notin> rp_dedupe (co_repo demo_authorized)"
    by (auto simp: open_case_at_def split: option.splits)
  moreover have "co_ids demo_authorized < 10" using \<open>open_case_at _ _ _ _\<close> by (simp add: open_case_at_def)
  moreover have "repo_inv (co_repo demo_authorized)"
    using mock_run_inv [of demo_env demo_directory "[demo_authorize]" 0] by (simp add: co_inv_def demo_authorized_def)
  moreover have env: "is_aware (ce_clock demo_env n)" "ce_new_id demo_env = demo_id" "ce_sha demo_env = demo_sha" for n
    by (simp_all add: demo_env_def demo_env_for_def)
  ultimately have "\<exists>s' c'. mark_delivery_exhausted demo_env ''t'' ''k'' demo_authorized = (Inr c', s') \<and>
      rp_cases (co_repo s') (''t'', ''k'') = Some c' \<and> c_status c' = D_MANUAL_FOLLOW_UP \<and>
      co_provider s' = co_provider demo_authorized \<and>
      (\<forall>n a. rp_attempts (co_repo s') (''t'', n) = Some a \<longrightarrow> a_case_id a = ''k'' \<longrightarrow> terminal_attempt (a_status a))"
    by (intro exhausted_delivery_settles [of demo_authorized "''t''" "''k''" c demo_env]) (simp_all add: demo_id_ok demo_sha_hex)
  then show ?thesis by blast
qed

section \<open>Messages\<close>

text \<open>A queue message decodes to the tenant and the case it was made for, with the receipt and the receive
count of its delivery, and no other tenant or case has the same message.\<close>

lemma message_round_trip:
  assumes "sqs_body t c = Inr body" and "receipt \<noteq> []" and "py_int count = Some n" and "1 \<le> n"
  shows "sqs_decode \<lparr>sm_body = Some body, sm_receipt_handle = Some receipt,
       sm_attributes = Some [(''ApproximateReceiveCount'', count)]\<rparr> =
     Inr \<lparr>j_tenant_id = t, j_case_id = c, j_receipt_handle = Some receipt, j_receive_count = n\<rparr> \<and>
     (\<forall>t' c'. sqs_body t' c' = Inr body \<longrightarrow> t' = t \<and> c' = c)"
proof -
  have "member [(''dispatch_case_id'', JStr c), (''schema_version'', JStr ''1.0.0''), (''tenant_id'', JStr t)] = 
      [''dispatch_case_id'' \<mapsto> JStr c, ''schema_version'' \<mapsto> JStr ''1.0.0'', ''tenant_id'' \<mapsto> JStr t]"
    by (auto simp: member_def fun_eq_iff)
  moreover have "loads body = Some (JObj [(''dispatch_case_id'', JStr c'), (''schema_version'', JStr ''1.0.0''), (''tenant_id'', JStr t')])"
    if "sqs_body t' c' = Inr body" for t' c' using sqs_body_text(1) [OF that] .
  ultimately have "sqs_decode \<lparr>sm_body = Some body, sm_receipt_handle = Some receipt,
       sm_attributes = Some [(''ApproximateReceiveCount'', count)]\<rparr> =
     Inr \<lparr>j_tenant_id = t, j_case_id = c, j_receipt_handle = Some receipt, j_receive_count = n\<rparr>"
    using sqs_body_text(2,3) [OF assms(1)] assms
    by (simp add: sqs_decode_def decoded_job_def new_job_def construct_def job_post_init_def first_error.simps)
  moreover have "t' = t \<and> c' = c" if "sqs_body t' c' = Inr body" for t' c'
    using sqs_body_text(1) [OF that] sqs_body_text(1) [OF assms(1)] by simp
  ultimately show ?thesis by blast
qed

lemma sqs_body_returns: "valid_uuid t \<Longrightarrow> valid_uuid c \<Longrightarrow> \<exists>body. sqs_body t c = Inr body"
  by (simp add: sqs_body_def new_job_def construct_def job_post_init_def plain_job_def first_error.simps)

definition zeros :: string where
  "zeros = replicate 32 (CHR ''0'')"


section \<open>The retry the in-memory queue drops\<close>

text \<open>C21: with the in-memory queue a delivered job is still queued while the mock's answer schedules the retry, so
the retry is taken for a duplicate and is dropped when the job is acknowledged: afterwards the queue holds only
the other jobs, whatever the case still waits for.\<close>

theorem memory_queue_drops_retry:
  assumes "we_broker we = memory_broker" and "wk_broker w = job # rest"
    and "distinct (map (\<lambda>j. (j_tenant_id j, j_case_id j)) (job # rest))"
    and "deliver we job w = (Inr b, w')"
  shows "wk_broker w' = rest \<and> (\<forall>j \<in> set rest. (j_tenant_id j, j_case_id j) \<noteq> (j_tenant_id job, j_case_id job))"
proof -
  let ?K = "\<lambda>v. wk_broker v = job # rest"
  have coord: "?K (snd (on_coord op v)) \<longleftrightarrow> ?K v" for op :: "('a, 'c) coord_op" and v :: "('a, dispatch_job list) worker"
    by (simp add: on_coord_def split: prod.splits)
  have same: "?K (snd (on_broker (memory_enqueue (j_tenant_id job) (j_case_id job) d) v))" if "?K v" for d and v :: "('a, dispatch_job list) worker"
    using that by (simp add: on_broker_def memory_enqueue_def lift_def new_job_def construct_def split: option.splits)
  have retry: "?K (snd (simulate_retry we job c v))" if "?K v" for c v
    unfolding simulate_retry_def using that assms(1)
    by (auto simp: memory_broker_def worker_now_def intro!: and_then_preserves [where P = ?K] same split: option.splits)
  have outcome: "?K (snd (simulated_outcome we job a ref v))" if "?K v" for a ref v
    unfolding simulated_outcome_def using that
    by (auto intro!: and_then_preserves [where P = ?K] retry simp: coord)
  have sim: "?K (snd (simulate we job a v))" if "?K v" for a v
    unfolding simulate_def Let_def using that
    by (auto intro!: and_then_preserves [where P = ?K] outcome simp: lift_def)
  from assms(4) obtain att u v x y where steps:
    "on_coord (dispatch_next (we_env we) (j_tenant_id job) (j_case_id job)) w = (Inr att, u)"
    "(case att of None \<Rightarrow> (Inr (), u) | Some a \<Rightarrow> if we_mode we = M_MOCK then simulate we job a u else (Inr (), u)) = (Inr x, v)"
    "on_broker (memory_acknowledge job) v = (Inr y, w')"
    unfolding deliver_def assms(1) by (auto elim!: and_then_InrE simp: memory_broker_def)
  from coord [of "dispatch_next (we_env we) (j_tenant_id job) (j_case_id job)" w] steps(1) assms(2) have "?K u" by simp
  then have "?K v"
    using steps(2) sim [of u] by (auto split: option.splits if_splits) (metis snd_conv)
  with steps(3) have "wk_broker w' = rest" by (auto simp: on_broker_def memory_acknowledge_def)
  with assms(3) show ?thesis by (auto simp: image_iff)
qed

definition retry_case :: dispatch_case where
  "retry_case = (tiny_case D_DIALING 2)\<lparr>c_tenant_id := zeros, c_case_id := zeros,
     c_authorization_fingerprint := zeros @ zeros, c_idempotency_key_hash := zeros @ zeros\<rparr>"

definition retry_attempt :: call_attempt where
  "retry_attempt = (reserved_attempt retry_case 1 ''a'' zeros (Aware 0 0))\<lparr>a_provider_call_reference := Some ''CA1'', a_status := A_INITIATED, a_version := 2\<rparr>"

definition retry_repo :: repository where
  "retry_repo = empty_repository\<lparr>rp_cases := [(zeros, zeros) \<mapsto> retry_case],
     rp_attempts := [(zeros, ''a'') \<mapsto> retry_attempt], rp_attempt_ids := [(zeros, zeros) \<mapsto> [''a'']],
     rp_callback := [zeros \<mapsto> (zeros, ''a'')], rp_events := [(zeros, zeros) \<mapsto> []]\<rparr>"

definition retry_worker :: "(mock_provider, dispatch_job list) worker" where
  "retry_worker = (demo_worker [plain_job zeros zeros])\<lparr>wk_coord := (demo_start 0)\<lparr>co_repo := retry_repo\<rparr>\<rparr>"

definition retry_waiting :: "(exn, bool, (mock_provider, dispatch_job list) worker) outcome \<Rightarrow> bool" where
  "retry_waiting r = (case r of (Inr b, w) \<Rightarrow>
     (case rp_cases (co_repo (wk_coord w)) (zeros, zeros) of None \<Rightarrow> False
      | Some c \<Rightarrow> c_status c = D_RETRY_SCHEDULED \<and> c_next_attempt_at c \<noteq> None) | _ \<Rightarrow> False)"

theorem memory_queue_drops_retry_witness:
  "\<exists>w c. deliver demo_worker_env (plain_job zeros zeros) retry_worker = (Inr True, w) \<and> wk_broker w = [] \<and>
     rp_cases (co_repo (wk_coord w)) (zeros, zeros) = Some c \<and> c_status c = D_RETRY_SCHEDULED \<and> c_next_attempt_at c \<noteq> None"
proof -
  have "retry_waiting (deliver demo_worker_env (plain_job zeros zeros) retry_worker)" by code_simp
  then obtain b w c where r: "deliver demo_worker_env (plain_job zeros zeros) retry_worker = (Inr b, w)"
    and c: "rp_cases (co_repo (wk_coord w)) (zeros, zeros) = Some c" "c_status c = D_RETRY_SCHEDULED" "c_next_attempt_at c \<noteq> None"
    by (auto simp: retry_waiting_def split: prod.splits sum.splits option.splits)
  from r have "b" by (auto simp: deliver_def elim!: and_then_InrE)
  have "wk_broker w = []"
    using memory_queue_drops_retry [OF _ _ _ r] by (simp add: demo_worker_env_def retry_worker_def demo_worker_def)
  with r c \<open>b\<close> show ?thesis by auto
qed




end
