(* ===== verification/Sql_Table.thy ===== *)
theory Sql_Table
  imports Prelude
begin

text \<open>
  Tables of the embedded database as lists of rows in row order: the statements the stores run,
  and the text timestamps they compare.
\<close>

section \<open>Statements\<close>

definition select_row :: "('r \<Rightarrow> bool) \<Rightarrow> 'r list \<Rightarrow> 'r option" where
  "select_row p rows = find p rows"

definition count_rows :: "('r \<Rightarrow> bool) \<Rightarrow> 'r list \<Rightarrow> nat" where
  "count_rows p rows = length (filter p rows)"

definition update_rows :: "('r \<Rightarrow> bool) \<Rightarrow> ('r \<Rightarrow> 'r) \<Rightarrow> 'r list \<Rightarrow> 'r list" where
  "update_rows p f rows = map (\<lambda>r. if p r then f r else r) rows"

text \<open>\<open>INSERT \<dots> ON CONFLICT (key) DO UPDATE\<close>.\<close>

definition upsert_row :: "('r \<Rightarrow> bool) \<Rightarrow> ('r \<Rightarrow> 'r) \<Rightarrow> 'r \<Rightarrow> 'r list \<Rightarrow> 'r list" where
  "upsert_row p f r rows = (if list_ex p rows then update_rows p f rows else rows @ [r])"

definition unique_on :: "('r \<Rightarrow> 'k) \<Rightarrow> 'r list \<Rightarrow> bool" where
  "unique_on k rows \<longleftrightarrow> distinct (map k rows)"

lemma select_row_Some: "select_row p rows = Some r \<Longrightarrow> r \<in> set rows \<and> p r"
  by (auto simp: select_row_def find_Some_iff)

lemma select_row_None: "select_row p rows = None \<longleftrightarrow> (\<forall>r \<in> set rows. \<not> p r)"
  by (auto simp: select_row_def find_None_iff)

lemma select_row_unique:
  assumes "unique_on k rows" and "r \<in> set rows"
  shows "select_row (\<lambda>x. k x = k r) rows = Some r"
proof -
  obtain q where q: "select_row (\<lambda>x. k x = k r) rows = Some q"
    using assms(2) select_row_None [of "\<lambda>x. k x = k r" rows] by fastforce
  from select_row_Some [OF this] assms have "q = r"
    by (auto simp: unique_on_def distinct_map dest: inj_onD)
  with q show ?thesis by simp
qed

lemma update_rows_keys:
  assumes "\<And>r. k (f r) = k r"
  shows "map k (update_rows p f rows) = map k rows"
  using assms by (simp add: update_rows_def)

lemma unique_update: "(\<And>r. k (f r) = k r) \<Longrightarrow> unique_on k (update_rows p f rows) \<longleftrightarrow> unique_on k rows"
  by (simp add: unique_on_def update_rows_keys)

lemma set_update_rows: "set (update_rows p f rows) = {if p r then f r else r | r. r \<in> set rows}"
  by (auto simp: update_rows_def)

lemma select_update:
  assumes "\<And>r. q (if p r then f r else r) = q r"
  shows "select_row q (update_rows p f rows) = map_option (\<lambda>r. if p r then f r else r) (select_row q rows)"
  using assms by (induction rows) (auto simp: select_row_def update_rows_def)

lemma select_append: "select_row p (rows @ [r]) = (case select_row p rows of Some x \<Rightarrow> Some x | None \<Rightarrow> if p r then Some r else None)"
  by (induction rows) (auto simp: select_row_def)

lemma count_update:
  assumes "\<And>r. q (f r) \<longleftrightarrow> q r"
  shows "count_rows q (update_rows p f rows) = count_rows q rows"
  using assms by (induction rows) (auto simp: count_rows_def update_rows_def)

lemma count_unique:
  assumes "unique_on k rows" and "\<And>r. p r \<Longrightarrow> k r = x"
  shows "count_rows p rows \<le> 1"
  using assms
proof (induction rows)
  case (Cons r rows)
  show ?case
  proof (cases "p r")
    case True
    have "\<not> p q" if "q \<in> set rows" for q
      using Cons.prems True that by (auto simp: unique_on_def image_iff)
    then have "filter p rows = []" by (simp add: filter_empty_conv)
    then show ?thesis by (simp add: count_rows_def)
  next
    case False
    with Cons show ?thesis by (simp add: count_rows_def unique_on_def)
  qed
qed (simp add: count_rows_def)

lemma list_ex_update: "(\<And>r. q (f r) = q r) \<Longrightarrow> list_ex q (update_rows p f rows) = list_ex q rows"
  by (induction rows) (auto simp: update_rows_def)

lemma list_ex_upsert: "(\<And>r. q (f r) = q r) \<Longrightarrow> list_ex q (upsert_row p f r rows) \<longleftrightarrow> list_ex q rows \<or> (\<not> list_ex p rows \<and> q r)"
  by (auto simp: upsert_row_def list_ex_update)

lemma unique_append: "unique_on k (rows @ [r]) \<longleftrightarrow> unique_on k rows \<and> (\<forall>x \<in> set rows. k x \<noteq> k r)"
  by (auto simp: unique_on_def) (metis image_eqI)

lemma unique_upsert:
  assumes "\<And>x. k (f x) = k x" and "\<And>x. p x \<longleftrightarrow> k x = k r" and "unique_on k rows"
  shows "unique_on k (upsert_row p f r rows)"
  using assms by (auto simp: upsert_row_def unique_update unique_append list_ex_iff)

section \<open>Text timestamps\<close>

text \<open>
  A stored timestamp is an instant in microseconds, written by \<open>isoformat\<close> in UTC with the suffix
  \<open>Z\<close>. The text omits a zero fraction, and \<open>Z\<close> sorts after the \<open>.\<close> of a fraction; so comparing two
  texts compares the seconds and, within a second, puts the whole second after every fraction.
\<close>

definition text_rank :: "int \<Rightarrow> int" where
  "text_rank t = (t div 1000000) * 2000000 + (if t mod 1000000 = 0 then 1000000 else t mod 1000000)"

definition text_less :: "int \<Rightarrow> int \<Rightarrow> bool" where
  "text_less a b \<longleftrightarrow> text_rank a < text_rank b"

definition text_le :: "int \<Rightarrow> int \<Rightarrow> bool" where
  "text_le a b \<longleftrightarrow> text_rank a \<le> text_rank b"

lemma text_rank_bounds: "(t div 1000000) * 2000000 < text_rank t \<and> text_rank t \<le> (t div 1000000) * 2000000 + 1000000"
proof -
  have "0 \<le> t mod 1000000" "t mod 1000000 < 1000000" by simp_all
  then show ?thesis by (auto simp: text_rank_def simp del: pos_mod_sign pos_mod_bound)
qed

lemma text_le_seconds: "text_le a b \<Longrightarrow> a div 1000000 \<le> b div 1000000"
  using text_rank_bounds [of a] text_rank_bounds [of b] unfolding text_le_def by linarith

lemma text_le_bound: "text_le a b \<Longrightarrow> a < b + 1000000"
  using text_le_seconds [of a b] pos_mod_bound [of 1000000 a] pos_mod_sign [of 1000000 b]
    mult_div_mod_eq [of 1000000 a] mult_div_mod_eq [of 1000000 b]
  by linarith

lemma text_less_le: "text_less a b \<Longrightarrow> text_le a b"
  by (simp add: text_less_def text_le_def)

lemma text_order_across_seconds: "a div 1000000 < b div 1000000 \<Longrightarrow> text_less a b"
  using text_rank_bounds [of a] text_rank_bounds [of b] unfolding text_less_def by linarith

lemma text_whole_second_last:
  "a div 1000000 = b div 1000000 \<Longrightarrow> b mod 1000000 = 0 \<Longrightarrow> a mod 1000000 \<noteq> 0 \<Longrightarrow> text_less a b"
  using pos_mod_bound [of 1000000 a] by (simp add: text_less_def text_rank_def)

end
