(* ===== verification/Py_Iso.thy ===== *)
theory Py_Iso
  imports Py_Json
begin

text \<open>
  ISO 8601 texts: \<open>datetime.fromisoformat\<close> on the extended forms \<open>YYYY-MM-DD\<close>, followed by any
  separator, \<open>HH[:MM[:SS[.f\<dots>]]]\<close> and an optional offset \<open>Z\<close> or \<open>\<plusminus>HH[:MM[:SS]]\<close> (the basic and
  week-date forms it also reads are refused here), and \<open>isoformat\<close> of a UTC instant with the
  suffix \<open>Z\<close> the code gives it. Dates are proleptic Gregorian, years 1 to 9999.
\<close>

section \<open>The calendar\<close>

definition leap_year :: "int \<Rightarrow> bool" where
  "leap_year y \<longleftrightarrow> y mod 4 = 0 \<and> (y mod 100 \<noteq> 0 \<or> y mod 400 = 0)"

definition days_in_month :: "int \<Rightarrow> int \<Rightarrow> int" where
  "days_in_month y m =
     (if m = 2 then (if leap_year y then 29 else 28) else if m \<in> {4, 6, 9, 11} then 30 else 31)"

definition days_before_year :: "int \<Rightarrow> int" where
  "days_before_year y = (let p = y - 1 in p * 365 + p div 4 - p div 100 + p div 400)"

definition days_before_month :: "int \<Rightarrow> int \<Rightarrow> int" where
  "days_before_month y m = sum_list (map (\<lambda>k. days_in_month y (int k)) [1..<nat m])"

text \<open>Days since 1970-01-01.\<close>

definition days_of_date :: "int \<Rightarrow> int \<Rightarrow> int \<Rightarrow> int" where
  "days_of_date y m d = days_before_year y + days_before_month y m + d - 1 - 719162"

text \<open>The date of a day: \<open>ord2ymd\<close>, by 400-, 100-, 4- and 1-year cycles, then month by month.\<close>

fun month_of_day :: "nat \<Rightarrow> int \<Rightarrow> int \<Rightarrow> int \<Rightarrow> int \<times> int" where
  "month_of_day 0 y m n = (m, n + 1)"
| "month_of_day (Suc k) y m n =
     (if n < days_in_month y m then (m, n + 1) else month_of_day k y (m + 1) (n - days_in_month y m))"

definition date_of_days :: "int \<Rightarrow> int \<times> int \<times> int" where
  "date_of_days day =
     (let n = day + 719162;
          n400 = n div 146097; r400 = n mod 146097;
          n100 = min 3 (r400 div 36524); r100 = r400 - n100 * 36524;
          n4 = r100 div 1461; r4 = r100 mod 1461;
          n1 = min 3 (r4 div 365); r1 = r4 - n1 * 365;
          y = n400 * 400 + n100 * 100 + n4 * 4 + n1 + 1 in
      case month_of_day 11 y 1 r1 of (m, d) \<Rightarrow> (y, m, d))"

section \<open>Writing\<close>

definition pad :: "nat \<Rightarrow> int \<Rightarrow> string" where
  "pad w n = (let ds = digits_of (nat n) in replicate (w - length ds) (CHR ''0'') @ ds)"

definition iso_utc :: "int \<Rightarrow> string" where
  "iso_utc t =
     (let us = t mod 1000000; secs = t div 1000000; day = secs div 86400; s = secs mod 86400 in
      case date_of_days day of (y, m, d) \<Rightarrow>
        pad 4 y @ ''-'' @ pad 2 m @ ''-'' @ pad 2 d @ ''T'' @
        pad 2 (s div 3600) @ '':'' @ pad 2 (s div 60 mod 60) @ '':'' @ pad 2 (s mod 60) @
        (if us = 0 then [] else ''.'' @ pad 6 us) @ ''Z'')"

section \<open>Reading\<close>

text \<open>Exactly \<open>w\<close> digits, and what follows.\<close>

definition take_digits :: "nat \<Rightarrow> string \<Rightarrow> (int \<times> string) option" where
  "take_digits w s =
     (if length (take w s) = w \<and> list_all is_digit (take w s) then Some (int_of_digits (take w s), drop w s) else None)"

definition expect :: "char \<Rightarrow> string \<Rightarrow> string option" where
  "expect c s = (case s of [] \<Rightarrow> None | d # r \<Rightarrow> if d = c then Some r else None)"

definition parse_date :: "string \<Rightarrow> (int \<times> string) option" where
  "parse_date s =
     (case take_digits 4 s of None \<Rightarrow> None | Some (y, s) \<Rightarrow>
      case expect (CHR ''-'') s of None \<Rightarrow> None | Some s \<Rightarrow>
      case take_digits 2 s of None \<Rightarrow> None | Some (m, s) \<Rightarrow>
      case expect (CHR ''-'') s of None \<Rightarrow> None | Some s \<Rightarrow>
      case take_digits 2 s of None \<Rightarrow> None | Some (d, s) \<Rightarrow>
        if 1 \<le> y \<and> 1 \<le> m \<and> m \<le> 12 \<and> 1 \<le> d \<and> d \<le> days_in_month y m then Some (days_of_date y m d, s) else None)"

text \<open>Minutes and seconds are optional; a fraction follows seconds only and keeps six digits.\<close>

definition fraction_us :: "string \<Rightarrow> (int \<times> string) option" where
  "fraction_us s =
     (case s of
        [] \<Rightarrow> Some (0, s)
      | c # r \<Rightarrow>
          if c \<in> {CHR ''.'', CHR '',''} then
            (let ds = takeWhile is_digit r in
             if ds = [] then None
             else Some (int_of_digits (take 6 (ds @ ''000000'')), dropWhile is_digit r))
          else Some (0, s))"

definition parse_clock :: "bool \<Rightarrow> string \<Rightarrow> (int \<times> string) option" where
  "parse_clock fractions s =
     (case take_digits 2 s of None \<Rightarrow> None | Some (h, s) \<Rightarrow>
      if 23 < h then None
      else if \<not> prefix '':'' s then Some (seconds (h * 3600), s)
      else (case take_digits 2 (tl s) of None \<Rightarrow> None | Some (mi, s) \<Rightarrow>
        if 59 < mi then None
        else if \<not> prefix '':'' s then Some (seconds (h * 3600 + mi * 60), s)
        else (case take_digits 2 (tl s) of None \<Rightarrow> None | Some (se, s) \<Rightarrow>
          if 59 < se then None
          else map_option (\<lambda>(us, r). (seconds (h * 3600 + mi * 60 + se) + us, r))
                 (if fractions then fraction_us s else Some (0, s)))))"

definition parse_offset :: "string \<Rightarrow> int option option" where
  "parse_offset s =
     (case s of
        [] \<Rightarrow> Some None
      | c # r \<Rightarrow>
          if c = CHR ''Z'' then (if r = [] then Some (Some 0) else None)
          else if c \<in> {CHR ''+'', CHR ''-''} then
            (case parse_clock True r of
               Some (off, []) \<Rightarrow> Some (Some (if c = CHR ''-'' then - off else off))
             | _ \<Rightarrow> None)
          else None)"

definition parse_iso :: "string \<Rightarrow> datetime option" where
  "parse_iso text =
     (case parse_date text of
        None \<Rightarrow> None
      | Some (day, []) \<Rightarrow> Some (Naive (seconds (day * 86400)))
      | Some (day, sep # r) \<Rightarrow>
          (case parse_clock True r of
             None \<Rightarrow> None
           | Some (clock, r) \<Rightarrow>
               (case parse_offset r of
                  None \<Rightarrow> None
                | Some None \<Rightarrow> Some (Naive (seconds (day * 86400) + clock))
                | Some (Some off) \<Rightarrow> Some (Aware (seconds (day * 86400) + clock) off))))"

text \<open>\<open>astimezone(UTC)\<close> raises \<open>OverflowError\<close> outside the years 1 to 9999.\<close>

definition in_calendar :: "int \<Rightarrow> bool" where
  "in_calendar t \<longleftrightarrow> seconds (days_of_date 1 1 1 * 86400) \<le> t \<and> t < seconds ((days_of_date 9999 12 31 + 1) * 86400)"

text \<open>\<open>value.replace("Z", "+00:00")\<close>.\<close>

definition replace_z :: "string \<Rightarrow> string" where
  "replace_z s = concat (map (\<lambda>c. if c = CHR ''Z'' then ''+00:00'' else [c]) s)"

end
