(* ===== verification/Ingestion_Store.thy ===== *)
theory Ingestion_Store
  imports Sql_Table Py_Iso
begin

text \<open>
  \<open>data/errors.py\<close>, \<open>data/contracts.py\<close>, \<open>data/source.py\<close> and \<open>data/store.py\<close>: the restricted
  ingestion store. Its tables are lists of rows in row order; each method is one transaction, so
  a method that raises leaves the tables as they were. The JSON Schema validator, the H3 library,
  SHA-256 and the outages of the database are fields of the environment, the clock and the random
  identifiers are sequences.
\<close>

section \<open>Errors and environment\<close>

datatype iexn =
    IngestionError string string bool
  | IntegrityError
  | OperationalError
  | OtherFailure string

abbreviation ingestion_error :: "string \<Rightarrow> string \<Rightarrow> iexn" where
  "ingestion_error code message \<equiv> IngestionError code message False"

record ingestion_env =
  ie_clock :: "nat \<Rightarrow> int"
  ie_uuid :: "nat \<Rightarrow> string"
  ie_sha :: "string \<Rightarrow> string"
  ie_problems :: "string \<Rightarrow> json \<Rightarrow> string list"
  ie_cell :: "json \<Rightarrow> json \<Rightarrow> int \<Rightarrow> string"
  ie_unavailable :: "nat \<Rightarrow> bool"

definition validate_contract :: "ingestion_env \<Rightarrow> string \<Rightarrow> json \<Rightarrow> iexn option" where
  "validate_contract env schema_name value =
     (let problems = ie_problems env schema_name value in
      if problems = [] then None
      else Some (ingestion_error ''contract_validation_failed''
                   (schema_name @ '' failed validation: '' @ join ''; '' (take 5 problems))))"

section \<open>Sources\<close>

record source_definition =
  sd_schema_version :: string
  sd_tenant_id :: string
  sd_source_id :: string
  sd_name :: string
  sd_kind :: string
  sd_status :: string
  sd_config :: "(string \<times> json) list"
  sd_secret_ref :: "string option"
  sd_created_at :: string
  sd_updated_at :: "string option"

definition source_authorize :: "source_definition \<Rightarrow> string \<Rightarrow> iexn option" where
  "source_authorize source authenticated_tenant_id = first_error
     [(sd_tenant_id source \<noteq> authenticated_tenant_id,
         ingestion_error ''source_tenant_mismatch'' ''The source does not belong to the authenticated tenant''),
      (sd_status source \<notin> {''active'', ''degraded''}, ingestion_error ''source_not_active'' ''The source is not active'')]"

definition json_opt :: "string option \<Rightarrow> json" where
  "json_opt v = (case v of None \<Rightarrow> JNull | Some s \<Rightarrow> JStr s)"

definition public_record :: "source_definition \<Rightarrow> json" where
  "public_record source = JObj
     [(''schema_version'', JStr (sd_schema_version source)), (''tenant_id'', JStr (sd_tenant_id source)),
      (''source_id'', JStr (sd_source_id source)), (''name'', JStr (sd_name source)), (''kind'', JStr (sd_kind source)),
      (''status'', JStr (sd_status source)), (''config'', JObj (sd_config source)),
      (''secret_ref'', json_opt (sd_secret_ref source)), (''created_at'', JStr (sd_created_at source)),
      (''updated_at'', json_opt (sd_updated_at source))]"

section \<open>The tables\<close>

record source_row =
  sr_tenant_id :: string
  sr_source_id :: string
  sr_schema_version :: string
  sr_definition :: string
  sr_registered_at :: string

record accepted_event =
  ev_tenant_id :: string
  ev_source_id :: string
  ev_external_event_id :: string
  ev_occurred_at :: string
  ev_received_at :: string
  ev_category :: string
  ev_latitude :: json
  ev_longitude :: json
  ev_accuracy_meters :: "json option"
  ev_source_sequence :: json
  ev_attributes :: json
  ev_hash :: string
  ev_ingested_at :: string

record checkpoint_row =
  ck_tenant_id :: string
  ck_source_id :: string
  ck_checkpoint :: json
  ck_updated_at :: string

record quarantine_row =
  qr_id :: string
  qr_tenant_id :: string
  qr_source_id :: string
  qr_checkpoint :: json
  qr_reason_code :: string
  qr_safe_detail :: string
  qr_payload :: "json option"
  qr_payload_hash :: string
  qr_created_at :: string

record run_row =
  ru_id :: string
  ru_tenant_id :: string
  ru_source_id :: string
  ru_mode :: string
  ru_status :: string
  ru_checkpoint :: "json option"
  ru_accepted :: int
  ru_duplicate :: int
  ru_rejected :: int
  ru_last_received_at :: "string option"
  ru_last_event_at :: "string option"
  ru_last_error_code :: "string option"
  ru_started_at :: string
  ru_finished_at :: "string option"

record ingestion_store =
  is_sources :: "source_row list"
  is_events :: "accepted_event list"
  is_checkpoints :: "checkpoint_row list"
  is_quarantine :: "quarantine_row list"
  is_runs :: "run_row list"
  is_reads :: nat
  is_ids :: nat
  is_inserts :: nat

definition empty_ingestion_store :: ingestion_store where
  "empty_ingestion_store = \<lparr>is_sources = [], is_events = [], is_checkpoints = [], is_quarantine = [], is_runs = [],
     is_reads = 0, is_ids = 0, is_inserts = 0\<rparr>"

type_synonym 'a store_op = "ingestion_store \<Rightarrow> (iexn, 'a, ingestion_store) outcome"

definition utc_now :: "ingestion_env \<Rightarrow> string store_op" where
  "utc_now env s = (Inr (iso_utc (ie_clock env (is_reads s))), s\<lparr>is_reads := Suc (is_reads s)\<rparr>)"

definition fresh_uuid :: "ingestion_env \<Rightarrow> string store_op" where
  "fresh_uuid env s = (Inr (ie_uuid env (is_ids s)), s\<lparr>is_ids := Suc (is_ids s)\<rparr>)"

section \<open>Sources and checkpoints\<close>

definition register_source :: "ingestion_env \<Rightarrow> source_definition \<Rightarrow> unit store_op" where
  "register_source env source s =
     and_then (utc_now env s) (\<lambda>now s.
     let definition_text = dumps (sort_keys (public_record source)) in
     (Inr (), s\<lparr>is_sources := upsert_row
        (\<lambda>r. sr_tenant_id r = sd_tenant_id source \<and> sr_source_id r = sd_source_id source)
        (\<lambda>r. r\<lparr>sr_schema_version := sd_schema_version source, sr_definition := definition_text\<rparr>)
        \<lparr>sr_tenant_id = sd_tenant_id source, sr_source_id = sd_source_id source,
         sr_schema_version = sd_schema_version source, sr_definition = definition_text, sr_registered_at = now\<rparr>
        (is_sources s)\<rparr>))"

definition register_camera_source :: "ingestion_env \<Rightarrow> (string \<times> json) list \<Rightarrow> unit store_op" where
  "register_camera_source env payload s =
     and_then (raise_opt (validate_contract env ''camera-source.schema.json'' (JObj payload)) s) (\<lambda>_ s.
     case (member payload ''tenant_id'', member payload ''source_id'', member payload ''schema_version'') of
       (Some (JStr t), Some (JStr src), Some (JStr version)) \<Rightarrow>
         and_then (utc_now env s) (\<lambda>now s.
         let definition_text = dumps (sort_keys (JObj payload)) in
         (Inr (), s\<lparr>is_sources := upsert_row
            (\<lambda>r. sr_tenant_id r = t \<and> sr_source_id r = src)
            (\<lambda>r. r\<lparr>sr_schema_version := version, sr_definition := definition_text\<rparr>)
            \<lparr>sr_tenant_id = t, sr_source_id = src, sr_schema_version = version,
             sr_definition = definition_text, sr_registered_at = now\<rparr>
            (is_sources s)\<rparr>))
     | _ \<Rightarrow> (Inl (OtherFailure ''KeyError''), s))"

definition get_checkpoint :: "string \<Rightarrow> string \<Rightarrow> ingestion_store \<Rightarrow> json option" where
  "get_checkpoint tenant_id source_id s =
     map_option ck_checkpoint (select_row (\<lambda>r. ck_tenant_id r = tenant_id \<and> ck_source_id r = source_id) (is_checkpoints s))"

definition source_registered :: "string \<Rightarrow> string \<Rightarrow> ingestion_store \<Rightarrow> bool" where
  "source_registered tenant_id source_id s \<longleftrightarrow>
     list_ex (\<lambda>r. sr_tenant_id r = tenant_id \<and> sr_source_id r = source_id) (is_sources s)"

definition set_checkpoint :: "ingestion_env \<Rightarrow> string \<Rightarrow> string \<Rightarrow> json \<Rightarrow> unit store_op" where
  "set_checkpoint env tenant_id source_id checkpoint s =
     and_then (utc_now env s) (\<lambda>now s.
     and_then (raise_if (\<not> source_registered tenant_id source_id s) IntegrityError s) (\<lambda>_ s.
     (Inr (), s\<lparr>is_checkpoints := upsert_row
        (\<lambda>r. ck_tenant_id r = tenant_id \<and> ck_source_id r = source_id)
        (\<lambda>r. r\<lparr>ck_checkpoint := checkpoint, ck_updated_at := now\<rparr>)
        \<lparr>ck_tenant_id = tenant_id, ck_source_id = source_id, ck_checkpoint = checkpoint, ck_updated_at = now\<rparr>
        (is_checkpoints s)\<rparr>)))"

section \<open>Runs\<close>

definition start_run :: "ingestion_env \<Rightarrow> source_definition \<Rightarrow> string store_op" where
  "start_run env source s =
     and_then (fresh_uuid env s) (\<lambda>run_id s.
     and_then (utc_now env s) (\<lambda>now s.
     and_then (raise_if (list_ex (\<lambda>r. ru_id r = run_id) (is_runs s)) IntegrityError s) (\<lambda>_ s.
     (Inr run_id, s\<lparr>is_runs := is_runs s @
        [\<lparr>ru_id = run_id, ru_tenant_id = sd_tenant_id source, ru_source_id = sd_source_id source,
          ru_mode = ''recorded_replay'', ru_status = ''running'', ru_checkpoint = None, ru_accepted = 0,
          ru_duplicate = 0, ru_rejected = 0, ru_last_received_at = None, ru_last_event_at = None,
          ru_last_error_code = None, ru_started_at = now, ru_finished_at = None\<rparr>]\<rparr>))))"

definition tenant_matches :: "string option \<Rightarrow> string \<Rightarrow> bool" where
  "tenant_matches tenant_id t \<longleftrightarrow> (case tenant_id of None \<Rightarrow> True | Some x \<Rightarrow> t = x)"

definition get_run :: "string \<Rightarrow> string option \<Rightarrow> run_row store_op" where
  "get_run run_id tenant_id s =
     (case select_row (\<lambda>r. ru_id r = run_id \<and> tenant_matches tenant_id (ru_tenant_id r)) (is_runs s) of
        None \<Rightarrow> (Inl (OtherFailure ''KeyError''), s)
      | Some r \<Rightarrow> (Inr r, s))"

definition run_json :: "run_row \<Rightarrow> json" where
  "run_json r = JObj
     [(''schema_version'', JStr ''1.0.0''), (''tenant_id'', JStr (ru_tenant_id r)), (''source_id'', JStr (ru_source_id r)),
      (''run_id'', JStr (ru_id r)), (''mode'', JStr (ru_mode r)), (''status'', JStr (ru_status r)),
      (''checkpoint'', (case ru_checkpoint r of None \<Rightarrow> JNull | Some c \<Rightarrow> c)), (''accepted_count'', JInt (ru_accepted r)),
      (''duplicate_count'', JInt (ru_duplicate r)), (''rejected_count'', JInt (ru_rejected r)),
      (''last_received_at'', json_opt (ru_last_received_at r)), (''last_event_at'', json_opt (ru_last_event_at r)),
      (''last_error_code'', json_opt (ru_last_error_code r)), (''started_at'', JStr (ru_started_at r)),
      (''finished_at'', json_opt (ru_finished_at r))]"

record run_summary =
  rs_checkpoint :: "json option"
  rs_accepted :: int
  rs_duplicate :: int
  rs_rejected :: int
  rs_last_received_at :: "string option"
  rs_last_event_at :: "string option"
  rs_last_error_code :: "string option"

definition finish_run :: "ingestion_env \<Rightarrow> string \<Rightarrow> string option \<Rightarrow> string \<Rightarrow> run_summary \<Rightarrow> run_row store_op" where
  "finish_run env run_id tenant_id status summary s =
     and_then (if status \<in> {''completed'', ''failed'', ''cancelled''}
               then and_then (utc_now env s) (\<lambda>now s. (Inr (Some now), s)) else (Inr None, s)) (\<lambda>finished_at s.
     let s = s\<lparr>is_runs := update_rows (\<lambda>r. ru_id r = run_id \<and> tenant_matches tenant_id (ru_tenant_id r))
        (\<lambda>r. r\<lparr>ru_status := status, ru_checkpoint := rs_checkpoint summary, ru_accepted := rs_accepted summary,
               ru_duplicate := rs_duplicate summary, ru_rejected := rs_rejected summary,
               ru_last_received_at := rs_last_received_at summary, ru_last_event_at := rs_last_event_at summary,
               ru_last_error_code := rs_last_error_code summary, ru_finished_at := finished_at\<rparr>) (is_runs s)\<rparr> in
     and_then (get_run run_id tenant_id s) (\<lambda>run s.
     and_then (raise_opt (validate_contract env ''ingestion-run.schema.json'' (run_json run)) s) (\<lambda>_ s. (Inr run, s))))"

section \<open>Events and quarantine\<close>

definition text_member :: "(string \<times> json) list \<Rightarrow> string \<Rightarrow> string option" where
  "text_member event k = (case member event k of Some (JStr s) \<Rightarrow> Some s | _ \<Rightarrow> None)"

text \<open>
  The row of a normalized event, given the time of its insertion; a member it lacks raises
  \<open>KeyError\<close>. Accepted contracts have texts in the text columns.
\<close>

definition event_row :: "(string \<times> json) list \<Rightarrow> string \<Rightarrow> (string \<Rightarrow> accepted_event) option" where
  "event_row event event_hash =
     (case (text_member event ''tenant_id'', text_member event ''source_id'', text_member event ''external_event_id'',
            text_member event ''occurred_at'', text_member event ''received_at'', text_member event ''category'',
            member event ''location'') of
        (Some t, Some src, Some x, Some occ, Some rec, Some cat, Some (JObj loc)) \<Rightarrow>
          (case (member loc ''latitude'', member loc ''longitude'') of
             (Some lat, Some lng) \<Rightarrow> Some (\<lambda>now.
               \<lparr>ev_tenant_id = t, ev_source_id = src, ev_external_event_id = x, ev_occurred_at = occ, ev_received_at = rec,
                ev_category = cat, ev_latitude = lat, ev_longitude = lng, ev_accuracy_meters = member loc ''accuracy_meters'',
                ev_source_sequence = (case member event ''source_sequence'' of None \<Rightarrow> JNull | Some v \<Rightarrow> v),
                ev_attributes = sort_keys (case member event ''attributes'' of None \<Rightarrow> JObj [] | Some v \<Rightarrow> v),
                ev_hash = event_hash, ev_ingested_at = now\<rparr>)
           | _ \<Rightarrow> None)
      | _ \<Rightarrow> None)"

text \<open>SQLite stores a NaN as NULL, which the coordinate columns refuse.\<close>

definition sql_null :: "json \<Rightarrow> bool" where
  "sql_null v \<longleftrightarrow> v = JNull \<or> v = JFloat ''NaN''"

definition same_event_key :: "accepted_event \<Rightarrow> accepted_event \<Rightarrow> bool" where
  "same_event_key a b \<longleftrightarrow> ev_tenant_id a = ev_tenant_id b \<and> ev_source_id a = ev_source_id b \<and>
     ev_external_event_id a = ev_external_event_id b"

definition insert_event :: "ingestion_env \<Rightarrow> (string \<times> json) list \<Rightarrow> string \<Rightarrow> bool store_op" where
  "insert_event env event event_hash s =
     (let n = is_inserts s; s = s\<lparr>is_inserts := Suc n\<rparr> in
     and_then (fetch (\<lambda>_. event_row event event_hash) () (OtherFailure ''KeyError'') s) (\<lambda>row s.
     and_then (utc_now env s) (\<lambda>now s.
     and_then (raise_if (ie_unavailable env n) OperationalError s) (\<lambda>_ s.
     let row = row now in
     and_then (raise_if (sql_null (ev_latitude row) \<or> sql_null (ev_longitude row)) IntegrityError s) (\<lambda>_ s.
     case select_row (same_event_key row) (is_events s) of
       Some existing \<Rightarrow>
         (if ev_hash existing = event_hash then (Inr False, s)
          else (Inl (ingestion_error ''idempotency_conflict''
                       ''The event id already exists with different normalized content''), s))
     | None \<Rightarrow>
         and_then (raise_if (\<not> source_registered (ev_tenant_id row) (ev_source_id row) s) IntegrityError s) (\<lambda>_ s.
         (Inr True, s\<lparr>is_events := is_events s @ [row]\<rparr>)))))))"

definition quarantine :: "ingestion_env \<Rightarrow> string \<Rightarrow> string \<Rightarrow> json \<Rightarrow> string \<Rightarrow> string \<Rightarrow> json option \<Rightarrow> string \<Rightarrow> unit store_op" where
  "quarantine env tenant_id source_id checkpoint reason_code safe_detail payload payload_hash s =
     and_then (fresh_uuid env s) (\<lambda>quarantine_id s.
     and_then (utc_now env s) (\<lambda>now s.
     and_then (raise_if (list_ex (\<lambda>r. qr_id r = quarantine_id) (is_quarantine s)) IntegrityError s) (\<lambda>_ s.
     (Inr (), s\<lparr>is_quarantine := is_quarantine s @
        [\<lparr>qr_id = quarantine_id, qr_tenant_id = tenant_id, qr_source_id = source_id, qr_checkpoint = checkpoint,
          qr_reason_code = reason_code, qr_safe_detail = take 500 safe_detail, qr_payload = map_option sort_keys payload,
          qr_payload_hash = payload_hash, qr_created_at = now\<rparr>]\<rparr>))))"

section \<open>Reading\<close>

definition list_accepted_events :: "string \<Rightarrow> ingestion_store \<Rightarrow> accepted_event list" where
  "list_accepted_events tenant_id s =
     sort_key ev_occurred_at (sort_key ev_source_id (sort_key ev_external_event_id
       (filter (\<lambda>r. ev_tenant_id r = tenant_id) (is_events s))))"

record aggregated_event =
  ag_occurred_at :: string
  ag_received_at :: string
  ag_category :: string
  ag_cell_id :: string

definition list_aggregated_events :: "ingestion_env \<Rightarrow> string \<Rightarrow> int \<Rightarrow> string list \<Rightarrow> aggregated_event list store_op" where
  "list_aggregated_events env tenant_id h3_resolution source_ids s =
     and_then (raise_if (source_ids = []) (OtherFailure ''ValueError'') s) (\<lambda>_ s.
     (Inr (map (\<lambda>r. \<lparr>ag_occurred_at = ev_occurred_at r, ag_received_at = ev_received_at r, ag_category = ev_category r,
                     ag_cell_id = ie_cell env (ev_latitude r) (ev_longitude r) h3_resolution\<rparr>)
            (sort_key ev_occurred_at
              (filter (\<lambda>r. ev_tenant_id r = tenant_id \<and> ev_source_id r \<in> set source_ids) (is_events s)))), s))"

definition event_count :: "string \<Rightarrow> string list option \<Rightarrow> ingestion_store \<Rightarrow> nat" where
  "event_count tenant_id source_ids s =
     count_rows (\<lambda>r. ev_tenant_id r = tenant_id \<and>
       (case source_ids of None \<Rightarrow> True | Some [] \<Rightarrow> True | Some ids \<Rightarrow> ev_source_id r \<in> set ids)) (is_events s)"

definition quarantine_count :: "string \<Rightarrow> string option \<Rightarrow> ingestion_store \<Rightarrow> nat" where
  "quarantine_count tenant_id source_id s =
     count_rows (\<lambda>r. qr_tenant_id r = tenant_id \<and> (case source_id of None \<Rightarrow> True | Some x \<Rightarrow> qr_source_id r = x)) (is_quarantine s)"

end
