(* ===== verification/Ingestion_Service.thy ===== *)
theory Ingestion_Service
  imports Ingestion_Store Py_Uuid
begin

text \<open>
  \<open>data/category_map.py\<close>, \<open>data/adapters\<close> and \<open>data/service.py\<close>: the category taxonomy, the
  recorded JSONL replay and the ingestion loop. A replay file is the list of its lines; the
  sleeps between attempts have no effect on the state.
\<close>

section \<open>Category map\<close>

record category_map =
  cm_schema_version :: string
  cm_canonical :: "string list"
  cm_aliases :: "(string \<times> string) list"
  cm_unknown_policy :: string

text \<open>\<open>str(value)\<close>; \<open>repr\<close> of floats and containers is a parameter.\<close>

definition py_str :: "(json \<Rightarrow> string) \<Rightarrow> json \<Rightarrow> string" where
  "py_str repr v =
     (case v of
        JStr s \<Rightarrow> s | JInt i \<Rightarrow> py_str_int i | JNull \<Rightarrow> ''None''
      | JBool b \<Rightarrow> (if b then ''True'' else ''False'') | _ \<Rightarrow> repr v)"

text \<open>\<open>for value in payload\<close>: a list, the keys of a dict, the characters of a text.\<close>

definition py_iter :: "json \<Rightarrow> iexn + json list" where
  "py_iter v =
     (case v of
        JArr vs \<Rightarrow> Inr vs | JObj kvs \<Rightarrow> Inr (map (JStr \<circ> fst) kvs) | JStr s \<Rightarrow> Inr (map (\<lambda>c. JStr [c]) s)
      | _ \<Rightarrow> Inl (OtherFailure ''TypeError''))"

definition tidy :: "string \<Rightarrow> string" where
  "tidy s = py_lower (py_strip s)"

definition category_map_post :: "category_map \<Rightarrow> iexn option" where
  "category_map_post cm = first_error
     [(cm_unknown_policy cm \<notin> {''reject'', ''other''}, OtherFailure ''ValueError''),
      (\<not> set (map snd (cm_aliases cm)) \<subseteq> set (cm_canonical cm), OtherFailure ''ValueError''),
      (cm_unknown_policy cm = ''other'' \<and> ''other'' \<notin> set (cm_canonical cm), OtherFailure ''ValueError'')]"

text \<open>A later alias with the same text replaces an earlier one.\<close>

definition dict_set :: "string \<Rightarrow> 'v \<Rightarrow> (string \<times> 'v) list \<Rightarrow> (string \<times> 'v) list" where
  "dict_set k v d = (if k \<in> fst ` set d then map (\<lambda>(j, w). (j, if j = k then v else w)) d else d @ [(k, v)])"

definition dict_of :: "(string \<times> 'v) list \<Rightarrow> (string \<times> 'v) list" where
  "dict_of kvs = fold (\<lambda>(k, v). dict_set k v) kvs []"

lemma map_of_update:
  "map_of (map (\<lambda>(i, w). (i, if i = k then v else w)) xs) j =
     (if j = k \<and> k \<in> fst ` set xs then Some v else map_of xs j)"
proof (induction xs)
  case (Cons x xs)
  then show ?case by (cases x) (cases "j = k"; cases "fst x = k"; simp)
qed simp

lemma member_dict_set: "member (dict_set k v d) j = (if j = k then Some v else member d j)"
proof (cases "k \<in> fst ` set d")
  case True
  then show ?thesis unfolding member_def dict_set_def rev_map if_P [OF True] map_of_update by simp
next
  case False
  then show ?thesis unfolding member_def dict_set_def if_not_P [OF False] by simp
qed

lemma text_member_dict_set: "text_member (dict_set k (JStr v) d) j = (if j = k then Some v else text_member d j)"
  "j \<noteq> k \<Longrightarrow> text_member (dict_set k w d) j = text_member d j"
  by (simp_all add: text_member_def member_dict_set)

definition category_map_of :: "(json \<Rightarrow> string) \<Rightarrow> json \<Rightarrow> iexn + category_map" where
  "category_map_of repr payload =
     (case payload of
        JObj kvs \<Rightarrow>
          (case member kvs ''canonical_categories'' of
             None \<Rightarrow> Inl (OtherFailure ''KeyError'')
           | Some categories \<Rightarrow>
               (case py_iter categories of
                  Inl e \<Rightarrow> Inl e
                | Inr values \<Rightarrow>
                    (case (case member kvs ''aliases'' of None \<Rightarrow> JObj [] | Some a \<Rightarrow> a) of
                       JObj aliases \<Rightarrow>
                         (let cm = \<lparr>cm_schema_version = (case member kvs ''schema_version'' of None \<Rightarrow> [] | Some v \<Rightarrow> py_str repr v),
                                    cm_canonical = map (tidy \<circ> py_str repr) values,
                                    cm_aliases = dict_of (map (\<lambda>(k, v). (tidy k, tidy (py_str repr v))) aliases),
                                    cm_unknown_policy = py_lower (case member kvs ''unknown_policy'' of
                                      None \<Rightarrow> ''reject'' | Some v \<Rightarrow> py_str repr v)\<rparr> in
                          case category_map_post cm of
                            Some e \<Rightarrow> Inl e
                          | None \<Rightarrow> if member kvs ''schema_version'' = None then Inl (OtherFailure ''KeyError'') else Inr cm)
                     | _ \<Rightarrow> Inl (OtherFailure ''AttributeError''))))
      | _ \<Rightarrow> Inl (OtherFailure ''TypeError''))"

text \<open>\<open>str.split()\<close>.\<close>

fun split_spaces :: "string \<Rightarrow> string list" where
  "split_spaces [] = [[]]"
| "split_spaces (c # cs) =
     (if is_space c then [] # split_spaces cs
      else (case split_spaces cs of [] \<Rightarrow> [[c]] | w # ws \<Rightarrow> (c # w) # ws))"

definition py_split :: "string \<Rightarrow> string list" where
  "py_split s = filter (\<lambda>w. w \<noteq> []) (split_spaces s)"

definition category_key :: "string \<Rightarrow> string" where
  "category_key s = join '' '' (py_split (tidy s))"

definition normalize_category :: "category_map \<Rightarrow> json option \<Rightarrow> iexn + string" where
  "normalize_category cm value =
     (case value of
        Some (JStr s) \<Rightarrow>
          (if py_strip s = [] then Inl (ingestion_error ''category_invalid'' ''Event category must be a non-empty string'')
           else let normalized = category_key s in
           if normalized \<in> set (cm_canonical cm) then Inr normalized
           else (case map_of (cm_aliases cm) normalized of
                   Some target \<Rightarrow> Inr target
                 | None \<Rightarrow>
                     if cm_unknown_policy cm = ''other'' then Inr ''other''
                     else Inl (ingestion_error ''category_unmapped'' ''Event category is not in the configured taxonomy'')))
      | _ \<Rightarrow> Inl (ingestion_error ''category_invalid'' ''Event category must be a non-empty string''))"

section \<open>The replay adapter\<close>

record adapter_item =
  it_checkpoint :: json
  it_payload :: "(string \<times> json) list option"
  it_raw_value :: "string option"
  it_error_code :: "string option"
  it_safe_detail :: "string option"

datatype read_fault = OsFault | DecodeFault

record replay_adapter =
  ra_source :: source_definition
  ra_is_file :: bool
  ra_readable :: bool
  ra_lines :: "string list"
  ra_fault :: "(nat \<times> read_fault) option"

definition truthy :: "json \<Rightarrow> bool" where
  "truthy v \<longleftrightarrow> v \<notin> {JNull, JBool False, JInt 0, JStr [], JArr [], JObj [], JFloat ''0.0'', JFloat ''-0.0''}"

definition adapter_init :: "replay_adapter \<Rightarrow> iexn + replay_adapter" where
  "adapter_init a = construct (\<lambda>a. let config = sd_config (ra_source a) in first_error
     [(sd_kind (ra_source a) \<noteq> ''recorded_replay'', OtherFailure ''ValueError''),
      (member config ''format'' \<noteq> Some (JStr ''jsonl''), OtherFailure ''ValueError''),
      (case member config ''loop'' of None \<Rightarrow> False | Some v \<Rightarrow> truthy v, OtherFailure ''ValueError'')]) a"

definition validate_connection :: "replay_adapter \<Rightarrow> bool \<times> string" where
  "validate_connection a =
     (if \<not> ra_is_file a then (False, ''Replay input does not exist'')
      else if \<not> ra_readable a then (False, ''Replay input is not readable'')
      else (True, ''Replay input is readable''))"

text \<open>
  A decoded object is a dict: a repeated key keeps its place and its last value. A float is
  the canonical literal (\<open>repr\<close>) of the value its text denotes, a parameter.
\<close>

fun py_value :: "(string \<Rightarrow> string) \<Rightarrow> json \<Rightarrow> json" where
  "py_value float_repr (JFloat t) = JFloat (float_repr t)"
| "py_value float_repr (JArr vs) = JArr (map (py_value float_repr) vs)"
| "py_value float_repr (JObj kvs) = JObj (dict_of (map (\<lambda>(k, v). (k, py_value float_repr v)) kvs))"
| "py_value float_repr v = v"

definition rejected_line :: "nat \<Rightarrow> string \<Rightarrow> string \<Rightarrow> string \<Rightarrow> adapter_item" where
  "rejected_line n raw code detail =
     \<lparr>it_checkpoint = JInt (int n), it_payload = None, it_raw_value = Some raw, it_error_code = Some code,
      it_safe_detail = Some detail\<rparr>"

definition line_item :: "(string \<Rightarrow> string) \<Rightarrow> nat \<Rightarrow> string \<Rightarrow> adapter_item" where
  "line_item float_repr line_number raw_line =
     (let stripped = py_strip raw_line in
      if stripped = [] then rejected_line line_number [] ''empty_record'' ''Replay line is empty''
      else (case loads stripped of
              None \<Rightarrow> rejected_line line_number stripped ''malformed_json'' ''Replay line is not valid JSON''
            | Some v \<Rightarrow>
                (case py_value float_repr v of
                   JObj payload \<Rightarrow>
                     \<lparr>it_checkpoint = JInt (int line_number), it_payload = Some payload, it_raw_value = None,
                      it_error_code = None, it_safe_detail = None\<rparr>
                 | _ \<Rightarrow> rejected_line line_number stripped ''record_not_object'' ''Replay record must be a JSON object'')))"

text \<open>\<open>int(checkpoint or 0)\<close> of a stored checkpoint, a text or an integer.\<close>

definition replay_start :: "json option \<Rightarrow> iexn + int" where
  "replay_start checkpoint =
     (case checkpoint of
        None \<Rightarrow> Inr 0
      | Some v \<Rightarrow>
          if \<not> truthy v then Inr 0
          else (case v of
                  JInt n \<Rightarrow> Inr n
                | JBool b \<Rightarrow> Inr 1
                | JStr t \<Rightarrow> (case py_int t of None \<Rightarrow> Inl (OtherFailure ''ValueError'') | Some n \<Rightarrow> Inr n)
                | _ \<Rightarrow> Inl (OtherFailure ''TypeError'')))"

definition fault_error :: "read_fault \<Rightarrow> iexn" where
  "fault_error f = (case f of
     OsFault \<Rightarrow> IngestionError ''source_read_failed'' ''Replay input could not be read'' True
   | DecodeFault \<Rightarrow> OtherFailure ''UnicodeDecodeError'')"

text \<open>
  What the generator yields, and the exception that ends it: the lines are numbered from 1, the
  ones up to the checkpoint are skipped, and a fault at a line stops the reading there.
\<close>

definition replay_read :: "(string \<Rightarrow> string) \<Rightarrow> replay_adapter \<Rightarrow> json option \<Rightarrow> adapter_item list \<times> iexn option" where
  "replay_read float_repr a checkpoint =
     (case replay_start checkpoint of
        Inl e \<Rightarrow> ([], Some e)
      | Inr start_after \<Rightarrow>
          (let readable = (case ra_fault a of None \<Rightarrow> ra_lines a | Some (n, _) \<Rightarrow> take n (ra_lines a)) in
           (map (\<lambda>(n, line). line_item float_repr n line)
              (filter (\<lambda>(n, line). start_after < int n) (enumerate 1 readable)),
            map_option (fault_error \<circ> snd) (ra_fault a))))"

definition replay_commit :: "ingestion_env \<Rightarrow> replay_adapter \<Rightarrow> json \<Rightarrow> unit store_op" where
  "replay_commit env a checkpoint =
     set_checkpoint env (sd_tenant_id (ra_source a)) (sd_source_id (ra_source a)) checkpoint"

section \<open>Normalization\<close>

record ingestion_service =
  sv_map :: category_map
  sv_max_attempts :: int

definition service_init :: "ingestion_service \<Rightarrow> iexn + ingestion_service" where
  "service_init svc = construct (\<lambda>svc. first_error [(sv_max_attempts svc < 1, OtherFailure ''ValueError'')]) svc"

text \<open>UTF-8 of a code point below 256: two bytes \<open>110000xx 10xxxxxx\<close> from 128 on.\<close>

fun utf8_char :: "char \<Rightarrow> string" where
  "utf8_char (Char b0 b1 b2 b3 b4 b5 b6 b7) =
     (if b7 then [Char b6 b7 False False False False True True, Char b0 b1 b2 b3 b4 b5 False True]
      else [Char b0 b1 b2 b3 b4 b5 b6 b7])"

definition utf8 :: "string \<Rightarrow> string" where
  "utf8 s = concat (map utf8_char s)"

definition payload_hash :: "ingestion_env \<Rightarrow> json \<Rightarrow> string" where
  "payload_hash env payload =
     (case payload of JStr s \<Rightarrow> ie_sha env (utf8 s) | _ \<Rightarrow> ie_sha env (utf8 (dumps (sort_keys payload))))"

definition parse_utc :: "json option \<Rightarrow> string \<Rightarrow> iexn + string \<times> int" where
  "parse_utc value field_name =
     (case value of
        Some (JStr s) \<Rightarrow>
          (case parse_iso (replace_z s) of
             None \<Rightarrow> Inl (ingestion_error ''timestamp_invalid'' (field_name @ '' is not a valid ISO 8601 timestamp''))
           | Some (Naive w) \<Rightarrow> Inl (ingestion_error ''timestamp_timezone_missing'' (field_name @ '' must include a timezone''))
           | Some (Aware w off) \<Rightarrow>
               (let t = w - off in if in_calendar t then Inr (iso_utc t, t) else Inl (OtherFailure ''OverflowError'')))
      | _ \<Rightarrow> Inl (ingestion_error ''timestamp_invalid'' (field_name @ '' must be an ISO 8601 string'')))"

definition allowed_attribute_keys :: "string list" where
  "allowed_attribute_keys = [''reporting_channel'', ''source_quality'', ''coverage_status'']"

definition max_source_clock_skew :: int where
  "max_source_clock_skew = seconds 300"

definition allowed_attributes :: "json option \<Rightarrow> iexn + json" where
  "allowed_attributes attributes =
     (case attributes of
        None \<Rightarrow> Inr (JObj [])
      | Some (JObj kvs) \<Rightarrow> Inr (JObj (filter (\<lambda>(k, v). k \<in> set allowed_attribute_keys) kvs))
      | _ \<Rightarrow> Inl (ingestion_error ''attributes_invalid'' ''attributes must be an object''))"

definition check_skew :: "int \<Rightarrow> int \<Rightarrow> iexn option" where
  "check_skew occurred_at received_at = first_error
     [(\<not> in_calendar (received_at + max_source_clock_skew), OtherFailure ''OverflowError''),
      (received_at + max_source_clock_skew < occurred_at,
         ingestion_error ''received_before_occurred'' ''received_at is earlier than occurred_at beyond the clock-skew allowance'')]"

definition normalized_event :: "(string \<times> json) list \<Rightarrow> string \<Rightarrow> string \<Rightarrow> string \<Rightarrow> json \<Rightarrow> (string \<times> json) list" where
  "normalized_event payload category occurred_at received_at attributes =
     dict_set ''attributes'' attributes (dict_set ''received_at'' (JStr received_at)
       (dict_set ''occurred_at'' (JStr occurred_at) (dict_set ''category'' (JStr category) payload)))"

definition normalize_event ::
  "ingestion_env \<Rightarrow> category_map \<Rightarrow> (string \<times> json) list \<Rightarrow> string \<Rightarrow> source_definition \<Rightarrow> iexn + (string \<times> json) list" where
  "normalize_event env cm payload authenticated_tenant_id source =
     fst (and_then (raise_opt (first_error
       [(member payload ''tenant_id'' \<noteq> Some (JStr authenticated_tenant_id),
           ingestion_error ''event_tenant_mismatch'' ''Event tenant does not match authenticated context''),
        (member payload ''source_id'' \<noteq> Some (JStr (sd_source_id source)),
           ingestion_error ''event_source_mismatch'' ''Event source does not match its adapter'')]) ()) (\<lambda>_ _.
     and_then (lift (normalize_category cm (member payload ''category'')) ()) (\<lambda>category _.
     and_then (lift (parse_utc (member payload ''occurred_at'') ''occurred_at'') ()) (\<lambda>occurred _.
     and_then (lift (parse_utc (member payload ''received_at'') ''received_at'') ()) (\<lambda>received _.
     and_then (raise_opt (check_skew (snd occurred) (snd received)) ()) (\<lambda>_ _.
     and_then (lift (allowed_attributes (member payload ''attributes'')) ()) (\<lambda>attributes _.
     let normalized = normalized_event payload category (fst occurred) (fst received) attributes in
     and_then (raise_opt (validate_contract env ''incident-event.schema.json'' (JObj normalized)) ()) (\<lambda>_ _.
     (Inr normalized, ())))))))))"

section \<open>The ingestion loop\<close>

text \<open>The local variables of \<open>ingest_replay\<close>, which its \<open>except\<close> clause still reads, and the store.\<close>

record ingest_progress =
  ip_store :: ingestion_store
  ip_checkpoint :: "json option"
  ip_accepted :: int
  ip_duplicate :: int
  ip_rejected :: int
  ip_last_received_at :: "string option"
  ip_last_event_at :: "string option"
  ip_last_error_code :: "string option"

type_synonym 'a ingest_op = "ingest_progress \<Rightarrow> (iexn, 'a, ingest_progress) outcome"

definition on_store :: "'a store_op \<Rightarrow> 'a ingest_op" where
  "on_store f p = (case f (ip_store p) of (r, s) \<Rightarrow> (r, p\<lparr>ip_store := s\<rparr>))"

text \<open>The attempts left, the current one included.\<close>

primrec insert_with_retry :: "ingestion_env \<Rightarrow> (string \<times> json) list \<Rightarrow> string \<Rightarrow> nat \<Rightarrow> bool store_op" where
  "insert_with_retry env event event_hash 0 s = (Inl (OtherFailure ''AssertionError''), s)"
| "insert_with_retry env event event_hash (Suc left) s =
     (case insert_event env event event_hash s of
        (Inl OperationalError, s) \<Rightarrow>
          (if left = 0 then
             (Inl (IngestionError ''restricted_store_unavailable''
                     ''Restricted ingestion store remained unavailable after bounded retries'' True), s)
           else insert_with_retry env event event_hash left s)
      | r \<Rightarrow> r)"

definition quarantine_item ::
  "ingestion_env \<Rightarrow> source_definition \<Rightarrow> json \<Rightarrow> string \<Rightarrow> string \<Rightarrow> json option \<Rightarrow> unit ingest_op" where
  "quarantine_item env source checkpoint code detail payload p =
     on_store (quarantine env (sd_tenant_id source) (sd_source_id source) checkpoint code detail payload
                 (payload_hash env (case payload of None \<Rightarrow> JNull | Some v \<Rightarrow> v)))
       (p\<lparr>ip_rejected := ip_rejected p + 1, ip_last_error_code := Some code\<rparr>)"

definition accept_payload ::
  "ingestion_env \<Rightarrow> ingestion_service \<Rightarrow> source_definition \<Rightarrow> string \<Rightarrow> (string \<times> json) list option \<Rightarrow> unit ingest_op" where
  "accept_payload env svc source authenticated_tenant_id payload p =
     (case payload of
        None \<Rightarrow> (Inl (ingestion_error ''adapter_payload_missing'' ''Adapter item has neither a payload nor an error code''), p)
      | Some payload \<Rightarrow>
          and_then (lift (normalize_event env (sv_map svc) payload authenticated_tenant_id source) p) (\<lambda>event p.
          and_then (on_store (insert_with_retry env event (payload_hash env (JObj event)) (nat (sv_max_attempts svc))) p)
            (\<lambda>inserted p.
            if inserted then
              (Inr (), p\<lparr>ip_accepted := ip_accepted p + 1, ip_last_received_at := text_member event ''received_at'',
                         ip_last_event_at := text_member event ''occurred_at''\<rparr>)
            else (Inr (), p\<lparr>ip_duplicate := ip_duplicate p + 1\<rparr>))))"

definition is_error_item :: "adapter_item \<Rightarrow> bool" where
  "is_error_item it \<longleftrightarrow> (case it_error_code it of None \<Rightarrow> False | Some code \<Rightarrow> code \<noteq> [])"

definition or_text :: "string option \<Rightarrow> string \<Rightarrow> string" where
  "or_text v other = (case v of None \<Rightarrow> other | Some s \<Rightarrow> if s = [] then other else s)"

definition process_item ::
  "ingestion_env \<Rightarrow> ingestion_service \<Rightarrow> replay_adapter \<Rightarrow> source_definition \<Rightarrow> string \<Rightarrow> adapter_item \<Rightarrow> unit ingest_op" where
  "process_item env svc a source authenticated_tenant_id it p =
     (let p = p\<lparr>ip_checkpoint := Some (it_checkpoint it)\<rparr> in
      and_then
        (if is_error_item it then
           quarantine_item env source (it_checkpoint it) (or_text (it_error_code it) [])
             (or_text (it_safe_detail it) ''Adapter rejected a record'') (Some (JStr (or_text (it_raw_value it) []))) p
         else (case accept_payload env svc source authenticated_tenant_id (it_payload it) p of
                 (Inl (IngestionError code message retryable), p) \<Rightarrow>
                   quarantine_item env source (it_checkpoint it) code message (map_option JObj (it_payload it)) p
               | r \<Rightarrow> r))
        (\<lambda>_ p. on_store (replay_commit env a (it_checkpoint it)) p))"

primrec process_items ::
  "ingestion_env \<Rightarrow> ingestion_service \<Rightarrow> replay_adapter \<Rightarrow> source_definition \<Rightarrow> string \<Rightarrow> adapter_item list \<Rightarrow> unit ingest_op" where
  "process_items env svc a source tenant [] p = (Inr (), p)"
| "process_items env svc a source tenant (it # its) p =
     and_then (process_item env svc a source tenant it p) (\<lambda>_ p. process_items env svc a source tenant its p)"

definition progress_summary :: "ingest_progress \<Rightarrow> run_summary" where
  "progress_summary p =
     \<lparr>rs_checkpoint = ip_checkpoint p, rs_accepted = ip_accepted p, rs_duplicate = ip_duplicate p,
      rs_rejected = ip_rejected p, rs_last_received_at = ip_last_received_at p, rs_last_event_at = ip_last_event_at p,
      rs_last_error_code = ip_last_error_code p\<rparr>"

definition failure_code :: "iexn \<Rightarrow> string" where
  "failure_code e = (case e of IngestionError code message retryable \<Rightarrow> code | _ \<Rightarrow> ''unexpected_ingestion_failure'')"

definition replay_body ::
  "ingestion_env \<Rightarrow> (string \<Rightarrow> string) \<Rightarrow> ingestion_service \<Rightarrow> replay_adapter \<Rightarrow> source_definition \<Rightarrow> string \<Rightarrow> string \<Rightarrow>
   run_row ingest_op" where
  "replay_body env float_repr svc a source tenant run_id p =
     (case replay_read float_repr a (ip_checkpoint p) of (items, fault) \<Rightarrow>
      and_then (process_items env svc a source tenant items p) (\<lambda>_ p.
      and_then (raise_opt fault p) (\<lambda>_ p.
      on_store (finish_run env run_id (Some (sd_tenant_id source)) ''completed'' (progress_summary p)) p)))"

definition ingest_replay ::
  "ingestion_env \<Rightarrow> (string \<Rightarrow> string) \<Rightarrow> ingestion_service \<Rightarrow> replay_adapter \<Rightarrow> source_definition \<Rightarrow> string \<Rightarrow> run_row store_op" where
  "ingest_replay env float_repr svc a source authenticated_tenant_id s =
     and_then (raise_opt (source_authorize source authenticated_tenant_id) s) (\<lambda>_ s.
     and_then (raise_if (\<not> fst (validate_connection a))
       (ingestion_error ''source_validation_failed'' (snd (validate_connection a))) s) (\<lambda>_ s.
     and_then (register_source env source s) (\<lambda>_ s.
     and_then (start_run env source s) (\<lambda>run_id s.
     let p = \<lparr>ip_store = s, ip_checkpoint = get_checkpoint (sd_tenant_id source) (sd_source_id source) s,
              ip_accepted = 0, ip_duplicate = 0, ip_rejected = 0, ip_last_received_at = None, ip_last_event_at = None,
              ip_last_error_code = None\<rparr> in
     (case replay_body env float_repr svc a source authenticated_tenant_id run_id p of
        (Inr run, p) \<Rightarrow> (Inr run, ip_store p)
      | (Inl e, p) \<Rightarrow>
          and_then (finish_run env run_id (Some (sd_tenant_id source)) ''failed''
            ((progress_summary p)\<lparr>rs_last_error_code := Some (failure_code e)\<rparr>) (ip_store p)) (\<lambda>_ s. (Inl e, s)))))))"

end
