(* ===== verification/Ingestion_Facts.thy ===== *)
theory Ingestion_Facts
  imports Ingestion_Service
begin

text \<open>
  The effect of the ingestion loop on the tables. What an item contributes is a function of the
  item alone (\<open>item_row\<close>, up to the time of insertion), and the accepted events are the fold of
  \<open>accept_item\<close>: the reference the loop is compared with.
\<close>

section \<open>The reference\<close>

definition event_content :: "accepted_event \<Rightarrow> accepted_event" where
  "event_content e = e\<lparr>ev_ingested_at := []\<rparr>"

definition contents :: "ingestion_store \<Rightarrow> accepted_event list" where
  "contents s = map event_content (is_events s)"

definition item_row ::
  "ingestion_env \<Rightarrow> ingestion_service \<Rightarrow> source_definition \<Rightarrow> string \<Rightarrow> adapter_item \<Rightarrow> accepted_event option" where
  "item_row env svc source tenant it =
     (if is_error_item it then None
      else case it_payload it of
        None \<Rightarrow> None
      | Some payload \<Rightarrow>
          (case normalize_event env (sv_map svc) payload tenant source of
             Inl e \<Rightarrow> None
           | Inr event \<Rightarrow> map_option (\<lambda>row. row []) (event_row event (payload_hash env (JObj event)))))"

definition accept_row :: "accepted_event option \<Rightarrow> accepted_event list \<Rightarrow> accepted_event list" where
  "accept_row row rows =
     (case row of None \<Rightarrow> rows | Some r \<Rightarrow> if list_ex (same_event_key r) rows then rows else rows @ [r])"

lemma event_content_key [simp]:
  "same_event_key (event_content a) b = same_event_key a b" "same_event_key a (event_content b) = same_event_key a b"
  by (simp_all add: same_event_key_def event_content_def)

lemma same_key_content [simp]: "list_ex (same_event_key r) (map event_content rows) = list_ex (same_event_key r) rows"
  by (induction rows) simp_all

lemma event_row_now:
  assumes "event_row event h = Some row"
  shows "event_content (row now) = row []" and "ev_tenant_id (row now) = ev_tenant_id (row [])"
    and "ev_source_id (row now) = ev_source_id (row [])" and "same_event_key (row now) = same_event_key (row [])"
    and "ev_latitude (row now) = ev_latitude (row [])" and "ev_longitude (row now) = ev_longitude (row [])"
    and "ev_hash (row now) = h"
proof -
  have "row now = (row [])\<lparr>ev_ingested_at := now\<rparr> \<and> ev_hash (row []) = h \<and> event_content (row []) = row []"
    using assms by (auto simp: event_row_def event_content_def split: option.split_asm json.split_asm)
  then show "event_content (row now) = row []" "ev_tenant_id (row now) = ev_tenant_id (row [])"
    "ev_source_id (row now) = ev_source_id (row [])" "same_event_key (row now) = same_event_key (row [])"
    "ev_latitude (row now) = ev_latitude (row [])" "ev_longitude (row now) = ev_longitude (row [])" "ev_hash (row now) = h"
    by (auto simp: event_content_def same_event_key_def fun_eq_iff)
qed

lemma accept_row_twice:
  assumes "prefix (accept_row row rows) later"
  shows "accept_row row later = later"
proof (cases row)
  case (Some r)
  have "same_event_key r r" by (simp add: same_event_key_def)
  with Some assms show ?thesis
    by (auto simp: accept_row_def list_ex_iff prefix_def split: if_splits)
qed (simp add: accept_row_def)

lemma accept_row_prefix: "prefix rows (accept_row row rows)"
  by (simp add: accept_row_def split: option.splits)

lemma fold_accept_prefix: "prefix rows (fold accept_row its rows)"
  by (induction its arbitrary: rows) (simp, metis accept_row_prefix fold_simps(2) prefix_order.trans)

lemma fold_accept_again:
  assumes "set again \<subseteq> set its" and later: "prefix (fold accept_row its rows) later"
  shows "fold accept_row again later = later"
proof -
  have once: "accept_row r later = later" if "r \<in> set its" for r
  proof -
    from that obtain xs ys where "its = xs @ r # ys" by (meson split_list)
    then have "prefix (accept_row r (fold accept_row xs rows)) (fold accept_row its rows)"
      by (simp add: fold_accept_prefix)
    with later show ?thesis by (meson accept_row_twice prefix_order.trans)
  qed
  from assms(1) show ?thesis by (induction again) (auto simp: once)
qed

section \<open>The store's methods\<close>

lemma clock_frame [frame_simps]:
  "utc_now env s = (r, t) \<Longrightarrow> is_events t = is_events s \<and> is_sources t = is_sources s \<and> is_checkpoints t = is_checkpoints s
     \<and> is_quarantine t = is_quarantine s \<and> is_runs t = is_runs s"
  "fresh_uuid env s = (r', t) \<Longrightarrow> is_events t = is_events s \<and> is_sources t = is_sources s \<and> is_checkpoints t = is_checkpoints s
     \<and> is_quarantine t = is_quarantine s \<and> is_runs t = is_runs s"
  by (auto simp: utc_now_def fresh_uuid_def)

lemma register_frame: "is_events (snd (register_source env source s)) = is_events s"
  "is_quarantine (snd (register_source env source s)) = is_quarantine s"
  "is_checkpoints (snd (register_source env source s)) = is_checkpoints s"
  "fst (register_source env source s) = Inr ()"
  by (simp_all add: register_source_def utc_now_def Let_def)

lemma start_run_frame: "is_events (snd (start_run env source s)) = is_events s"
  "is_quarantine (snd (start_run env source s)) = is_quarantine s"
  "is_checkpoints (snd (start_run env source s)) = is_checkpoints s"
  by (simp_all add: start_run_def fresh_uuid_def utc_now_def raise_if_def)

lemma finish_run_frame: "is_events (snd (finish_run env run_id tenant status summary s)) = is_events s"
  "is_quarantine (snd (finish_run env run_id tenant status summary s)) = is_quarantine s"
  "is_checkpoints (snd (finish_run env run_id tenant status summary s)) = is_checkpoints s"
  by (auto simp: finish_run_def get_run_def utc_now_def raise_opt_def Let_def split: option.split and_then_split prod.split)

lemma set_checkpoint_frame: "is_events (snd (set_checkpoint env tenant source c s)) = is_events s"
  "is_quarantine (snd (set_checkpoint env tenant source c s)) = is_quarantine s"
  by (simp_all add: set_checkpoint_def utc_now_def raise_if_def)

lemma quarantine_frame: "is_events (snd (quarantine env tenant source c code detail payload h s)) = is_events s"
  "is_checkpoints (snd (quarantine env tenant source c code detail payload h s)) = is_checkpoints s"
  by (simp_all add: quarantine_def fresh_uuid_def utc_now_def raise_if_def)

lemma quarantine_adds:
  "quarantine env tenant source c code detail payload h s = (Inr (), t) \<Longrightarrow>
     length (is_quarantine t) = Suc (length (is_quarantine s))"
  by (auto simp: quarantine_def fresh_uuid_def utc_now_def effect_simps)

section \<open>Inserting\<close>

text \<open>
  What an insertion does to the events, and why it may refuse one when the database is up.
\<close>

definition insertion :: "(string \<Rightarrow> accepted_event) option \<Rightarrow> iexn + bool \<Rightarrow> accepted_event list \<Rightarrow> accepted_event list \<Rightarrow> bool" where
  "insertion row r before after \<longleftrightarrow>
     (case r of
        Inr True \<Rightarrow> \<exists>f now. row = Some f \<and> \<not> list_ex (same_event_key (f [])) before \<and> after = before @ [f now]
      | Inr False \<Rightarrow> after = before \<and> (\<exists>f. row = Some f \<and> list_ex (same_event_key (f [])) before)
      | Inl e \<Rightarrow> after = before)"

lemma insert_event_eq:
  assumes "event_row event h = Some f"
  shows "insert_event env event h s =
    (let t = s\<lparr>is_inserts := Suc (is_inserts s), is_reads := Suc (is_reads s)\<rparr>;
         row = f (iso_utc (ie_clock env (is_reads s))) in
     if ie_unavailable env (is_inserts s) then (Inl OperationalError, t)
     else if sql_null (ev_latitude row) \<or> sql_null (ev_longitude row) then (Inl IntegrityError, t)
     else case select_row (same_event_key row) (is_events s) of
       Some existing \<Rightarrow>
         (if ev_hash existing = h then (Inr False, t)
          else (Inl (ingestion_error ''idempotency_conflict'' ''The event id already exists with different normalized content''), t))
     | None \<Rightarrow>
         if source_registered (ev_tenant_id row) (ev_source_id row) t
         then (Inr True, t\<lparr>is_events := is_events s @ [row]\<rparr>) else (Inl IntegrityError, t))"
  using assms by (simp add: insert_event_def Let_def utc_now_def fetch_def raise_if_def split: option.split)

lemma insert_event_none: "event_row event h = None \<Longrightarrow>
    insert_event env event h s = (Inl (OtherFailure ''KeyError''), s\<lparr>is_inserts := Suc (is_inserts s)\<rparr>)"
  by (simp add: insert_event_def Let_def fetch_def)

lemma insert_event_frame:
  "insert_event env event h s = (r, t) \<Longrightarrow> is_quarantine t = is_quarantine s \<and> is_checkpoints t = is_checkpoints s"
  by (cases "event_row event h")
    (auto simp: insert_event_none insert_event_eq Let_def split: option.split_asm if_split_asm)

lemma insert_event_effect:
  assumes "insert_event env event h s = (r, t)"
  shows "insertion (event_row event h) r (is_events s) (is_events t)"
proof (cases "event_row event h")
  case (Some f)
  note key = event_row_now(4) [OF Some, of "iso_utc (ie_clock env (is_reads s))"]
  from assms show ?thesis
    by (auto simp: insert_event_eq [OF Some] insertion_def Some key Let_def select_row_None list_ex_iff
        split: option.split_asm if_split_asm dest!: select_row_Some)
qed (use assms in \<open>auto simp: insert_event_none insertion_def\<close>)

lemma insert_event_refused:
  assumes "insert_event env event h s = (Inl (IngestionError code message retryable), t)"
  shows "\<exists>f. event_row event h = Some f \<and> list_ex (same_event_key (f [])) (is_events s)"
proof (cases "event_row event h")
  case (Some f)
  note key = event_row_now(4) [OF Some, of "iso_utc (ie_clock env (is_reads s))"]
  from assms show ?thesis
    by (auto simp: insert_event_eq [OF Some] Some key Let_def list_ex_iff
        split: option.split_asm if_split_asm dest!: select_row_Some)
qed (use assms in \<open>simp add: insert_event_none\<close>)

lemma insert_event_up:
  "(\<And>n. \<not> ie_unavailable env n) \<Longrightarrow> insert_event env event h s \<noteq> (Inl OperationalError, t)"
  by (cases "event_row event h") (auto simp: insert_event_none insert_event_eq Let_def split: option.split)

lemma retry_cases:
  assumes "insert_event env event h s = (r1, s1)"
  shows "insert_with_retry env event h (Suc n) s =
    (if r1 = Inl OperationalError then
       (if n = 0 then (Inl (IngestionError ''restricted_store_unavailable''
          ''Restricted ingestion store remained unavailable after bounded retries'' True), s1)
        else insert_with_retry env event h n s1)
     else (r1, s1))"
  using assms by (auto split: sum.split iexn.split)

lemma retry_frame:
  "insert_with_retry env event h n s = (r, t) \<Longrightarrow> is_quarantine t = is_quarantine s \<and> is_checkpoints t = is_checkpoints s"
proof (induction n arbitrary: s)
  case (Suc n)
  obtain r1 s1 where one: "insert_event env event h s = (r1, s1)" by (cases "insert_event env event h s")
  show ?case
    using Suc insert_event_frame [OF one] unfolding retry_cases [OF one] by (auto split: if_split_asm)
qed simp

lemma retry_effect:
  "insert_with_retry env event h n s = (r, t) \<Longrightarrow> insertion (event_row event h) r (is_events s) (is_events t)"
proof (induction n arbitrary: s)
  case (Suc n)
  obtain r1 s1 where one: "insert_event env event h s = (r1, s1)" by (cases "insert_event env event h s")
  note effect = insert_event_effect [OF one]
  show ?case
  proof (cases "r1 = Inl OperationalError \<and> n \<noteq> 0")
    case True
    with Suc.prems have "insert_with_retry env event h n s1 = (r, t)" unfolding retry_cases [OF one] by simp
    then have "insertion (event_row event h) r (is_events s1) (is_events t)" by (rule Suc.IH)
    with effect True show ?thesis by (simp add: insertion_def)
  next
    case False
    with Suc.prems have "t = s1" "r = r1 \<or> (\<exists>e e'. r = Inl e \<and> r1 = Inl e')"
      unfolding retry_cases [OF one] by (auto split: if_split_asm)
    with effect show ?thesis by (auto simp: insertion_def)
  qed
qed (auto simp: insertion_def)

lemma retry_up:
  assumes "\<And>n. \<not> ie_unavailable env n"
  shows "insert_with_retry env event h (Suc n) s = insert_event env event h s"
  using insert_event_up [OF assms, of event h s]
  by (cases "insert_event env event h s") (auto simp: retry_cases simp del: insert_with_retry.simps)

section \<open>One item\<close>

text \<open>The events after a step are those before it, or one more: the row of its item, under a new key.\<close>

definition grows :: "accepted_event option \<Rightarrow> accepted_event list \<Rightarrow> accepted_event list \<Rightarrow> bool" where
  "grows row before after \<longleftrightarrow> after = before \<or>
     (\<exists>e. after = before @ [e] \<and> row = Some (event_content e) \<and> \<not> list_ex (same_event_key e) before)"

text \<open>The counters follow the tables.\<close>

definition counted :: "int \<Rightarrow> ingest_progress \<Rightarrow> ingest_progress \<Rightarrow> bool" where
  "counted n p q \<longleftrightarrow>
     ip_accepted q + ip_duplicate q + ip_rejected q = ip_accepted p + ip_duplicate p + ip_rejected p + n \<and>
     int (length (is_events (ip_store q))) - ip_accepted q = int (length (is_events (ip_store p))) - ip_accepted p \<and>
     int (length (is_quarantine (ip_store q))) - ip_rejected q = int (length (is_quarantine (ip_store p))) - ip_rejected p"

lemma counted_trans: "counted m p q \<Longrightarrow> counted n q r \<Longrightarrow> counted (m + n) p r"
  by (simp add: counted_def)

lemma quarantine_item_effect:
  assumes "quarantine_item env source c code detail payload p = (r, q)"
  shows "is_events (ip_store q) = is_events (ip_store p)" and "r = Inr () \<Longrightarrow> counted 1 p q"
proof -
  obtain r' t where run: "quarantine env (sd_tenant_id source) (sd_source_id source) c code detail payload
      (payload_hash env (case payload of None \<Rightarrow> JNull | Some v \<Rightarrow> v)) (ip_store p) = (r', t)"
    by fastforce
  note frame = quarantine_frame(1) [of env "sd_tenant_id source" "sd_source_id source" c code detail payload
    "payload_hash env (case payload of None \<Rightarrow> JNull | Some v \<Rightarrow> v)" "ip_store p", unfolded run snd_conv]
  from assms run have q: "r = r'" "q = p\<lparr>ip_rejected := ip_rejected p + 1, ip_last_error_code := Some code, ip_store := t\<rparr>"
    by (auto simp: quarantine_item_def on_store_def)
  with frame show "is_events (ip_store q) = is_events (ip_store p)" by simp
  assume "r = Inr ()"
  with q run frame quarantine_adds [of env "sd_tenant_id source" "sd_source_id source" c code detail payload _ "ip_store p" t]
  show "counted 1 p q" by (simp add: counted_def)
qed

lemma commit_effect:
  assumes "on_store (replay_commit env a c) p = (r, q)"
  shows "is_events (ip_store q) = is_events (ip_store p)" and "counted 0 p q" and "ip_checkpoint q = ip_checkpoint p"
  using assms set_checkpoint_frame [of env "sd_tenant_id (ra_source a)" "sd_source_id (ra_source a)" c "ip_store p"]
  by (auto simp: on_store_def replay_commit_def counted_def split: prod.split_asm)

text \<open>Offering one payload: what each outcome says of the tables and the counters.\<close>

definition offered :: "accepted_event option \<Rightarrow> ingest_progress \<Rightarrow> iexn + unit \<Rightarrow> ingest_progress \<Rightarrow> bool" where
  "offered row p r q \<longleftrightarrow> ip_checkpoint q = ip_checkpoint p \<and>
     (case r of
        Inl e \<Rightarrow> counted 0 p q \<and> is_events (ip_store q) = is_events (ip_store p)
      | Inr u \<Rightarrow> counted 1 p q \<and> contents (ip_store q) = accept_row row (contents (ip_store p)) \<and>
          grows row (is_events (ip_store p)) (is_events (ip_store q)))"

lemma accept_payload_refused:
  assumes "\<And>payload event. payload_of = Some payload \<Longrightarrow>
      normalize_event env (sv_map svc) payload tenant source \<noteq> Inr event"
  shows "\<exists>e. accept_payload env svc source tenant payload_of p = (Inl e, p)"
proof (cases payload_of)
  case (Some payload)
  with assms show ?thesis
    by (cases "normalize_event env (sv_map svc) payload tenant source") (auto simp: accept_payload_def lift_def)
qed (simp add: accept_payload_def)

lemma accept_payload_normalized:
  assumes "normalize_event env (sv_map svc) payload tenant source = Inr event"
    and "insert_with_retry env event (payload_hash env (JObj event)) (nat (sv_max_attempts svc)) (ip_store p) = (r, t)"
  shows "accept_payload env svc source tenant (Some payload) p =
    (case r of
       Inl e \<Rightarrow> (Inl e, p\<lparr>ip_store := t\<rparr>)
     | Inr True \<Rightarrow> (Inr (), p\<lparr>ip_store := t, ip_accepted := ip_accepted p + 1,
         ip_last_received_at := text_member event ''received_at'', ip_last_event_at := text_member event ''occurred_at''\<rparr>)
     | Inr False \<Rightarrow> (Inr (), p\<lparr>ip_store := t, ip_duplicate := ip_duplicate p + 1\<rparr>))"
  using assms by (simp add: accept_payload_def on_store_def lift_def split: sum.split bool.split)

lemma offered_normalized:
  assumes event: "normalize_event env (sv_map svc) payload tenant source = Inr event"
    and it: "it_payload it = Some payload" "\<not> is_error_item it"
    and run: "accept_payload env svc source tenant (Some payload) p = (r, q)"
  shows "offered (item_row env svc source tenant it) p r q"
proof -
  let ?h = "payload_hash env (JObj event)"
  obtain r' t where retry: "insert_with_retry env event ?h (nat (sv_max_attempts svc)) (ip_store p) = (r', t)" by fastforce
  note effect = retry_effect [OF retry] and frame = retry_frame [OF retry]
  note eq = accept_payload_normalized [OF event retry, unfolded run]
  have row: "item_row env svc source tenant it = map_option (\<lambda>f. f []) (event_row event ?h)"
    using it event by (simp add: item_row_def)
  show ?thesis
  proof (cases r')
    case (Inl e)
    with eq effect frame show ?thesis by (simp add: offered_def counted_def insertion_def)
  next
    case (Inr inserted)
    show ?thesis
    proof (cases inserted)
      case True
      with effect Inr obtain f now where f: "event_row event ?h = Some f"
        "\<not> list_ex (same_event_key (f [])) (is_events (ip_store p))" "is_events t = is_events (ip_store p) @ [f now]"
        by (auto simp: insertion_def)
      with eq frame row Inr True event_row_now(1,4) [OF f(1), of now] show ?thesis
        by (simp add: offered_def grows_def counted_def contents_def accept_row_def)
    next
      case False
      with effect Inr obtain f where "event_row event ?h = Some f" "is_events t = is_events (ip_store p)"
        "list_ex (same_event_key (f [])) (is_events (ip_store p))"
        by (auto simp: insertion_def)
      with eq frame row Inr False show ?thesis
        by (simp add: offered_def grows_def counted_def contents_def accept_row_def)
    qed
  qed
qed

lemma offered_payload:
  assumes run: "accept_payload env svc source tenant (it_payload it) p = (r, q)" and it: "\<not> is_error_item it"
  shows "offered (item_row env svc source tenant it) p r q"
proof (cases "\<exists>payload event. it_payload it = Some payload \<and> normalize_event env (sv_map svc) payload tenant source = Inr event")
  case True
  then obtain payload event where "it_payload it = Some payload"
    "normalize_event env (sv_map svc) payload tenant source = Inr event" by blast
  with offered_normalized [of env svc payload tenant source event it p r q] it run show ?thesis by simp
next
  case False
  with accept_payload_refused [of "it_payload it" env svc tenant source p] run
  have "q = p \<and> (\<exists>e. r = Inl e)" by force
  then show ?thesis by (auto simp: offered_def counted_def)
qed

text \<open>A payload refused while the database is up contributes no row, or one whose key is taken.\<close>

lemma refused_adds_nothing:
  assumes run: "accept_payload env svc source tenant (it_payload it) p = (Inl (IngestionError code message retryable), q)"
    and it: "\<not> is_error_item it" and up: "\<And>n. \<not> ie_unavailable env n" and attempts: "1 \<le> sv_max_attempts svc"
  shows "accept_row (item_row env svc source tenant it) (contents (ip_store p)) = contents (ip_store p)"
proof (cases "\<exists>payload event. it_payload it = Some payload \<and> normalize_event env (sv_map svc) payload tenant source = Inr event")
  case True
  then obtain payload event where event: "it_payload it = Some payload"
    "normalize_event env (sv_map svc) payload tenant source = Inr event" by blast
  let ?h = "payload_hash env (JObj event)"
  obtain n where "nat (sv_max_attempts svc) = Suc n" using attempts by (cases "nat (sv_max_attempts svc)") auto
  then have "insert_with_retry env event ?h (nat (sv_max_attempts svc)) (ip_store p) = insert_event env event ?h (ip_store p)"
    using retry_up [OF up] by simp
  moreover obtain r' t where "insert_event env event ?h (ip_store p) = (r', t)" by fastforce
  ultimately have "insert_event env event ?h (ip_store p) = (Inl (IngestionError code message retryable), t)"
    using accept_payload_normalized [OF event(2), of p r' t] run event(1) by (auto split: sum.split_asm bool.split_asm)
  from insert_event_refused [OF this] event it show ?thesis
    by (auto simp: item_row_def accept_row_def contents_def)
next
  case False
  then have "item_row env svc source tenant it = None"
    by (auto simp: item_row_def split: option.split sum.split)
  then show ?thesis by (simp add: accept_row_def)
qed

text \<open>An item is offered or rejected outright, quarantined when refused, and then committed.\<close>

definition settle_item ::
  "ingestion_env \<Rightarrow> ingestion_service \<Rightarrow> source_definition \<Rightarrow> string \<Rightarrow> adapter_item \<Rightarrow> unit ingest_op" where
  "settle_item env svc source tenant it p =
     (if is_error_item it then
        quarantine_item env source (it_checkpoint it) (or_text (it_error_code it) [])
          (or_text (it_safe_detail it) ''Adapter rejected a record'') (Some (JStr (or_text (it_raw_value it) []))) p
      else (case accept_payload env svc source tenant (it_payload it) p of
              (Inl (IngestionError code message retryable), p) \<Rightarrow>
                quarantine_item env source (it_checkpoint it) code message (map_option JObj (it_payload it)) p
            | r \<Rightarrow> r))"

lemma process_item_settles:
  "process_item env svc a source tenant it p =
     and_then (settle_item env svc source tenant it (p\<lparr>ip_checkpoint := Some (it_checkpoint it)\<rparr>))
       (\<lambda>_. on_store (replay_commit env a (it_checkpoint it)))"
  by (simp add: process_item_def settle_item_def Let_def)

lemma settle_item_cases:
  assumes "settle_item env svc source tenant it p = (r, q)"
  obtains
    (rejected) c code detail payload where "is_error_item it" "quarantine_item env source c code detail payload p = (r, q)"
  | (refused) code message retryable p' payload where "\<not> is_error_item it"
      "accept_payload env svc source tenant (it_payload it) p = (Inl (IngestionError code message retryable), p')"
      "quarantine_item env source (it_checkpoint it) code message payload p' = (r, q)"
  | (offer) "\<not> is_error_item it" "accept_payload env svc source tenant (it_payload it) p = (r, q)"
  using assms by (cases "accept_payload env svc source tenant (it_payload it) p")
    (auto simp: settle_item_def split: if_splits sum.split_asm iexn.split_asm)

lemma item_row_error: "is_error_item it \<Longrightarrow> item_row env svc source tenant it = None"
  by (simp add: item_row_def)

lemma settle_item_effect:
  assumes "settle_item env svc source tenant it p = (r, q)"
  shows "grows (item_row env svc source tenant it) (is_events (ip_store p)) (is_events (ip_store q)) \<and>
    (r = Inr () \<longrightarrow> counted 1 p q)"
  using assms
proof (cases rule: settle_item_cases)
  case (rejected c code detail payload)
  with quarantine_item_effect [OF rejected(2)] show ?thesis by (simp add: grows_def)
next
  case (refused code message retryable p' payload)
  note offered_payload [OF refused(2,1)]
  with quarantine_item_effect [OF refused(3)] counted_trans [of 0 p p' 1 q] show ?thesis
    by (auto simp: offered_def grows_def)
next
  case offer
  with offered_payload [OF offer(2,1)] show ?thesis
    by (auto simp: offered_def grows_def split: sum.split_asm)
qed

lemma settle_item_contents:
  assumes run: "settle_item env svc source tenant it p = (Inr u, q)"
    and up: "\<And>n. \<not> ie_unavailable env n" and attempts: "1 \<le> sv_max_attempts svc"
  shows "contents (ip_store q) = accept_row (item_row env svc source tenant it) (contents (ip_store p))"
  using run
proof (cases rule: settle_item_cases)
  case (rejected c code detail payload)
  with quarantine_item_effect(1) [OF rejected(2)] show ?thesis by (simp add: item_row_error accept_row_def contents_def)
next
  case (refused code message retryable p' payload)
  have "contents (ip_store q) = contents (ip_store p)"
    using offered_payload [OF refused(2,1)] quarantine_item_effect(1) [OF refused(3)] by (simp add: offered_def contents_def)
  with refused_adds_nothing [OF refused(2,1) up attempts] show ?thesis by simp
next
  case offer
  with offered_payload [OF offer(2,1)] show ?thesis by (simp add: offered_def)
qed

lemma process_item_effect:
  assumes "process_item env svc a source tenant it p = (r, q)"
  shows "grows (item_row env svc source tenant it) (is_events (ip_store p)) (is_events (ip_store q)) \<and>
    (r = Inr () \<longrightarrow> counted 1 p q)"
proof -
  let ?p = "p\<lparr>ip_checkpoint := Some (it_checkpoint it)\<rparr>"
  obtain r1 p1 where settle: "settle_item env svc source tenant it ?p = (r1, p1)" by fastforce
  have counted_p: "counted n ?p x = counted n p x" for n x by (simp add: counted_def)
  note effect = settle_item_effect [OF settle]
  show ?thesis
  proof (cases r1)
    case (Inl e)
    with assms settle effect show ?thesis by (auto simp: process_item_settles)
  next
    case (Inr u)
    with assms settle have "on_store (replay_commit env a (it_checkpoint it)) p1 = (r, q)" by (simp add: process_item_settles)
    from commit_effect [OF this] effect Inr show ?thesis
      using counted_trans [of 1 p p1 0 q] by (auto simp: counted_p)
  qed
qed

lemma process_item_contents:
  assumes "process_item env svc a source tenant it p = (Inr u, q)"
    and "\<And>n. \<not> ie_unavailable env n" and "1 \<le> sv_max_attempts svc"
  shows "contents (ip_store q) = accept_row (item_row env svc source tenant it) (contents (ip_store p))"
proof -
  from assms(1) obtain u1 p1 where
    "settle_item env svc source tenant it (p\<lparr>ip_checkpoint := Some (it_checkpoint it)\<rparr>) = (Inr u1, p1)"
    "on_store (replay_commit env a (it_checkpoint it)) p1 = (Inr u, q)"
    by (auto simp: process_item_settles effect_simps)
  from settle_item_contents [OF this(1) assms(2,3)] commit_effect(1) [OF this(2)] show ?thesis
    by (simp add: contents_def)
qed

lemma process_item_checkpoint:
  assumes "process_item env svc a source tenant it p = (Inr u, q)"
  shows "get_checkpoint (sd_tenant_id (ra_source a)) (sd_source_id (ra_source a)) (ip_store q) = Some (it_checkpoint it)"
proof -
  let ?key = "\<lambda>r. ck_tenant_id r = sd_tenant_id (ra_source a) \<and> ck_source_id r = sd_source_id (ra_source a)"
  from assms obtain p1 where commit: "on_store (replay_commit env a (it_checkpoint it)) p1 = (Inr u, q)"
    by (auto simp: process_item_settles effect_simps)
  then obtain now where rows: "is_checkpoints (ip_store q) = upsert_row ?key
      (\<lambda>r. r\<lparr>ck_checkpoint := it_checkpoint it, ck_updated_at := now\<rparr>)
      \<lparr>ck_tenant_id = sd_tenant_id (ra_source a), ck_source_id = sd_source_id (ra_source a),
       ck_checkpoint = it_checkpoint it, ck_updated_at = now\<rparr> (is_checkpoints (ip_store p1))"
    by (auto simp: on_store_def replay_commit_def set_checkpoint_def utc_now_def effect_simps split: prod.split_asm)
  show ?thesis
  proof (cases "list_ex ?key (is_checkpoints (ip_store p1))")
    case True
    then obtain r where "select_row ?key (is_checkpoints (ip_store p1)) = Some r"
      using select_row_None [of ?key "is_checkpoints (ip_store p1)"] by (auto simp: list_ex_iff)
    with True select_row_Some [OF this] show ?thesis
      by (simp add: rows upsert_row_def get_checkpoint_def select_update)
  next
    case False
    then have "select_row ?key (is_checkpoints (ip_store p1)) = None"
      by (auto simp: select_row_None list_ex_iff)
    with False show ?thesis by (simp add: rows upsert_row_def get_checkpoint_def select_append)
  qed
qed

section \<open>The loop and the run\<close>

definition event_key :: "accepted_event \<Rightarrow> string \<times> string \<times> string" where
  "event_key e = (ev_tenant_id e, ev_source_id e, ev_external_event_id e)"

lemma same_event_key_iff: "same_event_key a b \<longleftrightarrow> event_key a = event_key b"
  by (auto simp: same_event_key_def event_key_def)

text \<open>Events are only appended, each the row of an item, under keys that stay unique.\<close>

definition grown :: "accepted_event option set \<Rightarrow> accepted_event list \<Rightarrow> accepted_event list \<Rightarrow> bool" where
  "grown rows before after \<longleftrightarrow>
     (\<exists>new. after = before @ new \<and> (\<forall>e \<in> set new. Some (event_content e) \<in> rows)) \<and>
     (unique_on event_key before \<longrightarrow> unique_on event_key after)"

lemma grown_refl [simp]: "grown rows evs evs"
  by (simp add: grown_def)

lemma grown_trans: "grown A x y \<Longrightarrow> grown B y z \<Longrightarrow> grown (A \<union> B) x z"
  by (auto simp: grown_def)

lemma grows_grown: "grows row x y \<Longrightarrow> grown {row} x y"
  by (auto simp: grows_def grown_def unique_on_def list_ex_iff same_event_key_iff image_iff)

lemma process_items_effect:
  "process_items env svc a source tenant its p = (r, q) \<Longrightarrow>
     grown (item_row env svc source tenant ` set its) (is_events (ip_store p)) (is_events (ip_store q)) \<and>
     (r = Inr () \<longrightarrow> counted (int (length its)) p q)"
proof (induction its arbitrary: p)
  case Nil
  then show ?case by (auto simp: counted_def)
next
  case (Cons it its)
  obtain r1 p1 where one: "process_item env svc a source tenant it p = (r1, p1)" by fastforce
  note effect = process_item_effect [OF one]
  show ?case
  proof (cases r1)
    case (Inl e)
    with Cons.prems one effect grows_grown have "grown {item_row env svc source tenant it} (is_events (ip_store p)) (is_events (ip_store q))"
      "r = Inl e" by auto
    then show ?thesis using grown_trans [OF _ grown_refl] by fastforce
  next
    case (Inr u)
    with Cons.prems one have "process_items env svc a source tenant its p1 = (r, q)" by simp
    from Cons.IH [OF this] effect Inr grown_trans [OF grows_grown]
      counted_trans [of 1 p p1 "int (length its)" q]
    show ?thesis by (auto simp: algebra_simps)
  qed
qed

lemma process_items_contents:
  assumes "\<And>n. \<not> ie_unavailable env n" and "1 \<le> sv_max_attempts svc"
  shows "process_items env svc a source tenant its p = (Inr u, q) \<Longrightarrow>
    contents (ip_store q) = fold accept_row (map (item_row env svc source tenant) its) (contents (ip_store p))"
proof (induction its arbitrary: p)
  case (Cons it its)
  from Cons.prems obtain u1 p1 where "process_item env svc a source tenant it p = (Inr u1, p1)"
    "process_items env svc a source tenant its p1 = (Inr u, q)"
    by (auto simp: effect_simps)
  with Cons.IH process_item_contents [OF _ assms] show ?case by simp
qed simp

lemma process_items_checkpoint:
  "process_items env svc a source tenant its p = (Inr u, q) \<Longrightarrow> its \<noteq> [] \<Longrightarrow>
     get_checkpoint (sd_tenant_id (ra_source a)) (sd_source_id (ra_source a)) (ip_store q) = Some (it_checkpoint (last its))"
proof (induction its arbitrary: p)
  case (Cons it its)
  from Cons.prems obtain u1 p1 where "process_item env svc a source tenant it p = (Inr u1, p1)"
    "process_items env svc a source tenant its p1 = (Inr u, q)"
    by (auto simp: effect_simps)
  with Cons.IH process_item_checkpoint show ?case by (cases its) auto
qed simp

text \<open>A run that returns: the tables before and after its loop.\<close>

definition run_items :: "(string \<Rightarrow> string) \<Rightarrow> replay_adapter \<Rightarrow> source_definition \<Rightarrow> ingestion_store \<Rightarrow> adapter_item list" where
  "run_items float_repr a source s =
     fst (replay_read float_repr a (get_checkpoint (sd_tenant_id source) (sd_source_id source) s))"

definition first_progress :: "json option \<Rightarrow> ingestion_store \<Rightarrow> ingest_progress" where
  "first_progress checkpoint s =
     \<lparr>ip_store = s, ip_checkpoint = checkpoint, ip_accepted = 0, ip_duplicate = 0, ip_rejected = 0,
      ip_last_received_at = None, ip_last_event_at = None, ip_last_error_code = None\<rparr>"

lemma started_frame:
  assumes "register_source env source s = (Inr u, s1)" and "start_run env source s1 = (r, s2)"
  shows "is_events s2 = is_events s" "is_quarantine s2 = is_quarantine s" "is_checkpoints s2 = is_checkpoints s"
  using register_frame [of env source s] start_run_frame [of env source s1] assms by simp_all

lemma finished_frame:
  assumes "finish_run env run_id tenant status summary s = (r, t)"
  shows "is_events t = is_events s" "is_quarantine t = is_quarantine s" "is_checkpoints t = is_checkpoints s"
  using finish_run_frame [of env run_id tenant status summary s] assms by simp_all

lemma get_checkpoint_cong: "is_checkpoints s = is_checkpoints t \<Longrightarrow> get_checkpoint x y s = get_checkpoint x y t"
  by (simp add: get_checkpoint_def)


lemma on_store_eq: "on_store f p = (r, q) \<longleftrightarrow> (\<exists>s. f (ip_store p) = (r, s) \<and> q = p\<lparr>ip_store := s\<rparr>)"
  by (auto simp: on_store_def split: prod.split)

lemma replay_body_returns:
  assumes "replay_body env float_repr svc a source tenant run_id p = (Inr run, q)"
  shows "\<exists>u p1. process_items env svc a source tenant (fst (replay_read float_repr a (ip_checkpoint p))) p = (Inr u, p1) \<and>
    finish_run env run_id (Some (sd_tenant_id source)) ''completed'' (progress_summary p1) (ip_store p1) = (Inr run, ip_store q)"
  using assms by (cases "replay_read float_repr a (ip_checkpoint p)") (auto simp: replay_body_def effect_simps on_store_eq)

lemma replay_body_grown:
  assumes "replay_body env float_repr svc a source tenant run_id p = (r, q)"
  shows "grown (item_row env svc source tenant ` set (fst (replay_read float_repr a (ip_checkpoint p))))
    (is_events (ip_store p)) (is_events (ip_store q))"
proof -
  obtain items fault where read: "replay_read float_repr a (ip_checkpoint p) = (items, fault)" by fastforce
  obtain r1 p1 where loop: "process_items env svc a source tenant items p = (r1, p1)" by fastforce
  have "is_events (ip_store q) = is_events (ip_store p1)"
  proof (cases r1)
    case (Inl e)
    with assms read loop show ?thesis by (simp add: replay_body_def)
  next
    case (Inr u)
    with assms read loop show ?thesis
      by (cases fault) (auto simp: replay_body_def raise_opt_def on_store_eq dest: finished_frame)
  qed
  with process_items_effect [OF loop] read show ?thesis by simp
qed

lemma ingest_replay_started:
  assumes "register_source env source s = (Inr u, s1)" "start_run env source s1 = (Inr run_id, s0)"
    and "source_authorize source tenant = None" "fst (validate_connection a)"
  shows "ingest_replay env float_repr svc a source tenant s =
    (case replay_body env float_repr svc a source tenant run_id
        (first_progress (get_checkpoint (sd_tenant_id source) (sd_source_id source) s) s0) of
       (Inr run, p) \<Rightarrow> (Inr run, ip_store p)
     | (Inl e, p) \<Rightarrow>
         and_then (finish_run env run_id (Some (sd_tenant_id source)) ''failed''
           ((progress_summary p)\<lparr>rs_last_error_code := Some (failure_code e)\<rparr>) (ip_store p)) (\<lambda>_ s. (Inl e, s)))"
  using assms get_checkpoint_cong [OF started_frame(3) [OF assms(1,2)]]
  by (simp add: ingest_replay_def first_progress_def Let_def)

lemma ingest_replay_cases:
  obtains (early) e t where "ingest_replay env float_repr svc a source tenant s = (Inl e, t)" "is_events t = is_events s"
      "is_quarantine t = is_quarantine s" "is_checkpoints t = is_checkpoints s"
  | (started) s1 run_id s0 where "register_source env source s = (Inr (), s1)" "start_run env source s1 = (Inr run_id, s0)"
      "source_authorize source tenant = None" "fst (validate_connection a)"
proof (cases "source_authorize source tenant = None \<and> fst (validate_connection a)")
  case True
  obtain s1 where reg: "register_source env source s = (Inr (), s1)"
    using register_frame(4) by (metis prod.collapse)
  obtain r s0 where run: "start_run env source s1 = (r, s0)" by fastforce
  show thesis
  proof (cases r)
    case (Inl e)
    with True reg run started_frame [OF reg run] show thesis by (intro early [of e s0]) (simp_all add: ingest_replay_def)
  next
    case (Inr run_id)
    with True reg run show thesis by (intro started) auto
  qed
next
  case False
  then show thesis
    by (cases "source_authorize source tenant") (auto intro!: early simp: ingest_replay_def)
qed

text \<open>However the run ends, its events are the rows of its items under fresh keys.\<close>

lemma ingest_replay_grown:
  "grown (item_row env svc source tenant ` set (run_items float_repr a source s))
     (is_events s) (is_events (snd (ingest_replay env float_repr svc a source tenant s)))"
proof (cases rule: ingest_replay_cases [of env float_repr svc a source tenant s])
  case (started s1 run_id s0)
  note frame = started_frame [OF started(1,2)]
  let ?p = "first_progress (get_checkpoint (sd_tenant_id source) (sd_source_id source) s) s0"
  obtain r q where body: "replay_body env float_repr svc a source tenant run_id ?p = (r, q)" by fastforce
  note grown = replay_body_grown [OF body]
  show ?thesis
  proof (cases r)
    case (Inr run)
    with body ingest_replay_started [OF started, of float_repr svc] grown frame show ?thesis
      by (simp add: first_progress_def run_items_def)
  next
    case (Inl e)
    let ?f = "finish_run env run_id (Some (sd_tenant_id source)) ''failed''
      ((progress_summary q)\<lparr>rs_last_error_code := Some (failure_code e)\<rparr>) (ip_store q)"
    have "snd (ingest_replay env float_repr svc a source tenant s) = snd ?f"
      using body Inl ingest_replay_started [OF started, of float_repr svc]
      by (cases ?f; cases "fst ?f") auto
    with grown frame finish_run_frame(1) show ?thesis
      by (simp add: first_progress_def run_items_def)
  qed
qed auto

lemma ingest_replay_returns:
  assumes "ingest_replay env float_repr svc a source tenant s = (Inr run, s')"
  obtains s0 u q run_id where
    "is_events s0 = is_events s" "is_quarantine s0 = is_quarantine s" "is_checkpoints s0 = is_checkpoints s"
    "process_items env svc a source tenant (run_items float_repr a source s)
       (first_progress (get_checkpoint (sd_tenant_id source) (sd_source_id source) s) s0) = (Inr u, q)"
    "finish_run env run_id (Some (sd_tenant_id source)) ''completed'' (progress_summary q) (ip_store q) = (Inr run, s')"
proof (cases rule: ingest_replay_cases [of env float_repr svc a source tenant s])
  case (started s1 run_id s0)
  let ?p = "first_progress (get_checkpoint (sd_tenant_id source) (sd_source_id source) s) s0"
  obtain r q where body: "replay_body env float_repr svc a source tenant run_id ?p = (r, q)" by fastforce
  with assms ingest_replay_started [OF started, of float_repr svc] have "r = Inr run" "s' = ip_store q"
    by (auto simp: effect_simps split: sum.split_asm)
  with body replay_body_returns [of env float_repr svc a source tenant run_id ?p run q]
  obtain u p1 where "process_items env svc a source tenant (run_items float_repr a source s) ?p = (Inr u, p1)"
    "finish_run env run_id (Some (sd_tenant_id source)) ''completed'' (progress_summary p1) (ip_store p1) = (Inr run, s')"
    by (auto simp: run_items_def first_progress_def)
  with that started_frame [OF started(1,2)] show thesis by blast
qed (use assms in auto)

lemma finish_run_row:
  assumes "finish_run env run_id tenant ''completed'' summary s = (Inr run, t)"
  shows "ru_accepted run = rs_accepted summary" "ru_duplicate run = rs_duplicate summary"
    "ru_rejected run = rs_rejected summary" "ru_checkpoint run = rs_checkpoint summary" "ru_status run = ''completed''"
  using assms
  by (auto simp: finish_run_def get_run_def utc_now_def Let_def effect_simps select_update
      split: option.split_asm dest!: select_row_Some)

end
