(* ===== verification/Ingestion_Invariant.thy ===== *)
theory Ingestion_Invariant
  imports Ingestion_Facts
begin

text \<open>
  What every method of the store keeps, the service and its loop keep: stated once as a locale
  over the seven writing methods, then interpreted for the constraints of the schema and for the
  append-only tables.
\<close>

section \<open>Properties the methods keep\<close>

definition keeps :: "('s \<Rightarrow> bool) \<Rightarrow> ('s \<Rightarrow> ('e, 'a, 's) outcome) \<Rightarrow> bool" where
  "keeps P f \<longleftrightarrow> (\<forall>s. P s \<longrightarrow> P (snd (f s)))"

lemma outcome_keeps: "keeps P f \<Longrightarrow> P s \<Longrightarrow> f s = (r, t) \<Longrightarrow> P t"
  by (auto simp: keeps_def dest!: spec [where x = s])

locale restricted_store =
  fixes env :: ingestion_env and P :: "ingestion_store \<Rightarrow> bool"
  assumes register: "keeps P (register_source env source)"
    and register_camera: "keeps P (register_camera_source env camera)"
    and start: "keeps P (start_run env source)"
    and finish: "keeps P (finish_run env run_id tenant status summary)"
    and checkpoint: "keeps P (set_checkpoint env t src c)"
    and insertion: "keeps P (insert_event env event h)"
    and quarantined: "keeps P (quarantine env t src c code detail payload qh)"
begin

lemma retry: "keeps P (insert_with_retry env event h n)"
proof (induction n)
  case (Suc n)
  show ?case
    unfolding keeps_def
  proof (intro allI impI)
    fix s
    assume "P s"
    obtain r1 s1 where one: "insert_event env event h s = (r1, s1)" by fastforce
    with insertion \<open>P s\<close> have "P s1" by (rule outcome_keeps)
    with Suc show "P (snd (insert_with_retry env event h (Suc n) s))"
      unfolding retry_cases [OF one] by (auto simp: keeps_def)
  qed
qed (simp add: keeps_def)

lemma lifted: "keeps P f \<Longrightarrow> on_store f p = (r, q) \<Longrightarrow> P (ip_store p) \<Longrightarrow> P (ip_store q)"
  by (auto simp: on_store_eq dest: outcome_keeps)

lemma item_quarantined: "quarantine_item env source c code detail payload p = (r, q) \<Longrightarrow> P (ip_store p) \<Longrightarrow> P (ip_store q)"
  unfolding quarantine_item_def by (drule lifted [OF quarantined]) simp

lemma offer:
  assumes "accept_payload env svc source tenant payload p = (r, q)" and "P (ip_store p)"
  shows "P (ip_store q)"
proof (cases "\<exists>body event. payload = Some body \<and> normalize_event env (sv_map svc) body tenant source = Inr event")
  case True
  then obtain body event where event: "payload = Some body" "normalize_event env (sv_map svc) body tenant source = Inr event"
    by blast
  obtain r' t where ins: "insert_with_retry env event (payload_hash env (JObj event)) (nat (sv_max_attempts svc)) (ip_store p) = (r', t)"
    by fastforce
  with retry assms(2) have "P t" by (rule outcome_keeps)
  with accept_payload_normalized [OF event(2) ins] assms(1) event(1) show ?thesis
    by (auto split: sum.split_asm bool.split_asm)
next
  case False
  with accept_payload_refused [of payload env svc tenant source p] assms show ?thesis by force
qed

lemma item:
  assumes "process_item env svc a source tenant it p = (r, q)" and "P (ip_store p)"
  shows "P (ip_store q)"
proof -
  obtain r1 p1 where settle: "settle_item env svc source tenant it (p\<lparr>ip_checkpoint := Some (it_checkpoint it)\<rparr>) = (r1, p1)"
    by fastforce
  then have "P (ip_store p1)"
    using assms(2) by (cases rule: settle_item_cases) (auto dest: offer item_quarantined)
  with assms(1) settle show ?thesis
    by (cases r1) (auto simp: process_item_settles replay_commit_def dest: lifted [OF checkpoint])
qed

lemma items: "process_items env svc a source tenant its p = (r, q) \<Longrightarrow> P (ip_store p) \<Longrightarrow> P (ip_store q)"
proof (induction its arbitrary: p)
  case (Cons it its)
  obtain r1 p1 where one: "process_item env svc a source tenant it p = (r1, p1)" by fastforce
  from item [OF this Cons.prems(2)] have "P (ip_store p1)" .
  with Cons one show ?case by (cases r1) auto
qed simp

lemma body:
  assumes "replay_body env float_repr svc a source tenant run_id p = (r, q)" and "P (ip_store p)"
  shows "P (ip_store q)"
proof -
  obtain its fault where read: "replay_read float_repr a (ip_checkpoint p) = (its, fault)" by fastforce
  obtain r1 p1 where loop: "process_items env svc a source tenant its p = (r1, p1)" by fastforce
  from items [OF this assms(2)] have "P (ip_store p1)" .
  with assms(1) read loop show ?thesis
    by (cases r1; cases fault) (auto simp: replay_body_def raise_opt_def dest: lifted [OF finish])
qed

lemma replay: "keeps P (ingest_replay env float_repr svc a source tenant)"
  unfolding keeps_def
proof (intro allI impI)
  fix s
  assume "P s"
  obtain r1 s1 where reg: "register_source env source s = (r1, s1)" by fastforce
  have one: "P s1" using outcome_keeps [OF register \<open>P s\<close> reg] .
  obtain r2 s2 where run: "start_run env source s1 = (r2, s2)" by fastforce
  have two: "P s2" using outcome_keeps [OF start one run] .
  show "P (snd (ingest_replay env float_repr svc a source tenant s))"
  proof (cases "source_authorize source tenant = None \<and> fst (validate_connection a) \<and> (\<exists>run_id. r2 = Inr run_id)")
    case True
    then obtain run_id where ok: "source_authorize source tenant = None" "fst (validate_connection a)" "r2 = Inr run_id" by blast
    have "r1 = Inr ()" using register_frame(4) [of env source s] reg by simp
    note eq = ingest_replay_started [OF reg [unfolded this] run [unfolded ok(3)] ok(1,2), of float_repr svc]
    obtain r q where b: "replay_body env float_repr svc a source tenant run_id
        (first_progress (get_checkpoint (sd_tenant_id source) (sd_source_id source) s) s2) = (r, q)" by fastforce
    from body [OF this] two have "P (ip_store q)" by (simp add: first_progress_def)
    then have "P (snd (finish_run env run_id (Some (sd_tenant_id source)) status summary (ip_store q)))" for status summary
      using finish by (simp add: keeps_def)
    with b \<open>P (ip_store q)\<close> show ?thesis
      unfolding eq by (cases r) (auto intro: and_then_preserves)
  next
    case False
    have "r1 = Inr ()" using register_frame(4) [of env source s] reg by simp
    with False reg run show ?thesis
      using \<open>P s\<close> one two by (cases "source_authorize source tenant"; cases r2; cases "fst (validate_connection a)")
        (simp_all add: ingest_replay_def)
  qed
qed

end

section \<open>The constraints of the schema\<close>

definition source_key :: "source_row \<Rightarrow> string \<times> string" where
  "source_key r = (sr_tenant_id r, sr_source_id r)"

definition checkpoint_key :: "checkpoint_row \<Rightarrow> string \<times> string" where
  "checkpoint_key r = (ck_tenant_id r, ck_source_id r)"

text \<open>Primary keys, foreign keys and the NOT NULL coordinates.\<close>

definition constraints :: "ingestion_store \<Rightarrow> bool" where
  "constraints s \<longleftrightarrow>
     unique_on source_key (is_sources s) \<and> unique_on event_key (is_events s) \<and> unique_on checkpoint_key (is_checkpoints s) \<and>
     unique_on qr_id (is_quarantine s) \<and> unique_on ru_id (is_runs s) \<and>
     (\<forall>e \<in> set (is_events s). source_registered (ev_tenant_id e) (ev_source_id e) s \<and>
        \<not> sql_null (ev_latitude e) \<and> \<not> sql_null (ev_longitude e)) \<and>
     (\<forall>c \<in> set (is_checkpoints s). source_registered (ck_tenant_id c) (ck_source_id c) s)"

text \<open>What a later store keeps of an earlier one: events, quarantined payloads and sources stay.\<close>

definition extends :: "ingestion_store \<Rightarrow> ingestion_store \<Rightarrow> bool" where
  "extends s t \<longleftrightarrow> prefix (is_events s) (is_events t) \<and> prefix (is_quarantine s) (is_quarantine t) \<and>
     (\<forall>tenant source. source_registered tenant source s \<longrightarrow> source_registered tenant source t)"

lemma extends_refl [simp]: "extends s s"
  by (simp add: extends_def)

lemma extends_trans: "extends s t \<Longrightarrow> extends t u \<Longrightarrow> extends s u"
  by (auto simp: extends_def intro: prefix_order.trans)

lemma registered_cong [simp]:
  "source_registered tenant source (s\<lparr>is_events := e\<rparr>) = source_registered tenant source s"
  "source_registered tenant source (s\<lparr>is_quarantine := q\<rparr>) = source_registered tenant source s"
  "source_registered tenant source (s\<lparr>is_checkpoints := c\<rparr>) = source_registered tenant source s"
  "source_registered tenant source (s\<lparr>is_runs := r\<rparr>) = source_registered tenant source s"
  "source_registered tenant source (s\<lparr>is_reads := n\<rparr>) = source_registered tenant source s"
  "source_registered tenant source (s\<lparr>is_ids := n\<rparr>) = source_registered tenant source s"
  "source_registered tenant source (s\<lparr>is_inserts := n\<rparr>) = source_registered tenant source s"
  by (simp_all add: source_registered_def)

text \<open>Both interpretations rest on one lemma per method.\<close>

definition sound_step :: "ingestion_store \<Rightarrow> ingestion_store \<Rightarrow> bool" where
  "sound_step s t \<longleftrightarrow> (constraints s \<longrightarrow> constraints t) \<and> extends s t"

lemma upsert_source_sound:
  assumes "\<And>r. source_key (f r) = source_key r" and "\<And>r. p r \<longleftrightarrow> source_key r = source_key x"
  shows "sound_step s (s\<lparr>is_reads := n, is_sources := upsert_row p f x (is_sources s)\<rparr>)"
proof -
  let ?t = "s\<lparr>is_reads := n, is_sources := upsert_row p f x (is_sources s)\<rparr>"
  have key: "sr_tenant_id (f r) = sr_tenant_id r" "sr_source_id (f r) = sr_source_id r" for r
    using assms(1) [of r] by (simp_all add: source_key_def)
  have mono: "source_registered a b ?t" if "source_registered a b s" for a b
    using that by (simp add: source_registered_def list_ex_upsert key)
  moreover have "unique_on source_key (upsert_row p f x (is_sources s))" if "unique_on source_key (is_sources s)"
    using assms that by (rule unique_upsert)
  ultimately show ?thesis by (auto simp: sound_step_def constraints_def extends_def)
qed

lemma register_sound: "sound_step s (snd (register_source env source s))"
  unfolding register_source_def utc_now_def and_then_Inr Let_def snd_conv
  by (simp, rule upsert_source_sound) (auto simp: source_key_def)

lemma register_camera_sound: "sound_step s (snd (register_camera_source env camera s))"
proof -
  have "sound_step s s" by (simp add: sound_step_def)
  then show ?thesis
    by (auto simp: register_camera_source_def utc_now_def Let_def source_key_def raise_opt_def
        intro!: upsert_source_sound split: option.split json.split)
qed

lemma checkpoint_sound: "sound_step s (snd (set_checkpoint env tenant source c s))"
proof (cases "source_registered tenant source s")
  case True
  let ?p = "\<lambda>r. ck_tenant_id r = tenant \<and> ck_source_id r = source"
  let ?f = "\<lambda>r. r\<lparr>ck_checkpoint := c, ck_updated_at := iso_utc (ie_clock env (is_reads s))\<rparr>"
  let ?x = "\<lparr>ck_tenant_id = tenant, ck_source_id = source, ck_checkpoint = c, ck_updated_at = iso_utc (ie_clock env (is_reads s))\<rparr>"
  have "unique_on checkpoint_key (upsert_row ?p ?f ?x (is_checkpoints s))" if "unique_on checkpoint_key (is_checkpoints s)"
    by (rule unique_upsert [OF _ _ that]) (auto simp: checkpoint_key_def)
  moreover have "source_registered (ck_tenant_id r) (ck_source_id r) s"
    if "\<forall>r \<in> set (is_checkpoints s). source_registered (ck_tenant_id r) (ck_source_id r) s"
      and "r \<in> set (upsert_row ?p ?f ?x (is_checkpoints s))" for r
    using that True by (auto simp: upsert_row_def set_update_rows split: if_split_asm)
  ultimately show ?thesis
    using True by (simp add: set_checkpoint_def utc_now_def sound_step_def constraints_def extends_def)
next
  case False
  then show ?thesis by (simp add: set_checkpoint_def utc_now_def sound_step_def constraints_def extends_def)
qed

lemma start_sound: "sound_step s (snd (start_run env source s))"
  by (auto simp: start_run_def fresh_uuid_def utc_now_def raise_if_def sound_step_def constraints_def extends_def
      unique_append list_ex_iff)

lemma finish_sound: "sound_step s (snd (finish_run env run_id tenant status summary s))"
proof -
  have "sound_step s (s\<lparr>is_reads := n, is_runs := update_rows p f (is_runs s)\<rparr>)" if "\<And>r. ru_id (f r) = ru_id r" for n p f
    using that by (simp add: sound_step_def constraints_def extends_def unique_update)
  moreover have "sound_step s (s\<lparr>is_runs := update_rows p f (is_runs s)\<rparr>)" if "\<And>r. ru_id (f r) = ru_id r" for p f
    using that by (simp add: sound_step_def constraints_def extends_def unique_update)
  ultimately show ?thesis
    by (simp add: finish_run_def utc_now_def Let_def get_run_def raise_opt_def split: option.split and_then_split)
qed

lemma quarantine_sound: "sound_step s (snd (quarantine env tenant source c code detail payload qh s))"
  by (auto simp: quarantine_def fresh_uuid_def utc_now_def raise_if_def sound_step_def constraints_def extends_def
      unique_append list_ex_iff)

lemma insert_sound: "sound_step s (snd (insert_event env event h s))"
proof (cases "event_row event h")
  case None
  then show ?thesis by (simp add: insert_event_none sound_step_def constraints_def extends_def)
next
  case (Some f)
  let ?row = "f (iso_utc (ie_clock env (is_reads s)))"
  have "unique_on event_key (is_events s @ [?row])" if "unique_on event_key (is_events s)"
    "select_row (same_event_key ?row) (is_events s) = None"
    using that by (auto simp: unique_append select_row_None same_event_key_iff)
  then show ?thesis
    by (auto simp: insert_event_eq [OF Some] Let_def sound_step_def constraints_def extends_def split: option.split)
qed

lemmas method_sound = register_sound register_camera_sound checkpoint_sound start_sound finish_sound quarantine_sound insert_sound

interpretation schema: restricted_store env constraints for env
  by unfold_locales (use method_sound in \<open>auto simp: keeps_def sound_step_def\<close>)

interpretation appended: restricted_store env "extends s" for env s
  by unfold_locales (use method_sound in \<open>auto simp: keeps_def sound_step_def intro: extends_trans\<close>)

section \<open>Arbitrary use of the service\<close>

text \<open>Any sequence of replays, registrations and direct calls of the store, by any tenants.\<close>

datatype ingestion_call =
    Replay replay_adapter source_definition string
  | Register source_definition
  | RegisterCamera "(string \<times> json) list"
  | SetCheckpoint string string json
  | InsertEvent "(string \<times> json) list" string
  | Quarantine string string json string string "json option" string

fun perform :: "ingestion_env \<Rightarrow> (string \<Rightarrow> string) \<Rightarrow> ingestion_service \<Rightarrow> ingestion_call \<Rightarrow> ingestion_store \<Rightarrow> ingestion_store" where
  "perform env float_repr svc (Replay a source tenant) s = snd (ingest_replay env float_repr svc a source tenant s)"
| "perform env float_repr svc (Register source) s = snd (register_source env source s)"
| "perform env float_repr svc (RegisterCamera payload) s = snd (register_camera_source env payload s)"
| "perform env float_repr svc (SetCheckpoint t src c) s = snd (set_checkpoint env t src c s)"
| "perform env float_repr svc (InsertEvent event h) s = snd (insert_event env event h s)"
| "perform env float_repr svc (Quarantine t src c code detail payload h) s = snd (quarantine env t src c code detail payload h s)"

lemma perform_keeps: "constraints s \<Longrightarrow> constraints (perform env float_repr svc call s)"
  using schema.replay schema.register schema.register_camera schema.checkpoint schema.insertion schema.quarantined
  by (cases call) (auto simp: keeps_def)

lemma perform_extends: "extends s (perform env float_repr svc call s)"
  using appended.replay appended.register appended.register_camera appended.checkpoint appended.insertion appended.quarantined
  by (cases call) (auto simp: keeps_def)

interpretation ingestion: preorder_machine "perform env float_repr svc" constraints extends for env float_repr svc
  by unfold_locales (auto intro: perform_keeps perform_extends extends_trans)

end
