(* ===== verification/Ingestion_Demo.thy ===== *)
theory Ingestion_Demo
  imports Ingestion_Facts
begin

text \<open>A concrete source, taxonomy and recording, on which the properties of the ingestion are instantiated.\<close>

section \<open>A concrete source\<close>

definition demo_source :: source_definition where
  "demo_source = \<lparr>sd_schema_version = ''1.0.0'', sd_tenant_id = ''t'', sd_source_id = ''s'', sd_name = ''Demo'',
     sd_kind = ''recorded_replay'', sd_status = ''active'', sd_config = [(''format'', JStr ''jsonl'')],
     sd_secret_ref = None, sd_created_at = ''2026-01-01T00:00:00Z'', sd_updated_at = None\<rparr>"

definition demo_ingestion :: ingestion_env where
  "demo_ingestion = \<lparr>ie_clock = (\<lambda>n. seconds (int n)), ie_uuid = (\<lambda>n. py_str_int (int n)), ie_sha = (\<lambda>s. py_str_int (int (length s))),
     ie_problems = (\<lambda>_ _. []), ie_cell = (\<lambda>_ _ _. ''cell''), ie_unavailable = (\<lambda>_. False)\<rparr>"

definition demo_service :: ingestion_service where
  "demo_service = \<lparr>sv_map = \<lparr>cm_schema_version = ''1.0.0'', cm_canonical = [''property'', ''other''],
     cm_aliases = [(''theft'', ''property'')], cm_unknown_policy = ''other''\<rparr>, sv_max_attempts = 1\<rparr>"

definition demo_event :: "string \<Rightarrow> string \<Rightarrow> (string \<times> json) list" where
  "demo_event event_id occurred_at =
     [(''tenant_id'', JStr ''t''), (''source_id'', JStr ''s''), (''external_event_id'', JStr event_id),
      (''occurred_at'', JStr occurred_at), (''received_at'', JStr ''1970-01-01T05:30+05:30''), (''category'', JStr '' Theft''),
      (''location'', JObj [(''latitude'', JInt 1), (''longitude'', JInt 2)]),
      (''attributes'', JObj [(''name'', JNull)])]"

definition demo_line :: "string \<Rightarrow> string \<Rightarrow> string" where
  "demo_line event_id occurred_at = dumps (JObj (demo_event event_id occurred_at))"

definition demo_replay :: "string list \<Rightarrow> replay_adapter" where
  "demo_replay records = \<lparr>ra_source = demo_source, ra_is_file = True, ra_readable = True, ra_lines = records, ra_fault = None\<rparr>"

definition demo_file :: "string list" where
  "demo_file = [''{'', demo_line ''a'' ''1970-01-01T00:00Z'']"

definition demo_row :: accepted_event where
  "demo_row = \<lparr>ev_tenant_id = ''t'', ev_source_id = ''s'', ev_external_event_id = ''a'',
     ev_occurred_at = ''1970-01-01T00:00:00Z'', ev_received_at = ''1970-01-01T00:00:00Z'', ev_category = ''property'',
     ev_latitude = JInt 1, ev_longitude = JInt 2, ev_accuracy_meters = None, ev_source_sequence = JNull,
     ev_attributes = JObj [], ev_hash = ''209'', ev_ingested_at = ''1970-01-01T00:00:04Z''\<rparr>"

text \<open>
  The database right after a run has been opened. Only the loop is evaluated: the definition text
  of the source and the times before the loop stay variables.
\<close>

definition open_run :: "string \<Rightarrow> string \<Rightarrow> run_row" where
  "open_run run_id started_at =
     \<lparr>ru_id = run_id, ru_tenant_id = ''t'', ru_source_id = ''s'', ru_mode = ''recorded_replay'', ru_status = ''running'',
      ru_checkpoint = None, ru_accepted = 0, ru_duplicate = 0, ru_rejected = 0, ru_last_received_at = None,
      ru_last_event_at = None, ru_last_error_code = None, ru_started_at = started_at, ru_finished_at = None\<rparr>"

definition demo_opened :: "string \<Rightarrow> string \<Rightarrow> string \<Rightarrow> accepted_event list \<Rightarrow> ingestion_store" where
  "demo_opened definition_text registered_at started_at events =
     \<lparr>is_sources = [\<lparr>sr_tenant_id = ''t'', sr_source_id = ''s'', sr_schema_version = ''1.0.0'',
        sr_definition = definition_text, sr_registered_at = registered_at\<rparr>],
      is_events = events, is_checkpoints = [], is_quarantine = [], is_runs = [open_run ''0'' started_at],
      is_reads = 2, is_ids = 1, is_inserts = 0\<rparr>"

definition demo_replayed :: "string list \<Rightarrow> accepted_event list \<Rightarrow> (iexn + run_row) \<times> ingestion_store" where
  "demo_replayed records events = ingest_replay demo_ingestion id demo_service (demo_replay records) demo_source ''t''
     (empty_ingestion_store\<lparr>is_events := events\<rparr>)"

lemma demo_opens:
  "\<exists>s1 d r. register_source demo_ingestion demo_source (empty_ingestion_store\<lparr>is_events := events\<rparr>) = (Inr (), s1) \<and>
     start_run demo_ingestion demo_source s1 = (Inr ''0'', demo_opened d r (iso_utc 1000000) events)"
proof -
  show ?thesis
    by (simp add: digits_of_0 register_source_def start_run_def utc_now_def fresh_uuid_def Let_def upsert_row_def empty_ingestion_store_def
        demo_source_def demo_ingestion_def demo_opened_def open_run_def py_str_int_def raise_if_def)
qed

lemma demo_replayed_loop:
  assumes "\<And>d r. case replay_body demo_ingestion id demo_service (demo_replay records) demo_source ''t'' ''0''
    (first_progress None (demo_opened d r ''1970-01-01T00:00:01Z'' events)) of (Inr run, p) \<Rightarrow> Q d r run (ip_store p) | (Inl e, p) \<Rightarrow> False"
  shows "\<exists>run s d r. demo_replayed records events = (Inr run, s) \<and> Q d r run s"
proof -
  have now: "iso_utc 1000000 = ''1970-01-01T00:00:01Z''" by code_simp
  obtain s1 d r where opened: "register_source demo_ingestion demo_source (empty_ingestion_store\<lparr>is_events := events\<rparr>) = (Inr (), s1)"
    "start_run demo_ingestion demo_source s1 = (Inr ''0'', demo_opened d r ''1970-01-01T00:00:01Z'' events)"
    using demo_opens [of events] unfolding now by blast
  have start: "source_authorize demo_source ''t'' = None" "fst (validate_connection (demo_replay records))"
    "get_checkpoint (sd_tenant_id demo_source) (sd_source_id demo_source) (empty_ingestion_store\<lparr>is_events := events\<rparr>) = None"
    by (simp_all add: demo_source_def source_authorize_def demo_replay_def validate_connection_def get_checkpoint_def
        empty_ingestion_store_def select_row_def)
  note run = ingest_replay_started [OF opened start(1,2), of id demo_service, folded demo_replayed_def, unfolded start(3)]
  show ?thesis
    using assms [of d r] run by (auto split: prod.split_asm sum.split_asm)
qed

lemma demo_first_run:
  "\<exists>run s. demo_replayed demo_file [] = (Inr run, s) \<and> is_events s = [demo_row]"
proof -
  have "\<exists>run s (d::string) (r::string). demo_replayed demo_file [] = (Inr run, s) \<and> is_events s = [demo_row]"
    by (rule demo_replayed_loop) code_simp
  then show ?thesis by blast
qed

lemma demo_again_run:
  "\<exists>run s. demo_replayed demo_file [demo_row] = (Inr run, s) \<and> ru_duplicate run = 1"
proof -
  have "\<exists>run s (d::string) (r::string). demo_replayed demo_file [demo_row] = (Inr run, s) \<and> ru_duplicate run = 1"
    by (rule demo_replayed_loop) code_simp
  then show ?thesis by blast
qed

text \<open>The database after a run over the malformed line alone, and the run that resumes from it.\<close>

definition demo_stopped :: "string \<Rightarrow> string \<Rightarrow> ingestion_store" where
  "demo_stopped definition_text registered_at =
     \<lparr>is_sources = [\<lparr>sr_tenant_id = ''t'', sr_source_id = ''s'', sr_schema_version = ''1.0.0'',
        sr_definition = definition_text, sr_registered_at = registered_at\<rparr>],
      is_events = [],
      is_checkpoints = [\<lparr>ck_tenant_id = ''t'', ck_source_id = ''s'', ck_checkpoint = JInt 1,
        ck_updated_at = ''1970-01-01T00:00:03Z''\<rparr>],
      is_quarantine = [\<lparr>qr_id = ''1'', qr_tenant_id = ''t'', qr_source_id = ''s'', qr_checkpoint = JInt 1,
        qr_reason_code = ''malformed_json'', qr_safe_detail = ''Replay line is not valid JSON'', qr_payload = Some (JStr ''{''),
        qr_payload_hash = ''1'', qr_created_at = ''1970-01-01T00:00:02Z''\<rparr>],
      is_runs = [(open_run ''0'' ''1970-01-01T00:00:01Z'')\<lparr>ru_status := ''completed'', ru_checkpoint := Some (JInt 1),
        ru_rejected := 1, ru_last_error_code := Some ''malformed_json'', ru_finished_at := Some ''1970-01-01T00:00:04Z''\<rparr>],
      is_reads = 5, is_ids = 2, is_inserts = 0\<rparr>"

lemma demo_stopped_run: "\<exists>run s d r. demo_replayed [''{''] [] = (Inr run, s) \<and> s = demo_stopped d r"
  by (rule demo_replayed_loop) code_simp

definition demo_reopened :: "string \<Rightarrow> string \<Rightarrow> string \<Rightarrow> ingestion_store" where
  "demo_reopened definition_text registered_at started_at =
     (let s = demo_stopped definition_text registered_at in
      s\<lparr>is_runs := is_runs s @ [open_run ''2'' started_at], is_reads := 7, is_ids := 3\<rparr>)"

definition demo_resumed :: "string \<Rightarrow> string \<Rightarrow> (iexn + run_row) \<times> ingestion_store" where
  "demo_resumed d r = ingest_replay demo_ingestion id demo_service (demo_replay demo_file) demo_source ''t'' (demo_stopped d r)"

lemma demo_reopens:
  "\<exists>s1 d'. register_source demo_ingestion demo_source (demo_stopped d r) = (Inr (), s1) \<and>
     start_run demo_ingestion demo_source s1 = (Inr ''2'', demo_reopened d' r (iso_utc 6000000))"
proof -
  have "digits_of 2 = ''2''" by code_simp
  then show ?thesis
    by (simp add: register_source_def start_run_def utc_now_def fresh_uuid_def Let_def upsert_row_def update_rows_def
        demo_stopped_def demo_reopened_def demo_source_def demo_ingestion_def open_run_def py_str_int_def raise_if_def)
qed

lemma demo_resumed_run: "\<exists>run s. demo_resumed d r = (Inr run, s)"
proof -
  have now: "iso_utc 6000000 = ''1970-01-01T00:00:06Z''" by code_simp
  obtain s1 d' where opened: "register_source demo_ingestion demo_source (demo_stopped d r) = (Inr (), s1)"
    "start_run demo_ingestion demo_source s1 = (Inr ''2'', demo_reopened d' r ''1970-01-01T00:00:06Z'')"
    using demo_reopens unfolding now by blast
  have start: "source_authorize demo_source ''t'' = None" "fst (validate_connection (demo_replay demo_file))"
    "get_checkpoint (sd_tenant_id demo_source) (sd_source_id demo_source) (demo_stopped d r) = Some (JInt 1)"
    by (simp_all add: demo_source_def source_authorize_def demo_replay_def validate_connection_def get_checkpoint_def
        demo_stopped_def select_row_def)
  have loop: "case replay_body demo_ingestion id demo_service (demo_replay demo_file) demo_source ''t'' ''2''
      (first_progress (Some (JInt 1)) (demo_reopened d' r ''1970-01-01T00:00:06Z'')) of (Inr run, p) \<Rightarrow> True | (Inl e, p) \<Rightarrow> False"
    by code_simp
  note run = ingest_replay_started [OF opened start(1,2), of id demo_service, folded demo_resumed_def, unfolded start(3)]
  from loop show ?thesis unfolding run by (auto split: prod.split_asm sum.split_asm)
qed

lemma demo_up: "\<not> ie_unavailable demo_ingestion n" "1 \<le> sv_max_attempts demo_service"
  by (simp_all add: demo_ingestion_def demo_service_def)

text \<open>The taxonomy as its file writes it.\<close>

definition demo_taxonomy :: json where
  "demo_taxonomy = JObj [(''schema_version'', JStr ''1.0.0''), (''canonical_categories'', JArr [JStr ''Property'', JStr ''other'']),
     (''aliases'', JObj [(''Theft '', JStr ''property'')]), (''unknown_policy'', JStr ''OTHER'')]"

lemma demo_taxonomy_map: "category_map_of dumps demo_taxonomy = Inr (sv_map demo_service)"
  by code_simp

text \<open>A record from the first hour of year 1, one hour east of UTC: its UTC time has no date.\<close>

definition demo_poison :: replay_adapter where
  "demo_poison = demo_replay [demo_line ''b'' ''0001-01-01T00:00+01:00'']"

end
