(* ===== verification/Ingestion_Properties.thy ===== *)
theory Ingestion_Properties
  imports Ingestion_Invariant Ingestion_Demo
begin

text \<open>
  What the restricted ingestion promises: which events it accepts, that processing a record again
  adds nothing, that resuming equals one pass, that its counters follow the tables, and one
  record it cannot get past.
\<close>

section \<open>What an accepted row says\<close>

lemma normalize_eventE:
  assumes "normalize_event env cm payload tenant source = Inr event"
  obtains category occ t_occ rcv t_rcv attributes where
    "member payload ''tenant_id'' = Some (JStr tenant)" "member payload ''source_id'' = Some (JStr (sd_source_id source))"
    "normalize_category cm (member payload ''category'') = Inr category"
    "parse_utc (member payload ''occurred_at'') ''occurred_at'' = Inr (occ, t_occ)"
    "parse_utc (member payload ''received_at'') ''received_at'' = Inr (rcv, t_rcv)"
    "check_skew t_occ t_rcv = None" "allowed_attributes (member payload ''attributes'') = Inr attributes"
    "event = normalized_event payload category occ rcv attributes"
    "validate_contract env ''incident-event.schema.json'' (JObj event) = None"
proof -
  have run: "fst x = Inr y \<longleftrightarrow> x = (Inr y, ())" for x :: "(iexn + (string \<times> json) list) \<times> unit" and y
    by (cases x) simp
  from assms that show thesis
    by (auto simp: normalize_event_def run effect_simps Let_def)
qed

lemma parse_utc_value: "parse_utc v field = Inr (text, t) \<Longrightarrow> text = iso_utc t \<and> in_calendar t"
  by (auto simp: parse_utc_def Let_def split: option.split_asm json.split_asm datetime.split_asm if_split_asm)

definition object_keys :: "json \<Rightarrow> string set" where
  "object_keys v = (case v of JObj kvs \<Rightarrow> fst ` set kvs | _ \<Rightarrow> {})"

lemma allowed_keys:
  assumes "allowed_attributes v = Inr attributes"
  shows "object_keys (sort_keys attributes) \<subseteq> set allowed_attribute_keys"
  using assms by (auto simp: allowed_attributes_def object_keys_def split: option.split_asm json.split_asm)

text \<open>
  The contract of an accepted row: its tenant and source, a category of the taxonomy, UTC times
  in calendar order up to the skew, and no attribute beyond the allowed ones.
\<close>

definition canonical_row :: "category_map \<Rightarrow> string \<Rightarrow> source_definition \<Rightarrow> accepted_event \<Rightarrow> bool" where
  "canonical_row cm tenant source e \<longleftrightarrow>
     ev_tenant_id e = tenant \<and> ev_source_id e = sd_source_id source \<and>
     (\<exists>raw. normalize_category cm raw = Inr (ev_category e)) \<and>
     (\<exists>occ rcv. ev_occurred_at e = iso_utc occ \<and> ev_received_at e = iso_utc rcv \<and> in_calendar occ \<and> in_calendar rcv \<and>
        occ \<le> rcv + max_source_clock_skew) \<and>
     object_keys (ev_attributes e) \<subseteq> set allowed_attribute_keys"

lemma event_row_fields:
  assumes "event_row event h = Some f"
  shows "text_member event ''tenant_id'' = Some (ev_tenant_id (f now))" "text_member event ''source_id'' = Some (ev_source_id (f now))"
    "text_member event ''occurred_at'' = Some (ev_occurred_at (f now))" "text_member event ''received_at'' = Some (ev_received_at (f now))"
    "text_member event ''category'' = Some (ev_category (f now))"
    "member event ''attributes'' = Some v \<Longrightarrow> ev_attributes (f now) = sort_keys v"
  using assms by (auto simp: event_row_def split: option.split_asm json.split_asm)

lemma item_row_canonical:
  assumes "item_row env svc source tenant it = Some e"
  shows "canonical_row (sv_map svc) tenant source e"
proof -
  from assms obtain payload event f where
    event: "normalize_event env (sv_map svc) payload tenant source = Inr event"
    and f: "event_row event (payload_hash env (JObj event)) = Some f" "e = f []"
    by (auto simp: item_row_def split: if_split_asm option.split_asm sum.split_asm)
  from event obtain category occ t_occ rcv t_rcv attributes where
    fields: "member payload ''tenant_id'' = Some (JStr tenant)" "member payload ''source_id'' = Some (JStr (sd_source_id source))"
    and category: "normalize_category (sv_map svc) (member payload ''category'') = Inr category"
    and times: "parse_utc (member payload ''occurred_at'') ''occurred_at'' = Inr (occ, t_occ)"
      "parse_utc (member payload ''received_at'') ''received_at'' = Inr (rcv, t_rcv)" "check_skew t_occ t_rcv = None"
    and attributes: "allowed_attributes (member payload ''attributes'') = Inr attributes"
    and event_eq: "event = normalized_event payload category occ rcv attributes"
    by (rule normalize_eventE)
  note row = event_row_fields [OF f(1), where now = "[]", folded f(2)]
  have "ev_tenant_id e = tenant" "ev_source_id e = sd_source_id source" "ev_category e = category"
    "ev_occurred_at e = occ" "ev_received_at e = rcv" "ev_attributes e = sort_keys attributes"
    using row(1-5) row(6) [where v = attributes] fields
    by (auto simp: event_eq normalized_event_def text_member_dict_set member_dict_set) (auto simp: text_member_def)
  moreover have "t_occ \<le> t_rcv + max_source_clock_skew"
    using times(3) by (auto simp: check_skew_def)
  ultimately show ?thesis
    using category parse_utc_value [OF times(1)] parse_utc_value [OF times(2)] allowed_keys [OF attributes]
    by (auto simp: canonical_row_def)
qed

lemma canonical_content [simp]: "canonical_row cm tenant source (event_content e) = canonical_row cm tenant source e"
  by (simp add: canonical_row_def event_content_def)

lemma category_canonical:
  assumes "category_map_of repr payload = Inr cm" and "normalize_category cm value = Inr c"
  shows "c \<in> set (cm_canonical cm)"
proof -
  from assms(1) have "category_map_post cm = None"
    by (auto simp: category_map_of_def Let_def split: json.split_asm option.split_asm sum.split_asm if_split_asm)
  then have post: "set (map snd (cm_aliases cm)) \<subseteq> set (cm_canonical cm)"
    "cm_unknown_policy cm = ''other'' \<Longrightarrow> ''other'' \<in> set (cm_canonical cm)"
    by (auto simp: category_map_post_def)
  from assms(2) consider "c \<in> set (cm_canonical cm)" | k where "map_of (cm_aliases cm) k = Some c"
    | "c = ''other''" "cm_unknown_policy cm = ''other''"
    by (auto simp: normalize_category_def Let_def split: option.split_asm json.split_asm if_split_asm)
  then show ?thesis
  proof cases
    case 2
    then have "(k, c) \<in> set (cm_aliases cm)" by (rule map_of_SomeD)
    then have "c \<in> set (map snd (cm_aliases cm))" by force
    with post(1) show ?thesis by blast
  qed (use post in auto)
qed

section \<open>What a run reads\<close>

lemma filter_enumerate:
  "filter (\<lambda>(n, line). m \<le> n) (enumerate i xs) = (if m \<le> i then enumerate i xs else enumerate m (drop (m - i) xs))"
proof (induction xs arbitrary: i)
  case (Cons x xs)
  have "m - i = Suc (m - Suc i)" if "\<not> m \<le> i" using that by simp
  with Cons show ?case by (cases "m = Suc i") auto
qed simp

definition read_items :: "(string \<Rightarrow> string) \<Rightarrow> nat \<Rightarrow> string list \<Rightarrow> adapter_item list" where
  "read_items float_repr k xs = map (\<lambda>(n, line). line_item float_repr n line) (enumerate (Suc k) (drop k xs))"

lemma run_items_read:
  assumes "replay_start (get_checkpoint (sd_tenant_id source) (sd_source_id source) s) = Inr (int k)" and "ra_fault a = None"
  shows "run_items float_repr a source s = read_items float_repr k (ra_lines a)"
proof -
  have "(\<lambda>(n, line). int k < int n) = (\<lambda>(n::nat, line::string). Suc k \<le> n)" by auto
  with assms filter_enumerate [of "Suc k" 1 "ra_lines a"] show ?thesis
    by (auto simp: run_items_def replay_read_def read_items_def Let_def)
qed

lemma read_items_append: "read_items float_repr 0 (xs @ ys) = read_items float_repr 0 xs @ read_items float_repr (length xs) (xs @ ys)"
  by (simp add: read_items_def enumerate_append_eq)

lemma line_item_checkpoint: "it_checkpoint (line_item float_repr n line) = JInt (int n)"
  by (simp add: line_item_def rejected_line_def Let_def split: option.split json.split)

lemma read_items_last: "xs \<noteq> [] \<Longrightarrow> it_checkpoint (last (read_items float_repr 0 xs)) = JInt (int (length xs))"
  by (induction xs rule: rev_induct) (simp_all add: read_items_def enumerate_append_eq line_item_checkpoint)

lemma replay_start_int: "0 \<le> n \<Longrightarrow> replay_start (Some (JInt n)) = Inr n"
  by (simp add: replay_start_def truthy_def)

text \<open>A run that returns leaves the contents of the fold and the last record as checkpoint.\<close>

lemma replay_contents:
  assumes "\<And>n. \<not> ie_unavailable env n" and "1 \<le> sv_max_attempts svc"
    and "ingest_replay env float_repr svc a source tenant s = (Inr run, s')"
  shows "contents s' = fold accept_row (map (item_row env svc source tenant) (run_items float_repr a source s)) (contents s)"
  using assms(3)
proof (cases rule: ingest_replay_returns)
  case (1 s0 u q run_id)
  from process_items_contents [OF assms(1,2) 1(4)] finished_frame(1) [OF 1(5)] 1(1) show ?thesis
    by (simp add: first_progress_def contents_def)
qed

lemma replay_checkpoint:
  assumes "ingest_replay env float_repr svc a source tenant s = (Inr run, s')" and "ra_source a = source"
  shows "get_checkpoint (sd_tenant_id source) (sd_source_id source) s' =
    (let items = run_items float_repr a source s in
     if items = [] then get_checkpoint (sd_tenant_id source) (sd_source_id source) s else Some (it_checkpoint (last items)))"
  using assms(1)
proof (cases rule: ingest_replay_returns)
  case (1 s0 u q run_id)
  note finished = get_checkpoint_cong [OF finished_frame(3) [OF 1(5)], of "sd_tenant_id source" "sd_source_id source"]
  show ?thesis
  proof (cases "run_items float_repr a source s")
    case Nil
    with 1(4) have "ip_store q = s0" by (auto simp: first_progress_def)
    with Nil finished get_checkpoint_cong [OF 1(3)] show ?thesis by simp
  next
    case (Cons it its)
    with process_items_checkpoint [OF 1(4)] finished assms(2) show ?thesis by (simp add: Let_def)
  qed
qed

lemma blocked_item:
  assumes "\<not> is_error_item it" and "it_payload it = Some payload"
    and "normalize_event env (sv_map svc) payload tenant source = Inl (OtherFailure kind)"
  shows "process_items env svc a source tenant (it # its) p =
    (Inl (OtherFailure kind), p\<lparr>ip_checkpoint := Some (it_checkpoint it)\<rparr>)"
  using assms by (simp add: process_item_settles settle_item_def accept_payload_def)

lemma blocked_run:
  assumes "run_items float_repr a source s = it # its" and "\<not> is_error_item it" and "it_payload it = Some payload"
    and "normalize_event env (sv_map svc) payload tenant source = Inl (OtherFailure kind)"
  shows "\<exists>e t. ingest_replay env float_repr svc a source tenant s = (Inl e, t) \<and> is_events t = is_events s \<and>
    is_quarantine t = is_quarantine s \<and> is_checkpoints t = is_checkpoints s"
proof (cases rule: ingest_replay_cases [of env float_repr svc a source tenant s])
  case (started s1 run_id s0)
  let ?p = "first_progress (get_checkpoint (sd_tenant_id source) (sd_source_id source) s) s0"
  have body: "replay_body env float_repr svc a source tenant run_id ?p =
      (Inl (OtherFailure kind), ?p\<lparr>ip_checkpoint := Some (it_checkpoint it)\<rparr>)"
    using assms(1) blocked_item [OF assms(2-4), where p = ?p]
    by (cases "replay_read float_repr a (ip_checkpoint ?p)") (simp add: replay_body_def run_items_def first_progress_def)
  obtain r t where finish: "finish_run env run_id (Some (sd_tenant_id source)) ''failed''
      ((progress_summary (?p\<lparr>ip_checkpoint := Some (it_checkpoint it)\<rparr>))\<lparr>rs_last_error_code := Some (failure_code (OtherFailure kind))\<rparr>)
      s0 = (r, t)" by fastforce
  have "\<exists>e. ingest_replay env float_repr svc a source tenant s = (Inl e, t)"
    using ingest_replay_started [OF started, of float_repr svc] body finish by (cases r) (simp_all add: first_progress_def)
  with finished_frame [OF finish] started_frame [OF started(1,2)] show ?thesis by auto
qed auto

section \<open>The properties\<close>

text \<open>
  C22: whatever a run does and however it ends, an event it adds has the authenticated tenant and
  the source of its adapter, a category of the configured taxonomy, times in UTC with
  \<open>occurred_at\<close> at most five minutes after \<open>received_at\<close>, and no attribute outside the allowed
  list.
\<close>

theorem accepted_events_are_canonical:
  assumes "category_map_of repr payload = Inr (sv_map svc)"
    and "e \<in> set (is_events (snd (ingest_replay env float_repr svc a source tenant s)))" and "e \<notin> set (is_events s)"
  shows "canonical_row (sv_map svc) tenant source e \<and> ev_category e \<in> set (cm_canonical (sv_map svc))"
proof -
  from assms(2,3) ingest_replay_grown [of env svc source tenant float_repr a s]
  have "Some (event_content e) \<in> item_row env svc source tenant ` set (run_items float_repr a source s)"
    by (auto simp: grown_def)
  then obtain it where "item_row env svc source tenant it = Some (event_content e)" by (metis imageE)
  from item_row_canonical [OF this] have "canonical_row (sv_map svc) tenant source e" by simp
  with category_canonical [OF assms(1)] show ?thesis by (auto simp: canonical_row_def)
qed

theorem accepted_events_are_canonical_witness:
  "canonical_row (sv_map demo_service) ''t'' demo_source demo_row \<and> ev_category demo_row \<in> set (cm_canonical (sv_map demo_service))"
proof -
  obtain run s where "demo_replayed demo_file [] = (Inr run, s)" "is_events s = [demo_row]" using demo_first_run by blast
  then show ?thesis
    using accepted_events_are_canonical [OF demo_taxonomy_map, of demo_row demo_ingestion id "demo_replay demo_file" demo_source
      "''t''" empty_ingestion_store]
    by (simp add: demo_replayed_def empty_ingestion_store_def)
qed

text \<open>
  C23: while the database is up, the events after a run that returns are those before it
  followed by the rows of its records in file order, each row whose key is still free: the loop
  with its insertions, conflicts, quarantine and commits is a fold over the unread records.
\<close>

theorem replay_is_a_fold:
  assumes "\<And>n. \<not> ie_unavailable env n" and "1 \<le> sv_max_attempts svc"
    and "ingest_replay env float_repr svc a source tenant s = (Inr run, s')"
  shows "contents s' = fold accept_row (map (item_row env svc source tenant) (run_items float_repr a source s)) (contents s)"
  using assms by (rule replay_contents)

theorem replay_is_a_fold_witness:
  "\<exists>run s. demo_replayed demo_file [] = (Inr run, s) \<and> contents s = [event_content demo_row] \<and>
     contents s = fold accept_row (map (item_row demo_ingestion demo_service demo_source ''t'')
       (run_items id (demo_replay demo_file) demo_source empty_ingestion_store)) []"
proof -
  obtain run s where run: "demo_replayed demo_file [] = (Inr run, s)" "is_events s = [demo_row]" using demo_first_run by blast
  with replay_is_a_fold [OF demo_up run(1) [unfolded demo_replayed_def]] show ?thesis
    by (simp add: contents_def empty_ingestion_store_def)
qed

text \<open>
  C24: processing records again adds nothing. After a run has returned, any later run, over any
  file and from any checkpoint, whose records have rows among those the first run processed
  leaves the accepted events as they are: delivery at least once, events exactly once.
\<close>

theorem redelivery_adds_nothing:
  assumes "\<And>n. \<not> ie_unavailable env n" and "1 \<le> sv_max_attempts svc"
    and "ingest_replay env float_repr svc a source tenant s = (Inr run, s1)"
    and "prefix (contents s1) (contents s2)"
    and "ingest_replay env float_repr svc a' source tenant s2 = (Inr run', s3)"
    and "item_row env svc source tenant ` set (run_items float_repr a' source s2) \<subseteq>
         item_row env svc source tenant ` set (run_items float_repr a source s)"
  shows "contents s3 = contents s2"
  unfolding replay_contents [OF assms(1,2,5)]
  by (rule fold_accept_again [where its = "map (item_row env svc source tenant) (run_items float_repr a source s)"])
    (use assms(4,6) replay_contents [OF assms(1,2,3)] in simp_all)

theorem redelivery_adds_nothing_witness:
  "\<exists>run s. demo_replayed demo_file [demo_row] = (Inr run, s) \<and> ru_duplicate run = 1 \<and> contents s = [event_content demo_row]"
proof -
  let ?s2 = "empty_ingestion_store\<lparr>is_events := [demo_row]\<rparr>"
  obtain run s where run: "demo_replayed demo_file [] = (Inr run, s)" "is_events s = [demo_row]" using demo_first_run by blast
  obtain run' s' where again: "demo_replayed demo_file [demo_row] = (Inr run', s')" "ru_duplicate run' = 1" using demo_again_run by blast
  have "run_items id (demo_replay demo_file) demo_source ?s2 =
      run_items id (demo_replay demo_file) demo_source (empty_ingestion_store\<lparr>is_events := []\<rparr>)"
    by (simp add: run_items_def get_checkpoint_def)
  with redelivery_adds_nothing [OF demo_up run(1) [unfolded demo_replayed_def], of ?s2 "demo_replay demo_file" run' s'] again run(2)
  have "contents s' = [event_content demo_row]" by (simp add: demo_replayed_def contents_def)
  with again show ?thesis by blast
qed

text \<open>
  C25: resuming equals one pass. A run over the first part of a growing file followed by a run
  over the whole file accepts what one run over the whole file accepts.
\<close>

theorem resuming_equals_one_pass:
  assumes "\<And>n. \<not> ie_unavailable env n" and "1 \<le> sv_max_attempts svc" and "ra_source a = source" and "ra_fault a = None"
    and "get_checkpoint (sd_tenant_id source) (sd_source_id source) s = None"
    and first: "ingest_replay env float_repr svc (a\<lparr>ra_lines := xs\<rparr>) source tenant s = (Inr run1, s1)"
    and second: "ingest_replay env float_repr svc (a\<lparr>ra_lines := xs @ ys\<rparr>) source tenant s1 = (Inr run2, s2)"
    and whole: "ingest_replay env float_repr svc (a\<lparr>ra_lines := xs @ ys\<rparr>) source tenant s = (Inr run, s')"
  shows "contents s2 = contents s'"
proof -
  have items: "run_items float_repr (a\<lparr>ra_lines := zs\<rparr>) source s = read_items float_repr 0 zs" for zs
    using assms(4,5) by (subst run_items_read [where k = 0]) (simp_all add: replay_start_def)
  have "replay_start (get_checkpoint (sd_tenant_id source) (sd_source_id source) s1) = Inr (int (length xs))"
  proof (cases "xs = []")
    case True
    with replay_checkpoint [OF first] items [of xs] assms(3,5) show ?thesis by (simp add: read_items_def replay_start_def)
  next
    case False
    then have "read_items float_repr 0 xs \<noteq> []" by (cases xs) (simp_all add: read_items_def)
    with replay_checkpoint [OF first] items [of xs] assms(3) read_items_last [OF False] show ?thesis
      by (simp add: replay_start_int)
  qed
  then have rest: "run_items float_repr (a\<lparr>ra_lines := xs @ ys\<rparr>) source s1 = read_items float_repr (length xs) (xs @ ys)"
    using assms(4) by (subst run_items_read [where k = "length xs"]) simp_all
  show ?thesis
    unfolding replay_contents [OF assms(1,2) second] replay_contents [OF assms(1,2) whole] replay_contents [OF assms(1,2) first]
      items rest read_items_append [of float_repr xs ys]
    by simp
qed

theorem resuming_equals_one_pass_witness:
  "\<exists>d r run s. demo_resumed d r = (Inr run, s) \<and> contents s = [event_content demo_row]"
proof -
  obtain run s where whole: "demo_replayed demo_file [] = (Inr run, s)" "is_events s = [demo_row]" using demo_first_run by blast
  obtain run1 d r where first: "demo_replayed [''{''] [] = (Inr run1, demo_stopped d r)" using demo_stopped_run by blast
  obtain run2 s2 where second: "demo_resumed d r = (Inr run2, s2)" using demo_resumed_run by blast
  have "contents s2 = contents s"
    using resuming_equals_one_pass [OF demo_up, where a = "demo_replay []" and source = demo_source and s = empty_ingestion_store
      and float_repr = id and xs = "[''{'']" and ys = "tl demo_file" and tenant = "''t''"] whole first second
    by (simp add: demo_replay_def demo_replayed_def demo_resumed_def demo_file_def get_checkpoint_def empty_ingestion_store_def
        select_row_def)
  with whole have "contents s2 = [event_content demo_row]" by (simp add: contents_def)
  with second show ?thesis by blast
qed

text \<open>
  C26: the counters of a completed run follow the tables: accepted, duplicate and rejected add up
  to the records read, the events grew by the accepted and the quarantine by the rejected ones,
  and the checkpoint is the last record read.
\<close>

theorem run_counts_add_up:
  assumes "ingest_replay env float_repr svc a source tenant s = (Inr run, s')" and "ra_source a = source"
  shows "ru_accepted run + ru_duplicate run + ru_rejected run = int (length (run_items float_repr a source s)) \<and>
    int (length (is_events s')) = int (length (is_events s)) + ru_accepted run \<and>
    int (length (is_quarantine s')) = int (length (is_quarantine s)) + ru_rejected run \<and>
    get_checkpoint (sd_tenant_id source) (sd_source_id source) s' =
      (let items = run_items float_repr a source s in
       if items = [] then get_checkpoint (sd_tenant_id source) (sd_source_id source) s else Some (it_checkpoint (last items)))"
proof -
  have "ru_accepted run + ru_duplicate run + ru_rejected run = int (length (run_items float_repr a source s)) \<and>
    int (length (is_events s')) = int (length (is_events s)) + ru_accepted run \<and>
    int (length (is_quarantine s')) = int (length (is_quarantine s)) + ru_rejected run"
    using assms(1)
  proof (cases rule: ingest_replay_returns)
    case (1 s0 u q run_id)
    from process_items_effect [OF 1(4)] 1(1,2) finished_frame [OF 1(5)] finish_run_row [OF 1(5)] show ?thesis
      by (simp add: counted_def first_progress_def progress_summary_def)
  qed
  with replay_checkpoint [OF assms] show ?thesis by blast
qed

theorem run_counts_add_up_witness:
  "\<exists>run s. demo_replayed demo_file [] = (Inr run, s) \<and> ru_accepted run = 1 \<and> ru_duplicate run + ru_rejected run = 1 \<and>
     get_checkpoint ''t'' ''s'' s = Some (JInt 2)"
proof -
  let ?items = "run_items id (demo_replay demo_file) demo_source empty_ingestion_store"
  obtain run s where run: "demo_replayed demo_file [] = (Inr run, s)" "is_events s = [demo_row]" using demo_first_run by blast
  have read: "?items = read_items id 0 demo_file"
    by (subst run_items_read [where k = 0])
      (simp_all add: demo_replay_def get_checkpoint_def empty_ingestion_store_def select_row_def replay_start_def)
  then have "length ?items = 2" "it_checkpoint (last ?items) = JInt 2" "?items \<noteq> []"
    using read_items_last [of demo_file id] by (simp_all add: read_items_def demo_file_def)
  with run_counts_add_up [OF run(1) [unfolded demo_replayed_def]] run show ?thesis
    by (simp add: demo_replay_def demo_source_def empty_ingestion_store_def)
qed

text \<open>
  C27: the tables under any use. From the empty database, any sequence of replays, registrations,
  checkpoints, insertions and quarantines by any tenants keeps the primary and foreign keys and
  the NOT NULL coordinates, and never removes or changes an accepted event or a quarantined
  payload.
\<close>

theorem tables_stay_consistent:
  "constraints (fold (perform env float_repr svc) calls empty_ingestion_store) \<and>
   extends (fold (perform env float_repr svc) calls empty_ingestion_store)
     (fold (perform env float_repr svc) (calls @ later) empty_ingestion_store)"
proof -
  have "constraints empty_ingestion_store" by (simp add: constraints_def empty_ingestion_store_def unique_on_def)
  from ingestion.run_inv [OF this] have inv: "constraints (fold (perform env float_repr svc) calls empty_ingestion_store)" .
  with ingestion.run_rel [OF this] show ?thesis by simp
qed

text \<open>
  C28: a record whose normalization raises anything but a classified error stops every run at the
  same record. It is neither quarantined nor committed, so however often the replay is started
  again nothing after it is ever read.
\<close>

theorem unclassified_record_blocks:
  assumes "run_items float_repr a source s = it # its" and "\<not> is_error_item it" and "it_payload it = Some payload"
    and "normalize_event env (sv_map svc) payload tenant source = Inl (OtherFailure kind)"
  shows "let again = (\<lambda>t. snd (ingest_replay env float_repr svc a source tenant t)) ^^ n in
    is_events (again s) = is_events s \<and> is_quarantine (again s) = is_quarantine s \<and>
    run_items float_repr a source (again s) = it # its \<and>
    (\<exists>e. fst (ingest_replay env float_repr svc a source tenant (again s)) = Inl e)"
proof -
  let ?run = "\<lambda>t. snd (ingest_replay env float_repr svc a source tenant t)"
  have same: "is_events ((?run ^^ n) s) = is_events s \<and> is_quarantine ((?run ^^ n) s) = is_quarantine s \<and>
    is_checkpoints ((?run ^^ n) s) = is_checkpoints s"
  proof (induction n)
    case (Suc n)
    then have "run_items float_repr a source ((?run ^^ n) s) = it # its"
      using assms(1) get_checkpoint_cong by (metis run_items_def)
    from blocked_run [OF this assms(2-4)] Suc show ?case by auto
  qed simp
  then have items: "run_items float_repr a source ((?run ^^ n) s) = it # its"
    using assms(1) get_checkpoint_cong by (metis run_items_def)
  from blocked_run [OF this assms(2-4)] same items show ?thesis by (auto simp: Let_def)
qed

theorem unclassified_record_blocks_witness:
  "is_events (((\<lambda>t. snd (ingest_replay demo_ingestion id demo_service demo_poison demo_source ''t'' t)) ^^ 9) empty_ingestion_store) = []"
proof -
  let ?items = "run_items id demo_poison demo_source empty_ingestion_store"
  have "(case ?items of
      it # its \<Rightarrow> \<not> is_error_item it \<and> (case it_payload it of
        Some payload \<Rightarrow> normalize_event demo_ingestion (sv_map demo_service) payload ''t'' demo_source = Inl (OtherFailure ''OverflowError'')
      | None \<Rightarrow> False)
    | [] \<Rightarrow> False)" by code_simp
  then obtain it its payload where "?items = it # its" "\<not> is_error_item it" "it_payload it = Some payload"
    "normalize_event demo_ingestion (sv_map demo_service) payload ''t'' demo_source = Inl (OtherFailure ''OverflowError'')"
    by (auto split: list.split_asm option.split_asm)
  from unclassified_record_blocks [OF this, of 9] show ?thesis by (simp add: Let_def empty_ingestion_store_def)
qed

end
