(* ===== verification/Video_Errors.thy ===== *)
theory Video_Errors
  imports Py_Json
begin

text \<open>
  \<open>video/errors.py\<close>: the classified error of the video pipeline and the validation of its
  diagnostics, which may only carry bounded numbers and allowlisted names.
\<close>

section \<open>Diagnostics\<close>

type_synonym diagnostics = "(string \<times> json) list"

definition candidate_fields :: "string set" where
  "candidate_fields = {''offset_seconds'', ''category'', ''confidence''}"

definition format_stages :: "string set" where
  "format_stages = {''indexed_video_candidate'', ''short_video_candidate'', ''short_video_screen''}"

definition format_reasons :: "string set" where
  "format_reasons = {''content_shape_invalid'', ''json_format_invalid'', ''response_shape_invalid'',
     ''token_format_invalid'', ''token_limit_reached''}"

definition diagnostic_keys :: "string list" where
  "diagnostic_keys = [''proposal_index'', ''missing_fields'', ''invalid_fields'', ''unexpected_field_count'',
     ''format_stage'', ''format_reason'']"

text \<open>\<open>isinstance(v, int)\<close> without \<open>bool\<close>, in a range; a name of a set; a list of such names.\<close>

definition bounded_int :: "int \<Rightarrow> int \<Rightarrow> json \<Rightarrow> json option" where
  "bounded_int lo hi v = (case v of JInt i \<Rightarrow> if lo \<le> i \<and> i \<le> hi then Some v else None | _ \<Rightarrow> None)"

definition allowed_name :: "string set \<Rightarrow> json \<Rightarrow> json option" where
  "allowed_name names v = (case v of JStr s \<Rightarrow> if s \<in> names then Some v else None | _ \<Rightarrow> None)"

fun field_names :: "json list \<Rightarrow> string list option" where
  "field_names [] = Some []"
| "field_names (JStr s # vs) = (if s \<in> candidate_fields then map_option ((#) s) (field_names vs) else None)"
| "field_names (v # vs) = None"

definition allowed_fields :: "json \<Rightarrow> json option" where
  "allowed_fields v = (case v of
     JArr vs \<Rightarrow> map_option (\<lambda>names. JArr (map JStr (sort (remdups names)))) (field_names vs)
   | _ \<Rightarrow> None)"

definition diagnostic_value :: "string \<Rightarrow> json \<Rightarrow> json option" where
  "diagnostic_value key v =
     (if key = ''proposal_index'' then bounded_int 0 99 v
      else if key \<in> {''missing_fields'', ''invalid_fields''} then allowed_fields v
      else if key = ''unexpected_field_count'' then bounded_int 0 100 v
      else if key = ''format_stage'' then allowed_name format_stages v
      else if key = ''format_reason'' then allowed_name format_reasons v
      else None)"

fun collect_diagnostics :: "diagnostics \<Rightarrow> string list \<Rightarrow> diagnostics option" where
  "collect_diagnostics value [] = Some []"
| "collect_diagnostics value (key # keys) =
     (case member value key of
        None \<Rightarrow> collect_diagnostics value keys
      | Some v \<Rightarrow>
          (case diagnostic_value key v of
             None \<Rightarrow> None
           | Some w \<Rightarrow> map_option ((#) (key, w)) (collect_diagnostics value keys)))"

text \<open>\<open>None\<close> stands for the \<open>ValueError\<close> each refused field raises.\<close>

definition validated_safe_diagnostics :: "diagnostics option \<Rightarrow> diagnostics option" where
  "validated_safe_diagnostics value =
     (case value of
        None \<Rightarrow> Some []
      | Some d \<Rightarrow>
          (if \<not> set (map fst d) \<subseteq> set diagnostic_keys then None
           else if (member d ''format_stage'' \<noteq> None) \<noteq> (member d ''format_reason'' \<noteq> None) then None
           else collect_diagnostics d diagnostic_keys))"

section \<open>Errors\<close>

text \<open>
  \<open>Pipeline\<close> is \<open>VideoPipelineError\<close>; \<open>Integrity\<close> is \<open>sqlite3.IntegrityError\<close>; \<open>Failure\<close> is any
  other exception, by its class. The message texts are left out.
\<close>

datatype vexn = Pipeline string bool diagnostics | Integrity | Failure string

definition pipeline_error :: "string \<Rightarrow> bool \<Rightarrow> diagnostics option \<Rightarrow> vexn" where
  "pipeline_error code retryable d =
     (case validated_safe_diagnostics d of None \<Rightarrow> Failure ''ValueError'' | Some safe \<Rightarrow> Pipeline code retryable safe)"

abbreviation pipeline :: "string \<Rightarrow> vexn" where
  "pipeline code \<equiv> Pipeline code False []"

lemma pipeline_error_plain [simp]: "pipeline_error code r None = Pipeline code r []"
  by (simp add: pipeline_error_def validated_safe_diagnostics_def)

section \<open>What a diagnostic can reveal\<close>

fun leaf_safe :: "json \<Rightarrow> bool" where
  "leaf_safe (JInt i) = (0 \<le> i \<and> i \<le> 100)"
| "leaf_safe (JStr s) = (s \<in> candidate_fields \<union> format_stages \<union> format_reasons)"
| "leaf_safe (JArr vs) = list_all leaf_safe vs"
| "leaf_safe v = False"

lemma field_names_sound: "field_names vs = Some names \<Longrightarrow> set names \<subseteq> candidate_fields \<and> vs = map JStr names"
  by (induction vs arbitrary: names rule: field_names.induct) (auto split: if_splits)

lemma field_names_map: "set names \<subseteq> candidate_fields \<Longrightarrow> field_names (map JStr names) = Some names"
  by (induction names) auto

lemma diagnostic_value_safe: "diagnostic_value key v = Some w \<Longrightarrow> leaf_safe w"
  by (auto simp: diagnostic_value_def bounded_int_def allowed_name_def allowed_fields_def list_all_iff
      dest!: field_names_sound split: if_splits json.splits)

lemma diagnostic_value_again: "diagnostic_value key v = Some w \<Longrightarrow> diagnostic_value key w = Some w"
proof -
  have "allowed_fields w = Some w" if "allowed_fields v = Some w"
    using that by (auto simp: allowed_fields_def field_names_map distinct_remdups_id sorted_sort_id
        dest!: field_names_sound split: json.splits)
  then show "diagnostic_value key v = Some w \<Longrightarrow> diagnostic_value key w = Some w"
    by (auto simp: diagnostic_value_def bounded_int_def allowed_name_def split: if_splits json.splits)
qed

lemma collect_safe: "collect_diagnostics d keys = Some r \<Longrightarrow> set (map fst r) \<subseteq> set keys \<and> (\<forall>(k, v) \<in> set r. leaf_safe v)"
  by (induction keys arbitrary: r) (fastforce split: option.splits dest: diagnostic_value_safe)+

lemma collect_member:
  assumes "collect_diagnostics d keys = Some r" and "distinct keys"
  shows "map_of r k = (if k \<in> set keys then (case member d k of None \<Rightarrow> None | Some v \<Rightarrow> diagnostic_value k v) else None)"
  using assms by (induction keys arbitrary: r) (auto split: option.splits)

lemma collect_distinct: "collect_diagnostics d keys = Some r \<Longrightarrow> distinct keys \<Longrightarrow> distinct (map fst r)"
proof (induction keys arbitrary: r)
  case (Cons k keys)
  then show ?case by (fastforce split: option.splits dest: collect_safe)
qed simp

lemma collect_again:
  assumes "\<And>k. k \<in> set keys \<Longrightarrow> member r k = (case member d k of None \<Rightarrow> None | Some v \<Rightarrow> diagnostic_value k v)"
    and "collect_diagnostics d keys = Some c"
  shows "collect_diagnostics r keys = Some c"
  using assms
proof (induction keys arbitrary: c)
  case (Cons k keys)
  from Cons.prems(1) [of k] Cons.prems(2) Cons.IH Cons.prems(1) show ?case
    by (auto split: option.splits dest: diagnostic_value_again)
qed simp

lemma member_distinct: "distinct (map fst kvs) \<Longrightarrow> member kvs = map_of kvs"
proof (rule ext)
  fix k assume d: "distinct (map fst kvs)"
  then have "distinct (map fst (rev kvs))" by (simp add: rev_map [symmetric])
  with d show "member kvs k = map_of kvs k"
    unfolding member_def by (metis map_of_inject_set set_rev)
qed

lemma validated_idempotent:
  assumes "validated_safe_diagnostics (Some d) = Some r"
  shows "validated_safe_diagnostics (Some r) = Some r"
proof -
  have dk: "distinct diagnostic_keys" by (simp add: diagnostic_keys_def)
  from assms have c: "collect_diagnostics d diagnostic_keys = Some r"
    and pair: "(member d ''format_stage'' \<noteq> None) = (member d ''format_reason'' \<noteq> None)"
    by (auto simp: validated_safe_diagnostics_def split: if_splits)
  have m: "member r k = (if k \<in> set diagnostic_keys then (case member d k of None \<Rightarrow> None | Some v \<Rightarrow> diagnostic_value k v) else None)" for k
    using collect_member [OF c dk] member_distinct [OF collect_distinct [OF c dk]] by simp
  have "collect_diagnostics r diagnostic_keys = Some r" by (rule collect_again [OF _ c]) (simp add: m)
  moreover have "diagnostic_value k v \<noteq> None" if "member d k = Some v" "k \<in> set diagnostic_keys" for k v
  proof -
    have "collect_diagnostics d keys \<noteq> None \<Longrightarrow> k \<in> set keys \<Longrightarrow> diagnostic_value k v \<noteq> None" for keys
      using that(1) by (induction keys) (auto split: option.splits)
    with c that(2) show ?thesis by auto
  qed
  then have "(member r k \<noteq> None) = (member d k \<noteq> None)" if "k \<in> set diagnostic_keys" for k
    using that by (auto simp: m split: option.splits)
  then have "(member r ''format_stage'' \<noteq> None) = (member r ''format_reason'' \<noteq> None)"
    using pair by (simp add: diagnostic_keys_def)
  ultimately show ?thesis
    using collect_safe [OF c] by (simp add: validated_safe_diagnostics_def)
qed

text \<open>
  The diagnostics of a video pipeline error name only allowlisted keys and carry only small
  numbers and allowlisted words, whatever dict the raiser passes; an error built again from them,
  as the worker does when it reads a stored failure, carries the same diagnostics.
\<close>

theorem pipeline_diagnostics_are_bounded:
  assumes "pipeline_error code retryable (Some d) = Pipeline code retryable safe"
  shows "set (map fst safe) \<subseteq> set diagnostic_keys \<and> (\<forall>(k, v) \<in> set safe. leaf_safe v) \<and>
    pipeline_error code retryable (Some safe) = Pipeline code retryable safe"
proof -
  from assms have valid: "validated_safe_diagnostics (Some d) = Some safe"
    by (simp add: pipeline_error_def split: option.split_asm)
  then have "collect_diagnostics d diagnostic_keys = Some safe"
    by (auto simp: validated_safe_diagnostics_def split: if_split_asm)
  from collect_safe [OF this] validated_idempotent [OF valid] show ?thesis by (simp add: pipeline_error_def)
qed

end
