(* ===== verification/Video_Tables.thy ===== *)
theory Video_Tables
  imports Ingestion_Store Video_Errors
begin

text \<open>
  The tables of \<open>video/store.py\<close>. They share the database, its clock and its random identifiers
  with the ingestion store. The columns of a job are typed; its timestamps are instants, compared
  as the texts they are stored as (\<open>text_less\<close>). The other payloads are the JSON objects the code
  stores, as lists of members.
\<close>

type_synonym payload = "(string \<times> json) list"

datatype job_state = Queued | Running | Completed | Failed | Cancelled | Retry

record job_row =
  jb_tenant_id :: string
  jb_job_id :: string
  jb_asset_id :: string
  jb_operation :: string
  jb_idempotency_key :: string
  jb_state :: job_state
  jb_attempts :: int
  jb_max_attempts :: int
  jb_last_error_code :: "string option"
  jb_safe_diagnostics :: diagnostics
  jb_available_at :: int
  jb_started_at :: "int option"
  jb_finished_at :: "int option"
  jb_lease_expires_at :: "int option"
  jb_heartbeat_at :: "int option"
  jb_worker_id :: "string option"
  jb_dead_lettered_at :: "int option"
  jb_created_at :: int
  jb_updated_at :: int

record camera_row =
  cr_tenant_id :: string
  cr_source_id :: string
  cr_payload :: payload
  cr_created_at :: string

record asset_row =
  as_tenant_id :: string
  as_asset_id :: string
  as_source_id :: string
  as_payload :: payload
  as_local_path :: string
  as_created_at :: int

record mapping_row =
  mp_tenant_id :: string
  mp_source_id :: string
  mp_asset_id :: string
  mp_reka_video_id :: string
  mp_indexing_status :: string
  mp_remote_deleted_at :: "int option"
  mp_created_at :: int
  mp_updated_at :: int

record candidate_row =
  cd_tenant_id :: string
  cd_detection_id :: string
  cd_source_id :: string
  cd_asset_id :: string
  cd_semantic_key :: string
  cd_payload :: payload
  cd_created_at :: int

record review_row =
  rv_tenant_id :: string
  rv_review_id :: string
  rv_detection_id :: string
  rv_payload :: payload
  rv_created_at :: int

record coverage_row =
  cv_tenant_id :: string
  cv_source_id :: string
  cv_interval_start :: string
  cv_payload :: payload

record audit_row =
  au_tenant_id :: string
  au_audit_id :: string
  au_action :: string
  au_resource_type :: string
  au_resource_id :: string
  au_outcome :: string
  au_error_code :: "string option"
  au_created_at :: int

record snapshot_row =
  sn_tenant_id :: string
  sn_version :: string
  sn_interval_start :: string
  sn_rows :: json
  sn_created_at :: int

text \<open>
  A file of the restricted media directory: its size, its first twelve bytes, its SHA-256, what the
  scanner says of it and the duration the prober reads.
\<close>

record media_file =
  mf_size :: int
  mf_header :: string
  mf_sha256 :: string
  mf_scan :: "vexn option"
  mf_duration :: "vexn + string"

text \<open>
  The state of the pipeline: the database (\<open>vs_db\<close> and the video tables), the media directory by
  path, and the number of calls made so far to the vision provider.
\<close>

record video_store =
  vs_db :: ingestion_store
  vs_jobs :: "job_row list"
  vs_sources :: "camera_row list"
  vs_assets :: "asset_row list"
  vs_mappings :: "mapping_row list"
  vs_candidates :: "candidate_row list"
  vs_reviews :: "review_row list"
  vs_coverage :: "coverage_row list"
  vs_snapshots :: "snapshot_row list"
  vs_audit :: "audit_row list"
  vs_files :: "(string \<times> media_file) list"
  vs_calls :: nat

definition empty_video_store :: video_store where
  "empty_video_store = \<lparr>vs_db = empty_ingestion_store, vs_jobs = [], vs_sources = [], vs_assets = [], vs_mappings = [],
     vs_candidates = [], vs_reviews = [], vs_coverage = [], vs_snapshots = [], vs_audit = [],
     vs_files = [], vs_calls = 0\<rparr>"

type_synonym 'a video_op = "video_store \<Rightarrow> (vexn, 'a, video_store) outcome"

text \<open>\<open>datetime.now(UTC)\<close> and \<open>str(uuid.uuid4())\<close>.\<close>

definition video_now :: "ingestion_env \<Rightarrow> int video_op" where
  "video_now env s = (let db = vs_db s in (Inr (ie_clock env (is_reads db)), s\<lparr>vs_db := db\<lparr>is_reads := Suc (is_reads db)\<rparr>\<rparr>))"

definition video_uuid :: "ingestion_env \<Rightarrow> string video_op" where
  "video_uuid env s = (let db = vs_db s in (Inr (ie_uuid env (is_ids db)), s\<lparr>vs_db := db\<lparr>is_ids := Suc (is_ids db)\<rparr>\<rparr>))"

end
