(* ===== verification/Video_Jobs.thy ===== *)
theory Video_Jobs
  imports Video_Tables
begin

text \<open>
  The processing jobs of \<open>video/store.py\<close>: a durable state machine with leases. A method is one
  transaction; \<open>rowcount\<close> is the number of rows its \<open>WHERE\<close> clause selects.
\<close>

section \<open>Selecting jobs\<close>

definition job_is :: "string \<Rightarrow> string \<Rightarrow> job_row \<Rightarrow> bool" where
  "job_is tenant_id job_id r \<longleftrightarrow> jb_tenant_id r = tenant_id \<and> jb_job_id r = job_id"

text \<open>The partial unique index \<open>video_jobs_one_active_analysis\<close>.\<close>

definition active_analysis :: "job_row \<Rightarrow> bool" where
  "active_analysis r \<longleftrightarrow> jb_operation r = ''analyze'' \<and> jb_state r \<in> {Queued, Running, Retry}"

definition get_job :: "string \<Rightarrow> string \<Rightarrow> job_row video_op" where
  "get_job tenant_id job_id s =
     (case select_row (job_is tenant_id job_id) (vs_jobs s) of
        None \<Rightarrow> (Inl (pipeline ''job_not_found''), s)
      | Some r \<Rightarrow> (Inr r, s))"

definition list_jobs :: "string \<Rightarrow> int \<Rightarrow> video_store \<Rightarrow> job_row list" where
  "list_jobs tenant_id limit s =
     take (nat (min (max limit 1) 100))
       (sort_key (\<lambda>r. - text_rank (jb_created_at r)) (filter (\<lambda>r. jb_tenant_id r = tenant_id) (vs_jobs s)))"

definition jobs_for_asset :: "string \<Rightarrow> string \<Rightarrow> video_store \<Rightarrow> job_row list" where
  "jobs_for_asset tenant_id asset_id s =
     sort_key (\<lambda>r. text_rank (jb_created_at r)) (sort_key jb_job_id
       (filter (\<lambda>r. jb_tenant_id r = tenant_id \<and> jb_asset_id r = asset_id) (vs_jobs s)))"

text \<open>An exhausted index job whose last answer was "pending" is still delivered.\<close>

definition index_pending :: "job_row \<Rightarrow> bool" where
  "index_pending r \<longleftrightarrow> jb_operation r = ''index'' \<and> jb_state r = Retry \<and> jb_last_error_code r = Some ''reka_index_pending''"

definition job_ready :: "string list \<Rightarrow> int \<Rightarrow> job_row \<Rightarrow> bool" where
  "job_ready operations now r \<longleftrightarrow> jb_state r \<in> {Queued, Retry} \<and> text_le (jb_available_at r) now \<and>
     jb_operation r \<in> set operations \<and> (jb_attempts r < jb_max_attempts r \<or> index_pending r)"

definition ready_jobs :: "ingestion_env \<Rightarrow> string list \<Rightarrow> int \<Rightarrow> job_row list video_op" where
  "ready_jobs env operations limit s =
     (if operations = [] \<or> limit < 1 then (Inr [], s)
      else and_then (video_now env s) (\<lambda>now s.
        (Inr (take (nat limit) (sort_key (\<lambda>r. text_rank (jb_available_at r)) (sort_key (\<lambda>r. text_rank (jb_created_at r))
           (filter (job_ready operations now) (vs_jobs s))))), s)))"

definition job_metrics :: "string \<Rightarrow> job_state \<Rightarrow> video_store \<Rightarrow> nat" where
  "job_metrics tenant_id state s = count_rows (\<lambda>r. jb_tenant_id r = tenant_id \<and> jb_state r = state) (vs_jobs s)"

section \<open>Enqueueing\<close>

definition new_job_row :: "string \<Rightarrow> string \<Rightarrow> string \<Rightarrow> string \<Rightarrow> string \<Rightarrow> int \<Rightarrow> int \<Rightarrow> job_row" where
  "new_job_row tenant_id job_id asset_id operation key max_attempts now =
     \<lparr>jb_tenant_id = tenant_id, jb_job_id = job_id, jb_asset_id = asset_id, jb_operation = operation,
      jb_idempotency_key = key, jb_state = Queued, jb_attempts = 0, jb_max_attempts = max_attempts,
      jb_last_error_code = None, jb_safe_diagnostics = [], jb_available_at = now, jb_started_at = None,
      jb_finished_at = None, jb_lease_expires_at = None, jb_heartbeat_at = None, jb_worker_id = None,
      jb_dead_lettered_at = None, jb_created_at = now, jb_updated_at = now\<rparr>"

text \<open>What the primary key, the unique key and the partial index refuse.\<close>

definition job_conflict :: "job_row \<Rightarrow> job_row list \<Rightarrow> bool" where
  "job_conflict r rows \<longleftrightarrow> list_ex (\<lambda>q. jb_tenant_id q = jb_tenant_id r \<and>
     (jb_job_id q = jb_job_id r \<or> jb_idempotency_key q = jb_idempotency_key r \<or>
      jb_asset_id q = jb_asset_id r \<and> active_analysis q \<and> active_analysis r)) rows"

definition enqueue_job ::
  "ingestion_env \<Rightarrow> string \<Rightarrow> string \<Rightarrow> string \<Rightarrow> int \<Rightarrow> string option \<Rightarrow> job_row video_op" where
  "enqueue_job env tenant_id asset_id operation max_attempts idempotency_key s =
     (let key = (case idempotency_key of
            None \<Rightarrow> asset_id @ '':'' @ operation
          | Some k \<Rightarrow> if k = [] then asset_id @ '':'' @ operation else k) in
      and_then (video_now env s) (\<lambda>now s.
      case select_row (\<lambda>r. jb_tenant_id r = tenant_id \<and> jb_idempotency_key r = key) (vs_jobs s) of
        Some r \<Rightarrow> (Inr r, s)
      | None \<Rightarrow>
          and_then (video_uuid env s) (\<lambda>job_id s.
          let r = new_job_row tenant_id job_id asset_id operation key max_attempts now in
          and_then (raise_if (job_conflict r (vs_jobs s)) (pipeline ''job_active_conflict'') s) (\<lambda>_ s.
          get_job tenant_id job_id (s\<lparr>vs_jobs := vs_jobs s @ [r]\<rparr>)))))"

section \<open>Moving jobs\<close>

definition job_state_of :: "string \<Rightarrow> job_state option" where
  "job_state_of text = map_of
     [(''queued'', Queued), (''running'', Running), (''completed'', Completed), (''failed'', Failed),
      (''cancelled'', Cancelled), (''retry'', Retry)] text"

definition transitioned :: "job_state \<Rightarrow> string option \<Rightarrow> diagnostics \<Rightarrow> int \<Rightarrow> int \<Rightarrow> job_row \<Rightarrow> job_row" where
  "transitioned state error_code safe_diagnostics now available_at r =
     r\<lparr>jb_state := state, jb_attempts := jb_attempts r + (if state = Running then 1 else 0),
       jb_last_error_code := error_code, jb_safe_diagnostics := safe_diagnostics,
       jb_started_at := (if state = Running then Some now else jb_started_at r),
       jb_finished_at := (if state \<in> {Completed, Failed, Cancelled} then Some now else None),
       jb_available_at := available_at, jb_lease_expires_at := None, jb_heartbeat_at := None, jb_worker_id := None,
       jb_updated_at := now\<rparr>"

text \<open>
  A write that would make a second active analysis of an asset breaks the partial index:
  \<open>sqlite3.IntegrityError\<close> leaves the method.
\<close>

definition breaks_active_index :: "job_row \<Rightarrow> job_row \<Rightarrow> job_row list \<Rightarrow> bool" where
  "breaks_active_index old new rows \<longleftrightarrow> active_analysis new \<and> \<not> active_analysis old \<and>
     list_ex (\<lambda>q. jb_tenant_id q = jb_tenant_id new \<and> jb_asset_id q = jb_asset_id new \<and> active_analysis q) rows"

definition transition_job ::
  "ingestion_env \<Rightarrow> string \<Rightarrow> string \<Rightarrow> string \<Rightarrow> string option \<Rightarrow> int \<Rightarrow> diagnostics \<Rightarrow> job_row video_op" where
  "transition_job env tenant_id job_id state error_code retry_delay_us safe_diagnostics s =
     (case job_state_of state of
        None \<Rightarrow> (Inl (Failure ''ValueError''), s)
      | Some st \<Rightarrow>
          and_then (video_now env s) (\<lambda>now s.
          and_then (get_job tenant_id job_id s) (\<lambda>current s.
          and_then (video_now env s) (\<lambda>later s.
          let f = transitioned st error_code safe_diagnostics now (later + max retry_delay_us 0) in
          and_then (raise_if (breaks_active_index current (f current) (vs_jobs s)) Integrity s) (\<lambda>_ s.
          get_job tenant_id job_id (s\<lparr>vs_jobs := update_rows (job_is tenant_id job_id) f (vs_jobs s)\<rparr>))))))"

definition claimed :: "string \<Rightarrow> int \<Rightarrow> int \<Rightarrow> job_row \<Rightarrow> job_row" where
  "claimed worker_id lease now r =
     r\<lparr>jb_state := Running, jb_attempts := jb_attempts r + 1,
       jb_started_at := (case jb_started_at r of None \<Rightarrow> Some now | Some t \<Rightarrow> Some t),
       jb_heartbeat_at := Some now, jb_lease_expires_at := Some lease, jb_worker_id := Some worker_id, jb_updated_at := now\<rparr>"

definition claimable :: "int \<Rightarrow> job_row \<Rightarrow> bool" where
  "claimable now r \<longleftrightarrow> jb_state r \<in> {Queued, Retry} \<and> text_le (jb_available_at r) now \<and> jb_attempts r < jb_max_attempts r"

definition claim_job :: "ingestion_env \<Rightarrow> string \<Rightarrow> string \<Rightarrow> string \<Rightarrow> int \<Rightarrow> job_row video_op" where
  "claim_job env tenant_id job_id worker_id lease_seconds s =
     and_then (raise_if (lease_seconds < 1) (Failure ''ValueError'') s) (\<lambda>_ s.
     and_then (video_now env s) (\<lambda>now s.
     let p = (\<lambda>r. job_is tenant_id job_id r \<and> claimable now r); hit = count_rows p (vs_jobs s);
         s = s\<lparr>vs_jobs := update_rows p (claimed worker_id (now + seconds lease_seconds) now) (vs_jobs s)\<rparr> in
     and_then (raise_if (hit \<noteq> 1) (pipeline ''job_not_claimable'') s) (\<lambda>_ s.
     get_job tenant_id job_id s)))"

definition renewed :: "int \<Rightarrow> int \<Rightarrow> job_row \<Rightarrow> job_row" where
  "renewed lease now r = r\<lparr>jb_heartbeat_at := Some now, jb_lease_expires_at := Some lease, jb_updated_at := now\<rparr>"

definition heartbeat :: "ingestion_env \<Rightarrow> string \<Rightarrow> string \<Rightarrow> string \<Rightarrow> int \<Rightarrow> unit video_op" where
  "heartbeat env tenant_id job_id worker_id lease_seconds s =
     and_then (video_now env s) (\<lambda>now s.
     let p = (\<lambda>r. job_is tenant_id job_id r \<and> jb_state r = Running \<and> jb_worker_id r = Some worker_id);
         hit = count_rows p (vs_jobs s);
         s = s\<lparr>vs_jobs := update_rows p (renewed (now + seconds lease_seconds) now) (vs_jobs s)\<rparr> in
     raise_if (hit \<noteq> 1) (pipeline ''job_lease_lost'') s)"

definition extend_index_attempt_limit :: "ingestion_env \<Rightarrow> string \<Rightarrow> string \<Rightarrow> int \<Rightarrow> job_row video_op" where
  "extend_index_attempt_limit env tenant_id job_id max_attempts s =
     and_then (video_now env s) (\<lambda>now s.
     let p = (\<lambda>r. job_is tenant_id job_id r \<and> index_pending r \<and> jb_max_attempts r \<le> jb_attempts r \<and>
                  jb_max_attempts r < max_attempts);
         hit = count_rows p (vs_jobs s);
         s = s\<lparr>vs_jobs := update_rows p (\<lambda>r. r\<lparr>jb_max_attempts := max_attempts, jb_updated_at := now\<rparr>) (vs_jobs s)\<rparr> in
     and_then (raise_if (hit \<noteq> 1) (pipeline ''job_attempt_limit_not_extendable'') s) (\<lambda>_ s.
     get_job tenant_id job_id s))"

definition mark_dead_lettered :: "ingestion_env \<Rightarrow> string \<Rightarrow> string \<Rightarrow> unit video_op" where
  "mark_dead_lettered env tenant_id job_id s =
     and_then (video_now env s) (\<lambda>now s.
     let p = (\<lambda>r. job_is tenant_id job_id r \<and> jb_state r = Failed); hit = count_rows p (vs_jobs s);
         s = s\<lparr>vs_jobs := update_rows p (\<lambda>r. r\<lparr>jb_dead_lettered_at := Some now, jb_updated_at := now\<rparr>) (vs_jobs s)\<rparr> in
     raise_if (hit \<noteq> 1) (pipeline ''job_not_failed'') s)"

section \<open>Recovering abandoned work\<close>

definition abandoned :: "int \<Rightarrow> int \<Rightarrow> job_row \<Rightarrow> bool" where
  "abandoned now cutoff r \<longleftrightarrow> jb_state r = Running \<and>
     (case jb_lease_expires_at r of
        Some lease \<Rightarrow> text_less lease now
      | None \<Rightarrow> (case jb_started_at r of Some started \<Rightarrow> text_less started cutoff | None \<Rightarrow> False))"

definition released :: "int \<Rightarrow> job_row \<Rightarrow> job_row" where
  "released now r =
     r\<lparr>jb_state := Retry, jb_last_error_code := Some ''worker_lease_expired'', jb_lease_expires_at := None,
       jb_heartbeat_at := None, jb_worker_id := None, jb_available_at := now, jb_updated_at := now\<rparr>"

definition given_up :: "int \<Rightarrow> job_row \<Rightarrow> job_row" where
  "given_up now r =
     r\<lparr>jb_state := Failed, jb_last_error_code := Some ''worker_recovery_exhausted'', jb_finished_at := Some now,
       jb_lease_expires_at := None, jb_heartbeat_at := None, jb_worker_id := None, jb_updated_at := now\<rparr>"

definition recover_stale_jobs :: "ingestion_env \<Rightarrow> int \<Rightarrow> int option \<Rightarrow> nat video_op" where
  "recover_stale_jobs env stale_after_us now s =
     and_then (raise_if (stale_after_us \<le> 0) (Failure ''ValueError'') s) (\<lambda>_ s.
     and_then (case now of Some t \<Rightarrow> (Inr t, s) | None \<Rightarrow> video_now env s) (\<lambda>current s.
     let stale = abandoned current (current - stale_after_us);
         p = (\<lambda>r. stale r \<and> jb_attempts r < jb_max_attempts r);
         q = (\<lambda>r. stale r \<and> jb_max_attempts r \<le> jb_attempts r);
         recovered = count_rows p (vs_jobs s);
         s = s\<lparr>vs_jobs := update_rows p (released current) (vs_jobs s)\<rparr>;
         failed = count_rows q (vs_jobs s);
         s = s\<lparr>vs_jobs := update_rows q (given_up current) (vs_jobs s)\<rparr> in
     (Inr (recovered + failed), s)))"

end
