(* ===== verification/Video_Lease.thy ===== *)
theory Video_Lease
  imports Video_Jobs
begin

text \<open>
  The invariant of the job table and what a lease guarantees. Every method of \<open>Video_Jobs\<close> is a
  call of one machine, so the invariant and the order of the histories hold for any interleaving
  of any workers and schedulers.
\<close>

section \<open>The invariant\<close>

definition job_ok :: "job_row \<Rightarrow> bool" where
  "job_ok r \<longleftrightarrow> 0 \<le> jb_attempts r \<and>
     (jb_finished_at r \<noteq> None \<longleftrightarrow> jb_state r \<in> {Completed, Failed, Cancelled}) \<and>
     (jb_state r \<noteq> Running \<longrightarrow> jb_lease_expires_at r = None \<and> jb_heartbeat_at r = None \<and> jb_worker_id r = None) \<and>
     (jb_state r = Running \<longrightarrow> jb_started_at r \<noteq> None) \<and>
     (jb_worker_id r \<noteq> None \<longleftrightarrow> jb_lease_expires_at r \<noteq> None)"

definition job_id_key :: "job_row \<Rightarrow> string \<times> string" where
  "job_id_key r = (jb_tenant_id r, jb_job_id r)"

definition job_idem_key :: "job_row \<Rightarrow> string \<times> string" where
  "job_idem_key r = (jb_tenant_id r, jb_idempotency_key r)"

definition one_active :: "job_row list \<Rightarrow> bool" where
  "one_active rows \<longleftrightarrow> (\<forall>q \<in> set rows. \<forall>r \<in> set rows. active_analysis q \<and> active_analysis r \<and>
     jb_tenant_id q = jb_tenant_id r \<and> jb_asset_id q = jb_asset_id r \<longrightarrow> q = r)"

definition jobs_ok :: "job_row list \<Rightarrow> bool" where
  "jobs_ok rows \<longleftrightarrow> unique_on job_id_key rows \<and> unique_on job_idem_key rows \<and> one_active rows \<and> (\<forall>r \<in> set rows. job_ok r)"

text \<open>What identifies a job never changes.\<close>

definition same_job :: "job_row \<Rightarrow> job_row \<Rightarrow> bool" where
  "same_job q r \<longleftrightarrow> jb_tenant_id q = jb_tenant_id r \<and> jb_job_id q = jb_job_id r \<and> jb_asset_id q = jb_asset_id r \<and>
     jb_operation q = jb_operation r \<and> jb_idempotency_key q = jb_idempotency_key r \<and> jb_created_at q = jb_created_at r"

named_theorems job_changes \<open>the row updates of the job methods\<close>

declare transitioned_def [job_changes] claimed_def [job_changes] renewed_def [job_changes] released_def [job_changes]
  given_up_def [job_changes]

lemma same_job_changes [simp]:
  "same_job (transitioned st e d now av r) r" "same_job (claimed w l now r) r" "same_job (renewed l now r) r"
  "same_job (released now r) r" "same_job (given_up now r) r"
  "same_job (r\<lparr>jb_max_attempts := m, jb_updated_at := now\<rparr>) r" "same_job (r\<lparr>jb_dead_lettered_at := x, jb_updated_at := now\<rparr>) r"
  by (simp_all add: same_job_def job_changes)

lemma same_job_keys: "same_job q r \<Longrightarrow> job_id_key q = job_id_key r \<and> job_idem_key q = job_idem_key r"
  by (simp add: same_job_def job_id_key_def job_idem_key_def)

lemma same_job_trans: "same_job p q \<Longrightarrow> same_job q r \<Longrightarrow> same_job p r"
  by (simp add: same_job_def)

lemma same_job_is: "same_job q r \<Longrightarrow> job_is t j q = job_is t j r"
  by (simp add: same_job_def job_is_def)

lemma job_is_key: "job_is t j r \<longleftrightarrow> job_id_key r = (t, j)"
  by (simp add: job_is_def job_id_key_def)

text \<open>An update that keeps the rows well formed and makes no further analysis active.\<close>

lemma update_jobs_ok:
  assumes ok: "jobs_ok rows" and same: "\<And>r. same_job (f r) r"
    and rows: "\<And>r. r \<in> set rows \<Longrightarrow> p r \<Longrightarrow> job_ok (f r)"
    and active: "\<And>r. r \<in> set rows \<Longrightarrow> p r \<Longrightarrow> active_analysis (f r) \<Longrightarrow> active_analysis r"
  shows "jobs_ok (update_rows p f rows)"
proof -
  let ?g = "\<lambda>r. if p r then f r else r"
  have "one_active (update_rows p f rows)"
    unfolding one_active_def
  proof (intro ballI impI)
    fix q r
    assume "q \<in> set (update_rows p f rows)" "r \<in> set (update_rows p f rows)"
    then obtain q' r' where q': "q' \<in> set rows" "q = ?g q'" and r': "r' \<in> set rows" "r = ?g r'"
      by (auto simp: set_update_rows)
    assume act: "active_analysis q \<and> active_analysis r \<and> jb_tenant_id q = jb_tenant_id r \<and> jb_asset_id q = jb_asset_id r"
    with q' r' active have "active_analysis q'" "active_analysis r'" by (auto split: if_split_asm)
    moreover have "same_job q q'" "same_job r r'" using q' r' same by (auto simp: same_job_def)
    ultimately have "q' = r'" using ok q'(1) r'(1) act by (auto simp: jobs_ok_def one_active_def same_job_def)
    with q' r' show "q = r" by simp
  qed
  moreover have "job_id_key (f r) = job_id_key r" "job_idem_key (f r) = job_idem_key r" for r
    using same_job_keys [OF same] by simp_all
  ultimately show ?thesis
    using ok rows by (auto simp: jobs_ok_def unique_update set_update_rows)
qed

lemma append_jobs_ok:
  assumes "jobs_ok rows" and "\<not> job_conflict r rows" and "job_ok r"
  shows "jobs_ok (rows @ [r])"
proof -
  have "\<forall>q \<in> set rows. job_id_key q \<noteq> job_id_key r" "\<forall>q \<in> set rows. job_idem_key q \<noteq> job_idem_key r"
    using assms(2) by (auto simp: job_conflict_def list_ex_iff job_id_key_def job_idem_key_def)
  moreover have "one_active (rows @ [r])"
    using assms(1,2) unfolding jobs_ok_def one_active_def job_conflict_def list_ex_iff by auto
  ultimately show ?thesis
    using assms(1,3) by (auto simp: jobs_ok_def unique_append)
qed

lemma job_row_unique:
  assumes "jobs_ok rows" "q \<in> set rows" "r \<in> set rows" "job_is t j q" "job_is t j r"
  shows "q = r"
  using assms unfolding jobs_ok_def unique_on_def distinct_map inj_on_def job_is_key by metis

lemma select_job:
  assumes "jobs_ok rows" "r \<in> set rows" "job_is t j r"
  shows "select_row (job_is t j) rows = Some r"
proof -
  have "(\<lambda>x. job_id_key x = job_id_key r) = job_is t j" using assms(3) by (auto simp: job_is_key)
  with select_row_unique [of job_id_key rows r] assms show ?thesis by (simp add: jobs_ok_def)
qed

lemma select_job_update:
  assumes "\<And>r. same_job (f r) r"
  shows "select_row (job_is t j) (update_rows p f rows) = map_option (\<lambda>r. if p r then f r else r) (select_row (job_is t j) rows)"
  using same_job_is [OF assms] by (intro select_update) simp

lemma job_hit:
  assumes "count_rows (\<lambda>r. job_is t j r \<and> q r) rows = 1" and "jobs_ok rows"
  obtains r where "select_row (job_is t j) rows = Some r" and "q r" and "r \<in> set rows"
proof -
  from assms(1) obtain r where "r \<in> set (filter (\<lambda>r. job_is t j r \<and> q r) rows)"
    unfolding count_rows_def by (metis length_0_conv list.set_sel(1) zero_neq_one)
  then have "r \<in> set rows" "job_is t j r" "q r" by auto
  with select_job [OF assms(2)] that show thesis by blast
qed

section \<open>The machine\<close>

datatype job_call =
    Enqueue string string string int "string option"
  | Transition string string string "string option" int diagnostics
  | Claim string string string int
  | Heartbeat string string string int
  | Extend string string int
  | DeadLetter string string
  | Recover int "int option"

fun job_step :: "ingestion_env \<Rightarrow> job_call \<Rightarrow> video_store \<Rightarrow> video_store" where
  "job_step env (Enqueue t a op m k) s = snd (enqueue_job env t a op m k s)"
| "job_step env (Transition t j st e d diag) s = snd (transition_job env t j st e d diag s)"
| "job_step env (Claim t j w l) s = snd (claim_job env t j w l s)"
| "job_step env (Heartbeat t j w l) s = snd (heartbeat env t j w l s)"
| "job_step env (Extend t j m) s = snd (extend_index_attempt_limit env t j m s)"
| "job_step env (DeadLetter t j) s = snd (mark_dead_lettered env t j s)"
| "job_step env (Recover d n) s = snd (recover_stale_jobs env d n s)"

text \<open>The instant a call reads from the clock first.\<close>

definition clock_at :: "ingestion_env \<Rightarrow> video_store \<Rightarrow> int" where
  "clock_at env s = ie_clock env (is_reads (vs_db s))"

lemma video_now_eq: "\<exists>t. video_now env s = (Inr (clock_at env s), t) \<and> vs_jobs t = vs_jobs s"
  by (simp add: video_now_def clock_at_def Let_def)

lemma get_job_state [simp]: "snd (get_job t j s) = s"
  by (simp add: get_job_def split: option.split)

text \<open>What each call does to the rows.\<close>

lemma claim_rows:
  "vs_jobs (job_step env (Claim t j w l) s) =
     (if l < 1 then vs_jobs s
      else update_rows (\<lambda>r. job_is t j r \<and> claimable (clock_at env s) r)
             (claimed w (clock_at env s + seconds l) (clock_at env s)) (vs_jobs s))"
  by (simp add: claim_job_def video_now_def clock_at_def Let_def raise_if_def)

lemma heartbeat_rows:
  "vs_jobs (job_step env (Heartbeat t j w l) s) =
     update_rows (\<lambda>r. job_is t j r \<and> jb_state r = Running \<and> jb_worker_id r = Some w)
       (renewed (clock_at env s + seconds l) (clock_at env s)) (vs_jobs s)"
  by (simp add: heartbeat_def video_now_def clock_at_def Let_def raise_if_def)

lemma extend_rows:
  "vs_jobs (job_step env (Extend t j m) s) =
     update_rows (\<lambda>r. job_is t j r \<and> index_pending r \<and> jb_max_attempts r \<le> jb_attempts r \<and> jb_max_attempts r < m)
       (\<lambda>r. r\<lparr>jb_max_attempts := m, jb_updated_at := clock_at env s\<rparr>) (vs_jobs s)"
  by (simp add: extend_index_attempt_limit_def video_now_def clock_at_def Let_def raise_if_def)

lemma dead_letter_rows:
  "vs_jobs (job_step env (DeadLetter t j) s) =
     update_rows (\<lambda>r. job_is t j r \<and> jb_state r = Failed)
       (\<lambda>r. r\<lparr>jb_dead_lettered_at := Some (clock_at env s), jb_updated_at := clock_at env s\<rparr>) (vs_jobs s)"
  by (simp add: mark_dead_lettered_def video_now_def clock_at_def Let_def raise_if_def)

definition recover_time :: "ingestion_env \<Rightarrow> int option \<Rightarrow> video_store \<Rightarrow> int" where
  "recover_time env now s = (case now of Some t \<Rightarrow> t | None \<Rightarrow> clock_at env s)"

lemma recover_rows:
  "vs_jobs (job_step env (Recover d now) s) =
     (if d \<le> 0 then vs_jobs s
      else let t = recover_time env now s; stale = abandoned t (t - d) in
        update_rows (\<lambda>r. stale r \<and> jb_max_attempts r \<le> jb_attempts r) (given_up t)
          (update_rows (\<lambda>r. stale r \<and> jb_attempts r < jb_max_attempts r) (released t) (vs_jobs s)))"
  by (simp add: recover_stale_jobs_def video_now_def clock_at_def recover_time_def Let_def raise_if_def split: option.split)

lemma enqueue_rows:
  "vs_jobs (job_step env (Enqueue t a op m k) s) = vs_jobs s \<or>
   (\<exists>j key. vs_jobs (job_step env (Enqueue t a op m k) s) = vs_jobs s @ [new_job_row t j a op key m (clock_at env s)] \<and>
      \<not> job_conflict (new_job_row t j a op key m (clock_at env s)) (vs_jobs s))"
  by (auto simp: enqueue_job_def video_now_def video_uuid_def clock_at_def Let_def raise_if_def split: option.split)

lemma transition_rows:
  "vs_jobs (job_step env (Transition t j st e d diag) s) = vs_jobs s \<or>
   (\<exists>state r available_at. job_state_of st = Some state \<and> select_row (job_is t j) (vs_jobs s) = Some r \<and>
      (let f = transitioned state e diag (clock_at env s) available_at in
       \<not> breaks_active_index r (f r) (vs_jobs s) \<and>
       vs_jobs (job_step env (Transition t j st e d diag) s) = update_rows (job_is t j) f (vs_jobs s)))"
  by (auto simp: transition_job_def get_job_def video_now_def clock_at_def Let_def raise_if_def split: option.split)

lemma transition_succeeds:
  assumes "transition_job env t j st e d diag s = (Inr x, s')"
  obtains state q av where "job_state_of st = Some state" and "select_row (job_is t j) (vs_jobs s) = Some q"
    and "vs_jobs s' = update_rows (job_is t j) (transitioned state e diag (clock_at env s) av) (vs_jobs s)"
proof -
  have "\<exists>state q av. job_state_of st = Some state \<and> select_row (job_is t j) (vs_jobs s) = Some q \<and>
      vs_jobs s' = update_rows (job_is t j) (transitioned state e diag (clock_at env s) av) (vs_jobs s)"
    using assms
    by (auto simp: transition_job_def get_job_def video_now_def clock_at_def Let_def raise_if_def split: option.split_asm if_split_asm)
  with that show thesis by blast
qed

section \<open>Every call keeps the invariant\<close>

lemma claim_ok:
  assumes "jobs_ok (vs_jobs s)"
  shows "jobs_ok (vs_jobs (job_step env (Claim t j w l) s))"
proof -
  have "job_ok (claimed w x now r)" if "r \<in> set (vs_jobs s)" "claimable now r" for r x now
    using assms that by (auto simp: jobs_ok_def job_ok_def claimed_def claimable_def split: option.split)
  moreover have "active_analysis r" if "claimable now r" "active_analysis (claimed w x now r)" for r x now
    using that by (auto simp: active_analysis_def claimable_def claimed_def)
  ultimately show ?thesis
    unfolding claim_rows using assms by (auto intro!: update_jobs_ok)
qed

lemma heartbeat_ok:
  assumes "jobs_ok (vs_jobs s)"
  shows "jobs_ok (vs_jobs (job_step env (Heartbeat t j w l) s))"
  unfolding heartbeat_rows
  by (rule update_jobs_ok [OF assms same_job_changes(3)]) (use assms in \<open>auto simp: jobs_ok_def job_ok_def renewed_def active_analysis_def\<close>)

lemma extend_ok:
  assumes "jobs_ok (vs_jobs s)"
  shows "jobs_ok (vs_jobs (job_step env (Extend t j m) s))"
  unfolding extend_rows
  by (rule update_jobs_ok [OF assms same_job_changes(6)]) (use assms in \<open>auto simp: jobs_ok_def job_ok_def active_analysis_def\<close>)

lemma dead_letter_ok:
  assumes "jobs_ok (vs_jobs s)"
  shows "jobs_ok (vs_jobs (job_step env (DeadLetter t j) s))"
  unfolding dead_letter_rows
  by (rule update_jobs_ok [OF assms same_job_changes(7)]) (use assms in \<open>auto simp: jobs_ok_def job_ok_def active_analysis_def\<close>)

lemma recover_ok:
  assumes "jobs_ok (vs_jobs s)"
  shows "jobs_ok (vs_jobs (job_step env (Recover d now) s))"
proof -
  let ?t = "recover_time env now s"
  let ?stale = "abandoned ?t (?t - d)"
  let ?rows = "update_rows (\<lambda>r. ?stale r \<and> jb_attempts r < jb_max_attempts r) (released ?t) (vs_jobs s)"
  have mid: "jobs_ok ?rows"
    by (rule update_jobs_ok [OF assms same_job_changes(4)])
      (use assms in \<open>auto simp: jobs_ok_def job_ok_def released_def active_analysis_def abandoned_def\<close>)
  then have "job_ok r" if "r \<in> set ?rows" for r using that by (simp add: jobs_ok_def)
  then have "jobs_ok (update_rows (\<lambda>r. ?stale r \<and> jb_max_attempts r \<le> jb_attempts r) (given_up ?t) ?rows)"
    by (intro update_jobs_ok [OF mid same_job_changes(5)])
      (auto simp: job_ok_def given_up_def active_analysis_def abandoned_def)
  with assms show ?thesis unfolding recover_rows Let_def by simp
qed

lemma enqueue_ok:
  assumes "jobs_ok (vs_jobs s)"
  shows "jobs_ok (vs_jobs (job_step env (Enqueue t a op m k) s))"
  using enqueue_rows [of env t a op m k s]
proof
  assume "\<exists>j key. vs_jobs (job_step env (Enqueue t a op m k) s) = vs_jobs s @ [new_job_row t j a op key m (clock_at env s)] \<and>
      \<not> job_conflict (new_job_row t j a op key m (clock_at env s)) (vs_jobs s)"
  with assms show ?thesis by (auto intro!: append_jobs_ok simp: job_ok_def new_job_row_def)
qed (use assms in simp)

lemma transitioned_ok:
  assumes ok: "jobs_ok rows" and r: "select_row (job_is t j) rows = Some r"
    and free: "\<not> breaks_active_index r (transitioned state e diag now av r) rows"
  shows "jobs_ok (update_rows (job_is t j) (transitioned state e diag now av) rows)"
proof -
  let ?f = "transitioned state e diag now av"
  from select_row_Some [OF r] have r_in: "r \<in> set rows" "job_is t j r" by simp_all
  have only: "q = r" if "q \<in> set rows" "job_is t j q" for q
    using job_row_unique [OF ok that(1) r_in(1) that(2) r_in(2)] .
  have f_ok: "job_ok (?f r)"
    using ok r_in(1) by (auto simp: jobs_ok_def job_ok_def transitioned_def)
  show ?thesis
  proof (cases "active_analysis (?f r) \<longrightarrow> active_analysis r")
    case True
    with f_ok only show ?thesis by (intro update_jobs_ok [OF ok]) auto
  next
    case False
    with free have none: "\<not> active_analysis q"
      if "q \<in> set rows" "jb_tenant_id q = jb_tenant_id r" "jb_asset_id q = jb_asset_id r" for q
      using that by (auto simp: breaks_active_index_def list_ex_iff transitioned_def)
    have member: "q = ?f r \<or> q \<in> set rows \<and> q \<noteq> r" if "q \<in> set (update_rows (job_is t j) ?f rows)" for q
      using that only r_in(2) by (auto simp: set_update_rows split: if_split_asm)
    have apart: "\<not> (active_analysis q \<and> jb_tenant_id q = jb_tenant_id (?f r) \<and> jb_asset_id q = jb_asset_id (?f r))"
      if "q \<in> set rows" for q
      using none [OF that] by (auto simp: transitioned_def)
    have "one_active (update_rows (job_is t j) ?f rows)"
      unfolding one_active_def
    proof (intro ballI impI)
      fix p q
      assume "p \<in> set (update_rows (job_is t j) ?f rows)" "q \<in> set (update_rows (job_is t j) ?f rows)"
        and same: "active_analysis p \<and> active_analysis q \<and> jb_tenant_id p = jb_tenant_id q \<and> jb_asset_id p = jb_asset_id q"
      with member have "p = ?f r \<or> p \<in> set rows" "q = ?f r \<or> q \<in> set rows" by blast+
      with same apart [of p] apart [of q] ok show "p = q" by (auto simp: jobs_ok_def one_active_def)
    qed
    then show ?thesis
      using ok f_ok only same_job_keys [OF same_job_changes(1)] by (auto simp: jobs_ok_def unique_update set_update_rows)
  qed
qed

lemma transition_ok:
  assumes ok: "jobs_ok (vs_jobs s)"
  shows "jobs_ok (vs_jobs (job_step env (Transition t j st e d diag) s))"
  using transition_rows [of env t j st e d diag s]
proof
  assume "\<exists>state r available_at. job_state_of st = Some state \<and> select_row (job_is t j) (vs_jobs s) = Some r \<and>
      (let f = transitioned state e diag (clock_at env s) available_at in
       \<not> breaks_active_index r (f r) (vs_jobs s) \<and>
       vs_jobs (job_step env (Transition t j st e d diag) s) = update_rows (job_is t j) f (vs_jobs s))"
  then obtain state r av where r: "select_row (job_is t j) (vs_jobs s) = Some r"
    and free: "\<not> breaks_active_index r (transitioned state e diag (clock_at env s) av r) (vs_jobs s)"
    and rows: "vs_jobs (job_step env (Transition t j st e d diag) s) =
      update_rows (job_is t j) (transitioned state e diag (clock_at env s) av) (vs_jobs s)"
    unfolding Let_def by blast
  show ?thesis unfolding rows by (rule transitioned_ok [OF ok r free])
qed (use ok in simp)

lemma job_step_ok: "jobs_ok (vs_jobs s) \<Longrightarrow> jobs_ok (vs_jobs (job_step env call s))"
  using claim_ok heartbeat_ok extend_ok dead_letter_ok recover_ok enqueue_ok transition_ok
  by (cases call) (metis job_step.simps)+

text \<open>A job once enqueued stays, with its identity.\<close>

definition jobs_kept :: "video_store \<Rightarrow> video_store \<Rightarrow> bool" where
  "jobs_kept s t \<longleftrightarrow> (\<forall>r \<in> set (vs_jobs s). \<exists>q \<in> set (vs_jobs t). same_job q r \<and> jb_attempts r \<le> jb_attempts q)"

lemma jobs_kept_refl: "jobs_kept s s"
  by (auto simp: jobs_kept_def same_job_def)

lemma jobs_kept_trans: "jobs_kept s t \<Longrightarrow> jobs_kept t u \<Longrightarrow> jobs_kept s u"
  unfolding jobs_kept_def by (meson order_trans same_job_trans)

lemma update_kept:
  assumes "\<And>r. same_job (f r) r" and "\<And>r. jb_attempts r \<le> jb_attempts (f r)" and "r \<in> set rows"
  shows "\<exists>q \<in> set (update_rows p f rows). same_job q r \<and> jb_attempts r \<le> jb_attempts q"
proof (intro bexI conjI)
  show "(if p r then f r else r) \<in> set (update_rows p f rows)" using assms(3) by (auto simp: set_update_rows)
qed (use assms in \<open>simp_all add: same_job_def\<close>)

lemma job_step_kept: "jobs_kept s (job_step env call s)"
proof (cases call)
  case (Enqueue t a op m k)
  then show ?thesis using enqueue_rows [of env t a op m k s] by (auto simp: jobs_kept_def same_job_def simp del: job_step.simps)
next
  case (Transition t j st e d diag)
  from transition_rows [of env t j st e d diag s] show ?thesis
  proof
    assume "\<exists>state r available_at. job_state_of st = Some state \<and> select_row (job_is t j) (vs_jobs s) = Some r \<and>
      (let f = transitioned state e diag (clock_at env s) available_at in
       \<not> breaks_active_index r (f r) (vs_jobs s) \<and>
       vs_jobs (job_step env (Transition t j st e d diag) s) = update_rows (job_is t j) f (vs_jobs s))"
    then obtain state av where rows: "vs_jobs (job_step env (Transition t j st e d diag) s) =
        update_rows (job_is t j) (transitioned state e diag (clock_at env s) av) (vs_jobs s)"
      unfolding Let_def by blast
    show ?thesis unfolding Transition jobs_kept_def rows
      by (intro ballI update_kept same_job_changes(1)) (simp_all add: transitioned_def)
  qed (use jobs_kept_refl [of s] Transition in \<open>simp add: jobs_kept_def\<close>)
next
  case (Claim t j w l)
  have "\<exists>q \<in> set (update_rows p (claimed w x now) (vs_jobs s)). same_job q r \<and> jb_attempts r \<le> jb_attempts q"
    if "r \<in> set (vs_jobs s)" for p x now r
    using that by (intro update_kept same_job_changes(2)) (simp_all add: claimed_def)
  with jobs_kept_refl [of s] show ?thesis unfolding Claim jobs_kept_def claim_rows by simp
next
  case (Heartbeat t j w l)
  then show ?thesis unfolding Heartbeat jobs_kept_def heartbeat_rows
    by (intro ballI update_kept same_job_changes(3)) (simp_all add: renewed_def)
next
  case (Extend t j m)
  then show ?thesis unfolding Extend jobs_kept_def extend_rows
    by (intro ballI update_kept same_job_changes(6)) simp_all
next
  case (DeadLetter t j)
  then show ?thesis unfolding DeadLetter jobs_kept_def dead_letter_rows
    by (intro ballI update_kept same_job_changes(7)) simp_all
next
  case (Recover d now)
  let ?t = "recover_time env now s"
  let ?p = "\<lambda>r. abandoned ?t (?t - d) r \<and> jb_attempts r < jb_max_attempts r"
  let ?q = "\<lambda>r. abandoned ?t (?t - d) r \<and> jb_max_attempts r \<le> jb_attempts r"
  let ?rows = "update_rows ?p (released ?t) (vs_jobs s)"
  have one: "\<exists>q \<in> set ?rows. same_job q r \<and> jb_attempts r \<le> jb_attempts q" if "r \<in> set (vs_jobs s)" for r
    using that by (intro update_kept same_job_changes(4)) (simp_all add: released_def)
  have two: "\<exists>q \<in> set (update_rows ?q (given_up ?t) ?rows). same_job q r \<and> jb_attempts r \<le> jb_attempts q" if "r \<in> set ?rows" for r
    using that by (intro update_kept same_job_changes(5)) (simp_all add: given_up_def)
  from one two have "\<exists>q \<in> set (update_rows ?q (given_up ?t) ?rows). same_job q r \<and> jb_attempts r \<le> jb_attempts q"
    if "r \<in> set (vs_jobs s)" for r
    using that by (meson order_trans same_job_trans)
  with jobs_kept_refl [of s] show ?thesis unfolding Recover jobs_kept_def recover_rows Let_def by auto
qed

interpretation jobs: preorder_machine "job_step env" "\<lambda>s. jobs_ok (vs_jobs s)" jobs_kept for env
  by unfold_locales (auto intro: job_step_ok job_step_kept jobs_kept_refl jobs_kept_trans)

section \<open>Ownership\<close>

definition owned :: "string \<Rightarrow> string \<Rightarrow> string \<Rightarrow> video_store \<Rightarrow> bool" where
  "owned t j w s \<longleftrightarrow> (case select_row (job_is t j) (vs_jobs s) of Some r \<Rightarrow> jb_worker_id r = Some w | None \<Rightarrow> False)"

lemma owned_iff: "owned t j w s \<longleftrightarrow> (\<exists>r. select_row (job_is t j) (vs_jobs s) = Some r \<and> jb_worker_id r = Some w)"
  by (simp add: owned_def split: option.split)

text \<open>The calls that may take a job from its worker: its transition, or a recovery past its lease.\<close>

definition lease_passed :: "string \<Rightarrow> string \<Rightarrow> int \<Rightarrow> video_store \<Rightarrow> bool" where
  "lease_passed t j now s \<longleftrightarrow>
     (case select_row (job_is t j) (vs_jobs s) of
        Some r \<Rightarrow> (case jb_lease_expires_at r of Some lease \<Rightarrow> text_less lease now | None \<Rightarrow> False)
      | None \<Rightarrow> False)"

lemma lease_passed_iff: "lease_passed t j now s \<longleftrightarrow>
    (\<exists>r lease. select_row (job_is t j) (vs_jobs s) = Some r \<and> jb_lease_expires_at r = Some lease \<and> text_less lease now)"
  by (simp add: lease_passed_def split: option.split)

definition takes_away :: "ingestion_env \<Rightarrow> string \<Rightarrow> string \<Rightarrow> job_call \<Rightarrow> video_store \<Rightarrow> bool" where
  "takes_away env t j call s \<longleftrightarrow>
     (case call of
        Transition t' j' st e d diag \<Rightarrow> t' = t \<and> j' = j
      | Recover d now \<Rightarrow> lease_passed t j (recover_time env now s) s
      | _ \<Rightarrow> False)"

lemma select_append_same: "select_row p rows = Some r \<Longrightarrow> select_row p (rows @ [q]) = Some r"
  by (simp add: select_append)

lemma owned_step:
  assumes ok: "jobs_ok (vs_jobs s)" and own: "owned t j w s" and keep: "\<not> takes_away env t j call s"
  shows "owned t j w (job_step env call s)"
proof -
  from own obtain r where r: "select_row (job_is t j) (vs_jobs s) = Some r" "jb_worker_id r = Some w" by (auto simp: owned_iff)
  then have running: "jb_state r = Running" and lease: "jb_lease_expires_at r \<noteq> None"
    using ok select_row_Some [OF r(1)] by (auto simp: jobs_ok_def job_ok_def)
  have owned_update: "owned t j w x"
    if "vs_jobs x = update_rows p f (vs_jobs s)" "\<And>q. same_job (f q) q" "p r \<Longrightarrow> jb_worker_id (f r) = Some w" for x p f
    using that r select_job_update [of f t j p "vs_jobs s"] by (auto simp: owned_iff)
  show ?thesis
  proof (cases call)
    case (Enqueue t' a op m k)
    then show ?thesis using enqueue_rows [of env t' a op m k s] r
      by (auto simp: owned_iff select_append simp del: job_step.simps)
  next
    case (Transition t' j' st e d diag)
    with keep have other: "\<not> job_is t' j' r" using select_row_Some [OF r(1)] by (auto simp: takes_away_def job_is_def)
    from transition_rows [of env t' j' st e d diag s] show ?thesis
    proof
      assume "\<exists>state r available_at. job_state_of st = Some state \<and> select_row (job_is t' j') (vs_jobs s) = Some r \<and>
        (let f = transitioned state e diag (clock_at env s) available_at in
         \<not> breaks_active_index r (f r) (vs_jobs s) \<and>
         vs_jobs (job_step env (Transition t' j' st e d diag) s) = update_rows (job_is t' j') f (vs_jobs s))"
      then obtain state av where "vs_jobs (job_step env (Transition t' j' st e d diag) s) =
          update_rows (job_is t' j') (transitioned state e diag (clock_at env s) av) (vs_jobs s)"
        unfolding Let_def by blast
      from owned_update [OF this same_job_changes(1)] other Transition show ?thesis by simp
    qed (use own Transition in \<open>simp add: owned_iff\<close>)
  next
    case (Claim t' j' w' l)
    show ?thesis
    proof (cases "l < 1")
      case True
      with own show ?thesis unfolding Claim owned_iff claim_rows by simp
    next
      case False
      have "owned t j w (job_step env (Claim t' j' w' l) s)"
        by (rule owned_update [OF _ same_job_changes(2)], unfold claim_rows if_not_P [OF False], rule refl)
          (use running in \<open>simp add: claimable_def\<close>)
      with Claim show ?thesis by simp
    qed
  next
    case (Heartbeat t' j' w' l)
    show ?thesis unfolding Heartbeat
      by (rule owned_update [OF heartbeat_rows same_job_changes(3)]) (simp add: renewed_def r)
  next
    case (Extend t' j' m)
    show ?thesis unfolding Extend
      by (rule owned_update [OF extend_rows same_job_changes(6)]) (simp add: r)
  next
    case (DeadLetter t' j')
    show ?thesis unfolding DeadLetter
      by (rule owned_update [OF dead_letter_rows same_job_changes(7)]) (simp add: r)
  next
    case (Recover d now)
    with keep r lease have "\<not> abandoned (recover_time env now s) c r" for c
      by (auto simp: takes_away_def lease_passed_iff abandoned_def)
    then show ?thesis
      unfolding Recover owned_iff recover_rows Let_def using r by (auto simp: select_job_update)
  qed
qed

lemma ownership_lost:
  assumes "jobs_ok (vs_jobs s)" and "owned t j w s" and "\<not> owned t j w (fold (job_step env) calls s)"
  shows "\<exists>before call after. calls = before @ call # after \<and> owned t j w (fold (job_step env) before s) \<and>
    takes_away env t j call (fold (job_step env) before s)"
  using assms
proof (induction calls arbitrary: s)
  case (Cons call calls)
  show ?case
  proof (cases "takes_away env t j call s")
    case True
    with Cons.prems(2) show ?thesis by (intro exI [of _ "[]"]) auto
  next
    case False
    have "jobs_ok (vs_jobs (job_step env call s))" "owned t j w (job_step env call s)"
      using job_step_ok owned_step Cons.prems(1,2) False by blast+
    from Cons.IH [OF this] Cons.prems(3) obtain before c after where
      "calls = before @ c # after" "owned t j w (fold (job_step env) before (job_step env call s))"
      "takes_away env t j c (fold (job_step env) before (job_step env call s))" by auto
    then show ?thesis by (intro exI [of _ "call # before"] exI) auto
  qed
qed simp

end
