(* ===== verification/Video_Recovery.thy ===== *)
theory Video_Recovery
  imports Video_Lease
begin

text \<open>
  Properties of the job table: its invariant over every history, the exclusiveness of a lease, the
  time of a recovery, and the end of a job whose workers all crash.
\<close>

definition demo_jobs :: ingestion_env where
  "demo_jobs = \<lparr>ie_clock = (\<lambda>n. seconds (100 * int n)), ie_uuid = (\<lambda>n. py_str_int (int n)), ie_sha = id,
     ie_problems = (\<lambda>_ _. []), ie_cell = (\<lambda>_ _ _. []), ie_unavailable = (\<lambda>_. False)\<rparr>"

definition demo_enqueued :: "job_call list" where
  "demo_enqueued = [Enqueue ''t'' ''a'' ''analyze'' 2 None]"

section \<open>The tables\<close>

lemma empty_jobs_ok [simp]: "jobs_ok (vs_jobs empty_video_store)"
  by (simp add: empty_video_store_def jobs_ok_def unique_on_def one_active_def)

lemma reachable_jobs_ok: "jobs_ok (vs_jobs (fold (job_step env) calls empty_video_store))"
  by (rule jobs.run_inv) simp

text \<open>
  C31. Whatever workers and schedulers call in whatever order, the keys of the jobs are unique, an
  asset has at most one analysis that is not finished, a job has a worker exactly while it has a
  lease and only while it runs, and is finished exactly in a final state. No job is ever lost, its
  identity never changes and its attempts never decrease.
\<close>

lemma jobs_stay_consistent:
  "jobs_ok (vs_jobs (fold (job_step env) calls empty_video_store)) \<and>
   jobs_kept (fold (job_step env) calls empty_video_store) (fold (job_step env) (calls @ later) empty_video_store)"
  using reachable_jobs_ok jobs.run_rel [OF reachable_jobs_ok] by simp

section \<open>Leases\<close>

lemma running_not_claimable:
  assumes "owned t j w s" and "jobs_ok (vs_jobs s)"
  shows "count_rows (\<lambda>r. job_is t j r \<and> claimable now r) (vs_jobs s) = 0"
proof -
  from assms(1) obtain r where r: "select_row (job_is t j) (vs_jobs s) = Some r" "jb_worker_id r = Some w" by (auto simp: owned_iff)
  then have "jb_state r = Running" "r \<in> set (vs_jobs s)" "job_is t j r"
    using assms(2) select_row_Some [OF r(1)] by (auto simp: jobs_ok_def job_ok_def)
  then have "\<not> (job_is t j q \<and> claimable now q)" if "q \<in> set (vs_jobs s)" for q
    using job_row_unique [OF assms(2), of q r t j] that by (auto simp: claimable_def)
  then show ?thesis by (simp add: count_rows_def filter_empty_conv)
qed

lemma heartbeat_hits:
  assumes "owned t j w s" and "jobs_ok (vs_jobs s)"
  shows "count_rows (\<lambda>r. job_is t j r \<and> jb_state r = Running \<and> jb_worker_id r = Some w') (vs_jobs s) = (if w' = w then 1 else 0)"
proof -
  from assms(1) obtain r where r: "select_row (job_is t j) (vs_jobs s) = Some r" "jb_worker_id r = Some w" by (auto simp: owned_iff)
  then have run: "jb_state r = Running" "r \<in> set (vs_jobs s)" "job_is t j r"
    using assms(2) select_row_Some [OF r(1)] by (auto simp: jobs_ok_def job_ok_def)
  have "distinct (vs_jobs s)" using assms(2) by (auto simp: jobs_ok_def unique_on_def distinct_map)
  moreover have "(job_is t j q \<and> jb_state q = Running \<and> jb_worker_id q = Some w') \<longleftrightarrow> q = r \<and> w' = w" if "q \<in> set (vs_jobs s)" for q
    using job_row_unique [OF assms(2) that run(2), of t j] run r by auto
  ultimately have "filter (\<lambda>r. job_is t j r \<and> jb_state r = Running \<and> jb_worker_id r = Some w') (vs_jobs s) =
      filter (\<lambda>q. q = r \<and> w' = w) (vs_jobs s)"
    by (auto intro: filter_cong)
  moreover have "length (filter (\<lambda>q. q = r) (vs_jobs s)) = 1"
    using \<open>distinct (vs_jobs s)\<close> run(2) by (simp add: distinct_length_filter Int_absorb2 card_1_singleton_iff)
  ultimately show ?thesis by (simp add: count_rows_def)
qed

text \<open>The calls that take a job from its worker, in instants: the text order is off by less than a second.\<close>

lemma taken_away:
  assumes "takes_away env t j call s"
  shows "(\<exists>st e d diag. call = Transition t j st e d diag) \<or>
    (\<exists>d now r lease. call = Recover d now \<and> select_row (job_is t j) (vs_jobs s) = Some r \<and> jb_lease_expires_at r = Some lease \<and>
       text_less lease (recover_time env now s) \<and> lease - 1000000 < recover_time env now s)"
proof (cases call)
  case (Recover d now)
  with assms obtain r lease where r: "select_row (job_is t j) (vs_jobs s) = Some r" "jb_lease_expires_at r = Some lease"
    and late: "text_less lease (recover_time env now s)" by (auto simp: takes_away_def lease_passed_iff)
  have "\<not> recover_time env now s + 1000000 \<le> lease" using text_le_bound [OF text_less_le [OF late]] late by fastforce
  with Recover r late show ?thesis by auto
qed (use assms in \<open>auto simp: takes_away_def\<close>)

text \<open>
  C32. While a worker holds a job no other worker can claim it: every claim is refused and changes
  nothing, the heartbeat of any other worker is refused, its own succeeds. In any history it loses the
  job only to a transition of that job, by whichever worker, or to a recovery at an instant later than a
  second before the end of its lease (C33 says which recoveries of that last second do take it).
\<close>

lemma lease_is_exclusive:
  assumes "s = fold (job_step env) calls empty_video_store" and "owned t j w s"
  shows "fst (claim_job env t j w' l s) = Inl (if l < 1 then Failure ''ValueError'' else pipeline ''job_not_claimable'') \<and>
    vs_jobs (snd (claim_job env t j w' l s)) = vs_jobs s \<and>
    fst (heartbeat env t j w' l s) = (if w' = w then Inr () else Inl (pipeline ''job_lease_lost'')) \<and>
    (\<not> owned t j w (fold (job_step env) later s) \<longrightarrow>
       (\<exists>before call after. later = before @ call # after \<and> owned t j w (fold (job_step env) before s) \<and>
          ((\<exists>st e d diag. call = Transition t j st e d diag) \<or>
           (\<exists>d now r lease. call = Recover d now \<and>
              select_row (job_is t j) (vs_jobs (fold (job_step env) before s)) = Some r \<and> jb_lease_expires_at r = Some lease \<and>
              text_less lease (recover_time env now (fold (job_step env) before s)) \<and>
              lease - 1000000 < recover_time env now (fold (job_step env) before s)))))"
proof -
  have ok: "jobs_ok (vs_jobs s)" using assms(1) reachable_jobs_ok by simp
  note none = running_not_claimable [OF assms(2) ok] and one = heartbeat_hits [OF assms(2) ok]
  have keep: "update_rows p f (vs_jobs s) = vs_jobs s" if "count_rows p (vs_jobs s) = 0" for p f
    using that by (auto simp: update_rows_def count_rows_def filter_empty_conv intro: map_idI)
  have "fst (claim_job env t j w' l s) = Inl (if l < 1 then Failure ''ValueError'' else pipeline ''job_not_claimable'')"
    using none by (simp add: claim_job_def video_now_def Let_def raise_if_def)
  moreover have "vs_jobs (snd (claim_job env t j w' l s)) = vs_jobs s"
    using claim_rows [of env t j w' l s] keep [OF none] by simp
  moreover have "fst (heartbeat env t j w' l s) = (if w' = w then Inr () else Inl (pipeline ''job_lease_lost''))"
    using one by (simp add: heartbeat_def video_now_def Let_def raise_if_def)
  moreover have "\<exists>before call after. later = before @ call # after \<and> owned t j w (fold (job_step env) before s) \<and>
      ((\<exists>st e d diag. call = Transition t j st e d diag) \<or>
       (\<exists>d now r lease. call = Recover d now \<and>
          select_row (job_is t j) (vs_jobs (fold (job_step env) before s)) = Some r \<and> jb_lease_expires_at r = Some lease \<and>
          text_less lease (recover_time env now (fold (job_step env) before s)) \<and>
          lease - 1000000 < recover_time env now (fold (job_step env) before s)))"
    if lost: "\<not> owned t j w (fold (job_step env) later s)"
  proof -
    from ownership_lost [OF ok assms(2) lost] obtain before call after where "later = before @ call # after"
      "owned t j w (fold (job_step env) before s)" and taken: "takes_away env t j call (fold (job_step env) before s)" by blast
    with taken_away [OF taken] show ?thesis by (intro exI [of _ before] exI [of _ call] exI [of _ after] conjI)
  qed
  ultimately show ?thesis by (intro conjI impI)
qed

lemma lease_is_exclusive_witness:
  "let s = fold (job_step demo_jobs) (demo_enqueued @ [Claim ''t'' ''0'' ''w'' 60]) empty_video_store in
   fst (claim_job demo_jobs ''t'' ''0'' ''v'' 60 s) = Inl (pipeline ''job_not_claimable'') \<and>
   fst (heartbeat demo_jobs ''t'' ''0'' ''v'' 60 s) = Inl (pipeline ''job_lease_lost'') \<and>
   owned ''t'' ''0'' ''w'' (fold (job_step demo_jobs) [Recover 1 (Some (seconds 159))] s)"
proof -
  let ?s = "fold (job_step demo_jobs) (demo_enqueued @ [Claim ''t'' ''0'' ''w'' 60]) empty_video_store"
  have own: "owned ''t'' ''0'' ''w'' ?s" by code_simp
  have lease: "map_option jb_lease_expires_at (select_row (job_is ''t'' ''0'') (vs_jobs ?s)) = Some (Some (seconds 160))" by code_simp
  have "[Recover 1 (Some (seconds 159))] = before @ call # after \<longleftrightarrow> before = [] \<and> call = Recover 1 (Some (seconds 159)) \<and> after = []"
    for before call after by (cases before) auto
  then have "owned ''t'' ''0'' ''w'' (fold (job_step demo_jobs) [Recover 1 (Some (seconds 159))] ?s)"
    using lease_is_exclusive [OF refl own, of "''v''" 60 "[Recover 1 (Some (seconds 159))]"] lease
    by (auto simp: recover_time_def simp del: job_step.simps fold_simps)
  with lease_is_exclusive [OF refl own, of "''v''" 60] show ?thesis by (simp add: Let_def)
qed

section \<open>Recovery\<close>

lemma recovered_row:
  assumes "select_row (job_is t j) (vs_jobs s) = Some r" and "0 < d"
  shows "select_row (job_is t j) (vs_jobs (job_step env (Recover d now) s)) =
    Some (let current = recover_time env now s in
          if abandoned current (current - d) r
          then (if jb_attempts r < jb_max_attempts r then released current r else given_up current r) else r)"
proof -
  have "\<not> abandoned c x (released c' r)" for c x c' by (simp add: abandoned_def released_def)
  then show ?thesis
    using assms unfolding recover_rows Let_def
    by (auto simp: select_job_update same_job_changes simp del: job_step.simps)
qed

text \<open>
  C33. A recovery at an instant \<open>now\<close> leaves a running job to its worker while the lease has at
  least a second to go, takes it back once the lease is a second past, to be retried while attempts
  are left and else for good, and decides the second around the lease by the texts of the two
  instants: at a whole second it also takes a lease that ends later within that second.
\<close>

lemma recovery_follows_the_lease:
  assumes "select_row (job_is t j) (vs_jobs s) = Some r" and "jb_state r = Running"
    and "jb_lease_expires_at r = Some lease" and "0 < stale_after"
  shows "let r' = select_row (job_is t j) (vs_jobs (snd (recover_stale_jobs env stale_after (Some now) s)));
             back = Some (if jb_attempts r < jb_max_attempts r then released now r else given_up now r) in
    (now + 1000000 \<le> lease \<longrightarrow> r' = Some r) \<and> (lease + 1000000 \<le> now \<longrightarrow> r' = back) \<and>
    (now div 1000000 = lease div 1000000 \<and> now mod 1000000 = 0 \<and> lease mod 1000000 \<noteq> 0 \<longrightarrow> r' = back) \<and>
    (r' = Some r \<or> r' = back)"
proof -
  have "abandoned now (now - stale_after) r \<longleftrightarrow> text_less lease now"
    using assms(2,3) by (simp add: abandoned_def)
  then have row: "select_row (job_is t j) (vs_jobs (snd (recover_stale_jobs env stale_after (Some now) s))) =
      Some (if text_less lease now then (if jb_attempts r < jb_max_attempts r then released now r else given_up now r) else r)"
    using recovered_row [OF assms(1,4), of env "Some now"] by (simp add: recover_time_def Let_def)
  have "\<not> text_less lease now" if "now + 1000000 \<le> lease"
    using text_le_bound [OF text_less_le] that by fastforce
  moreover have "text_less lease now" if "lease + 1000000 \<le> now"
  proof (rule text_order_across_seconds)
    have "(lease + 1000000) div 1000000 \<le> now div 1000000" using that by (rule zdiv_mono1) simp
    then show "lease div 1000000 < now div 1000000" by simp
  qed
  moreover have "text_less lease now"
    if "now div 1000000 = lease div 1000000 \<and> now mod 1000000 = 0 \<and> lease mod 1000000 \<noteq> 0"
    using that text_whole_second_last [of lease now] by simp
  ultimately show ?thesis unfolding Let_def row by simp
qed

lemma recovery_follows_the_lease_witness:
  "let s = fold (job_step demo_jobs) (demo_enqueued @ [Claim ''t'' ''0'' ''w'' 60]) empty_video_store;
       r' = select_row (job_is ''t'' ''0'') (vs_jobs (snd (recover_stale_jobs demo_jobs 1 (Some (seconds 200)) s))) in
   r' \<noteq> None \<and> r' \<noteq> select_row (job_is ''t'' ''0'') (vs_jobs s)"
proof -
  let ?s = "fold (job_step demo_jobs) (demo_enqueued @ [Claim ''t'' ''0'' ''w'' 60]) empty_video_store"
  have row: "select_row (job_is ''t'' ''0'') (vs_jobs ?s) =
      Some (claimed ''w'' (seconds 160) (seconds 100) (new_job_row ''t'' ''0'' ''a'' ''analyze'' ''a:analyze'' 2 0))"
    by code_simp
  show ?thesis
    using recovery_follows_the_lease [OF row, of "seconds 160" 1 demo_jobs "seconds 200"] row
    by (simp add: claimed_def released_def new_job_row_def Let_def)
qed

section \<open>Jobs whose workers crash\<close>

definition crash_round :: "string \<Rightarrow> string \<Rightarrow> string \<Rightarrow> int \<Rightarrow> int \<Rightarrow> job_call list" where
  "crash_round t j w l d = [Claim t j w l, Recover d None]"

definition crash_rounds :: "nat \<Rightarrow> string \<Rightarrow> string \<Rightarrow> string \<Rightarrow> int \<Rightarrow> int \<Rightarrow> job_call list" where
  "crash_rounds n t j w l d = concat (replicate n (crash_round t j w l d))"

lemma crash_rounds_Suc: "crash_rounds (Suc n) t j w l d = crash_round t j w l d @ crash_rounds n t j w l d"
  by (simp add: crash_rounds_def)

definition slow_clock :: "ingestion_env \<Rightarrow> int \<Rightarrow> bool" where
  "slow_clock env l \<longleftrightarrow> (\<forall>n. ie_clock env n + seconds (l + 1) \<le> ie_clock env (Suc n))"

lemma job_step_clock:
  "is_reads (vs_db (job_step env (Claim t j w l) s)) = is_reads (vs_db s) + (if l < 1 then 0 else 1)"
  "is_reads (vs_db (job_step env (Recover d None) s)) = is_reads (vs_db s) + (if d \<le> 0 then 0 else 1)"
  by (simp_all add: claim_job_def recover_stale_jobs_def video_now_def Let_def raise_if_def)

lemma second_later: "a + 1000000 \<le> b \<Longrightarrow> text_less a b"
proof (rule text_order_across_seconds)
  assume "a + 1000000 \<le> b"
  then have "(a + 1000000) div 1000000 \<le> b div 1000000" by (rule zdiv_mono1) simp
  then show "a div 1000000 < b div 1000000" by simp
qed

text \<open>One round: the claim succeeds, and the recovery after the lease puts the job back or gives it up.\<close>

lemma crash_round_row:
  fixes w :: string
  assumes r: "select_row (job_is t j) (vs_jobs s) = Some r" and can: "claimable (clock_at env s) r"
    and l: "1 \<le> l" and d: "0 < d" and clock: "slow_clock env l"
  defines "s' \<equiv> fold (job_step env) (crash_round t j w l d) s"
  obtains r' where "select_row (job_is t j) (vs_jobs s') = Some r'" and "jb_attempts r' = jb_attempts r + 1"
    and "jb_max_attempts r' = jb_max_attempts r"
    and "jb_attempts r + 1 < jb_max_attempts r \<Longrightarrow> claimable (clock_at env s') r'"
    and "jb_max_attempts r \<le> jb_attempts r + 1 \<Longrightarrow>
      jb_state r' = Failed \<and> jb_last_error_code r' = Some ''worker_recovery_exhausted'' \<and> jb_worker_id r' = None"
proof -
  let ?t0 = "clock_at env s" and ?s1 = "job_step env (Claim t j w l) s"
  let ?r1 = "claimed w (?t0 + seconds l) ?t0 r"
  have r1: "select_row (job_is t j) (vs_jobs ?s1) = Some ?r1"
    using l r can select_row_Some [OF r] unfolding claim_rows
    by (simp add: select_job_update same_job_changes del: job_step.simps)
  have t1: "?t0 + seconds (l + 1) \<le> clock_at env ?s1"
    using clock l by (simp add: slow_clock_def clock_at_def job_step_clock del: job_step.simps)
  then have stale: "abandoned (clock_at env ?s1) x ?r1" for x
    using second_later [of "?t0 + seconds l" "clock_at env ?s1"] by (simp add: abandoned_def claimed_def)
  define r2 where "r2 = (if jb_attempts r + 1 < jb_max_attempts r then released (clock_at env ?s1) ?r1 else given_up (clock_at env ?s1) ?r1)"
  have s': "s' = job_step env (Recover d None) ?s1" by (simp add: s'_def crash_round_def)
  have r2: "select_row (job_is t j) (vs_jobs s') = Some r2"
    unfolding s' r2_def using recovered_row [OF r1 d, of env None] stale
    by (simp add: recover_time_def Let_def claimed_def del: job_step.simps)
  have "clock_at env ?s1 + seconds (l + 1) \<le> clock_at env s'"
    using clock d l by (simp add: s' slow_clock_def clock_at_def job_step_clock del: job_step.simps)
  then have "text_le (clock_at env ?s1) (clock_at env s')"
    using l by (intro text_less_le second_later) simp
  then have "claimable (clock_at env s') r2" if "jb_attempts r + 1 < jb_max_attempts r"
    using that by (simp add: r2_def claimable_def released_def claimed_def)
  moreover have "jb_state r2 = Failed \<and> jb_last_error_code r2 = Some ''worker_recovery_exhausted'' \<and> jb_worker_id r2 = None"
    if "jb_max_attempts r \<le> jb_attempts r + 1"
    using that by (simp add: r2_def given_up_def)
  ultimately show thesis using that [OF r2] by (simp add: r2_def released_def given_up_def claimed_def)
qed

text \<open>
  C34. A job whose every worker crashes ends: with the recovery running after each lease, it is
  delivered exactly until its attempts are used up, is then failed with the exhaustion recorded, and
  no later claim of any worker gets it.
\<close>

lemma crashing_job_ends:
  assumes "select_row (job_is t j) (vs_jobs s) = Some r" and "claimable (clock_at env s) r" and "1 \<le> l" and "0 < d"
    and "slow_clock env l"
  shows "\<exists>r'. select_row (job_is t j) (vs_jobs (fold (job_step env) (crash_rounds (nat (jb_max_attempts r - jb_attempts r)) t j w l d) s))
        = Some r' \<and> jb_state r' = Failed \<and> jb_attempts r' = jb_max_attempts r \<and>
      jb_last_error_code r' = Some ''worker_recovery_exhausted'' \<and> jb_worker_id r' = None \<and> \<not> claimable now r'"
proof -
  have "\<exists>r'. select_row (job_is t j) (vs_jobs (fold (job_step env) (crash_rounds n t j w l d) s)) = Some r' \<and>
      jb_state r' = Failed \<and> jb_attempts r' = jb_max_attempts r \<and>
      jb_last_error_code r' = Some ''worker_recovery_exhausted'' \<and> jb_worker_id r' = None"
    if "select_row (job_is t j) (vs_jobs s) = Some r" "claimable (clock_at env s) r" "nat (jb_max_attempts r - jb_attempts r) = n"
    for n s r
    using that
  proof (induction n arbitrary: s r)
    case 0
    then show ?case by (simp add: claimable_def)
  next
    case (Suc n)
    let ?s = "fold (job_step env) (crash_round t j w l d) s"
    obtain r' where r': "select_row (job_is t j) (vs_jobs ?s) = Some r'" "jb_attempts r' = jb_attempts r + 1"
        "jb_max_attempts r' = jb_max_attempts r"
      and more_left: "jb_attempts r + 1 < jb_max_attempts r \<Longrightarrow> claimable (clock_at env ?s) r'"
      and over: "jb_max_attempts r \<le> jb_attempts r + 1 \<Longrightarrow>
        jb_state r' = Failed \<and> jb_last_error_code r' = Some ''worker_recovery_exhausted'' \<and> jb_worker_id r' = None"
      using crash_round_row [OF Suc.prems(1,2) assms(3-5)] by blast
    show ?case
    proof (cases "jb_attempts r + 1 < jb_max_attempts r")
      case True
      with Suc.IH [OF r'(1) more_left] Suc.prems(3) r' show ?thesis by (simp add: crash_rounds_Suc)
    next
      case False
      with Suc.prems(2,3) have "n = 0" "jb_attempts r + 1 = jb_max_attempts r" by (auto simp: claimable_def)
      with r' over show ?thesis by (simp add: crash_rounds_Suc) (simp add: crash_rounds_def)
    qed
  qed
  from this [OF assms(1,2) refl] show ?thesis by (auto simp: claimable_def)
qed

lemma crashing_job_ends_witness:
  "select_row (job_is ''t'' ''0'') (vs_jobs (fold (job_step demo_jobs) (crash_rounds 2 ''t'' ''0'' ''w'' 60 1)
      (fold (job_step demo_jobs) demo_enqueued empty_video_store))) \<noteq> None"
proof -
  let ?s = "fold (job_step demo_jobs) demo_enqueued empty_video_store"
  have row: "select_row (job_is ''t'' ''0'') (vs_jobs ?s) = Some (new_job_row ''t'' ''0'' ''a'' ''analyze'' ''a:analyze'' 2 0)"
    by code_simp
  have "claimable (clock_at demo_jobs ?s) (new_job_row ''t'' ''0'' ''a'' ''analyze'' ''a:analyze'' 2 0)" by code_simp
  moreover have "slow_clock demo_jobs 60" by (simp add: slow_clock_def demo_jobs_def)
  ultimately show ?thesis
    using crashing_job_ends [OF row, of demo_jobs 60 1 "''w''"] by (auto simp: new_job_row_def)
qed

end
