(* ===== verification/Py_Float.thy ===== *)
theory Py_Float
  imports Py_Json
begin

text \<open>
  The floats the code computes with, by the decimal value of their \<open>repr\<close>: sign, digits, an optional
  fraction, an optional exponent. Comparing with an integer and truncating are exact on it;
  \<open>timedelta(seconds=x)\<close> rounds to microseconds, half to even.
\<close>

definition finite_float :: "string \<Rightarrow> bool" where
  "finite_float t \<longleftrightarrow> t \<notin> {''NaN'', ''Infinity'', ''-Infinity''}"

definition float_exponent :: "string \<Rightarrow> int" where
  "float_exponent s =
     (case s of
        [] \<Rightarrow> 0
      | e # r \<Rightarrow> (case r of
            [] \<Rightarrow> 0
          | sign # ds \<Rightarrow>
              if sign = CHR ''-'' then - int_of_digits ds
              else if sign = CHR ''+'' then int_of_digits ds else int_of_digits r))"

text \<open>Coefficient and decimal exponent.\<close>

definition float_parts :: "string \<Rightarrow> int \<times> int" where
  "float_parts t =
     (let neg = prefix ''-'' t; u = (if neg then tl t else t);
          whole = takeWhile is_digit u; rest = drop (length whole) u;
          frac = (if prefix ''.'' rest then takeWhile is_digit (tl rest) else []);
          rest = (if prefix ''.'' rest then drop (length frac) (tl rest) else rest);
          coefficient = int_of_digits (whole @ frac) in
      (if neg then - coefficient else coefficient, float_exponent rest - int (length frac)))"

text \<open>The value times \<open>10 ^ k\<close>, as numerator and positive denominator.\<close>

definition float_scaled :: "nat \<Rightarrow> string \<Rightarrow> int \<times> int" where
  "float_scaled k t =
     (case float_parts t of (c, e) \<Rightarrow>
        if 0 \<le> e + int k then (c * 10 ^ nat (e + int k), 1) else (c, 10 ^ nat (- (e + int k))))"

definition half_even :: "int \<Rightarrow> int \<Rightarrow> int" where
  "half_even num den =
     (let q = num div den; r = num mod den in
      if 2 * r < den then q else if den < 2 * r then q + 1 else if even q then q else q + 1)"

definition float_micros :: "string \<Rightarrow> int" where
  "float_micros t = (case float_scaled 6 t of (num, den) \<Rightarrow> half_even num den)"

definition float_le :: "string \<Rightarrow> int \<Rightarrow> bool" where
  "float_le t n \<longleftrightarrow> (case float_scaled 0 t of (num, den) \<Rightarrow> num \<le> n * den)"

definition float_ge :: "string \<Rightarrow> int \<Rightarrow> bool" where
  "float_ge t n \<longleftrightarrow> (case float_scaled 0 t of (num, den) \<Rightarrow> n * den \<le> num)"

definition float_trunc :: "string \<Rightarrow> int" where
  "float_trunc t = (case float_scaled 0 t of (num, den) \<Rightarrow> if 0 \<le> num then num div den else - ((- num) div den))"

lemma float_scaled_den: "float_scaled k t = (num, den) \<Longrightarrow> 0 < den"
  by (auto simp: float_scaled_def split: prod.split_asm if_split_asm)

lemma half_even_mono_zero:
  assumes "0 \<le> num" and "0 < den"
  shows "0 \<le> half_even num den"
  using assms pos_imp_zdiv_nonneg_iff [of den num] by (auto simp: half_even_def Let_def)

lemma float_micros_nonneg:
  assumes "float_ge t 0"
  shows "0 \<le> float_micros t"
proof -
  obtain c e where parts: "float_parts t = (c, e)" by fastforce
  have "\<not> (10::int) ^ n \<le> 0" for n by (simp add: not_le)
  with assms parts have "0 \<le> c"
    by (auto simp: float_ge_def float_scaled_def zero_le_mult_iff split: if_split_asm)
  then show ?thesis
    using parts by (auto simp: float_micros_def float_scaled_def intro!: half_even_mono_zero)
qed

end
