(* ===== verification/Video_Store.thy ===== *)
theory Video_Store
  imports Video_Jobs Ingestion_Service Py_Float
begin

text \<open>
  The other tables of \<open>video/store.py\<close>: camera sources, assets, the registry of remote videos,
  candidates, reviews, coverage, snapshots and the audit log. A payload is the JSON object the code
  stores and parses back. Every method is one transaction: when it raises, the tables are as before,
  and only the clock and the identifiers have moved on.
\<close>

section \<open>Payloads\<close>

text \<open>\<open>payload[key]\<close>, for a member that accepted contracts make a text, and the \<open>dict\<close> updates.\<close>

definition item :: "payload \<Rightarrow> string \<Rightarrow> json video_op" where
  "item payload key s = fetch (member payload) key (Failure ''KeyError'') s"

definition text_item :: "payload \<Rightarrow> string \<Rightarrow> string video_op" where
  "text_item payload key s = fetch (text_member payload) key (Failure ''KeyError'') s"

text \<open>\<open>dict.get\<close>: a missing member reads as \<open>None\<close>.\<close>

definition got :: "payload \<Rightarrow> string \<Rightarrow> json" where
  "got payload key = (case member payload key of None \<Rightarrow> JNull | Some v \<Rightarrow> v)"

definition dict_pop :: "string \<Rightarrow> payload \<Rightarrow> payload" where
  "dict_pop key payload = filter (\<lambda>(k, v). k \<noteq> key) payload"

text \<open>A method of the ingestion store, which shares the database.\<close>

fun outer_exn :: "iexn \<Rightarrow> vexn" where
  "outer_exn (IngestionError code message retryable) = Failure ''IngestionError''"
| "outer_exn IntegrityError = Integrity"
| "outer_exn OperationalError = Failure ''OperationalError''"
| "outer_exn (OtherFailure name) = Failure name"

definition on_ingestion_store :: "'a store_op \<Rightarrow> 'a video_op" where
  "on_ingestion_store f s =
     (case f (vs_db s) of
        (Inl e, db) \<Rightarrow> (Inl (outer_exn e), s\<lparr>vs_db := db\<rparr>)
      | (Inr x, db) \<Rightarrow> (Inr x, s\<lparr>vs_db := db\<rparr>))"

section \<open>Camera sources\<close>

definition put_source :: "payload \<Rightarrow> unit video_op" where
  "put_source payload s =
     and_then (text_item payload ''tenant_id'' s) (\<lambda>t s.
     and_then (text_item payload ''source_id'' s) (\<lambda>src s.
     and_then (text_item payload ''created_at'' s) (\<lambda>created s.
     (Inr (), s\<lparr>vs_sources := upsert_row (\<lambda>r. cr_tenant_id r = t \<and> cr_source_id r = src) (\<lambda>r. r\<lparr>cr_payload := payload\<rparr>)
        \<lparr>cr_tenant_id = t, cr_source_id = src, cr_payload = payload, cr_created_at = created\<rparr> (vs_sources s)\<rparr>))))"

definition get_source :: "string \<Rightarrow> string \<Rightarrow> payload video_op" where
  "get_source tenant_id source_id s =
     (case select_row (\<lambda>r. cr_tenant_id r = tenant_id \<and> cr_source_id r = source_id) (vs_sources s) of
        None \<Rightarrow> (Inl (pipeline ''resource_not_found''), s)
      | Some r \<Rightarrow> (Inr (cr_payload r), s))"

definition list_source_ids :: "string \<Rightarrow> video_store \<Rightarrow> string list" where
  "list_source_ids tenant_id s =
     map cr_source_id (filter (\<lambda>r. member (cr_payload r) ''status'' = Some (JStr ''active''))
       (sort_key cr_source_id (filter (\<lambda>r. cr_tenant_id r = tenant_id) (vs_sources s))))"

section \<open>Assets\<close>

definition asset_is :: "string \<Rightarrow> string \<Rightarrow> asset_row \<Rightarrow> bool" where
  "asset_is tenant_id asset_id r \<longleftrightarrow> as_tenant_id r = tenant_id \<and> as_asset_id r = asset_id"

definition remove_file_prefix :: "string \<Rightarrow> string" where
  "remove_file_prefix path = (if prefix ''file://'' path then drop 7 path else path)"

text \<open>An insertion needs the source; an asset that exists keeps its path and gets the new payload.\<close>

definition put_asset :: "ingestion_env \<Rightarrow> payload \<Rightarrow> string \<Rightarrow> unit video_op" where
  "put_asset env payload local_path s =
     and_then (text_item payload ''tenant_id'' s) (\<lambda>t s.
     and_then (text_item payload ''asset_id'' s) (\<lambda>a s.
     and_then (text_item payload ''source_id'' s) (\<lambda>src s.
     and_then (video_now env s) (\<lambda>now s.
     and_then (raise_if (\<not> list_ex (asset_is t a) (vs_assets s) \<and>
         \<not> list_ex (\<lambda>r. cr_tenant_id r = t \<and> cr_source_id r = src) (vs_sources s)) Integrity s) (\<lambda>_ s.
     (Inr (), s\<lparr>vs_assets := upsert_row (asset_is t a) (\<lambda>r. r\<lparr>as_payload := payload\<rparr>)
        \<lparr>as_tenant_id = t, as_asset_id = a, as_source_id = src, as_payload = payload,
         as_local_path = remove_file_prefix local_path, as_created_at = now\<rparr> (vs_assets s)\<rparr>))))))"

definition get_asset :: "string \<Rightarrow> string \<Rightarrow> payload video_op" where
  "get_asset tenant_id asset_id s =
     (case select_row (asset_is tenant_id asset_id) (vs_assets s) of
        None \<Rightarrow> (Inl (pipeline ''resource_not_found''), s)
      | Some r \<Rightarrow> (Inr (as_payload r), s))"

definition asset_path :: "string \<Rightarrow> string \<Rightarrow> string video_op" where
  "asset_path tenant_id asset_id s =
     (case select_row (asset_is tenant_id asset_id) (vs_assets s) of
        None \<Rightarrow> (Inl (pipeline ''asset_not_found''), s)
      | Some r \<Rightarrow> (Inr (as_local_path r), s))"

definition with_status :: "string \<Rightarrow> string option \<Rightarrow> payload \<Rightarrow> payload" where
  "with_status status error_code payload =
     (let p = dict_set ''status'' (JStr status) payload in
      case error_code of
        None \<Rightarrow> dict_pop ''failure_code'' p
      | Some code \<Rightarrow> if code = [] then dict_pop ''failure_code'' p else dict_set ''failure_code'' (JStr code) p)"

definition update_asset_status :: "ingestion_env \<Rightarrow> string \<Rightarrow> string \<Rightarrow> string \<Rightarrow> string option \<Rightarrow> unit video_op" where
  "update_asset_status env tenant_id asset_id status error_code s =
     and_then (get_asset tenant_id asset_id s) (\<lambda>payload s.
     and_then (asset_path tenant_id asset_id s) (\<lambda>path s.
     put_asset env (with_status status error_code payload) path s))"

text \<open>\<open>int(value["size_bytes"])\<close>.\<close>

definition size_number :: "json \<Rightarrow> vexn + int" where
  "size_number v =
     (case v of
        JInt i \<Rightarrow> Inr i
      | JBool b \<Rightarrow> Inr (if b then 1 else 0)
      | JStr t \<Rightarrow> (case py_int t of None \<Rightarrow> Inl (Failure ''ValueError'') | Some i \<Rightarrow> Inr i)
      | JFloat t \<Rightarrow> if t = ''NaN'' then Inl (Failure ''ValueError'')
                   else if finite_float t then Inr (float_trunc t) else Inl (Failure ''OverflowError'')
      | _ \<Rightarrow> Inl (Failure ''TypeError''))"

fun sum_sizes :: "payload list \<Rightarrow> int video_op" where
  "sum_sizes [] s = (Inr 0, s)"
| "sum_sizes (p # ps) s =
     and_then (item p ''status'' s) (\<lambda>status s.
     if status = JStr ''deleted'' then sum_sizes ps s
     else and_then (item p ''size_bytes'' s) (\<lambda>size s.
          and_then (lift (size_number size) s) (\<lambda>n s.
          and_then (sum_sizes ps s) (\<lambda>total s. (Inr (n + total), s)))))"

definition tenant_asset_bytes :: "string \<Rightarrow> int video_op" where
  "tenant_asset_bytes tenant_id s =
     sum_sizes (map as_payload (filter (\<lambda>r. as_tenant_id r = tenant_id) (vs_assets s))) s"

text \<open>\<open>expired_assets\<close> compares the stored text with the text of now.\<close>

fun expired_rows :: "string \<Rightarrow> asset_row list \<Rightarrow> (string \<times> string) list video_op" where
  "expired_rows now [] s = (Inr [], s)"
| "expired_rows now (r # rs) s =
     and_then (text_item (as_payload r) ''retention_until'' s) (\<lambda>until s.
     and_then (if until \<le> now then and_then (item (as_payload r) ''status'' s) (\<lambda>status s. (Inr (status \<noteq> JStr ''deleted''), s))
               else (Inr False, s)) (\<lambda>expired s.
     and_then (expired_rows now rs s) (\<lambda>rest s.
     (Inr (if expired then (as_tenant_id r, as_asset_id r) # rest else rest), s))))"

definition expired_assets :: "string \<Rightarrow> (string \<times> string) list video_op" where
  "expired_assets now s = expired_rows now (vs_assets s) s"

section \<open>The registry of remote videos\<close>

definition mapping_is :: "string \<Rightarrow> string \<Rightarrow> mapping_row \<Rightarrow> bool" where
  "mapping_is tenant_id asset_id r \<longleftrightarrow> mp_tenant_id r = tenant_id \<and> mp_asset_id r = asset_id"

text \<open>A mapping that exists gets the new status; a new one must not share its remote video.\<close>

definition put_mapping :: "ingestion_env \<Rightarrow> string \<Rightarrow> string \<Rightarrow> string \<Rightarrow> string \<Rightarrow> string \<Rightarrow> unit video_op" where
  "put_mapping env tenant_id source_id asset_id reka_video_id status s =
     and_then (video_now env s) (\<lambda>now s.
     and_then (raise_if (\<not> list_ex (mapping_is tenant_id asset_id) (vs_mappings s) \<and>
         list_ex (\<lambda>r. mp_tenant_id r = tenant_id \<and> mp_reka_video_id r = reka_video_id) (vs_mappings s)) Integrity s) (\<lambda>_ s.
     (Inr (), s\<lparr>vs_mappings := upsert_row (mapping_is tenant_id asset_id)
        (\<lambda>r. r\<lparr>mp_indexing_status := status, mp_updated_at := now\<rparr>)
        \<lparr>mp_tenant_id = tenant_id, mp_source_id = source_id, mp_asset_id = asset_id, mp_reka_video_id = reka_video_id,
         mp_indexing_status = status, mp_remote_deleted_at = None, mp_created_at = now, mp_updated_at = now\<rparr>
        (vs_mappings s)\<rparr>)))"

definition get_mapping :: "string \<Rightarrow> string \<Rightarrow> video_store \<Rightarrow> mapping_row option" where
  "get_mapping tenant_id asset_id s = select_row (mapping_is tenant_id asset_id) (vs_mappings s)"

definition mapping_by_remote_id :: "string \<Rightarrow> string \<Rightarrow> video_store \<Rightarrow> mapping_row option" where
  "mapping_by_remote_id tenant_id reka_video_id s =
     select_row (\<lambda>r. mp_tenant_id r = tenant_id \<and> mp_reka_video_id r = reka_video_id) (vs_mappings s)"

definition mark_remote_deleted :: "ingestion_env \<Rightarrow> string \<Rightarrow> string \<Rightarrow> unit video_op" where
  "mark_remote_deleted env tenant_id asset_id s =
     and_then (video_now env s) (\<lambda>now s.
     (Inr (), s\<lparr>vs_mappings := update_rows (mapping_is tenant_id asset_id)
        (\<lambda>r. r\<lparr>mp_remote_deleted_at := Some now, mp_updated_at := now\<rparr>) (vs_mappings s)\<rparr>))"

section \<open>Candidates and reviews\<close>

definition candidate_is :: "string \<Rightarrow> string \<Rightarrow> candidate_row \<Rightarrow> bool" where
  "candidate_is tenant_id detection_id r \<longleftrightarrow> cd_tenant_id r = tenant_id \<and> cd_detection_id r = detection_id"

definition review_is :: "string \<Rightarrow> string \<Rightarrow> review_row \<Rightarrow> bool" where
  "review_is tenant_id detection_id r \<longleftrightarrow> rv_tenant_id r = tenant_id \<and> rv_detection_id r = detection_id"

definition put_candidate :: "ingestion_env \<Rightarrow> payload \<Rightarrow> string \<Rightarrow> bool video_op" where
  "put_candidate env payload semantic_key s =
     and_then (text_item payload ''tenant_id'' s) (\<lambda>t s.
     and_then (text_item payload ''detection_id'' s) (\<lambda>d s.
     and_then (text_item payload ''source_id'' s) (\<lambda>src s.
     and_then (text_item payload ''asset_id'' s) (\<lambda>a s.
     and_then (video_now env s) (\<lambda>now s.
     if list_ex (\<lambda>r. cd_tenant_id r = t \<and> (cd_detection_id r = d \<or> cd_semantic_key r = semantic_key)) (vs_candidates s)
     then (Inr False, s)
     else (Inr True, s\<lparr>vs_candidates := vs_candidates s @
        [\<lparr>cd_tenant_id = t, cd_detection_id = d, cd_source_id = src, cd_asset_id = a, cd_semantic_key = semantic_key,
          cd_payload = payload, cd_created_at = now\<rparr>]\<rparr>))))))"

definition get_candidate :: "string \<Rightarrow> string \<Rightarrow> payload video_op" where
  "get_candidate tenant_id detection_id s =
     (case select_row (candidate_is tenant_id detection_id) (vs_candidates s) of
        None \<Rightarrow> (Inl (pipeline ''resource_not_found''), s)
      | Some r \<Rightarrow> (Inr (cd_payload r), s))"

definition list_candidates :: "string \<Rightarrow> video_store \<Rightarrow> payload list" where
  "list_candidates tenant_id s =
     map cd_payload (sort_key (\<lambda>r. text_rank (cd_created_at r)) (filter (\<lambda>r. cd_tenant_id r = tenant_id) (vs_candidates s)))"

definition pending_candidate :: "string \<Rightarrow> review_row list \<Rightarrow> candidate_row \<Rightarrow> bool" where
  "pending_candidate tenant_id reviews r \<longleftrightarrow> cd_tenant_id r = tenant_id \<and>
     member (cd_payload r) ''review_status'' = Some (JStr ''awaiting_review'') \<and>
     \<not> list_ex (review_is tenant_id (cd_detection_id r)) reviews"

definition delete_pending_candidates :: "string \<Rightarrow> nat video_op" where
  "delete_pending_candidates tenant_id s =
     (let p = pending_candidate tenant_id (vs_reviews s) in
      (Inr (count_rows p (vs_candidates s)), s\<lparr>vs_candidates := filter (\<lambda>r. \<not> p r) (vs_candidates s)\<rparr>))"

definition update_candidate :: "payload \<Rightarrow> unit video_op" where
  "update_candidate payload s =
     and_then (text_item payload ''tenant_id'' s) (\<lambda>t s.
     and_then (text_item payload ''detection_id'' s) (\<lambda>d s.
     let hit = count_rows (candidate_is t d) (vs_candidates s);
         s = s\<lparr>vs_candidates := update_rows (candidate_is t d) (\<lambda>r. r\<lparr>cd_payload := payload\<rparr>) (vs_candidates s)\<rparr> in
     raise_if (hit \<noteq> 1) (pipeline ''resource_not_found'') s))"

text \<open>
  Both ways to finish a review insert it under the unique key of its candidate and write the
  decision into the candidate; an error after the insertion rolls all of it back.
\<close>

definition review_conflict :: "review_row \<Rightarrow> review_row list \<Rightarrow> bool" where
  "review_conflict r rows \<longleftrightarrow> list_ex (\<lambda>q. rv_tenant_id q = rv_tenant_id r \<and>
     (rv_review_id q = rv_review_id r \<or> rv_detection_id q = rv_detection_id r)) rows"

definition new_review :: "ingestion_env \<Rightarrow> payload \<Rightarrow> review_row video_op" where
  "new_review env payload s =
     and_then (text_item payload ''tenant_id'' s) (\<lambda>t s.
     and_then (text_item payload ''review_id'' s) (\<lambda>v s.
     and_then (text_item payload ''detection_id'' s) (\<lambda>d s.
     and_then (video_now env s) (\<lambda>now s.
     let r = \<lparr>rv_tenant_id = t, rv_review_id = v, rv_detection_id = d, rv_payload = payload, rv_created_at = now\<rparr> in
     and_then (raise_if (review_conflict r (vs_reviews s)) (pipeline ''review_already_final'') s) (\<lambda>_ s. (Inr r, s))))))"

definition decided :: "json \<Rightarrow> candidate_row \<Rightarrow> candidate_row" where
  "decided decision r = r\<lparr>cd_payload := dict_set ''review_status'' decision (cd_payload r)\<rparr>"

text \<open>The candidate is read for the update: without a row, \<open>None["payload_json"]\<close> raises \<open>TypeError\<close>.\<close>

definition put_review :: "ingestion_env \<Rightarrow> payload \<Rightarrow> unit video_op" where
  "put_review env payload s =
     and_then (new_review env payload s) (\<lambda>r s.
     let p = candidate_is (rv_tenant_id r) (rv_detection_id r) in
     and_then (raise_if (\<not> list_ex p (vs_candidates s)) (Failure ''TypeError'') s) (\<lambda>_ s.
     and_then (item payload ''decision'' s) (\<lambda>decision s.
     (Inr (), s\<lparr>vs_reviews := vs_reviews s @ [r], vs_candidates := update_rows p (decided decision) (vs_candidates s)\<rparr>))))"

text \<open>The event is inserted in the same transaction; any of its constraints reports a final review.\<close>

definition put_review_and_event :: "ingestion_env \<Rightarrow> payload \<Rightarrow> payload \<Rightarrow> string \<Rightarrow> unit video_op" where
  "put_review_and_event env payload event event_hash s =
     and_then (item event ''location'' s) (\<lambda>_ s.
     and_then (new_review env payload s) (\<lambda>r s.
     let p = candidate_is (rv_tenant_id r) (rv_detection_id r) in
     and_then (raise_if (\<not> list_ex p (vs_candidates s)) (pipeline ''resource_not_found'') s) (\<lambda>_ s.
     and_then (item payload ''decision'' s) (\<lambda>decision s.
     and_then (fetch (\<lambda>_. event_row event event_hash) () (Failure ''KeyError'') s) (\<lambda>row s.
     and_then (video_now env s) (\<lambda>now s.
     let row = row (iso_utc now) in
     and_then (raise_if (sql_null (ev_latitude row) \<or> sql_null (ev_longitude row) \<or>
         list_ex (same_event_key row) (is_events (vs_db s)) \<or>
         \<not> source_registered (ev_tenant_id row) (ev_source_id row) (vs_db s)) (pipeline ''review_already_final'') s) (\<lambda>_ s.
     (Inr (), s\<lparr>vs_reviews := vs_reviews s @ [r], vs_candidates := update_rows p (decided decision) (vs_candidates s),
               vs_db := (vs_db s)\<lparr>is_events := is_events (vs_db s) @ [row]\<rparr>\<rparr>))))))))"

definition get_review_for_candidate :: "string \<Rightarrow> string \<Rightarrow> video_store \<Rightarrow> payload option" where
  "get_review_for_candidate tenant_id detection_id s =
     map_option rv_payload (select_row (review_is tenant_id detection_id) (vs_reviews s))"

section \<open>Coverage, snapshots and the audit log\<close>

definition put_coverage :: "payload \<Rightarrow> unit video_op" where
  "put_coverage payload s =
     and_then (text_item payload ''tenant_id'' s) (\<lambda>t s.
     and_then (text_item payload ''source_id'' s) (\<lambda>src s.
     and_then (text_item payload ''interval_start'' s) (\<lambda>start s.
     (Inr (), s\<lparr>vs_coverage := upsert_row
        (\<lambda>r. cv_tenant_id r = t \<and> cv_source_id r = src \<and> cv_interval_start r = start) (\<lambda>r. r\<lparr>cv_payload := payload\<rparr>)
        \<lparr>cv_tenant_id = t, cv_source_id = src, cv_interval_start = start, cv_payload = payload\<rparr> (vs_coverage s)\<rparr>))))"

definition latest_first :: "coverage_row list \<Rightarrow> coverage_row list" where
  "latest_first rows = rev (sort_key cv_interval_start (rev rows))"

text \<open>A negative \<open>LIMIT\<close> is none.\<close>

definition list_coverage :: "string \<Rightarrow> int \<Rightarrow> video_store \<Rightarrow> payload list" where
  "list_coverage tenant_id limit s =
     (let rows = latest_first (filter (\<lambda>r. cv_tenant_id r = tenant_id) (vs_coverage s)) in
      map cv_payload (if limit < 0 then rows else take (nat limit) rows))"

definition int_item :: "payload \<Rightarrow> string \<Rightarrow> int video_op" where
  "int_item payload key s =
     and_then (item payload key s) (\<lambda>v s. case v of JInt i \<Rightarrow> (Inr i, s) | _ \<Rightarrow> (Inl (Failure ''TypeError''), s))"

fun sum_items :: "string \<Rightarrow> payload list \<Rightarrow> int video_op" where
  "sum_items key [] s = (Inr 0, s)"
| "sum_items key (p # ps) s =
     and_then (int_item p key s) (\<lambda>n s. and_then (sum_items key ps s) (\<lambda>total s. (Inr (n + total), s)))"

text \<open>The quotient the float stands for, as numerator and denominator.\<close>

definition seconds_ratio :: "payload list \<Rightarrow> (int \<times> int) video_op" where
  "seconds_ratio values s =
     and_then (sum_items ''expected_seconds'' values s) (\<lambda>expected s.
     and_then (sum_items ''detector_available_seconds'' values s) (\<lambda>available s.
     and_then (raise_if (expected = 0) (Failure ''ZeroDivisionError'') s) (\<lambda>_ s. (Inr (available, expected), s))))"

definition coverage_ratio :: "string \<Rightarrow> string list \<Rightarrow> string \<Rightarrow> (int \<times> int) video_op" where
  "coverage_ratio tenant_id source_ids interval_start s =
     and_then (raise_if (source_ids = []) (Failure ''ValueError'') s) (\<lambda>_ s.
     let rows = filter (\<lambda>r. cv_tenant_id r = tenant_id \<and> cv_source_id r \<in> set source_ids \<and> cv_interval_start r = interval_start)
                  (vs_coverage s) in
     and_then (raise_if (length rows \<noteq> length (remdups source_ids)) (pipeline ''coverage_missing'') s) (\<lambda>_ s.
     seconds_ratio (map cv_payload rows) s))"

text \<open>The latest snapshot of a source that ended by \<open>before\<close>.\<close>

fun first_ended :: "string \<Rightarrow> payload list \<Rightarrow> payload option video_op" where
  "first_ended before [] s = (Inr None, s)"
| "first_ended before (p # ps) s =
     and_then (text_item p ''interval_end'' s) (\<lambda>ended s.
     if ended \<le> before then (Inr (Some p), s) else first_ended before ps s)"

fun latest_snapshots :: "string \<Rightarrow> string list \<Rightarrow> string \<Rightarrow> payload list video_op" where
  "latest_snapshots tenant_id [] before s = (Inr [], s)"
| "latest_snapshots tenant_id (source_id # source_ids) before s =
     and_then (first_ended before (map cv_payload (latest_first
         (filter (\<lambda>r. cv_tenant_id r = tenant_id \<and> cv_source_id r = source_id) (vs_coverage s)))) s) (\<lambda>value s.
     case value of
       None \<Rightarrow> (Inl (pipeline ''coverage_missing''), s)
     | Some p \<Rightarrow> and_then (latest_snapshots tenant_id source_ids before s) (\<lambda>ps s. (Inr (p # ps), s)))"

definition latest_coverage_ratio :: "string \<Rightarrow> string list \<Rightarrow> string \<Rightarrow> (int \<times> int) video_op" where
  "latest_coverage_ratio tenant_id source_ids before s =
     and_then (latest_snapshots tenant_id source_ids before s) (\<lambda>values s. seconds_ratio values s)"

definition latest_tenant_coverage_ratio :: "string \<Rightarrow> string \<Rightarrow> (int \<times> int) video_op" where
  "latest_tenant_coverage_ratio tenant_id before s = latest_coverage_ratio tenant_id (list_source_ids tenant_id s) before s"

definition put_future_snapshot :: "ingestion_env \<Rightarrow> string \<Rightarrow> string \<Rightarrow> string \<Rightarrow> json \<Rightarrow> unit video_op" where
  "put_future_snapshot env tenant_id version interval_start rows s =
     and_then (video_now env s) (\<lambda>now s.
     (Inr (), s\<lparr>vs_snapshots := upsert_row (\<lambda>r. sn_tenant_id r = tenant_id \<and> sn_version r = version) (\<lambda>r. r\<lparr>sn_rows := rows\<rparr>)
        \<lparr>sn_tenant_id = tenant_id, sn_version = version, sn_interval_start = interval_start, sn_rows = rows, sn_created_at = now\<rparr>
        (vs_snapshots s)\<rparr>))"

definition audit_log :: "ingestion_env \<Rightarrow> string \<Rightarrow> string \<Rightarrow> string \<Rightarrow> string \<Rightarrow> string \<Rightarrow> string option \<Rightarrow> unit video_op" where
  "audit_log env tenant_id action resource_type resource_id result error_code s =
     and_then (video_uuid env s) (\<lambda>audit_id s.
     and_then (video_now env s) (\<lambda>now s.
     and_then (raise_if (list_ex (\<lambda>r. au_tenant_id r = tenant_id \<and> au_audit_id r = audit_id) (vs_audit s)) Integrity s) (\<lambda>_ s.
     (Inr (), s\<lparr>vs_audit := vs_audit s @
        [\<lparr>au_tenant_id = tenant_id, au_audit_id = audit_id, au_action = action, au_resource_type = resource_type,
          au_resource_id = resource_id, au_outcome = result, au_error_code = error_code, au_created_at = now\<rparr>]\<rparr>))))"

section \<open>Effects\<close>

lemma item_eq [effect_simps]:
  "item p k s = (Inr v, t) \<longleftrightarrow> member p k = Some v \<and> t = s"
  "text_item p k s = (Inr x, t) \<longleftrightarrow> text_member p k = Some x \<and> t = s"
  by (auto simp: item_def text_item_def fetch_eq)

text \<open>The store after a reading of the clock.\<close>

definition ticked :: "video_store \<Rightarrow> video_store" where
  "ticked s = s\<lparr>vs_db := (vs_db s)\<lparr>is_reads := Suc (is_reads (vs_db s))\<rparr>\<rparr>"

lemma video_now_eq_ticked: "video_now env s = (Inr (ie_clock env (is_reads (vs_db s))), ticked s)"
  by (simp add: video_now_def ticked_def Let_def)

lemma video_now_Inr [effect_simps]:
  "video_now env s = (Inr t, s') \<longleftrightarrow> t = ie_clock env (is_reads (vs_db s)) \<and> s' = ticked s"
  "video_now env s = (Inl e, s') \<longleftrightarrow> False"
  by (auto simp: video_now_eq_ticked)

lemma ticked_tables [simp]:
  "vs_jobs (ticked s) = vs_jobs s" "vs_sources (ticked s) = vs_sources s" "vs_assets (ticked s) = vs_assets s"
  "vs_mappings (ticked s) = vs_mappings s" "vs_candidates (ticked s) = vs_candidates s" "vs_reviews (ticked s) = vs_reviews s"
  "vs_coverage (ticked s) = vs_coverage s" "vs_snapshots (ticked s) = vs_snapshots s" "vs_audit (ticked s) = vs_audit s"
  "vs_files (ticked s) = vs_files s" "vs_calls (ticked s) = vs_calls s"
  "is_events (vs_db (ticked s)) = is_events (vs_db s)" "is_sources (vs_db (ticked s)) = is_sources (vs_db s)"
  by (simp_all add: ticked_def)

definition text_of :: "payload \<Rightarrow> string \<Rightarrow> string" where
  "text_of payload key = (case member payload key of Some (JStr t) \<Rightarrow> t | _ \<Rightarrow> [])"

lemma text_member_of: "text_member p k = Some x \<Longrightarrow> text_of p k = x \<and> member p k = Some (JStr x)"
  by (auto simp: text_member_def text_of_def split: option.split_asm json.split_asm)

lemma member_dict_pop: "member (dict_pop k d) j = (if j = k then None else member d j)"
proof -
  have "map_of (filter (\<lambda>(i, v). i \<noteq> k) xs) j = (if j = k then None else map_of xs j)" for xs :: payload
    by (induction xs) auto
  then show ?thesis by (simp add: member_def dict_pop_def rev_filter)
qed

lemma member_with_status:
  "k \<notin> {''status'', ''failure_code''} \<Longrightarrow> member (with_status status error_code p) k = member p k"
  "member (with_status status error_code p) ''status'' = Some (JStr status)"
  by (simp_all add: with_status_def member_dict_set member_dict_pop Let_def split: option.split)

lemma text_member_with_status:
  "k \<notin> {''status'', ''failure_code''} \<Longrightarrow> text_member (with_status status error_code p) k = text_member p k"
  by (simp add: text_member_def member_with_status)

text \<open>An operation that only read the clock.\<close>

definition later :: "video_store \<Rightarrow> video_store \<Rightarrow> bool" where
  "later s t \<longleftrightarrow> (\<exists>n. t = s\<lparr>vs_db := (vs_db s)\<lparr>is_reads := n\<rparr>\<rparr>)"

lemma later_refl [simp]: "later s s"
  unfolding later_def by (rule exI [of _ "is_reads (vs_db s)"]) simp

lemma later_trans: "later s t \<Longrightarrow> later t u \<Longrightarrow> later s u"
  by (auto simp: later_def)

lemma later_ticked [simp]: "later s (ticked s)"
  by (auto simp: later_def ticked_def)

lemma later_tables:
  assumes "later s t"
  shows "vs_jobs t = vs_jobs s" "vs_sources t = vs_sources s" "vs_assets t = vs_assets s" "vs_mappings t = vs_mappings s"
    "vs_candidates t = vs_candidates s" "vs_reviews t = vs_reviews s" "vs_coverage t = vs_coverage s" "vs_audit t = vs_audit s"
    "vs_files t = vs_files s" "vs_calls t = vs_calls s" "is_events (vs_db t) = is_events (vs_db s)"
    "is_sources (vs_db t) = is_sources (vs_db s)"
  using assms by (auto simp: later_def)

lemma later_then:
  assumes "later s (snd r)" and "\<And>x t. later t (snd (k x t))"
  shows "later s (snd (and_then r k))"
  using assms by (cases r; cases "fst r") (auto intro: later_trans)

lemma later_steps [simp]:
  "later s (snd (video_now env s))" "later s (snd (item p k s))" "later s (snd (text_item p k s))"
  "later s (snd (raise_if b e s))" "later s (snd (raise_opt x s))" "later s (snd (lift v s))"
  by (simp_all add: video_now_eq_ticked item_def text_item_def fetch_def raise_if_def raise_opt_def lift_def split: option.split)

end
