(* ===== verification/Video_Execute.thy ===== *)
theory Video_Execute
  imports Video_Store
begin

text \<open>
  The part of \<open>video/service.py\<close> that runs one operation of a job (\<open>_execute\<close>): upload to the vision
  provider, indexing, analysis with the validation of every proposed candidate, deletion; with the
  local media storage of \<open>video/storage.py\<close>. The provider is a parameter,
  one answer per call; so are the resolution of paths, the name-based identifiers and the text of a
  float quotient.
\<close>

section \<open>Environment\<close>

record video_env =
  ve_base :: ingestion_env
  ve_uuid5 :: "string \<Rightarrow> string"
  ve_resolve :: "string \<Rightarrow> string"
  ve_quotient :: "int \<Rightarrow> int \<Rightarrow> string"
  ve_upload :: "nat \<Rightarrow> string \<Rightarrow> vexn + json"
  ve_status :: "nat \<Rightarrow> string \<Rightarrow> vexn + json"
  ve_propose :: "nat \<Rightarrow> string \<Rightarrow> string option \<Rightarrow> vexn + json"
  ve_delete :: "nat \<Rightarrow> string \<Rightarrow> vexn option"

record video_service =
  vp_media_root :: string
  vp_max_upload_bytes :: int
  vp_tenant_quota_bytes :: int
  vp_max_duration_seconds :: int
  vp_prompt_version :: string
  vp_review_ttl :: int
  vp_locations :: "(string \<times> string) \<rightharpoonup> payload"

definition provider_call :: "(nat \<Rightarrow> vexn + 'a) \<Rightarrow> 'a video_op" where
  "provider_call f s = lift (f (vs_calls s)) (s\<lparr>vs_calls := Suc (vs_calls s)\<rparr>)"

definition contract :: "video_env \<Rightarrow> string \<Rightarrow> payload \<Rightarrow> unit video_op" where
  "contract env schema_name payload s =
     raise_opt (map_option outer_exn (validate_contract (ve_base env) schema_name (JObj payload))) s"

definition allowed_categories :: "string set" where
  "allowed_categories = {''property'', ''violence'', ''public_order'', ''traffic_safety'', ''other'', ''unmapped''}"

text \<open>\<open>_parse_utc\<close>: only \<open>AttributeError\<close> and \<open>ValueError\<close> are classified.\<close>

definition parse_video_utc :: "json \<Rightarrow> vexn + int" where
  "parse_video_utc v =
     (case v of
        JStr text \<Rightarrow>
          (case parse_iso text of
             None \<Rightarrow> Inl (pipeline ''timestamp_invalid'')
           | Some (Naive w) \<Rightarrow> Inl (pipeline ''timestamp_timezone_missing'')
           | Some (Aware w off) \<Rightarrow> if in_calendar (w - off) then Inr (w - off) else Inl (Failure ''OverflowError''))
      | _ \<Rightarrow> Inl (Failure ''TypeError''))"

definition time_item :: "payload \<Rightarrow> string \<Rightarrow> int video_op" where
  "time_item payload key s = and_then (item payload key s) (\<lambda>v s. lift (parse_video_utc v) s)"

section \<open>Local media storage\<close>

definition file_at :: "string \<Rightarrow> video_store \<Rightarrow> media_file option" where
  "file_at path s = map_of (vs_files s) path"

definition inside :: "string \<Rightarrow> string \<Rightarrow> bool" where
  "inside root path \<longleftrightarrow> path = root \<or> prefix (root @ ''/'') path"

definition store_media :: "video_env \<Rightarrow> video_service \<Rightarrow> string \<Rightarrow> string video_op" where
  "store_media env svc path s =
     (let resolved = ve_resolve env path in
      and_then (raise_if (file_at resolved s = None \<or> \<not> inside (vp_media_root svc) resolved) (pipeline ''video_path_invalid'') s) (\<lambda>_ s.
      (Inr (''file://'' @ resolved), s)))"

definition materialize :: "video_env \<Rightarrow> video_service \<Rightarrow> string \<Rightarrow> string video_op" where
  "materialize env svc storage_ref s =
     and_then (raise_if (\<not> prefix ''file://'' storage_ref) (pipeline ''storage_ref_invalid'') s) (\<lambda>_ s.
     let path = ve_resolve env (drop 7 storage_ref) in
     and_then (raise_if (file_at path s = None \<or> \<not> inside (vp_media_root svc) path) (pipeline ''storage_ref_invalid'') s) (\<lambda>_ s.
     (Inr path, s)))"

definition delete_media :: "video_env \<Rightarrow> video_service \<Rightarrow> string \<Rightarrow> unit video_op" where
  "delete_media env svc storage_ref s =
     and_then (materialize env svc storage_ref s) (\<lambda>path s.
     (Inr (), s\<lparr>vs_files := filter (\<lambda>(p, f). p \<noteq> path) (vs_files s)\<rparr>))"

definition asset_storage_ref :: "video_env \<Rightarrow> string \<Rightarrow> string \<Rightarrow> string video_op" where
  "asset_storage_ref env tenant_id asset_id s =
     and_then (asset_path tenant_id asset_id s) (\<lambda>path s. (Inr (''file://'' @ ve_resolve env path), s))"

section \<open>Candidates\<close>

definition proposal_error :: "string \<Rightarrow> nat \<Rightarrow> diagnostics \<Rightarrow> vexn" where
  "proposal_error code proposal_index d = pipeline_error code False (Some ((''proposal_index'', JInt (int proposal_index)) # d))"

definition invalid_field :: "nat \<Rightarrow> string \<Rightarrow> vexn" where
  "invalid_field proposal_index name = proposal_error ''reka_output_invalid'' proposal_index [(''invalid_fields'', JArr [JStr name])]"

text \<open>\<open>math.isfinite\<close> of an integer converts it to a float: beyond the largest one it raises.\<close>

definition float_overflow :: "int \<Rightarrow> bool" where
  "float_overflow i \<longleftrightarrow> 2 ^ 1024 - 2 ^ 970 \<le> \<bar>i\<bar>"

text \<open>
  The microseconds of an offset that is a finite non-negative number: \<open>timedelta(seconds=float(offset))\<close>.
\<close>

definition checked_offset :: "nat \<Rightarrow> json \<Rightarrow> vexn + int" where
  "checked_offset n v =
     (case v of
        JInt i \<Rightarrow> if float_overflow i then Inl (Failure ''OverflowError'')
                  else if i < 0 then Inl (invalid_field n ''offset_seconds'') else Inr (seconds i)
      | JFloat t \<Rightarrow> if \<not> finite_float t \<or> \<not> float_ge t 0 then Inl (invalid_field n ''offset_seconds'') else Inr (float_micros t)
      | _ \<Rightarrow> Inl (invalid_field n ''offset_seconds''))"

text \<open>Membership in a set of a list or an object raises \<open>TypeError\<close>: they have no hash.\<close>

definition checked_category :: "nat \<Rightarrow> json \<Rightarrow> vexn + string" where
  "checked_category n v =
     (case v of
        JStr c \<Rightarrow> if c \<in> allowed_categories then Inr c else Inl (invalid_field n ''category'')
      | JArr vs \<Rightarrow> Inl (Failure ''TypeError'')
      | JObj kvs \<Rightarrow> Inl (Failure ''TypeError'')
      | _ \<Rightarrow> Inl (invalid_field n ''category''))"

definition checked_confidence :: "nat \<Rightarrow> json \<Rightarrow> vexn + string" where
  "checked_confidence n v =
     (case v of
        JInt i \<Rightarrow> if float_overflow i then Inl (Failure ''OverflowError'')
                  else if i = 0 then Inr ''0.0'' else if i = 1 then Inr ''1.0'' else Inl (invalid_field n ''confidence'')
      | JFloat t \<Rightarrow> if finite_float t \<and> float_ge t 0 \<and> float_le t 1 then Inr t else Inl (invalid_field n ''confidence'')
      | _ \<Rightarrow> Inl (invalid_field n ''confidence''))"

definition required_fields :: "string list" where
  "required_fields = [''category'', ''confidence'', ''offset_seconds'']"

text \<open>The keys of the proposal are a set: the unexpected ones are counted once each.\<close>

definition proposal_fields :: "nat \<Rightarrow> json \<Rightarrow> vexn + json \<times> json \<times> json" where
  "proposal_fields n proposal =
     (case proposal of
        JObj kvs \<Rightarrow>
          (let unexpected = filter (\<lambda>k. k \<notin> set required_fields) (remdups (map fst kvs));
               missing = filter (\<lambda>k. member kvs k = None) required_fields in
           if unexpected \<noteq> [] then
             Inl (proposal_error ''reka_output_prohibited'' n [(''unexpected_field_count'', JInt (min (int (length unexpected)) 100))])
           else case (member kvs ''offset_seconds'', member kvs ''category'', member kvs ''confidence'') of
             (Some offset, Some category, Some confidence) \<Rightarrow> Inr (offset, category, confidence)
           | _ \<Rightarrow> Inl (proposal_error ''reka_output_missing_fields'' n [(''missing_fields'', JArr (map JStr missing))]))
      | _ \<Rightarrow> Inl (proposal_error ''reka_output_prohibited'' n []))"

definition candidate_key :: "video_service \<Rightarrow> string \<Rightarrow> string \<Rightarrow> string \<Rightarrow> int \<Rightarrow> string \<Rightarrow> string" where
  "candidate_key svc tenant_id asset_id remote_id occurred category =
     join '':'' [tenant_id, asset_id, remote_id, vp_prompt_version svc, iso_utc occurred, category]"

definition candidate_payload ::
  "video_service \<Rightarrow> string \<Rightarrow> string \<Rightarrow> string \<Rightarrow> string \<Rightarrow> int \<Rightarrow> int \<Rightarrow> string \<Rightarrow> string \<Rightarrow> int \<Rightarrow> payload" where
  "candidate_payload svc tenant_id detection_id source_id asset_id occurred now category confidence expires =
     [(''schema_version'', JStr ''1.0.0''), (''tenant_id'', JStr tenant_id), (''detection_id'', JStr detection_id),
      (''source_id'', JStr source_id), (''asset_id'', JStr asset_id), (''occurred_at'', JStr (iso_utc occurred)),
      (''received_at'', JStr (iso_utc now)), (''proposed_category'', JStr category), (''confidence'', JFloat confidence),
      (''detector_version'', JStr (''reka-vision:'' @ vp_prompt_version svc)),
      (''evidence_ref'', JStr (''secret://candidate-evidence/'' @ detection_id)),
      (''review_status'', JStr ''awaiting_review''), (''expires_at'', JStr (iso_utc expires))]"

definition candidate ::
  "video_env \<Rightarrow> video_service \<Rightarrow> payload \<Rightarrow> string \<Rightarrow> json \<Rightarrow> nat \<Rightarrow> (payload \<times> string) video_op" where
  "candidate env svc asset remote_id proposal n s =
     and_then (lift (proposal_fields n proposal) s) (\<lambda>(offset, category, confidence) s.
     and_then (lift (checked_offset n offset) s) (\<lambda>us s.
     and_then (lift (checked_category n category) s) (\<lambda>category s.
     and_then (lift (checked_confidence n confidence) s) (\<lambda>confidence s.
     and_then (time_item asset ''captured_start'' s) (\<lambda>start s.
     and_then (time_item asset ''captured_end'' s) (\<lambda>end_time s.
     let occurred = start + us in
     and_then (raise_if (\<not> in_calendar occurred) (Failure ''OverflowError'') s) (\<lambda>_ s.
     and_then (raise_if (occurred > end_time) (invalid_field n ''offset_seconds'') s) (\<lambda>_ s.
     and_then (text_item asset ''tenant_id'' s) (\<lambda>tenant_id s.
     and_then (text_item asset ''asset_id'' s) (\<lambda>asset_id s.
     let semantic_key = candidate_key svc tenant_id asset_id remote_id occurred category;
         detection_id = ve_uuid5 env semantic_key in
     and_then (video_now (ve_base env) s) (\<lambda>now s.
     and_then (raise_if (\<not> in_calendar (now + vp_review_ttl svc)) (Failure ''OverflowError'') s) (\<lambda>_ s.
     and_then (time_item asset ''retention_until'' s) (\<lambda>retention s.
     and_then (text_item asset ''source_id'' s) (\<lambda>source_id s.
     let c = candidate_payload svc tenant_id detection_id source_id asset_id occurred now category confidence
               (min (now + vp_review_ttl svc) retention) in
     and_then (contract env ''candidate-detection.schema.json'' c s) (\<lambda>_ s.
     (Inr (c, semantic_key), s))))))))))))))))"

section \<open>Operations\<close>

text \<open>An offset past the end of the video, which only drops its own proposal.\<close>

definition past_the_end :: "int \<Rightarrow> json \<Rightarrow> bool" where
  "past_the_end duration_us proposal =
     (case proposal of
        JObj kvs \<Rightarrow>
          (case member kvs ''offset_seconds'' of
             Some (JInt i) \<Rightarrow> duration_us < seconds i
           | Some (JFloat t) \<Rightarrow> finite_float t \<and> (case float_scaled 6 t of (num, den) \<Rightarrow> duration_us * den < num)
           | _ \<Rightarrow> False)
      | _ \<Rightarrow> False)"

definition out_of_range :: "int \<Rightarrow> json \<Rightarrow> vexn \<Rightarrow> bool" where
  "out_of_range duration_us proposal e =
     (case e of
        Pipeline code retryable d \<Rightarrow> code = ''reka_output_invalid'' \<and>
          member d ''invalid_fields'' = Some (JArr [JStr ''offset_seconds'']) \<and> past_the_end duration_us proposal
      | _ \<Rightarrow> False)"

fun collect_candidates ::
  "video_env \<Rightarrow> video_service \<Rightarrow> payload \<Rightarrow> string \<Rightarrow> int \<Rightarrow> nat \<Rightarrow> json list \<Rightarrow> ((payload \<times> string) list \<times> vexn list) video_op" where
  "collect_candidates env svc asset remote_id duration_us n [] s = (Inr ([], []), s)"
| "collect_candidates env svc asset remote_id duration_us n (proposal # proposals) s =
     (case candidate env svc asset remote_id proposal n s of
        (Inr c, s) \<Rightarrow>
          and_then (collect_candidates env svc asset remote_id duration_us (Suc n) proposals s) (\<lambda>(cs, es) s. (Inr (c # cs, es), s))
      | (Inl e, s) \<Rightarrow>
          if out_of_range duration_us proposal e then
            and_then (collect_candidates env svc asset remote_id duration_us (Suc n) proposals s) (\<lambda>(cs, es) s. (Inr (cs, e # es), s))
          else (Inl e, s))"

fun put_candidates :: "ingestion_env \<Rightarrow> (payload \<times> string) list \<Rightarrow> unit video_op" where
  "put_candidates env [] s = (Inr (), s)"
| "put_candidates env ((c, key) # cs) s = and_then (put_candidate env c key s) (\<lambda>_ s. put_candidates env cs s)"

definition execute_upload :: "video_env \<Rightarrow> video_service \<Rightarrow> string \<Rightarrow> string \<Rightarrow> payload \<Rightarrow> json video_op" where
  "execute_upload env svc tenant_id asset_id asset s =
     and_then (asset_storage_ref env tenant_id asset_id s) (\<lambda>storage_ref s.
     and_then (materialize env svc storage_ref s) (\<lambda>local_path s.
     and_then (item asset ''captured_start'' s) (\<lambda>_ s.
     and_then (provider_call (\<lambda>n. ve_upload env n local_path) s) (\<lambda>video_id s.
     case video_id of
       JStr (c # cs) \<Rightarrow>
         and_then (text_item asset ''source_id'' s) (\<lambda>source_id s.
         and_then (put_mapping (ve_base env) tenant_id source_id asset_id (c # cs) ''pending'' s) (\<lambda>_ s.
         and_then (update_asset_status (ve_base env) tenant_id asset_id ''processing'' None s) (\<lambda>_ s. (Inr JNull, s))))
     | _ \<Rightarrow> (Inl (pipeline ''reka_response_invalid''), s)))))"

definition execute_index :: "video_env \<Rightarrow> string \<Rightarrow> string \<Rightarrow> payload \<Rightarrow> mapping_row \<Rightarrow> json video_op" where
  "execute_index env tenant_id asset_id asset mapping s =
     and_then (provider_call (\<lambda>n. ve_status env n (mp_reka_video_id mapping)) s) (\<lambda>status s.
     case status of
       JArr vs \<Rightarrow> (Inl (Failure ''TypeError''), s)
     | JObj kvs \<Rightarrow> (Inl (Failure ''TypeError''), s)
     | JStr st \<Rightarrow>
         and_then (raise_if (st \<notin> {''pending'', ''indexing'', ''indexed'', ''failed''}) (pipeline ''reka_response_invalid'') s) (\<lambda>_ s.
         and_then (text_item asset ''source_id'' s) (\<lambda>source_id s.
         and_then (put_mapping (ve_base env) tenant_id source_id asset_id (mp_reka_video_id mapping) st s) (\<lambda>_ s.
         and_then (raise_if (st = ''failed'') (pipeline ''reka_index_failed'') s) (\<lambda>_ s. (Inr (JStr st), s)))))
     | _ \<Rightarrow> (Inl (pipeline ''reka_response_invalid''), s))"

definition execute_analyze :: "video_env \<Rightarrow> video_service \<Rightarrow> string \<Rightarrow> string \<Rightarrow> payload \<Rightarrow> mapping_row \<Rightarrow> json video_op" where
  "execute_analyze env svc tenant_id asset_id asset mapping s =
     and_then (raise_if (mp_indexing_status mapping \<noteq> ''indexed'') (Pipeline ''reka_index_pending'' True []) s) (\<lambda>_ s.
     and_then (asset_storage_ref env tenant_id asset_id s) (\<lambda>storage_ref s.
     and_then (time_item asset ''captured_end'' s) (\<lambda>end_time s.
     and_then (time_item asset ''captured_start'' s) (\<lambda>start s.
     let duration_us = end_time - start; remote_id = mp_reka_video_id mapping in
     and_then (if duration_us \<le> seconds 30
               then and_then (materialize env svc storage_ref s) (\<lambda>local_path s.
                    provider_call (\<lambda>n. ve_propose env n remote_id (Some local_path)) s)
               else provider_call (\<lambda>n. ve_propose env n remote_id None) s) (\<lambda>proposals s.
     case proposals of
       JArr ps \<Rightarrow>
         and_then (raise_if (100 < length ps) (pipeline ''reka_output_invalid'') s) (\<lambda>_ s.
         and_then (collect_candidates env svc asset remote_id duration_us 0 ps s) (\<lambda>(candidates, errors) s.
         case (candidates, errors) of
           ([], e # es) \<Rightarrow> (Inl e, s)
         | _ \<Rightarrow>
             and_then (put_candidates (ve_base env) candidates s) (\<lambda>_ s.
             and_then (update_asset_status (ve_base env) tenant_id asset_id ''processed'' None s) (\<lambda>_ s.
             (Inr (JArr (map (\<lambda>(c, key). JObj c) candidates)), s)))))
     | _ \<Rightarrow> (Inl (pipeline ''reka_output_invalid''), s))))))"

definition execute_delete :: "video_env \<Rightarrow> video_service \<Rightarrow> string \<Rightarrow> string \<Rightarrow> mapping_row \<Rightarrow> json video_op" where
  "execute_delete env svc tenant_id asset_id mapping s =
     and_then (if mp_remote_deleted_at mapping = None
               then and_then (provider_call (\<lambda>n. case ve_delete env n (mp_reka_video_id mapping) of None \<Rightarrow> Inr () | Some e \<Rightarrow> Inl e) s) (\<lambda>_ s.
                    mark_remote_deleted (ve_base env) tenant_id asset_id s)
               else (Inr (), s)) (\<lambda>_ s.
     and_then (asset_storage_ref env tenant_id asset_id s) (\<lambda>storage_ref s.
     and_then (delete_media env svc storage_ref s) (\<lambda>_ s.
     and_then (update_asset_status (ve_base env) tenant_id asset_id ''deleted'' None s) (\<lambda>_ s. (Inr JNull, s)))))"

definition execute :: "video_env \<Rightarrow> video_service \<Rightarrow> string \<Rightarrow> string \<Rightarrow> string \<Rightarrow> json video_op" where
  "execute env svc tenant_id asset_id operation s =
     and_then (get_asset tenant_id asset_id s) (\<lambda>asset s.
     case get_mapping tenant_id asset_id s of
       None \<Rightarrow>
         if operation = ''upload'' then execute_upload env svc tenant_id asset_id asset s
         else (Inl (pipeline ''reka_mapping_missing''), s)
     | Some mapping \<Rightarrow>
         if operation = ''upload'' then (Inr JNull, s)
         else if operation = ''index'' then execute_index env tenant_id asset_id asset mapping s
         else if operation = ''analyze'' then execute_analyze env svc tenant_id asset_id asset mapping s
         else if operation = ''delete'' then execute_delete env svc tenant_id asset_id mapping s
         else (Inl (Failure ''ValueError''), s))"

definition execute_operation :: "video_env \<Rightarrow> video_service \<Rightarrow> string \<Rightarrow> string \<Rightarrow> string \<Rightarrow> json video_op" where
  "execute_operation env svc tenant_id asset_id operation s =
     and_then (raise_if (operation \<notin> {''upload'', ''index'', ''analyze'', ''delete''}) (pipeline ''job_operation_invalid'') s) (\<lambda>_ s.
     execute env svc tenant_id asset_id operation s)"

section \<open>Effects\<close>

lemma time_item_eq [effect_simps]:
  "time_item p k s = (Inr t, s') \<longleftrightarrow> map_option parse_video_utc (member p k) = Some (Inr t) \<and> s' = s"
  by (auto simp: time_item_def effect_simps)

lemma contract_eq [effect_simps]:
  "contract env name p s = (Inr u, t) \<longleftrightarrow> ie_problems (ve_base env) name (JObj p) = [] \<and> t = s"
  by (auto simp: contract_def raise_opt_eq validate_contract_def Let_def split: if_split_asm)

end
