(* ===== verification/Video_Service.thy ===== *)
theory Video_Service
  imports Video_Execute
begin

text \<open>
  \<open>VideoPipelineService\<close> of \<open>video/service.py\<close>, first part: registering sources, accepting uploads,
  running the chain of operations in process, re-analysis and retention.
\<close>

section \<open>Sources\<close>

definition source_mode_valid :: "json \<Rightarrow> json \<Rightarrow> bool" where
  "source_mode_valid mode transport \<longleftrightarrow>
     mode = JStr ''recorded_video'' \<and> transport = JStr ''uploaded_asset'' \<or>
     mode = JStr ''live_camera'' \<and> transport \<in> JStr ` {''rtsp'', ''onvif'', ''hls''}"

text \<open>\<open>payload["connection"]["transport"]\<close>: the contract makes the connection an object.\<close>

definition transport_item :: "payload \<Rightarrow> json video_op" where
  "transport_item payload s =
     and_then (item payload ''connection'' s) (\<lambda>connection s.
     case connection of JObj kvs \<Rightarrow> item kvs ''transport'' s | _ \<Rightarrow> (Inl (Failure ''TypeError''), s))"

definition register_video_source :: "video_env \<Rightarrow> payload \<Rightarrow> string \<Rightarrow> payload video_op" where
  "register_video_source env payload tenant s =
     and_then (raise_if (member payload ''tenant_id'' \<noteq> Some (JStr tenant)) (pipeline ''tenant_mismatch'') s) (\<lambda>_ s.
     and_then (contract env ''camera-source.schema.json'' payload s) (\<lambda>_ s.
     and_then (transport_item payload s) (\<lambda>transport s.
     and_then (item payload ''mode'' s) (\<lambda>mode s.
     and_then (raise_if (\<not> source_mode_valid mode transport) (pipeline ''source_mode_invalid'') s) (\<lambda>_ s.
     and_then (put_source payload s) (\<lambda>_ s.
     and_then (on_ingestion_store (register_camera_source (ve_base env) payload) s) (\<lambda>_ s.
     and_then (text_item payload ''source_id'' s) (\<lambda>source_id s.
     and_then (audit_log (ve_base env) tenant ''source.register'' ''source'' source_id ''success'' None s) (\<lambda>_ s.
     (Inr payload, s))))))))))"

definition register_live_source :: "video_env \<Rightarrow> payload \<Rightarrow> string \<Rightarrow> payload video_op" where
  "register_live_source env payload tenant s =
     and_then (raise_if (member payload ''mode'' \<noteq> Some (JStr ''live_camera'')) (pipeline ''source_mode_invalid'') s) (\<lambda>_ s.
     register_video_source env payload tenant s)"

definition register_recorded_source :: "video_env \<Rightarrow> payload \<Rightarrow> string \<Rightarrow> payload video_op" where
  "register_recorded_source env payload tenant s =
     and_then (raise_if (member payload ''mode'' \<noteq> Some (JStr ''recorded_video'')) (pipeline ''source_mode_invalid'') s) (\<lambda>_ s.
     register_video_source env payload tenant s)"

section \<open>Uploads\<close>

record upload_request =
  up_tenant_id :: string
  up_source_id :: string
  up_path :: string
  up_content_type :: string
  up_captured_start :: string
  up_captured_end :: string
  up_duration_seconds :: "json option"
  up_consent_confirmed :: bool
  up_expected_sha256 :: "string option"
  up_received_at :: "string option"
  up_kind :: "string option"

text \<open>\<open>Path.suffix\<close>: from the last dot of the name, unless it is the first or the last character.\<close>

definition path_suffix :: "string \<Rightarrow> string" where
  "path_suffix path =
     (let name = rev (takeWhile (\<lambda>c. c \<noteq> CHR ''/'') (rev path)); ext = rev (takeWhile (\<lambda>c. c \<noteq> CHR ''.'') (rev name)) in
      if ext = [] \<or> length name \<le> Suc (length ext) then [] else CHR ''.'' # ext)"

definition or_now :: "ingestion_env \<Rightarrow> string option \<Rightarrow> string video_op" where
  "or_now env text s =
     (case text of
        Some (c # cs) \<Rightarrow> (Inr (c # cs), s)
      | _ \<Rightarrow> and_then (video_now env s) (\<lambda>now s. (Inr (iso_utc now), s)))"

text \<open>Two durations differ by more than two seconds; a comparison with NaN is false.\<close>

definition apart :: "int \<times> int \<Rightarrow> int \<times> int \<Rightarrow> bool" where
  "apart a b \<longleftrightarrow> (case (a, b) of ((an, ad), (bn, bd)) \<Rightarrow> 2000000 * ad * bd < \<bar>an * bd - bn * ad\<bar>)"

definition declared_apart :: "json \<Rightarrow> string \<Rightarrow> vexn + bool" where
  "declared_apart declared probed =
     (case declared of
        JInt i \<Rightarrow> if float_overflow i then Inl (Failure ''OverflowError'') else Inr (apart (seconds i, 1) (float_scaled 6 probed))
      | JFloat t \<Rightarrow> Inr (t \<noteq> ''NaN'' \<and> (\<not> finite_float t \<or> apart (float_scaled 6 t) (float_scaled 6 probed)))
      | JBool b \<Rightarrow> Inr (apart (if b then (1000000, 1) else (0, 1)) (float_scaled 6 probed))
      | _ \<Rightarrow> Inl (Failure ''TypeError''))"

definition duration_allowed :: "video_service \<Rightarrow> string \<Rightarrow> bool" where
  "duration_allowed svc t \<longleftrightarrow> finite_float t \<and> \<not> float_le t 0 \<and> float_le t (vp_max_duration_seconds svc)"

text \<open>The checks of the file and of the request, up to the checksum; they change nothing.\<close>

definition check_upload :: "video_env \<Rightarrow> video_service \<Rightarrow> upload_request \<Rightarrow> (string \<times> media_file \<times> int \<times> int) video_op" where
  "check_upload env svc u s =
     (let resolved = ve_resolve env (up_path u) in
      and_then (raise_if (\<not> up_consent_confirmed u) (pipeline ''consent_required'') s) (\<lambda>_ s.
      and_then (raise_if (up_content_type u \<noteq> ''video/mp4'' \<or> py_lower (path_suffix (up_path u)) \<noteq> ''.mp4'')
                 (pipeline ''video_type_invalid'') s) (\<lambda>_ s.
      case file_at resolved s of
        None \<Rightarrow> (Inl (pipeline ''video_path_invalid''), s)
      | Some f \<Rightarrow>
          and_then (raise_if (\<not> inside (vp_media_root svc) resolved) (pipeline ''video_path_invalid'') s) (\<lambda>_ s.
          and_then (raise_if (mf_size f < 12 \<or> vp_max_upload_bytes svc < mf_size f) (pipeline ''video_size_invalid'') s) (\<lambda>_ s.
          and_then (raise_if (take 4 (drop 4 (mf_header f)) \<noteq> ''ftyp'') (pipeline ''video_corrupt'') s) (\<lambda>_ s.
          and_then (raise_opt (mf_scan f) s) (\<lambda>_ s.
          and_then (lift (mf_duration f) s) (\<lambda>probed s.
          and_then (raise_if (\<not> duration_allowed svc probed) (pipeline ''video_duration_invalid'') s) (\<lambda>_ s.
          and_then (lift (parse_video_utc (JStr (up_captured_start u))) s) (\<lambda>start s.
          and_then (lift (parse_video_utc (JStr (up_captured_end u))) s) (\<lambda>end_time s.
          and_then (raise_if (end_time \<le> start \<or> apart (end_time - start, 1) (float_scaled 6 probed))
                     (pipeline ''video_duration_mismatch'') s) (\<lambda>_ s.
          and_then (case up_duration_seconds u of None \<Rightarrow> (Inr False, s) | Some d \<Rightarrow> lift (declared_apart d probed) s) (\<lambda>far s.
          and_then (raise_if far (pipeline ''video_duration_mismatch'') s) (\<lambda>_ s.
          and_then (raise_if (case up_expected_sha256 u of None \<Rightarrow> False | Some h \<Rightarrow> mf_sha256 f \<noteq> py_lower h)
                     (pipeline ''checksum_mismatch'') s) (\<lambda>_ s.
          (Inr (resolved, f, start, end_time), s))))))))))))))))"

definition asset_payload :: "string \<Rightarrow> string \<Rightarrow> string \<Rightarrow> string \<Rightarrow> string \<Rightarrow> media_file \<Rightarrow> int \<Rightarrow> int \<Rightarrow> int \<Rightarrow> int \<Rightarrow> payload" where
  "asset_payload tenant asset_id source_id kind content_type f start end_time received retention_until =
     [(''schema_version'', JStr ''1.0.0''), (''tenant_id'', JStr tenant), (''asset_id'', JStr asset_id),
      (''source_id'', JStr source_id), (''kind'', JStr kind), (''status'', JStr ''ready''),
      (''storage_ref'', JStr (''secret://video-assets/'' @ asset_id)), (''content_type'', JStr content_type),
      (''size_bytes'', JInt (mf_size f)), (''sha256'', JStr (mf_sha256 f)), (''captured_start'', JStr (iso_utc start)),
      (''captured_end'', JStr (iso_utc end_time)), (''received_at'', JStr (iso_utc received)),
      (''retention_until'', JStr (iso_utc retention_until))]"

text \<open>Storing: media whose metadata could not be written is deleted again.\<close>

definition persist_asset :: "video_env \<Rightarrow> video_service \<Rightarrow> string \<Rightarrow> string \<Rightarrow> string \<Rightarrow> payload \<Rightarrow> payload video_op" where
  "persist_asset env svc tenant asset_id resolved payload s =
     and_then (store_media env svc resolved s) (\<lambda>storage_ref s.
     case put_asset (ve_base env) payload storage_ref s of
       (Inl e, s) \<Rightarrow>
         (case delete_media env svc storage_ref s of
            (Inl (Failure name), s) \<Rightarrow> (Inl (Failure name), s)
          | (_, s) \<Rightarrow> (Inl e, s))
     | (Inr _, s) \<Rightarrow>
         and_then (audit_log (ve_base env) tenant ''video.accept'' ''asset'' asset_id ''success'' None s) (\<lambda>_ s. (Inr payload, s)))"

definition accept_upload :: "video_env \<Rightarrow> video_service \<Rightarrow> upload_request \<Rightarrow> payload video_op" where
  "accept_upload env svc u s =
     (let tenant = up_tenant_id u; source_id = up_source_id u in
      and_then (get_source tenant source_id s) (\<lambda>source s.
      and_then (item source ''mode'' s) (\<lambda>mode s.
      let expected_kind = (if mode = JStr ''recorded_video'' then ''recorded_upload'' else ''live_segment'');
          kind = or_text (up_kind u) expected_kind in
      and_then (raise_if (kind \<noteq> expected_kind) (pipeline ''asset_kind_invalid'') s) (\<lambda>_ s.
      and_then (check_upload env svc u s) (\<lambda>(resolved, f, start, end_time) s.
      and_then (tenant_asset_bytes tenant s) (\<lambda>used s.
      and_then (raise_if (vp_tenant_quota_bytes svc < used + mf_size f) (pipeline ''tenant_video_quota_exceeded'') s) (\<lambda>_ s.
      and_then (or_now (ve_base env) (up_received_at u) s) (\<lambda>text s.
      and_then (lift (parse_video_utc (JStr text)) s) (\<lambda>received s.
      and_then (int_item source ''retention_policy_days'' s) (\<lambda>days s.
      let retention_until = received + seconds (days * 86400);
          asset_id = ve_uuid5 env (join '':'' [tenant, source_id, mf_sha256 f]) in
      and_then (raise_if (\<not> in_calendar retention_until) (Failure ''OverflowError'') s) (\<lambda>_ s.
      let payload = asset_payload tenant asset_id source_id kind (up_content_type u) f start end_time received retention_until in
      and_then (contract env ''video-asset.schema.json'' payload s) (\<lambda>_ s.
      persist_asset env svc tenant asset_id resolved payload s))))))))))))"

section \<open>The chain in process\<close>

text \<open>A classified error settles the job, and is raised again; any other exception leaves it running.\<close>

definition settle_operation :: "video_env \<Rightarrow> string \<Rightarrow> string \<Rightarrow> string \<Rightarrow> string \<Rightarrow> string \<Rightarrow> bool \<Rightarrow> diagnostics \<Rightarrow> json video_op" where
  "settle_operation env tenant asset_id operation job_id code retryable d s =
     and_then (get_job tenant job_id s) (\<lambda>updated s.
     let retry = (retryable \<and> jb_attempts updated < jb_max_attempts updated) in
     and_then (transition_job (ve_base env) tenant job_id (if retry then ''retry'' else ''failed'') (Some code) 0 d s) (\<lambda>_ s.
     and_then (if \<not> retry \<and> operation \<in> {''upload'', ''index'', ''analyze''}
               then update_asset_status (ve_base env) tenant asset_id ''failed'' (Some code) s else (Inr (), s)) (\<lambda>_ s.
     and_then (audit_log (ve_base env) tenant (''reka.'' @ operation) ''asset'' asset_id ''failure'' (Some code) s) (\<lambda>_ s.
     (Inl (Pipeline code retryable d), s)))))"

definition completed_result :: "string \<Rightarrow> string \<Rightarrow> string \<Rightarrow> video_store \<Rightarrow> json" where
  "completed_result tenant asset_id operation s =
     (if operation = ''analyze'' then
        JArr (map JObj (filter (\<lambda>c. member c ''asset_id'' = Some (JStr asset_id)) (list_candidates tenant s)))
      else if operation = ''index'' then
        (case get_mapping tenant asset_id s of None \<Rightarrow> JNull | Some m \<Rightarrow> JStr (mp_indexing_status m))
      else JNull)"

definition run_operation :: "video_env \<Rightarrow> video_service \<Rightarrow> string \<Rightarrow> string \<Rightarrow> string \<Rightarrow> json video_op" where
  "run_operation env svc tenant asset_id operation s =
     and_then (enqueue_job (ve_base env) tenant asset_id operation 5 None s) (\<lambda>job s.
     if jb_state job = Completed then (Inr (completed_result tenant asset_id operation s), s)
     else
     and_then (raise_if (jb_state job \<in> {Failed, Cancelled}) (pipeline ''job_not_runnable'') s) (\<lambda>_ s.
     and_then (transition_job (ve_base env) tenant (jb_job_id job) ''running'' None 0 [] s) (\<lambda>job s.
     case and_then (execute env svc tenant asset_id operation s) (\<lambda>result s.
          and_then (if operation = ''index'' \<and> result \<in> {JStr ''pending'', JStr ''indexing''}
                    then transition_job (ve_base env) tenant (jb_job_id job) ''retry'' (Some ''reka_index_pending'') 0 [] s
                    else transition_job (ve_base env) tenant (jb_job_id job) ''completed'' None 0 [] s) (\<lambda>_ s.
          and_then (audit_log (ve_base env) tenant (''reka.'' @ operation) ''asset'' asset_id ''success'' None s) (\<lambda>_ s.
          (Inr result, s)))) of
       (Inl (Pipeline code retryable d), s) \<Rightarrow> settle_operation env tenant asset_id operation (jb_job_id job) code retryable d s
     | r \<Rightarrow> r)))"

definition process_asset :: "video_env \<Rightarrow> video_service \<Rightarrow> string \<Rightarrow> string \<Rightarrow> json video_op" where
  "process_asset env svc tenant asset_id s =
     and_then (run_operation env svc tenant asset_id ''upload'' s) (\<lambda>_ s.
     and_then (run_operation env svc tenant asset_id ''index'' s) (\<lambda>status s.
     if status \<noteq> JStr ''indexed'' then (Inr (JArr []), s) else run_operation env svc tenant asset_id ''analyze'' s))"

section \<open>Re-analysis\<close>

definition request_reanalysis :: "video_env \<Rightarrow> string \<Rightarrow> string \<Rightarrow> string \<Rightarrow> job_row video_op" where
  "request_reanalysis env tenant failed_job_id idempotency_key s =
     and_then (get_job tenant failed_job_id s) (\<lambda>failed_job s.
     and_then (raise_if (jb_operation failed_job \<noteq> ''analyze'' \<or> jb_state failed_job \<noteq> Failed) (pipeline ''reanalysis_not_allowed'') s) (\<lambda>_ s.
     let asset_id = jb_asset_id failed_job in
     and_then (get_asset tenant asset_id s) (\<lambda>asset s.
     and_then (raise_if (member asset ''status'' = Some (JStr ''deleted'')) (pipeline ''reanalysis_not_allowed'') s) (\<lambda>_ s.
     and_then (raise_if (case get_mapping tenant asset_id s of None \<Rightarrow> True | Some m \<Rightarrow> mp_indexing_status m \<noteq> ''indexed'')
                (pipeline ''reanalysis_not_allowed'') s) (\<lambda>_ s.
     let related = filter (\<lambda>j. jb_asset_id j = asset_id \<and> jb_operation j = ''analyze'' \<and> jb_job_id j \<noteq> failed_job_id)
                     (list_jobs tenant 100 s) in
     and_then (raise_if (list_ex (\<lambda>j. jb_state j \<in> {Queued, Running, Retry}) related) (pipeline ''reanalysis_in_progress'') s) (\<lambda>_ s.
     and_then (raise_if (list_ex (\<lambda>j. jb_state j = Completed \<and> text_less (jb_created_at failed_job) (jb_created_at j)) related)
                (pipeline ''reanalysis_already_completed'') s) (\<lambda>_ s.
     and_then (enqueue_job (ve_base env) tenant asset_id ''analyze'' 5
                (Some (join '':'' [''reanalysis'', failed_job_id, idempotency_key])) s) (\<lambda>job s.
     and_then (update_asset_status (ve_base env) tenant asset_id ''processing'' None s) (\<lambda>_ s.
     and_then (audit_log (ve_base env) tenant ''reka.analyze_requeued'' ''asset'' asset_id ''success'' None s) (\<lambda>_ s.
     (Inr job, s)))))))))))"

section \<open>Retention\<close>

text \<open>One expired asset: the identifiers to report, none when its deletion failed or was done before.\<close>

definition settle_deletion :: "video_env \<Rightarrow> string \<Rightarrow> string \<Rightarrow> string \<Rightarrow> string \<Rightarrow> bool \<Rightarrow> diagnostics \<Rightarrow> string list video_op" where
  "settle_deletion env tenant asset_id job_id code retryable d s =
     and_then (get_job tenant job_id s) (\<lambda>updated s.
     and_then (transition_job (ve_base env) tenant job_id
                (if retryable \<and> jb_attempts updated < jb_max_attempts updated then ''retry'' else ''failed'') (Some code) 0 d s) (\<lambda>_ s.
     and_then (audit_log (ve_base env) tenant ''reka.delete'' ''asset'' asset_id ''failure'' (Some code) s) (\<lambda>_ s. (Inr [], s))))"

definition retire_asset :: "video_env \<Rightarrow> video_service \<Rightarrow> string \<Rightarrow> string \<Rightarrow> string list video_op" where
  "retire_asset env svc tenant asset_id s =
     and_then (enqueue_job (ve_base env) tenant asset_id ''delete'' 5 None s) (\<lambda>job s.
     if jb_state job = Completed then (Inr [], s)
     else
     and_then (transition_job (ve_base env) tenant (jb_job_id job) ''running'' None 0 [] s) (\<lambda>job s.
     case and_then (execute_operation env svc tenant asset_id ''delete'' s) (\<lambda>_ s.
          and_then (transition_job (ve_base env) tenant (jb_job_id job) ''completed'' None 0 [] s) (\<lambda>_ s.
          and_then (audit_log (ve_base env) tenant ''reka.delete'' ''asset'' asset_id ''success'' None s) (\<lambda>_ s.
          (Inr [asset_id], s)))) of
       (Inl (Pipeline code retryable d), s) \<Rightarrow> settle_deletion env tenant asset_id (jb_job_id job) code retryable d s
     | (Inl (Failure name), s) \<Rightarrow>
         if name = ''OSError'' then settle_deletion env tenant asset_id (jb_job_id job) ''local_retention_failed'' True [] s
         else (Inl (Failure name), s)
     | r \<Rightarrow> r))"

fun retire_assets :: "video_env \<Rightarrow> video_service \<Rightarrow> (string \<times> string) list \<Rightarrow> string list video_op" where
  "retire_assets env svc [] s = (Inr [], s)"
| "retire_assets env svc ((tenant, asset_id) # rest) s =
     and_then (retire_asset env svc tenant asset_id s) (\<lambda>deleted s.
     and_then (retire_assets env svc rest s) (\<lambda>others s. (Inr (deleted @ others), s)))"

text \<open>\<open>VideoStore.expired_assets\<close> takes no tenant: the call with one raises \<open>TypeError\<close>, and the result is filtered.\<close>

definition enforce_retention :: "video_env \<Rightarrow> video_service \<Rightarrow> string option \<Rightarrow> string option \<Rightarrow> string list video_op" where
  "enforce_retention env svc tenant_id now s =
     and_then (or_now (ve_base env) now s) (\<lambda>cutoff s.
     and_then (expired_assets cutoff s) (\<lambda>expired s.
     retire_assets env svc (case tenant_id of None \<Rightarrow> expired | Some t \<Rightarrow> filter (\<lambda>(tenant, asset_id). tenant = t) expired) s))"

end
