(* ===== verification/Video_Review.thy ===== *)
theory Video_Review
  imports Video_Service
begin

text \<open>
  \<open>VideoPipelineService\<close>, second part: final reviews and the promotion of confirmed candidates to
  incident events, expiry of candidates, measured coverage; and \<open>video/coverage.py\<close>.
\<close>

section \<open>Reviews\<close>

definition review_roles :: "string set" where
  "review_roles = {''reviewer'', ''tenant_admin'', ''platform_operator''}"

definition rejection_reasons :: "string set" where
  "rejection_reasons = {''false_positive'', ''insufficient_evidence'', ''duplicate'', ''outside_scope'', ''other''}"

record review_request =
  rq_tenant_id :: string
  rq_detection_id :: string
  rq_decision :: string
  rq_reviewed_by :: string
  rq_role :: string
  rq_confirmed_category :: "string option"
  rq_rejection_reason :: "string option"
  rq_reviewed_at :: "string option"

definition same_review :: "review_request \<Rightarrow> payload \<Rightarrow> bool video_op" where
  "same_review q existing s =
     and_then (item existing ''decision'' s) (\<lambda>decision s.
     (Inr (decision = JStr (rq_decision q) \<and>
        (if rq_decision q = ''confirmed'' then got existing ''confirmed_category'' = json_opt (rq_confirmed_category q)
         else got existing ''rejection_reason'' = json_opt (rq_rejection_reason q))), s))"

definition review_base :: "video_env \<Rightarrow> review_request \<Rightarrow> int \<Rightarrow> payload" where
  "review_base env q reviewed =
     [(''schema_version'', JStr ''1.0.0''), (''tenant_id'', JStr (rq_tenant_id q)),
      (''review_id'', JStr (ve_uuid5 env (join '':'' [''review'', rq_tenant_id q, rq_detection_id q]))),
      (''detection_id'', JStr (rq_detection_id q)), (''decision'', JStr (rq_decision q)),
      (''reviewed_by'', JStr (rq_reviewed_by q)), (''reviewed_at'', JStr (iso_utc reviewed))]"

definition promoted_event :: "review_request \<Rightarrow> string \<Rightarrow> string \<Rightarrow> payload \<Rightarrow> json \<Rightarrow> json \<Rightarrow> int \<Rightarrow> string \<Rightarrow> payload" where
  "promoted_event q external_id source_id location occurred_at confidence reviewed category =
     [(''schema_version'', JStr ''1.0.0''), (''tenant_id'', JStr (rq_tenant_id q)), (''source_id'', JStr source_id),
      (''external_event_id'', JStr external_id), (''occurred_at'', occurred_at), (''received_at'', JStr (iso_utc reviewed)),
      (''category'', JStr category), (''location'', JObj location),
      (''attributes'', JObj [(''reporting_channel'', JStr ''reka_vision_confirmed''), (''source_quality'', confidence)])]"

text \<open>\<open>source.get("connection", {}).get("endpoint_ref")\<close>.\<close>

definition endpoint_ref :: "payload \<Rightarrow> json video_op" where
  "endpoint_ref source s =
     (case member source ''connection'' of
        None \<Rightarrow> (Inr JNull, s)
      | Some (JObj kvs) \<Rightarrow> (Inr (got kvs ''endpoint_ref''), s)
      | _ \<Rightarrow> (Inl (Failure ''AttributeError''), s))"

definition resolve_location :: "video_service \<Rightarrow> string \<Rightarrow> string \<Rightarrow> payload video_op" where
  "resolve_location svc tenant location_ref s = fetch (vp_locations svc) (tenant, location_ref) (pipeline ''location_unavailable'') s"

definition confirm_review :: "video_env \<Rightarrow> video_service \<Rightarrow> review_request \<Rightarrow> payload \<Rightarrow> int \<Rightarrow> (payload \<times> payload) video_op" where
  "confirm_review env svc q cand reviewed s =
     (let external_id = ''video-candidate:'' @ rq_detection_id q in
      and_then (fetch (\<lambda>c. case c of Some x \<Rightarrow> if x \<in> allowed_categories - {''unmapped''} then Some x else None | None \<Rightarrow> None)
                 (rq_confirmed_category q) (pipeline ''confirmed_category_invalid'') s) (\<lambda>category s.
      and_then (text_item cand ''source_id'' s) (\<lambda>source_id s.
      and_then (get_source (rq_tenant_id q) source_id s) (\<lambda>source s.
      and_then (endpoint_ref source s) (\<lambda>endpoint s.
      and_then (raise_if (endpoint = JStr ''secret://demo-simulated-road/renderer'')
                 (pipeline ''simulated_candidate_confirmation_prohibited'') s) (\<lambda>_ s.
      and_then (text_item source ''location_ref'' s) (\<lambda>location_ref s.
      and_then (resolve_location svc (rq_tenant_id q) location_ref s) (\<lambda>location s.
      and_then (item cand ''occurred_at'' s) (\<lambda>occurred_at s.
      and_then (item cand ''confidence'' s) (\<lambda>confidence s.
      let event = promoted_event q external_id source_id location occurred_at confidence reviewed category;
          review = review_base env q reviewed @ [(''confirmed_category'', JStr category), (''promoted_external_event_id'', JStr external_id)] in
      and_then (contract env ''incident-event.schema.json'' event s) (\<lambda>_ s. (Inr (review, event), s))))))))))))"

definition decide_review :: "video_env \<Rightarrow> video_service \<Rightarrow> review_request \<Rightarrow> payload \<Rightarrow> int \<Rightarrow> (payload \<times> payload option) video_op" where
  "decide_review env svc q cand reviewed s =
     (if rq_decision q = ''confirmed'' then
        and_then (confirm_review env svc q cand reviewed s) (\<lambda>(review, event) s. (Inr (review, Some event), s))
      else
        and_then (fetch (\<lambda>r. case r of Some x \<Rightarrow> if x \<in> rejection_reasons then Some x else None | None \<Rightarrow> None)
                   (rq_rejection_reason q) (pipeline ''rejection_reason_invalid'') s) (\<lambda>reason s.
        (Inr (review_base env q reviewed @ [(''rejection_reason'', JStr reason)], None), s)))"

definition final_review :: "video_env \<Rightarrow> video_service \<Rightarrow> review_request \<Rightarrow> payload video_op" where
  "final_review env svc q s =
     and_then (get_candidate (rq_tenant_id q) (rq_detection_id q) s) (\<lambda>cand s.
     and_then (or_now (ve_base env) (rq_reviewed_at q) s) (\<lambda>text s.
     and_then (lift (parse_video_utc (JStr text)) s) (\<lambda>reviewed s.
     and_then (item cand ''review_status'' s) (\<lambda>status s.
     and_then (if status = JStr ''expired'' then (Inr True, s)
               else and_then (time_item cand ''expires_at'' s) (\<lambda>expires s. (Inr (expires \<le> reviewed), s))) (\<lambda>expired s.
     and_then (raise_if expired (pipeline ''candidate_expired'') s) (\<lambda>_ s.
     and_then (raise_if (rq_decision q \<notin> {''confirmed'', ''rejected''}) (pipeline ''review_decision_invalid'') s) (\<lambda>_ s.
     and_then (decide_review env svc q cand reviewed s) (\<lambda>(review, event) s.
     and_then (contract env ''candidate-review.schema.json'' review s) (\<lambda>_ s.
     and_then (case event of
                 Some ev \<Rightarrow> put_review_and_event (ve_base env) review ev (payload_hash (ve_base env) (JObj ev)) s
               | None \<Rightarrow> put_review (ve_base env) review s) (\<lambda>_ s.
     and_then (audit_log (ve_base env) (rq_tenant_id q) ''candidate.review'' ''candidate'' (rq_detection_id q) ''success'' None s) (\<lambda>_ s.
     (Inr review, s))))))))))))"

definition review_candidate :: "video_env \<Rightarrow> video_service \<Rightarrow> review_request \<Rightarrow> payload video_op" where
  "review_candidate env svc q s =
     and_then (raise_if (rq_role q \<notin> review_roles) (pipeline ''review_forbidden'') s) (\<lambda>_ s.
     case get_review_for_candidate (rq_tenant_id q) (rq_detection_id q) s of
       Some existing \<Rightarrow>
         and_then (same_review q existing s) (\<lambda>same s.
         if same then (Inr existing, s) else (Inl (pipeline ''review_already_final''), s))
     | None \<Rightarrow> final_review env svc q s)"

section \<open>Expiry\<close>

definition expire_candidate :: "video_env \<Rightarrow> int \<Rightarrow> payload \<Rightarrow> nat video_op" where
  "expire_candidate env cutoff cand s =
     and_then (item cand ''review_status'' s) (\<lambda>status s.
     if status \<noteq> JStr ''awaiting_review'' then (Inr 0, s)
     else
       and_then (time_item cand ''expires_at'' s) (\<lambda>expires s.
       if cutoff < expires then (Inr 0, s)
       else
         (let cand = dict_set ''review_status'' (JStr ''expired'') cand in
          and_then (contract env ''candidate-detection.schema.json'' cand s) (\<lambda>_ s.
          and_then (update_candidate cand s) (\<lambda>_ s. (Inr 1, s))))))"

fun expire_candidates :: "video_env \<Rightarrow> int \<Rightarrow> payload list \<Rightarrow> nat video_op" where
  "expire_candidates env cutoff [] s = (Inr 0, s)"
| "expire_candidates env cutoff (c # cs) s =
     and_then (expire_candidate env cutoff c s) (\<lambda>n s.
     and_then (expire_candidates env cutoff cs s) (\<lambda>m s. (Inr (n + m), s)))"

definition expire_due_candidates :: "video_env \<Rightarrow> string \<Rightarrow> string option \<Rightarrow> nat video_op" where
  "expire_due_candidates env tenant now s =
     and_then (or_now (ve_base env) now s) (\<lambda>text s.
     and_then (lift (parse_video_utc (JStr text)) s) (\<lambda>cutoff s.
     expire_candidates env cutoff (list_candidates tenant s) s))"

section \<open>Coverage\<close>

text \<open>\<open>int(\<dots>.total_seconds())\<close> truncates toward zero.\<close>

definition whole_seconds :: "int \<Rightarrow> int" where
  "whole_seconds us = (if 0 \<le> us then us div 1000000 else - ((- us) div 1000000))"

record coverage_request =
  cq_tenant_id :: string
  cq_source_id :: string
  cq_interval_start :: json
  cq_interval_end :: json
  cq_connected :: int
  cq_processable :: int
  cq_detector :: int
  cq_reasons :: "string list"

definition coverage_payload :: "video_env \<Rightarrow> coverage_request \<Rightarrow> int \<Rightarrow> int \<Rightarrow> int \<Rightarrow> int \<Rightarrow> payload" where
  "coverage_payload env q start end_time expected now =
     [(''schema_version'', JStr ''1.0.0''), (''tenant_id'', JStr (cq_tenant_id q)), (''source_id'', JStr (cq_source_id q)),
      (''interval_start'', JStr (iso_utc start)), (''interval_end'', JStr (iso_utc end_time)),
      (''expected_seconds'', JInt expected), (''connected_seconds'', JInt (cq_connected q)),
      (''processable_seconds'', JInt (cq_processable q)), (''detector_available_seconds'', JInt (cq_detector q)),
      (''coverage_ratio'', JFloat (ve_quotient env (cq_detector q) expected)),
      (''degraded_reason_codes'', JArr (map JStr (sort (remdups (cq_reasons q))))), (''computed_at'', JStr (iso_utc now))]"

definition coverage_ordered :: "coverage_request \<Rightarrow> int \<Rightarrow> bool" where
  "coverage_ordered q expected \<longleftrightarrow> 0 < expected \<and> 0 \<le> cq_detector q \<and> cq_detector q \<le> cq_processable q \<and>
     cq_processable q \<le> cq_connected q \<and> cq_connected q \<le> expected"

definition record_coverage :: "video_env \<Rightarrow> coverage_request \<Rightarrow> payload video_op" where
  "record_coverage env q s =
     and_then (get_source (cq_tenant_id q) (cq_source_id q) s) (\<lambda>_ s.
     and_then (lift (parse_video_utc (cq_interval_start q)) s) (\<lambda>start s.
     and_then (lift (parse_video_utc (cq_interval_end q)) s) (\<lambda>end_time s.
     let expected = whole_seconds (end_time - start) in
     and_then (raise_if (\<not> coverage_ordered q expected) (pipeline ''coverage_duration_invalid'') s) (\<lambda>_ s.
     and_then (video_now (ve_base env) s) (\<lambda>now s.
     let payload = coverage_payload env q start end_time expected now in
     and_then (contract env ''coverage-snapshot.schema.json'' payload s) (\<lambda>_ s.
     and_then (put_coverage payload s) (\<lambda>_ s. (Inr payload, s))))))))"

text \<open>The provider of the forecast: \<open>ValueError\<close> and classified errors count as no coverage.\<close>

definition store_coverage_provider :: "string \<Rightarrow> string \<Rightarrow> (int \<times> int) video_op" where
  "store_coverage_provider tenant before s =
     (case latest_tenant_coverage_ratio tenant before s of
        (Inl (Pipeline code retryable d), s) \<Rightarrow> (Inr (0, 1), s)
      | (Inl (Failure name), s) \<Rightarrow> if name = ''ValueError'' then (Inr (0, 1), s) else (Inl (Failure name), s)
      | r \<Rightarrow> r)"

section \<open>Telemetry\<close>

record observation =
  ob_tenant_id :: string
  ob_source_id :: string
  ob_observed_at :: json
  ob_sample_seconds :: int
  ob_connected :: bool
  ob_frame_processable :: bool
  ob_detector_available :: bool
  ob_capture_failure :: bool
  ob_frame_gap :: bool
  ob_reka_available :: bool
  ob_processing_latency_ms :: "int option"

text \<open>\<open>_parse\<close> of \<open>coverage.py\<close>: errors are plain \<open>ValueError\<close>.\<close>

definition parse_telemetry :: "json \<Rightarrow> vexn + int" where
  "parse_telemetry v =
     (case parse_video_utc v of
        Inl (Pipeline code retryable d) \<Rightarrow> Inl (Failure ''ValueError'')
      | r \<Rightarrow> r)"

definition observation_error :: "observation \<Rightarrow> vexn option" where
  "observation_error ob =
     (case parse_telemetry (ob_observed_at ob) of
        Inl e \<Rightarrow> Some e
      | Inr t \<Rightarrow> first_error
          [(ob_sample_seconds ob < 1, Failure ''ValueError''),
           (ob_detector_available ob \<and> \<not> ob_frame_processable ob, Failure ''ValueError''),
           (ob_frame_processable ob \<and> \<not> ob_connected ob, Failure ''ValueError''),
           (case ob_processing_latency_ms ob of None \<Rightarrow> False | Some ms \<Rightarrow> ms < 0, Failure ''ValueError'')])"

type_synonym telemetry = "observation list"

text \<open>
  The database adapter keeps one observation per tenant, source and instant, the in-memory one
  (\<open>database = False\<close>) appends.
\<close>

definition same_slot :: "observation \<Rightarrow> observation \<Rightarrow> bool" where
  "same_slot a b \<longleftrightarrow> ob_tenant_id a = ob_tenant_id b \<and> ob_source_id a = ob_source_id b \<and>
     parse_telemetry (ob_observed_at a) = parse_telemetry (ob_observed_at b)"

definition record_observation :: "bool \<Rightarrow> observation \<Rightarrow> telemetry \<Rightarrow> (vexn, unit, telemetry) outcome" where
  "record_observation database ob obs =
     and_then (raise_opt (observation_error ob) obs) (\<lambda>_ obs.
     (Inr (), if database then upsert_row (same_slot ob) (\<lambda>_. ob) ob obs else obs @ [ob]))"

definition sample_sum :: "(observation \<Rightarrow> bool) \<Rightarrow> observation list \<Rightarrow> int" where
  "sample_sum p obs = sum_list (map ob_sample_seconds (filter p obs))"

definition in_interval :: "int \<Rightarrow> int \<Rightarrow> observation \<Rightarrow> bool" where
  "in_interval start end_time ob \<longleftrightarrow> (case parse_telemetry (ob_observed_at ob) of Inl e \<Rightarrow> False | Inr t \<Rightarrow> start \<le> t \<and> t < end_time)"

definition degraded_reasons :: "observation list \<Rightarrow> bool \<Rightarrow> string list" where
  "degraded_reasons obs gap =
     (let reasons = (if list_ex ob_capture_failure obs then [''capture_failure''] else []) @
                    (if list_ex ob_frame_gap obs then [''frame_gap''] else []) @
                    (if list_ex (\<lambda>ob. \<not> ob_reka_available ob) obs then [''reka_unavailable''] else []) in
      if gap \<and> reasons = [] then [''detector_gap''] else reasons)"

text \<open>
  The formula both adapters share, on the observations of the interval; the recorded ones have a
  time that parses. The database adapter refuses an empty interval.
\<close>

definition telemetry_snapshot :: "bool \<Rightarrow> string \<Rightarrow> string \<Rightarrow> json \<Rightarrow> json \<Rightarrow> telemetry \<Rightarrow> vexn + coverage_request" where
  "telemetry_snapshot database tenant source_id interval_start interval_end obs =
     (case (parse_telemetry interval_start, parse_telemetry interval_end) of
        (Inl e, _) \<Rightarrow> Inl e
      | (_, Inl e) \<Rightarrow> Inl e
      | (Inr start, Inr end_time) \<Rightarrow>
          (let expected = whole_seconds (end_time - start);
               selected = filter (\<lambda>ob. ob_tenant_id ob = tenant \<and> ob_source_id ob = source_id \<and> in_interval start end_time ob) obs;
               connected = min (sample_sum ob_connected selected) expected;
               processable = min (sample_sum ob_frame_processable selected) connected;
               detector = min (sample_sum ob_detector_available selected) processable in
           if database \<and> expected \<le> 0 then Inl (Failure ''ValueError'')
           else Inr \<lparr>cq_tenant_id = tenant, cq_source_id = source_id, cq_interval_start = interval_start,
                     cq_interval_end = interval_end, cq_connected = connected, cq_processable = processable,
                     cq_detector = detector, cq_reasons = degraded_reasons selected (detector < expected)\<rparr>))"

definition persist_measured_snapshot :: "video_env \<Rightarrow> bool \<Rightarrow> telemetry \<Rightarrow> string \<Rightarrow> string \<Rightarrow> json \<Rightarrow> json \<Rightarrow> payload video_op" where
  "persist_measured_snapshot env database obs tenant source_id interval_start interval_end s =
     and_then (lift (telemetry_snapshot database tenant source_id interval_start interval_end obs) s) (\<lambda>q s. record_coverage env q s)"

end
