(* ===== verification/Video_Broker.thy ===== *)
theory Video_Broker
  imports Video_Jobs Py_Uuid
begin

text \<open>
  \<open>video/broker.py\<close>: messages of the job queues, the adapter over the job table and the SQS adapter
  with its dead-letter queues. The SQS client is third-party code: its calls are fields of
  \<open>video_sqs\<close> over the client's own state. The PostgreSQL adapter is SQL of the migrations.
\<close>

section \<open>Messages\<close>

definition broker_operations :: "string list" where
  "broker_operations = [''capture'', ''upload'', ''index'', ''analyze'', ''delete'']"

record job_message =
  jm_tenant_id :: string
  jm_job_id :: string
  jm_operation :: string

record job_delivery =
  dl_message :: job_message
  dl_receipt :: string
  dl_receive_count :: int
  dl_queue_url :: "string option"

definition message_error :: "job_message \<Rightarrow> vexn option" where
  "message_error m = first_error
     [(\<not> valid_uuid (jm_tenant_id m) \<or> \<not> valid_uuid (jm_job_id m), pipeline ''job_message_invalid''),
      (jm_operation m \<notin> set broker_operations, pipeline ''job_message_invalid'')]"

definition message_body :: "job_message \<Rightarrow> vexn + string" where
  "message_body m =
     (case message_error m of
        Some e \<Rightarrow> Inl e
      | None \<Rightarrow> Inr (dumps (sort_keys (JObj [(''tenant_id'', JStr (jm_tenant_id m)), (''job_id'', JStr (jm_job_id m)),
                  (''operation'', JStr (jm_operation m))]))))"

text \<open>The \<open>JobBroker\<close> protocol, but for \<open>receive\<close> and \<open>depth\<close>.\<close>

record 'b job_broker =
  jo_publish :: "job_message \<Rightarrow> 'b \<Rightarrow> (vexn, unit, 'b) outcome"
  jo_acknowledge :: "job_delivery \<Rightarrow> 'b \<Rightarrow> (vexn, unit, 'b) outcome"
  jo_retry :: "job_delivery \<Rightarrow> int \<Rightarrow> 'b \<Rightarrow> (vexn, unit, 'b) outcome"
  jo_heartbeat :: "job_delivery \<Rightarrow> int \<Rightarrow> 'b \<Rightarrow> (vexn, unit, 'b) outcome"
  jo_dead_letter :: "job_delivery \<Rightarrow> string \<Rightarrow> 'b \<Rightarrow> (vexn, unit, 'b) outcome"

section \<open>The job table as a queue\<close>

definition database_delivery :: "job_row \<Rightarrow> job_delivery" where
  "database_delivery r =
     \<lparr>dl_message = \<lparr>jm_tenant_id = jb_tenant_id r, jm_job_id = jb_job_id r, jm_operation = jb_operation r\<rparr>,
      dl_receipt = ''database:'' @ jb_tenant_id r @ '':'' @ jb_job_id r, dl_receive_count = jb_attempts r + 1, dl_queue_url = None\<rparr>"

definition database_receive :: "ingestion_env \<Rightarrow> string list \<Rightarrow> int \<Rightarrow> job_delivery list video_op" where
  "database_receive env operations limit s =
     and_then (ready_jobs env operations limit s) (\<lambda>jobs s. (Inr (map database_delivery jobs), s))"

definition database_depth :: "ingestion_env \<Rightarrow> nat video_op" where
  "database_depth env s = and_then (ready_jobs env broker_operations 10000 s) (\<lambda>jobs s. (Inr (length jobs), s))"

text \<open>The table is the queue: publishing validates, and settling a delivery is the job's transition.\<close>

definition database_broker :: "unit job_broker" where
  "database_broker =
     \<lparr>jo_publish = (\<lambda>m b. raise_opt (message_error m) b), jo_acknowledge = (\<lambda>d b. (Inr (), b)), jo_retry = (\<lambda>d n b. (Inr (), b)),
      jo_heartbeat = (\<lambda>d n b. (Inr (), b)), jo_dead_letter = (\<lambda>d code b. (Inr (), b))\<rparr>"

section \<open>SQS\<close>

text \<open>
  A send carries the queue, the body, the delay (none for dead letters) and, for a FIFO queue, the
  group and the deduplication identifier.
\<close>

record sqs_send =
  ss_queue_url :: string
  ss_body :: string
  ss_delay :: "int option"
  ss_fifo :: "(string \<times> string) option"

record raw_message =
  rm_body :: "string option"
  rm_receipt :: string
  rm_receive_count :: "string option"

record 'c video_sqs =
  vq_send :: "sqs_send \<Rightarrow> 'c \<Rightarrow> (vexn, unit, 'c) outcome"
  vq_receive :: "string \<Rightarrow> int \<Rightarrow> int \<Rightarrow> int \<Rightarrow> 'c \<Rightarrow> (vexn, raw_message list, 'c) outcome"
  vq_delete :: "string \<Rightarrow> string \<Rightarrow> 'c \<Rightarrow> (vexn, unit, 'c) outcome"
  vq_visibility :: "string \<Rightarrow> string \<Rightarrow> int \<Rightarrow> 'c \<Rightarrow> (vexn, unit, 'c) outcome"
  vq_depth :: "string \<Rightarrow> 'c \<Rightarrow> (vexn, int \<times> int, 'c) outcome"

record sqs_config =
  sc_queue_url :: string
  sc_dead_letter_url :: string
  sc_queue_urls :: "(string \<times> string) list"
  sc_dead_letter_urls :: "(string \<times> string) list"
  sc_visibility_seconds :: int
  sc_wait_seconds :: int

definition operation_urls_valid :: "(string \<times> string) list option \<Rightarrow> bool" where
  "operation_urls_valid urls \<longleftrightarrow>
     (case urls of
        None \<Rightarrow> True
      | Some kvs \<Rightarrow> fst ` set kvs = {''upload'', ''index'', ''analyze'', ''delete''} \<and> (\<forall>(k, v) \<in> set kvs. v \<noteq> []))"

definition or_empty :: "'a list option \<Rightarrow> 'a list" where
  "or_empty v = (case v of None \<Rightarrow> [] | Some xs \<Rightarrow> xs)"

definition sqs_job_broker_init ::
  "string \<Rightarrow> string \<Rightarrow> (string \<times> string) list option \<Rightarrow> (string \<times> string) list option \<Rightarrow> int \<Rightarrow> int \<Rightarrow> vexn + sqs_config" where
  "sqs_job_broker_init queue_url dead_letter_url queue_urls dead_letter_urls visibility_seconds wait_seconds =
     (case first_error
        [(queue_url = [] \<or> dead_letter_url = [], Failure ''ValueError''),
         (\<not> operation_urls_valid queue_urls, Failure ''ValueError''),
         (\<not> operation_urls_valid dead_letter_urls, Failure ''ValueError'')] of
        Some e \<Rightarrow> Inl e
      | None \<Rightarrow> Inr \<lparr>sc_queue_url = queue_url, sc_dead_letter_url = dead_letter_url, sc_queue_urls = or_empty queue_urls,
                    sc_dead_letter_urls = or_empty dead_letter_urls, sc_visibility_seconds = visibility_seconds,
                    sc_wait_seconds = min (max wait_seconds 0) 20\<rparr>)"

definition queue_for :: "sqs_config \<Rightarrow> string \<Rightarrow> string" where
  "queue_for cfg operation = (case map_of (sc_queue_urls cfg) operation of None \<Rightarrow> sc_queue_url cfg | Some url \<Rightarrow> url)"

definition dead_letter_queue_for :: "sqs_config \<Rightarrow> string \<Rightarrow> string" where
  "dead_letter_queue_for cfg operation =
     (case map_of (sc_dead_letter_urls cfg) operation of None \<Rightarrow> sc_dead_letter_url cfg | Some url \<Rightarrow> url)"

definition fifo_ids :: "string \<Rightarrow> job_message \<Rightarrow> string \<Rightarrow> (string \<times> string) option" where
  "fifo_ids url m dedup =
     (if suffix ''.fifo'' url then Some (jm_tenant_id m @ '':'' @ jm_operation m, dedup) else None)"

definition sqs_publish :: "'c video_sqs \<Rightarrow> sqs_config \<Rightarrow> job_message \<Rightarrow> int \<Rightarrow> 'c \<Rightarrow> (vexn, unit, 'c) outcome" where
  "sqs_publish client cfg m delay_seconds c =
     (let url = queue_for cfg (jm_operation m) in
      and_then (lift (message_body m) c) (\<lambda>body c.
      vq_send client \<lparr>ss_queue_url = url, ss_body = body, ss_delay = Some (min (max delay_seconds 0) 900),
                      ss_fifo = fifo_ids url m (jm_job_id m)\<rparr> c))"

definition delivery_url :: "sqs_config \<Rightarrow> job_delivery \<Rightarrow> string" where
  "delivery_url cfg d = (case dl_queue_url d of Some (c # cs) \<Rightarrow> c # cs | _ \<Rightarrow> queue_for cfg (jm_operation (dl_message d)))"

definition sqs_job_acknowledge :: "'c video_sqs \<Rightarrow> sqs_config \<Rightarrow> job_delivery \<Rightarrow> 'c \<Rightarrow> (vexn, unit, 'c) outcome" where
  "sqs_job_acknowledge client cfg d c = vq_delete client (delivery_url cfg d) (dl_receipt d) c"

definition sqs_retry :: "'c video_sqs \<Rightarrow> sqs_config \<Rightarrow> job_delivery \<Rightarrow> int \<Rightarrow> 'c \<Rightarrow> (vexn, unit, 'c) outcome" where
  "sqs_retry client cfg d delay_seconds c =
     vq_visibility client (delivery_url cfg d) (dl_receipt d) (min (max delay_seconds 0) 43200) c"

definition sqs_heartbeat :: "'c video_sqs \<Rightarrow> sqs_config \<Rightarrow> job_delivery \<Rightarrow> int \<Rightarrow> 'c \<Rightarrow> (vexn, unit, 'c) outcome" where
  "sqs_heartbeat client cfg d visibility_seconds c =
     vq_visibility client (delivery_url cfg d) (dl_receipt d) (min (max visibility_seconds 1) 43200) c"

definition sqs_dead_letter :: "'c video_sqs \<Rightarrow> sqs_config \<Rightarrow> job_delivery \<Rightarrow> string \<Rightarrow> 'c \<Rightarrow> (vexn, unit, 'c) outcome" where
  "sqs_dead_letter client cfg d error_code c =
     (let m = dl_message d; url = dead_letter_queue_for cfg (jm_operation m);
          body = dumps (sort_keys (JObj [(''tenant_id'', JStr (jm_tenant_id m)), (''job_id'', JStr (jm_job_id m)),
                   (''operation'', JStr (jm_operation m)), (''error_code'', JStr error_code)])) in
      and_then (vq_send client \<lparr>ss_queue_url = url, ss_body = body, ss_delay = None,
                               ss_fifo = fifo_ids url m (jm_job_id m @ '':'' @ error_code)\<rparr> c) (\<lambda>_ c.
      sqs_job_acknowledge client cfg d c))"

definition sqs_job_broker :: "'c video_sqs \<Rightarrow> sqs_config \<Rightarrow> 'c job_broker" where
  "sqs_job_broker client cfg =
     \<lparr>jo_publish = (\<lambda>m. sqs_publish client cfg m 0), jo_acknowledge = sqs_job_acknowledge client cfg,
      jo_retry = sqs_retry client cfg, jo_heartbeat = sqs_heartbeat client cfg, jo_dead_letter = sqs_dead_letter client cfg\<rparr>"

section \<open>Receiving\<close>

text \<open>
  A body that is not an object of exactly the three text fields of a valid message is poison. (A
  number in place of an identifier makes \<open>uuid.UUID\<close> raise \<open>AttributeError\<close>: see \<open>decoded_message\<close>.)
\<close>

datatype decoding = Decoded job_message | Poison | Crash string

definition decoded_message :: "raw_message \<Rightarrow> decoding" where
  "decoded_message m =
     (case rm_body m of
        None \<Rightarrow> Poison
      | Some text \<Rightarrow>
         (case loads text of
            Some (JObj kvs) \<Rightarrow>
              (if fst ` set kvs \<noteq> {''tenant_id'', ''job_id'', ''operation''} then Poison
               else (case (member kvs ''tenant_id'', member kvs ''job_id'', member kvs ''operation'') of
                  (Some (JStr t), Some (JStr j), Some (JStr op)) \<Rightarrow>
                    (let msg = \<lparr>jm_tenant_id = t, jm_job_id = j, jm_operation = op\<rparr> in
                     case message_error msg of None \<Rightarrow> Decoded msg | Some e \<Rightarrow> Poison)
                | (Some (JStr t), Some (JStr j), _) \<Rightarrow> Poison
                | (Some (JStr t), Some j, _) \<Rightarrow> if \<not> valid_uuid t \<or> j = JNull then Poison else Crash ''AttributeError''
                | (Some t, _, _) \<Rightarrow> if t = JNull then Poison else Crash ''AttributeError''
                | _ \<Rightarrow> Poison))
          | _ \<Rightarrow> Poison))"

definition nil_uuid :: string where
  "nil_uuid = ''00000000-0000-4000-8000-000000000000''"

definition receive_count :: "raw_message \<Rightarrow> vexn + int" where
  "receive_count m =
     (case rm_receive_count m of
        None \<Rightarrow> Inr 1
      | Some text \<Rightarrow> (case py_int text of None \<Rightarrow> Inl (Failure ''ValueError'') | Some n \<Rightarrow> Inr n))"

definition sqs_job_decode ::
  "'c video_sqs \<Rightarrow> sqs_config \<Rightarrow> raw_message \<Rightarrow> string \<Rightarrow> 'c \<Rightarrow> (vexn, job_delivery option, 'c) outcome" where
  "sqs_job_decode client cfg m queue_url c =
     (case decoded_message m of
        Crash name \<Rightarrow> (Inl (Failure name), c)
      | Decoded msg \<Rightarrow>
          and_then (lift (receive_count m) c) (\<lambda>n c.
          (Inr (Some \<lparr>dl_message = msg, dl_receipt = rm_receipt m, dl_receive_count = n, dl_queue_url = Some queue_url\<rparr>), c))
      | Poison \<Rightarrow>
          and_then (lift (receive_count m) c) (\<lambda>n c.
          and_then (sqs_dead_letter client cfg
              \<lparr>dl_message = \<lparr>jm_tenant_id = nil_uuid, jm_job_id = nil_uuid, jm_operation = ''capture''\<rparr>,
               dl_receipt = rm_receipt m, dl_receive_count = n, dl_queue_url = Some queue_url\<rparr> ''job_message_invalid'' c) (\<lambda>_ c.
          (Inr None, c))))"

text \<open>The messages of one answer; \<open>expected\<close> is the operation of a queue of its own.\<close>

fun sqs_take ::
  "'c video_sqs \<Rightarrow> sqs_config \<Rightarrow> string list \<Rightarrow> string option \<Rightarrow> string \<Rightarrow> raw_message list \<Rightarrow> 'c \<Rightarrow>
   (vexn, job_delivery list, 'c) outcome" where
  "sqs_take client cfg operations expected queue_url [] c = (Inr [], c)"
| "sqs_take client cfg operations expected queue_url (m # ms) c =
     and_then (sqs_job_decode client cfg m queue_url c) (\<lambda>delivery c.
     case delivery of
       None \<Rightarrow> sqs_take client cfg operations expected queue_url ms c
     | Some d \<Rightarrow>
         if expected \<noteq> None \<and> expected \<noteq> Some (jm_operation (dl_message d)) then
           and_then (sqs_dead_letter client cfg d ''job_queue_operation_mismatch'' c) (\<lambda>_ c.
           sqs_take client cfg operations expected queue_url ms c)
         else if jm_operation (dl_message d) \<notin> set operations then
           and_then (sqs_retry client cfg d 1 c) (\<lambda>_ c. sqs_take client cfg operations expected queue_url ms c)
         else and_then (sqs_take client cfg operations expected queue_url ms c) (\<lambda>ds c. (Inr (d # ds), c)))"

fun sqs_receive_from ::
  "'c video_sqs \<Rightarrow> sqs_config \<Rightarrow> string list \<Rightarrow> int \<Rightarrow> int \<Rightarrow> (string option \<times> string) list \<Rightarrow> job_delivery list \<Rightarrow> 'c \<Rightarrow>
   (vexn, job_delivery list, 'c) outcome" where
  "sqs_receive_from client cfg operations limit wait [] deliveries c = (Inr deliveries, c)"
| "sqs_receive_from client cfg operations limit wait ((expected, url) # queues) deliveries c =
     (if limit \<le> int (length deliveries) then (Inr deliveries, c)
      else and_then (vq_receive client url (min (max (limit - int (length deliveries)) 1) 10) wait (sc_visibility_seconds cfg) c) (\<lambda>messages c.
           and_then (sqs_take client cfg operations expected url messages c) (\<lambda>ds c.
           sqs_receive_from client cfg operations limit wait queues (deliveries @ ds) c)))"

definition sqs_job_receive ::
  "'c video_sqs \<Rightarrow> sqs_config \<Rightarrow> string list \<Rightarrow> int \<Rightarrow> 'c \<Rightarrow> (vexn, job_delivery list, 'c) outcome" where
  "sqs_job_receive client cfg operations limit c =
     and_then (raise_if (\<not> set operations \<subseteq> set broker_operations) (Failure ''ValueError'') c) (\<lambda>_ c.
     let queues = (if sc_queue_urls cfg \<noteq> [] then map (\<lambda>op. (Some op, queue_for cfg op)) operations else [(None, sc_queue_url cfg)]) in
     sqs_receive_from client cfg operations limit (if length queues = 1 then sc_wait_seconds cfg else 0) queues [] c)"

fun sqs_depths :: "'c video_sqs \<Rightarrow> string list \<Rightarrow> 'c \<Rightarrow> (vexn, int, 'c) outcome" where
  "sqs_depths client [] c = (Inr 0, c)"
| "sqs_depths client (url # urls) c =
     and_then (vq_depth client url c) (\<lambda>(visible, in_flight) c.
     and_then (sqs_depths client urls c) (\<lambda>n c. (Inr (visible + in_flight + n), c)))"

definition sqs_depth :: "'c video_sqs \<Rightarrow> sqs_config \<Rightarrow> 'c \<Rightarrow> (vexn, int, 'c) outcome" where
  "sqs_depth client cfg c =
     sqs_depths client (if sc_queue_urls cfg = [] then [sc_queue_url cfg] else remdups (map snd (sc_queue_urls cfg))) c"

end
