(* ===== verification/Video_Worker.thy ===== *)
theory Video_Worker
  imports Video_Lease Video_Review Video_Broker
begin

text \<open>
  \<open>video/worker.py\<close>: a worker handles one delivery of a job at a time. While an operation runs, other
  workers and schedulers act on the job table (\<open>we_others\<close>, any calls of the machine of \<open>Video_Lease\<close>)
  and the heartbeat thread renews the lease (\<open>we_beats\<close> times unless a renewal fails first); the
  operation itself touches no job, so the renewals are placed after it.
\<close>

section \<open>State and environment\<close>

record worker_config =
  wk_worker_id :: string
  wk_operations :: "string list"
  wk_lease_seconds :: int
  wk_index_max_attempts :: int
  wk_index_poll_seconds :: int

record 'b job_worker_env =
  we_video :: video_env
  we_service :: video_service
  we_broker :: "'b job_broker"
  we_others :: "nat \<Rightarrow> job_call list"
  we_beats :: "nat \<Rightarrow> nat"
  we_latency_ms :: "nat \<Rightarrow> int"
  we_database_telemetry :: bool

record 'b worker_state =
  ws_store :: video_store
  ws_broker :: 'b
  ws_telemetry :: "telemetry option"
  ws_runs :: nat

record worker_result =
  wr_job_id :: string
  wr_state :: string
  wr_operation :: string
  wr_error_code :: "string option"

type_synonym ('b, 'a) job_worker_op = "'b worker_state \<Rightarrow> (vexn, 'a, 'b worker_state) outcome"

definition wbase :: "'b job_worker_env \<Rightarrow> ingestion_env" where
  "wbase env = ve_base (we_video env)"

definition in_store :: "'a video_op \<Rightarrow> ('b, 'a) job_worker_op" where
  "in_store f w = (case f (ws_store w) of (r, s) \<Rightarrow> (r, w\<lparr>ws_store := s\<rparr>))"

definition in_broker :: "('b \<Rightarrow> (vexn, 'a, 'b) outcome) \<Rightarrow> ('b, 'a) job_worker_op" where
  "in_broker f w = (case f (ws_broker w) of (r, b) \<Rightarrow> (r, w\<lparr>ws_broker := b\<rparr>))"

definition worker_error :: "worker_config \<Rightarrow> vexn option" where
  "worker_error cfg = first_error
     [(wk_operations cfg = [] \<or> \<not> set (wk_operations cfg) \<subseteq> {''upload'', ''index'', ''analyze'', ''delete''}, Failure ''ValueError''),
      (\<not> (1 \<le> wk_index_max_attempts cfg \<and> wk_index_max_attempts cfg \<le> 100), Failure ''ValueError''),
      (\<not> (0 \<le> wk_index_poll_seconds cfg \<and> wk_index_poll_seconds cfg \<le> 30), Failure ''ValueError'')]"

definition new_worker :: "worker_config \<Rightarrow> vexn + worker_config" where
  "new_worker cfg = construct worker_error cfg"

definition next_operation :: "string \<Rightarrow> string option" where
  "next_operation = map_of [(''upload'', ''index''), (''index'', ''analyze'')]"

definition operation_max_attempts :: "string \<Rightarrow> int" where
  "operation_max_attempts operation = (if operation = ''index'' then 20 else 5)"

definition backoff :: "int \<Rightarrow> int" where
  "backoff attempt = min (2 ^ nat (max (attempt - 1) 0)) 900"

definition reka_degradation :: "string \<Rightarrow> string \<times> bool" where
  "reka_degradation error_code =
     (if prefix ''reka_output_'' error_code \<or> error_code = ''reka_response_invalid'' then (''detector_output_invalid'', True)
      else if error_code \<in> {''reka_index_failed'', ''reka_request_failed'', ''reka_upload_failed''} then (''reka_request_rejected'', True)
      else if error_code \<in> {''reka_access_denied'', ''reka_key_missing''} then (''reka_configuration_error'', False)
      else (''reka_unavailable'', False))"

definition degradation_of :: "string \<Rightarrow> (string \<times> bool) option" where
  "degradation_of error_code = (if prefix ''reka_'' error_code then Some (reka_degradation error_code) else None)"

section \<open>The lease\<close>

text \<open>One renewal; an exception that is not classified becomes the retryable \<open>job_lease_renewal_failed\<close>.\<close>

definition renew :: "'b job_worker_env \<Rightarrow> worker_config \<Rightarrow> job_delivery \<Rightarrow> ('b, unit) job_worker_op" where
  "renew env cfg d w =
     (let m = dl_message d in
      case and_then (in_store (heartbeat (wbase env) (jm_tenant_id m) (jm_job_id m) (wk_worker_id cfg) (wk_lease_seconds cfg)) w) (\<lambda>_ w.
           in_broker (jo_heartbeat (we_broker env) d (wk_lease_seconds cfg)) w) of
        (Inl (Pipeline code retryable diag), w) \<Rightarrow> (Inl (Pipeline code retryable diag), w)
      | (Inl e, w) \<Rightarrow> (Inl (Pipeline ''job_lease_renewal_failed'' True []), w)
      | r \<Rightarrow> r)"

fun renew_times :: "nat \<Rightarrow> 'b job_worker_env \<Rightarrow> worker_config \<Rightarrow> job_delivery \<Rightarrow> ('b, unit) job_worker_op" where
  "renew_times 0 env cfg d w = (Inr (), w)"
| "renew_times (Suc n) env cfg d w = and_then (renew env cfg d w) (\<lambda>_ w. renew_times n env cfg d w)"

definition others_act :: "'b job_worker_env \<Rightarrow> 'b worker_state \<Rightarrow> 'b worker_state" where
  "others_act env w =
     w\<lparr>ws_store := fold (job_step (wbase env)) (we_others env (ws_runs w)) (ws_store w), ws_runs := Suc (ws_runs w)\<rparr>"

text \<open>
  The operation under the heartbeat: entering renews once; leaving reports a renewal that failed in
  the background, unless the operation raised itself.
\<close>

definition run_leased :: "'b job_worker_env \<Rightarrow> worker_config \<Rightarrow> job_delivery \<Rightarrow> string \<Rightarrow> ('b, json) job_worker_op" where
  "run_leased env cfg d asset_id w =
     (let m = dl_message d; beats = we_beats env (ws_runs w) in
      and_then (renew env cfg d w) (\<lambda>_ w.
      case in_store (execute_operation (we_video env) (we_service env) (jm_tenant_id m) asset_id (jm_operation m)) w of
        (r, w) \<Rightarrow>
          (case renew_times beats env cfg d (others_act env w) of
             (Inl e, w) \<Rightarrow> (case r of Inl x \<Rightarrow> (Inl x, w) | Inr _ \<Rightarrow> (Inl e, w))
           | (Inr _, w) \<Rightarrow> (r, w))))"

section \<open>Coverage of a processed asset\<close>

text \<open>\<open>datetime.fromisoformat\<close> of a payload's member, and the difference of two of them.\<close>

definition iso_item :: "payload \<Rightarrow> string \<Rightarrow> datetime video_op" where
  "iso_item payload key s =
     and_then (item payload key s) (\<lambda>v s.
     case v of
       JStr text \<Rightarrow> fetch parse_iso text (Failure ''ValueError'') s
     | _ \<Rightarrow> (Inl (Failure ''TypeError''), s))"

fun instant_difference :: "datetime \<Rightarrow> datetime \<Rightarrow> vexn + int" where
  "instant_difference (Aware a x) (Aware b y) = Inr ((a - x) - (b - y))"
| "instant_difference (Naive a) (Naive b) = Inr (a - b)"
| "instant_difference _ _ = Inl (Failure ''TypeError'')"

definition detector_observation :: "string \<Rightarrow> string \<Rightarrow> json \<Rightarrow> int \<Rightarrow> bool \<Rightarrow> bool \<Rightarrow> int option \<Rightarrow> observation" where
  "detector_observation tenant source_id start secs available reka_available latency =
     \<lparr>ob_tenant_id = tenant, ob_source_id = source_id, ob_observed_at = start, ob_sample_seconds = secs, ob_connected = True,
      ob_frame_processable = True, ob_detector_available = available, ob_capture_failure = False, ob_frame_gap = False,
      ob_reka_available = reka_available, ob_processing_latency_ms = latency\<rparr>"

definition record_detector ::
  "'b job_worker_env \<Rightarrow> string \<Rightarrow> string \<Rightarrow> bool \<Rightarrow> bool \<Rightarrow> int option \<Rightarrow> string \<Rightarrow> ('b, unit) job_worker_op" where
  "record_detector env tenant asset_id available reka_available latency degraded_reason w =
     (case ws_telemetry w of
        None \<Rightarrow> (Inr (), w)
      | Some obs \<Rightarrow>
          and_then (in_store (get_asset tenant asset_id) w) (\<lambda>asset w.
          and_then (in_store (iso_item asset ''captured_start'') w) (\<lambda>start w.
          and_then (in_store (iso_item asset ''captured_end'') w) (\<lambda>end_time w.
          and_then (lift (instant_difference end_time start) w) (\<lambda>us w.
          and_then (in_store (text_item asset ''source_id'') w) (\<lambda>source_id w.
          let secs = max (whole_seconds us) 1; start_text = got asset ''captured_start'' in
          case record_observation (we_database_telemetry env)
                 (detector_observation tenant source_id start_text secs available reka_available latency) obs of
            (Inl e, obs) \<Rightarrow> (Inl e, w)
          | (Inr _, obs) \<Rightarrow>
              and_then (in_store (record_coverage (we_video env)
                  \<lparr>cq_tenant_id = tenant, cq_source_id = source_id, cq_interval_start = start_text,
                   cq_interval_end = got asset ''captured_end'', cq_connected = secs, cq_processable = secs,
                   cq_detector = (if available then secs else 0), cq_reasons = (if available then [] else [degraded_reason])\<rparr>)
                  (w\<lparr>ws_telemetry := Some obs\<rparr>)) (\<lambda>_ w. (Inr (), w))))))))"

section \<open>Handling a delivery\<close>

definition worker_result_of :: "job_delivery \<Rightarrow> string \<Rightarrow> string option \<Rightarrow> worker_result" where
  "worker_result_of d state error_code =
     \<lparr>wr_job_id = jm_job_id (dl_message d), wr_state = state, wr_operation = jm_operation (dl_message d), wr_error_code = error_code\<rparr>"

definition move_job ::
  "'b job_worker_env \<Rightarrow> job_delivery \<Rightarrow> string \<Rightarrow> string option \<Rightarrow> int \<Rightarrow> diagnostics \<Rightarrow> ('b, unit) job_worker_op" where
  "move_job env d state error_code delay_seconds diag w =
     and_then (in_store (transition_job (wbase env) (jm_tenant_id (dl_message d)) (jm_job_id (dl_message d)) state error_code
                 (seconds delay_seconds) diag) w) (\<lambda>_ w. (Inr (), w))"

definition audit_operation :: "'b job_worker_env \<Rightarrow> job_delivery \<Rightarrow> string \<Rightarrow> string \<Rightarrow> string option \<Rightarrow> ('b, unit) job_worker_op" where
  "audit_operation env d asset_id result error_code =
     in_store (audit_log (wbase env) (jm_tenant_id (dl_message d)) (''reka.'' @ jm_operation (dl_message d)) ''asset'' asset_id result error_code)"

text \<open>The steps every final failure shares: the job, its asset, the dead letter, the audit.\<close>

definition fail_job :: "'b job_worker_env \<Rightarrow> job_delivery \<Rightarrow> string \<Rightarrow> string \<Rightarrow> diagnostics \<Rightarrow> ('b, unit) job_worker_op" where
  "fail_job env d asset_id error_code diag w =
     (let m = dl_message d in
      and_then (move_job env d ''failed'' (Some error_code) 0 diag w) (\<lambda>_ w.
      and_then (if jm_operation m \<in> {''upload'', ''index'', ''analyze''}
                then in_store (update_asset_status (wbase env) (jm_tenant_id m) asset_id ''failed'' (Some error_code)) w
                else (Inr (), w)) (\<lambda>_ w.
      and_then (in_store (mark_dead_lettered (wbase env) (jm_tenant_id m) (jm_job_id m)) w) (\<lambda>_ w.
      audit_operation env d asset_id ''failure'' (Some error_code) w))))"

definition dead_letter :: "'b job_worker_env \<Rightarrow> job_delivery \<Rightarrow> string \<Rightarrow> ('b, worker_result) job_worker_op" where
  "dead_letter env d error_code w =
     and_then (in_broker (jo_dead_letter (we_broker env) d error_code) w) (\<lambda>_ w.
     (Inr (worker_result_of d ''failed'' (Some error_code)), w))"

definition give_back :: "'b job_worker_env \<Rightarrow> job_delivery \<Rightarrow> int \<Rightarrow> string \<Rightarrow> ('b, worker_result) job_worker_op" where
  "give_back env d delay_seconds error_code w =
     and_then (in_broker (jo_retry (we_broker env) d delay_seconds) w) (\<lambda>_ w.
     (Inr (worker_result_of d ''retry'' (Some error_code)), w))"

definition out_of_attempts :: "'b job_worker_env \<Rightarrow> job_delivery \<Rightarrow> job_row \<Rightarrow> ('b, worker_result) job_worker_op" where
  "out_of_attempts env d r w =
     (let m = dl_message d;
          code = (if jm_operation m = ''index'' \<and> jb_last_error_code r = Some ''reka_index_pending'' then ''reka_index_timeout''
                  else ''job_attempts_exhausted'') in
      and_then (fail_job env d (jb_asset_id r) code [] w) (\<lambda>_ w.
      and_then (if jm_operation m = ''index''
                then record_detector env (jm_tenant_id m) (jb_asset_id r) False True None ''reka_index_timeout'' w else (Inr (), w)) (\<lambda>_ w.
      dead_letter env d code w)))"

definition still_indexing :: "'b job_worker_env \<Rightarrow> worker_config \<Rightarrow> job_delivery \<Rightarrow> job_row \<Rightarrow> ('b, worker_result) job_worker_op" where
  "still_indexing env cfg d job w =
     (if jb_max_attempts job \<le> jb_attempts job then
        and_then (fail_job env d (jb_asset_id job) ''reka_index_timeout'' [] w) (\<lambda>_ w.
        and_then (record_detector env (jm_tenant_id (dl_message d)) (jb_asset_id job) False True None ''reka_index_timeout'' w) (\<lambda>_ w.
        dead_letter env d ''reka_index_timeout'' w))
      else
        and_then (move_job env d ''retry'' (Some ''reka_index_pending'') (wk_index_poll_seconds cfg) [] w) (\<lambda>_ w.
        give_back env d (wk_index_poll_seconds cfg) ''reka_index_pending'' w))"

text \<open>The next operation of the chain, published when it is waiting.\<close>

definition start_next :: "'b job_worker_env \<Rightarrow> worker_config \<Rightarrow> job_delivery \<Rightarrow> string \<Rightarrow> ('b, unit) job_worker_op" where
  "start_next env cfg d asset_id w =
     (case next_operation (jm_operation (dl_message d)) of
        None \<Rightarrow> (Inr (), w)
      | Some op \<Rightarrow>
          and_then (in_store (enqueue_job (wbase env) (jm_tenant_id (dl_message d)) asset_id op
              (if op = ''index'' then wk_index_max_attempts cfg else operation_max_attempts op) None) w) (\<lambda>job w.
          if jb_state job \<in> {Queued, Retry} then
            in_broker (jo_publish (we_broker env)
              \<lparr>jm_tenant_id = jm_tenant_id (dl_message d), jm_job_id = jb_job_id job, jm_operation = op\<rparr>) w
          else (Inr (), w)))"

definition operation_done :: "'b job_worker_env \<Rightarrow> worker_config \<Rightarrow> job_delivery \<Rightarrow> job_row \<Rightarrow> ('b, worker_result) job_worker_op" where
  "operation_done env cfg d job w =
     (let m = dl_message d; latency = we_latency_ms env (ws_runs w) in
      and_then (move_job env d ''completed'' None 0 [] w) (\<lambda>_ w.
      and_then (if jm_operation m = ''analyze''
                then record_detector env (jm_tenant_id m) (jb_asset_id job) True True (Some latency) ''detector_gap'' w else (Inr (), w)) (\<lambda>_ w.
      and_then (audit_operation env d (jb_asset_id job) ''success'' None w) (\<lambda>_ w.
      and_then (in_broker (jo_acknowledge (we_broker env) d) w) (\<lambda>_ w.
      and_then (start_next env cfg d (jb_asset_id job) w) (\<lambda>_ w.
      (Inr (worker_result_of d ''completed'' None), w)))))))"

definition claim_and_run :: "'b job_worker_env \<Rightarrow> worker_config \<Rightarrow> job_delivery \<Rightarrow> ('b, worker_result) job_worker_op" where
  "claim_and_run env cfg d w =
     (let m = dl_message d in
      and_then (in_store (claim_job (wbase env) (jm_tenant_id m) (jm_job_id m) (wk_worker_id cfg) (wk_lease_seconds cfg)) w) (\<lambda>job w.
      and_then (run_leased env cfg d (jb_asset_id job) w) (\<lambda>result w.
      if jm_operation m = ''index'' \<and> result \<in> {JStr ''pending'', JStr ''indexing''} then still_indexing env cfg d job w
      else operation_done env cfg d job w)))"

definition handle_body :: "'b job_worker_env \<Rightarrow> worker_config \<Rightarrow> job_delivery \<Rightarrow> ('b, worker_result) job_worker_op" where
  "handle_body env cfg d w =
     (let m = dl_message d in
      and_then (in_store (get_job (jm_tenant_id m) (jm_job_id m)) w) (\<lambda>r w.
      and_then (raise_if (jb_operation r \<noteq> jm_operation m) (pipeline ''job_message_mismatch'') w) (\<lambda>_ w.
      if jb_state r = Completed then
        and_then (in_broker (jo_acknowledge (we_broker env) d) w) (\<lambda>_ w. (Inr (worker_result_of d ''completed'' None), w))
      else if jb_state r \<in> {Failed, Cancelled} then
        and_then (in_broker (jo_acknowledge (we_broker env) d) w) (\<lambda>_ w.
        (Inr (worker_result_of d (if jb_state r = Failed then ''failed'' else ''cancelled'') (jb_last_error_code r)), w))
      else
        and_then (if jm_operation m = ''index'' \<and> index_pending r \<and> jb_max_attempts r \<le> jb_attempts r \<and>
                     jb_max_attempts r < wk_index_max_attempts cfg
                  then in_store (extend_index_attempt_limit (wbase env) (jm_tenant_id m) (jm_job_id m) (wk_index_max_attempts cfg)) w
                  else (Inr r, w)) (\<lambda>r w.
        if jb_state r = Retry \<and> jb_max_attempts r \<le> jb_attempts r then out_of_attempts env d r w
        else claim_and_run env cfg d w))))"

section \<open>Handling an error\<close>

definition degrade :: "'b job_worker_env \<Rightarrow> job_delivery \<Rightarrow> string \<Rightarrow> string \<Rightarrow> ('b, unit) job_worker_op" where
  "degrade env d asset_id error_code w =
     (case degradation_of error_code of
        None \<Rightarrow> (Inr (), w)
      | Some (reason, reka_available) \<Rightarrow>
          record_detector env (jm_tenant_id (dl_message d)) asset_id False reka_available None reason w)"

definition handle_classified ::
  "'b job_worker_env \<Rightarrow> job_delivery \<Rightarrow> string \<Rightarrow> bool \<Rightarrow> diagnostics \<Rightarrow> ('b, worker_result) job_worker_op" where
  "handle_classified env d error_code retryable diag w =
     (if error_code \<in> {''job_not_claimable'', ''job_lease_lost''} then give_back env d 1 error_code w
      else case in_store (get_job (jm_tenant_id (dl_message d)) (jm_job_id (dl_message d))) w of
        (Inl (Pipeline code r x), w) \<Rightarrow> dead_letter env d error_code w
      | (Inl e, w) \<Rightarrow> (Inl e, w)
      | (Inr job, w) \<Rightarrow>
          if retryable \<and> jb_attempts job < jb_max_attempts job then
            and_then (move_job env d ''retry'' (Some error_code) (backoff (jb_attempts job)) diag w) (\<lambda>_ w.
            and_then (audit_operation env d (jb_asset_id job) ''failure'' (Some error_code) w) (\<lambda>_ w.
            and_then (degrade env d (jb_asset_id job) error_code w) (\<lambda>_ w.
            give_back env d (backoff (jb_attempts job)) error_code w)))
          else
            and_then (fail_job env d (jb_asset_id job) error_code diag w) (\<lambda>_ w.
            and_then (degrade env d (jb_asset_id job) error_code w) (\<lambda>_ w.
            dead_letter env d error_code w)))"

text \<open>Any other exception: the dead letter is sent whether or not the job could be failed.\<close>

definition handle_unexpected :: "'b job_worker_env \<Rightarrow> job_delivery \<Rightarrow> ('b, worker_result) job_worker_op" where
  "handle_unexpected env d w =
     (let m = dl_message d; code = ''worker_unexpected_error'' in
      case and_then (move_job env d ''failed'' (Some code) 0 [] w) (\<lambda>_ w.
           in_store (mark_dead_lettered (wbase env) (jm_tenant_id m) (jm_job_id m)) w) of
        (r, w) \<Rightarrow>
          and_then (in_broker (jo_dead_letter (we_broker env) d code) w) (\<lambda>_ w.
          case r of Inl e \<Rightarrow> (Inl e, w) | Inr _ \<Rightarrow> (Inr (worker_result_of d ''failed'' (Some code)), w)))"

definition handle :: "'b job_worker_env \<Rightarrow> worker_config \<Rightarrow> job_delivery \<Rightarrow> ('b, worker_result) job_worker_op" where
  "handle env cfg d w =
     (case handle_body env cfg d w of
        (Inl (Pipeline error_code retryable diag), w) \<Rightarrow> handle_classified env d error_code retryable diag w
      | (Inl e, w) \<Rightarrow> handle_unexpected env d w
      | r \<Rightarrow> r)"

fun handle_all :: "'b job_worker_env \<Rightarrow> worker_config \<Rightarrow> job_delivery list \<Rightarrow> ('b, worker_result list) job_worker_op" where
  "handle_all env cfg [] w = (Inr [], w)"
| "handle_all env cfg (d # ds) w =
     and_then (handle env cfg d w) (\<lambda>r w. and_then (handle_all env cfg ds w) (\<lambda>rs w. (Inr (r # rs), w)))"

text \<open>\<open>poll_once\<close>: at most ten deliveries, one after the other.\<close>

definition poll_jobs ::
  "(string list \<Rightarrow> int \<Rightarrow> ('b, job_delivery list) job_worker_op) \<Rightarrow> 'b job_worker_env \<Rightarrow> worker_config \<Rightarrow> ('b, worker_result list) job_worker_op" where
  "poll_jobs receive_jobs env cfg w =
     and_then (receive_jobs (wk_operations cfg) 10 w) (\<lambda>ds w. handle_all env cfg ds w)"

end
