(* ===== verification/Video_Frames.thy ===== *)
theory Video_Frames
  imports Video_Worker
begin

text \<open>
  What the operations of the pipeline leave alone. A part \<open>F\<close> of the state that does not look at the
  clock, the identifiers and the audit log is kept by everything that only reads; if it does not look
  at the jobs, by the job methods; if it does not look at the media and the tables of sources, assets,
  candidates and coverage, by everything that works on those; and with both, by the whole pipeline but
  the reviews.
\<close>

section \<open>Reading the clock, and the audit log\<close>

locale clock_frame =
  fixes F :: "video_store \<Rightarrow> 'a"
  assumes of_clock: "F (s\<lparr>vs_db := (vs_db s)\<lparr>is_reads := n\<rparr>\<rparr>) = F s"
    and of_ids: "F (s\<lparr>vs_db := (vs_db s)\<lparr>is_ids := n\<rparr>\<rparr>) = F s"
    and of_audit: "F (s\<lparr>vs_audit := audits\<rparr>) = F s"
begin

lemmas step = frame_then [where F = F]

lemma reads [simp]:
  "F (snd (video_now env s)) = F s" "F (snd (video_uuid env s)) = F s" "F (ticked s) = F s"
  by (simp_all add: video_now_def video_uuid_def ticked_def of_clock of_ids Let_def)

lemma plain_steps [simp]:
  "F (snd (lift v s)) = F s" "F (snd (raise_if b e s)) = F s" "F (snd (raise_opt x s)) = F s" "F (snd (fetch m k e s)) = F s"
  "F (snd (item p key s)) = F s" "F (snd (text_item p key s)) = F s" "F (snd (get_job t j s)) = F s"
  by (simp_all add: lift_def raise_if_def raise_opt_def fetch_def item_def text_item_def split: option.split)

lemma audited [simp]: "F (snd (audit_log ienv t act k i out e s)) = F s"
  unfolding audit_log_def by (auto intro!: step simp: of_audit)

end

section \<open>The job methods\<close>

locale job_frame = clock_frame F for F :: "video_store \<Rightarrow> 'a" +
  assumes of_jobs: "F (s\<lparr>vs_jobs := jobs\<rparr>) = F s"
begin

lemma job_methods [simp]:
  "F (snd (enqueue_job ienv t a op m k s)) = F s"
  "F (snd (transition_job ienv t j st e d diag s)) = F s" "F (snd (claim_job ienv t j w l s)) = F s"
  "F (snd (heartbeat ienv t j w l s)) = F s" "F (snd (extend_index_attempt_limit ienv t j n s)) = F s"
  "F (snd (mark_dead_lettered ienv t j s)) = F s" "F (snd (recover_stale_jobs ienv us now s)) = F s"
  unfolding enqueue_job_def transition_job_def claim_job_def heartbeat_def extend_index_attempt_limit_def mark_dead_lettered_def
    recover_stale_jobs_def Let_def
  by (auto intro!: step simp: of_jobs split: option.split)

lemma job_calls [simp]: "F (job_step ienv call s) = F s" "F (fold (job_step ienv) calls s) = F s"
proof -
  show one: "F (job_step ienv call s) = F s" for call s by (cases call) simp_all
  show "F (fold (job_step ienv) calls s) = F s" by (induction calls arbitrary: s) (simp_all add: one)
qed

end

section \<open>Sources, media, candidates and coverage\<close>

locale media_frame = clock_frame F for F :: "video_store \<Rightarrow> 'a" +
  assumes of_registry: "F (s\<lparr>vs_db := (vs_db s)\<lparr>is_reads := n, is_sources := rows\<rparr>\<rparr>) = F s"
    and of_sources: "F (s\<lparr>vs_sources := sources\<rparr>) = F s"
    and of_assets: "F (s\<lparr>vs_assets := assets\<rparr>) = F s"
    and of_mappings: "F (s\<lparr>vs_mappings := mappings\<rparr>) = F s"
    and of_candidates: "F (s\<lparr>vs_candidates := cands\<rparr>) = F s"
    and of_coverage: "F (s\<lparr>vs_coverage := cover\<rparr>) = F s"
    and of_snapshots: "F (s\<lparr>vs_snapshots := snaps\<rparr>) = F s"
    and of_files: "F (s\<lparr>vs_files := files\<rparr>) = F s"
    and of_calls: "F (s\<lparr>vs_calls := n\<rparr>) = F s"
begin

lemmas parts [simp] = of_sources of_assets of_mappings of_candidates of_coverage of_snapshots of_files of_calls

lemma provider_calls [simp]: "F (snd (provider_call f s)) = F s"
  by (simp add: provider_call_def lift_def)

lemma item_steps [simp]:
  "F (snd (time_item p key s)) = F s" "F (snd (int_item p key s)) = F s" "F (snd (contract env name p s)) = F s"
  "F (snd (or_now ienv text s)) = F s" "F (snd (iso_item p key s)) = F s" "F (snd (transport_item p s)) = F s"
  unfolding time_item_def int_item_def contract_def or_now_def iso_item_def transport_item_def
  by (auto intro!: step split: json.split option.split list.split)

lemma source_steps [simp]:
  "F (snd (put_source p s)) = F s" "F (snd (get_source t src s)) = F s" "F (snd (get_asset t a s)) = F s"
  "F (snd (asset_path t a s)) = F s" "F (snd (get_candidate t d s)) = F s" "F (snd (put_coverage p s)) = F s"
  unfolding put_source_def get_source_def get_asset_def asset_path_def get_candidate_def put_coverage_def
  by (auto intro!: step split: option.split)

lemma asset_steps [simp]:
  "F (snd (put_asset ienv p path s)) = F s" "F (snd (update_asset_status ienv t a st e s)) = F s"
  "F (snd (put_mapping ienv t src a v st s)) = F s" "F (snd (mark_remote_deleted ienv t a s)) = F s"
  unfolding update_asset_status_def put_asset_def put_mapping_def mark_remote_deleted_def
  by (auto intro!: step)

lemma sizes [simp]: "F (snd (sum_sizes ps s)) = F s"
  by (induction ps arbitrary: s) (auto intro!: step)

lemma expired [simp]: "F (snd (expired_rows now rows s)) = F s"
  by (induction rows arbitrary: s) (auto intro!: step)

lemma candidate_steps [simp]:
  "F (snd (put_candidate ienv c key s)) = F s" "F (snd (update_candidate p s)) = F s" "F (snd (delete_pending_candidates t s)) = F s"
  "F (snd (candidate env svc asset v proposal n s)) = F s"
  unfolding put_candidate_def update_candidate_def delete_pending_candidates_def candidate_def Let_def
  by (auto intro!: step)

lemma collected [simp]: "F (snd (collect_candidates env svc asset v us n ps s)) = F s"
proof (induction ps arbitrary: n s)
  case (Cons p ps)
  obtain r t where r: "candidate env svc asset v p n s = (r, t)" by fastforce
  then have "F t = F s" using candidate_steps(4) [of env svc asset v p n s] by simp
  with r Cons.IH show ?case by (cases r) (auto intro!: step)
qed simp

lemma put_all [simp]: "F (snd (put_candidates ienv cs s)) = F s"
  by (induction ienv cs s rule: put_candidates.induct) (auto intro!: step)

lemma media_steps [simp]:
  "F (snd (store_media env svc p s)) = F s" "F (snd (materialize env svc ref s)) = F s" "F (snd (delete_media env svc ref s)) = F s"
  "F (snd (asset_storage_ref env t a s)) = F s"
  unfolding store_media_def delete_media_def materialize_def asset_storage_ref_def Let_def
  by (auto intro!: step)

lemma operations [simp]:
  "F (snd (execute_upload env svc t a asset s)) = F s" "F (snd (execute_index env t a asset m s)) = F s"
  "F (snd (execute_analyze env svc t a asset m s)) = F s" "F (snd (execute_delete env svc t a m s)) = F s"
  unfolding execute_upload_def execute_index_def execute_analyze_def execute_delete_def Let_def
  by (auto intro!: step split: json.split list.split char.split)

lemma executed [simp]: "F (snd (execute env svc t a op s)) = F s" "F (snd (execute_operation env svc t a op s)) = F s"
  unfolding execute_operation_def execute_def by (auto intro!: step split: option.split)

lemma registered [simp]: "F (snd (on_ingestion_store (register_camera_source ienv p) s)) = F s"
proof -
  have "\<exists>n rows. snd (register_camera_source ienv p db) = db \<or>
      snd (register_camera_source ienv p db) = db\<lparr>is_reads := n, is_sources := rows\<rparr>" for db
    unfolding register_camera_source_def
    by (auto simp: utc_now_def raise_opt_def Let_def split: option.split json.split)
  moreover obtain r db where r: "register_camera_source ienv p (vs_db s) = (r, db)" by fastforce
  ultimately have "db = vs_db s \<or> (\<exists>n rows. db = (vs_db s)\<lparr>is_reads := n, is_sources := rows\<rparr>)" by (metis snd_conv)
  then have "F (s\<lparr>vs_db := db\<rparr>) = F s" by (auto simp: of_registry)
  with r show ?thesis unfolding on_ingestion_store_def by (cases r) simp_all
qed

lemma accepted [simp]:
  "F (snd (register_video_source env p t s)) = F s" "F (snd (check_upload env svc u s)) = F s"
  "F (snd (tenant_asset_bytes t s)) = F s"
  unfolding register_video_source_def check_upload_def tenant_asset_bytes_def Let_def
  by (auto intro!: step split: option.split)

lemma persisted [simp]: "F (snd (persist_asset env svc t a p asset s)) = F s"
proof -
  have "F (snd (case put_asset (ve_base env) asset ref u of
      (Inl e, v) \<Rightarrow> (case delete_media env svc ref v of (Inl (Failure name), w) \<Rightarrow> (Inl (Failure name), w) | (_, w) \<Rightarrow> (Inl e, w))
    | (Inr _, v) \<Rightarrow> and_then (audit_log (ve_base env) t ''video.accept'' ''asset'' a ''success'' None v) (\<lambda>_ s. (Inr asset, s)))) = F u" for ref u
  proof -
    obtain r v where r: "put_asset (ve_base env) asset ref u = (r, v)" by fastforce
    then have v: "F v = F u" using asset_steps(1) [of "ve_base env" asset ref u] by simp
    obtain x w where x: "delete_media env svc ref v = (x, w)" by fastforce
    then have "F w = F v" using media_steps(3) [of env svc ref v] by simp
    with r v x show ?thesis by (cases r) (auto intro!: step split: sum.split vexn.split)
  qed
  then show ?thesis unfolding persist_asset_def by (auto intro!: step)
qed

lemma accepted_upload [simp]: "F (snd (accept_upload env svc u s)) = F s"
  unfolding accept_upload_def Let_def by (auto intro!: step)

lemma coverage_recorded [simp]: "F (snd (record_coverage env q s)) = F s"
  unfolding record_coverage_def Let_def by (auto intro!: step)

lemma candidate_expired [simp]: "F (snd (expire_candidate env cutoff c s)) = F s"
  unfolding expire_candidate_def Let_def by (auto intro!: step)

lemma candidates_expired [simp]: "F (snd (expire_candidates env cutoff cs s)) = F s"
  by (induction cs arbitrary: s) (auto intro!: step)

lemma due_expired [simp]: "F (snd (expire_due_candidates env t now s)) = F s"
  unfolding expire_due_candidates_def by (auto intro!: step)

end

section \<open>The pipeline\<close>

locale pipeline_frame = media_frame F + job_frame F for F :: "video_store \<Rightarrow> 'a"
begin

lemma settled [simp]:
  "F (snd (settle_operation env t a op j code r d s)) = F s" "F (snd (settle_deletion env t a j code r d s)) = F s"
  unfolding settle_operation_def settle_deletion_def Let_def by (auto intro!: step)

lemma ran [simp]: "F (snd (run_operation env svc t a op s)) = F s"
proof -
  have body: "F (snd (and_then (execute env svc t a op u) (\<lambda>result s.
      and_then (if op = ''index'' \<and> result \<in> {JStr ''pending'', JStr ''indexing''}
                then transition_job (ve_base env) t j ''retry'' (Some ''reka_index_pending'') 0 [] s
                else transition_job (ve_base env) t j ''completed'' None 0 [] s) (\<lambda>_ s.
      and_then (audit_log (ve_base env) t (''reka.'' @ op) ''asset'' a ''success'' None s) (\<lambda>_ s. (Inr result, s)))))) = F u"
    (is "F (snd (?body j u)) = _") for j u
    by (auto intro!: step)
  have "F (snd (case ?body j u of (Inl (Pipeline code r d), v) \<Rightarrow> settle_operation env t a op j code r d v | r \<Rightarrow> r)) = F u" for j u
    using body [of u j] by (cases "?body j u"; cases "fst (?body j u)") (auto split: vexn.split)
  then show ?thesis unfolding run_operation_def by (auto intro!: step)
qed

lemma processed [simp]: "F (snd (process_asset env svc t a s)) = F s"
  unfolding process_asset_def by (auto intro!: step)

lemma reanalysed [simp]: "F (snd (request_reanalysis env t j k s)) = F s"
  unfolding request_reanalysis_def Let_def by (auto intro!: step)

lemma retired [simp]: "F (snd (retire_asset env svc t a s)) = F s"
proof -
  have body: "F (snd (and_then (execute_operation env svc t a ''delete'' u) (\<lambda>_ s.
      and_then (transition_job (ve_base env) t j ''completed'' None 0 [] s) (\<lambda>_ s.
      and_then (audit_log (ve_base env) t ''reka.delete'' ''asset'' a ''success'' None s) (\<lambda>_ s. (Inr [a], s)))))) = F u"
    (is "F (snd (?body j u)) = _") for j u
    by (auto intro!: step)
  have "F (snd (case ?body j u of
       (Inl (Pipeline code r d), v) \<Rightarrow> settle_deletion env t a j code r d v
     | (Inl (Failure name), v) \<Rightarrow>
         if name = ''OSError'' then settle_deletion env t a j ''local_retention_failed'' True [] v else (Inl (Failure name), v)
     | r \<Rightarrow> r)) = F u" for j u
    using body [of u j] by (cases "?body j u"; cases "fst (?body j u)") (auto split: vexn.split)
  then show ?thesis unfolding retire_asset_def by (auto intro!: step)
qed

lemma all_retired [simp]: "F (snd (retire_assets env svc xs s)) = F s"
  by (induction env svc xs s rule: retire_assets.induct) (auto intro!: step)

lemma retention [simp]: "F (snd (enforce_retention env svc t now s)) = F s"
  unfolding enforce_retention_def expired_assets_def by (auto intro!: step)

section \<open>The worker\<close>

lemmas worker_step = frame_then [where F = "\<lambda>w. F (ws_store w)"]

lemma worker_parts [simp]:
  "F (ws_store (snd (lift x w))) = F (ws_store w)" "F (ws_store (snd (raise_if b e w))) = F (ws_store w)"
  "F (ws_store (snd (in_broker g w))) = F (ws_store w)" "F (ws_store (others_act env w)) = F (ws_store w)"
  by (simp_all add: lift_def raise_if_def in_broker_def others_act_def split: prod.split)

lemma in_store_keeps [simp]: "F (snd (f (ws_store w))) = F (ws_store w) \<Longrightarrow> F (ws_store (snd (in_store f w))) = F (ws_store w)"
  by (auto simp: in_store_def split: prod.split)

lemma renewed_keeps [simp]: "F (ws_store (snd (renew env cfg d w))) = F (ws_store w)"
proof -
  have "F (ws_store (snd (and_then (in_store (heartbeat ienv t j i l) w) (\<lambda>_ w. in_broker g w)))) = F (ws_store w)" for ienv t j i l g
    by (auto intro!: worker_step)
  from this [of "wbase env" "jm_tenant_id (dl_message d)" "jm_job_id (dl_message d)" "wk_worker_id cfg" "wk_lease_seconds cfg"
      "jo_heartbeat (we_broker env) d (wk_lease_seconds cfg)"]
  show ?thesis unfolding renew_def Let_def by (auto split: prod.split sum.split vexn.split)
qed

lemma renewals_keep [simp]: "F (ws_store (snd (renew_times n env cfg d w))) = F (ws_store w)"
  by (induction n arbitrary: w) (auto intro!: worker_step)

lemma leased_keeps [simp]: "F (ws_store (snd (run_leased env cfg d a w))) = F (ws_store w)"
proof -
  have "F (ws_store (snd (case in_store (execute_operation v svc t a op) u of
      (r, u) \<Rightarrow> (case renew_times n env cfg d (others_act env u) of
          (Inl e, u) \<Rightarrow> (case r of Inl x \<Rightarrow> (Inl x, u) | Inr _ \<Rightarrow> (Inl e, u)) | (Inr _, u) \<Rightarrow> (r, u))))) = F (ws_store u)" for v svc t op n u
  proof -
    obtain r x where r: "in_store (execute_operation v svc t a op) u = (r, x)" by fastforce
    then have x: "F (ws_store x) = F (ws_store u)"
      using in_store_keeps [of "execute_operation v svc t a op" u] by simp
    obtain q y where q: "renew_times n env cfg d (others_act env x) = (q, y)" by fastforce
    then have "F (ws_store y) = F (ws_store x)" using renewals_keep [of n env cfg d "others_act env x"] by simp
    with r x q show ?thesis by (cases q) (auto split: sum.split)
  qed
  then show ?thesis unfolding run_leased_def Let_def by (auto intro!: worker_step)
qed

lemma detector_keeps [simp]: "F (ws_store (snd (record_detector env t a av ra lat reason w))) = F (ws_store w)"
proof (cases "ws_telemetry w")
  case (Some obs)
  have last: "F (ws_store (snd (case record_observation b ob obs of
      (Inl e, obs) \<Rightarrow> (Inl e, u)
    | (Inr _, obs) \<Rightarrow> and_then (in_store (record_coverage v q) (u\<lparr>ws_telemetry := Some obs\<rparr>)) (\<lambda>_ w. (Inr (), w))))) = F (ws_store u)"
    for b ob u v q
    by (auto intro!: worker_step [where s = "u\<lparr>ws_telemetry := Some x\<rparr>" for x, simplified] split: prod.split sum.split)
  with Some show ?thesis unfolding record_detector_def Let_def by (auto intro!: worker_step)
qed (simp add: record_detector_def)

lemma handler_parts [simp]:
  "F (ws_store (snd (move_job env d st e n diag w))) = F (ws_store w)"
  "F (ws_store (snd (audit_operation env d a out e w))) = F (ws_store w)"
  "F (ws_store (snd (fail_job env d a code diag w))) = F (ws_store w)"
  "F (ws_store (snd (dead_letter env d code w))) = F (ws_store w)"
  "F (ws_store (snd (give_back env d n code w))) = F (ws_store w)"
  "F (ws_store (snd (degrade env d a code w))) = F (ws_store w)"
  "F (ws_store (snd (start_next env cfg d a w))) = F (ws_store w)"
  unfolding fail_job_def move_job_def audit_operation_def dead_letter_def give_back_def degrade_def start_next_def Let_def
  by (auto intro!: worker_step split: option.split)

lemma handler_branches [simp]:
  "F (ws_store (snd (out_of_attempts env d r w))) = F (ws_store w)"
  "F (ws_store (snd (still_indexing env cfg d r w))) = F (ws_store w)"
  "F (ws_store (snd (operation_done env cfg d r w))) = F (ws_store w)"
  unfolding out_of_attempts_def still_indexing_def operation_done_def Let_def
  by (auto intro!: worker_step)

lemma bodies [simp]:
  "F (ws_store (snd (claim_and_run env cfg d w))) = F (ws_store w)" "F (ws_store (snd (handle_body env cfg d w))) = F (ws_store w)"
  unfolding handle_body_def claim_and_run_def Let_def by (auto intro!: worker_step)

lemma handlers [simp]:
  fixes w :: "'b worker_state"
  shows "F (ws_store (snd (handle_classified env d code r diag w))) = F (ws_store w)"
  "F (ws_store (snd (handle_unexpected env d w))) = F (ws_store w)"
proof -
  let ?get = "in_store (get_job (jm_tenant_id (dl_message d)) (jm_job_id (dl_message d))) w"
  have branches: "F (ws_store (snd (if b
        then and_then (move_job env d ''retry'' (Some code) n diag u) (\<lambda>_ w.
             and_then (audit_operation env d a ''failure'' (Some code) w) (\<lambda>_ w.
             and_then (degrade env d a code w) (\<lambda>_ w. give_back env d n code w)))
        else and_then (fail_job env d a code diag u) (\<lambda>_ w.
             and_then (degrade env d a code w) (\<lambda>_ w. dead_letter env d code w))))) = F (ws_store u)" for b n a u
    by (auto intro!: worker_step)
  have "F (ws_store (snd ?get)) = F (ws_store w)" by simp
  then show "F (ws_store (snd (handle_classified env d code r diag w))) = F (ws_store w)"
    unfolding handle_classified_def
    by (cases ?get; cases "fst ?get") (auto simp: branches split: vexn.split)
  have "F (ws_store (snd (and_then (move_job env d st e n x w) (\<lambda>_ w. in_store (mark_dead_lettered i t j) w)))) = F (ws_store w)"
    for st e n x i t j by (auto intro!: worker_step)
  note this [of "''failed''" "Some ''worker_unexpected_error''" 0 "[]" "wbase env" "jm_tenant_id (dl_message d)" "jm_job_id (dl_message d)"]
  then show "F (ws_store (snd (handle_unexpected env d w))) = F (ws_store w)"
    unfolding handle_unexpected_def Let_def
    by (cases "and_then (move_job env d ''failed'' (Some ''worker_unexpected_error'') 0 [] w)
           (\<lambda>_ w. in_store (mark_dead_lettered (wbase env) (jm_tenant_id (dl_message d)) (jm_job_id (dl_message d))) w)")
      (auto intro!: worker_step [THEN trans] split: sum.split)
qed

lemma handled [simp]: "F (ws_store (snd (handle env cfg d w))) = F (ws_store w)"
proof -
  have "F (ws_store (snd (handle_body env cfg d w))) = F (ws_store w)" by simp
  then show ?thesis
    unfolding handle_def by (cases "handle_body env cfg d w"; cases "fst (handle_body env cfg d w)") (auto split: vexn.split)
qed

lemma all_handled [simp]: "F (ws_store (snd (handle_all env cfg ds w))) = F (ws_store w)"
  by (induction ds arbitrary: w) (auto intro!: worker_step)

end

end
