(* ===== verification/Video_Finality.thy ===== *)
theory Video_Finality
  imports Video_Frames
begin

text \<open>
  Reviews are final: over every history of the pipeline, workers included, a review that exists stays
  as it is, and the incident events are exactly the confirmed reviews.
\<close>

definition final_tables :: "video_store \<Rightarrow> review_row list \<times> accepted_event list" where
  "final_tables s = (vs_reviews s, is_events (vs_db s))"

interpretation final_part: pipeline_frame final_tables
  by unfold_locales (simp_all add: final_tables_def)

section \<open>What a review adds\<close>

definition confirms :: "review_row \<Rightarrow> accepted_event \<Rightarrow> bool" where
  "confirms r e \<longleftrightarrow> ev_tenant_id e = rv_tenant_id r \<and> ev_external_event_id e = ''video-candidate:'' @ rv_detection_id r \<and>
     member (rv_payload r) ''confirmed_category'' = Some (JStr (ev_category e))"

definition is_confirmed :: "review_row \<Rightarrow> bool" where
  "is_confirmed r \<longleftrightarrow> member (rv_payload r) ''decision'' = Some (JStr ''confirmed'')"

text \<open>The tables after a new review: appended, with its event exactly when it is confirmed.\<close>

definition review_added :: "review_row \<Rightarrow> accepted_event option \<Rightarrow> video_store \<Rightarrow> video_store \<Rightarrow> bool" where
  "review_added r event s t \<longleftrightarrow> \<not> review_conflict r (vs_reviews s) \<and> vs_reviews t = vs_reviews s @ [r] \<and>
     text_member (rv_payload r) ''detection_id'' = Some (rv_detection_id r) \<and>
     text_member (rv_payload r) ''tenant_id'' = Some (rv_tenant_id r) \<and>
     (case event of
        None \<Rightarrow> \<not> is_confirmed r \<and> is_events (vs_db t) = is_events (vs_db s)
      | Some e \<Rightarrow> is_confirmed r \<and> confirms r e \<and> is_events (vs_db t) = is_events (vs_db s) @ [e])"

definition final_kept :: "video_store \<Rightarrow> video_store \<Rightarrow> bool" where
  "final_kept s t \<longleftrightarrow> vs_reviews t = vs_reviews s \<and> is_events (vs_db t) = is_events (vs_db s)"

lemma final_kept_simps [simp]:
  "final_kept s s" "final_kept s (ticked t) = final_kept s t"
  by (simp_all add: final_kept_def)

text \<open>Either the call raises and keeps the final tables, or it adds the review.\<close>

definition review_or_raise :: "video_store \<Rightarrow> (vexn, 'a, video_store) outcome \<Rightarrow> bool" where
  "review_or_raise s result \<longleftrightarrow> final_kept s (snd result) \<or> (\<exists>r event. review_added r event s (snd result))"

lemma new_review_cases:
  assumes "new_review env payload s = (x, t)"
  shows "(\<exists>e. x = Inl e \<and> final_kept s t) \<or> (\<exists>r. x = Inr r \<and> t = ticked s \<and> \<not> review_conflict r (vs_reviews s) \<and>
    rv_payload r = payload \<and> text_member payload ''detection_id'' = Some (rv_detection_id r) \<and>
    text_member payload ''tenant_id'' = Some (rv_tenant_id r))"
proof (cases x)
  case (Inl e)
  with assms show ?thesis
    by (auto simp: new_review_def text_item_def fetch_def video_now_eq_ticked raise_if_def Let_def
        split: option.split_asm if_split_asm)
next
  case (Inr r)
  with assms show ?thesis
    by (auto simp: new_review_def text_item_def fetch_def video_now_eq_ticked raise_if_def Let_def
        split: option.split_asm if_split_asm)
qed

lemma put_review_effect:
  assumes "member payload ''decision'' \<noteq> Some (JStr ''confirmed'')"
  shows "review_or_raise s (put_review env payload s)"
proof -
  obtain x t where x: "new_review env payload s = (x, t)" by fastforce
  from new_review_cases [OF x] show ?thesis
  proof
    assume "\<exists>e. x = Inl e \<and> final_kept s t"
    with x show ?thesis by (auto simp: put_review_def review_or_raise_def)
  next
    assume "\<exists>r. x = Inr r \<and> t = ticked s \<and> \<not> review_conflict r (vs_reviews s) \<and> rv_payload r = payload \<and>
      text_member payload ''detection_id'' = Some (rv_detection_id r) \<and> text_member payload ''tenant_id'' = Some (rv_tenant_id r)"
    then obtain r where r: "x = Inr r" "t = ticked s" "\<not> review_conflict r (vs_reviews s)" "rv_payload r = payload"
      "text_member payload ''detection_id'' = Some (rv_detection_id r)" "text_member payload ''tenant_id'' = Some (rv_tenant_id r)"
      by blast
    have "final_kept s (snd (put_review env payload s)) \<or> review_added r None s (snd (put_review env payload s))"
      using assms r x
      by (auto simp: put_review_def raise_if_def item_def fetch_def review_added_def is_confirmed_def Let_def split: option.split)
    then show ?thesis unfolding review_or_raise_def by blast
  qed
qed

lemma event_row_texts:
  assumes "event_row event h = Some row"
  shows "text_member event ''tenant_id'' = Some (ev_tenant_id (row now))"
    "text_member event ''external_event_id'' = Some (ev_external_event_id (row now))"
    "text_member event ''category'' = Some (ev_category (row now))"
  using assms by (auto simp: event_row_def split: option.split_asm json.split_asm)

lemma put_review_and_event_effect:
  assumes "member payload ''decision'' = Some (JStr ''confirmed'')"
    and "text_member payload ''tenant_id'' = text_member event ''tenant_id''"
    and "\<And>d. text_member payload ''detection_id'' = Some d \<Longrightarrow> text_member event ''external_event_id'' = Some (''video-candidate:'' @ d)"
    and "member payload ''confirmed_category'' = member event ''category''"
  shows "review_or_raise s (put_review_and_event env payload event h s)"
proof (cases "member event ''location''")
  case None
  then show ?thesis by (simp add: put_review_and_event_def item_def fetch_def review_or_raise_def)
next
  case (Some location)
  obtain x t where x: "new_review env payload s = (x, t)" by fastforce
  from new_review_cases [OF x] show ?thesis
  proof
    assume "\<exists>e. x = Inl e \<and> final_kept s t"
    with x Some show ?thesis by (auto simp: put_review_and_event_def review_or_raise_def item_def fetch_def)
  next
    assume "\<exists>r. x = Inr r \<and> t = ticked s \<and> \<not> review_conflict r (vs_reviews s) \<and> rv_payload r = payload \<and>
      text_member payload ''detection_id'' = Some (rv_detection_id r) \<and> text_member payload ''tenant_id'' = Some (rv_tenant_id r)"
    then obtain r where r: "x = Inr r" "t = ticked s" "\<not> review_conflict r (vs_reviews s)" "rv_payload r = payload"
      "text_member payload ''detection_id'' = Some (rv_detection_id r)" "text_member payload ''tenant_id'' = Some (rv_tenant_id r)"
      by blast
    show ?thesis
    proof (cases "event_row event h")
      case None
      with Some x r assms(1) show ?thesis
        by (auto simp: put_review_and_event_def review_or_raise_def item_def fetch_def raise_if_def Let_def)
    next
      case (Some row)
      let ?row = "row (iso_utc (ie_clock env (is_reads (vs_db t))))"
      have "confirms r ?row"
        using r assms(2-4) event_row_texts [OF Some, of "iso_utc (ie_clock env (is_reads (vs_db t)))"]
        by (auto simp: confirms_def text_member_def split: option.split_asm json.split_asm)
      then have "final_kept s (snd (put_review_and_event env payload event h s)) \<or>
          review_added r (Some ?row) s (snd (put_review_and_event env payload event h s))"
        using \<open>member event ''location'' = Some location\<close> Some x r assms(1)
        by (auto simp: put_review_and_event_def raise_if_def item_def fetch_def review_added_def is_confirmed_def video_now_eq_ticked
            Let_def)
      then show ?thesis unfolding review_or_raise_def by blast
    qed
  qed
qed

section \<open>Deciding a review\<close>

lemma review_then:
  assumes "final_kept s (snd r)" and "\<And>x t. r = (Inr x, t) \<Longrightarrow> final_kept s t \<Longrightarrow> review_or_raise s (k x t)"
  shows "review_or_raise s (and_then r k)"
  using assms by (cases r; cases "fst r") (auto simp: review_or_raise_def)

lemma review_added_kept:
  "final_kept s t \<Longrightarrow> review_added r event t u = review_added r event s u"
  "final_kept t u \<Longrightarrow> review_added r event s u = review_added r event s t"
  by (simp_all add: review_added_def final_kept_def cong: option.case_cong)

lemma review_rebase: "final_kept s t \<Longrightarrow> review_or_raise t r \<Longrightarrow> review_or_raise s r"
  by (auto simp: review_or_raise_def review_added_kept(1)) (simp add: final_kept_def)

lemma review_followed:
  assumes "review_or_raise s r" and "\<And>x t. final_kept t (snd (k x t))"
  shows "review_or_raise s (and_then r k)"
proof (cases "fst r")
  case (Inl e)
  with assms(1) show ?thesis by (cases r) (simp add: review_or_raise_def)
next
  case (Inr x)
  then have "snd (and_then r k) = snd (k x (snd r))" by (cases r) simp
  moreover note kept = assms(2) [of "snd r" x]
  ultimately show ?thesis
    using assms(1) review_added_kept(2) [OF kept] by (auto simp: review_or_raise_def) (simp add: final_kept_def)
qed

lemma review_base_members:
  "member (review_base env q w @ rest) ''decision'' =
     (case member rest ''decision'' of None \<Rightarrow> Some (JStr (rq_decision q)) | Some v \<Rightarrow> Some v)"
  "member (review_base env q w @ rest) ''tenant_id'' =
     (case member rest ''tenant_id'' of None \<Rightarrow> Some (JStr (rq_tenant_id q)) | Some v \<Rightarrow> Some v)"
  "member (review_base env q w @ rest) ''detection_id'' =
     (case member rest ''detection_id'' of None \<Rightarrow> Some (JStr (rq_detection_id q)) | Some v \<Rightarrow> Some v)"
  "member (review_base env q w @ rest) ''confirmed_category'' = member rest ''confirmed_category''"
  by (simp_all add: review_base_def member_def map_add_def split: option.split)

lemma promoted_members:
  "member (promoted_event q x src loc occ conf w cat) ''tenant_id'' = Some (JStr (rq_tenant_id q))"
  "member (promoted_event q x src loc occ conf w cat) ''external_event_id'' = Some (JStr x)"
  "member (promoted_event q x src loc occ conf w cat) ''category'' = Some (JStr cat)"
  by (simp_all add: promoted_event_def member_def)

definition linked_review :: "review_request \<Rightarrow> payload \<Rightarrow> payload option \<Rightarrow> bool" where
  "linked_review q review event \<longleftrightarrow>
     (case event of
        None \<Rightarrow> member review ''decision'' \<noteq> Some (JStr ''confirmed'')
      | Some ev \<Rightarrow> member review ''decision'' = Some (JStr ''confirmed'') \<and>
          text_member review ''tenant_id'' = text_member ev ''tenant_id'' \<and>
          (\<forall>d. text_member review ''detection_id'' = Some d \<longrightarrow> text_member ev ''external_event_id'' = Some (''video-candidate:'' @ d)) \<and>
          member review ''confirmed_category'' = member ev ''category'')"

lemma decide_review_linked:
  assumes "decide_review env svc q cand w s = (Inr (review, event), t)"
  shows "linked_review q review event"
proof (cases "rq_decision q = ''confirmed''")
  case True
  with assms obtain ev where ev: "event = Some ev" "confirm_review env svc q cand w s = (Inr (review, ev), t)"
    by (auto simp: decide_review_def and_then_eq split: prod.split_asm)
  from ev(2) obtain source_id location occ conf category where
    "ev = promoted_event q (''video-candidate:'' @ rq_detection_id q) source_id location occ conf w category"
    "review = review_base env q w @ [(''confirmed_category'', JStr category),
       (''promoted_external_event_id'', JStr (''video-candidate:'' @ rq_detection_id q))]"
    unfolding confirm_review_def Let_def
    by (elim and_then_InrE) (simp only: prod.inject sum.inject, blast)
  with ev(1) True show ?thesis
    by (auto simp: linked_review_def review_base_members promoted_members text_member_def) (simp_all add: member_def)
next
  case False
  with assms show ?thesis
    by (auto simp: decide_review_def and_then_eq linked_review_def review_base_members) (simp_all add: member_def)
qed

lemma endpoint_keeps [simp]: "final_tables (snd (endpoint_ref source s)) = final_tables s"
  by (simp add: endpoint_ref_def split: option.split json.split)

lemma decide_keeps [simp]: "final_tables (snd (decide_review env svc q cand w s)) = final_tables s"
  unfolding decide_review_def confirm_review_def resolve_location_def Let_def
  by (auto intro!: final_part.step)

lemma frame_kept: "final_kept s t \<Longrightarrow> final_tables u = final_tables t \<Longrightarrow> final_kept s u"
  by (simp add: final_kept_def final_tables_def)

lemma audited_kept:
  "final_kept s (snd (and_then (audit_log ienv t act k i out e s) (\<lambda>_ s. (Inr x, s))))"
  by (rule frame_kept [OF final_kept_simps(1)]) (auto intro!: final_part.step)

lemma written_review:
  assumes "linked_review q review event"
  shows "review_or_raise s (case event of Some ev \<Rightarrow> put_review_and_event env review ev (h ev) s | None \<Rightarrow> put_review env review s)"
  using assms put_review_and_event_effect [of review _ s env] put_review_effect [of review s env]
  by (auto simp: linked_review_def split: option.split_asm option.split)

lemma review_step:
  assumes "final_kept s t" and "final_tables (snd r) = final_tables t"
    and "\<And>x u. r = (Inr x, u) \<Longrightarrow> final_kept s u \<Longrightarrow> review_or_raise s (k x u)"
  shows "review_or_raise s (and_then r k)"
  using assms by (auto intro: review_then frame_kept)

lemma final_review_effect: "review_or_raise s (final_review env svc q s)"
proof -
  note step = review_step [where s = s]
  have expiry: "final_tables (snd (if c then (Inr True, t) else and_then (time_item cand k t) (\<lambda>x s. (Inr (f x), s)))) = final_tables t"
    for c cand k f t by (auto intro!: final_part.step)
  show ?thesis
    unfolding final_review_def split_beta
    by (rule step [OF final_kept_simps(1)], simp, rule step, assumption, simp, rule step, assumption, simp, rule step, assumption, simp,
        rule step, assumption, rule expiry, rule step, assumption, simp, rule step, assumption, simp,
        rule step, assumption, rule decide_keeps, rule step, assumption, simp,
        rule review_rebase, assumption, rule review_followed, rule written_review, rule decide_review_linked, simp, rule audited_kept)
qed

lemma review_candidate_effect: "review_or_raise s (review_candidate env svc q s)"
proof -
  have same: "final_kept s (snd (and_then (same_review q existing s) (\<lambda>same s.
      if same then (Inr existing, s) else (Inl (pipeline ''review_already_final''), s))))" for existing
  proof (rule frame_kept [OF final_kept_simps(1)])
    have "final_tables (snd (same_review q existing s)) = final_tables s"
      unfolding same_review_def by (auto intro!: final_part.step)
    then show "final_tables (snd (and_then (same_review q existing s) (\<lambda>same s.
        if same then (Inr existing, s) else (Inl (pipeline ''review_already_final''), s)))) = final_tables s"
      by (auto intro!: final_part.step)
  qed
  show ?thesis
    unfolding review_candidate_def
    by (rule review_step [OF final_kept_simps(1)])
      (use same final_review_effect [of s env svc q] in \<open>auto simp: raise_if_eq review_or_raise_def split: option.split\<close>)
qed

section \<open>The pipeline as a machine\<close>

text \<open>The calls of the API, the schedulers and the workers on one state.\<close>

datatype pipeline_call =
    RegisterSource payload string
  | AcceptUpload upload_request
  | ProcessAsset string string
  | RequestReanalysis string string string
  | Review review_request
  | ExpireDue string "string option"
  | RecordCoverage coverage_request
  | DeletePending string
  | EnforceRetention "string option" "string option"
  | OnJobs job_call
  | Handle worker_config job_delivery

fun pipeline_step :: "'b job_worker_env \<Rightarrow> pipeline_call \<Rightarrow> 'b worker_state \<Rightarrow> 'b worker_state" where
  "pipeline_step env (RegisterSource p t) w = snd (in_store (register_video_source (we_video env) p t) w)"
| "pipeline_step env (AcceptUpload u) w = snd (in_store (accept_upload (we_video env) (we_service env) u) w)"
| "pipeline_step env (ProcessAsset t a) w = snd (in_store (process_asset (we_video env) (we_service env) t a) w)"
| "pipeline_step env (RequestReanalysis t j k) w = snd (in_store (request_reanalysis (we_video env) t j k) w)"
| "pipeline_step env (Review q) w = snd (in_store (review_candidate (we_video env) (we_service env) q) w)"
| "pipeline_step env (ExpireDue t now) w = snd (in_store (expire_due_candidates (we_video env) t now) w)"
| "pipeline_step env (RecordCoverage q) w = snd (in_store (record_coverage (we_video env) q) w)"
| "pipeline_step env (DeletePending t) w = snd (in_store (delete_pending_candidates t) w)"
| "pipeline_step env (EnforceRetention t now) w = snd (in_store (enforce_retention (we_video env) (we_service env) t now) w)"
| "pipeline_step env (OnJobs call) w = w\<lparr>ws_store := job_step (wbase env) call (ws_store w)\<rparr>"
| "pipeline_step env (Handle cfg d) w = snd (handle env cfg d w)"

lemma pipeline_step_effect:
  "final_kept (ws_store w) (ws_store (pipeline_step env call w)) \<or>
   (\<exists>r event. review_added r event (ws_store w) (ws_store (pipeline_step env call w)))"
proof (cases "\<exists>q. call = Review q")
  case True
  then obtain q where "call = Review q" by blast
  moreover have "ws_store (snd (in_store f w)) = snd (f (ws_store w))" for f :: "payload video_op"
    by (simp add: in_store_def split: prod.split)
  ultimately show ?thesis
    using review_candidate_effect [of "ws_store w" "we_video env" "we_service env" q] by (simp add: review_or_raise_def)
next
  case False
  then have "final_tables (ws_store (pipeline_step env call w)) = final_tables (ws_store w)"
    by (cases call) (auto intro!: final_part.in_store_keeps)
  then show ?thesis using frame_kept [OF final_kept_simps(1)] by blast
qed

text \<open>A review is the only one of its candidate, and events and confirmed reviews belong together.\<close>

definition finality :: "video_store \<Rightarrow> bool" where
  "finality s \<longleftrightarrow> unique_on (\<lambda>r. (rv_tenant_id r, rv_detection_id r)) (vs_reviews s) \<and>
     (\<forall>r \<in> set (vs_reviews s). text_member (rv_payload r) ''detection_id'' = Some (rv_detection_id r) \<and>
        text_member (rv_payload r) ''tenant_id'' = Some (rv_tenant_id r)) \<and>
     (\<forall>e \<in> set (is_events (vs_db s)). \<exists>r \<in> set (vs_reviews s). is_confirmed r \<and> confirms r e) \<and>
     (\<forall>r \<in> set (vs_reviews s). is_confirmed r \<longrightarrow> (\<exists>e \<in> set (is_events (vs_db s)). confirms r e)) \<and>
     length (is_events (vs_db s)) = length (filter is_confirmed (vs_reviews s))"

definition final_growth :: "video_store \<Rightarrow> video_store \<Rightarrow> bool" where
  "final_growth s t \<longleftrightarrow> prefix (vs_reviews s) (vs_reviews t) \<and> prefix (is_events (vs_db s)) (is_events (vs_db t))"

lemma review_added_finality:
  assumes "finality s" and "review_added r event s t"
  shows "finality t \<and> final_growth s t"
  using assms
  by (cases event) (auto simp: finality_def final_growth_def review_added_def unique_append review_conflict_def list_ex_iff)

lemma final_kept_finality: "finality s \<Longrightarrow> final_kept s t \<Longrightarrow> finality t \<and> final_growth s t"
  by (simp add: finality_def final_growth_def final_kept_def)

interpretation history: preorder_machine "pipeline_step env" "\<lambda>w. finality (ws_store w)" "\<lambda>v w. final_growth (ws_store v) (ws_store w)"
  for env :: "'b job_worker_env"
proof unfold_locales
  fix call and w :: "'b worker_state"
  assume ok: "finality (ws_store w)"
  then have both: "finality (ws_store (pipeline_step env call w)) \<and> final_growth (ws_store w) (ws_store (pipeline_step env call w))"
    using pipeline_step_effect [of w env call] review_added_finality final_kept_finality by blast
  then show "finality (ws_store (pipeline_step env call w))" by simp
  from both show "final_growth (ws_store w) (ws_store (pipeline_step env call w))" by simp
next
  fix v w x :: "'b worker_state"
  show "final_growth (ws_store w) (ws_store w)" by (simp add: final_growth_def)
  show "final_growth (ws_store v) (ws_store x)"
    if "final_growth (ws_store v) (ws_store w)" "final_growth (ws_store w) (ws_store x)"
    using that unfolding final_growth_def by (meson prefix_order.trans)
qed

definition fresh_pipeline :: "'b \<Rightarrow> telemetry option \<Rightarrow> 'b worker_state" where
  "fresh_pipeline broker obs = \<lparr>ws_store = empty_video_store, ws_broker = broker, ws_telemetry = obs, ws_runs = 0\<rparr>"

text \<open>
  C36. Whatever the API, the schedulers and the workers do in whatever order, a candidate has at most
  one review, the incident events the pipeline adds are exactly its confirmed reviews, one event each,
  of the same tenant, candidate and category; and no call ever changes or removes a review or event.
\<close>

lemma reviews_are_final:
  "finality (ws_store (fold (pipeline_step env) calls (fresh_pipeline broker obs))) \<and>
   final_growth (ws_store (fold (pipeline_step env) calls (fresh_pipeline broker obs)))
     (ws_store (fold (pipeline_step env) (calls @ later_calls) (fresh_pipeline broker obs)))"
proof -
  have "finality (ws_store (fresh_pipeline broker obs))"
    by (simp add: fresh_pipeline_def empty_video_store_def empty_ingestion_store_def finality_def unique_on_def)
  note ok = history.run_inv [OF this, of env calls]
  with history.run_rel [OF ok, of env later_calls] show ?thesis by simp
qed

end
