(* ===== verification/Video_Candidates.thy ===== *)
theory Video_Candidates
  imports Video_Execute
begin

text \<open>
  What the analysis of a video may store: every candidate comes from a proposal that names an
  allowed category, a confidence and an instant inside the video, and belongs to its asset.
\<close>

section \<open>One proposal\<close>

text \<open>
  A candidate of an asset: it names the asset, its source and its tenant; its instant lies between the
  capture times, its expiry not after the retention of the asset; it awaits its review.
\<close>

definition contained :: "video_env \<Rightarrow> video_service \<Rightarrow> payload \<Rightarrow> string \<Rightarrow> payload \<Rightarrow> string \<Rightarrow> bool" where
  "contained env svc asset remote_id c key \<longleftrightarrow>
     (\<exists>start end_time occurred expires retention category confidence.
        map_option parse_video_utc (member asset ''captured_start'') = Some (Inr start) \<and>
        map_option parse_video_utc (member asset ''captured_end'') = Some (Inr end_time) \<and>
        map_option parse_video_utc (member asset ''retention_until'') = Some (Inr retention) \<and>
        start \<le> occurred \<and> occurred \<le> end_time \<and> expires \<le> retention \<and>
        category \<in> allowed_categories \<and> finite_float confidence \<and> float_ge confidence 0 \<and> float_le confidence 1 \<and>
        key = candidate_key svc (text_of asset ''tenant_id'') (text_of asset ''asset_id'') remote_id occurred category \<and>
        member c ''occurred_at'' = Some (JStr (iso_utc occurred)) \<and> member c ''expires_at'' = Some (JStr (iso_utc expires)) \<and>
        member c ''proposed_category'' = Some (JStr category) \<and> member c ''confidence'' = Some (JFloat confidence) \<and>
        member c ''detection_id'' = Some (JStr (ve_uuid5 env key)) \<and> member c ''review_status'' = Some (JStr ''awaiting_review'') \<and>
        (\<forall>k \<in> {''tenant_id'', ''source_id'', ''asset_id''}. member c k = member asset k))"

lemma parse_zero_one [simp]:
  "finite_float ''0.0''" "float_ge ''0.0'' 0" "float_le ''0.0'' 1" "finite_float ''1.0''" "float_ge ''1.0'' 0" "float_le ''1.0'' 1"
  by code_simp+

lemma checked_confidence_range:
  "checked_confidence n v = Inr t \<Longrightarrow> finite_float t \<and> float_ge t 0 \<and> float_le t 1"
  by (auto simp: checked_confidence_def split: json.split_asm if_split_asm)

lemma checked_category_allowed: "checked_category n v = Inr c \<Longrightarrow> c \<in> allowed_categories"
  by (auto simp: checked_category_def split: json.split_asm if_split_asm)

lemma checked_offset_nonneg: "checked_offset n v = Inr us \<Longrightarrow> 0 \<le> us"
  by (auto simp: checked_offset_def float_micros_nonneg split: json.split_asm if_split_asm)

lemma candidate_payload_members:
  "member (candidate_payload svc t d src a occ now cat conf ex) ''occurred_at'' = Some (JStr (iso_utc occ))"
  "member (candidate_payload svc t d src a occ now cat conf ex) ''expires_at'' = Some (JStr (iso_utc ex))"
  "member (candidate_payload svc t d src a occ now cat conf ex) ''proposed_category'' = Some (JStr cat)"
  "member (candidate_payload svc t d src a occ now cat conf ex) ''confidence'' = Some (JFloat conf)"
  "member (candidate_payload svc t d src a occ now cat conf ex) ''detection_id'' = Some (JStr d)"
  "member (candidate_payload svc t d src a occ now cat conf ex) ''review_status'' = Some (JStr ''awaiting_review'')"
  "member (candidate_payload svc t d src a occ now cat conf ex) ''tenant_id'' = Some (JStr t)"
  "member (candidate_payload svc t d src a occ now cat conf ex) ''source_id'' = Some (JStr src)"
  "member (candidate_payload svc t d src a occ now cat conf ex) ''asset_id'' = Some (JStr a)"
  by (simp_all add: candidate_payload_def member_def)

lemma candidate_parts:
  assumes "candidate env svc asset remote_id proposal n s = (Inr (c, key), s')"
  obtains offset cat conf us category confidence start end_time tenant asset_id retention source_id where
    "checked_offset n offset = Inr us" "checked_category n cat = Inr category" "checked_confidence n conf = Inr confidence"
    "map_option parse_video_utc (member asset ''captured_start'') = Some (Inr start)"
    "map_option parse_video_utc (member asset ''captured_end'') = Some (Inr end_time)"
    "\<not> end_time < start + us"
    "text_member asset ''tenant_id'' = Some tenant" "text_member asset ''asset_id'' = Some asset_id"
    "map_option parse_video_utc (member asset ''retention_until'') = Some (Inr retention)"
    "text_member asset ''source_id'' = Some source_id" "ticked s = s'"
    "candidate_payload svc tenant (ve_uuid5 env (candidate_key svc tenant asset_id remote_id (start + us) category)) source_id asset_id
       (start + us) (ie_clock (ve_base env) (is_reads (vs_db s))) category confidence
       (min (ie_clock (ve_base env) (is_reads (vs_db s)) + vp_review_ttl svc) retention) = c"
    "candidate_key svc tenant asset_id remote_id (start + us) category = key"
    "proposal_fields n proposal = Inr (offset, cat, conf)"
  using assms unfolding candidate_def Let_def split_beta
  apply (elim and_then_InrE)
  apply (simp only: effect_simps)
  apply (elim conjE)
  apply hypsubst
  apply (simp only: prod.inject sum.inject)
  apply (elim conjE)
  apply (rule that, assumption+, simp)
  done

lemma candidate_contained:
  assumes "candidate env svc asset remote_id proposal n s = (Inr (c, key), s')"
  shows "contained env svc asset remote_id c key \<and> s' = ticked s"
  using assms
proof (rule candidate_parts)
  fix offset cat conf us category confidence start end_time tenant asset_id retention source_id
  let ?expires = "min (ie_clock (ve_base env) (is_reads (vs_db s)) + vp_review_ttl svc) retention"
  assume parts: "checked_offset n offset = Inr us" "checked_category n cat = Inr category" "checked_confidence n conf = Inr confidence"
    and times: "map_option parse_video_utc (member asset ''captured_start'') = Some (Inr start)"
      "map_option parse_video_utc (member asset ''captured_end'') = Some (Inr end_time)"
    and late: "\<not> end_time < start + us"
    and names: "text_member asset ''tenant_id'' = Some tenant" "text_member asset ''asset_id'' = Some asset_id"
    and retention: "map_option parse_video_utc (member asset ''retention_until'') = Some (Inr retention)"
    and source: "text_member asset ''source_id'' = Some source_id" and s': "ticked s = s'"
    and c: "candidate_payload svc tenant (ve_uuid5 env (candidate_key svc tenant asset_id remote_id (start + us) category)) source_id
       asset_id (start + us) (ie_clock (ve_base env) (is_reads (vs_db s))) category confidence ?expires = c"
    and key: "candidate_key svc tenant asset_id remote_id (start + us) category = key"
  have "start \<le> start + us" using checked_offset_nonneg [OF parts(1)] by simp
  moreover have "start + us \<le> end_time" using late by simp
  moreover have "\<forall>k \<in> {''tenant_id'', ''source_id'', ''asset_id''}. member c k = member asset k"
    unfolding c [symmetric] using names source by (simp add: candidate_payload_members text_member_of)
  moreover have "key = candidate_key svc (text_of asset ''tenant_id'') (text_of asset ''asset_id'') remote_id (start + us) category"
    using names key by (simp add: text_member_of)
  moreover note checked_category_allowed [OF parts(2)] checked_confidence_range [OF parts(3)] times retention
  ultimately have "contained env svc asset remote_id c key"
    unfolding contained_def
    by (intro exI [of _ start] exI [of _ end_time] exI [of _ "start + us"] exI [of _ ?expires] exI [of _ retention]
          exI [of _ category] exI [of _ confidence])
      (simp only: c [symmetric] key candidate_payload_members min.cobounded2 simp_thms)
  with s' show ?thesis by simp
qed

text \<open>
  A candidate comes from its proposal: it has its category and its confidence, and its instant is the
  start of the video and the offset later.
\<close>

definition proposed :: "payload \<Rightarrow> json \<Rightarrow> payload \<Rightarrow> bool" where
  "proposed asset proposal c \<longleftrightarrow>
     (\<exists>kvs n offset us start conf confidence. proposal = JObj kvs \<and>
        member kvs ''offset_seconds'' = Some offset \<and> checked_offset n offset = Inr us \<and>
        map_option parse_video_utc (member asset ''captured_start'') = Some (Inr start) \<and>
        member c ''occurred_at'' = Some (JStr (iso_utc (start + us))) \<and>
        member c ''proposed_category'' = member kvs ''category'' \<and>
        member kvs ''confidence'' = Some conf \<and> checked_confidence n conf = Inr confidence \<and>
        member c ''confidence'' = Some (JFloat confidence))"

lemma proposal_fields_Inr:
  assumes "proposal_fields n proposal = Inr (offset, cat, conf)"
  obtains kvs where "proposal = JObj kvs" "member kvs ''offset_seconds'' = Some offset" "member kvs ''category'' = Some cat"
    "member kvs ''confidence'' = Some conf"
  using assms by (auto simp: proposal_fields_def Let_def split: json.split_asm if_split_asm option.split_asm)

lemma checked_category_same: "checked_category n cat = Inr category \<Longrightarrow> cat = JStr category"
  by (auto simp: checked_category_def split: json.split_asm if_split_asm)

lemma candidate_proposed:
  assumes "candidate env svc asset remote_id proposal n s = (Inr (c, key), s')"
  shows "proposed asset proposal c"
  using assms
proof (rule candidate_parts)
  fix offset cat conf us category confidence start end_time tenant asset_id retention source_id
  assume fields: "proposal_fields n proposal = Inr (offset, cat, conf)"
    and parts: "checked_offset n offset = Inr us" "checked_category n cat = Inr category" "checked_confidence n conf = Inr confidence"
    and start: "map_option parse_video_utc (member asset ''captured_start'') = Some (Inr start)"
    and c: "candidate_payload svc tenant (ve_uuid5 env (candidate_key svc tenant asset_id remote_id (start + us) category)) source_id
       asset_id (start + us) (ie_clock (ve_base env) (is_reads (vs_db s))) category confidence
       (min (ie_clock (ve_base env) (is_reads (vs_db s)) + vp_review_ttl svc) retention) = c"
  from fields obtain kvs where "proposal = JObj kvs" "member kvs ''offset_seconds'' = Some offset" "member kvs ''category'' = Some cat"
    "member kvs ''confidence'' = Some conf" by (rule proposal_fields_Inr)
  with parts start checked_category_same [OF parts(2)] show ?thesis
    unfolding proposed_def c [symmetric]
    by (intro exI [of _ kvs] exI [of _ n] exI [of _ offset] exI [of _ us] exI [of _ start] exI [of _ conf] exI [of _ confidence])
      (simp only: candidate_payload_members simp_thms)
qed

lemma later_candidate: "later s (snd (candidate env svc asset remote_id proposal n s))"
  unfolding candidate_def Let_def split_beta time_item_def contract_def by (intro later_then) simp_all

section \<open>All proposals of an analysis\<close>

lemma collect_contained:
  assumes "collect_candidates env svc asset remote_id duration_us n proposals s = (r, s')"
  shows "later s s' \<and> (\<forall>cs es. r = Inr (cs, es) \<longrightarrow> (\<forall>(c, key) \<in> set cs. contained env svc asset remote_id c key))"
  using assms
proof (induction proposals arbitrary: n s r s')
  case (Cons proposal proposals)
  obtain x t where x: "candidate env svc asset remote_id proposal n s = (x, t)" by fastforce
  have t: "later s t" using later_candidate [of s env svc asset remote_id proposal n] x by simp
  obtain r2 t2 where rest: "collect_candidates env svc asset remote_id duration_us (Suc n) proposals t = (r2, t2)" by fastforce
  note IH = Cons.IH [OF rest]
  show ?case
  proof (cases x)
    case (Inl e)
    then show ?thesis
      using Cons.prems x rest t IH later_trans [OF t] by (auto split: if_split_asm sum.split_asm simp: and_then_def)
  next
    case (Inr ck)
    obtain c key where ck: "ck = (c, key)" by fastforce
    with candidate_contained x Inr have "contained env svc asset remote_id c key" by blast
    with Inr ck show ?thesis
      using Cons.prems x rest t IH later_trans [OF t] by (auto split: sum.split_asm simp: and_then_def)
  qed
qed simp

text \<open>The candidates of a list of proposals, in its order: only a proposal past the end of the video has none.\<close>

inductive matched :: "payload \<Rightarrow> int \<Rightarrow> json list \<Rightarrow> (payload \<times> string) list \<Rightarrow> bool" for asset duration_us where
  no_proposal: "matched asset duration_us [] []"
| has_candidate: "proposed asset p c \<Longrightarrow> matched asset duration_us ps cs \<Longrightarrow> matched asset duration_us (p # ps) ((c, key) # cs)"
| past_end: "past_the_end duration_us p \<Longrightarrow> matched asset duration_us ps cs \<Longrightarrow> matched asset duration_us (p # ps) cs"

lemma collect_matched:
  assumes "collect_candidates env svc asset remote_id duration_us n proposals s = (Inr (cs, es), s')"
  shows "matched asset duration_us proposals cs \<and> length proposals = length cs + length es"
  using assms
proof (induction proposals arbitrary: n s cs es)
  case (Cons proposal proposals)
  obtain x t where x: "candidate env svc asset remote_id proposal n s = (x, t)" by fastforce
  show ?case
  proof (cases x)
    case (Inl e)
    with Cons.prems x obtain es' where "past_the_end duration_us proposal" "es = e # es'"
      "collect_candidates env svc asset remote_id duration_us (Suc n) proposals t = (Inr (cs, es'), s')"
      by (auto simp: out_of_range_def and_then_eq split: if_split_asm vexn.split_asm)
    with Cons.IH show ?thesis by (auto intro: past_end)
  next
    case (Inr ck)
    obtain c key where ck: "ck = (c, key)" by fastforce
    with Cons.prems x Inr obtain cs' where "cs = (c, key) # cs'"
      "collect_candidates env svc asset remote_id duration_us (Suc n) proposals t = (Inr (cs', es), s')"
      by (auto simp: and_then_eq)
    with Cons.IH candidate_proposed x Inr ck show ?thesis by (auto intro: has_candidate)
  qed
qed (auto intro: no_proposal)

text \<open>The rows an analysis adds: contained, and with an identity no earlier row has.\<close>

definition new_candidate :: "video_env \<Rightarrow> video_service \<Rightarrow> payload \<Rightarrow> string \<Rightarrow> candidate_row list \<Rightarrow> candidate_row \<Rightarrow> bool" where
  "new_candidate env svc asset remote_id rows r \<longleftrightarrow> contained env svc asset remote_id (cd_payload r) (cd_semantic_key r) \<and>
     \<not> list_ex (\<lambda>q. cd_tenant_id q = cd_tenant_id r \<and>
         (cd_detection_id q = cd_detection_id r \<or> cd_semantic_key q = cd_semantic_key r)) rows"

text \<open>
  The new rows are those of the candidates whose identity was not there: each is of a candidate, no two
  have the same identifier or semantic key, and every candidate has a row of its identity now.
\<close>

definition same_identity :: "candidate_row \<Rightarrow> candidate_row \<Rightarrow> bool" where
  "same_identity q r \<longleftrightarrow> cd_tenant_id q = cd_tenant_id r \<and>
     (cd_detection_id q = cd_detection_id r \<or> cd_semantic_key q = cd_semantic_key r)"

definition all_stored :: "(payload \<times> string) list \<Rightarrow> candidate_row list \<Rightarrow> candidate_row list \<Rightarrow> bool" where
  "all_stored cs rows new \<longleftrightarrow>
     (\<forall>r \<in> set new. (cd_payload r, cd_semantic_key r) \<in> set cs \<and>
        text_member (cd_payload r) ''tenant_id'' = Some (cd_tenant_id r) \<and>
        text_member (cd_payload r) ''detection_id'' = Some (cd_detection_id r)) \<and>
     sorted_wrt (\<lambda>q r. \<not> same_identity q r) new \<and>
     (\<forall>(c, key) \<in> set cs. \<exists>r \<in> set (rows @ new). text_member c ''tenant_id'' = Some (cd_tenant_id r) \<and>
        (text_member c ''detection_id'' = Some (cd_detection_id r) \<or> cd_semantic_key r = key))"

definition identity_texts :: "payload \<Rightarrow> bool" where
  "identity_texts asset \<longleftrightarrow> (\<forall>k \<in> {''tenant_id'', ''asset_id'', ''source_id''}. text_member asset k \<noteq> None)"

lemma contained_texts:
  assumes "contained env svc asset remote_id c key" and "identity_texts asset"
  obtains t d src a where "text_member c ''tenant_id'' = Some t" "text_member c ''detection_id'' = Some d"
    "text_member c ''source_id'' = Some src" "text_member c ''asset_id'' = Some a"
proof -
  have same: "member c k = member asset k" if "k \<in> {''tenant_id'', ''source_id'', ''asset_id''}" for k
    using assms(1) that unfolding contained_def by blast
  have "text_member c ''tenant_id'' \<noteq> None" "text_member c ''source_id'' \<noteq> None" "text_member c ''asset_id'' \<noteq> None"
    using assms(2) by (simp_all add: text_member_def same identity_texts_def)
  moreover have "text_member c ''detection_id'' \<noteq> None"
    using assms(1) by (auto simp: contained_def text_member_def)
  ultimately show thesis using that by blast
qed

lemma put_candidates_new:
  assumes "\<forall>(c, key) \<in> set cs. contained env svc asset remote_id c key" and "identity_texts asset"
  shows "\<exists>s' new. put_candidates ienv cs s = (Inr (), s') \<and> vs_candidates s' = vs_candidates s @ new \<and>
    (\<forall>r \<in> set new. new_candidate env svc asset remote_id (vs_candidates s) r) \<and> all_stored cs (vs_candidates s) new \<and>
    vs_assets s' = vs_assets s"
  using assms(1)
proof (induction cs arbitrary: s)
  case (Cons ck cs)
  obtain c key where ck: "ck = (c, key)" by fastforce
  with Cons.prems have c: "contained env svc asset remote_id c key" by simp
  from contained_texts [OF c assms(2)] obtain t d src a where texts: "text_member c ''tenant_id'' = Some t"
    "text_member c ''detection_id'' = Some d" "text_member c ''source_id'' = Some src" "text_member c ''asset_id'' = Some a" .
  let ?row = "\<lparr>cd_tenant_id = t, cd_detection_id = d, cd_source_id = src, cd_asset_id = a, cd_semantic_key = key,
    cd_payload = c, cd_created_at = ie_clock ienv (is_reads (vs_db s))\<rparr>"
  let ?dup = "list_ex (\<lambda>r. cd_tenant_id r = t \<and> (cd_detection_id r = d \<or> cd_semantic_key r = key)) (vs_candidates s)"
  have put: "put_candidate ienv c key s =
      (if ?dup then (Inr False, ticked s) else (Inr True, (ticked s)\<lparr>vs_candidates := vs_candidates s @ [?row]\<rparr>))"
    using texts by (simp add: put_candidate_def text_item_def fetch_def video_now_eq_ticked)
  define s1 where "s1 = snd (put_candidate ienv c key s)"
  have step: "put_candidates ienv (ck # cs) s = put_candidates ienv cs s1"
    unfolding s1_def ck by (simp add: put)
  obtain s' new where rest: "put_candidates ienv cs s1 = (Inr (), s')" "vs_candidates s' = vs_candidates s1 @ new"
      "\<forall>r \<in> set new. new_candidate env svc asset remote_id (vs_candidates s1) r" "all_stored cs (vs_candidates s1) new"
      "vs_assets s' = vs_assets s1"
    using Cons.IH [of s1] Cons.prems by auto
  define new1 where "new1 = (if ?dup then [] else [?row])"
  have s1: "vs_candidates s1 = vs_candidates s @ new1" by (simp add: s1_def put new1_def)
  have one: "\<forall>r \<in> set new1. new_candidate env svc asset remote_id (vs_candidates s) r"
    using c by (simp add: new1_def new_candidate_def)
  have "\<forall>r \<in> set new. new_candidate env svc asset remote_id (vs_candidates s) r"
    using rest(3) by (auto simp: new_candidate_def s1)
  moreover have "vs_assets s1 = vs_assets s" by (simp add: s1_def put)
  moreover have "all_stored (ck # cs) (vs_candidates s) (new1 @ new)"
  proof -
    have apart: "\<not> same_identity q r" if "q \<in> set new1" "r \<in> set new" for q r
      using rest(3) that by (auto simp: new_candidate_def s1 same_identity_def list_ex_iff)
    have "sorted_wrt (\<lambda>q r. \<not> same_identity q r) new1" by (simp add: new1_def)
    with apart rest(4) have "sorted_wrt (\<lambda>q r. \<not> same_identity q r) (new1 @ new)" by (simp add: sorted_wrt_append all_stored_def)
    moreover have "\<exists>r \<in> set (vs_candidates s @ new1). text_member c ''tenant_id'' = Some (cd_tenant_id r) \<and>
        (text_member c ''detection_id'' = Some (cd_detection_id r) \<or> cd_semantic_key r = key)"
      using texts by (auto simp: new1_def list_ex_iff)
    moreover have "\<forall>r \<in> set new1. (cd_payload r, cd_semantic_key r) = ck \<and>
        text_member (cd_payload r) ''tenant_id'' = Some (cd_tenant_id r) \<and> text_member (cd_payload r) ''detection_id'' = Some (cd_detection_id r)"
      using texts by (simp add: new1_def ck)
    ultimately show ?thesis using rest(4) unfolding all_stored_def s1 ck by (auto simp: ball_Un bex_Un)
  qed
  ultimately show ?case
    unfolding step using rest s1 one by (intro exI [of _ s'] exI [of _ "new1 @ new"]) auto
qed (simp add: all_stored_def)

section \<open>The whole analysis\<close>

lemma reading_steps:
  "snd (asset_storage_ref env t a s) = s" "snd (time_item p k s) = s" "snd (materialize env svc ref s) = s"
  "snd (get_asset t a s) = s"
  by (simp_all add: asset_storage_ref_def asset_path_def time_item_def item_def fetch_def lift_def materialize_def raise_if_def Let_def
      get_asset_def split: option.split)

definition same_candidates :: "video_store \<Rightarrow> video_store \<Rightarrow> bool" where
  "same_candidates s t \<longleftrightarrow> vs_candidates t = vs_candidates s \<and> vs_assets t = vs_assets s"

lemma same_then:
  assumes "same_candidates s (snd r)" and "\<And>x t. same_candidates s t \<Longrightarrow> Q (k x t)"
    and "\<And>e t. same_candidates s t \<Longrightarrow> Q (Inl e, t)"
  shows "Q (and_then r k)"
  using assms by (cases r; cases "fst r") auto

lemma update_status_succeeds:
  assumes "get_asset t a s = (Inr asset, s)" and "text_member asset ''tenant_id'' = Some t"
    and "text_member asset ''asset_id'' = Some a" and "text_member asset ''source_id'' \<noteq> None" and "same_candidates s s'"
  shows "\<exists>u. update_asset_status ienv t a status error_code s' = (Inr (), u) \<and> vs_candidates u = vs_candidates s'"
proof -
  from assms(1) obtain row where row: "select_row (asset_is t a) (vs_assets s) = Some row" "as_payload row = asset"
    by (auto simp: get_asset_def split: option.split_asm)
  then have "list_ex (asset_is t a) (vs_assets s)"
    using select_row_Some [OF row(1)] by (auto simp: list_ex_iff)
  with row assms show ?thesis
    by (auto simp: update_asset_status_def get_asset_def asset_path_def put_asset_def same_candidates_def text_item_def fetch_def
        text_member_with_status video_now_eq_ticked raise_if_def)
qed

text \<open>The end of an analysis: all its candidates are stored, or it raises and stores none.\<close>

definition stores_only :: "video_env \<Rightarrow> video_service \<Rightarrow> payload \<Rightarrow> string \<Rightarrow> video_store \<Rightarrow> (vexn, json, video_store) outcome \<Rightarrow> bool" where
  "stores_only env svc asset remote_id s result \<longleftrightarrow>
     (\<exists>new. vs_candidates (snd result) = vs_candidates s @ new \<and>
        (\<forall>r \<in> set new. new_candidate env svc asset remote_id (vs_candidates s) r) \<and> (new = [] \<or> (\<exists>v. fst result = Inr v)))"

lemma stores_nothing: "same_candidates s t \<Longrightarrow> stores_only env svc asset remote_id s (Inl e, t)"
  by (simp add: stores_only_def same_candidates_def)

lemma analyze_stores_only:
  assumes asset: "get_asset t a s = (Inr asset, s)" and names: "text_member asset ''tenant_id'' = Some t"
      "text_member asset ''asset_id'' = Some a" "text_member asset ''source_id'' \<noteq> None"
  shows "stores_only env svc asset (mp_reka_video_id m) s (execute_analyze env svc t a asset m s)"
proof -
  have refl: "same_candidates s s" by (simp add: same_candidates_def)
  have calls: "same_candidates s (snd (if c then and_then (materialize env svc ref u) (\<lambda>p. provider_call (f p)) else provider_call g u))"
    if "same_candidates s u" for c ref u f g
    using that reading_steps(3) [of env svc ref u]
    by (cases "materialize env svc ref u"; cases "fst (materialize env svc ref u)")
      (auto simp: provider_call_def lift_def same_candidates_def)
  have stored: "stores_only env svc asset (mp_reka_video_id m) s
      (case (cs, es) of ([], e # es) \<Rightarrow> (Inl e, u)
       | _ \<Rightarrow> and_then (put_candidates (ve_base env) cs u) (\<lambda>_ s.
           and_then (update_asset_status (ve_base env) t a ''processed'' None s) (\<lambda>_ s. (Inr (JArr (map (\<lambda>(c, key). JObj c) cs)), s))))"
    if u: "same_candidates s u" and cs: "\<forall>(c, key) \<in> set cs. contained env svc asset (mp_reka_video_id m) c key" for cs es u
  proof -
    have "identity_texts asset" using names by (simp add: identity_texts_def)
    from put_candidates_new [OF cs this] obtain s1 new where put: "put_candidates (ve_base env) cs u = (Inr (), s1)"
      "vs_candidates s1 = vs_candidates u @ new" "\<forall>r \<in> set new. new_candidate env svc asset (mp_reka_video_id m) (vs_candidates u) r"
      "vs_assets s1 = vs_assets u" by blast
    have u': "get_asset t a s1 = (Inr asset, s1)"
      using asset u put(4) by (auto simp: get_asset_def same_candidates_def split: option.split_asm)
    have "\<exists>x. update_asset_status (ve_base env) t a ''processed'' None s1 = (Inr (), x) \<and> vs_candidates x = vs_candidates s1"
      by (rule update_status_succeeds [OF u' names]) (simp add: same_candidates_def)
    then obtain x where "update_asset_status (ve_base env) t a ''processed'' None s1 = (Inr (), x)" "vs_candidates x = vs_candidates s1"
      by blast
    with put u show ?thesis
      by (auto simp: stores_only_def same_candidates_def split: list.split)
  qed
  have finish: "stores_only env svc asset (mp_reka_video_id m) s
      (and_then (collect_candidates env svc asset (mp_reka_video_id m) duration_us 0 ps u) (\<lambda>(cs, es) s.
         case (cs, es) of ([], e # es) \<Rightarrow> (Inl e, s)
         | _ \<Rightarrow> and_then (put_candidates (ve_base env) cs s) (\<lambda>_ s.
             and_then (update_asset_status (ve_base env) t a ''processed'' None s) (\<lambda>_ s. (Inr (JArr (map (\<lambda>(c, key). JObj c) cs)), s)))))"
    if u: "same_candidates s u" for duration_us ps u
  proof -
    obtain r v where c: "collect_candidates env svc asset (mp_reka_video_id m) duration_us 0 ps u = (r, v)" by fastforce
    from collect_contained [OF c] u have v: "same_candidates s v" by (auto simp: same_candidates_def dest: later_tables)
    show ?thesis
    proof (cases r)
      case (Inl e)
      with c v show ?thesis by (simp add: stores_nothing)
    next
      case (Inr p)
      then obtain cs es where r: "r = Inr (cs, es)" by (cases p) simp
      with collect_contained [OF c] have "\<forall>(c, key) \<in> set cs. contained env svc asset (mp_reka_video_id m) c key" by blast
      with stored [OF v this] c r show ?thesis by simp
    qed
  qed
  note steps = same_then [where Q = "stores_only env svc asset (mp_reka_video_id m) s" and s = s]
  show ?thesis
    unfolding execute_analyze_def Let_def
    by (intro steps stores_nothing calls) (use refl finish in \<open>auto simp: reading_steps raise_if_def stores_nothing split: json.split\<close>)
qed

text \<open>An analysis that returns: what the provider proposed, the candidates of it, and the rows it adds.\<close>

lemma analyze_returns:
  assumes asset: "get_asset t a s = (Inr asset, s)" and names: "text_member asset ''tenant_id'' = Some t"
      "text_member asset ''asset_id'' = Some a" "text_member asset ''source_id'' \<noteq> None"
    and run: "execute_analyze env svc t a asset m s = (Inr v, s')"
  shows "\<exists>start end_time media ps cs new.
      map_option parse_video_utc (member asset ''captured_start'') = Some (Inr start) \<and>
      map_option parse_video_utc (member asset ''captured_end'') = Some (Inr end_time) \<and>
      (media = None \<longleftrightarrow> seconds 30 < end_time - start) \<and>
      ve_propose env (vs_calls s) (mp_reka_video_id m) media = Inr (JArr ps) \<and>
      matched asset (end_time - start) ps cs \<and> (cs = [] \<longrightarrow> ps = []) \<and> v = JArr (map (\<lambda>(c, key). JObj c) cs) \<and>
      vs_candidates s' = vs_candidates s @ new \<and> all_stored cs (vs_candidates s) new \<and>
      (\<forall>r \<in> set new. new_candidate env svc asset (mp_reka_video_id m) (vs_candidates s) r)"
proof -
  let ?v = "mp_reka_video_id m"
  from run obtain x1 s1 ref s2 end_time s3 start s4 proposals s5 where
    ready: "raise_if (mp_indexing_status m \<noteq> ''indexed'') (Pipeline ''reka_index_pending'' True []) s = (Inr x1, s1)"
    and ref: "asset_storage_ref env t a s1 = (Inr ref, s2)"
    and times: "time_item asset ''captured_end'' s2 = (Inr end_time, s3)" "time_item asset ''captured_start'' s3 = (Inr start, s4)"
    and called: "(if end_time - start \<le> seconds 30
        then and_then (materialize env svc ref s4) (\<lambda>path. provider_call (\<lambda>n. ve_propose env n ?v (Some path)))
        else provider_call (\<lambda>n. ve_propose env n ?v None) s4) = (Inr proposals, s5)"
    and rest: "(case proposals of
       JArr ps \<Rightarrow>
         and_then (raise_if (100 < length ps) (pipeline ''reka_output_invalid'') s5) (\<lambda>_ s.
         and_then (collect_candidates env svc asset ?v (end_time - start) 0 ps s) (\<lambda>(candidates, errors) s.
         case (candidates, errors) of
           ([], e # es) \<Rightarrow> (Inl e, s)
         | _ \<Rightarrow>
             and_then (put_candidates (ve_base env) candidates s) (\<lambda>_ s.
             and_then (update_asset_status (ve_base env) t a ''processed'' None s) (\<lambda>_ s.
             (Inr (JArr (map (\<lambda>(c, key). JObj c) candidates)), s)))))
     | _ \<Rightarrow> (Inl (pipeline ''reka_output_invalid''), s5)) = (Inr v, s')"
    unfolding execute_analyze_def Let_def by (elim and_then_InrE) (rule that)
  have s4: "s4 = s" using ready ref times reading_steps(1) [of env t a s1]
    by (auto simp: raise_if_def time_item_eq split: if_split_asm)
  note times = times [unfolded time_item_eq]
  obtain media where media: "media = None \<longleftrightarrow> seconds 30 < end_time - start"
    and proposal: "ve_propose env (vs_calls s) ?v media = Inr proposals" and s5: "s5 = s\<lparr>vs_calls := Suc (vs_calls s)\<rparr>"
  proof (cases "end_time - start \<le> seconds 30")
    case True
    with called obtain path u where path: "materialize env svc ref s4 = (Inr path, u)"
      and call: "provider_call (\<lambda>n. ve_propose env n ?v (Some path)) u = (Inr proposals, s5)" by (auto simp: and_then_eq)
    from path reading_steps(3) [of env svc ref s4] have "u = s" by (simp add: s4)
    with call True show thesis by (intro that [of "Some path"]) (auto simp: provider_call_def lift_def)
  next
    case False
    with called show thesis by (intro that [of None]) (auto simp: provider_call_def lift_def s4)
  qed
  from rest obtain ps where ps: "proposals = JArr ps" by (cases proposals) auto
  with rest obtain cs es u where collect: "collect_candidates env svc asset ?v (end_time - start) 0 ps s5 = (Inr (cs, es), u)"
    and stored: "(case (cs, es) of ([], e # es) \<Rightarrow> (Inl e, u)
       | _ \<Rightarrow> and_then (put_candidates (ve_base env) cs u) (\<lambda>_ s.
           and_then (update_asset_status (ve_base env) t a ''processed'' None s) (\<lambda>_ s. (Inr (JArr (map (\<lambda>(c, key). JObj c) cs)), s)))) = (Inr v, s')"
    by (auto simp: raise_if_def and_then_eq split: if_split_asm)
  have whole: "cs = [] \<longrightarrow> es = []" using stored by (cases es) auto
  from stored whole have stored': "and_then (put_candidates (ve_base env) cs u) (\<lambda>_ s.
      and_then (update_asset_status (ve_base env) t a ''processed'' None s) (\<lambda>_ s. (Inr (JArr (map (\<lambda>(c, key). JObj c) cs)), s))) = (Inr v, s')"
    by (cases cs; cases es) simp_all
  have u: "vs_candidates u = vs_candidates s" "vs_assets u = vs_assets s"
    using collect_contained [OF collect] later_tables by (auto simp: s5)
  have "\<forall>(c, key) \<in> set cs. contained env svc asset ?v c key" using collect_contained [OF collect] by blast
  moreover have "identity_texts asset" using names by (simp add: identity_texts_def)
  ultimately obtain w new where put: "put_candidates (ve_base env) cs u = (Inr (), w)" "vs_candidates w = vs_candidates s @ new"
    "\<forall>r \<in> set new. new_candidate env svc asset ?v (vs_candidates s) r" "all_stored cs (vs_candidates s) new" "vs_assets w = vs_assets s"
    using put_candidates_new [of cs env svc asset ?v "ve_base env" u] u by auto
  have "get_asset t a w = (Inr asset, w)" using asset put(5) by (auto simp: get_asset_def split: option.split_asm)
  then have "\<exists>x. update_asset_status (ve_base env) t a ''processed'' None w = (Inr (), x) \<and> vs_candidates x = vs_candidates w"
    by (rule update_status_succeeds [OF _ names]) (simp add: same_candidates_def)
  then obtain x where "update_asset_status (ve_base env) t a ''processed'' None w = (Inr (), x)" "vs_candidates x = vs_candidates w"
    by blast
  with stored' put(1,2) have "v = JArr (map (\<lambda>(c, key). JObj c) cs)" "vs_candidates s' = vs_candidates s @ new" by auto
  moreover have "matched asset (end_time - start) ps cs" "cs = [] \<longrightarrow> ps = []" using collect_matched [OF collect] whole by auto
  ultimately show ?thesis using times media proposal ps put(3,4) by blast
qed

end
