(* ===== verification/Video_Demo.thy ===== *)
theory Video_Demo
  imports Video_Worker
begin

text \<open>A small pipeline the properties are applied to: one tenant, one camera, one ten-second video.\<close>

definition demo_clock :: ingestion_env where
  "demo_clock = \<lparr>ie_clock = (\<lambda>n. seconds (1704067300 + 100 * int n)), ie_uuid = (\<lambda>n. py_str_int (int n)), ie_sha = id,
     ie_problems = (\<lambda>_ _. []), ie_cell = (\<lambda>_ _ _. []), ie_unavailable = (\<lambda>_. False)\<rparr>"

text \<open>The provider accepts every video, has indexed it and proposes one incident and one past the end.\<close>

definition demo_proposals :: json where
  "demo_proposals = JArr
     [JObj [(''offset_seconds'', JFloat ''2.5''), (''category'', JStr ''other''), (''confidence'', JFloat ''0.75'')],
      JObj [(''offset_seconds'', JInt 11), (''category'', JStr ''other''), (''confidence'', JInt 1)]]"

definition demo_video :: video_env where
  "demo_video = \<lparr>ve_base = demo_clock, ve_uuid5 = id, ve_resolve = id, ve_quotient = (\<lambda>_ _. ''1.0''),
     ve_upload = (\<lambda>_ _. Inr (JStr ''v'')), ve_status = (\<lambda>_ _. Inr (JStr ''indexed'')),
     ve_propose = (\<lambda>_ _ _. Inr demo_proposals), ve_delete = (\<lambda>_ _. None)\<rparr>"

definition demo_service_config :: video_service where
  "demo_service_config = \<lparr>vp_media_root = ''/m'', vp_max_upload_bytes = 1000, vp_tenant_quota_bytes = 1000,
     vp_max_duration_seconds = 60, vp_prompt_version = ''p'', vp_review_ttl = seconds 600, vp_locations = Map.empty\<rparr>"

definition demo_asset :: payload where
  "demo_asset = [(''tenant_id'', JStr ''t''), (''asset_id'', JStr ''a''), (''source_id'', JStr ''c''), (''status'', JStr ''processing''),
     (''captured_start'', JStr ''2024-01-01T00:00:00Z''), (''captured_end'', JStr ''2024-01-01T00:00:10Z''),
     (''retention_until'', JStr ''2024-02-01T00:00:00Z'')]"

definition demo_asset_row :: asset_row where
  "demo_asset_row = \<lparr>as_tenant_id = ''t'', as_asset_id = ''a'', as_source_id = ''c'', as_payload = demo_asset,
     as_local_path = ''/m/a.mp4'', as_created_at = 0\<rparr>"

definition demo_mapping_row :: mapping_row where
  "demo_mapping_row = \<lparr>mp_tenant_id = ''t'', mp_source_id = ''c'', mp_asset_id = ''a'', mp_reka_video_id = ''v'',
     mp_indexing_status = ''indexed'', mp_remote_deleted_at = None, mp_created_at = 0, mp_updated_at = 0\<rparr>"

definition demo_media :: media_file where
  "demo_media = \<lparr>mf_size = 20, mf_header = ''0000ftyp0000'', mf_sha256 = ''s'', mf_scan = None, mf_duration = Inr ''10.0''\<rparr>"

definition demo_store :: video_store where
  "demo_store = empty_video_store
     \<lparr>vs_sources := [\<lparr>cr_tenant_id = ''t'', cr_source_id = ''c'', cr_payload = [(''status'', JStr ''active'')], cr_created_at = ''''\<rparr>],
      vs_assets := [demo_asset_row], vs_mappings := [demo_mapping_row], vs_files := [(''/m/a.mp4'', demo_media)]\<rparr>"

lemma demo_asset_stored: "get_asset ''t'' ''a'' demo_store = (Inr demo_asset, demo_store)"
  by code_simp

lemma demo_mapping_stored: "get_mapping ''t'' ''a'' demo_store = Some demo_mapping_row"
  by code_simp

section \<open>A worker\<close>

definition demo_delivery :: job_delivery where
  "demo_delivery = \<lparr>dl_message = \<lparr>jm_tenant_id = ''t'', jm_job_id = ''j'', jm_operation = ''analyze''\<rparr>, dl_receipt = ''r'',
     dl_receive_count = 1, dl_queue_url = None\<rparr>"

definition demo_job_worker :: worker_config where
  "demo_job_worker = \<lparr>wk_worker_id = ''w'', wk_operations = [''analyze''], wk_lease_seconds = 60, wk_index_max_attempts = 20,
     wk_index_poll_seconds = 3\<rparr>"

definition demo_pipeline :: "video_env \<Rightarrow> job_call list \<Rightarrow> unit job_worker_env" where
  "demo_pipeline env others = \<lparr>we_video = env, we_service = demo_service_config, we_broker = database_broker,
     we_others = (\<lambda>_. others), we_beats = (\<lambda>_. 0), we_latency_ms = (\<lambda>_. 5), we_database_telemetry = False\<rparr>"

definition demo_working :: "payload \<Rightarrow> unit worker_state" where
  "demo_working asset = \<lparr>ws_store = demo_store\<lparr>vs_jobs := [new_job_row ''t'' ''j'' ''a'' ''analyze'' ''k'' 2 0],
     vs_assets := [demo_asset_row\<lparr>as_payload := asset\<rparr>]\<rparr>, ws_broker = (), ws_telemetry = Some [], ws_runs = 0\<rparr>"

text \<open>The same video, half a second long.\<close>

definition demo_short_asset :: payload where
  "demo_short_asset = dict_set ''captured_end'' (JStr ''2024-01-01T00:00:00.500000Z'') demo_asset"

text \<open>A provider that is down.\<close>

definition demo_outage :: video_env where
  "demo_outage = demo_video\<lparr>ve_propose := (\<lambda>_ _ _. Inl (Pipeline ''reka_unavailable'' True []))\<rparr>"

definition demo_empty :: video_env where
  "demo_empty = demo_video\<lparr>ve_propose := (\<lambda>_ _ _. Inr (JArr []))\<rparr>"

text \<open>While the worker waits, its lease passes, the job is recovered and another worker claims it.\<close>

definition demo_takeover :: "job_call list" where
  "demo_takeover = [Recover 1 None, Claim ''t'' ''j'' ''v'' 600]"

end
