(* ===== verification/Video_Settlement.thy ===== *)
theory Video_Settlement
  imports Video_Frames
begin

text \<open>
  What a worker's answer says about the job: every path of \<open>handle\<close> that returns leaves the job in the
  state it reports.
\<close>

interpretation job_part: media_frame vs_jobs
  by unfold_locales simp_all

fun state_text :: "job_state \<Rightarrow> string" where
  "state_text Queued = ''queued''"
| "state_text Running = ''running''"
| "state_text Completed = ''completed''"
| "state_text Failed = ''failed''"
| "state_text Cancelled = ''cancelled''"
| "state_text Retry = ''retry''"

lemma job_state_of_text: "job_state_of st = Some state \<Longrightarrow> state_text state = st"
  by (auto simp: job_state_of_def split: if_split_asm)

section \<open>The job of a delivery\<close>

definition delivered_job :: "job_delivery \<Rightarrow> 'b worker_state \<Rightarrow> job_row option" where
  "delivered_job d w = select_row (job_is (jm_tenant_id (dl_message d)) (jm_job_id (dl_message d))) (vs_jobs (ws_store w))"

text \<open>The job of \<open>d\<close> is in the named state, which is not running, and if it failed, dead-lettered.\<close>

definition settled :: "job_delivery \<Rightarrow> string \<Rightarrow> 'b worker_state \<Rightarrow> bool" where
  "settled d st w \<longleftrightarrow> (\<exists>q. delivered_job d w = Some q \<and> state_text (jb_state q) = st \<and> jb_state q \<noteq> Running \<and>
     (jb_state q = Failed \<longrightarrow> jb_dead_lettered_at q \<noteq> None))"

lemma in_broker_job [simp]: "delivered_job d (snd (in_broker f w)) = delivered_job d w"
  by (simp add: in_broker_def delivered_job_def split: prod.split)

lemma in_store_jobs: "vs_jobs (ws_store (snd (in_store f w))) = vs_jobs (snd (f (ws_store w)))"
  by (simp add: in_store_def split: prod.split)

lemma in_store_job [simp]:
  "vs_jobs (snd (f (ws_store w))) = vs_jobs (ws_store w) \<Longrightarrow> delivered_job d (snd (in_store f w)) = delivered_job d w"
  by (simp add: delivered_job_def in_store_jobs)

lemmas delivered_step = frame_then [where F = "delivered_job d" for d]

lemma plain_job_steps [simp]:
  "delivered_job d (snd (lift x w)) = delivered_job d w" "delivered_job d (snd (raise_if b e w)) = delivered_job d w"
  by (simp_all add: lift_def raise_if_def)

lemma detector_job [simp]: "delivered_job d (snd (record_detector env t a av ra lat reason w)) = delivered_job d w"
proof (cases "ws_telemetry w")
  case (Some obs)
  have last: "delivered_job d (snd (case record_observation b ob obs of
      (Inl e, obs) \<Rightarrow> (Inl e, u)
    | (Inr _, obs) \<Rightarrow> and_then (in_store (record_coverage v q) (u\<lparr>ws_telemetry := Some obs\<rparr>)) (\<lambda>_ w. (Inr (), w)))) = delivered_job d u"
    for b ob u v q
  proof -
    have "delivered_job d (snd (and_then (in_store (record_coverage v q) (u\<lparr>ws_telemetry := x\<rparr>)) (\<lambda>_ w. (Inr (), w)))) =
        delivered_job d (u\<lparr>ws_telemetry := x\<rparr>)" for x by (auto intro!: delivered_step)
    then show ?thesis by (auto simp: delivered_job_def split: prod.split sum.split)
  qed
  with Some show ?thesis unfolding record_detector_def Let_def by (auto intro!: delivered_step)
qed (simp add: record_detector_def)

lemma audit_job [simp]: "delivered_job d (snd (audit_operation env d' a out e w)) = delivered_job d w"
  by (simp add: audit_operation_def)

lemma degrade_job [simp]: "delivered_job d (snd (degrade env d' a code w)) = delivered_job d w"
  by (simp add: degrade_def split: option.split)

section \<open>Moving it\<close>

lemma move_job_effect:
  assumes "move_job env d st e n diag w = (Inr u, w')"
  obtains state now av q where "job_state_of st = Some state" and "delivered_job d w = Some q"
    and "delivered_job d w' = Some (transitioned state e diag now av q)"
proof -
  let ?t = "jm_tenant_id (dl_message d)" and ?j = "jm_job_id (dl_message d)"
  obtain r s' where tr: "transition_job (wbase env) ?t ?j st e (seconds n) diag (ws_store w) = (r, s')" by fastforce
  with assms obtain x where w': "ws_store w' = s'" and r: "r = Inr x"
    by (auto simp: move_job_def in_store_def and_then_eq)
  from tr [unfolded r] show thesis
  proof (rule transition_succeeds)
    fix state q av
    assume state: "job_state_of st = Some state" and q: "select_row (job_is ?t ?j) (vs_jobs (ws_store w)) = Some q"
      and rows: "vs_jobs s' = update_rows (job_is ?t ?j) (transitioned state e diag (clock_at (wbase env) (ws_store w)) av) (vs_jobs (ws_store w))"
    from q have "delivered_job d w' = Some (transitioned state e diag (clock_at (wbase env) (ws_store w)) av q)"
      using select_row_Some [OF q] by (simp add: delivered_job_def w' rows select_job_update)
    with state q show thesis by (intro that) (simp_all add: delivered_job_def)
  qed
qed

lemma moved: "move_job env d st e n diag w = (Inr u, w') \<Longrightarrow> st \<noteq> ''failed'' \<Longrightarrow> st \<noteq> ''running'' \<Longrightarrow> settled d st w'"
  by (erule move_job_effect) (auto simp: settled_def transitioned_def dest: job_state_of_text)

lemma dead_lettered_effect:
  assumes "in_store (mark_dead_lettered (wbase env) (jm_tenant_id (dl_message d)) (jm_job_id (dl_message d))) w = (Inr u, w')"
    and "delivered_job d w = Some q" and "jb_state q = Failed"
  shows "settled d ''failed'' w'"
proof -
  have "\<exists>now. vs_jobs (ws_store w') = update_rows (\<lambda>r. job_is (jm_tenant_id (dl_message d)) (jm_job_id (dl_message d)) r \<and> jb_state r = Failed)
       (\<lambda>r. r\<lparr>jb_dead_lettered_at := Some now, jb_updated_at := now\<rparr>) (vs_jobs (ws_store w))"
    using assms(1)
    by (auto simp: in_store_def mark_dead_lettered_def video_now_def raise_if_def Let_def split: prod.split_asm if_split_asm)
  moreover have "job_is (jm_tenant_id (dl_message d)) (jm_job_id (dl_message d)) q"
    using assms(2) select_row_Some by (fastforce simp: delivered_job_def)
  ultimately show ?thesis
    using assms(2,3) by (auto simp: settled_def delivered_job_def select_job_update same_job_changes)
qed

lemma settled_kept: "delivered_job d w' = delivered_job d w \<Longrightarrow> settled d st w \<Longrightarrow> settled d st w'"
  by (simp add: settled_def)

lemma failed:
  assumes "fail_job env d a code diag w = (Inr u, w')"
  shows "settled d ''failed'' w'"
proof -
  from assms obtain u1 w1 u2 w2 u3 w3 where move: "move_job env d ''failed'' (Some code) 0 diag w = (Inr u1, w1)"
    and asset: "(if jm_operation (dl_message d) \<in> {''upload'', ''index'', ''analyze''}
                then in_store (update_asset_status (wbase env) (jm_tenant_id (dl_message d)) a ''failed'' (Some code)) w1
                else (Inr (), w1)) = (Inr u2, w2)"
    and dead: "in_store (mark_dead_lettered (wbase env) (jm_tenant_id (dl_message d)) (jm_job_id (dl_message d))) w2 = (Inr u3, w3)"
    and audit: "audit_operation env d a ''failure'' (Some code) w3 = (Inr u, w')"
    by (auto simp: fail_job_def Let_def and_then_eq simp del: audit_job)
  from move obtain q where q: "delivered_job d w1 = Some q" "jb_state q = Failed"
    by (rule move_job_effect) (auto simp: transitioned_def job_state_of_def)
  have kept: "delivered_job d (snd (if b then in_store (update_asset_status ienv t a ''failed'' (Some code)) w1 else (Inr (), w1))) =
      delivered_job d w1" for b ienv t by simp
  have "delivered_job d w2 = delivered_job d w1"
    using kept [of "jm_operation (dl_message d) \<in> {''upload'', ''index'', ''analyze''}" "wbase env" "jm_tenant_id (dl_message d)"]
    unfolding asset snd_conv .
  with q have "delivered_job d w2 = Some q" by simp
  from dead_lettered_effect [OF dead this q(2)] show ?thesis
    using audit_job [of d env d a "''failure''" "Some code" w3] audit by (auto intro: settled_kept)
qed

section \<open>The branches\<close>

definition answered :: "job_delivery \<Rightarrow> (vexn, worker_result, 'b worker_state) outcome \<Rightarrow> bool" where
  "answered d result \<longleftrightarrow> (case result of (Inl e, w) \<Rightarrow> True | (Inr r, w) \<Rightarrow> settled d (wr_state r) w)"

lemma answered_Inl [simp]: "answered d (Inl e, w)"
  by (simp add: answered_def)

lemma answered_step:
  assumes "settled d st w" and "delivered_job d (snd r) = delivered_job d w" and "\<And>x u. settled d st u \<Longrightarrow> answered d (k x u)"
  shows "answered d (and_then r k)"
  using assms settled_kept [of d "snd r" w st] by (cases r; cases "fst r") auto

lemma ends_answered:
  "settled d ''failed'' w \<Longrightarrow> answered d (dead_letter env d code w)"
  "settled d ''retry'' w \<Longrightarrow> answered d (give_back env d n code w)"
  unfolding dead_letter_def give_back_def by (rule answered_step; simp add: answered_def worker_result_of_def)+

lemma then_answered:
  assumes "\<And>x u. r = (Inr x, u) \<Longrightarrow> answered d (k x u)"
  shows "answered d (and_then r k)"
  using assms by (cases r; cases "fst r") auto

lemma out_of_attempts_answered: "answered d (out_of_attempts env d q w)"
  unfolding out_of_attempts_def Let_def
  by (rule then_answered, drule failed, rule answered_step, assumption, simp, erule ends_answered)

lemma still_indexing_answered: "answered d (still_indexing env cfg d q w)"
proof (cases "jb_max_attempts q \<le> jb_attempts q")
  case True
  then show ?thesis
    unfolding still_indexing_def if_P [OF True]
    by (intro then_answered [of "fail_job env d (jb_asset_id q) ''reka_index_timeout'' [] w"])
      (drule failed, rule answered_step, assumption, simp, erule ends_answered)
next
  case False
  show ?thesis
    unfolding still_indexing_def if_not_P [OF False]
    by (rule then_answered, drule moved, simp, simp, erule ends_answered)
qed

lemma start_next_settled:
  assumes "settled d st w" and "start_next env cfg d a w = (Inr u, w')"
  shows "settled d st w'"
proof -
  have "delivered_job d (snd (in_store (enqueue_job ienv t a op m k) w)) = delivered_job d w" for ienv t a op m k
  proof -
    from assms(1) obtain q where "delivered_job d w = Some q" by (auto simp: settled_def)
    then show ?thesis
      using enqueue_rows [of ienv t a op m k "ws_store w"] by (auto simp: delivered_job_def in_store_jobs select_append)
  qed
  then have "delivered_job d (snd (start_next env cfg d a w)) = delivered_job d w"
    unfolding start_next_def by (auto intro!: delivered_step split: option.split)
  with assms show ?thesis by (auto intro: settled_kept)
qed

lemma operation_done_answered: "answered d (operation_done env cfg d q w)"
  unfolding operation_done_def Let_def
  by (rule then_answered, drule moved, simp, simp, rule answered_step, assumption, simp, rule answered_step, assumption, simp,
      rule answered_step, assumption, simp, rule then_answered, drule start_next_settled, assumption,
      simp add: answered_def worker_result_of_def)

section \<open>The handler\<close>

text \<open>A job that was final before is left as it is, and reported as it is.\<close>

definition left_final :: "job_delivery \<Rightarrow> 'b worker_state \<Rightarrow> (vexn, worker_result, 'b worker_state) outcome \<Rightarrow> bool" where
  "left_final d w result \<longleftrightarrow> (\<exists>q r w'. result = (Inr r, w') \<and> delivered_job d w = Some q \<and> delivered_job d w' = Some q \<and>
     jb_state q \<in> {Completed, Failed, Cancelled} \<and> wr_state r = state_text (jb_state q))"

lemma claim_and_run_answered: "answered d (claim_and_run env cfg d w)"
  unfolding claim_and_run_def Let_def
  by (intro then_answered) (auto intro: still_indexing_answered operation_done_answered)

lemma job_found: "delivered_job d w = Some q \<Longrightarrow> in_store (get_job (jm_tenant_id (dl_message d)) (jm_job_id (dl_message d))) w = (Inr q, w)"
  by (simp add: delivered_job_def get_job_def in_store_def)

lemma job_missing: "delivered_job d w = None \<Longrightarrow>
    in_store (get_job (jm_tenant_id (dl_message d)) (jm_job_id (dl_message d))) w = (Inl (pipeline ''job_not_found''), w)"
  by (simp add: delivered_job_def get_job_def in_store_def)

lemma handle_body_answered: "answered d (handle_body env cfg d w) \<or> left_final d w (handle_body env cfg d w)"
proof (cases "delivered_job d w")
  case None
  then show ?thesis by (simp add: handle_body_def job_missing Let_def)
next
  case (Some q)
  have acked: "answered d (and_then (in_broker f w) (\<lambda>_ w. (Inr r, w))) \<or>
      left_final d w (and_then (in_broker f w) (\<lambda>_ w. (Inr r, w)))"
    if "jb_state q \<in> {Completed, Failed, Cancelled}" "wr_state r = state_text (jb_state q)" for f r
    using that Some in_broker_job [of d f w]
    by (cases "in_broker f w"; cases "fst (in_broker f w)") (auto simp: left_final_def)
  show ?thesis
  proof (cases "jb_operation q = jm_operation (dl_message d)")
    case False
    then show ?thesis by (simp add: handle_body_def Let_def job_found [OF Some] raise_if_def)
  next
    case same: True
    show ?thesis
    proof (cases "jb_state q \<in> {Completed, Failed, Cancelled}")
      case True
      note acked = acked [OF True]
      from True same show ?thesis
        by (elim insertE emptyE) (simp_all add: handle_body_def Let_def job_found [OF Some] raise_if_def acked worker_result_of_def)
    next
      case False
      have "answered d (handle_body env cfg d w)"
        using same False unfolding handle_body_def Let_def job_found [OF Some] and_then_Inr
        by (auto simp: raise_if_def intro!: then_answered out_of_attempts_answered claim_and_run_answered)
      then show ?thesis ..
    qed
  qed
qed

lemma handle_classified_answered:
  assumes "code \<notin> {''job_not_claimable'', ''job_lease_lost''}"
  shows "answered d (handle_classified env d code r diag w) \<or>
    (\<forall>x u. handle_classified env d code r diag w = (Inr x, u) \<longrightarrow> delivered_job d u = None \<and> wr_state x = ''failed'')"
proof (cases "delivered_job d w")
  case None
  have "delivered_job d u = None" if "in_broker f w = (x, u)" for f x u
    using None in_broker_job [of d f w] that by simp
  with None assms show ?thesis
    by (auto simp: handle_classified_def job_missing dead_letter_def and_then_eq worker_result_of_def)
next
  case (Some q)
  have "answered d (and_then (move_job env d ''retry'' (Some code) n diag w) (\<lambda>_ w.
      and_then (audit_operation env d a ''failure'' (Some code) w) (\<lambda>_ w.
      and_then (degrade env d a code w) (\<lambda>_ w. give_back env d n code w))))" for a n
    by (rule then_answered, drule moved, simp, simp, rule answered_step, assumption, simp, rule answered_step, assumption, simp, erule ends_answered)
  moreover have "answered d (and_then (fail_job env d a code diag w) (\<lambda>_ w.
      and_then (degrade env d a code w) (\<lambda>_ w. dead_letter env d code w)))" for a
    by (rule then_answered, drule failed, rule answered_step, assumption, simp, erule ends_answered)
  ultimately show ?thesis using assms by (simp add: handle_classified_def job_found [OF Some])
qed

lemma handle_unexpected_answered: "answered d (handle_unexpected env d w)"
proof -
  let ?m = "jm_tenant_id (dl_message d)" and ?j = "jm_job_id (dl_message d)"
  obtain r u where ru: "and_then (move_job env d ''failed'' (Some ''worker_unexpected_error'') 0 [] w)
      (\<lambda>_ w. in_store (mark_dead_lettered (wbase env) ?m ?j) w) = (r, u)" by fastforce
  show ?thesis
  proof (cases r)
    case (Inl e)
    then show ?thesis unfolding handle_unexpected_def Let_def ru by (auto intro: then_answered)
  next
    case (Inr x)
    with ru obtain y v where move: "move_job env d ''failed'' (Some ''worker_unexpected_error'') 0 [] w = (Inr y, v)"
      and dead: "in_store (mark_dead_lettered (wbase env) ?m ?j) v = (Inr x, u)" by (auto simp: and_then_eq)
    from move obtain q where "delivered_job d v = Some q" "jb_state q = Failed"
      by (rule move_job_effect) (auto simp: transitioned_def job_state_of_def)
    from dead_lettered_effect [OF dead this] have "settled d ''failed'' u" .
    with Inr show ?thesis
      unfolding handle_unexpected_def Let_def ru prod.case
      by (intro answered_step) (simp_all add: answered_def worker_result_of_def)
  qed
qed

section \<open>A job that is final, or runs\<close>

lemma final_untouched:
  assumes "delivered_job d w = Some q" and "jb_state q \<in> {Completed, Failed, Cancelled}" and "jb_operation q = jm_operation (dl_message d)"
    and "jo_acknowledge (we_broker env) d (ws_broker w) = (Inr u, b)"
  shows "handle env cfg d w = (Inr (worker_result_of d (state_text (jb_state q))
      (if jb_state q = Completed then None else jb_last_error_code q)), w\<lparr>ws_broker := b\<rparr>)"
  using assms(2-4)
  by (elim insertE emptyE) (simp_all add: handle_def handle_body_def Let_def job_found [OF assms(1)] raise_if_def in_broker_def)

lemma running_untouched:
  assumes "delivered_job d w = Some q" and "jb_state q = Running" and "jb_operation q = jm_operation (dl_message d)"
    and "jobs_ok (vs_jobs (ws_store w))" and "1 \<le> wk_lease_seconds cfg"
    and "handle env cfg d w = (Inr r, w')"
  shows "wr_state r = ''retry'' \<and> delivered_job d w' = Some q"
proof -
  let ?t = "jm_tenant_id (dl_message d)" and ?j = "jm_job_id (dl_message d)"
  let ?claim = "claim_job (wbase env) ?t ?j (wk_worker_id cfg) (wk_lease_seconds cfg)"
  have q: "select_row (job_is ?t ?j) (vs_jobs (ws_store w)) = Some q" using assms(1) by (simp add: delivered_job_def)
  have "\<not> (job_is ?t ?j x \<and> claimable now x)" if "x \<in> set (vs_jobs (ws_store w))" for x now
    using job_row_unique [OF assms(4) that, of q ?t ?j] select_row_Some [OF q] assms(2) by (auto simp: claimable_def)
  then have none: "count_rows (\<lambda>r. job_is ?t ?j r \<and> claimable now r) (vs_jobs (ws_store w)) = 0" for now
    by (simp add: count_rows_def filter_empty_conv)
  have keep: "update_rows p f (vs_jobs s) = vs_jobs s" if "count_rows p (vs_jobs s) = 0" for p f s
    using that by (auto simp: update_rows_def count_rows_def filter_empty_conv intro: map_idI)
  have "fst (?claim (ws_store w)) = Inl (pipeline ''job_not_claimable'')"
    using none assms(5) by (simp add: claim_job_def video_now_def Let_def raise_if_def)
  moreover have "vs_jobs (snd (?claim (ws_store w))) = vs_jobs (ws_store w)"
    using claim_rows [of "wbase env" ?t ?j "wk_worker_id cfg" "wk_lease_seconds cfg" "ws_store w"] keep [OF none] by simp
  ultimately obtain v where claim: "in_store ?claim w = (Inl (pipeline ''job_not_claimable''), v)" and v: "delivered_job d v = Some q"
    using assms(1) by (cases "?claim (ws_store w)") (auto simp: in_store_def delivered_job_def)
  have "handle_body env cfg d w = (Inl (pipeline ''job_not_claimable''), v)"
    using assms(2,3) claim
    by (simp add: handle_body_def Let_def job_found [OF assms(1)] raise_if_def claim_and_run_def index_pending_def)
  then have h: "give_back env d 1 ''job_not_claimable'' v = (Inr r, w')"
    using assms(6) by (simp add: handle_def handle_classified_def)
  then have "wr_state r = ''retry''" by (auto simp: give_back_def and_then_eq worker_result_of_def)
  moreover have "delivered_job d (snd (give_back env d n code v)) = Some q" for n code
    using v unfolding give_back_def by (auto intro!: delivered_step [THEN trans])
  with h have "delivered_job d w' = Some q" by (metis snd_conv)
  ultimately show ?thesis by simp
qed

text \<open>The body gave the job up to another worker: the claim was refused, or the lease lost.\<close>

definition gave_up :: "'b job_worker_env \<Rightarrow> worker_config \<Rightarrow> job_delivery \<Rightarrow> 'b worker_state \<Rightarrow> bool" where
  "gave_up env cfg d w \<longleftrightarrow>
     (case fst (handle_body env cfg d w) of
        Inl (Pipeline code retryable diag) \<Rightarrow> code \<in> {''job_not_claimable'', ''job_lease_lost''}
      | _ \<Rightarrow> False)"

lemma gave_up_left:
  assumes "gave_up env cfg d w" and "handle env cfg d w = (Inr r, w')"
  shows "wr_state r = ''retry'' \<and> delivered_job d w' = delivered_job d (snd (handle_body env cfg d w))"
proof -
  obtain code retryable diag v where body: "handle_body env cfg d w = (Inl (Pipeline code retryable diag), v)"
    and code: "code \<in> {''job_not_claimable'', ''job_lease_lost''}"
    using assms(1) by (cases "handle_body env cfg d w") (auto simp: gave_up_def split: sum.split_asm vexn.split_asm)
  with assms(2) have h: "give_back env d 1 code v = (Inr r, w')" by (auto simp: handle_def handle_classified_def)
  have "delivered_job d (snd (give_back env d 1 code v)) = delivered_job d v"
    unfolding give_back_def by (auto intro!: delivered_step)
  moreover from h have "wr_state r = ''retry''" by (auto simp: give_back_def and_then_eq worker_result_of_def)
  ultimately show ?thesis using h body by simp
qed

text \<open>
  C37. When a worker has handled a delivery, the answer it returns is the state of the job: completed,
  given back for a retry, or failed and dead-lettered, and not running. The one exception is a job it
  could not claim or whose lease it lost: the answer is then \<open>retry\<close>, whatever the state, and the
  handling of that error does not touch the job. In particular a job that runs, under any worker, is
  left as it is and the delivery given back; and a job that was final before is left as it is and its
  state reported, provided the delivery can be acknowledged.
\<close>

lemma answer_is_the_job_state:
  assumes "handle env cfg d w = (Inr r, w')"
  shows "(if gave_up env cfg d w
      then wr_state r = ''retry'' \<and> delivered_job d w' = delivered_job d (snd (handle_body env cfg d w))
      else settled d (wr_state r) w' \<or> left_final d w (Inr r, w') \<or> (delivered_job d w' = None \<and> wr_state r = ''failed'')) \<and>
    (\<forall>q. delivered_job d w = Some q \<and> jb_operation q = jm_operation (dl_message d) \<longrightarrow>
      (jb_state q = Running \<and> jobs_ok (vs_jobs (ws_store w)) \<and> 1 \<le> wk_lease_seconds cfg \<longrightarrow>
         wr_state r = ''retry'' \<and> delivered_job d w' = Some q) \<and>
      (jb_state q \<in> {Completed, Failed, Cancelled} \<and> (\<exists>u b. jo_acknowledge (we_broker env) d (ws_broker w) = (Inr u, b)) \<longrightarrow>
         wr_state r = state_text (jb_state q) \<and> delivered_job d w' = Some q))"
proof -
  obtain x v where body: "handle_body env cfg d w = (x, v)" by fastforce
  have "settled d (wr_state r) w' \<or> left_final d w (Inr r, w') \<or> (delivered_job d w' = None \<and> wr_state r = ''failed'')"
    if kept: "\<not> gave_up env cfg d w"
  proof (cases x)
    case (Inr y)
    with body assms handle_body_answered [of d env cfg w] show ?thesis by (auto simp: handle_def answered_def)
  next
    case (Inl e)
    show ?thesis
    proof (cases e)
      case (Pipeline code retryable diag)
      with body Inl assms have h: "handle_classified env d code retryable diag v = (Inr r, w')" by (simp add: handle_def)
      have "code \<notin> {''job_not_claimable'', ''job_lease_lost''}" using kept body Inl Pipeline by (simp add: gave_up_def)
      from handle_classified_answered [OF this, of d env retryable diag v] h show ?thesis by (auto simp: answered_def)
    qed (use body Inl assms handle_unexpected_answered [of d env v] in \<open>auto simp: handle_def answered_def\<close>)
  qed
  moreover have "wr_state r = state_text (jb_state q) \<and> delivered_job d w' = Some q"
    if "delivered_job d w = Some q" "jb_operation q = jm_operation (dl_message d)" "jb_state q \<in> {Completed, Failed, Cancelled}"
      "jo_acknowledge (we_broker env) d (ws_broker w) = (Inr u, b)" for q u b
    using final_untouched [OF that(1,3,2,4), of cfg] assms that(1) by (auto simp: worker_result_of_def delivered_job_def)
  ultimately show ?thesis using gave_up_left [OF _ assms] running_untouched [OF _ _ _ _ _ assms] by auto
qed

end
