(* ===== verification/Video_Retention.thy ===== *)
theory Video_Retention
  imports Video_Frames
begin

text \<open>
  What retention erases: an asset it reports is gone at the provider, on disk and in the registry; and
  the two cases in which it never erases anything.
\<close>

text \<open>The tables of the media, and the number of calls made to the provider.\<close>

definition media_tables :: "video_store \<Rightarrow> asset_row list \<times> mapping_row list \<times> (string \<times> media_file) list \<times> nat" where
  "media_tables s = (vs_assets s, vs_mappings s, vs_files s, vs_calls s)"

interpretation media_part: job_frame media_tables
  by unfold_locales (simp_all add: media_tables_def)

section \<open>A deletion that succeeds\<close>

text \<open>
  The asset is marked deleted, its remote video recorded as deleted and its file not there; and, if it
  was not recorded so before, the one call made to the provider in between was its deletion, which
  returned.
\<close>

definition erased :: "video_env \<Rightarrow> string \<Rightarrow> string \<Rightarrow> video_store \<Rightarrow> bool" where
  "erased env t a s \<longleftrightarrow>
     (\<exists>r. select_row (asset_is t a) (vs_assets s) = Some r \<and> member (as_payload r) ''status'' = Some (JStr ''deleted'') \<and>
        file_at (ve_resolve env (ve_resolve env (as_local_path r))) s = None) \<and>
     (\<exists>m. get_mapping t a s = Some m \<and> mp_remote_deleted_at m \<noteq> None)"

definition asked_provider :: "video_env \<Rightarrow> mapping_row \<Rightarrow> video_store \<Rightarrow> video_store \<Rightarrow> bool" where
  "asked_provider env m s s' \<longleftrightarrow>
     (if mp_remote_deleted_at m = None then vs_calls s' = Suc (vs_calls s) \<and> ve_delete env (vs_calls s) (mp_reka_video_id m) = None
      else vs_calls s' = vs_calls s)"

lemma erased_media: "media_tables s' = media_tables s \<Longrightarrow> erased env t a s' = erased env t a s"
  by (simp add: erased_def media_tables_def get_mapping_def file_at_def)

lemma remote_deletion:
  assumes "get_mapping t a s = Some m"
    and "(if mp_remote_deleted_at m = None
          then and_then (provider_call (\<lambda>n. case ve_delete env n (mp_reka_video_id m) of None \<Rightarrow> Inr () | Some e \<Rightarrow> Inl e) s)
            (\<lambda>_ s. mark_remote_deleted ienv t a s) else (Inr (), s)) = (Inr u, s')"
  shows "asked_provider env m s s' \<and> (\<exists>m'. get_mapping t a s' = Some m' \<and> mp_remote_deleted_at m' \<noteq> None) \<and> vs_assets s' = vs_assets s \<and> vs_files s' = vs_files s"
proof (cases "mp_remote_deleted_at m")
  case None
  with assms(2) obtain now where s': "vs_mappings s' = update_rows (mapping_is t a)
      (\<lambda>r. r\<lparr>mp_remote_deleted_at := Some now, mp_updated_at := now\<rparr>) (vs_mappings s)"
    and kept: "vs_assets s' = vs_assets s" "vs_files s' = vs_files s"
      "vs_calls s' = Suc (vs_calls s)" "ve_delete env (vs_calls s) (mp_reka_video_id m) = None"
    by (auto simp: provider_call_def lift_def and_then_eq mark_remote_deleted_def video_now_eq_ticked split: option.split_asm)
  have "select_row (mapping_is t a) (vs_mappings s') =
      map_option (\<lambda>r. if mapping_is t a r then r\<lparr>mp_remote_deleted_at := Some now, mp_updated_at := now\<rparr> else r)
        (select_row (mapping_is t a) (vs_mappings s))"
    unfolding s' by (rule select_update) (simp add: mapping_is_def)
  with assms(1) select_row_Some [of "mapping_is t a" "vs_mappings s" m] kept None
  show ?thesis by (simp add: get_mapping_def asked_provider_def)
next
  case (Some now)
  with assms show ?thesis by (auto simp: asked_provider_def)
qed

lemma status_written:
  assumes "select_row (asset_is t a) (vs_assets s) = Some r" and "text_member (as_payload r) ''tenant_id'' = Some t"
    and "text_member (as_payload r) ''asset_id'' = Some a"
    and "update_asset_status ienv t a st e s = (Inr u, s')"
  shows "select_row (asset_is t a) (vs_assets s') = Some (r\<lparr>as_payload := with_status st e (as_payload r)\<rparr>) \<and>
    vs_mappings s' = vs_mappings s \<and> vs_files s' = vs_files s \<and> vs_calls s' = vs_calls s"
proof -
  have found: "list_ex (asset_is t a) (vs_assets s)" using select_row_Some [OF assms(1)] by (auto simp: list_ex_iff)
  with assms have rows: "vs_assets s' = update_rows (asset_is t a) (\<lambda>r'. r'\<lparr>as_payload := with_status st e (as_payload r)\<rparr>) (vs_assets s)"
    and kept: "vs_mappings s' = vs_mappings s" "vs_files s' = vs_files s" "vs_calls s' = vs_calls s"
    by (auto simp: update_asset_status_def get_asset_def asset_path_def put_asset_def text_item_def fetch_def text_member_with_status
        video_now_eq_ticked raise_if_def upsert_row_def split: option.split_asm)
  have "select_row (asset_is t a) (vs_assets s') =
      map_option (\<lambda>r'. if asset_is t a r' then r'\<lparr>as_payload := with_status st e (as_payload r)\<rparr> else r') (select_row (asset_is t a) (vs_assets s))"
    unfolding rows by (rule select_update) (simp add: asset_is_def)
  with assms(1) select_row_Some [OF assms(1)] kept show ?thesis by simp
qed

lemma delete_erases:
  assumes row: "select_row (asset_is t a) (vs_assets s) = Some r" and names: "text_member (as_payload r) ''tenant_id'' = Some t"
      "text_member (as_payload r) ''asset_id'' = Some a"
    and run: "execute_operation env svc t a ''delete'' s = (Inr v, s')"
  shows "erased env t a s' \<and> (\<exists>m. get_mapping t a s = Some m \<and> asked_provider env m s s')"
proof -
  from row have "get_asset t a s = (Inr (as_payload r), s)" by (simp add: get_asset_def)
  with run obtain m where m: "get_mapping t a s = Some m" and del: "execute_delete env svc t a m s = (Inr v, s')"
    by (auto simp: execute_operation_def execute_def raise_if_def split: option.split_asm)
  from del obtain u1 s1 ref s2 u3 s3 u4 where
    remote: "(if mp_remote_deleted_at m = None
        then and_then (provider_call (\<lambda>n. case ve_delete env n (mp_reka_video_id m) of None \<Rightarrow> Inr () | Some e \<Rightarrow> Inl e) s)
          (\<lambda>_ s. mark_remote_deleted (ve_base env) t a s) else (Inr (), s)) = (Inr u1, s1)"
    and ref: "asset_storage_ref env t a s1 = (Inr ref, s2)" and media: "delete_media env svc ref s2 = (Inr u3, s3)"
    and status: "update_asset_status (ve_base env) t a ''deleted'' None s3 = (Inr u4, s')"
    unfolding execute_delete_def by (elim and_then_InrE) auto
  note r1 = remote_deletion [OF m remote]
  from ref r1 row have ref': "s2 = s1" "ref = ''file://'' @ ve_resolve env (as_local_path r)"
    by (auto simp: asset_storage_ref_def asset_path_def and_then_eq)
  with media have s3: "s3 = s1\<lparr>vs_files := filter (\<lambda>(p, f). p \<noteq> ve_resolve env (ve_resolve env (as_local_path r))) (vs_files s1)\<rparr>"
    by (auto simp: delete_media_def materialize_def raise_if_def and_then_eq Let_def split: if_split_asm)
  have "select_row (asset_is t a) (vs_assets s3) = Some r" using r1 row by (simp add: s3)
  note written = status_written [OF this names status]
  have "map_of (filter (\<lambda>(p, f). p \<noteq> x) xs) x = None" for x and xs :: "(string \<times> media_file) list"
    by (induction xs) auto
  then have "file_at (ve_resolve env (ve_resolve env (as_local_path r))) s' = None"
    using written by (simp add: file_at_def s3)
  moreover have "\<exists>m'. get_mapping t a s' = Some m' \<and> mp_remote_deleted_at m' \<noteq> None"
    using r1 written by (auto simp: get_mapping_def s3)
  ultimately have "erased env t a s'" using written by (auto simp: erased_def member_with_status)
  moreover have "asked_provider env m s s'" using r1 written by (simp add: asked_provider_def s3)
  ultimately show ?thesis using m by blast
qed

section \<open>What retention does with an asset\<close>

text \<open>The job of an earlier deletion of the asset is completed.\<close>

definition deletion_done :: "string \<Rightarrow> string \<Rightarrow> video_store \<Rightarrow> bool" where
  "deletion_done t a s \<longleftrightarrow>
     (case select_row (\<lambda>r. jb_tenant_id r = t \<and> jb_idempotency_key r = a @ '':'' @ ''delete'') (vs_jobs s) of
        Some j \<Rightarrow> jb_state j = Completed
      | None \<Rightarrow> False)"

lemma done_again:
  assumes "deletion_done t a s"
  shows "retire_asset env svc t a s = (Inr [], ticked s)"
  using assms
  by (auto simp: deletion_done_def retire_asset_def enqueue_job_def video_now_eq_ticked Let_def split: option.split_asm)

definition deletion_run :: "video_env \<Rightarrow> video_service \<Rightarrow> string \<Rightarrow> string \<Rightarrow> string \<Rightarrow> string list video_op" where
  "deletion_run env svc t a j s =
     and_then (execute_operation env svc t a ''delete'' s) (\<lambda>_ s.
     and_then (transition_job (ve_base env) t j ''completed'' None 0 [] s) (\<lambda>_ s.
     and_then (audit_log (ve_base env) t ''reka.delete'' ''asset'' a ''success'' None s) (\<lambda>_ s. (Inr [a], s))))"

lemma retire_asset_run:
  assumes "retire_asset env svc t a s = (Inr ds, s')"
  obtains "ds = []" and "media_tables s' = media_tables s"
  | u j where "media_tables u = media_tables s" and "deletion_run env svc t a j u = (Inr ds, s')"
  | u j e v where "media_tables u = media_tables s" and "deletion_run env svc t a j u = (Inl e, v)" and "ds = []"
      and "media_tables s' = media_tables v"
proof -
  obtain r s1 where enq: "enqueue_job (ve_base env) t a ''delete'' 5 None s = (r, s1)" by fastforce
  then have s1: "media_tables s1 = media_tables s"
    using media_part.job_methods(1) [of "ve_base env" t a "''delete''" 5 None s] by simp
  from assms enq obtain job where r: "r = Inr job" by (cases r) (auto simp: retire_asset_def)
  show thesis
  proof (cases "jb_state job = Completed")
    case True
    with assms enq r s1 that(1) show thesis by (auto simp: retire_asset_def)
  next
    case False
    obtain q s2 where move: "transition_job (ve_base env) t (jb_job_id job) ''running'' None 0 [] s1 = (q, s2)" by fastforce
    then have s2: "media_tables s2 = media_tables s"
      using s1 media_part.job_methods(2) [of "ve_base env" t "jb_job_id job" "''running''" None 0 "[]" s1] by simp
    from assms enq r False move obtain job' where q: "q = Inr job'" by (cases q) (auto simp: retire_asset_def)
    obtain x v where run: "deletion_run env svc t a (jb_job_id job') s2 = (x, v)" by fastforce
    have settle: "media_tables s' = media_tables v" "ds = []"
      if "settle_deletion env t a j code retryable d v = (Inr ds, s')" for j code retryable d
    proof -
      have "media_tables (snd (settle_deletion env t a j code retryable d v)) = media_tables v"
        unfolding settle_deletion_def Let_def by (auto intro!: media_part.step)
      with that show "media_tables s' = media_tables v" by simp
      from that show "ds = []" by (auto simp: settle_deletion_def and_then_eq Let_def)
    qed
    from assms enq r False move q have res: "(case (x, v) of
         (Inl (Pipeline code retryable d), s) \<Rightarrow> settle_deletion env t a (jb_job_id job') code retryable d s
       | (Inl (Failure name), s) \<Rightarrow>
           if name = ''OSError'' then settle_deletion env t a (jb_job_id job') ''local_retention_failed'' True [] s
           else (Inl (Failure name), s)
       | r \<Rightarrow> r) = (Inr ds, s')"
      unfolding run [symmetric] by (simp add: retire_asset_def deletion_run_def)
    show thesis
    proof (cases x)
      case (Inl e)
      with res settle have "ds = []" "media_tables s' = media_tables v" by (auto split: vexn.split_asm if_split_asm)
      with that(3) s2 run Inl show thesis by blast
    next
      case (Inr y)
      with res that(2) s2 run show thesis by simp
    qed
  qed
qed

lemma without_mapping: "get_mapping t a u = None \<Longrightarrow> \<exists>e. deletion_run env svc t a j u = (Inl e, u)"
  by (auto simp: deletion_run_def execute_operation_def execute_def raise_if_def get_asset_def split: option.split)

text \<open>
  C38. Retention reports an asset as deleted only when it is: marked deleted, its file gone and its
  remote video deleted, for unless it was deleted before the provider was asked once, to delete that
  video, and did. But an asset that was deleted before and accepted again, and an asset that was never
  uploaded to the provider, are never deleted: nothing is asked of the provider and their media stays,
  however long ago it expired.
\<close>

lemma retention_deletes_what_it_reports:
  assumes "retire_asset env svc t a s = (Inr ds, s')" and "select_row (asset_is t a) (vs_assets s) = Some r"
    and "text_member (as_payload r) ''tenant_id'' = Some t" and "text_member (as_payload r) ''asset_id'' = Some a"
  shows "(ds = [] \<or> ds = [a] \<and> erased env t a s' \<and>
      (\<exists>m. get_mapping t a s = Some m \<and>
         (if mp_remote_deleted_at m = None
          then vs_calls s' = Suc (vs_calls s) \<and> ve_delete env (vs_calls s) (mp_reka_video_id m) = None
          else vs_calls s' = vs_calls s))) \<and>
    (deletion_done t a s \<or> get_mapping t a s = None \<longrightarrow> ds = [] \<and> media_tables s' = media_tables s)"
  using assms(1)
proof (rule retire_asset_run)
  assume same: "ds = []" "media_tables s' = media_tables s"
  then show ?thesis by simp
next
  fix u j
  assume u: "media_tables u = media_tables s" and run: "deletion_run env svc t a j u = (Inr ds, s')"
  from run obtain v w where del: "execute_operation env svc t a ''delete'' u = (Inr v, w)" and ds: "ds = [a]"
    and rest: "s' = snd (and_then (transition_job (ve_base env) t j ''completed'' None 0 [] w) (\<lambda>_ s.
      and_then (audit_log (ve_base env) t ''reka.delete'' ''asset'' a ''success'' None s) (\<lambda>_ s. (Inr [a], s))))"
    by (auto simp: deletion_run_def and_then_eq)
  have same: "media_tables s' = media_tables w" unfolding rest by (auto intro!: media_part.step)
  have "select_row (asset_is t a) (vs_assets u) = Some r" using assms(2) u by (simp add: media_tables_def)
  from delete_erases [OF this assms(3,4) del] obtain m where "erased env t a w" and m: "get_mapping t a u = Some m" "asked_provider env m u w"
    by blast
  then have "erased env t a s'" using erased_media [OF same] by blast
  moreover have calls: "vs_calls s' = vs_calls w" using same by (simp add: media_tables_def)
  moreover have "get_mapping t a s = Some m" "asked_provider env m s s'"
    using m u by (auto simp: get_mapping_def media_tables_def asked_provider_def calls split: if_split_asm)
  moreover have "\<not> deletion_done t a s"
    using done_again [of t a s env svc] assms(1) ds by auto
  moreover have "get_mapping t a s \<noteq> None"
    using without_mapping [of t a u env svc j] run u by (auto simp: get_mapping_def media_tables_def)
  ultimately show ?thesis using ds by (simp add: asked_provider_def)
next
  fix u j e v
  assume u: "media_tables u = media_tables s" and run: "deletion_run env svc t a j u = (Inl e, v)"
    and s': "ds = []" "media_tables s' = media_tables v"
  have "media_tables s' = media_tables s" if "deletion_done t a s"
    using done_again [OF that, of env svc] assms(1) by (auto simp: media_tables_def)
  moreover have "media_tables s' = media_tables s" if "get_mapping t a s = None"
    using without_mapping [of t a u env svc j] run u s' that by (auto simp: get_mapping_def media_tables_def)
  ultimately show ?thesis using s' by blast
qed

end
