(* ===== verification/Video_Guarantees.thy ===== *)
theory Video_Guarantees
  imports Video_Candidates Video_Demo Video_Settlement Video_Retention
begin

text \<open>
  Further properties of the pipeline: what an analysis may store, the coverage a forecast is given and
  the messages of the job queues.
\<close>

section \<open>Candidates\<close>

text \<open>
  C35. An analysis that raises changes no candidate. One that returns has made a candidate of every
  proposal of the provider, in their order, except of those past the end of the video, and of at least
  one when there was any; it names the category, the confidence and the instant of the proposal. All of
  them are stored: the table keeps the rows it had and gets one row for each candidate whose identity
  (identifier or semantic key) it did not have, no two of the new rows sharing one. Each new candidate
  has an allowed category, a finite confidence from 0 to 1 and an instant within the video, carries the
  tenant, source and asset of the video, awaits its review and expires no later than the retention of the video.
\<close>

lemma analysis_stores_contained_candidates:
  assumes "get_asset t a s = (Inr asset, s)" and "get_mapping t a s = Some m"
    and "text_member asset ''tenant_id'' = Some t" and "text_member asset ''asset_id'' = Some a"
    and "text_member asset ''source_id'' \<noteq> None"
  shows "case execute env svc t a ''analyze'' s of
      (Inl e, s') \<Rightarrow> vs_candidates s' = vs_candidates s
    | (Inr v, s') \<Rightarrow> \<exists>start end_time media ps cs new.
        map_option parse_video_utc (member asset ''captured_start'') = Some (Inr start) \<and>
        map_option parse_video_utc (member asset ''captured_end'') = Some (Inr end_time) \<and>
        (media = None \<longleftrightarrow> seconds 30 < end_time - start) \<and>
        ve_propose env (vs_calls s) (mp_reka_video_id m) media = Inr (JArr ps) \<and>
        matched asset (end_time - start) ps cs \<and> (cs = [] \<longrightarrow> ps = []) \<and> v = JArr (map (\<lambda>(c, key). JObj c) cs) \<and>
        vs_candidates s' = vs_candidates s @ new \<and> all_stored cs (vs_candidates s) new \<and>
        (\<forall>r \<in> set new. new_candidate env svc asset (mp_reka_video_id m) (vs_candidates s) r)"
proof -
  have run: "execute env svc t a ''analyze'' s = execute_analyze env svc t a asset m s"
    using assms(1,2) by (simp add: execute_def raise_if_def)
  obtain r s' where r: "execute_analyze env svc t a asset m s = (r, s')" by fastforce
  show ?thesis
  proof (cases r)
    case (Inl e)
    with analyze_stores_only [OF assms(1,3-5), of env svc m] r show ?thesis by (auto simp: run stores_only_def)
  next
    case (Inr v)
    from analyze_returns [OF assms(1,3-5), of env svc m v s'] show ?thesis
      unfolding run r Inr prod.case sum.case using r Inr by blast
  qed
qed

lemma analysis_stores_contained_candidates_witness:
  "\<exists>v s' c key r. execute demo_video demo_service_config ''t'' ''a'' ''analyze'' demo_store = (Inr v, s') \<and>
     vs_candidates s' = [r] \<and> v = JArr [JObj c] \<and> cd_payload r = c \<and> contained demo_video demo_service_config demo_asset ''v'' c key"
proof -
  have names: "text_member demo_asset ''tenant_id'' = Some ''t''" "text_member demo_asset ''asset_id'' = Some ''a''"
    "text_member demo_asset ''source_id'' \<noteq> None" by code_simp+
  let ?run = "execute demo_video demo_service_config ''t'' ''a'' ''analyze'' demo_store"
  have "case ?run of (Inr v, s') \<Rightarrow> length (vs_candidates s') = 1 \<and> (case v of JArr vs \<Rightarrow> length vs = 1 | _ \<Rightarrow> False) | _ \<Rightarrow> False" by code_simp
  then obtain v s' where run: "?run = (Inr v, s')" and one: "length (vs_candidates s') = 1" "case v of JArr vs \<Rightarrow> length vs = 1 | _ \<Rightarrow> False"
    by (cases ?run; cases "fst ?run") auto
  have before: "vs_candidates demo_store = []" by (simp add: demo_store_def empty_video_store_def)
  from analysis_stores_contained_candidates [OF demo_asset_stored demo_mapping_stored names, of demo_video demo_service_config,
      unfolded run prod.case sum.case before append_Nil]
  obtain cs new where v: "v = JArr (map (\<lambda>(c, key). JObj c) cs)" and new: "vs_candidates s' = new" "all_stored cs [] new"
    and contained: "\<forall>r \<in> set new. new_candidate demo_video demo_service_config demo_asset (mp_reka_video_id demo_mapping_row) [] r"
    by blast
  from one(1) new(1) obtain r where r: "new = [r]" by (auto simp: length_Suc_conv)
  from one(2) v obtain c key where cs: "cs = [(c, key)]" by (cases cs) (auto simp: length_Suc_conv)
  with new(2) r have "cd_payload r = c" by (simp add: all_stored_def)
  moreover have "contained demo_video demo_service_config demo_asset ''v'' (cd_payload r) (cd_semantic_key r)"
    using contained r by (simp add: new_candidate_def demo_mapping_row_def)
  ultimately show ?thesis using run new(1) r v cs by auto
qed

text \<open>
  A proposal whose offset is beyond every date raises \<open>OverflowError\<close>, which is not classified: the
  valid proposal beside it is lost, where one that merely lies past the end of the video is left out.
\<close>

definition demo_far :: video_env where
  "demo_far = demo_video\<lparr>ve_propose := (\<lambda>_ _ _. Inr (JArr
     [JObj [(''offset_seconds'', JFloat ''2.5''), (''category'', JStr ''other''), (''confidence'', JFloat ''0.75'')],
      JObj [(''offset_seconds'', JFloat ''1e+20''), (''category'', JStr ''other''), (''confidence'', JInt 1)]]))\<rparr>"

lemma far_offset_loses_the_analysis:
  "fst (execute demo_far demo_service_config ''t'' ''a'' ''analyze'' demo_store) = Inl (Failure ''OverflowError'')"
  "vs_candidates (snd (execute demo_far demo_service_config ''t'' ''a'' ''analyze'' demo_store)) = []"
  by code_simp+

section \<open>Coverage\<close>

text \<open>A snapshot as \<open>record_coverage\<close> stores it.\<close>

definition measured :: "payload \<Rightarrow> bool" where
  "measured p \<longleftrightarrow> text_member p ''interval_end'' \<noteq> None \<and>
     (\<exists>expected available. member p ''expected_seconds'' = Some (JInt expected) \<and>
        member p ''detector_available_seconds'' = Some (JInt available) \<and> 0 < expected \<and> 0 \<le> available \<and> available \<le> expected)"

definition coverage_ok :: "video_store \<Rightarrow> bool" where
  "coverage_ok s \<longleftrightarrow> (\<forall>r \<in> set (vs_coverage s). measured (cv_payload r))"

lemma coverage_payload_measured:
  "coverage_ordered q expected \<Longrightarrow> measured (coverage_payload env q start end_time expected now)"
  by (simp add: measured_def coverage_payload_def coverage_ordered_def text_member_def member_def)

lemma put_coverage_ok: "measured p \<Longrightarrow> coverage_ok s \<Longrightarrow> coverage_ok (snd (put_coverage p s))"
  by (auto simp: put_coverage_def text_item_def fetch_def coverage_ok_def upsert_row_def update_rows_def split: option.split)

lemma ok_then:
  assumes "coverage_ok (snd r)" and "\<And>x t. coverage_ok t \<Longrightarrow> coverage_ok (snd (k x t))"
  shows "coverage_ok (snd (and_then r k))"
  using assms by (cases r; cases "fst r") auto

lemma reading_keeps_ok [simp]:
  "coverage_ok (snd (get_source t src s)) = coverage_ok s" "coverage_ok (snd (lift x s)) = coverage_ok s"
  "coverage_ok (snd (raise_if b e s)) = coverage_ok s" "coverage_ok (snd (video_now ienv s)) = coverage_ok s"
  "coverage_ok (snd (contract env name p s)) = coverage_ok s"
  by (simp_all add: get_source_def lift_def raise_if_def raise_opt_def contract_def video_now_eq_ticked ticked_def coverage_ok_def
      split: option.split)

lemma record_coverage_keeps_ok:
  assumes "coverage_ok s"
  shows "coverage_ok (snd (record_coverage env q s))"
proof -
  have checked: "coverage_ok (snd (and_then (raise_if (\<not> coverage_ordered q n) (pipeline ''coverage_duration_invalid'') u) (\<lambda>_ s.
      and_then (video_now (ve_base env) s) (\<lambda>now s.
      and_then (contract env ''coverage-snapshot.schema.json'' (coverage_payload env q start end_time n now) s) (\<lambda>_ s.
      and_then (put_coverage (coverage_payload env q start end_time n now) s) (\<lambda>_ s.
      (Inr (coverage_payload env q start end_time n now), s)))))))" if "coverage_ok u" for n start end_time u
  proof (cases "coverage_ordered q n")
    case True
    note good = coverage_payload_measured [OF True]
    show ?thesis by (intro ok_then) (use that good in \<open>simp_all add: put_coverage_ok\<close>)
  qed (use that in \<open>simp add: raise_if_def\<close>)
  show ?thesis unfolding record_coverage_def Let_def by (intro ok_then checked) (use assms in simp_all)
qed

text \<open>The latest snapshot of a source that ended by \<open>before\<close>: none of the others that did starts later.\<close>

definition ended :: "string \<Rightarrow> payload \<Rightarrow> bool" where
  "ended before p \<longleftrightarrow> (case text_member p ''interval_end'' of Some at_end \<Rightarrow> at_end \<le> before | None \<Rightarrow> False)"

definition source_rows :: "string \<Rightarrow> string \<Rightarrow> video_store \<Rightarrow> coverage_row list" where
  "source_rows t src s = filter (\<lambda>r. cv_tenant_id r = t \<and> cv_source_id r = src) (vs_coverage s)"

definition latest_snapshot :: "string \<Rightarrow> string \<Rightarrow> video_store \<Rightarrow> string \<Rightarrow> payload \<Rightarrow> bool" where
  "latest_snapshot t before s src p \<longleftrightarrow>
     (\<exists>r \<in> set (source_rows t src s). cv_payload r = p \<and> ended before p \<and>
        (\<forall>q \<in> set (source_rows t src s). ended before (cv_payload q) \<longrightarrow> cv_interval_start q \<le> cv_interval_start r))"

definition seconds_in :: "string \<Rightarrow> payload \<Rightarrow> int" where
  "seconds_in k p = (case member p k of Some (JInt n) \<Rightarrow> n | _ \<Rightarrow> 0)"

lemma first_ended_measured: "\<forall>p \<in> set ps. measured p \<Longrightarrow> first_ended before ps s = (Inr (find (ended before) ps), s)"
proof (induction ps)
  case (Cons p ps)
  from Cons.prems obtain e where "text_member p ''interval_end'' = Some e" by (auto simp: measured_def)
  with Cons show ?case by (auto simp: text_item_def fetch_def ended_def)
qed simp

lemma latest_first_rows [simp]: "set (latest_first rows) = set rows"
  by (simp add: latest_first_def)

lemma latest_first_order:
  assumes "i \<le> j" "j < length (latest_first rows)"
  shows "cv_interval_start (latest_first rows ! j) \<le> cv_interval_start (latest_first rows ! i)"
proof -
  have "sorted (rev (map cv_interval_start (latest_first rows)))" by (simp add: latest_first_def rev_map)
  with assms show ?thesis by (simp add: sorted_rev_iff_nth_mono)
qed

lemma found_latest:
  assumes "find (ended before) (map cv_payload (latest_first (source_rows t src s))) = Some p"
  shows "latest_snapshot t before s src p"
proof -
  let ?rows = "latest_first (source_rows t src s)"
  from assms obtain i where i: "i < length ?rows" "ended before (cv_payload (?rows ! i))" "p = cv_payload (?rows ! i)"
    "\<forall>j < i. \<not> ended before (cv_payload (?rows ! j))" by (auto simp: find_Some_iff)
  have "cv_interval_start q \<le> cv_interval_start (?rows ! i)" if q: "q \<in> set (source_rows t src s)" "ended before (cv_payload q)" for q
  proof -
    from q(1) obtain j where j: "j < length ?rows" "?rows ! j = q" using latest_first_rows by (metis in_set_conv_nth)
    with i(4) q(2) have "i \<le> j" by (meson linorder_not_less)
    from latest_first_order [OF this j(1)] j(2) show ?thesis by simp
  qed
  moreover have "?rows ! i \<in> set (source_rows t src s)" using nth_mem [OF i(1)] by simp
  ultimately show ?thesis using i(2,3) unfolding latest_snapshot_def by blast
qed

lemma latest_is_measured: "coverage_ok s \<Longrightarrow> latest_snapshot t before s src p \<Longrightarrow> measured p"
  by (auto simp: coverage_ok_def latest_snapshot_def source_rows_def)

text \<open>What the search over the sources returns.\<close>

definition unmeasured :: "string \<Rightarrow> string \<Rightarrow> video_store \<Rightarrow> string \<Rightarrow> bool" where
  "unmeasured t before s src \<longleftrightarrow> (\<forall>r \<in> set (source_rows t src s). \<not> ended before (cv_payload r))"

lemma latest_snapshots_measured:
  assumes "coverage_ok s"
  shows "if list_ex (unmeasured t before s) srcs then latest_snapshots t srcs before s = (Inl (pipeline ''coverage_missing''), s)
    else \<exists>ps. latest_snapshots t srcs before s = (Inr ps, s) \<and> list_all2 (latest_snapshot t before s) srcs ps"
proof (induction srcs)
  case (Cons src srcs)
  let ?ps = "map cv_payload (latest_first (source_rows t src s))"
  have "\<forall>p \<in> set ?ps. measured p" using assms by (auto simp: coverage_ok_def source_rows_def)
  from first_ended_measured [OF this]
  have step: "latest_snapshots t (src # srcs) before s =
      (case find (ended before) ?ps of
         None \<Rightarrow> (Inl (pipeline ''coverage_missing''), s)
       | Some p \<Rightarrow> and_then (latest_snapshots t srcs before s) (\<lambda>ps s. (Inr (p # ps), s)))"
    by (simp add: source_rows_def)
  have none: "find (ended before) ?ps = None \<longleftrightarrow> unmeasured t before s src"
    by (simp add: find_None_iff unmeasured_def)
  show ?case
  proof (cases "find (ended before) ?ps")
    case None
    with step none show ?thesis by simp
  next
    case (Some p)
    then have "\<not> unmeasured t before s src" "latest_snapshot t before s src p" using none found_latest by auto
    with Cons.IH step Some show ?thesis by (auto split: if_split_asm)
  qed
qed simp

lemma sum_items_measured:
  assumes "\<forall>p \<in> set ps. measured p"
  shows "sum_items ''expected_seconds'' ps s = (Inr (sum_list (map (seconds_in ''expected_seconds'') ps)), s) \<and>
    sum_items ''detector_available_seconds'' ps s = (Inr (sum_list (map (seconds_in ''detector_available_seconds'') ps)), s) \<and>
    0 \<le> sum_list (map (seconds_in ''detector_available_seconds'') ps) \<and>
    sum_list (map (seconds_in ''detector_available_seconds'') ps) \<le> sum_list (map (seconds_in ''expected_seconds'') ps) \<and>
    int (length ps) \<le> sum_list (map (seconds_in ''expected_seconds'') ps)"
  using assms
proof (induction ps)
  case (Cons p ps)
  then obtain e a where "member p ''expected_seconds'' = Some (JInt e)"
    "member p ''detector_available_seconds'' = Some (JInt a)" "0 < e" "0 \<le> a" "a \<le> e" by (auto simp: measured_def)
  with Cons show ?case by (simp add: int_item_def item_def fetch_def seconds_in_def)
qed simp

text \<open>
  C39. On a store whose coverage was recorded by the service, and recording more keeps it so, the
  forecast's coverage is 0 when an active source of the tenant has no snapshot that ended by the given
  time; else it is the available seconds over the expected seconds, summed over the latest such snapshot
  of each active source: a fraction from 0 to 1 of a positive time. But for a tenant without an active
  source it divides by zero, which the provider, documented to fail closed to 0, does not catch.
\<close>

lemma coverage_is_a_fraction_or_divides_by_zero:
  assumes "coverage_ok s"
  shows "coverage_ok (snd (record_coverage env q s)) \<and>
    (if list_source_ids t s = [] then store_coverage_provider t before s = (Inl (Failure ''ZeroDivisionError''), s)
     else if \<exists>src \<in> set (list_source_ids t s). \<forall>r \<in> set (source_rows t src s). \<not> ended before (cv_payload r)
     then store_coverage_provider t before s = (Inr (0, 1), s)
     else \<exists>ps available expected. list_all2 (latest_snapshot t before s) (list_source_ids t s) ps \<and>
       store_coverage_provider t before s = (Inr (available, expected), s) \<and>
       available = sum_list (map (seconds_in ''detector_available_seconds'') ps) \<and>
       expected = sum_list (map (seconds_in ''expected_seconds'') ps) \<and>
       0 \<le> available \<and> available \<le> expected \<and> 0 < expected)"
proof (intro conjI record_coverage_keeps_ok [OF assms])
  let ?ids = "list_source_ids t s"
  note provider = store_coverage_provider_def latest_tenant_coverage_ratio_def latest_coverage_ratio_def
  note snapshots = latest_snapshots_measured [OF assms, of t before ?ids]
  have missing: "(\<exists>src \<in> set ?ids. \<forall>r \<in> set (source_rows t src s). \<not> ended before (cv_payload r)) \<longleftrightarrow> list_ex (unmeasured t before s) ?ids"
    by (simp add: list_ex_iff unmeasured_def)
  have measured_fraction: "\<exists>ps available expected. list_all2 (latest_snapshot t before s) ?ids ps \<and>
       store_coverage_provider t before s = (Inr (available, expected), s) \<and>
       available = sum_list (map (seconds_in ''detector_available_seconds'') ps) \<and>
       expected = sum_list (map (seconds_in ''expected_seconds'') ps) \<and>
       0 \<le> available \<and> available \<le> expected \<and> 0 < expected"
    if "?ids \<noteq> []" "\<not> list_ex (unmeasured t before s) ?ids"
  proof -
    from snapshots that(2) obtain ps where ps: "latest_snapshots t ?ids before s = (Inr ps, s)"
      "list_all2 (latest_snapshot t before s) ?ids ps" by auto
    from ps(2) have "\<forall>p \<in> set ps. measured p"
      using latest_is_measured [OF assms] by (fastforce simp: list_all2_conv_all_nth in_set_conv_nth)
    note sums = sum_items_measured [OF this, of s]
    have "0 < int (length ps)" using that(1) list_all2_lengthD [OF ps(2)] by (metis length_greater_0_conv of_nat_0_less_iff)
    with sums have pos: "0 < sum_list (map (seconds_in ''expected_seconds'') ps)" by linarith
    with sums ps(1) have "store_coverage_provider t before s =
        (Inr (sum_list (map (seconds_in ''detector_available_seconds'') ps), sum_list (map (seconds_in ''expected_seconds'') ps)), s)"
      by (simp add: provider seconds_ratio_def raise_if_def)
    with pos sums ps(2) show ?thesis by blast
  qed
  show "if ?ids = [] then store_coverage_provider t before s = (Inl (Failure ''ZeroDivisionError''), s)
     else if \<exists>src \<in> set ?ids. \<forall>r \<in> set (source_rows t src s). \<not> ended before (cv_payload r)
     then store_coverage_provider t before s = (Inr (0, 1), s)
     else \<exists>ps available expected. list_all2 (latest_snapshot t before s) ?ids ps \<and>
       store_coverage_provider t before s = (Inr (available, expected), s) \<and>
       available = sum_list (map (seconds_in ''detector_available_seconds'') ps) \<and>
       expected = sum_list (map (seconds_in ''expected_seconds'') ps) \<and>
       0 \<le> available \<and> available \<le> expected \<and> 0 < expected"
    unfolding missing using snapshots measured_fraction
    by (auto simp: provider seconds_ratio_def raise_if_def simp del: latest_snapshots.simps split: if_split_asm)
qed

text \<open>A tenant without a source; one with an unmeasured source; and its source measured twice, the later time until after.\<close>

definition demo_covered :: video_store where
  "demo_covered = demo_store\<lparr>vs_coverage := map (\<lambda>(start, at_end, available).
     \<lparr>cv_tenant_id = ''t'', cv_source_id = ''c'', cv_interval_start = start,
      cv_payload = [(''interval_end'', JStr at_end), (''expected_seconds'', JInt 10), (''detector_available_seconds'', JInt available)]\<rparr>)
     [(''2024-01-01T00:00:00Z'', ''2024-01-01T00:00:10Z'', 8), (''2024-01-01T00:00:10Z'', ''2024-01-01T00:00:20Z'', 3)]\<rparr>"

lemma coverage_is_a_fraction_or_divides_by_zero_witness:
  "store_coverage_provider ''t'' ''z'' empty_video_store = (Inl (Failure ''ZeroDivisionError''), empty_video_store) \<and>
   store_coverage_provider ''t'' ''2024-01-01T00:00:15Z'' demo_store = (Inr (0, 1), demo_store) \<and>
   (\<exists>available expected. store_coverage_provider ''t'' ''2024-01-01T00:00:15Z'' demo_covered = (Inr (available, expected), demo_covered) \<and>
      (\<exists>p. latest_snapshot ''t'' ''2024-01-01T00:00:15Z'' demo_covered ''c'' p \<and>
         available = seconds_in ''detector_available_seconds'' p \<and> expected = seconds_in ''expected_seconds'' p))"
proof (intro conjI)
  have "coverage_ok empty_video_store" "list_source_ids ''t'' empty_video_store = []"
    by (simp_all add: coverage_ok_def list_source_ids_def empty_video_store_def)
  with coverage_is_a_fraction_or_divides_by_zero [of empty_video_store undefined undefined "''t''" "''z''"]
  show "store_coverage_provider ''t'' ''z'' empty_video_store = (Inl (Failure ''ZeroDivisionError''), empty_video_store)" by simp
next
  have "coverage_ok demo_store" "vs_coverage demo_store = []"
    by (simp_all add: coverage_ok_def demo_store_def empty_video_store_def)
  moreover have "list_source_ids ''t'' demo_store = [''c'']" by code_simp
  ultimately show "store_coverage_provider ''t'' ''2024-01-01T00:00:15Z'' demo_store = (Inr (0, 1), demo_store)"
    using coverage_is_a_fraction_or_divides_by_zero [of demo_store undefined undefined "''t''" "''2024-01-01T00:00:15Z''"]
    by (simp add: source_rows_def)
next
  have ok: "coverage_ok demo_covered"
    by (simp add: coverage_ok_def demo_covered_def measured_def text_member_def member_def)
  have ids: "list_source_ids ''t'' demo_covered = [''c'']" by code_simp
  have "list_ex (\<lambda>r. ended ''2024-01-01T00:00:15Z'' (cv_payload r)) (source_rows ''t'' ''c'' demo_covered)" by code_simp
  then have "\<not> (\<forall>r \<in> set (source_rows ''t'' ''c'' demo_covered). \<not> ended ''2024-01-01T00:00:15Z'' (cv_payload r))"
    by (simp add: list_ex_iff)
  with coverage_is_a_fraction_or_divides_by_zero [OF ok, of undefined undefined "''t''" "''2024-01-01T00:00:15Z''", unfolded ids]
  obtain ps available expected where "list_all2 (latest_snapshot ''t'' ''2024-01-01T00:00:15Z'' demo_covered) [''c''] ps"
    and ratio: "store_coverage_provider ''t'' ''2024-01-01T00:00:15Z'' demo_covered = (Inr (available, expected), demo_covered)"
      "available = sum_list (map (seconds_in ''detector_available_seconds'') ps)"
      "expected = sum_list (map (seconds_in ''expected_seconds'') ps)" by auto
  then obtain p where "ps = [p]" "latest_snapshot ''t'' ''2024-01-01T00:00:15Z'' demo_covered ''c'' p"
    by (auto simp: list_all2_Cons1)
  with ratio show "\<exists>available expected. store_coverage_provider ''t'' ''2024-01-01T00:00:15Z'' demo_covered = (Inr (available, expected), demo_covered) \<and>
      (\<exists>p. latest_snapshot ''t'' ''2024-01-01T00:00:15Z'' demo_covered ''c'' p \<and>
         available = seconds_in ''detector_available_seconds'' p \<and> expected = seconds_in ''expected_seconds'' p)"
    by auto
qed

section \<open>Messages\<close>

lemma message_body_text:
  assumes "message_error m = None"
  shows "\<exists>body. message_body m = Inr body \<and>
    loads body = Some (JObj [(''job_id'', JStr (jm_job_id m)), (''operation'', JStr (jm_operation m)), (''tenant_id'', JStr (jm_tenant_id m))])"
proof -
  have "sort_keys (JObj [(''tenant_id'', JStr (jm_tenant_id m)), (''job_id'', JStr (jm_job_id m)), (''operation'', JStr (jm_operation m))]) =
      JObj [(''job_id'', JStr (jm_job_id m)), (''operation'', JStr (jm_operation m)), (''tenant_id'', JStr (jm_tenant_id m))]"
    by (simp add: list_less_def)
  with assms show ?thesis by (auto simp: message_body_def loads_dumps simp del: dumps.simps)
qed

lemma decoded_body:
  assumes "rm_body raw = Some body" and "message_error m = None"
    and "loads body = Some (JObj [(''job_id'', JStr (jm_job_id m)), (''operation'', JStr (jm_operation m)), (''tenant_id'', JStr (jm_tenant_id m))])"
  shows "decoded_message raw = Decoded m"
proof -
  have "fst ` set [(''job_id'', JStr (jm_job_id m)), (''operation'', JStr (jm_operation m)), (''tenant_id'', JStr (jm_tenant_id m))] =
      {''tenant_id'', ''job_id'', ''operation''}" by auto
  with assms show ?thesis by (cases m) (simp add: decoded_message_def member_def Let_def)
qed

lemma decoded_is_valid: "decoded_message raw = Decoded m \<Longrightarrow> message_error m = None"
  by (auto simp: decoded_message_def Let_def split: option.split_asm json.split_asm if_split_asm)

text \<open>
  What a worker publishes is what a worker receives: the body of a valid message is read back as
  that message, with the receipt, the count and the queue it came from. And no other message gets
  through: whatever bytes arrive, a delivery carries valid identifiers and a known operation.
\<close>

lemma published_is_received:
  assumes "message_error m = None" and "py_int count = Some n"
  shows "\<exists>body. message_body m = Inr body \<and>
    sqs_job_decode client cfg \<lparr>rm_body = Some body, rm_receipt = receipt, rm_receive_count = Some count\<rparr> url c =
      (Inr (Some \<lparr>dl_message = m, dl_receipt = receipt, dl_receive_count = n, dl_queue_url = Some url\<rparr>), c) \<and>
    (\<forall>raw d c'. sqs_job_decode client cfg raw url c = (Inr (Some d), c') \<longrightarrow> message_error (dl_message d) = None)"
proof -
  from message_body_text [OF assms(1)] obtain body where body: "message_body m = Inr body"
    "loads body = Some (JObj [(''job_id'', JStr (jm_job_id m)), (''operation'', JStr (jm_operation m)), (''tenant_id'', JStr (jm_tenant_id m))])"
    by blast
  have "decoded_message \<lparr>rm_body = Some body, rm_receipt = receipt, rm_receive_count = Some count\<rparr> = Decoded m"
    by (rule decoded_body [OF _ assms(1) body(2)]) simp
  with assms(2) have "sqs_job_decode client cfg \<lparr>rm_body = Some body, rm_receipt = receipt, rm_receive_count = Some count\<rparr> url c =
      (Inr (Some \<lparr>dl_message = m, dl_receipt = receipt, dl_receive_count = n, dl_queue_url = Some url\<rparr>), c)"
    by (simp add: sqs_job_decode_def receive_count_def lift_def)
  moreover have "message_error (dl_message d) = None" if "sqs_job_decode client cfg raw url c = (Inr (Some d), c')" for raw d c'
    using that decoded_is_valid [of raw "dl_message d"]
    by (auto simp: sqs_job_decode_def and_then_eq split: decoding.split_asm)
  ultimately show ?thesis using body(1) by blast
qed

text \<open>
  A number in place of an identifier is no \<open>TypeError\<close> for \<open>uuid.UUID\<close>: the poison message is neither
  deleted nor dead-lettered, and the whole answer of the queue is lost, again and again.
\<close>

lemma numeric_identifier_crashes_receive:
  assumes "rm_body m = Some ''{\"tenant_id\":1,\"job_id\":\"j\",\"operation\":\"index\"}''"
  shows "sqs_take client cfg ops expected url (m # ms) c = (Inl (Failure ''AttributeError''), c)"
proof -
  have "loads ''{\"tenant_id\":1,\"job_id\":\"j\",\"operation\":\"index\"}'' =
      Some (JObj [(''tenant_id'', JInt 1), (''job_id'', JStr ''j''), (''operation'', JStr ''index'')])" by code_simp
  then have "decoded_message m = Crash ''AttributeError''"
    using assms by (auto simp: decoded_message_def member_def)
  then show ?thesis by (simp add: sqs_job_decode_def)
qed

section \<open>The worker\<close>

text \<open>The job of the delivery, run by another worker.\<close>

definition demo_held :: "unit worker_state" where
  "demo_held = (demo_working demo_asset)\<lparr>ws_store := snd (claim_job demo_clock ''t'' ''j'' ''v'' 600 (ws_store (demo_working demo_asset)))\<rparr>"

lemma answer_is_the_job_state_witness:
  "settled demo_delivery ''completed''
     (snd (handle (demo_pipeline demo_video []) demo_job_worker demo_delivery (demo_working demo_asset))) \<and>
   (\<exists>x w. handle (demo_pipeline demo_video []) demo_job_worker demo_delivery demo_held = (Inr x, w) \<and>
      wr_state x = ''retry'' \<and> map_option jb_state (delivered_job demo_delivery w) = Some Running)"
proof
  let ?h = "handle (demo_pipeline demo_video []) demo_job_worker demo_delivery (demo_working demo_asset)"
  have r: "map_sum (\<lambda>e. ()) wr_state (fst ?h) = Inr ''completed''" by code_simp
  then obtain x w where h: "?h = (Inr x, w)" "wr_state x = ''completed''"
    by (cases ?h; cases "fst ?h") auto
  have waiting: "map_option jb_state (delivered_job demo_delivery (demo_working demo_asset)) = Some Queued" by code_simp
  from answer_is_the_job_state [OF h(1)] h(2) have
    "settled demo_delivery (wr_state x) w \<or> left_final demo_delivery (demo_working demo_asset) (Inr x, w) \<or>
       (delivered_job demo_delivery w = None \<and> wr_state x = ''failed'')" by (simp split: if_split_asm)
  moreover have "\<not> left_final demo_delivery (demo_working demo_asset) (Inr x, w)" using waiting by (auto simp: left_final_def)
  ultimately show "settled demo_delivery ''completed'' (snd ?h)" unfolding h(1) snd_conv by (simp only: h(2)) simp
next
  let ?h = "handle (demo_pipeline demo_video []) demo_job_worker demo_delivery demo_held"
  have "case fst ?h of Inr x \<Rightarrow> True | Inl e \<Rightarrow> False" by code_simp
  then obtain x w where h: "?h = (Inr x, w)" by (cases ?h; cases "fst ?h") auto
  have "map_option (\<lambda>q. (jb_state q, jb_operation q)) (delivered_job demo_delivery demo_held) = Some (Running, ''analyze'')" by code_simp
  then obtain q where q: "delivered_job demo_delivery demo_held = Some q" "jb_state q = Running" "jb_operation q = ''analyze''" by auto
  have "jobs_ok (vs_jobs (ws_store (demo_working demo_asset)))"
    by (simp add: demo_working_def jobs_ok_def unique_on_def one_active_def job_ok_def new_job_row_def)
  then have "jobs_ok (vs_jobs (ws_store demo_held))"
    using job_step_ok [of "ws_store (demo_working demo_asset)" demo_clock "Claim ''t'' ''j'' ''v'' 600"] by (simp add: demo_held_def)
  with answer_is_the_job_state [OF h] q
  have "wr_state x = ''retry'' \<and> delivered_job demo_delivery w = Some q"
    by (simp add: demo_delivery_def demo_job_worker_def)
  with h q(2) show "\<exists>x w. ?h = (Inr x, w) \<and> wr_state x = ''retry'' \<and> map_option jb_state (delivered_job demo_delivery w) = Some Running"
    by auto
qed

text \<open>
  The state of a job is written without asking for the lease: a worker whose provider fails after
  another worker took the job over ends the other worker's run.
\<close>

lemma stale_worker_ends_the_run_of_another:
  "let w' = snd (handle (demo_pipeline demo_outage demo_takeover) demo_job_worker demo_delivery (demo_working demo_asset)) in
   owned ''t'' ''j'' ''v'' (fold (job_step demo_clock) demo_takeover (ws_store
     (snd (in_store (claim_job demo_clock ''t'' ''j'' ''w'' 60) (demo_working demo_asset))))) \<and>
   map_option jb_state (delivered_job demo_delivery w') = Some Failed \<and> \<not> owned ''t'' ''j'' ''v'' (ws_store w')"
  by code_simp

text \<open>
  A video of less than a second whose analysis has succeeded: its job is completed, then failed, for the
  coverage of a whole second does not fit in its interval.
\<close>

lemma short_video_fails_after_its_analysis:
  "fst (execute_operation demo_empty demo_service_config ''t'' ''a'' ''analyze'' (ws_store (demo_working demo_short_asset))) = Inr (JArr [])"
  "map_option (\<lambda>r. (jb_state r, jb_last_error_code r)) (delivered_job demo_delivery
     (snd (handle (demo_pipeline demo_empty []) demo_job_worker demo_delivery (demo_working demo_short_asset)))) =
     Some (Failed, Some ''coverage_duration_invalid'')"
  by code_simp+

text \<open>
  The queue delivers a finished job again: if the acknowledgement raises, the job, completed for long,
  is marked failed.
\<close>

definition demo_finished :: "unit worker_state" where
  "demo_finished = (demo_working demo_asset)\<lparr>ws_store := (ws_store (demo_working demo_asset))
     \<lparr>vs_jobs := [(new_job_row ''t'' ''j'' ''a'' ''analyze'' ''k'' 2 0)\<lparr>jb_state := Completed\<rparr>]\<rparr>\<rparr>"

definition demo_unreachable :: "unit job_worker_env" where
  "demo_unreachable = (demo_pipeline demo_video [])\<lparr>we_broker := database_broker\<lparr>jo_acknowledge := (\<lambda>d b. (Inl (Failure ''ClientError''), b))\<rparr>\<rparr>"

lemma unacknowledged_job_is_failed:
  "map_option jb_state (delivered_job demo_delivery demo_finished) = Some Completed"
  "map_option jb_state (delivered_job demo_delivery (snd (handle demo_unreachable demo_job_worker demo_delivery demo_finished))) = Some Failed"
  by code_simp+

section \<open>Retention\<close>

definition demo_unmapped :: video_store where
  "demo_unmapped = demo_store\<lparr>vs_mappings := []\<rparr>"

lemma retention_deletes_what_it_reports_witness:
  "let (r, s') = retire_asset demo_video demo_service_config ''t'' ''a'' demo_store;
       (r2, s2) = retire_asset demo_video demo_service_config ''t'' ''a'' demo_unmapped in
   r = Inr [''a''] \<and> erased demo_video ''t'' ''a'' s' \<and> vs_calls s' = 1 \<and> r2 = Inr [] \<and> media_tables s2 = media_tables demo_unmapped"
proof -
  have names: "text_member (as_payload demo_asset_row) ''tenant_id'' = Some ''t''"
    "text_member (as_payload demo_asset_row) ''asset_id'' = Some ''a''" by code_simp+
  have row: "select_row (asset_is ''t'' ''a'') (vs_assets demo_store) = Some demo_asset_row"
    "select_row (asset_is ''t'' ''a'') (vs_assets demo_unmapped) = Some demo_asset_row" by code_simp+
  have r: "fst (retire_asset demo_video demo_service_config ''t'' ''a'' demo_store) = Inr [''a'']"
    "fst (retire_asset demo_video demo_service_config ''t'' ''a'' demo_unmapped) = Inr []"
    "get_mapping ''t'' ''a'' demo_unmapped = None" by code_simp+
  have fresh: "vs_calls demo_store = 0" "mp_remote_deleted_at demo_mapping_row = None"
    by (simp_all add: demo_store_def empty_video_store_def demo_mapping_row_def)
  obtain s' where s': "retire_asset demo_video demo_service_config ''t'' ''a'' demo_store = (Inr [''a''], s')"
    using r(1) by (metis prod.collapse)
  obtain s2 where s2: "retire_asset demo_video demo_service_config ''t'' ''a'' demo_unmapped = (Inr [], s2)"
    using r(2) by (metis prod.collapse)
  from retention_deletes_what_it_reports [OF s' row(1) names] retention_deletes_what_it_reports [OF s2 row(2) names] r(3) s' s2
    demo_mapping_stored fresh
  show ?thesis by simp
qed

end
