(* ===== verification/Video_Reka.thy ===== *)
theory Video_Reka
  imports Video_Execute
begin

text \<open>
  The first part of \<open>video/reka.py\<close>: reading the answers of the vision provider. Text that the model
  wrote becomes candidate proposals only through bounded, allowlisted parsing.
\<close>

section \<open>Limits\<close>

definition candidate_field_names :: "string list" where
  "candidate_field_names = [''offset_seconds'', ''category'', ''confidence'']"

definition max_chat_text_blocks :: nat where "max_chat_text_blocks = 16"

definition max_chat_text_chars :: nat where "max_chat_text_chars = 16384"

definition max_http_response_bytes :: int where "max_http_response_bytes = 1024 * 1024"

definition max_provider_candidates :: nat where "max_provider_candidates = 25"

definition max_normalized_video_bytes :: int where "max_normalized_video_bytes = 8 * 1024 * 1024"

section \<open>\<open>json.loads\<close>\<close>

text \<open>
  The parser of \<open>Py_Json\<close> with the limits of the interpreter: nesting beyond the recursion limit raises
  \<open>RecursionError\<close>, integers of more than 4300 digits raise \<open>ValueError\<close>. \<open>rd_float\<close> is the \<open>repr\<close> of the
  float a literal denotes.
\<close>

record reader =
  rd_float :: "string \<Rightarrow> string"
  rd_max_depth :: nat

fun json_depth :: "json \<Rightarrow> nat" where
  "json_depth (JArr vs) = Suc (foldr max (map json_depth vs) 0)"
| "json_depth (JObj kvs) = Suc (foldr max (map (\<lambda>(k, v). json_depth v) kvs) 0)"
| "json_depth v = 0"

fun json_leaves :: "json \<Rightarrow> json list" where
  "json_leaves (JArr vs) = concat (map json_leaves vs)"
| "json_leaves (JObj kvs) = concat (map (\<lambda>(k, v). json_leaves v) kvs)"
| "json_leaves v = [v]"

fun map_floats :: "(string \<Rightarrow> string) \<Rightarrow> json \<Rightarrow> json" where
  "map_floats f (JFloat t) = JFloat (if finite_float t then f t else t)"
| "map_floats f (JArr vs) = JArr (map (map_floats f) vs)"
| "map_floats f (JObj kvs) = JObj (map (\<lambda>(k, v). (k, map_floats f v)) kvs)"
| "map_floats f v = v"

fun digits_allowed :: "json \<Rightarrow> bool" where
  "digits_allowed (JInt i) = (length (digits_of (nat \<bar>i\<bar>)) \<le> 4300)"
| "digits_allowed v = True"

fun is_constant :: "json \<Rightarrow> bool" where
  "is_constant (JFloat t) = (\<not> finite_float t)"
| "is_constant v = False"

definition read_json :: "reader \<Rightarrow> string \<Rightarrow> json option" where
  "read_json rd text =
     (case loads text of
        None \<Rightarrow> None
      | Some v \<Rightarrow> if list_all digits_allowed (json_leaves v) \<and> json_depth v \<le> rd_max_depth rd
                  then Some (map_floats (rd_float rd) v) else None)"

text \<open>With \<open>parse_constant=_reject_nonfinite_json_number\<close>: \<open>NaN\<close> and the infinities raise \<open>ValueError\<close>.\<close>

definition read_strict :: "reader \<Rightarrow> string \<Rightarrow> json option" where
  "read_strict rd text =
     (case loads text of
        None \<Rightarrow> None
      | Some v \<Rightarrow> if list_ex is_constant (json_leaves v) then None else read_json rd text)"

section \<open>The text of a chat answer\<close>

definition format_error :: "string \<Rightarrow> string \<Rightarrow> string \<Rightarrow> vexn" where
  "format_error code stage reason =
     pipeline_error code False (Some [(''format_stage'', JStr stage), (''format_reason'', JStr reason)])"

text \<open>The block's type is looked up in a set: a list or an object has no hash.\<close>

definition block_text :: "string \<Rightarrow> json \<Rightarrow> vexn + string" where
  "block_text stage block =
     (let bad = Inl (format_error ''reka_response_invalid'' stage ''content_shape_invalid'') in
      case block of
        JObj kvs \<Rightarrow>
          (case member kvs ''type'' of
             Some (JArr vs) \<Rightarrow> Inl (Failure ''TypeError'')
           | Some (JObj ms) \<Rightarrow> Inl (Failure ''TypeError'')
           | Some (JStr t) \<Rightarrow>
               (if t \<in> {''output_text'', ''text''} then (case member kvs ''text'' of Some (JStr text) \<Rightarrow> Inr text | _ \<Rightarrow> bad) else bad)
           | _ \<Rightarrow> bad)
      | _ \<Rightarrow> bad)"

fun block_texts :: "string \<Rightarrow> nat \<Rightarrow> json list \<Rightarrow> vexn + string" where
  "block_texts stage chars [] = Inr []"
| "block_texts stage chars (block # blocks) =
     (case block_text stage block of
        Inl e \<Rightarrow> Inl e
      | Inr text \<Rightarrow>
          if max_chat_text_chars < chars + length text then Inl (format_error ''reka_output_invalid'' stage ''content_shape_invalid'')
          else (case block_texts stage (chars + length text) blocks of Inl e \<Rightarrow> Inl e | Inr rest \<Rightarrow> Inr (text @ rest)))"

definition openai_message_text :: "string \<Rightarrow> json \<Rightarrow> vexn + string" where
  "openai_message_text stage v =
     (let bad = Inl (format_error ''reka_response_invalid'' stage ''content_shape_invalid'') in
      case v of
        JStr s \<Rightarrow> if length s \<le> max_chat_text_chars then Inr s
                  else Inl (format_error ''reka_output_invalid'' stage ''content_shape_invalid'')
      | JObj kvs \<Rightarrow> block_texts stage 0 [v]
      | JArr vs \<Rightarrow> if vs = [] \<or> max_chat_text_blocks < length vs then bad else block_texts stage 0 vs
      | _ \<Rightarrow> bad)"

text \<open>\<open>response["choices"][0]\<close>, its message and the content; any failure is the same error.\<close>

definition first_choice :: "payload \<Rightarrow> (payload \<times> payload \<times> json) option" where
  "first_choice response =
     (case member response ''choices'' of
        Some (JArr (JObj choice # cs)) \<Rightarrow>
          (case member choice ''message'' of
             Some (JObj message) \<Rightarrow> map_option (\<lambda>content. (choice, message, content)) (member message ''content'')
           | _ \<Rightarrow> None)
      | _ \<Rightarrow> None)"

definition chat_response_text :: "string \<Rightarrow> payload \<Rightarrow> vexn + string" where
  "chat_response_text stage response =
     (case first_choice response of
        None \<Rightarrow> Inl (format_error ''reka_response_invalid'' stage ''response_shape_invalid'')
      | Some (choice, message, content) \<Rightarrow>
          (case first_error
             [(got choice ''finish_reason'' = JStr ''length'',
                 format_error ''reka_output_truncated'' stage ''token_limit_reached''),
              (got choice ''finish_reason'' \<noteq> JStr ''stop'' \<or> got message ''role'' \<noteq> JStr ''assistant'',
                 format_error ''reka_response_invalid'' stage ''response_shape_invalid''),
              (got message ''refusal'' \<noteq> JNull \<or> got message ''function_call'' \<noteq> JNull \<or> truthy (got message ''tool_calls''),
                 format_error ''reka_response_invalid'' stage ''content_shape_invalid'')] of
             Some e \<Rightarrow> Inl e
           | None \<Rightarrow> openai_message_text stage content))"

section \<open>The JSON in the text\<close>

text \<open>
  \<open>_JSON_FENCE_PATTERN\<close>: three backquotes, optionally \<open>json\<close> in any case, white space, a shortest payload,
  white space and three backquotes at the end.
\<close>

definition fence :: string where
  "fence = [CHR 0x60, CHR 0x60, CHR 0x60]"

definition fenced_payload :: "string \<Rightarrow> string option" where
  "fenced_payload t =
     (if prefix fence t \<and> suffix fence t \<and> 6 \<le> length t then
        (let inner = take (length t - 6) (drop 3 t) in
         Some (py_strip (if prefix ''json'' (py_lower inner) then drop 4 inner else inner)))
      else None)"

definition left_strip :: "string \<Rightarrow> string" where
  "left_strip s = dropWhile is_space s"

text \<open>The text continues the opening bracket the request ended with; a role marker may come first.\<close>

definition continued_json :: "reader \<Rightarrow> string \<Rightarrow> json option" where
  "continued_json rd answer =
     (let continuation = (if prefix ''assistant:'' answer then left_strip (drop 10 answer) else answer) in
      if prefix fence continuation then
        (case fenced_payload continuation of None \<Rightarrow> None | Some p \<Rightarrow> read_strict rd (py_strip p))
      else read_strict rd (CHR ''['' # continuation))"

text \<open>
  Every failure is the same \<open>format_error\<close>. The code does not try a continuation after a \<open>ValueError\<close>;
  such a text still holds the constant or number that raised it when the bracket is put before it, so
  the continuation fails too.
\<close>

definition decoded_candidates :: "reader \<Rightarrow> bool \<Rightarrow> string \<Rightarrow> json option" where
  "decoded_candidates rd prefilled raw =
     (let stripped = py_strip raw;
          answer = (if prefix fence stripped then map_option py_strip (fenced_payload stripped) else Some stripped) in
      case answer of
        None \<Rightarrow> None
      | Some c \<Rightarrow>
          (case read_strict rd c of
             Some v \<Rightarrow> Some v
           | None \<Rightarrow> if prefilled then continued_json rd c else None))"

definition decode_candidate_json :: "reader \<Rightarrow> string \<Rightarrow> bool \<Rightarrow> string \<Rightarrow> vexn + json" where
  "decode_candidate_json rd stage prefilled raw =
     (case decoded_candidates rd prefilled raw of
        None \<Rightarrow> Inl (format_error ''reka_output_invalid'' stage ''json_format_invalid'')
      | Some v \<Rightarrow> Inr v)"

section \<open>Projection to the allowlist\<close>

text \<open>A number at least 0, or between 0 and 1; \<open>json\<close> reads an overflowing literal as an infinity.\<close>

definition offset_allowed :: "json \<Rightarrow> bool" where
  "offset_allowed v =
     (case v of
        JInt i \<Rightarrow> 0 \<le> i
      | JFloat t \<Rightarrow> t \<noteq> ''-Infinity'' \<and> (\<not> finite_float t \<or> float_ge t 0)
      | _ \<Rightarrow> False)"

definition category_allowed :: "json \<Rightarrow> bool" where
  "category_allowed v = (case v of JStr c \<Rightarrow> c \<in> allowed_categories | _ \<Rightarrow> False)"

definition confidence_allowed :: "json \<Rightarrow> bool" where
  "confidence_allowed v =
     (case v of
        JInt i \<Rightarrow> 0 \<le> i \<and> i \<le> 1
      | JFloat t \<Rightarrow> finite_float t \<and> float_ge t 0 \<and> float_le t 1
      | _ \<Rightarrow> False)"

definition invalid_names :: "json \<Rightarrow> json \<Rightarrow> json \<Rightarrow> string list" where
  "invalid_names offset category confidence =
     (if offset_allowed offset then [] else [''offset_seconds'']) @
     (if category_allowed category then [] else [''category'']) @
     (if confidence_allowed confidence then [] else [''confidence''])"

definition projected_item :: "nat \<Rightarrow> json \<Rightarrow> vexn + json" where
  "projected_item n v =
     (case v of
        JObj kvs \<Rightarrow>
          (let missing = filter (\<lambda>name. member kvs name = None) required_fields;
               offset = got kvs ''offset_seconds''; category = got kvs ''category''; confidence = got kvs ''confidence'';
               invalid = invalid_names offset category confidence in
           if missing \<noteq> [] then
             Inl (proposal_error ''reka_output_missing_fields'' n [(''missing_fields'', JArr (map JStr missing))])
           else if invalid \<noteq> [] then
             Inl (proposal_error ''reka_output_invalid'' n [(''invalid_fields'', JArr (map JStr invalid))])
           else Inr (JObj [(''offset_seconds'', offset), (''category'', category), (''confidence'', confidence)]))
      | _ \<Rightarrow> Inl (pipeline ''reka_output_invalid''))"

fun projected_items :: "nat \<Rightarrow> json list \<Rightarrow> vexn + json list" where
  "projected_items n [] = Inr []"
| "projected_items n (v # vs) =
     (case projected_item n v of
        Inl e \<Rightarrow> Inl e
      | Inr p \<Rightarrow> (case projected_items (Suc n) vs of Inl e \<Rightarrow> Inl e | Inr ps \<Rightarrow> Inr (p # ps)))"

text \<open>An object with one key that holds a list is taken for a wrapper of the list.\<close>

definition unwrapped :: "json \<Rightarrow> json" where
  "unwrapped v =
     (case v of
        JObj kvs \<Rightarrow>
          (case remdups (map fst kvs) of
             [k] \<Rightarrow> (case member kvs k of Some (JArr vs) \<Rightarrow> JArr vs | _ \<Rightarrow> v)
           | _ \<Rightarrow> v)
      | _ \<Rightarrow> v)"

definition allowlisted_candidate_output :: "json \<Rightarrow> vexn + json list" where
  "allowlisted_candidate_output v =
     (case unwrapped v of
        JArr vs \<Rightarrow> if max_provider_candidates < length vs then Inl (pipeline ''reka_output_invalid'') else projected_items 0 vs
      | _ \<Rightarrow> Inl (pipeline ''reka_output_invalid''))"

section \<open>Recognized errors of the provider\<close>

text \<open>\<open>Expected N frames, got M None\<close>, N of one to four digits without a leading zero, M of one to four.\<close>

definition frame_mismatch_text :: "string \<Rightarrow> bool" where
  "frame_mismatch_text t =
     (prefix ''Expected '' t \<and>
      (let r = drop 9 t; n = takeWhile is_digit r; r = drop (length n) r in
       run_match is_digit 1 4 n \<and> \<not> prefix ''0'' n \<and> prefix '' frames, got '' r \<and>
       (let r = drop 13 r; m = takeWhile is_digit r in run_match is_digit 1 4 m \<and> drop (length m) r = '' None'')))"

definition is_reka_frame_mismatch :: "reader \<Rightarrow> string option \<Rightarrow> bool" where
  "is_reka_frame_mismatch rd raw =
     (case Option.bind raw (read_json rd) of
        Some (JObj kvs) \<Rightarrow>
          (case member kvs ''error'' of
             Some (JObj error) \<Rightarrow>
               got error ''type'' = JStr ''BadRequestError'' \<and> got error ''code'' = JStr ''invalid_request'' \<and>
               (case got error ''message'' of JStr m \<Rightarrow> frame_mismatch_text m | _ \<Rightarrow> False)
           | _ \<Rightarrow> False)
      | _ \<Rightarrow> False)"

end
