(* ===== verification/Video_Boundary.thy ===== *)
theory Video_Boundary
  imports Video_Provider
begin

text \<open>
  What crosses the boundary to the vision provider: which requests are sent, and what can come back
  whatever the provider answers.
\<close>

section \<open>Errors\<close>

lemma safe_diagnostics:
  assumes "pipeline_error code r d = Pipeline c r' safe"
  shows "c = code \<and> set (map fst safe) \<subseteq> set diagnostic_keys \<and> (\<forall>(k, v) \<in> set safe. leaf_safe v)"
proof (cases d)
  case (Some x)
  from assms have "c = code" "r' = r" by (auto simp: pipeline_error_def split: option.split_asm)
  with assms Some pipeline_diagnostics_are_bounded [of code r x safe] show ?thesis by simp
qed (use assms in auto)

definition reka_codes :: "string set" where
  "reka_codes = {''reka_timeout'', ''reka_rate_limited'', ''reka_access_denied'', ''reka_unavailable'', ''reka_request_failed'',
     ''reka_response_invalid'', ''reka_output_invalid'', ''reka_output_missing_fields'', ''reka_output_truncated'',
     ''reka_media_prepare_failed'', ''reka_media_frame_mismatch''}"

definition bounded_error :: "vexn \<Rightarrow> bool" where
  "bounded_error e \<longleftrightarrow>
     (case e of
        Pipeline code retryable d \<Rightarrow> code \<in> reka_codes \<and> set (map fst d) \<subseteq> set diagnostic_keys \<and> (\<forall>(k, v) \<in> set d. leaf_safe v)
      | _ \<Rightarrow> False)"

lemma plain_bounded: "code \<in> reka_codes \<Longrightarrow> bounded_error (Pipeline code r [])"
  by (simp add: bounded_error_def)

lemma pipeline_error_bounded:
  assumes "pipeline_error code r d \<noteq> Failure ''ValueError''" and "code \<in> reka_codes"
  shows "bounded_error (pipeline_error code r d)"
proof -
  from assms(1) obtain safe where "pipeline_error code r d = Pipeline code r safe"
    by (auto simp: pipeline_error_def split: option.split_asm)
  with safe_diagnostics [OF this] assms(2) show ?thesis by (auto simp: bounded_error_def)
qed

definition answer_stages :: "string set" where
  "answer_stages = {''indexed_video_candidate'', ''short_video_candidate''}"

lemma format_error_bounded:
  assumes "code \<in> reka_codes" and "stage \<in> answer_stages" and "reason \<in> format_reasons"
  shows "bounded_error (format_error code stage reason)"
  unfolding format_error_def
  using assms
  by (intro pipeline_error_bounded)
    (auto simp: pipeline_error_def validated_safe_diagnostics_def diagnostic_keys_def member_def diagnostic_value_def
      allowed_name_def answer_stages_def format_stages_def)

lemma proposal_error_bounded:
  assumes "code \<in> reka_codes" and "n < 100" and "field \<in> {''missing_fields'', ''invalid_fields''}" and "set names \<subseteq> candidate_fields"
  shows "bounded_error (proposal_error code n [(field, JArr (map JStr names))])"
  unfolding proposal_error_def
  using assms
  by (intro pipeline_error_bounded)
    (auto simp: pipeline_error_def validated_safe_diagnostics_def diagnostic_keys_def member_def diagnostic_value_def
      bounded_int_def allowed_fields_def field_names_map)

section \<open>Proposals\<close>

text \<open>
  Exactly three fields: an offset that is not negative (an overflowing literal is read as an infinity),
  an allowed category and a confidence from 0 to 1.
\<close>

definition proposal_allowed :: "json \<Rightarrow> bool" where
  "proposal_allowed p \<longleftrightarrow> (\<exists>offset category confidence.
     p = JObj [(''offset_seconds'', offset), (''category'', JStr category), (''confidence'', confidence)] \<and>
     (case offset of JInt i \<Rightarrow> 0 \<le> i | JFloat t \<Rightarrow> t \<noteq> ''-Infinity'' \<and> (finite_float t \<longrightarrow> float_ge t 0) | _ \<Rightarrow> False) \<and>
     category \<in> {''property'', ''violence'', ''public_order'', ''traffic_safety'', ''other'', ''unmapped''} \<and>
     (case confidence of JInt i \<Rightarrow> i = 0 \<or> i = 1 | JFloat t \<Rightarrow> finite_float t \<and> float_ge t 0 \<and> float_le t 1 | _ \<Rightarrow> False))"

lemma proposal_allowed_iff:
  "proposal_allowed p \<longleftrightarrow> (\<exists>offset category confidence.
     p = JObj [(''offset_seconds'', offset), (''category'', category), (''confidence'', confidence)] \<and>
     offset_allowed offset \<and> category_allowed category \<and> confidence_allowed confidence)"
proof -
  let ?S = "{''property'', ''violence'', ''public_order'', ''traffic_safety'', ''other'', ''unmapped''}"
  have offset: "offset_allowed v = (case v of JInt i \<Rightarrow> 0 \<le> i | JFloat t \<Rightarrow> t \<noteq> ''-Infinity'' \<and> (finite_float t \<longrightarrow> float_ge t 0) | _ \<Rightarrow> False)" for v
    by (cases v) (auto simp: offset_allowed_def)
  have confidence: "confidence_allowed v =
      (case v of JInt i \<Rightarrow> i = 0 \<or> i = 1 | JFloat t \<Rightarrow> finite_float t \<and> float_ge t 0 \<and> float_le t 1 | _ \<Rightarrow> False)" for v
    by (cases v) (auto simp: confidence_allowed_def)
  have category: "category_allowed v \<longleftrightarrow> (\<exists>c. v = JStr c \<and> c \<in> ?S)" for v
    by (cases v) (simp_all add: category_allowed_def allowed_categories_def)
  show ?thesis
  proof
    assume "proposal_allowed p"
    then obtain x c y where "p = JObj [(''offset_seconds'', x), (''category'', JStr c), (''confidence'', y)]"
      "offset_allowed x" "c \<in> ?S" "confidence_allowed y"
      unfolding proposal_allowed_def
      by (elim exE conjE) (rule that, assumption, simp only: offset, assumption, simp only: confidence)
    moreover have "category_allowed (JStr c)" unfolding category using \<open>c \<in> ?S\<close> by (intro exI [of _ c] conjI refl)
    ultimately show "\<exists>offset category confidence.
       p = JObj [(''offset_seconds'', offset), (''category'', category), (''confidence'', confidence)] \<and>
       offset_allowed offset \<and> category_allowed category \<and> confidence_allowed confidence"
      by (intro exI [of _ x] exI [of _ "JStr c"] exI [of _ y] conjI)
  next
    assume "\<exists>offset category confidence.
       p = JObj [(''offset_seconds'', offset), (''category'', category), (''confidence'', confidence)] \<and>
       offset_allowed offset \<and> category_allowed category \<and> confidence_allowed confidence"
    then obtain x v y where p: "p = JObj [(''offset_seconds'', x), (''category'', v), (''confidence'', y)]"
      and ok: "offset_allowed x" "category_allowed v" "confidence_allowed y" by (elim exE conjE) (rule that)
    from ok(2) [unfolded category] obtain c where v: "v = JStr c" "c \<in> ?S" by (elim exE conjE) (rule that)
    show "proposal_allowed p"
      unfolding proposal_allowed_def using p [unfolded v(1)] ok(1) [unfolded offset] v(2) ok(3) [unfolded confidence]
      by (intro exI [of _ x] exI [of _ c] exI [of _ y] conjI)
  qed
qed

text \<open>
  What the checks of \<open>_candidate\<close> then do: they find no fault with the fields, the category and the
  confidence, and none with the offset exactly when it is a finite double.
\<close>

definition finite_offset :: "json \<Rightarrow> bool" where
  "finite_offset v = (case v of JInt i \<Rightarrow> \<not> float_overflow i | JFloat t \<Rightarrow> finite_float t | _ \<Rightarrow> False)"

definition service_checks :: "json \<Rightarrow> bool" where
  "service_checks p \<longleftrightarrow> (\<exists>offset category confidence. \<forall>n. proposal_fields n p = Inr (offset, category, confidence) \<and>
     (\<exists>c. checked_category n category = Inr c) \<and> (\<exists>t. checked_confidence n confidence = Inr t) \<and>
     ((\<exists>us. checked_offset n offset = Inr us) \<longleftrightarrow> finite_offset offset))"

lemma allowed_checked:
  assumes "proposal_allowed p"
  shows "service_checks p"
proof -
  from assms obtain offset category confidence where
    p: "p = JObj [(''offset_seconds'', offset), (''category'', JStr category), (''confidence'', confidence)]"
    and offset: "case offset of JInt i \<Rightarrow> 0 \<le> i | JFloat t \<Rightarrow> t \<noteq> ''-Infinity'' \<and> (finite_float t \<longrightarrow> float_ge t 0) | _ \<Rightarrow> False"
    and category: "category \<in> {''property'', ''violence'', ''public_order'', ''traffic_safety'', ''other'', ''unmapped''}"
    and confidence: "case confidence of JInt i \<Rightarrow> i = 0 \<or> i = 1 | JFloat t \<Rightarrow> finite_float t \<and> float_ge t 0 \<and> float_le t 1 | _ \<Rightarrow> False"
    unfolding proposal_allowed_def by (elim exE conjE) (rule that)
  have "proposal_fields n p = Inr (offset, JStr category, confidence)" for n
    by (simp add: p proposal_fields_def required_fields_def member_def)
  moreover have "\<exists>c. checked_category n (JStr category) = Inr c" for n
    using category by (simp add: checked_category_def allowed_categories_def)
  moreover have "\<exists>t. checked_confidence n confidence = Inr t" for n
    using confidence by (auto simp: checked_confidence_def float_overflow_def split: json.split_asm)
  moreover have "(\<exists>us. checked_offset n offset = Inr us) \<longleftrightarrow> finite_offset offset" for n
    using offset by (auto simp: checked_offset_def finite_offset_def split: json.split_asm)
  ultimately show ?thesis unfolding service_checks_def by blast
qed

lemma projected_item_cases:
  assumes "n < 100"
  shows "(\<exists>p. projected_item n v = Inr p \<and> proposal_allowed p) \<or> (\<exists>e. projected_item n v = Inl e \<and> bounded_error e)"
proof (cases v)
  case (JObj kvs)
  let ?missing = "filter (\<lambda>name. member kvs name = None) required_fields"
  let ?invalid = "invalid_names (got kvs ''offset_seconds'') (got kvs ''category'') (got kvs ''confidence'')"
  have "bounded_error (proposal_error ''reka_output_missing_fields'' n [(''missing_fields'', JArr (map JStr ?missing))])"
    using assms by (intro proposal_error_bounded) (auto simp: reka_codes_def required_fields_def candidate_fields_def)
  moreover have "bounded_error (proposal_error ''reka_output_invalid'' n [(''invalid_fields'', JArr (map JStr ?invalid))])"
    using assms by (intro proposal_error_bounded) (auto simp: reka_codes_def invalid_names_def candidate_fields_def)
  moreover have "proposal_allowed (JObj [(''offset_seconds'', got kvs ''offset_seconds''), (''category'', got kvs ''category''),
      (''confidence'', got kvs ''confidence'')])" if "?invalid = []"
    using that by (auto simp: proposal_allowed_iff invalid_names_def split: if_split_asm)
  ultimately show ?thesis using JObj by (simp add: projected_item_def Let_def)
qed (simp_all add: projected_item_def plain_bounded reka_codes_def)

lemma projected_items_cases:
  assumes "n + length vs \<le> 100"
  shows "(\<exists>ps. projected_items n vs = Inr ps \<and> length ps = length vs \<and> (\<forall>p \<in> set ps. proposal_allowed p)) \<or>
    (\<exists>e. projected_items n vs = Inl e \<and> bounded_error e)"
  using assms
proof (induction vs arbitrary: n)
  case (Cons v vs)
  then have n: "n < 100" "Suc n + length vs \<le> 100" by simp_all
  from projected_item_cases [OF n(1), of v] show ?case
  proof
    assume "\<exists>p. projected_item n v = Inr p \<and> proposal_allowed p"
    with Cons.IH [OF n(2)] show ?thesis by auto
  qed auto
qed simp

definition reka_result :: "bool \<Rightarrow> vexn + json list \<Rightarrow> bool" where
  "reka_result chat r \<longleftrightarrow>
     (case r of
        Inr ps \<Rightarrow> length ps \<le> 25 \<and> (\<forall>p \<in> set ps. proposal_allowed p \<and> service_checks p)
      | Inl e \<Rightarrow> bounded_error e \<or> chat \<and> e = Failure ''TypeError'')"

lemma allowlisted_result: "reka_result chat (allowlisted_candidate_output v)"
proof -
  have "reka_result chat (projected_items 0 vs)" if "length vs \<le> 25" for vs
    using projected_items_cases [of 0 vs] that by (auto simp: reka_result_def allowed_checked)
  then show ?thesis
    by (auto simp: allowlisted_candidate_output_def max_provider_candidates_def split: json.split)
      (auto simp: reka_result_def plain_bounded reka_codes_def)
qed

section \<open>Answers\<close>

text \<open>A step returns, or raises a bounded error (a \<open>TypeError\<close> in a chat).\<close>

definition answered_safely :: "bool \<Rightarrow> (vexn, 'a, 's) outcome \<Rightarrow> bool" where
  "answered_safely chat result \<longleftrightarrow> (case fst result of Inr x \<Rightarrow> True | Inl e \<Rightarrow> bounded_error e \<or> chat \<and> e = Failure ''TypeError'')"

lemma safely_Inr [simp]: "answered_safely chat (Inr x, s)"
  by (simp add: answered_safely_def)

lemma safely_then: "answered_safely chat r \<Longrightarrow> (\<And>x t. answered_safely chat (k x t)) \<Longrightarrow> answered_safely chat (and_then r k)"
  by (cases r; cases "fst r") (auto simp: answered_safely_def)

lemma safely_lift: "answered_safely chat (lift x s) \<longleftrightarrow> (case x of Inr y \<Rightarrow> True | Inl e \<Rightarrow> bounded_error e \<or> chat \<and> e = Failure ''TypeError'')"
  by (simp add: answered_safely_def lift_def)

lemma safely_raise:
  "code \<in> reka_codes \<Longrightarrow> answered_safely chat (raise_if b (Pipeline code r []) s)"
  "(\<And>e. x = Some e \<Longrightarrow> bounded_error e) \<Longrightarrow> answered_safely chat (raise_opt x s)"
  by (auto simp: answered_safely_def raise_if_def raise_opt_def plain_bounded split: option.split)

lemma sent_safely: "answered_safely chat (http_send env q s)"
  by (simp add: http_send_def safely_lift plain_bounded reka_codes_def split: option.split)

lemma answer_errors:
  "status_error a = Some e \<Longrightarrow> bounded_error e" "bounded_body a = Some e \<Longrightarrow> bounded_error e"
  "json_object env a = Inl e \<Longrightarrow> bounded_error e"
  by (auto simp: status_error_def bounded_body_def json_object_def plain_bounded reka_codes_def
      dest!: first_error_Some split: if_split_asm option.split_asm json.split_asm)

lemma object_safely: "answered_safely chat (lift (json_object env a) s)"
  using answer_errors(3) by (auto simp: safely_lift split: sum.split)

lemma answer_checks_safely:
  "answered_safely chat (raise_opt (status_error a) s)" "answered_safely chat (raise_opt (bounded_body a) s)"
  "answered_safely chat (lift (json_object env a) s)"
  by (rule safely_raise(2), erule answer_errors(1), rule safely_raise(2), erule answer_errors(2), rule object_safely)

lemma chat_request_safely: "answered_safely chat (chat_json_request env body s)"
  unfolding chat_json_request_def
  by (auto intro!: safely_then sent_safely answer_checks_safely)
    (simp_all add: answered_safely_def plain_bounded reka_codes_def)

lemma block_text_safely:
  assumes "stage \<in> answer_stages"
  shows "case block_text stage block of Inr x \<Rightarrow> True | Inl e \<Rightarrow> bounded_error e \<or> e = Failure ''TypeError''"
proof -
  have "bounded_error (format_error ''reka_response_invalid'' stage ''content_shape_invalid'')"
    using assms by (intro format_error_bounded) (auto simp: reka_codes_def format_reasons_def)
  then show ?thesis by (auto simp: block_text_def Let_def split: json.split option.split)
qed

lemma block_texts_safely:
  assumes "stage \<in> answer_stages"
  shows "case block_texts stage n blocks of Inr x \<Rightarrow> True | Inl e \<Rightarrow> bounded_error e \<or> e = Failure ''TypeError''"
proof (induction blocks arbitrary: n)
  case (Cons block blocks)
  have "bounded_error (format_error ''reka_output_invalid'' stage ''content_shape_invalid'')"
    using assms by (intro format_error_bounded) (auto simp: reka_codes_def format_reasons_def)
  with block_text_safely [OF assms, of block] Cons.IH [of "n + length (projr (block_text stage block))"]
  show ?case by (auto split: sum.split sum.split_asm)
qed simp

lemma chat_text_safely:
  assumes "stage \<in> answer_stages"
  shows "answered_safely True (lift (chat_response_text stage response) s)"
proof -
  have bounded: "bounded_error (format_error code stage reason)"
    if "code \<in> {''reka_response_invalid'', ''reka_output_invalid'', ''reka_output_truncated''}"
      "reason \<in> {''content_shape_invalid'', ''response_shape_invalid'', ''token_limit_reached''}" for code reason
    using that assms by (intro format_error_bounded) (auto simp: reka_codes_def format_reasons_def)
  have message: "case openai_message_text stage content of Inr x \<Rightarrow> True | Inl e \<Rightarrow> bounded_error e \<or> e = Failure ''TypeError''" for content
    using block_texts_safely [OF assms, of 0] bounded
    by (auto simp: openai_message_text_def Let_def split: json.split simp del: block_texts.simps)
  show ?thesis
  proof (cases "first_choice response")
    case None
    with bounded show ?thesis by (simp add: safely_lift chat_response_text_def)
  next
    case (Some c)
    then obtain choice answer content where "first_choice response = Some (choice, answer, content)" by (cases c) simp
    with message [of content] bounded show ?thesis
      by (auto simp: safely_lift chat_response_text_def first_error.simps split: sum.split sum.split_asm)
  qed
qed

lemma decode_safely:
  assumes "stage \<in> answer_stages"
  shows "answered_safely chat (lift (decode_candidate_json rd stage prefilled raw) s)"
proof -
  have "bounded_error (format_error ''reka_output_invalid'' stage ''json_format_invalid'')"
    using assms by (intro format_error_bounded) (auto simp: reka_codes_def format_reasons_def)
  then show ?thesis by (auto simp: safely_lift decode_candidate_json_def split: option.split)
qed

lemma short_answer_safely: "answered_safely True (short_video_candidate_response env prompt s)"
  unfolding short_video_candidate_response_def
  by (intro safely_then chat_request_safely chat_text_safely decode_safely) (simp_all add: answer_stages_def)

lemma media_safely:
  "answered_safely chat (lift (short_video_content env path) s)" "answered_safely chat (lift (normalized_short_video_content env path) s)"
  by (auto simp: safely_lift short_video_content_def normalized_short_video_content_def plain_bounded reka_codes_def split: option.split)

lemma short_responder_safely: "answered_safely True (short_responder env path prompt s)"
proof -
  obtain r t where r: "short_video_candidate_response env prompt s = (r, t)" by fastforce
  with short_answer_safely [of env prompt s] have "answered_safely True (r, t)" by simp
  moreover have "answered_safely True (and_then (lift (normalized_short_video_content env path) u) (\<lambda>media s.
      short_video_candidate_response env prompt (s\<lparr>rs_media := media, rs_normalized := True\<rparr>)))" for u
    by (intro safely_then media_safely short_answer_safely)
  ultimately show ?thesis unfolding short_responder_def r by (auto split: sum.split vexn.split)
qed

lemma indexed_answer_safely: "answered_safely chat (candidate_response env video_id prompt s)"
proof -
  have request: "answered_safely chat (vision_json_request env verb path body {} {} u)" for verb path body u
    unfolding vision_json_request_def
    by (auto intro!: safely_then sent_safely answer_checks_safely safely_raise(1) simp: reka_codes_def raise_if_def [of False])
  have "bounded_error (format_error ''reka_response_invalid'' ''indexed_video_candidate'' ''response_shape_invalid'')"
    by (intro format_error_bounded) (auto simp: reka_codes_def format_reasons_def answer_stages_def)
  then show ?thesis
    unfolding candidate_response_def
    by (intro safely_then request) (auto simp: answered_safely_def [of _ "(Inl _, _)"] answer_stages_def intro!: decode_safely split: json.split)
qed

lemma ask_result: "reka_result (media \<noteq> None) (fst (ask env video_id media prompt s))"
proof -
  have "answered_safely (media \<noteq> None) (responder env video_id media prompt s)"
    by (auto simp: responder_def short_responder_safely indexed_answer_safely split: option.split)
  then show ?thesis
    using allowlisted_result unfolding ask_def
    by (cases "responder env video_id media prompt s"; cases "fst (responder env video_id media prompt s)")
      (auto simp: answered_safely_def reka_result_def lift_def)
qed

lemma propose_result: "reka_result (media \<noteq> None) (fst (propose_candidates env video_id version media s))"
proof -
  have loop: "reka_result (media \<noteq> None) (fst (case ask env video_id media prompt u of
      (Inl (Pipeline code retryable d), s) \<Rightarrow>
         (if code \<in> repairable then ask env video_id media prompt2 s else (Inl (Pipeline code retryable d), s))
     | r \<Rightarrow> r))" for prompt prompt2 u
    using ask_result [of media env video_id prompt u] ask_result [of media env video_id prompt2]
    by (cases "ask env video_id media prompt u"; cases "fst (ask env video_id media prompt u)") (auto split: vexn.split)
  show ?thesis
  proof (cases media)
    case None
    show ?thesis using loop unfolding None by (simp add: propose_candidates_def)
  next
    case (Some path)
    show ?thesis
    proof (cases "short_video_content env path")
      case (Inl e)
      with media_safely(1) [of True env path s] Some show ?thesis
        by (simp add: propose_candidates_def lift_def reka_result_def answered_safely_def)
    next
      case (Inr m)
      then show ?thesis using loop unfolding Some by (simp add: propose_candidates_def lift_def)
    qed
  qed
qed

section \<open>Requests\<close>

text \<open>What a prompt sends: to the chat a content of the video and the prompt, else the identifier and the prompt.\<close>

definition request_of :: "reka_env \<Rightarrow> string \<Rightarrow> string option \<Rightarrow> json list \<Rightarrow> string \<Rightarrow> reka_request" where
  "request_of env video_id media content prompt =
     (case media of
        None \<Rightarrow> \<lparr>rr_chat = False, rr_method = ''POST'', rr_path = rk_base_path env @ ''/v1/qa/chat'',
          rr_body = Some (JObj [(''video_id'', JStr video_id),
            (''messages'', JArr [JObj [(''role'', JStr ''user''), (''content'', JStr prompt)]]), (''stream'', JBool False)])\<rparr>
      | Some path \<Rightarrow> \<lparr>rr_chat = True, rr_method = ''POST'', rr_path = rk_chat_base_path env @ ''/chat/completions'',
          rr_body = Some (chat_body env content prompt)\<rparr>)"

text \<open>The content is that of the file, or of its normalized copy.\<close>

definition content_ok :: "reka_env \<Rightarrow> string option \<Rightarrow> json list \<Rightarrow> bool" where
  "content_ok env media content \<longleftrightarrow>
     (case media of
        None \<Rightarrow> True
      | Some path \<Rightarrow> short_video_content env path = Inr content \<or> normalized_short_video_content env path = Inr content)"

definition prompt_request :: "reka_env \<Rightarrow> string \<Rightarrow> string option \<Rightarrow> string \<Rightarrow> reka_request \<Rightarrow> bool" where
  "prompt_request env video_id media prompt q \<longleftrightarrow>
     (\<exists>content. content_ok env media content \<and> q = request_of env video_id media content prompt)"

text \<open>The n-th request is answered with the frame mismatch: status 400 and its body.\<close>

definition frame_mismatch :: "reka_env \<Rightarrow> nat \<Rightarrow> reka_request \<Rightarrow> bool" where
  "frame_mismatch env n q \<longleftrightarrow>
     (case rk_http env n q of
        Some a \<Rightarrow> hr_status a = 400 \<and> is_reka_frame_mismatch (rk_reader env) (hr_text a)
      | None \<Rightarrow> False)"

text \<open>
  What one prompt sends, from the n-th request on: one request; or two, when the first was answered
  with the mismatch and no copy had been made, the second with the copy.
\<close>

definition prompted :: "reka_env \<Rightarrow> string \<Rightarrow> string option \<Rightarrow> string \<Rightarrow> reka_state \<Rightarrow> reka_state \<Rightarrow> reka_request list \<Rightarrow> bool" where
  "prompted env video_id media prompt s t qs \<longleftrightarrow> rs_log t = rs_log s @ qs \<and>
     (let q = request_of env video_id media (rs_media s) prompt in
      qs = [q] \<and> rs_media t = rs_media s \<and> rs_normalized t = rs_normalized s \<or>
      (\<exists>path. media = Some path \<and> \<not> rs_normalized s \<and> rs_normalized t \<and> frame_mismatch env (length (rs_log s)) q \<and>
         normalized_short_video_content env path = Inr (rs_media t) \<and>
         qs = [q, request_of env video_id media (rs_media t) prompt]))"

subsection \<open>Only an answer of the provider is the mismatch\<close>

definition no_mismatch :: "vexn \<Rightarrow> bool" where
  "no_mismatch e \<longleftrightarrow> (case e of Pipeline code retryable d \<Rightarrow> code \<noteq> ''reka_media_frame_mismatch'' | _ \<Rightarrow> True)"

lemma format_no_mismatch: "code \<noteq> ''reka_media_frame_mismatch'' \<Longrightarrow> no_mismatch (format_error code stage reason)"
  by (simp add: format_error_def pipeline_error_def no_mismatch_def split: option.split)

lemma blocks_no_mismatch:
  "block_text stage block = Inl e \<Longrightarrow> no_mismatch e" "block_texts stage n blocks = Inl e \<Longrightarrow> no_mismatch e"
proof -
  show one: "no_mismatch e" if "block_text stage block = Inl e" for block e
    using that by (auto simp: block_text_def Let_def format_no_mismatch split: json.split_asm option.split_asm if_split_asm)
      (auto simp: no_mismatch_def)
  show "no_mismatch e" if "block_texts stage n blocks = Inl e"
    using that by (induction blocks arbitrary: n) (auto simp: format_no_mismatch dest: one split: sum.split_asm if_split_asm)
qed

lemma text_no_mismatch:
  assumes "chat_response_text stage response = Inl e"
  shows "no_mismatch e"
proof -
  have message: "no_mismatch e" if "openai_message_text stage content = Inl e" for content
    using that
    by (auto simp: openai_message_text_def Let_def format_no_mismatch dest: blocks_no_mismatch(2)
        split: json.split_asm if_split_asm simp del: block_texts.simps)
  show ?thesis
  proof (cases "first_choice response")
    case (Some c)
    then obtain choice answer content where "first_choice response = Some (choice, answer, content)" by (cases c) simp
    with assms show ?thesis
      by (auto simp: chat_response_text_def first_error.simps format_no_mismatch dest: message split: if_split_asm)
  qed (use assms in \<open>auto simp: chat_response_text_def format_no_mismatch\<close>)
qed

lemma decode_no_mismatch: "decode_candidate_json rd stage prefilled raw = Inl e \<Longrightarrow> no_mismatch e"
  by (auto simp: decode_candidate_json_def format_no_mismatch split: option.split_asm)

lemma and_then_InlE:
  assumes "and_then r k = (Inl e, t)"
  obtains "r = (Inl e, t)" | x u where "r = (Inr x, u)" and "k x u = (Inl e, t)"
  using assms by (cases r; cases "fst r") auto

lemma short_answer_mismatch:
  assumes "short_video_candidate_response env prompt s = (Inl (Pipeline ''reka_media_frame_mismatch'' r d), t)"
  shows "frame_mismatch env (length (rs_log s)) (request_of env video_id (Some path) (rs_media s) prompt)"
  using assms unfolding short_video_candidate_response_def
proof (rule and_then_InlE)
  assume "chat_json_request env (chat_body env (rs_media s) prompt) s = (Inl (Pipeline ''reka_media_frame_mismatch'' r d), t)"
  then show ?thesis
    unfolding chat_json_request_def frame_mismatch_def request_of_def
    by (elim and_then_InlE)
      (auto simp: http_send_def lift_def raise_opt_def status_error_def bounded_body_def json_object_def first_error.simps
        split: option.split_asm if_split_asm json.split_asm elim!: and_then_InlE)
next
  fix x u
  assume "and_then (lift (chat_response_text ''short_video_candidate'' x) u)
      (\<lambda>raw. lift (decode_candidate_json (rk_reader env) ''short_video_candidate'' True raw)) =
    (Inl (Pipeline ''reka_media_frame_mismatch'' r d), t)"
  then show ?thesis
    by (rule and_then_InlE) (auto simp: lift_def no_mismatch_def dest: text_no_mismatch decode_no_mismatch)
qed

subsection \<open>What a prompt sends\<close>

lemma same_state_then: "(\<And>x t. snd (k x t) = t) \<Longrightarrow> snd (and_then r k) = snd r"
  by (cases r; cases "fst r") auto

lemma plain_state [simp]:
  "snd (lift x s) = s" "snd (raise_if b e s) = s" "snd (raise_opt y s) = s"
  by (simp_all add: lift_def raise_if_def raise_opt_def split: option.split)

lemma request_logs [simp]:
  "snd (chat_json_request env body s) = s\<lparr>rs_log := rs_log s @ [\<lparr>rr_chat = True, rr_method = ''POST'',
     rr_path = rk_chat_base_path env @ ''/chat/completions'', rr_body = Some body\<rparr>]\<rparr>"
  "snd (vision_json_request env verb path vbody ignored retryable s) = s\<lparr>rs_log := rs_log s @ [\<lparr>rr_chat = False, rr_method = verb,
     rr_path = rk_base_path env @ path, rr_body = vbody\<rparr>]\<rparr>"
  unfolding chat_json_request_def vision_json_request_def
  by (subst same_state_then; simp add: same_state_then http_send_def)+

lemma short_answer_log:
  "snd (short_video_candidate_response env prompt s) = s\<lparr>rs_log := rs_log s @ [\<lparr>rr_chat = True, rr_method = ''POST'',
     rr_path = rk_chat_base_path env @ ''/chat/completions'', rr_body = Some (chat_body env (rs_media s) prompt)\<rparr>]\<rparr>"
  unfolding short_video_candidate_response_def by (subst same_state_then; simp add: same_state_then)

lemma indexed_answer_log:
  "snd (candidate_response env video_id prompt s) = s\<lparr>rs_log := rs_log s @ [\<lparr>rr_chat = False, rr_method = ''POST'',
     rr_path = rk_base_path env @ ''/v1/qa/chat'', rr_body = Some (JObj [(''video_id'', JStr video_id),
       (''messages'', JArr [JObj [(''role'', JStr ''user''), (''content'', JStr prompt)]]), (''stream'', JBool False)])\<rparr>]\<rparr>"
  unfolding candidate_response_def by (subst same_state_then; simp add: same_state_then split: json.split)

lemma short_responder_prompted:
  "\<exists>qs. prompted env video_id (Some path) prompt s (snd (short_responder env path prompt s)) qs"
proof -
  let ?q = "request_of env video_id (Some path) (rs_media s) prompt"
  obtain r t where r: "short_video_candidate_response env prompt s = (r, t)" by fastforce
  have t: "t = s\<lparr>rs_log := rs_log s @ [?q]\<rparr>"
    using short_answer_log [of env prompt s] r by (simp add: request_of_def)
  have one: "prompted env video_id (Some path) prompt s t [?q]" by (simp add: prompted_def t Let_def)
  have again: "\<exists>qs. prompted env video_id (Some path) prompt s
      (snd (and_then (lift (normalized_short_video_content env path) t) (\<lambda>media s.
         short_video_candidate_response env prompt (s\<lparr>rs_media := media, rs_normalized := True\<rparr>)))) qs"
    if "\<not> rs_normalized t" "r = Inl (Pipeline ''reka_media_frame_mismatch'' b d)" for b d
  proof (cases "normalized_short_video_content env path")
    case (Inl e)
    with one show ?thesis by (auto simp: lift_def)
  next
    case (Inr media)
    have "frame_mismatch env (length (rs_log s)) ?q"
      using short_answer_mismatch r that(2) by blast
    with that(1) Inr have "prompted env video_id (Some path) prompt s
        (snd (and_then (lift (normalized_short_video_content env path) t) (\<lambda>media s.
           short_video_candidate_response env prompt (s\<lparr>rs_media := media, rs_normalized := True\<rparr>))))
        [?q, request_of env video_id (Some path) media prompt]"
      by (simp add: prompted_def Let_def lift_def short_answer_log t request_of_def)
    then show ?thesis ..
  qed
  show ?thesis
    unfolding short_responder_def r using one again by (auto split: sum.split vexn.split)
qed

lemma ask_prompted: "\<exists>qs. prompted env video_id media prompt s (snd (ask env video_id media prompt s)) qs"
proof -
  have "snd (ask env video_id media prompt s) = snd (responder env video_id media prompt s)"
    unfolding ask_def by (rule same_state_then) simp
  moreover have "\<exists>qs. prompted env video_id media prompt s (snd (responder env video_id media prompt s)) qs"
  proof (cases media)
    case None
    then have "prompted env video_id media prompt s (snd (responder env video_id media prompt s))
        [request_of env video_id media (rs_media s) prompt]"
      by (simp add: responder_def indexed_answer_log prompted_def request_of_def Let_def)
    then show ?thesis ..
  next
    case (Some path)
    with short_responder_prompted [of env video_id path prompt s] show ?thesis by (simp add: responder_def)
  qed
  ultimately show ?thesis by simp
qed

text \<open>
  Of the requests of a prompt, from the n-th on, the second is the first repeated with the normalized
  copy after the mismatch.
\<close>

definition repeated :: "reka_env \<Rightarrow> string option \<Rightarrow> string \<Rightarrow> nat \<Rightarrow> reka_request list \<Rightarrow> bool" where
  "repeated env media prompt n qs \<longleftrightarrow>
     (\<exists>path content. media = Some path \<and> frame_mismatch env n (hd qs) \<and> normalized_short_video_content env path = Inr content \<and>
        rr_body (last qs) = Some (chat_body env content prompt))"

lemma prompted_requests:
  assumes "prompted env video_id media prompt s t qs" and "content_ok env media (rs_media s)"
  shows "list_all (prompt_request env video_id media prompt) qs" and "content_ok env media (rs_media t)"
    and "length qs = 1 \<and> rs_normalized t = rs_normalized s \<or>
      length qs = 2 \<and> \<not> rs_normalized s \<and> rs_normalized t \<and> repeated env media prompt (length (rs_log s)) qs"
  using assms by (auto simp: prompted_def Let_def prompt_request_def content_ok_def repeated_def request_of_def split: option.split_asm)

text \<open>The requests of a proposal: those of the first prompt, and those of the repair prompt if it is sent.\<close>

definition proposal_requests :: "reka_env \<Rightarrow> string \<Rightarrow> string \<Rightarrow> string option \<Rightarrow> reka_state \<Rightarrow> reka_request list \<Rightarrow> reka_request list \<Rightarrow> bool" where
  "proposal_requests env video_id version media s first repair \<longleftrightarrow>
     list_all (prompt_request env video_id media (candidate_prompt version)) first \<and>
     list_all (prompt_request env video_id media (candidate_repair_prompt version)) repair \<and>
     length first \<le> 2 \<and> length repair \<le> 2 \<and>
     (length first = 2 \<longrightarrow> repeated env media (candidate_prompt version) (length (rs_log s)) first) \<and>
     (length repair = 2 \<longrightarrow> length first = 1 \<and> repeated env media (candidate_repair_prompt version) (Suc (length (rs_log s))) repair) \<and>
     (repair \<noteq> [] \<longrightarrow> first \<noteq> [] \<and> (\<exists>content code retryable d.
        (case media of None \<Rightarrow> content = [] | Some path \<Rightarrow> short_video_content env path = Inr content) \<and>
        fst (ask env video_id media (candidate_prompt version) (s\<lparr>rs_media := content, rs_normalized := False\<rparr>)) =
          Inl (Pipeline code retryable d) \<and>
        code \<in> {''reka_output_invalid'', ''reka_output_missing_fields'', ''reka_output_truncated'', ''reka_response_invalid''}))"

lemma propose_requests:
  "\<exists>first repair. rs_log (snd (propose_candidates env video_id version media s)) = rs_log s @ first @ repair \<and>
     proposal_requests env video_id version media s first repair"
proof -
  let ?first = "candidate_prompt version" and ?repair = "candidate_repair_prompt version"
  have loop: "\<exists>first repair. rs_log (snd (case ask env video_id media ?first u of
      (Inl (Pipeline code retryable d), s) \<Rightarrow>
         (if code \<in> repairable then ask env video_id media ?repair s else (Inl (Pipeline code retryable d), s))
     | r \<Rightarrow> r)) = rs_log s @ first @ repair \<and> proposal_requests env video_id version media s first repair"
    if u: "u = s\<lparr>rs_media := content, rs_normalized := False\<rparr>"
      and content: "case media of None \<Rightarrow> content = [] | Some path \<Rightarrow> short_video_content env path = Inr content" for u content
  proof -
    obtain r v where r: "ask env video_id media ?first u = (r, v)" by fastforce
    with ask_prompted [of env video_id media ?first u] obtain n1 where v: "prompted env video_id media ?first u v n1" by auto
    have "content_ok env media (rs_media u)" using content u by (simp add: content_ok_def split: option.split_asm)
    note n1 = prompted_requests [OF v this]
    obtain n2 where x: "prompted env video_id media ?repair v (snd (ask env video_id media ?repair v)) n2" using ask_prompted by blast
    note n2 = prompted_requests [OF x n1(2)]
    have logs: "rs_log v = rs_log s @ n1" "rs_log (snd (ask env video_id media ?repair v)) = rs_log s @ n1 @ n2"
      using v x u by (simp_all add: prompted_def)
    have one: "proposal_requests env video_id version media s n1 []"
      using n1 u by (auto simp: proposal_requests_def)
    have two: "proposal_requests env video_id version media s n1 n2" if "r = Inl (Pipeline code b d)" "code \<in> repairable" for code b d
    proof -
      have "fst (ask env video_id media ?first (s\<lparr>rs_media := content, rs_normalized := False\<rparr>)) = Inl (Pipeline code b d)"
        using r that(1) u by simp
      moreover have "code \<in> {''reka_output_invalid'', ''reka_output_missing_fields'', ''reka_output_truncated'', ''reka_response_invalid''}"
        using that(2) by (simp add: repairable_def)
      moreover have "n1 \<noteq> []" using n1(3) by auto
      moreover have "length n2 = 2 \<longrightarrow> length n1 = 1 \<and> repeated env media ?repair (Suc (length (rs_log s))) n2"
        using n1(3) n2(3) logs(1) by auto
      moreover have "length n1 = 2 \<longrightarrow> repeated env media ?first (length (rs_log s)) n1" using n1(3) u by auto
      moreover have "length n1 \<le> 2" "length n2 \<le> 2" using n1(3) n2(3) by auto
      ultimately show ?thesis
        unfolding proposal_requests_def using n1(1) n2(1) content
        by (intro conjI impI exI [of _ content] exI [of _ code] exI [of _ b] exI [of _ d]) simp_all
    qed
    have "\<exists>first repair. rs_log (snd (ask env video_id media ?repair v)) = rs_log s @ first @ repair \<and>
        proposal_requests env video_id version media s first repair"
      if "r = Inl (Pipeline code b d)" "code \<in> repairable" for code b d
      using logs(2) two [OF that] by (intro exI [of _ n1] exI [of _ n2]) simp
    moreover from logs(1) one have "\<exists>first repair. rs_log v = rs_log s @ first @ repair \<and> proposal_requests env video_id version media s first repair"
      by (intro exI [of _ n1] exI [of _ "[]"]) simp
    ultimately show ?thesis unfolding r by (cases r) (auto split: vexn.split)
  qed
  show ?thesis
  proof (cases media)
    case None
    show ?thesis using loop [OF refl, of "[]"] unfolding None by (simp add: propose_candidates_def)
  next
    case (Some path)
    show ?thesis
    proof (cases "short_video_content env path")
      case (Inl e)
      with Some show ?thesis
        by (intro exI [of _ "[]"]) (simp add: propose_candidates_def lift_def proposal_requests_def)
    next
      case (Inr m)
      then show ?thesis using loop [OF refl, of m] unfolding Some by (simp add: propose_candidates_def lift_def)
    qed
  qed
qed

text \<open>So the service gets from the provider only short lists, of proposals it checks as above.\<close>

lemma service_gets_lists:
  assumes "ve_propose (with_reka rk version env) n v media = Inr x"
  shows "\<exists>ps. x = JArr ps \<and> length ps \<le> 25 \<and> list_all service_checks ps"
  using assms propose_result [of media "rk n" v version new_call]
  by (cases "fst (propose_candidates (rk n) v version media new_call)") (auto simp: with_reka_def reka_result_def list_all_iff)

section \<open>The properties\<close>

text \<open>
  C30. Whatever the vision provider answers, at most 25 proposals come back, each an object of exactly
  the three allowlisted fields: an offset that is not negative, an allowed category and a confidence
  from 0 to 1; or an error with a code of the client and bounded diagnostics. The service's own checks
  accept such a proposal, except for an offset that is no finite double, like 1e400 or an integer of
  310 digits, which the client lets through. One error is not classified: the blocks of a chat answer
  can make the client raise \<open>TypeError\<close>.
\<close>

lemma provider_answers_are_allowlisted:
  "reka_result (media \<noteq> None) (fst (propose_candidates env video_id version media s))"
  by (rule propose_result)

text \<open>
  C29. Proposing candidates sends the first prompt and, only when its answer is malformed in one of four
  ways, the repair prompt. Each is sent once; one of them, of a short video, a second time, when it was
  answered with the frame mismatch, and then with the normalized copy. So there are at most two requests,
  and a third only after a mismatch. A request holds the prompt and the identifier of the indexed video
  or the content of the short one, nothing else of the tenant. The mismatch may also be the answer to
  the repair prompt, which is then sent twice.
\<close>

lemma analysis_asks_at_most_three_times:
  "\<exists>first repair. rs_log (snd (propose_candidates env video_id version media s)) = rs_log s @ first @ repair \<and>
     list_all (prompt_request env video_id media (candidate_prompt version)) first \<and>
     list_all (prompt_request env video_id media (candidate_repair_prompt version)) repair \<and>
     length first \<le> 2 \<and> length repair \<le> 2 \<and>
     (length first = 2 \<longrightarrow> repeated env media (candidate_prompt version) (length (rs_log s)) first) \<and>
     (length repair = 2 \<longrightarrow> length first = 1 \<and> repeated env media (candidate_repair_prompt version) (Suc (length (rs_log s))) repair) \<and>
     (repair \<noteq> [] \<longrightarrow> first \<noteq> [] \<and> (\<exists>content code retryable d.
        (case media of None \<Rightarrow> content = [] | Some path \<Rightarrow> short_video_content env path = Inr content) \<and>
        fst (ask env video_id media (candidate_prompt version) (s\<lparr>rs_media := content, rs_normalized := False\<rparr>)) =
          Inl (Pipeline code retryable d) \<and>
        code \<in> {''reka_output_invalid'', ''reka_output_missing_fields'', ''reka_output_truncated'', ''reka_response_invalid''}))"
  using propose_requests [of env video_id version media s] by (simp only: proposal_requests_def)

section \<open>The exception\<close>

definition demo_reader :: reader where
  "demo_reader = \<lparr>rd_float = id, rd_max_depth = 900\<rparr>"

text \<open>A block whose type is a list.\<close>

definition demo_reka :: reka_env where
  "demo_reka = \<lparr>rk_reader = demo_reader, rk_base_path = [], rk_chat_base_path = ''/v1'', rk_chat_model = ''m'',
     rk_http = (\<lambda>_ _. Some \<lparr>hr_status = 200, hr_length = 200, hr_text = Some
       ''{\"choices\":[{\"finish_reason\":\"stop\",\"message\":{\"role\":\"assistant\",\"content\":[{\"type\":[],\"text\":\"[]\"}]}}]}''\<rparr>),
     rk_media_type = (\<lambda>_. Some ''video/mp4''), rk_read = (\<lambda>_. Some ''AAAA''), rk_normalize = (\<lambda>_. None)\<rparr>"

text \<open>A malformed answer, a frame mismatch, and an empty list: the repair prompt is sent twice.\<close>

definition demo_mismatch :: string where
  "demo_mismatch = ''{\"error\":{\"type\":\"BadRequestError\",\"code\":\"invalid_request\",\"message\":\"Expected 8 frames, got 7 None\"}}''"

definition demo_reka_repair :: reka_env where
  "demo_reka_repair = demo_reka\<lparr>rk_normalize := (\<lambda>_. Some 100),
     rk_http := (\<lambda>n q. Some (if n = 1 then \<lparr>hr_status = 400, hr_length = 100, hr_text = Some demo_mismatch\<rparr>
       else \<lparr>hr_status = 200, hr_length = 100, hr_text = Some (if n = 0 then ''{}''
         else ''{\"choices\":[{\"finish_reason\":\"stop\",\"message\":{\"role\":\"assistant\",\"content\":\"[]\"}}]}'')\<rparr>))\<rparr>"

lemma analysis_asks_at_most_three_times_witness:
  "\<exists>first repair. rs_log (snd (propose_candidates demo_reka_repair ''v'' ''1'' (Some ''/m/a.mp4'') new_call)) = first @ repair \<and>
     length first = 1 \<and> length repair = 2 \<and> frame_mismatch demo_reka_repair 1 (hd repair) \<and>
     list_all (prompt_request demo_reka_repair ''v'' (Some ''/m/a.mp4'') (candidate_repair_prompt ''1'')) repair"
proof -
  have three: "length (rs_log (snd (propose_candidates demo_reka_repair ''v'' ''1'' (Some ''/m/a.mp4'') new_call))) = 3" by code_simp
  have ok: "\<not> frame_mismatch demo_reka_repair 0 q" for q by (simp add: frame_mismatch_def demo_reka_repair_def)
  have fresh: "rs_log new_call = []" by (simp add: new_call_def)
  from analysis_asks_at_most_three_times [of demo_reka_repair "''v''" "''1''" "Some ''/m/a.mp4''" new_call, unfolded fresh append_Nil list.size]
  obtain asked again where log: "rs_log (snd (propose_candidates demo_reka_repair ''v'' ''1'' (Some ''/m/a.mp4'') new_call)) = asked @ again"
    and lengths: "length asked \<le> 2" "length again \<le> 2"
    and twice: "length asked = 2 \<longrightarrow> repeated demo_reka_repair (Some ''/m/a.mp4'') (candidate_prompt ''1'') 0 asked"
      "length again = 2 \<longrightarrow> length asked = 1 \<and> repeated demo_reka_repair (Some ''/m/a.mp4'') (candidate_repair_prompt ''1'') (Suc 0) again"
    and prompts: "list_all (prompt_request demo_reka_repair ''v'' (Some ''/m/a.mp4'') (candidate_repair_prompt ''1'')) again"
    by blast
  from twice(1) ok have "length asked \<noteq> 2" by (auto simp: repeated_def)
  with lengths three log have "length asked = 1" "length again = 2" by auto
  with log twice(2) prompts show ?thesis by (auto simp: repeated_def)
qed

text \<open>The blocks of an answer.\<close>

lemma block_type_is_not_hashable:
  "fst (propose_candidates demo_reka ''v'' ''1'' (Some ''/m/a.mp4'') new_call) =
     Inl (Failure ''TypeError'')"
  by code_simp

end
