(* ===== verification/Video_Formats.thy ===== *)
theory Video_Formats
  imports Video_Boundary
begin

text \<open>The forms in which a list of proposals may be written, and that each is read as the list.\<close>

section \<open>Reading what \<open>dumps\<close> writes\<close>

lemma float_literal_finite: "float_literal t \<Longrightarrow> finite_float t"
  by (auto simp: finite_float_def is_digit_def elim!: float_head)

lemma plain_no_constant: "plain v \<Longrightarrow> \<not> list_ex is_constant (json_leaves v)"
  by (induction v) (auto simp: list_ex_iff list_all_iff float_literal_finite)

text \<open>Within the limits of the interpreter, and with floats written as their \<open>repr\<close>.\<close>

definition readable :: "reader \<Rightarrow> json \<Rightarrow> bool" where
  "readable rd v \<longleftrightarrow> plain v \<and> list_all digits_allowed (json_leaves v) \<and> json_depth v \<le> rd_max_depth rd \<and>
     map_floats (rd_float rd) v = v"

lemma read_dumps: "readable rd v \<Longrightarrow> read_strict rd (dumps v) = Some v"
  using plain_no_constant [of v] by (simp add: readable_def read_strict_def read_json_def loads_dumps)

lemma strip_ends:
  assumes "\<not> is_space a" and "\<not> is_space b"
  shows "py_strip (a # s @ [b]) = a # s @ [b]" "py_strip [a] = [a]" "py_strip (CHR 0x0A # a # s @ [b, CHR 0x0A]) = a # s @ [b]"
proof -
  have "is_space (CHR 0x0A)" by code_simp
  with assms show "py_strip (a # s @ [b]) = a # s @ [b]" "py_strip [a] = [a]"
    "py_strip (CHR 0x0A # a # s @ [b, CHR 0x0A]) = a # s @ [b]" by (simp_all add: py_strip_def)
qed

lemma marks_no_space: "\<not> is_space (CHR ''['')" "\<not> is_space (CHR '']'')" "\<not> is_space (CHR ''{'')" "\<not> is_space (CHR 0x60)"
  "\<not> is_space (CHR ''a'')" "is_space (CHR '' '')" "is_space (CHR 0x0A)"
  by code_simp+

section \<open>The forms\<close>

definition bare :: "json list \<Rightarrow> string" where
  "bare vs = dumps (JArr vs)"

definition fenced :: "json list \<Rightarrow> string" where
  "fenced vs = fence @ ''json'' @ [CHR 0x0A] @ dumps (JArr vs) @ [CHR 0x0A] @ fence"

text \<open>What follows the opening bracket of the request.\<close>

definition continuation :: "json list \<Rightarrow> string" where
  "continuation vs = tl (dumps (JArr vs))"

lemma bare_shape: "dumps (JArr vs) = CHR ''['' # continuation vs"
  by (simp add: continuation_def)

lemma continuation_shape: "continuation vs = join '','' (map dumps vs) @ '']''"
  by (simp add: continuation_def)

lemma bare_read: "readable rd (JArr vs) \<Longrightarrow> decoded_candidates rd prefilled (bare vs) = Some (JArr vs)"
  using read_dumps [of rd "JArr vs"] strip_ends(1) [OF marks_no_space(1,2), of "join '','' (map dumps vs)"]
  by (simp add: decoded_candidates_def bare_def fence_def Let_def)

lemma fenced_read:
  assumes "readable rd (JArr vs)"
  shows "decoded_candidates rd prefilled (fenced vs) = Some (JArr vs)"
proof -
  let ?d = "dumps (JArr vs)"
  let ?inner = "''json'' @ [CHR 0x0A] @ ?d @ [CHR 0x0A]"
  have whole: "fenced vs = fence @ ?inner @ fence" by (simp add: fenced_def)
  have "py_strip (fence @ u @ fence) = fence @ u @ fence" for u
    using strip_ends(1) [OF marks_no_space(4,4), of "[CHR 0x60, CHR 0x60] @ u @ [CHR 0x60, CHR 0x60]"] by (simp add: fence_def)
  then have strip: "py_strip (fenced vs) = fenced vs" unfolding whole .
  have ends: "prefix fence (fenced vs)" "suffix fence (fenced vs)" "6 \<le> length (fenced vs)"
    unfolding whole by (simp_all add: fence_def suffix_def)
  have inner: "take (length (fenced vs) - 6) (drop 3 (fenced vs)) = ?inner"
    unfolding whole by (simp add: fence_def)
  have json: "prefix ''json'' (py_lower ?inner)" by (simp add: py_lower_def lower_char_def)
  have body: "py_strip ([CHR 0x0A] @ ?d @ [CHR 0x0A]) = ?d"
    using strip_ends(3) [OF marks_no_space(1,2), of "join '','' (map dumps vs)"] by simp
  have again: "py_strip ?d = ?d"
    using strip_ends(1) [OF marks_no_space(1,2), of "join '','' (map dumps vs)"] by simp
  have "fenced_payload (fenced vs) = Some ?d"
    unfolding fenced_payload_def inner Let_def using ends json body by (simp del: dumps.simps)
  with strip ends(1) again read_dumps [OF assms] show ?thesis
    by (simp add: decoded_candidates_def Let_def del: dumps.simps)
qed

text \<open>The rest of a list is no value of its own: it starts with a bracket or goes on after its first value.\<close>

lemma continuation_not_read:
  assumes "list_all plain vs"
  shows "read_strict rd (continuation vs) = None"
proof (cases vs)
  case Nil
  have "loads '']'' = None" by code_simp
  with Nil show ?thesis by (simp add: read_strict_def continuation_shape)
next
  case (Cons v ws)
  obtain r where r: "continuation vs = dumps v @ r" "number_end r" "skip_ws r \<noteq> []"
    using Cons by (cases ws) (auto simp: continuation_shape skip_ws_def json_space_def)
  have "parse_value (Suc (2 * length (dumps v @ r))) (dumps v @ r) = Some (v, r)"
    using assms Cons r(2) by (intro parse_value_dumps) auto
  moreover have "skip_ws (dumps v @ r) = dumps v @ r"
    using assms Cons dumps_not_space [of v r] by simp
  ultimately have "loads (continuation vs) = None"
    unfolding loads_def r(1) using r(3) by (simp del: parse_value.simps)
  then show ?thesis by (simp add: read_strict_def)
qed

lemma continuation_read:
  assumes "readable rd (JArr vs)" and "\<forall>v \<in> set vs. \<exists>kvs. v = JObj kvs"
  shows "decoded_candidates rd True (continuation vs) = Some (JArr vs)"
    and "decoded_candidates rd True (''assistant: '' @ continuation vs) = Some (JArr vs)"
proof -
  have plain: "list_all plain vs" using assms(1) by (simp add: readable_def)
  obtain c s where shape: "continuation vs = c # s" "c \<in> {CHR ''{'', CHR '']''}" "\<exists>u. continuation vs = [CHR '']''] \<or> continuation vs = c # u @ '']''"
  proof (cases vs)
    case (Cons v ws)
    with assms(2) obtain kvs where "v = JObj kvs" by auto
    with Cons that [of "CHR ''{''"] show thesis by (cases ws) (auto simp: continuation_shape)
  qed (use that in \<open>simp add: continuation_shape\<close>)
  have space: "\<not> is_space c" using shape(2) marks_no_space(2,3) by auto
  have strip: "py_strip (continuation vs) = continuation vs"
    using shape(3) strip_ends(1) [OF space marks_no_space(2)] strip_ends(2) [OF marks_no_space(2)] marks_no_space(2) by auto
  have left: "left_strip (CHR '' '' # continuation vs) = continuation vs"
    using space marks_no_space(6) shape(1) by (simp add: left_strip_def)
  have no_fence: "\<not> prefix fence (continuation vs)" using shape(1,2) by (auto simp: fence_def)
  have no_role: "\<not> prefix ''assistant:'' (continuation vs)" using shape(1,2) by auto
  have whole: "read_strict rd (CHR ''['' # continuation vs) = Some (JArr vs)"
    using read_dumps [OF assms(1)] unfolding bare_shape .
  have "continued_json rd (continuation vs) = Some (JArr vs)"
    using no_fence no_role whole by (simp add: continued_json_def)
  with strip no_fence continuation_not_read [OF plain] show "decoded_candidates rd True (continuation vs) = Some (JArr vs)"
    by (simp add: decoded_candidates_def Let_def)
  let ?t = "''assistant: '' @ continuation vs"
  have drop: "drop 10 ?t = CHR '' '' # continuation vs" by simp
  have cont: "continued_json rd ?t = Some (JArr vs)"
    unfolding continued_json_def drop left Let_def using no_fence whole by simp
  have "py_strip ?t = ?t"
  proof -
    obtain u where "?t = CHR ''a'' # u @ '']''" using shape(3) by (auto simp: append_eq_Cons_conv)
    with strip_ends(1) [OF marks_no_space(5,2), of u] show ?thesis by simp
  qed
  moreover have "loads ?t = None"
    by (simp add: loads_def skip_ws_def json_space_def parse_number_def parse_unsigned_def digit_run_def is_digit_def)
  then have "read_strict rd ?t = None" by (simp add: read_strict_def)
  moreover have "\<not> prefix fence ?t" by (simp add: fence_def)
  ultimately show "decoded_candidates rd True (''assistant: '' @ continuation vs) = Some (JArr vs)"
    using cont by (simp add: decoded_candidates_def Let_def)
qed

section \<open>Accepting the list\<close>

lemma allowed_is_projected: "proposal_allowed p \<Longrightarrow> projected_item n p = Inr p"
  by (auto simp: proposal_allowed_iff projected_item_def required_fields_def got_def member_def invalid_names_def Let_def)

lemma allowed_are_projected: "\<forall>p \<in> set vs. proposal_allowed p \<Longrightarrow> projected_items n vs = Inr vs"
  by (induction vs arbitrary: n) (simp_all add: allowed_is_projected)

lemma allowed_list: "\<forall>p \<in> set vs. proposal_allowed p \<Longrightarrow> length vs \<le> 25 \<Longrightarrow> allowlisted_candidate_output (JArr vs) = Inr vs"
  by (simp add: allowlisted_candidate_output_def unwrapped_def max_provider_candidates_def allowed_are_projected)

text \<open>
  C40. A list of at most 25 allowlisted proposals is read as that list and accepted, whether the model
  writes it bare, in a JSON fence, as the continuation of the bracket the request ends with, or after
  the role marker the chat echoes.
\<close>

lemma written_proposals_are_read:
  assumes "readable rd (JArr ps)" and "\<forall>p \<in> set ps. proposal_allowed p" and "length ps \<le> 25"
  shows "decode_candidate_json rd stage prefilled (bare ps) = Inr (JArr ps) \<and>
    decode_candidate_json rd stage prefilled (fenced ps) = Inr (JArr ps) \<and>
    decode_candidate_json rd stage True (continuation ps) = Inr (JArr ps) \<and>
    decode_candidate_json rd stage True (''assistant: '' @ continuation ps) = Inr (JArr ps) \<and>
    allowlisted_candidate_output (JArr ps) = Inr ps"
proof -
  have "\<forall>p \<in> set ps. \<exists>kvs. p = JObj kvs" using assms(2) by (auto simp: proposal_allowed_iff)
  note continued = continuation_read [OF assms(1) this]
  from assms show ?thesis
    by (simp add: decode_candidate_json_def bare_read fenced_read continued(1) continued(2) [simplified] allowed_list)
qed

definition demo_list :: "json list" where
  "demo_list =
     [JObj [(''offset_seconds'', JFloat ''2.5''), (''category'', JStr ''other''), (''confidence'', JFloat ''0.75'')],
      JObj [(''offset_seconds'', JInt 11), (''category'', JStr ''violence''), (''confidence'', JInt 1)]]"

lemma written_proposals_are_read_witness:
  "decode_candidate_json demo_reader ''short_video_candidate'' True (''assistant: '' @ continuation demo_list) = Inr (JArr demo_list) \<and>
   allowlisted_candidate_output (JArr demo_list) = Inr demo_list"
proof -
  have "readable demo_reader (JArr demo_list)" by code_simp
  moreover have "length demo_list \<le> 25" by code_simp
  moreover have "\<forall>p \<in> set demo_list. proposal_allowed p"
  proof -
    have "offset_allowed (JFloat ''2.5'')" "category_allowed (JStr ''other'')" "confidence_allowed (JFloat ''0.75'')"
      "offset_allowed (JInt 11)" "category_allowed (JStr ''violence'')" "confidence_allowed (JInt 1)" by code_simp+
    then show ?thesis by (simp add: demo_list_def proposal_allowed_iff)
  qed
  ultimately show ?thesis
    using written_proposals_are_read [of demo_reader demo_list "''short_video_candidate''" True] by blast
qed

end
