(* ===== verification/Py_Double.thy ===== *)
theory Py_Double
  imports Py_Float Complex_Main "HOL-Library.Log_Nat"
begin

text \<open>
  Python floats as the code computes with them: IEEE binary64 values. A finite double is the
  rational it stands for (the two zeros are one value); sum, product and quotient are the exact
  rational result rounded to 53 bits, ties to even, with the subnormals below \<open>2 ^ -1022\<close> and the
  infinities above the largest double. Comparisons are Python's, false when a NaN takes part; the
  instance of \<open>linorder\<close> is the order numpy sorts by, which puts NaN last.
\<close>

section \<open>Rounding\<close>

text \<open>To the nearest integer, ties to even.\<close>

definition nearest_int :: "rat \<Rightarrow> int" where
  "nearest_int q =
     (let f = \<lfloor>q\<rfloor>; r = q - of_int f in
      if r < 1 / 2 then f else if 1 / 2 < r then f + 1 else if even f then f else f + 1)"

text \<open>The exponent of a positive rational: \<open>2 ^ e \<le> q < 2 ^ (e + 1)\<close>.\<close>

definition binade :: "rat \<Rightarrow> int" where
  "binade q =
     (case quotient_of q of (n, d) \<Rightarrow>
        let e = int (floorlog 2 (nat n)) - int (floorlog 2 (nat d)) in
        if 2 powi e \<le> q then e else e - 1)"

text \<open>The distance between neighbouring doubles at a positive rational.\<close>

definition spacing :: "rat \<Rightarrow> rat" where
  "spacing q = 2 powi max (binade q - 52) (- 1074)"

definition round_rat :: "rat \<Rightarrow> rat" where
  "round_rat q =
     (if q = 0 then 0
      else if 0 < q then of_int (nearest_int (q / spacing q)) * spacing q
      else - (of_int (nearest_int (- q / spacing (- q))) * spacing (- q)))"

lemma nearest_int_mono:
  assumes "p \<le> q"
  shows "nearest_int p \<le> nearest_int q"
proof (cases "\<lfloor>p\<rfloor> = \<lfloor>q\<rfloor>")
  case True
  with assms show ?thesis by (auto simp: nearest_int_def Let_def)
next
  case False
  with floor_mono [OF assms] have "\<lfloor>p\<rfloor> + 1 \<le> \<lfloor>q\<rfloor>" by linarith
  moreover have "nearest_int p \<le> \<lfloor>p\<rfloor> + 1" "\<lfloor>q\<rfloor> \<le> nearest_int q" by (auto simp: nearest_int_def Let_def)
  ultimately show ?thesis by linarith
qed

lemma nearest_int_of_int [simp]: "nearest_int (of_int n) = n"
  by (simp add: nearest_int_def)

lemma nearest_int_error: "\<bar>of_int (nearest_int q) - q\<bar> \<le> 1 / 2"
proof -
  have "of_int \<lfloor>q\<rfloor> \<le> q" "q < of_int \<lfloor>q\<rfloor> + 1" using floor_correct [of q] by simp_all
  then show ?thesis by (auto simp: nearest_int_def Let_def abs_le_iff)
qed

lemma binade_bounds:
  assumes "0 < q"
  shows "2 powi binade q \<le> q" and "q < 2 powi (binade q + 1)"
proof -
  obtain n d where nd: "quotient_of q = (n, d)" by fastforce
  with assms have pos: "0 < n" "0 < d" and q: "q = of_int n / of_int d"
    using quotient_of_denom_pos [OF nd] quotient_of_div [OF nd] by (auto simp: zero_less_divide_iff)
  let ?a = "floorlog 2 (nat n)" and ?b = "floorlog 2 (nat d)" let ?e = "int ?a - int ?b"
  have "?a \<noteq> 0" "?b \<noteq> 0" using pos by (simp_all add: floorlog_eq_zero_iff)
  then obtain a b where ab: "?a = Suc a" "?b = Suc b" by (metis not0_implies_Suc)
  have n: "2 ^ a \<le> nat n" "nat n < 2 ^ Suc a" and d: "2 ^ b \<le> nat d" "nat d < 2 ^ Suc b"
    using floorlog_bounds [of "nat n" 2] floorlog_bounds [of "nat d" 2] pos ab by auto
  have "2 ^ a \<le> n" "n < 2 * 2 ^ a" "2 ^ b \<le> d" "d < 2 * 2 ^ b"
    using n d pos by (simp_all add: le_nat_iff nat_less_iff)
  then have "of_int (2 ^ a) \<le> (of_int n :: rat)" "(of_int n :: rat) < of_int (2 * 2 ^ a)"
    "of_int (2 ^ b) \<le> (of_int d :: rat)" "(of_int d :: rat) < of_int (2 * 2 ^ b)"
    by (simp_all only: of_int_le_iff of_int_less_iff)
  then have n': "(2::rat) ^ a \<le> of_int n" "of_int n < (2::rat) * 2 ^ a"
    and d': "(2::rat) ^ b \<le> of_int d" "of_int d < (2::rat) * 2 ^ b"
    by simp_all
  have powers: "(2::rat) powi ?e = 2 ^ a / 2 ^ b" "(2::rat) powi (?e + 1) = 2 * 2 ^ a / 2 ^ b" "(2::rat) powi (?e - 1) = 2 ^ a / (2 * 2 ^ b)"
    by (simp_all add: ab power_int_diff power_int_add)
  have upper: "q < 2 powi (?e + 1)"
    unfolding q powers using n'(2) d'(1) by (intro frac_less) (use pos in auto)
  have lower: "2 powi (?e - 1) \<le> q"
    unfolding q powers using n'(1) d'(2) pos by (intro frac_le) auto
  show "2 powi binade q \<le> q" "q < 2 powi (binade q + 1)"
    using upper lower by (auto simp: binade_def nd Let_def)
qed

text \<open>Doubles at a common spacing: rounding is monotone, and powers of two are doubles.\<close>

lemma binade_mono: "0 < p \<Longrightarrow> p \<le> q \<Longrightarrow> binade p \<le> binade q"
proof (rule ccontr)
  assume "0 < p" "p \<le> q" and "\<not> binade p \<le> binade q"
  then have "2 powi (binade q + 1) \<le> (2::rat) powi binade p" by (intro power_int_increasing) auto
  with binade_bounds [of p] binade_bounds [of q] \<open>0 < p\<close> \<open>p \<le> q\<close> show False by linarith
qed

lemma binade_eqI:
  assumes "2 powi e \<le> q" "q < 2 powi (e + 1)"
  shows "binade q = e"
proof -
  have "(0::rat) < 2 powi e" by simp
  with assms(1) have "0 < q" by linarith
  note b = binade_bounds [OF this]
  have "\<not> binade q + 1 \<le> e" "\<not> e + 1 \<le> binade q"
    using power_int_increasing [of "binade q + 1" e "2::rat"] power_int_increasing [of "e + 1" "binade q" "2::rat"] b assms
    by auto
  then show ?thesis by linarith
qed

lemma spacing_pos [simp]: "0 < spacing q"
  by (simp add: spacing_def)

lemma spacing_nonzero [simp]: "spacing q \<noteq> 0"
  using spacing_pos [of q] by (metis less_irrefl)

lemma on_grid:
  assumes "s \<le> e"
  shows "(2::rat) powi e / 2 powi s = of_int (2 ^ nat (e - s))"
proof -
  have "(2::rat) powi e / 2 powi s = 2 powi (e - s)" by (simp add: power_int_diff)
  also have "\<dots> = 2 ^ nat (e - s)" using assms by (simp add: power_int_def)
  finally show ?thesis by simp
qed

lemma spacing_exponent: "spacing q \<le> 2 powi e \<longleftrightarrow> max (binade q - 52) (- 1074) \<le> e"
proof
  assume "spacing q \<le> 2 powi e"
  then have "\<not> 2 powi e < (2::rat) powi max (binade q - 52) (- 1074)" by (simp add: spacing_def)
  then show "max (binade q - 52) (- 1074) \<le> e"
    using power_int_strict_increasing [of e _ "2::rat"] by (meson linorder_not_less one_less_numeral_iff semiring_norm(76))
next
  assume "max (binade q - 52) (- 1074) \<le> e"
  then show "spacing q \<le> 2 powi e" unfolding spacing_def by (intro power_int_increasing) auto
qed

lemma round_below_grid:
  assumes "0 < q" "q \<le> of_int k * spacing q"
  shows "round_rat q \<le> of_int k * spacing q"
proof -
  have "nearest_int (q / spacing q) \<le> nearest_int (of_int k)"
    using assms(2) by (intro nearest_int_mono) (simp add: pos_divide_le_eq)
  then show ?thesis using assms(1) by (simp add: round_rat_def)
qed

lemma round_above_grid:
  assumes "0 < q" "of_int k * spacing q \<le> q"
  shows "of_int k * spacing q \<le> round_rat q"
proof -
  have "nearest_int (of_int k) \<le> nearest_int (q / spacing q)"
    using assms(2) by (intro nearest_int_mono) (simp add: pos_le_divide_eq)
  then show ?thesis using assms(1) by (simp add: round_rat_def)
qed

lemma power_on_grid:
  assumes "spacing q \<le> 2 powi e"
  obtains k where "(2::rat) powi e = of_int k * spacing q"
proof
  show "(2::rat) powi e = of_int (2 ^ nat (e - max (binade q - 52) (- 1074))) * spacing q"
    using on_grid [of "max (binade q - 52) (- 1074)" e] assms unfolding spacing_exponent
    by (simp add: spacing_def field_simps)
qed

lemma round_rat_mono_pos:
  assumes "0 < p" "p \<le> q"
  shows "round_rat p \<le> round_rat q"
proof (cases "spacing p = spacing q")
  case True
  have "nearest_int (p / spacing p) \<le> nearest_int (q / spacing q)"
    using assms(2) True by (intro nearest_int_mono) (simp add: divide_right_mono less_imp_le)
  then show ?thesis using assms True by (simp add: round_rat_def)
next
  case False
  let ?e = "binade q"
  have less: "binade p < ?e" "- 1022 < ?e"
    using binade_mono [OF assms] False by (auto simp: spacing_def max_def le_less split: if_splits)
  then have grid: "spacing p \<le> 2 powi ?e" "spacing q \<le> 2 powi ?e" by (auto simp: spacing_exponent)
  have "p \<le> 2 powi (binade p + 1)" "2 powi (binade p + 1) \<le> (2::rat) powi ?e" "2 powi ?e \<le> q"
    using binade_bounds [of p] binade_bounds [of q] assms less by (auto intro!: power_int_increasing)
  moreover obtain k where "(2::rat) powi ?e = of_int k * spacing p" using power_on_grid [OF grid(1)] .
  moreover obtain l where "(2::rat) powi ?e = of_int l * spacing q" using power_on_grid [OF grid(2)] .
  ultimately have "round_rat p \<le> 2 powi ?e" "2 powi ?e \<le> round_rat q"
    using round_below_grid [of p k] round_above_grid [of q l] assms by auto
  then show ?thesis by linarith
qed

lemma round_rat_0 [simp]: "round_rat 0 = 0"
  by (simp add: round_rat_def)

lemma round_rat_uminus: "round_rat (- q) = - round_rat q"
  by (simp add: round_rat_def)

lemma round_rat_nonneg: "0 \<le> q \<Longrightarrow> 0 \<le> round_rat q"
  using nearest_int_mono [of 0 "q / spacing q"] nearest_int_of_int [of 0]
  by (auto simp: round_rat_def less_imp_le)

lemma round_rat_mono: "p \<le> q \<Longrightarrow> round_rat p \<le> round_rat q"
proof -
  assume le: "p \<le> q"
  consider "0 < p" | "p \<le> 0" "0 \<le> q" | "q < 0" using le by linarith
  then show ?thesis
  proof cases
    case 1
    with le show ?thesis by (intro round_rat_mono_pos)
  next
    case 2
    then show ?thesis using round_rat_nonneg [of q] round_rat_nonneg [of "- p"] by (simp add: round_rat_uminus)
  next
    case 3
    with le show ?thesis using round_rat_mono_pos [of "- q" "- p"] by (simp add: round_rat_uminus)
  qed
qed

lemma round_rat_grid: "0 < q \<Longrightarrow> q = of_int k * spacing q \<Longrightarrow> round_rat q = q"
  using round_below_grid [of q k] round_above_grid [of q k] by simp

text \<open>Integers up to \<open>2 ^ 53\<close> are doubles.\<close>

lemma round_rat_of_int:
  assumes "\<bar>n\<bar> \<le> 2 ^ 53"
  shows "round_rat (of_int n) = of_int n"
proof -
  have pos: "round_rat (of_int k) = of_int k" if k: "0 < k" "k \<le> 2 ^ 53" for k
  proof (cases "k = 2 ^ 53")
    case True
    have "binade (2 ^ 53) = 53" by (rule binade_eqI) simp_all
    then have "spacing (2 ^ 53) = 2" by (simp add: spacing_def)
    with True show ?thesis using round_rat_grid [of "2 ^ 53" "2 ^ 52"] by simp
  next
    case False
    with k have "k + 1 \<le> 2 ^ 53" by linarith
    have "binade (of_int k) \<le> 52"
    proof (rule ccontr)
      assume "\<not> ?thesis"
      then have "2 powi 53 \<le> (2::rat) powi binade (of_int k)" by (intro power_int_increasing) auto
      with binade_bounds [of "of_int k"] k have "2 ^ 53 \<le> (of_int k :: rat)" by simp
      then have "2 ^ 53 \<le> k" by (metis of_int_le_iff of_int_numeral of_int_power)
      with \<open>k + 1 \<le> 2 ^ 53\<close> show False by linarith
    qed
    then have "spacing (of_int k) \<le> 2 powi 0" unfolding spacing_exponent by simp
    then obtain m where m: "2 powi 0 = of_int m * spacing (of_int k)" by (rule power_on_grid)
    then have grid: "of_int k = of_int (k * m) * spacing (of_int k)" by (simp add: mult.assoc flip: m)
    show ?thesis using k by (intro round_rat_grid [OF _ grid]) simp
  qed
  from assms pos [of n] pos [of "- n"] show ?thesis
    by (cases n "0::int" rule: linorder_cases) (auto simp: round_rat_uminus)
qed

text \<open>Below \<open>2 ^ k\<close> a rounding moves a value by at most \<open>2 ^ (k - 54)\<close>.\<close>

lemma round_rat_error_below:
  assumes "0 < q" "q < 2 ^ k"
  shows "\<bar>round_rat q - q\<bar> \<le> 2 ^ k / 2 ^ 54"
proof -
  have "binade q \<le> int k - 1"
  proof (rule ccontr)
    assume "\<not> ?thesis"
    then have "2 powi int k \<le> (2::rat) powi binade q" by (intro power_int_increasing) auto
    with binade_bounds [of q] assms show False by simp
  qed
  then have "spacing q \<le> 2 powi (int k - 53)" unfolding spacing_exponent by simp
  also have "(2::rat) powi (int k - 53) = 2 ^ k / 2 ^ 53" by (simp add: power_int_diff)
  finally have half: "1 / 2 * spacing q \<le> 2 ^ k / 2 ^ 54" by simp
  have "round_rat q - q = (of_int (nearest_int (q / spacing q)) - q / spacing q) * spacing q"
    using assms(1) by (simp add: round_rat_def left_diff_distrib)
  then have "\<bar>round_rat q - q\<bar> = \<bar>of_int (nearest_int (q / spacing q)) - q / spacing q\<bar> * spacing q"
    by (simp add: abs_mult less_imp_le)
  also have "\<dots> \<le> 1 / 2 * spacing q"
    by (intro mult_right_mono nearest_int_error) (simp add: less_imp_le)
  finally show ?thesis using half by linarith
qed

lemma round_rat_error:
  assumes "0 \<le> q" "q \<le> 1"
  shows "\<bar>round_rat q - q\<bar> \<le> 1 / 2 ^ 54"
  using round_rat_error_below [of q 0] round_rat_of_int [of 1] assms by (cases "q = 0"; cases "q = 1") auto

section \<open>Values and arithmetic\<close>

datatype double = Fin rat | PInf | NInf | NaN

text \<open>The largest double is \<open>2 ^ 1024 - 2 ^ 971\<close>; what rounds beyond it is infinite.\<close>

definition to_double :: "rat \<Rightarrow> double" where
  "to_double q =
     (let r = round_rat q in
      if 2 ^ 1024 \<le> r then PInf else if r \<le> - (2 ^ 1024) then NInf else Fin r)"

fun sign_inf :: "bool \<Rightarrow> double" where
  "sign_inf positive = (if positive then PInf else NInf)"

fun dadd :: "double \<Rightarrow> double \<Rightarrow> double" where
  "dadd (Fin a) (Fin b) = to_double (a + b)"
| "dadd NaN y = NaN"
| "dadd x NaN = NaN"
| "dadd PInf NInf = NaN"
| "dadd NInf PInf = NaN"
| "dadd PInf y = PInf"
| "dadd NInf y = NInf"
| "dadd x y = y"

fun dneg :: "double \<Rightarrow> double" where
  "dneg (Fin a) = Fin (- a)"
| "dneg PInf = NInf"
| "dneg NInf = PInf"
| "dneg NaN = NaN"

definition dsub :: "double \<Rightarrow> double \<Rightarrow> double" where
  "dsub x y = dadd x (dneg y)"

text \<open>The sign of a nonzero value; a product of an infinity with zero is NaN.\<close>

fun dsign :: "double \<Rightarrow> int" where
  "dsign (Fin a) = (if 0 < a then 1 else if a < 0 then - 1 else 0)"
| "dsign PInf = 1"
| "dsign NInf = - 1"
| "dsign NaN = 0"

fun dmul :: "double \<Rightarrow> double \<Rightarrow> double" where
  "dmul (Fin a) (Fin b) = to_double (a * b)"
| "dmul x y = (let s = dsign x * dsign y in if s = 0 then NaN else sign_inf (0 < s))"

text \<open>Python raises \<open>ZeroDivisionError\<close> for a zero divisor.\<close>

fun ddiv :: "double \<Rightarrow> double \<Rightarrow> double option" where
  "ddiv x (Fin b) =
     (if b = 0 then None
      else case x of Fin a \<Rightarrow> Some (to_double (a / b)) | NaN \<Rightarrow> Some NaN
        | y \<Rightarrow> Some (if 0 < b then y else dneg y))"
| "ddiv (Fin a) NaN = Some NaN"
| "ddiv (Fin a) y = Some (Fin 0)"
| "ddiv x y = Some NaN"

definition of_integer :: "int \<Rightarrow> double" where
  "of_integer n = to_double (of_int n)"

section \<open>Comparisons\<close>

text \<open>The order of a numpy sort: the infinities at the ends of the numbers, NaN last.\<close>

instantiation double :: linorder
begin

fun less_eq_double :: "double \<Rightarrow> double \<Rightarrow> bool" where
  "less_eq_double x NaN = True"
| "less_eq_double NaN y = False"
| "less_eq_double x PInf = True"
| "less_eq_double PInf y = False"
| "less_eq_double NInf y = True"
| "less_eq_double x NInf = False"
| "less_eq_double (Fin a) (Fin b) = (a \<le> b)"

definition less_double :: "double \<Rightarrow> double \<Rightarrow> bool" where
  "less_double x y \<longleftrightarrow> \<not> y \<le> (x::double)"

instance
proof
  fix x y z :: double
  show "x < y \<longleftrightarrow> x \<le> y \<and> \<not> y \<le> x" by (cases x; cases y) (auto simp: less_double_def)
  show "x \<le> x" by (cases x) auto
  show "x \<le> z" if "x \<le> y" "y \<le> z" using that by (cases x; cases y; cases z) auto
  show "x = y" if "x \<le> y" "y \<le> x" using that by (cases x; cases y) auto
  show "x \<le> y \<or> y \<le> x" by (cases x; cases y) auto
qed

end

text \<open>Python's \<open><\<close> and \<open><=\<close>.\<close>

definition dlt :: "double \<Rightarrow> double \<Rightarrow> bool" where
  "dlt x y \<longleftrightarrow> x \<noteq> NaN \<and> y \<noteq> NaN \<and> x < y"

definition dle :: "double \<Rightarrow> double \<Rightarrow> bool" where
  "dle x y \<longleftrightarrow> x \<noteq> NaN \<and> y \<noteq> NaN \<and> x \<le> y"

lemma double_less_Fin [simp]: "Fin a < Fin b \<longleftrightarrow> a < b"
  by (auto simp: less_double_def)

lemma dlt_Fin [simp]: "dlt (Fin a) (Fin b) \<longleftrightarrow> a < b" and dle_Fin [simp]: "dle (Fin a) (Fin b) \<longleftrightarrow> a \<le> b"
  by (simp_all add: dlt_def dle_def)

lemma le_Fin_E: "Fin a \<le> x \<Longrightarrow> x \<le> Fin b \<Longrightarrow> (\<And>c. x = Fin c \<Longrightarrow> a \<le> c \<Longrightarrow> c \<le> b \<Longrightarrow> thesis) \<Longrightarrow> thesis"
  by (cases x) auto

definition is_finite :: "double \<Rightarrow> bool" where
  "is_finite x \<longleftrightarrow> (case x of Fin a \<Rightarrow> True | _ \<Rightarrow> False)"

text \<open>\<open>int(x)\<close>: towards zero; a NaN is a \<open>ValueError\<close>, an infinity an \<open>OverflowError\<close>.\<close>

definition truncate_rat :: "rat \<Rightarrow> int" where
  "truncate_rat q = (if 0 \<le> q then \<lfloor>q\<rfloor> else - \<lfloor>- q\<rfloor>)"

fun int_of_double :: "double \<Rightarrow> string + int" where
  "int_of_double (Fin q) = Inr (truncate_rat q)"
| "int_of_double NaN = Inl ''ValueError''"
| "int_of_double x = Inl ''OverflowError''"

text \<open>The value of a float literal.\<close>

definition double_of_text :: "string \<Rightarrow> double" where
  "double_of_text t =
     (if t = ''NaN'' then NaN else if t = ''Infinity'' then PInf else if t = ''-Infinity'' then NInf
      else (case float_scaled 0 t of (num, den) \<Rightarrow> to_double (of_int num / of_int den)))"

section \<open>Facts about the arithmetic\<close>

lemma to_double_small:
  assumes "\<bar>q\<bar> \<le> 2 ^ 53"
  shows "to_double q = Fin (round_rat q)"
proof -
  have whole: "round_rat (2 ^ 53) = 2 ^ 53" using round_rat_of_int [of "2 ^ 53"] by simp
  have "round_rat q \<le> 2 ^ 53" "- (2 ^ 53) \<le> round_rat q"
    using round_rat_mono [of q "2 ^ 53"] round_rat_mono [of "- (2 ^ 53)" q] assms
    by (simp_all only: whole round_rat_uminus)
  moreover have "(2::rat) ^ 53 < 2 ^ 1024" by (intro power_strict_increasing) auto
  ultimately have "\<not> 2 ^ 1024 \<le> round_rat q" "\<not> round_rat q \<le> - (2 ^ 1024)" by linarith+
  then show ?thesis unfolding to_double_def Let_def by (simp only: if_False)
qed

lemma of_integer_small: "\<bar>n\<bar> \<le> 2 ^ 53 \<Longrightarrow> of_integer n = Fin (of_int n)"
proof -
  assume small: "\<bar>n\<bar> \<le> 2 ^ 53"
  then have "\<bar>of_int n :: rat\<bar> \<le> 2 ^ 53" by (metis of_int_abs of_int_le_iff of_int_numeral of_int_power)
  with small show ?thesis by (simp add: of_integer_def to_double_small round_rat_of_int)
qed

lemma to_double_mono: "p \<le> q \<Longrightarrow> to_double p \<le> to_double q"
  using round_rat_mono [of p q] by (auto simp: to_double_def Let_def not_le)

lemma to_double_not_NaN [simp]: "to_double q \<noteq> NaN"
  by (simp add: to_double_def Let_def)

lemma to_double_0 [simp]: "to_double 0 = Fin 0" and to_double_1 [simp]: "to_double 1 = Fin 1"
  using to_double_small [of 0] to_double_small [of 1] round_rat_of_int [of 1] by simp_all

section \<open>Evaluation\<close>

text \<open>Lengths and powers of two on integers.\<close>

function int_bits :: "int \<Rightarrow> int" where
  "int_bits n = (if n \<le> 0 then 0 else 1 + int_bits (n div 2))"
  by auto
termination by (relation "measure nat") auto

declare int_bits.simps [simp del]

lemma int_bits_floorlog: "int (floorlog 2 (nat n)) = int_bits n"
proof (induction n rule: int_bits.induct)
  case (1 n)
  show ?case
  proof (cases "n \<le> 0")
    case False
    have "floorlog 2 (nat n) = floorlog 2 (nat n div 2) + 1"
      using False by (subst compute_floorlog) simp
    moreover have "nat n div 2 = nat (n div 2)" using False by (simp add: nat_div_distrib)
    ultimately show ?thesis using 1 False by (simp add: int_bits.simps [of n])
  qed (simp add: int_bits.simps [of n] floorlog_def)
qed

function int_power2 :: "int \<Rightarrow> int" where
  "int_power2 i =
     (if i \<le> 0 then 1
      else let r = int_power2 (i div 2) in if even i then r * r else 2 * (r * r))"
  by auto
termination by (relation "measure nat") auto

declare int_power2.simps [simp del]

lemma int_power2_eq: "int_power2 i = 2 ^ nat i"
proof (induction i rule: int_power2.induct)
  case (1 i)
  show ?case
  proof (cases "i \<le> 0")
    case False
    then have "nat i = nat (i div 2) + nat (i div 2) + (if even i then 0 else 1)"
      by (auto elim!: evenE oddE)
    then have "(2::int) ^ nat i = 2 ^ nat (i div 2) * 2 ^ nat (i div 2) * (if even i then 1 else 2)"
      by (simp add: power_add)
    with 1 False show ?thesis by (simp add: int_power2.simps [of i] Let_def)
  qed (simp add: int_power2.simps [of i])
qed

definition two_to :: "int \<Rightarrow> rat" where
  "two_to e = (if 0 \<le> e then of_int (int_power2 e) else 1 / of_int (int_power2 (- e)))"

lemma two_to_eq: "two_to e = 2 powi e"
  by (simp add: two_to_def int_power2_eq power_int_def power_one_over)

declare binade_def [code del] spacing_def [code del] to_double_def [code del]

lemma double_code [code]:
  "binade q =
     (case quotient_of q of (n, d) \<Rightarrow> let e = int_bits n - int_bits d in if two_to e \<le> q then e else e - 1)"
  "spacing q = two_to (max (binade q - 52) (- 1074))"
  "to_double q =
     (let r = round_rat q; limit = two_to 1024 in
      if limit \<le> r then PInf else if r \<le> - limit then NInf else Fin r)"
  by (simp_all add: binade_def spacing_def to_double_def two_to_eq int_bits_floorlog Let_def)

end
