(* ===== verification/Forecast_Calibration.thy ===== *)
theory Forecast_Calibration
  imports Py_Double Py_Uuid
begin

text \<open>
  calibration.py: the isotonic calibrator of occurrence probabilities. \<open>fit\<close> pools adjacent
  violators over a stack of blocks, \<open>predict\<close> looks a probability up, \<open>to_dict\<close> and \<open>from_dict\<close>
  write and read the artifact. What numpy does (a stable argsort, an insertion point, a clip) is
  the record \<open>numpy\<close>, with its documented behaviour as the hypothesis \<open>documented\<close>; the text of a
  float is \<open>repr_of\<close>, the hash \<open>sha_of\<close>.
\<close>

section \<open>Parameters and errors\<close>

datatype model_error = Configuration_Error string | Data_Contract_Error string | Python_Error string

record numpy =
  np_argsort :: "double list \<Rightarrow> nat list"
  np_searchsorted :: "double list \<Rightarrow> double \<Rightarrow> nat"
  np_clip :: "double \<Rightarrow> double \<Rightarrow> double \<Rightarrow> double"

text \<open>
  \<open>argsort(kind="stable")\<close>: the indices in the order of the values, equal values in input order;
  \<open>searchsorted(side="left")\<close> on a sorted array: the first position that keeps it sorted.
\<close>

definition documented :: "numpy \<Rightarrow> bool" where
  "documented np \<longleftrightarrow>
     (\<forall>xs. np_argsort np xs = sort_key (\<lambda>i. xs ! i) [0..<length xs]) \<and>
     (\<forall>xs v. sorted xs \<longrightarrow> np_searchsorted np xs v = length (takeWhile (\<lambda>x. x < v) xs)) \<and>
     (\<forall>x lo hi. np_clip np x lo hi = (if dlt x lo then lo else if dlt hi x then hi else x))"

record text_functions =
  repr_of :: "double \<Rightarrow> string"
  sha_of :: "string \<Rightarrow> string"

section \<open>Fitting\<close>

record calibrator =
  cal_thresholds :: "double list"
  cal_values :: "double list"

record block =
  b_upper :: double
  b_sum :: double
  b_weight :: double

text \<open>The weights are positive, so the division does not raise: see \<open>block_division\<close>.\<close>

definition block_mean :: "block \<Rightarrow> double" where
  "block_mean b = (case ddiv (b_sum b) (b_weight b) of None \<Rightarrow> NaN | Some m \<Rightarrow> m)"

definition pool :: "block \<Rightarrow> block \<Rightarrow> block" where
  "pool left right =
     \<lparr>b_upper = b_upper right, b_sum = dadd (b_sum left) (b_sum right), b_weight = dadd (b_weight left) (b_weight right)\<rparr>"

text \<open>The \<open>while\<close> loop, on the stack with its top first.\<close>

fun settle :: "block list \<Rightarrow> block list" where
  "settle (right # left # rest) =
     (if dle (block_mean left) (block_mean right) then right # left # rest else settle (pool left right # rest))"
| "settle bs = bs"

definition push_point :: "block list \<Rightarrow> double \<times> double \<Rightarrow> block list" where
  "push_point bs p = settle (\<lparr>b_upper = fst p, b_sum = snd p, b_weight = Fin 1\<rparr> # bs)"

definition occurrence :: "double \<Rightarrow> double" where
  "occurrence a = (if dlt (Fin 0) a then Fin 1 else Fin 0)"

definition fit :: "numpy \<Rightarrow> double list \<Rightarrow> double list \<Rightarrow> model_error + calibrator" where
  "fit np actual_counts raw_probability =
     (let truth = map occurrence actual_counts;
          probability = map (\<lambda>p. np_clip np p (Fin 0) (Fin 1)) raw_probability in
      if length truth \<noteq> length probability \<or> length truth < 2
      then Inl (Data_Contract_Error ''Calibration requires aligned one-dimensional validation rows'')
      else
        (let order = np_argsort np probability;
             x = map (\<lambda>i. probability ! i) order;
             y = map (\<lambda>i. truth ! i) order;
             blocks = rev (foldl push_point [] (zip x y)) in
         Inr \<lparr>cal_thresholds = map b_upper blocks, cal_values = map block_mean blocks\<rparr>))"

section \<open>Looking up\<close>

definition predict :: "numpy \<Rightarrow> calibrator \<Rightarrow> double \<Rightarrow> model_error + double" where
  "predict np c raw_probability =
     (if cal_thresholds c = [] \<or> length (cal_thresholds c) \<noteq> length (cal_values c)
      then Inl (Data_Contract_Error ''Probability calibrator is not fitted'')
      else
        (let p = np_clip np raw_probability (Fin 0) (Fin 1);
             i = min (np_searchsorted np (cal_thresholds c) p) (length (cal_values c) - 1) in
         Inr (cal_values c ! i)))"

section \<open>The artifact\<close>

definition version_of :: "text_functions \<Rightarrow> calibrator \<Rightarrow> string" where
  "version_of tf c =
     ''isotonic-'' @ take 16 (sha_of tf (dumps (sort_keys (JObj
        [(''method'', JStr ''validation_isotonic_pav_v1''),
         (''thresholds'', JArr (map (\<lambda>x. JFloat (repr_of tf x)) (cal_thresholds c))),
         (''values'', JArr (map (\<lambda>x. JFloat (repr_of tf x)) (cal_values c)))]))))"

definition to_dict :: "text_functions \<Rightarrow> calibrator \<Rightarrow> (string \<times> json) list" where
  "to_dict tf c =
     [(''calibration_version'', JStr (version_of tf c)),
      (''method'', JStr ''validation_isotonic_pav_v1''),
      (''thresholds'', JArr (map (\<lambda>x. JFloat (repr_of tf x)) (cal_thresholds c))),
      (''values'', JArr (map (\<lambda>x. JFloat (repr_of tf x)) (cal_values c)))]"

text \<open>
  \<open>float(text)\<close>: space around, a sign, \<open>inf\<close>, \<open>infinity\<close>, \<open>nan\<close>, or digits with single underscores
  between them, a point and an exponent.
\<close>

definition digits_or_none :: "string \<Rightarrow> bool" where
  "digits_or_none s \<longleftrightarrow> s = [] \<or> (digit_groups True s \<and> list_all (\<lambda>c. is_digit c \<or> c = CHR ''_'') s)"

definition decimal_text :: "string \<Rightarrow> bool" where
  "decimal_text s =
     (let mantissa = takeWhile (\<lambda>c. c \<notin> {CHR ''e'', CHR ''E''}) s; rest = drop (length mantissa) s;
          whole = takeWhile (\<lambda>c. c \<noteq> CHR ''.'') mantissa; frac = drop (length whole) mantissa;
          power = (if prefix ''+'' (tl rest) \<or> prefix ''-'' (tl rest) then tl (tl rest) else tl rest) in
      digits_or_none whole \<and> digits_or_none (tl frac) \<and> (whole \<noteq> [] \<or> tl frac \<noteq> []) \<and>
      (rest = [] \<or> power \<noteq> [] \<and> digits_or_none power))"

definition float_of_string :: "string \<Rightarrow> double option" where
  "float_of_string text =
     (let s = rev (dropWhile int_space (rev (dropWhile int_space text)));
          negative = prefix ''-'' s; t = (if negative \<or> prefix ''+'' s then tl s else s);
          signed = (\<lambda>x. if negative then dneg x else x) in
      if py_lower t \<in> {''inf'', ''infinity''} then Some (signed PInf)
      else if py_lower t = ''nan'' then Some NaN
      else if decimal_text t then Some (signed (double_of_text (filter (\<lambda>c. c \<noteq> CHR ''_'') t)))
      else None)"

text \<open>\<open>float(value)\<close> of a JSON value.\<close>

definition py_float :: "json \<Rightarrow> model_error + double" where
  "py_float v =
     (case v of
        JFloat t \<Rightarrow> Inr (double_of_text t)
      | JInt n \<Rightarrow> if is_finite (of_integer n) then Inr (of_integer n) else Inl (Python_Error ''OverflowError'')
      | JBool b \<Rightarrow> Inr (Fin (if b then 1 else 0))
      | JStr s \<Rightarrow> (case float_of_string s of None \<Rightarrow> Inl (Python_Error ''ValueError'') | Some x \<Rightarrow> Inr x)
      | _ \<Rightarrow> Inl (Python_Error ''TypeError''))"

fun map_raising :: "('a \<Rightarrow> 'e + 'b) \<Rightarrow> 'a list \<Rightarrow> 'e + 'b list" where
  "map_raising f [] = Inr []"
| "map_raising f (x # xs) =
     (case f x of Inl e \<Rightarrow> Inl e
      | Inr y \<Rightarrow> (case map_raising f xs of Inl e \<Rightarrow> Inl e | Inr ys \<Rightarrow> Inr (y # ys)))"

text \<open>\<open>any(not math.isfinite(value) or not 0 <= value <= 1 ...) or values != sorted(values)\<close>.\<close>

definition not_a_ramp :: "double list \<Rightarrow> bool" where
  "not_a_ramp xs \<longleftrightarrow> list_ex (\<lambda>x. \<not> is_finite x \<or> \<not> (dle (Fin 0) x \<and> dle x (Fin 1))) xs \<or> xs \<noteq> sort xs"

definition from_dict :: "text_functions \<Rightarrow> (string \<times> json) list \<Rightarrow> model_error + calibrator" where
  "from_dict tf payload =
     (if member payload ''method'' \<noteq> Some (JStr ''validation_isotonic_pav_v1'')
      then Inl (Data_Contract_Error ''Unsupported calibration method'')
      else (case (member payload ''thresholds'', member payload ''values'') of
        (Some (JArr thresholds), Some (JArr values)) \<Rightarrow>
          if thresholds = [] then Inl (Data_Contract_Error ''Calibration artifact is invalid'')
          else if length thresholds \<noteq> length values then Inl (Data_Contract_Error ''Calibration artifact lengths do not match'')
          else (case map_raising py_float thresholds of Inl e \<Rightarrow> Inl e | Inr ts \<Rightarrow>
                case map_raising py_float values of Inl e \<Rightarrow> Inl e | Inr vs \<Rightarrow>
                  if not_a_ramp ts \<or> not_a_ramp vs
                  then Inl (Data_Contract_Error ''Calibration artifact values are invalid'')
                  else (let restored = \<lparr>cal_thresholds = ts, cal_values = vs\<rparr> in
                    case member payload ''calibration_version'' of
                      None \<Rightarrow> Inr restored
                    | Some declared \<Rightarrow>
                        if declared \<noteq> JNull \<and> declared \<noteq> JStr (version_of tf restored)
                        then Inl (Data_Contract_Error ''Calibration artifact version does not match its contents'')
                        else Inr restored))
      | _ \<Rightarrow> Inl (Data_Contract_Error ''Calibration artifact is invalid'')))"

end
