(* ===== verification/Forecast_Isotonic.thy ===== *)
theory Forecast_Isotonic
  imports Forecast_Calibration
begin

text \<open>
  What the calibrator computes: the blocks of \<open>fit\<close> are the pools of the isotonic regression of the
  labels, although every quotient is rounded (up to \<open>2 ^ 26\<close> rows two means that differ still
  differ after rounding). The reference \<open>groups\<close> pools lists of labels with exact comparisons; its
  block means are the least-squares fit among all nondecreasing sequences.
\<close>

section \<open>The reference\<close>

text \<open>Pools as lists of labels, the last one first.\<close>

fun settle_groups :: "nat list list \<Rightarrow> nat list list" where
  "settle_groups (r # l # rest) =
     (if sum_list l * length r \<le> sum_list r * length l then r # l # rest else settle_groups ((l @ r) # rest))"
| "settle_groups gs = gs"

definition groups :: "nat list \<Rightarrow> nat list list" where
  "groups ys = rev (foldl (\<lambda>gs y. settle_groups ([y] # gs)) [] ys)"

definition mean :: "nat list \<Rightarrow> rat" where
  "mean g = of_nat (sum_list g) / of_nat (length g)"

definition regression :: "nat list \<Rightarrow> rat list" where
  "regression ys = concat (map (\<lambda>g. replicate (length g) (mean g)) (groups ys))"

definition squared_error :: "nat list \<Rightarrow> rat list \<Rightarrow> rat" where
  "squared_error ys ws = (\<Sum>(y, w) \<leftarrow> zip ys ws. (of_nat y - w)\<^sup>2)"

text \<open>The least-squares fit among the nondecreasing sequences.\<close>

definition isotonic_fit :: "nat list \<Rightarrow> rat list \<Rightarrow> bool" where
  "isotonic_fit ys vs \<longleftrightarrow>
     length vs = length ys \<and> sorted vs \<and>
     (\<forall>ws. length ws = length ys \<and> sorted ws \<longrightarrow> squared_error ys vs \<le> squared_error ys ws)"

section \<open>The pools\<close>

text \<open>No prefix of a pool has a smaller mean than the pool.\<close>

definition top_heavy :: "nat list \<Rightarrow> bool" where
  "top_heavy g \<longleftrightarrow> g \<noteq> [] \<and> (\<forall>k \<le> length g. sum_list g * k \<le> sum_list (take k g) * length g)"

fun climbing :: "nat list list \<Rightarrow> bool" where
  "climbing (r # l # rest) \<longleftrightarrow> sum_list l * length r \<le> sum_list r * length l \<and> climbing (l # rest)"
| "climbing gs \<longleftrightarrow> True"

definition pooled :: "nat list list \<Rightarrow> bool" where
  "pooled gs \<longleftrightarrow> list_all top_heavy gs \<and> climbing gs"

lemma top_heavy_append:
  assumes "top_heavy l" "top_heavy r" and less: "sum_list r * length l < sum_list l * length r"
  shows "top_heavy (l @ r)"
proof -
  let ?s = "sum_list l" and ?t = "sum_list r" and ?m = "length l" and ?n = "length r"
  have "(?s + ?t) * k \<le> sum_list (take k (l @ r)) * (?m + ?n)" if "k \<le> ?m + ?n" for k
  proof (cases "k \<le> ?m")
    case True
    then have *: "?s * k \<le> sum_list (take k l) * ?m" using assms(1) by (simp add: top_heavy_def)
    have "?m > 0" using assms(1) by (simp add: top_heavy_def)
    have "?m * ((?s + ?t) * k) \<le> (?m + ?n) * (?s * k)"
    proof -
      have "?t * ?m * k \<le> ?s * ?n * k" using less by (intro mult_right_mono) auto
      then show ?thesis by (simp add: algebra_simps)
    qed
    also have "\<dots> \<le> (?m + ?n) * (sum_list (take k l) * ?m)" using * by (intro mult_left_mono) auto
    finally have "?m * ((?s + ?t) * k) \<le> ?m * (sum_list (take k l) * (?m + ?n))" by (simp add: algebra_simps)
    with \<open>?m > 0\<close> True show ?thesis by simp
  next
    case False
    define j where "j = k - ?m"
    have j: "k = ?m + j" "j \<le> ?n" using False that by (auto simp: j_def)
    have *: "?t * j \<le> sum_list (take j r) * ?n" using assms(2) j by (simp add: top_heavy_def)
    have "?n > 0" using assms(2) by (simp add: top_heavy_def)
    define d where "d = ?n - j"
    have d: "?n = j + d" using j by (simp add: d_def)
    have "?t * ?m * d \<le> ?s * ?n * d" using less by (intro mult_right_mono) auto
    then have "?n * ((?s + ?t) * (?m + j)) \<le> (?m + ?n) * (?s * ?n + ?t * j)"
      unfolding d by (simp add: algebra_simps)
    also have "\<dots> \<le> (?m + ?n) * (?s * ?n + sum_list (take j r) * ?n)" using * by (intro mult_left_mono) auto
    finally have "?n * ((?s + ?t) * (?m + j)) \<le> ?n * ((?s + sum_list (take j r)) * (?m + ?n))"
      by (simp add: algebra_simps)
    with \<open>?n > 0\<close> j show ?thesis by simp
  qed
  with assms(1) show ?thesis by (simp add: top_heavy_def)
qed

lemma top_heavy_single [simp]: "top_heavy [y]"
  by (auto simp: top_heavy_def le_Suc_eq)

lemma settle_groups_concat: "concat (rev (settle_groups gs)) = concat (rev gs)"
  by (induction gs rule: settle_groups.induct) auto

lemma settle_groups_length: "length (concat (settle_groups gs)) = length (concat gs)"
  by (induction gs rule: settle_groups.induct) auto

lemma settle_groups_pooled: "list_all top_heavy gs \<Longrightarrow> climbing (tl gs) \<Longrightarrow> pooled (settle_groups gs)"
proof (induction gs rule: settle_groups.induct)
  case (1 r l rest)
  show ?case
  proof (cases "sum_list l * length r \<le> sum_list r * length l")
    case True
    with 1 show ?thesis by (simp add: pooled_def)
  next
    case False
    then have "top_heavy (l @ r)" using 1 by (intro top_heavy_append) auto
    with 1 False show ?thesis by (cases rest) auto
  qed
qed (auto simp: pooled_def)

lemma groups_fold:
  "pooled gs \<Longrightarrow> pooled (foldl (\<lambda>gs y. settle_groups ([y] # gs)) gs ys)"
  "concat (rev (foldl (\<lambda>gs y. settle_groups ([y] # gs)) gs ys)) = concat (rev gs) @ ys"
proof (induction ys arbitrary: gs)
  case (Cons y ys)
  { case 1
    then have "pooled (settle_groups ([y] # gs))" by (intro settle_groups_pooled) (auto simp: pooled_def)
    then show ?case using Cons.IH(1) by simp }
  { case 2
    show ?case using Cons.IH(2) by (simp add: settle_groups_concat) }
qed auto

lemma groups_concat: "concat (groups ys) = ys"
  using groups_fold(2) [of "[]" ys] by (simp add: groups_def)

lemma groups_pooled: "pooled (rev (groups ys))"
  using groups_fold(1) [of "[]" ys] by (simp add: groups_def pooled_def)

section \<open>Least squares\<close>

text \<open>Summation by parts: weights with nonnegative partial sums against a nondecreasing sequence.\<close>

lemma weighted_sum_bound:
  fixes ps :: "(rat \<times> rat) list"
  assumes "\<forall>k \<le> length ps. 0 \<le> sum_list (map fst (take k ps))" "sorted (map snd ps)" "ps \<noteq> []"
  shows "(\<Sum>(d, w) \<leftarrow> ps. d * w) \<le> sum_list (map fst ps) * snd (last ps)"
  using assms
proof (induction ps rule: rev_induct)
  case (snoc p ps)
  show ?case
  proof (cases "ps = []")
    case True
    then show ?thesis by (cases p) simp
  next
    case False
    have prefix: "0 \<le> sum_list (map fst (take k ps))" if "k \<le> length ps" for k
      using snoc.prems(1) that by (auto dest!: spec [of _ k])
    have "sorted (map snd ps)" and last: "snd (last ps) \<le> snd p"
      using snoc.prems(2) False by (auto simp: sorted_append)
    with prefix False have "(\<Sum>(d, w) \<leftarrow> ps. d * w) \<le> sum_list (map fst ps) * snd (last ps)"
      by (intro snoc.IH) auto
    also have "\<dots> \<le> sum_list (map fst ps) * snd p"
      using prefix [of "length ps"] last by (intro mult_left_mono) auto
    finally show ?thesis by (cases p) (simp add: distrib_right)
  qed
qed simp

lemma sum_list_of_nat: "sum_list (map (\<lambda>y. of_nat y - c) g) = (of_nat (sum_list g) - of_nat (length g) * c :: rat)"
  by (induction g) (simp_all add: algebra_simps)

lemma mean_total: "g \<noteq> [] \<Longrightarrow> of_nat (length g) * mean g = of_nat (sum_list g)"
  by (simp add: mean_def)

lemma top_heavy_prefix:
  assumes "top_heavy g" "k \<le> length g"
  shows "0 \<le> sum_list (map (\<lambda>y. of_nat y - mean g) (take k g))"
proof -
  have "sum_list g * k \<le> sum_list (take k g) * length g" "length g > 0" using assms by (auto simp: top_heavy_def)
  then have "of_nat (sum_list g) * of_nat k \<le> (of_nat (sum_list (take k g)) * of_nat (length g) :: rat)"
    by (metis of_nat_le_iff of_nat_mult)
  then have "of_nat k * mean g \<le> of_nat (sum_list (take k g))"
    using \<open>length g > 0\<close> by (simp add: mean_def field_simps)
  with assms(2) show ?thesis by (auto simp: sum_list_of_nat min_def)
qed

lemma pool_optimal:
  assumes "top_heavy g" "length ws = length g" "sorted ws"
  shows "squared_error g (replicate (length g) (mean g)) \<le> squared_error g ws"
proof -
  let ?m = "mean g" and ?ps = "map (\<lambda>(y, w). (of_nat y - mean g, w - mean g)) (zip g ws)"
  have g: "g \<noteq> []" using assms(1) by (simp add: top_heavy_def)
  have fst: "map fst ?ps = map (\<lambda>y. of_nat y - ?m) g" and snd: "map snd ?ps = map (\<lambda>w. w - ?m) ws"
    using assms(2) by (auto intro!: nth_equalityI)
  have "(\<Sum>(d, w) \<leftarrow> ?ps. d * w) \<le> sum_list (map fst ?ps) * snd (last ?ps)"
  proof (rule weighted_sum_bound)
    show "\<forall>k \<le> length ?ps. 0 \<le> sum_list (map fst (take k ?ps))"
      unfolding take_map [symmetric] fst using top_heavy_prefix [OF assms(1)] assms(2) by (simp add: take_map)
    show "sorted (map snd ?ps)" unfolding snd using assms(3) by (simp add: sorted_map)
    show "?ps \<noteq> []" using g assms(2) by auto
  qed
  also have "\<dots> = 0" unfolding fst using g by (simp add: sum_list_of_nat mean_total)
  finally have cross: "(\<Sum>(y, w) \<leftarrow> zip g ws. (of_nat y - ?m) * (w - ?m)) \<le> 0"
    by (simp add: split_def comp_def)
  have expand: "(\<Sum>(y, w) \<leftarrow> zip xs vs. (of_nat y - c)\<^sup>2) - 2 * (\<Sum>(y, w) \<leftarrow> zip xs vs. (of_nat y - c) * (w - c))
      \<le> (\<Sum>(y, w) \<leftarrow> zip xs vs. (of_nat y - w)\<^sup>2)" for c :: rat and xs :: "nat list" and vs
  proof (induction xs vs rule: list_induct2')
    case (4 y xs w vs)
    have "(of_nat y - w)\<^sup>2 = (of_nat y - c)\<^sup>2 - 2 * ((of_nat y - c) * (w - c)) + (w - c)\<^sup>2"
      by (simp add: power2_eq_square algebra_simps)
    then have "(of_nat y - c)\<^sup>2 - 2 * ((of_nat y - c) * (w - c)) \<le> (of_nat y - w)\<^sup>2"
      using zero_le_power2 [of "w - c"] by linarith
    with 4 show ?case
      by (simp only: zip_Cons_Cons list.map sum_list.Cons prod.case distrib_left)
  qed auto
  have "(\<Sum>(y, w) \<leftarrow> zip xs (replicate (length xs) c). (of_nat y - w)\<^sup>2) = (\<Sum>(y, w) \<leftarrow> zip xs vs. (of_nat y - c)\<^sup>2)"
    if "length vs = length xs" for c :: rat and xs :: "nat list" and vs :: "rat list"
    using that by (induction xs vs rule: list_induct2') auto
  with assms(2) have "squared_error g (replicate (length g) ?m) = (\<Sum>(y, w) \<leftarrow> zip g ws. (of_nat y - ?m)\<^sup>2)"
    by (simp add: squared_error_def)
  with expand [of ?m g ws] cross show ?thesis unfolding squared_error_def by linarith
qed

lemma squared_error_append:
  "length vs = length ys \<Longrightarrow> squared_error (ys @ zs) (vs @ ws) = squared_error ys vs + squared_error zs ws"
  by (simp add: squared_error_def)

lemma pools_optimal:
  assumes "list_all top_heavy gs" "length ws = length (concat gs)" "sorted ws"
  shows "squared_error (concat gs) (concat (map (\<lambda>g. replicate (length g) (mean g)) gs)) \<le> squared_error (concat gs) ws"
  using assms
proof (induction gs arbitrary: ws)
  case (Cons g gs)
  let ?u = "take (length g) ws" and ?v = "drop (length g) ws"
  have "sorted (?u @ ?v)" using Cons.prems(3) by simp
  then have "sorted ?u" "sorted ?v" by (simp_all only: sorted_append)
  moreover have "length ?u = length g" "length ?v = length (concat gs)" using Cons.prems(2) by simp_all
  ultimately have "squared_error g (replicate (length g) (mean g)) \<le> squared_error g ?u"
    "squared_error (concat gs) (concat (map (\<lambda>g. replicate (length g) (mean g)) gs)) \<le> squared_error (concat gs) ?v"
    using pool_optimal [of g ?u] Cons.IH [of ?v] Cons.prems(1) by auto
  moreover have "squared_error (g @ concat gs) (?u @ ?v) = squared_error g ?u + squared_error (concat gs) ?v"
    using \<open>length ?u = length g\<close> by (intro squared_error_append)
  ultimately show ?case by (simp add: squared_error_append)
qed simp

lemma mean_le: "g \<noteq> [] \<Longrightarrow> h \<noteq> [] \<Longrightarrow> mean g \<le> mean h \<longleftrightarrow> sum_list g * length h \<le> sum_list h * length g"
proof -
  assume ne: "g \<noteq> []" "h \<noteq> []"
  have "mean g \<le> mean h \<longleftrightarrow> of_nat (sum_list g) * of_nat (length h) \<le> (of_nat (sum_list h) * of_nat (length g) :: rat)"
    using ne by (simp add: mean_def divide_le_eq pos_le_divide_eq mult.commute)
  then show ?thesis by (metis of_nat_le_iff of_nat_mult)
qed

lemma climbing_sorted: "list_all top_heavy gs \<Longrightarrow> climbing gs \<Longrightarrow> sorted (rev (map mean gs))"
proof (induction gs rule: climbing.induct)
  case (1 r l rest)
  then have sorted: "sorted (rev (map mean (l # rest)))" and "mean l \<le> mean r"
    by (auto simp: mean_le top_heavy_def)
  then have "\<forall>x \<in> set (map mean (l # rest)). x \<le> mean r" by (auto simp: sorted_append intro: order_trans)
  with sorted show ?case by (auto simp: sorted_append)
qed auto

lemma sorted_pools: "sorted (map mean gs) \<Longrightarrow> sorted (concat (map (\<lambda>g. replicate (length g) (mean g)) gs))"
  by (induction gs) (auto simp: sorted_append)

lemma groups_means_sorted: "sorted (map mean (groups ys))"
  using climbing_sorted [of "rev (groups ys)"] groups_pooled [of ys] by (simp add: pooled_def rev_map)

text \<open>The reference is the isotonic regression.\<close>

lemma regression_optimal: "isotonic_fit ys (regression ys)"
proof -
  have pools: "list_all top_heavy (groups ys)" using groups_pooled [of ys] by (simp add: pooled_def)
  have "length (concat (map (\<lambda>g. replicate (length g) (mean g)) gs)) = length (concat gs)" for gs :: "nat list list"
    by (induction gs) auto
  moreover have "sorted (regression ys)" by (simp add: regression_def sorted_pools groups_means_sorted)
  ultimately show ?thesis
    using pools_optimal [OF pools] unfolding isotonic_fit_def regression_def by (simp add: groups_concat)
qed

section \<open>Rounded means\<close>

text \<open>
  Two fractions of at most one with denominators up to \<open>2 ^ 26\<close> that differ are \<open>2 ^ -52\<close> apart, more
  than two roundings can bridge.
\<close>

lemma rounding_keeps_order:
  assumes "k \<le> m" "l \<le> n" "0 < m" "0 < n" "m \<le> 2 ^ 26" "n \<le> 2 ^ 26"
  shows "round_rat (of_nat k / of_nat m) \<le> round_rat (of_nat l / of_nat n) \<longleftrightarrow> k * n \<le> l * m"
proof
  assume "k * n \<le> l * m"
  then have "of_nat k * of_nat n \<le> (of_nat l * of_nat m :: rat)" by (metis of_nat_le_iff of_nat_mult)
  then have "of_nat k / of_nat m \<le> (of_nat l / of_nat n :: rat)" using assms by (simp add: field_simps)
  then show "round_rat (of_nat k / of_nat m) \<le> round_rat (of_nat l / of_nat n)" by (rule round_rat_mono)
next
  assume le: "round_rat (of_nat k / of_nat m) \<le> round_rat (of_nat l / of_nat n)"
  show "k * n \<le> l * m"
  proof (rule ccontr)
    let ?p = "of_nat k / of_nat m :: rat" and ?q = "of_nat l / of_nat n :: rat"
    assume "\<not> k * n \<le> l * m"
    then have "l * m + 1 \<le> k * n" by simp
    then have "of_nat l * of_nat m + 1 \<le> (of_nat k * of_nat n :: rat)"
      by (metis of_nat_1 of_nat_add of_nat_le_iff of_nat_mult)
    then have "(of_nat l * of_nat m + 1) / (of_nat m * of_nat n) \<le> (of_nat k * of_nat n / (of_nat m * of_nat n) :: rat)"
      by (intro divide_right_mono) auto
    then have gap: "?q + 1 / (of_nat m * of_nat n) \<le> ?p" using assms by (simp add: add_divide_distrib)
    have "of_nat m \<le> (2 ^ 26 :: rat)" "of_nat n \<le> (2 ^ 26 :: rat)"
      using assms(5,6) by (metis of_nat_le_iff of_nat_numeral of_nat_power)+
    then have "of_nat m * of_nat n \<le> (2 ^ 26 * 2 ^ 26 :: rat)" by (intro mult_mono) auto
    then have "1 / 2 ^ 52 \<le> 1 / (of_nat m * of_nat n :: rat)" using assms by (simp add: frac_le)
    moreover have "\<bar>round_rat ?p - ?p\<bar> \<le> 1 / 2 ^ 54" "\<bar>round_rat ?q - ?q\<bar> \<le> 1 / 2 ^ 54"
      by (rule round_rat_error; use assms in simp)+
    moreover have "2 * (1 / 2 ^ 54) < (1 / 2 ^ 52 :: rat)" by simp
    ultimately show False using le gap by linarith
  qed
qed

lemma labels_bounded: "set g \<subseteq> {0, 1} \<Longrightarrow> sum_list g \<le> length (g :: nat list)"
  by (induction g) (auto simp: le_SucI)

lemma mean_unit: "g \<noteq> [] \<Longrightarrow> set g \<subseteq> {0, 1} \<Longrightarrow> 0 \<le> mean g \<and> mean g \<le> 1"
  using labels_bounded [of g] by (simp add: mean_def)

text \<open>A float block stands for a pool of labels.\<close>

definition stands_for :: "block \<Rightarrow> nat list \<Rightarrow> bool" where
  "stands_for b g \<longleftrightarrow>
     b_sum b = Fin (of_nat (sum_list g)) \<and> b_weight b = Fin (of_nat (length g)) \<and> g \<noteq> [] \<and> set g \<subseteq> {0, 1} \<and> length g \<le> 2 ^ 26"

lemma block_division: "stands_for b g \<Longrightarrow> b_weight b \<noteq> Fin 0"
  by (simp add: stands_for_def)

lemma block_mean_exact:
  assumes "stands_for b g"
  shows "block_mean b = Fin (round_rat (mean g))"
proof -
  have "0 \<le> mean g" "mean g \<le> 1" using assms mean_unit [of g] by (auto simp: stands_for_def)
  then have "\<bar>mean g\<bar> \<le> 2 ^ 53" by simp
  with assms show ?thesis by (simp add: stands_for_def block_mean_def mean_def to_double_small)
qed

lemma dadd_counts: "m + n \<le> 2 ^ 53 \<Longrightarrow> dadd (Fin (of_nat m)) (Fin (of_nat n)) = Fin (of_nat (m + n))"
  using of_integer_small [of "int (m + n)"] by (simp add: of_integer_def)

lemma pool_stands_for:
  assumes "stands_for bl l" "stands_for br r" "length l + length r \<le> 2 ^ 26"
  shows "stands_for (pool bl br) (l @ r)"
proof -
  note l = assms(1) [unfolded stands_for_def] and r = assms(2) [unfolded stands_for_def]
  have small: "sum_list l + sum_list r \<le> 2 ^ 53" "length l + length r \<le> 2 ^ 53"
    using assms(3) l r labels_bounded [of l] labels_bounded [of r] by auto
  have "b_sum (pool bl br) = Fin (of_nat (sum_list l + sum_list r))"
    "b_weight (pool bl br) = Fin (of_nat (length l + length r))"
    using l r by (simp_all only: pool_def block.select_convs dadd_counts [OF small(1)] dadd_counts [OF small(2)])
  then show ?thesis using l r assms(3) by (simp add: stands_for_def)
qed

lemma settle_refines:
  assumes "list_all2 stands_for bs gs" "length (concat gs) \<le> 2 ^ 26"
  shows "list_all2 stands_for (settle bs) (settle_groups gs)"
  using assms
proof (induction gs arbitrary: bs rule: settle_groups.induct)
  case (1 r l rest)
  from 1(2) obtain br bl bs' where bs: "bs = br # bl # bs'" and
    blocks: "stands_for br r" "stands_for bl l" "list_all2 stands_for bs' rest"
    by (auto simp: list_all2_Cons2)
  have order: "dle (block_mean bl) (block_mean br) \<longleftrightarrow> sum_list l * length r \<le> sum_list r * length l"
    using rounding_keeps_order [of "sum_list l" "length l" "sum_list r" "length r"] blocks labels_bounded
    by (auto simp: block_mean_exact mean_def stands_for_def)
  show ?case
  proof (cases "sum_list l * length r \<le> sum_list r * length l")
    case True
    with bs blocks order show ?thesis by simp
  next
    case False
    have "stands_for (pool bl br) (l @ r)" using blocks 1(3) by (intro pool_stands_for) auto
    then have "list_all2 stands_for (settle (pool bl br # bs')) (settle_groups ((l @ r) # rest))"
      using 1(1) [OF False] blocks 1(3) by simp
    with False bs order show ?thesis by simp
  qed
qed (auto simp: list_all2_Cons2)

section \<open>The fit\<close>

text \<open>The labels of the rows in the order of the clipped probabilities.\<close>

definition unit_clip :: "double \<Rightarrow> double" where
  "unit_clip x = (if dlt x (Fin 0) then Fin 0 else if dlt (Fin 1) x then Fin 1 else x)"

definition by_probability :: "double list \<Rightarrow> nat list" where
  "by_probability probs = sort_key (\<lambda>i. map unit_clip probs ! i) [0..<length probs]"

definition labels :: "double list \<Rightarrow> double list \<Rightarrow> nat list" where
  "labels counts probs = map (\<lambda>i. if dlt (Fin 0) (counts ! i) then 1 else 0) (by_probability probs)"

lemma push_refines:
  assumes "list_all2 stands_for bs gs" "length xs = length ys" "length (concat gs) + length ys \<le> 2 ^ 26" "set ys \<subseteq> {0, 1}"
  shows "list_all2 stands_for (foldl push_point bs (zip xs (map (\<lambda>n. Fin (of_nat n)) ys)))
    (foldl (\<lambda>gs y. settle_groups ([y] # gs)) gs ys)"
  using assms
proof (induction ys arbitrary: bs gs xs)
  case (Cons y ys)
  then obtain x xs' where xs: "xs = x # xs'" by (cases xs) auto
  have "stands_for \<lparr>b_upper = x, b_sum = Fin (of_nat y), b_weight = Fin 1\<rparr> [y]"
    using Cons.prems by (simp add: stands_for_def)
  then have "list_all2 stands_for (push_point bs (x, Fin (of_nat y))) (settle_groups ([y] # gs))"
    unfolding push_point_def using Cons.prems by (intro settle_refines) auto
  moreover have "length (concat (settle_groups ([y] # gs))) = Suc (length (concat gs))"
    by (simp only: settle_groups_length) simp
  ultimately show ?case
    using Cons.IH [of _ _ xs'] Cons.prems xs by simp
qed simp

lemma fit_blocks:
  assumes "documented np" "length counts \<le> 2 ^ 26" "fit np counts probs = Inr c"
  obtains bs where "list_all2 stands_for (rev bs) (rev (groups (labels counts probs)))"
    "cal_thresholds c = map b_upper bs" "cal_values c = map block_mean bs"
    "rev bs = foldl push_point [] (zip (map (\<lambda>i. map unit_clip probs ! i) (by_probability probs))
       (map (\<lambda>n. Fin (of_nat n)) (labels counts probs)))"
    "length counts = length probs" "2 \<le> length counts"
proof -
  let ?x = "map (\<lambda>i. map unit_clip probs ! i) (by_probability probs)" and ?y = "labels counts probs"
  have clip: "np_clip np p (Fin 0) (Fin 1) = unit_clip p" for p
    using assms(1) by (simp add: documented_def unit_clip_def)
  have order: "np_argsort np (map unit_clip probs) = by_probability probs"
    using assms(1) by (simp add: documented_def by_probability_def)
  have len: "length counts = length probs" "2 \<le> length counts"
    using assms(3) by (auto simp: fit_def Let_def split: if_split_asm)
  have "map (\<lambda>i. map occurrence counts ! i) (by_probability probs) = map (\<lambda>n. Fin (of_nat n)) ?y"
    using len by (auto simp: labels_def by_probability_def occurrence_def)
  then have "fit np counts probs = (let blocks = rev (foldl push_point [] (zip ?x (map (\<lambda>n. Fin (of_nat n)) ?y))) in
      Inr \<lparr>cal_thresholds = map b_upper blocks, cal_values = map block_mean blocks\<rparr>)"
    using len by (simp add: fit_def Let_def clip order not_less)
  with assms(3) have c: "c = (let blocks = rev (foldl push_point [] (zip ?x (map (\<lambda>n. Fin (of_nat n)) ?y))) in
      \<lparr>cal_thresholds = map b_upper blocks, cal_values = map block_mean blocks\<rparr>)"
    by (simp add: Let_def)
  have "length ?y = length probs" "set ?y \<subseteq> {0, 1}" by (auto simp: labels_def by_probability_def)
  then have "list_all2 stands_for (foldl push_point [] (zip ?x (map (\<lambda>n. Fin (of_nat n)) ?y)))
      (foldl (\<lambda>gs y. settle_groups ([y] # gs)) [] ?y)"
    using assms(2) len by (intro push_refines) (simp_all add: by_probability_def)
  then show ?thesis
    using c len by (intro that [of "rev (foldl push_point [] (zip ?x (map (\<lambda>n. Fin (of_nat n)) ?y)))"])
      (simp_all add: Let_def groups_def)
qed

lemma values_of_fit:
  assumes "documented np" "length counts \<le> 2 ^ 26" "fit np counts probs = Inr c"
  shows "cal_values c = map (\<lambda>g. Fin (round_rat (mean g))) (groups (labels counts probs))"
proof -
  obtain bs where bs: "list_all2 stands_for (rev bs) (rev (groups (labels counts probs)))" "cal_values c = map block_mean bs"
    using fit_blocks [OF assms] by metis
  then have "list_all2 stands_for bs (groups (labels counts probs))" by simp
  then have "map block_mean bs = map (\<lambda>g. Fin (round_rat (mean g))) (groups (labels counts probs))"
    by (induction rule: list_all2_induct) (simp_all add: block_mean_exact)
  with bs(2) show ?thesis by simp
qed

lemma fit_values_ordered:
  assumes "documented np" "length counts \<le> 2 ^ 26" "fit np counts probs = Inr c"
  shows "sorted (cal_values c)" "\<forall>v \<in> set (cal_values c). Fin 0 \<le> v \<and> v \<le> Fin 1"
    "length (cal_thresholds c) = length (cal_values c)" "cal_thresholds c \<noteq> []"
proof -
  have "sorted (map (\<lambda>g. Fin (round_rat (mean g))) gs)" if "sorted (map mean gs)" for gs
    using that by (simp add: sorted_map sorted_wrt_iff_nth_less round_rat_mono)
  then show "sorted (cal_values c)" using groups_means_sorted by (simp add: values_of_fit [OF assms])
  obtain bs where bs: "list_all2 stands_for (rev bs) (rev (groups (labels counts probs)))" "cal_thresholds c = map b_upper bs"
      "cal_values c = map block_mean bs" "length counts = length probs" "2 \<le> length counts"
    using fit_blocks [OF assms] by metis
  then show "length (cal_thresholds c) = length (cal_values c)" by simp
  have "length (labels counts probs) = length probs" by (simp add: labels_def by_probability_def)
  then have "labels counts probs \<noteq> []" using bs(4,5) by auto
  then have "groups (labels counts probs) \<noteq> []" using groups_concat [of "labels counts probs"] by auto
  with bs(1,2) show "cal_thresholds c \<noteq> []" by auto
  have "0 \<le> mean g \<and> mean g \<le> 1" if "g \<in> set (groups (labels counts probs))" for g
  proof -
    have "list_all2 stands_for bs (groups (labels counts probs))" using bs(1) by simp
    with that obtain b where "stands_for b g" by (auto simp: list_all2_conv_all_nth in_set_conv_nth)
    then show ?thesis by (intro mean_unit) (auto simp: stands_for_def)
  qed
  then have "0 \<le> round_rat (mean g) \<and> round_rat (mean g) \<le> 1" if "g \<in> set (groups (labels counts probs))" for g
    using that round_rat_mono [of 0 "mean g"] round_rat_mono [of "mean g" 1] round_rat_of_int [of 1] by fastforce
  then show "\<forall>v \<in> set (cal_values c). Fin 0 \<le> v \<and> v \<le> Fin 1" by (auto simp: values_of_fit [OF assms])
qed

text \<open>The thresholds: the upper ends of the blocks grow down the stack of the loop.\<close>

lemma settle_uppers:
  "sorted_wrt (\<ge>) (map b_upper bs) \<Longrightarrow>
     sorted_wrt (\<ge>) (map b_upper (settle bs)) \<and> b_upper ` set (settle bs) \<subseteq> b_upper ` set bs"
proof (induction bs rule: settle.induct)
  case (1 right left rest)
  show ?case
  proof (cases "dle (block_mean left) (block_mean right)")
    case False
    have "sorted_wrt (\<ge>) (map b_upper (pool left right # rest))" using 1(2) by (simp add: pool_def)
    from 1(1) [OF False this] False show ?thesis by (auto simp: pool_def)
  qed (use 1(2) in simp)
qed simp_all

lemma push_uppers:
  "sorted_wrt (\<ge>) (map b_upper bs) \<Longrightarrow> sorted (map fst ps) \<Longrightarrow> \<forall>b \<in> set bs. \<forall>p \<in> set ps. b_upper b \<le> fst p \<Longrightarrow>
     sorted_wrt (\<ge>) (map b_upper (foldl push_point bs ps)) \<and>
     b_upper ` set (foldl push_point bs ps) \<subseteq> b_upper ` set bs \<union> fst ` set ps"
proof (induction ps arbitrary: bs)
  case (Cons p ps)
  have "sorted_wrt (\<ge>) (map b_upper (push_point bs p)) \<and> b_upper ` set (push_point bs p) \<subseteq> insert (fst p) (b_upper ` set bs)"
    using settle_uppers [of "\<lparr>b_upper = fst p, b_sum = snd p, b_weight = Fin 1\<rparr> # bs"] Cons.prems
    by (auto simp: push_point_def)
  moreover from this have "\<forall>b \<in> set (push_point bs p). \<forall>q \<in> set ps. b_upper b \<le> fst q"
    using Cons.prems by fastforce
  ultimately show ?case using Cons.IH [of "push_point bs p"] Cons.prems(2) by simp blast
qed simp

lemma clipped_sorted: "sorted (map (\<lambda>i. map unit_clip probs ! i) (by_probability probs))"
  by (simp add: by_probability_def)

lemma unit_clip_unit: "x \<noteq> NaN \<Longrightarrow> Fin 0 \<le> unit_clip x \<and> unit_clip x \<le> Fin 1"
  by (cases x) (auto simp: unit_clip_def dlt_def less_double_def)

lemma fit_thresholds:
  assumes "documented np" "length counts \<le> 2 ^ 26" "fit np counts probs = Inr c"
  shows "sorted (cal_thresholds c)" "set (cal_thresholds c) \<subseteq> unit_clip ` set probs"
proof -
  let ?x = "map (\<lambda>i. map unit_clip probs ! i) (by_probability probs)"
  let ?ps = "zip ?x (map (\<lambda>n. Fin (of_nat n)) (labels counts probs))"
  obtain bs where bs: "cal_thresholds c = map b_upper bs" "rev bs = foldl push_point [] ?ps"
    using fit_blocks [OF assms] by metis
  have "map fst ?ps = ?x" by (simp add: labels_def)
  with clipped_sorted [of probs] have "sorted (map fst ?ps)" by simp
  from push_uppers [OF _ this, of "[]"] bs(2)
  have "sorted_wrt (\<ge>) (map b_upper (rev bs))" and sub: "b_upper ` set (rev bs) \<subseteq> fst ` set ?ps" by auto
  then show "sorted (cal_thresholds c)" using bs(1) by (simp add: sorted_wrt_rev flip: rev_map)
  have "fst ` set ?ps \<subseteq> set ?x" by (auto dest: set_zip_leftD)
  also have "set ?x \<subseteq> unit_clip ` set probs" by (auto simp: by_probability_def)
  finally show "set (cal_thresholds c) \<subseteq> unit_clip ` set probs" using sub bs(1) by auto
qed

section \<open>Looking up\<close>

definition ordered :: "calibrator \<Rightarrow> bool" where
  "ordered c \<longleftrightarrow>
     cal_thresholds c \<noteq> [] \<and> length (cal_thresholds c) = length (cal_values c) \<and> sorted (cal_thresholds c) \<and>
     sorted (cal_values c) \<and> (\<forall>v \<in> set (cal_values c). Fin 0 \<le> v \<and> v \<le> Fin 1)"

lemma takeWhile_less_mono: "x \<le> y \<Longrightarrow> length (takeWhile (\<lambda>t. t < x) ts) \<le> length (takeWhile (\<lambda>t. t < (y::'a::linorder)) ts)"
  by (induction ts) auto

lemma unit_clip_mono: "x \<le> y \<Longrightarrow> unit_clip x \<le> unit_clip y"
  by (cases x; cases y) (auto simp: unit_clip_def dlt_def less_double_def)

lemma predict_ordered:
  assumes "documented np" "ordered c"
  shows "\<exists>p q. predict np c x = Inr p \<and> predict np c y = Inr q \<and> (x \<le> y \<longrightarrow> p \<le> q) \<and>
    Fin 0 \<le> p \<and> p \<le> Fin 1"
proof -
  define pos where "pos z = min (length (takeWhile (\<lambda>t. t < unit_clip z) (cal_thresholds c))) (length (cal_values c) - 1)" for z
  have "predict np c z = Inr (cal_values c ! pos z)" for z
    using assms by (simp add: predict_def documented_def ordered_def pos_def Let_def unit_clip_def)
  moreover have in_range: "pos z < length (cal_values c)" for z
  proof -
    have "0 < length (cal_values c)" using assms(2) unfolding ordered_def by (metis length_greater_0_conv)
    then show ?thesis by (simp add: pos_def min_less_iff_disj)
  qed
  moreover have "cal_values c ! pos x \<le> cal_values c ! pos y" if "x \<le> y"
  proof (rule sorted_nth_mono)
    show "pos x \<le> pos y" unfolding pos_def using takeWhile_less_mono [OF unit_clip_mono [OF that]]
      by (intro min.mono) auto
  qed (use assms(2) in_range in \<open>auto simp: ordered_def\<close>)
  ultimately show ?thesis using assms(2) by (auto simp: ordered_def)
qed

lemma fit_ordered: "documented np \<Longrightarrow> length counts \<le> 2 ^ 26 \<Longrightarrow> fit np counts probs = Inr c \<Longrightarrow> ordered c"
  using fit_values_ordered fit_thresholds(1) by (simp add: ordered_def)

lemma ramp: "\<not> not_a_ramp xs \<longleftrightarrow> sorted xs \<and> (\<forall>x \<in> set xs. Fin 0 \<le> x \<and> x \<le> Fin 1)"
proof -
  have "xs = sort xs \<longleftrightarrow> sorted xs" by (metis sorted_sort sort_key_id_if_sorted map_ident)
  moreover have "is_finite x \<and> dle (Fin 0) x \<and> dle x (Fin 1) \<longleftrightarrow> Fin 0 \<le> x \<and> x \<le> Fin 1" for x
    by (cases x) (auto simp: is_finite_def dle_def)
  ultimately show ?thesis by (auto simp: not_a_ramp_def list_ex_iff)
qed

lemma map_raising_length: "map_raising f xs = Inr ys \<Longrightarrow> length ys = length xs"
  by (induction xs arbitrary: ys) (auto split: sum.split_asm)

lemma from_dict_parts:
  assumes "from_dict tf payload = Inr c"
  obtains ts vs where "map_raising py_float ts = Inr (cal_thresholds c)" "ts \<noteq> []"
    "map_raising py_float vs = Inr (cal_values c)" "length ts = length vs"
    "\<not> not_a_ramp (cal_thresholds c)" "\<not> not_a_ramp (cal_values c)"
  using assms that
  by (fastforce simp: from_dict_def Let_def split: if_split_asm option.split_asm json.split_asm sum.split_asm)

lemma from_dict_ordered: "from_dict tf payload = Inr c \<Longrightarrow> ordered c"
  by (erule from_dict_parts) (auto simp: ordered_def ramp dest!: map_raising_length)

end
