(* ===== verification/Forecast_Data.thy ===== *)
theory Forecast_Data
  imports Forecast_Calibration Py_Iso "HOL-Library.Product_Lexorder"
begin

text \<open>
  config.py, data.py and split.py: the experiment configuration with its checks, the validation of
  feature rows, the chronological split and the rolling-origin folds. Fractions are doubles, so the
  sizes of the blocks are the truncated products Python computes. A row is the JSON object of the
  feature table; a validated row keeps it next to the fields the validation normalises. The
  identity fields are strings, as the feature-row contract has them, and no risk threshold is NaN.
\<close>

section \<open>Configuration\<close>

record model_config =
  mc_schema_version :: string
  mc_experiment_name :: string
  mc_target :: string
  mc_window_hours :: int
  mc_train_fraction :: double
  mc_validation_fraction :: double
  mc_min_intervals :: int
  mc_poisson_l2 :: double
  mc_poisson_max_iterations :: int
  mc_poisson_tolerance :: double
  mc_min_relative_gain :: double
  mc_primary_metric :: string
  mc_top_k_fraction :: double
  mc_calibration_bins :: int
  mc_min_training_events :: int
  mc_risk_thresholds :: "double list"
  mc_enable_lightgbm :: bool
  mc_random_seed :: int
  mc_rolling_origins :: int
  mc_bootstrap_samples :: int
  mc_explicit_train_end :: "string option"
  mc_explicit_validation_end :: "string option"
  mc_features :: "string list"

text \<open>\<open>_parse_boundary\<close>: an ISO text with a zero offset, as its instant.\<close>

definition normalized_z :: "string \<Rightarrow> string" where
  "normalized_z s = (if suffix ''Z'' s then butlast s @ ''+00:00'' else s)"

definition parse_boundary :: "string \<Rightarrow> model_error + int" where
  "parse_boundary s =
     (case parse_iso (normalized_z s) of
        None \<Rightarrow> Inl (Configuration_Error ''Invalid UTC split boundary'')
      | Some (Naive w) \<Rightarrow> Inl (Configuration_Error ''Split boundary must be UTC'')
      | Some (Aware w off) \<Rightarrow> if off \<noteq> 0 then Inl (Configuration_Error ''Split boundary must be UTC'') else Inr (w - off))"

text \<open>\<open>value or ""\<close>.\<close>

definition text_or_empty :: "string option \<Rightarrow> string" where
  "text_or_empty x = (case x of None \<Rightarrow> [] | Some s \<Rightarrow> s)"

definition boundary_error :: "model_config \<Rightarrow> model_error option" where
  "boundary_error c =
     (case mc_explicit_train_end c of
        None \<Rightarrow> None
      | Some train \<Rightarrow>
          (case parse_boundary train of Inl e \<Rightarrow> Some e | Inr train_end \<Rightarrow>
           case parse_boundary (text_or_empty (mc_explicit_validation_end c)) of Inl e \<Rightarrow> Some e | Inr validation_end \<Rightarrow>
             if validation_end \<le> train_end
             then Some (Configuration_Error ''explicit_train_end must precede explicit_validation_end'') else None))"

definition between :: "double \<Rightarrow> double \<Rightarrow> double \<Rightarrow> bool" where
  "between a x b \<longleftrightarrow> dlt a x \<and> dlt x b"

definition validate :: "model_config \<Rightarrow> model_error option" where
  "validate c =
     (case first_error
       [(mc_schema_version c \<noteq> ''1.0.0'', Configuration_Error ''Only model config schema_version 1.0.0 is supported''),
        (mc_target c \<noteq> ''event_count'', Configuration_Error ''Only the aggregate count target event_count is supported''),
        (\<not> between (Fin 0) (mc_train_fraction c) (Fin 1) \<or> \<not> between (Fin 0) (mc_validation_fraction c) (Fin 1),
           Configuration_Error ''Split fractions must be between zero and one''),
        (dle (Fin 1) (dadd (mc_train_fraction c) (mc_validation_fraction c)),
           Configuration_Error ''Train and validation fractions must leave an untouched test block''),
        (mc_min_intervals c < 1, Configuration_Error ''min_intervals_per_split must be positive''),
        (mc_primary_metric c \<noteq> ''poisson_deviance'', Configuration_Error ''The supported primary metric is poisson_deviance''),
        (\<not> (dlt (Fin 0) (mc_top_k_fraction c) \<and> dle (mc_top_k_fraction c) (Fin 1)),
           Configuration_Error ''top_k_fraction must be in (0, 1]''),
        (mc_calibration_bins c < 2, Configuration_Error ''calibration_bins must be at least two''),
        (mc_rolling_origins c < 1, Configuration_Error ''rolling_origins must be positive''),
        (mc_bootstrap_samples c < 0, Configuration_Error ''bootstrap_samples cannot be negative''),
        (sort (mc_risk_thresholds c) \<noteq> mc_risk_thresholds c, Configuration_Error ''risk_band_thresholds must be ordered''),
        (list_ex (\<lambda>x. dle x (Fin 0) \<or> dle (Fin 1) x) (mc_risk_thresholds c),
           Configuration_Error ''risk band thresholds must be inside (0, 1)''),
        (mc_features c = [], Configuration_Error ''At least one feature is required''),
        ((mc_explicit_train_end c = None) \<noteq> (mc_explicit_validation_end c = None),
           Configuration_Error ''explicit_train_end and explicit_validation_end must be supplied together'')] of
      Some e \<Rightarrow> Some e
    | None \<Rightarrow> boundary_error c)"

section \<open>Feature rows\<close>

record feature_row =
  fr_tenant_id :: string
  fr_cell_id :: string
  fr_interval_start :: int
  fr_category :: string
  fr_data_as_of :: int
  fr_target :: double
  fr_features :: "(string \<times> double) list"
  fr_raw :: "(string \<times> json) list"

definition identity_fields :: "string list" where
  "identity_fields = [''tenant_id'', ''cell_id'', ''interval_start'', ''category'']"

definition forbidden_fields :: "string list" where
  "forbidden_fields = [''latitude'', ''longitude'', ''location'', ''external_event_id'', ''source_id'', ''address'']"

text \<open>\<open>parse_utc\<close> of data.py.\<close>

definition parse_row_time :: "json option \<Rightarrow> model_error + int" where
  "parse_row_time v =
     (case v of
        Some (JStr s) \<Rightarrow>
          (case parse_iso (normalized_z s) of
             None \<Rightarrow> Inl (Data_Contract_Error ''Invalid timestamp'')
           | Some (Naive w) \<Rightarrow> Inl (Data_Contract_Error ''Timestamp must include a UTC offset'')
           | Some (Aware w off) \<Rightarrow>
               if off \<noteq> 0 then Inl (Data_Contract_Error ''Timestamp must include a UTC offset'') else Inr (w - off))
      | _ \<Rightarrow> Inl (Data_Contract_Error ''interval_start and data_as_of must be ISO-8601 strings''))"

definition identity_text :: "(string \<times> json) list \<Rightarrow> string \<Rightarrow> string" where
  "identity_text raw key = (case member raw key of Some (JStr s) \<Rightarrow> s | _ \<Rightarrow> [])"

definition is_integer_double :: "double \<Rightarrow> bool" where
  "is_integer_double x = (case x of Fin q \<Rightarrow> of_int \<lfloor>q\<rfloor> = q | _ \<Rightarrow> False)"

fun read_features :: "(string \<times> json) list \<Rightarrow> string list \<Rightarrow> model_error + (string \<times> double) list" where
  "read_features raw [] = Inr []"
| "read_features raw (feature # rest) =
     (case py_float (case member raw feature of Some v \<Rightarrow> v | None \<Rightarrow> JNull) of
        Inl e \<Rightarrow> Inl e
      | Inr x \<Rightarrow>
          if \<not> is_finite x then Inl (Data_Contract_Error ''Row feature is not finite'')
          else (case read_features raw rest of Inl e \<Rightarrow> Inl e | Inr xs \<Rightarrow> Inr ((feature, x) # xs)))"

text \<open>The body of the loop: \<open>seen\<close> are the prediction keys of the rows before.\<close>

type_synonym row_key = "string \<times> string \<times> int \<times> string"

definition row_key :: "feature_row \<Rightarrow> row_key" where
  "row_key r = (fr_tenant_id r, fr_cell_id r, fr_interval_start r, fr_category r)"

definition validate_row :: "model_config \<Rightarrow> row_key list \<Rightarrow> json \<Rightarrow> model_error + feature_row" where
  "validate_row config seen item =
     (case item of JObj raw \<Rightarrow>
        if list_ex (\<lambda>f. member raw f \<noteq> None) forbidden_fields then Inl (Data_Contract_Error ''Row contains restricted fields'')
        else if list_ex (\<lambda>f. member raw f = None) (identity_fields @ [mc_target config, ''data_as_of''] @ mc_features config)
        then Inl (Data_Contract_Error ''Row is missing fields'')
        else if member raw ''schema_version'' \<noteq> Some (JStr ''2.0.0'')
        then Inl (Data_Contract_Error ''Row has an unsupported schema_version'')
        else (case parse_row_time (member raw ''interval_start'') of Inl e \<Rightarrow> Inl e | Inr interval_start \<Rightarrow>
              case parse_row_time (member raw ''data_as_of'') of Inl e \<Rightarrow> Inl e | Inr data_as_of \<Rightarrow>
          if interval_start \<le> data_as_of
          then Inl (Data_Contract_Error ''Row has data_as_of at or after interval_start; features must be strictly prior'')
          else (let tenant = identity_text raw ''tenant_id''; cell = identity_text raw ''cell_id'';
                    category = identity_text raw ''category''; key = (tenant, cell, interval_start, category) in
            if tenant = [] \<or> cell = [] \<or> category = []
            then Inl (Data_Contract_Error ''Row has an empty prediction-key component'')
            else if key \<in> set seen then Inl (Data_Contract_Error ''Duplicate prediction key'')
            else (case py_float (case member raw (mc_target config) of Some v \<Rightarrow> v | None \<Rightarrow> JNull) of Inl e \<Rightarrow> Inl e | Inr target \<Rightarrow>
              if \<not> is_finite target \<or> dlt target (Fin 0) \<or> \<not> is_integer_double target
              then Inl (Data_Contract_Error ''Row target must be a non-negative integer'')
              else (case read_features raw (mc_features config) of Inl e \<Rightarrow> Inl e | Inr xs \<Rightarrow>
                Inr \<lparr>fr_tenant_id = tenant, fr_cell_id = cell, fr_interval_start = interval_start, fr_category = category,
                     fr_data_as_of = data_as_of, fr_target = target, fr_features = xs, fr_raw = raw\<rparr>))))
      | _ \<Rightarrow> Inl (Data_Contract_Error ''Row is not an object''))"

fun validate_each :: "model_config \<Rightarrow> row_key list \<Rightarrow> json list \<Rightarrow> model_error + feature_row list" where
  "validate_each config seen [] = Inr []"
| "validate_each config seen (raw # rest) =
     (case validate_row config seen raw of Inl e \<Rightarrow> Inl e | Inr r \<Rightarrow>
      case validate_each config (row_key r # seen) rest of Inl e \<Rightarrow> Inl e | Inr rs \<Rightarrow> Inr (r # rs))"

definition sort_rows :: "feature_row list \<Rightarrow> feature_row list" where
  "sort_rows rs = sort_key (\<lambda>r. (fr_tenant_id r, fr_interval_start r, fr_cell_id r, fr_category r)) rs"

definition validate_rows :: "json list \<Rightarrow> model_config \<Rightarrow> model_error + feature_row list" where
  "validate_rows rows config =
     (case validate_each config [] rows of Inl e \<Rightarrow> Inl e | Inr validated \<Rightarrow>
        if validated = [] then Inl (Data_Contract_Error ''Feature table contains no rows'') else Inr (sort_rows validated))"

section \<open>Splits\<close>

text \<open>\<open>xs[a:b]\<close>: negative bounds count from the end, bounds beyond an end are the end.\<close>

definition slice_bound :: "int \<Rightarrow> 'a list \<Rightarrow> nat" where
  "slice_bound i xs = nat (if i < 0 then max 0 (i + int (length xs)) else min i (int (length xs)))"

definition py_slice :: "int \<Rightarrow> int \<Rightarrow> 'a list \<Rightarrow> 'a list" where
  "py_slice a b xs = drop (slice_bound a xs) (take (slice_bound b xs) xs)"

definition interval_times :: "feature_row list \<Rightarrow> int list" where
  "interval_times rows = sort (remdups (map fr_interval_start rows))"

record chronological =
  cs_train :: "feature_row list"
  cs_validation :: "feature_row list"
  cs_test :: "feature_row list"
  cs_train_start :: int
  cs_train_end :: int
  cs_validation_start :: int
  cs_validation_end :: int
  cs_test_start :: int
  cs_test_end :: int

definition rows_at :: "int list \<Rightarrow> feature_row list \<Rightarrow> feature_row list" where
  "rows_at instants rows = filter (\<lambda>r. fr_interval_start r \<in> set instants) rows"

text \<open>The instants of the three blocks, by the explicit boundaries or by the fractions.\<close>

definition explicit_blocks :: "model_config \<Rightarrow> string \<Rightarrow> int list \<Rightarrow> model_error + int list \<times> int list \<times> int list" where
  "explicit_blocks config train_end instants =
     (case parse_boundary train_end of Inl e \<Rightarrow> Inl e | Inr train_boundary \<Rightarrow>
      case parse_boundary (text_or_empty (mc_explicit_validation_end config)) of Inl e \<Rightarrow> Inl e | Inr validation_boundary \<Rightarrow>
        (let train = filter (\<lambda>t. t \<le> train_boundary) instants;
             validation = filter (\<lambda>t. train_boundary < t \<and> t \<le> validation_boundary) instants;
             test = filter (\<lambda>t. validation_boundary < t) instants in
         if min (int (length train)) (min (int (length validation)) (int (length test))) < mc_min_intervals config
         then Inl (Data_Contract_Error ''Explicit split boundaries leave an undersized chronological block'')
         else Inr (train, validation, test)))"

definition block_size :: "model_config \<Rightarrow> double \<Rightarrow> int \<Rightarrow> model_error + int" where
  "block_size config share n =
     (case int_of_double (dmul (of_integer n) share) of
        Inl e \<Rightarrow> Inl (Python_Error e) | Inr k \<Rightarrow> Inr (max (mc_min_intervals config) k))"

definition fraction_blocks :: "model_config \<Rightarrow> int list \<Rightarrow> model_error + int list \<times> int list \<times> int list" where
  "fraction_blocks config instants =
     (let n = int (length instants) in
      case block_size config (mc_train_fraction config) n of Inl e \<Rightarrow> Inl e | Inr train_count \<Rightarrow>
      case block_size config (mc_validation_fraction config) n of Inl e \<Rightarrow> Inl e | Inr count \<Rightarrow>
        (let validation_count = (if n - mc_min_intervals config < train_count + count
                                 then n - mc_min_intervals config - train_count else count) in
         if validation_count < mc_min_intervals config
         then Inl (Data_Contract_Error ''Split fractions do not leave enough validation/test intervals'')
         else Inr (py_slice 0 train_count instants, py_slice train_count (train_count + validation_count) instants,
                   py_slice (train_count + validation_count) n instants)))"

definition chronological_split :: "feature_row list \<Rightarrow> model_config \<Rightarrow> model_error + chronological" where
  "chronological_split rows config =
     (let instants = interval_times rows in
      if int (length instants) < mc_min_intervals config * 3
      then Inl (Data_Contract_Error ''Tenant has too few intervals for chronological splits'')
      else (case (case mc_explicit_train_end config of
                    Some train_end \<Rightarrow> explicit_blocks config train_end instants | None \<Rightarrow> fraction_blocks config instants) of
              Inl e \<Rightarrow> Inl e
            | Inr (train, validation, test) \<Rightarrow>
                if train = [] \<or> validation = [] \<or> test = [] then Inl (Python_Error ''ValueError'')
                else Inr
                  \<lparr>cs_train = rows_at train rows, cs_validation = rows_at validation rows, cs_test = rows_at test rows,
                   cs_train_start = Min (set train), cs_train_end = Max (set train),
                   cs_validation_start = Min (set validation), cs_validation_end = Max (set validation),
                   cs_test_start = Min (set test), cs_test_end = Max (set test)\<rparr>))"

text \<open>The expanding windows: the last origin first counted, the last block ending with the validation block.\<close>

definition fold_at :: "model_config \<Rightarrow> feature_row list \<Rightarrow> int list \<Rightarrow> int \<Rightarrow> int \<Rightarrow> (feature_row list \<times> feature_row list) list" where
  "fold_at config eligible instants width origin =
     (let end_index = int (length instants) - (origin - 1) * width; start_index = end_index - width in
      if start_index < mc_min_intervals config then []
      else [(rows_at (py_slice 0 start_index instants) eligible, rows_at (py_slice start_index end_index instants) eligible)])"

definition rolling_origin_folds :: "feature_row list \<Rightarrow> model_config \<Rightarrow> model_error + (feature_row list \<times> feature_row list) list" where
  "rolling_origin_folds rows config =
     (case chronological_split rows config of Inl e \<Rightarrow> Inl e | Inr base \<Rightarrow>
        (let eligible = cs_train base @ cs_validation base; instants = interval_times eligible in
         if mc_rolling_origins config + 2 = 0 then Inl (Python_Error ''ZeroDivisionError'')
         else
           (let width = max (mc_min_intervals config) (int (length instants) div (mc_rolling_origins config + 2)) in
            Inr (concat (map (fold_at config eligible instants width) (rev [1..mc_rolling_origins config]))))))"

end
