(* ===== verification/Forecast_Split.thy ===== *)
theory Forecast_Split
  imports Forecast_Data "HOL-Library.Multiset"
begin

text \<open>
  Lemmas on the chronological split: under a valid configuration the three lists of times cut the
  sorted times of the rows, so the blocks partition the rows and follow one another, and the
  folds of the rolling origins are consecutive stretches of the times before the test block.
\<close>

section \<open>Validated rows\<close>

definition sound_row :: "model_config \<Rightarrow> feature_row \<Rightarrow> bool" where
  "sound_row config r \<longleftrightarrow>
     fr_data_as_of r < fr_interval_start r \<and> fr_tenant_id r \<noteq> [] \<and> fr_cell_id r \<noteq> [] \<and> fr_category r \<noteq> [] \<and>
     (\<exists>k::nat. fr_target r = Fin (of_nat k)) \<and> map fst (fr_features r) = mc_features config \<and>
     (\<forall>(f, x) \<in> set (fr_features r). is_finite x) \<and> (\<forall>f \<in> set forbidden_fields. member (fr_raw r) f = None)"

lemma read_features_sound:
  "read_features raw fs = Inr xs \<Longrightarrow> map fst xs = fs \<and> (\<forall>(f, x) \<in> set xs. is_finite x)"
  by (induction fs arbitrary: xs) (auto split: sum.split_asm if_split_asm)

lemma count_double: "is_finite x \<Longrightarrow> \<not> dlt x (Fin 0) \<Longrightarrow> is_integer_double x \<Longrightarrow> \<exists>k::nat. x = Fin (of_nat k)"
proof (cases x)
  case (Fin q)
  assume "\<not> dlt x (Fin 0)" "is_integer_double x"
  with Fin obtain n where "q = of_int n" "0 \<le> n" by (auto simp: is_integer_double_def)
  then have "q = of_nat (nat n)" by simp
  with Fin show ?thesis by blast
qed (simp_all add: is_finite_def)

lemma validate_row_sound:
  assumes "validate_row config seen item = Inr r"
  shows "sound_row config r \<and> row_key r \<notin> set seen"
  using assms
  by (auto simp: validate_row_def Let_def sound_row_def row_key_def list_ex_iff not_le
      intro: count_double dest!: read_features_sound split: json.split_asm if_split_asm sum.split_asm)

lemma validate_each_sound:
  "validate_each config seen rows = Inr rs \<Longrightarrow>
     list_all (sound_row config) rs \<and> distinct (map row_key rs) \<and> set (map row_key rs) \<inter> set seen = {} \<and> length rs = length rows"
proof (induction rows arbitrary: seen rs)
  case (Cons raw rows)
  then obtain r rest where "validate_row config seen raw = Inr r" "validate_each config (row_key r # seen) rows = Inr rest" "rs = r # rest"
    by (auto split: sum.split_asm)
  with validate_row_sound [of config seen raw r] Cons.IH [of "row_key r # seen" rest] show ?case by auto
qed simp

lemma validate_rows_sound:
  assumes "validate_rows rows config = Inr rs"
  shows "rs \<noteq> []" "length rs = length rows" "distinct (map row_key rs)" "\<forall>r \<in> set rs. sound_row config r"
    "sorted (map (\<lambda>r. (fr_tenant_id r, fr_interval_start r, fr_cell_id r, fr_category r)) rs)"
proof -
  obtain vs where vs: "validate_each config [] rows = Inr vs" "vs \<noteq> []" "rs = sort_rows vs"
    using assms by (auto simp: validate_rows_def split: sum.split_asm if_split_asm)
  note sound = validate_each_sound [OF vs(1)]
  have same: "set rs = set vs" "length rs = length vs" by (simp_all add: vs(3) sort_rows_def)
  with sound vs(2) show "rs \<noteq> []" "length rs = length rows" "\<forall>r \<in> set rs. sound_row config r"
    by (auto simp: list_all_iff)
  show "distinct (map row_key rs)" using sound by (simp add: vs(3) sort_rows_def distinct_map)
  show "sorted (map (\<lambda>r. (fr_tenant_id r, fr_interval_start r, fr_cell_id r, fr_category r)) rs)"
    by (simp add: vs(3) sort_rows_def)
qed

section \<open>Times\<close>

lemma interval_times_sorted: "sorted (interval_times rows)" "distinct (interval_times rows)"
  by (simp_all add: interval_times_def)

lemma interval_times_strict: "sorted_wrt (<) (interval_times rows)"
  using interval_times_sorted by (simp add: strict_sorted_iff)

lemma interval_times_set [simp]: "set (interval_times rows) = fr_interval_start ` set rows"
  by (simp add: interval_times_def)

text \<open>A cut of the times into consecutive stretches.\<close>

definition cut :: "int list \<Rightarrow> int list \<Rightarrow> int list \<Rightarrow> int list \<Rightarrow> int \<Rightarrow> bool" where
  "cut ts a b c k \<longleftrightarrow>
     a @ b @ c = ts \<and> k \<le> int (length a) \<and> k \<le> int (length b) \<and> k \<le> int (length c)"

lemma take_mid_drop: "i \<le> j \<Longrightarrow> take i xs @ drop i (take j xs) @ drop j xs = xs"
  by (metis append.assoc append_take_drop_id min.absorb1 take_take)

lemma slice_0: "0 \<le> k \<Longrightarrow> py_slice 0 k xs = take (nat k) xs"
  by (simp add: py_slice_def slice_bound_def min_def)

lemma slice_mid: "0 \<le> a \<Longrightarrow> a \<le> b \<Longrightarrow> py_slice a b xs = drop (nat a) (take (nat b) xs)"
  by (simp add: py_slice_def slice_bound_def min_def)

lemma filters_cut:
  "sorted ts \<Longrightarrow> x \<le> y \<Longrightarrow>
     filter (\<lambda>t. t \<le> x) ts @ filter (\<lambda>t. x < t \<and> t \<le> y) ts @ filter (\<lambda>t. y < t) ts = (ts :: int list)"
proof (induction ts)
  case (Cons t ts)
  consider "t \<le> x" | "x < t" "t \<le> y" | "y < t" by linarith
  then show ?case
  proof cases
    case 1
    with Cons show ?thesis by auto
  next
    case 2
    then have "filter (\<lambda>t. t \<le> x) ts = []" using Cons.prems by (auto simp: filter_empty_conv)
    with 2 Cons show ?thesis by auto
  next
    case 3
    then have "filter (\<lambda>t. t \<le> x) ts = []" "filter (\<lambda>t. x < t \<and> t \<le> y) ts = []" using Cons.prems by (auto simp: filter_empty_conv)
    with 3 Cons show ?thesis by auto
  qed
qed simp

lemma validated:
  assumes "validate config = None"
  shows "1 \<le> mc_min_intervals config" "1 \<le> mc_rolling_origins config" "boundary_error config = None"
  using assms by (auto simp: validate_def split: option.split_asm)

lemma explicit_blocks_cut:
  assumes "validate config = None" "mc_explicit_train_end config = Some e" "sorted ts"
    "explicit_blocks config e ts = Inr (a, b, c)"
  shows "cut ts a b c (mc_min_intervals config)"
proof -
  obtain x y where xy: "parse_boundary e = Inr x" "parse_boundary (text_or_empty (mc_explicit_validation_end config)) = Inr y" "x < y"
    using validated(3) [OF assms(1)] assms(2) by (auto simp: boundary_error_def split: sum.split_asm if_split_asm)
  then show ?thesis
    using assms(4) filters_cut [OF assms(3), of x y]
    by (auto simp: explicit_blocks_def cut_def Let_def min_def split: if_split_asm)
qed

lemma fraction_blocks_cut:
  assumes "validate config = None" "fraction_blocks config ts = Inr (a, b, c)"
  shows "cut ts a b c (mc_min_intervals config)"
proof -
  let ?m = "mc_min_intervals config" and ?n = "int (length ts)"
  obtain p k where p: "block_size config (mc_train_fraction config) ?n = Inr p"
    and k: "block_size config (mc_validation_fraction config) ?n = Inr k"
    using assms(2) by (auto simp: fraction_blocks_def Let_def split: sum.split_asm)
  define q where "q = (if ?n - ?m < p + k then ?n - ?m - p else k)"
  have size: "?m \<le> p" "?m \<le> k" using p k by (auto simp: block_size_def split: sum.split_asm)
  have "\<not> q < ?m" and blocks: "a = py_slice 0 p ts" "b = py_slice p (p + q) ts" "c = py_slice (p + q) ?n ts"
    using assms(2) by (simp_all add: fraction_blocks_def Let_def p k q_def split: if_split_asm)
  then have q: "?m \<le> q" "p + q \<le> ?n - ?m" by (simp_all add: q_def)
  have m: "1 \<le> ?m" by (rule validated(1) [OF assms(1)])
  with size q have "a = take (nat p) ts" "b = drop (nat p) (take (nat (p + q)) ts)" "c = drop (nat (p + q)) ts"
    by (simp_all add: blocks slice_0 slice_mid)
  moreover have "take (nat p) ts @ drop (nat p) (take (nat (p + q)) ts) @ drop (nat (p + q)) ts = ts"
    using m size q by (intro take_mid_drop) simp
  ultimately show ?thesis using m size q by (simp add: cut_def)
qed

section \<open>The blocks\<close>

lemma split_cut:
  assumes "validate config = None" "chronological_split rows config = Inr s"
  obtains a b c where "cut (interval_times rows) a b c (mc_min_intervals config)"
    "a \<noteq> []" "b \<noteq> []" "c \<noteq> []"
    "s = \<lparr>cs_train = rows_at a rows, cs_validation = rows_at b rows, cs_test = rows_at c rows,
          cs_train_start = Min (set a), cs_train_end = Max (set a),
          cs_validation_start = Min (set b), cs_validation_end = Max (set b),
          cs_test_start = Min (set c), cs_test_end = Max (set c)\<rparr>"
proof -
  obtain a b c where blocks: "(case mc_explicit_train_end config of
        Some train_end \<Rightarrow> explicit_blocks config train_end (interval_times rows)
      | None \<Rightarrow> fraction_blocks config (interval_times rows)) = Inr (a, b, c)"
    and ne: "a \<noteq> []" "b \<noteq> []" "c \<noteq> []"
    and s: "s = \<lparr>cs_train = rows_at a rows, cs_validation = rows_at b rows, cs_test = rows_at c rows,
          cs_train_start = Min (set a), cs_train_end = Max (set a),
          cs_validation_start = Min (set b), cs_validation_end = Max (set b),
          cs_test_start = Min (set c), cs_test_end = Max (set c)\<rparr>"
    using assms(2) by (auto simp: chronological_split_def Let_def split: if_split_asm sum.split_asm)
  from blocks have "cut (interval_times rows) a b c (mc_min_intervals config)"
    using explicit_blocks_cut [OF assms(1) _ interval_times_sorted(1)] fraction_blocks_cut [OF assms(1)]
    by (cases "mc_explicit_train_end config") auto
  with ne s show ?thesis by (intro that)
qed

lemma cut_sets:
  assumes "cut (interval_times rows) a b c k"
  shows "set a \<union> set b \<union> set c = fr_interval_start ` set rows"
    and "\<forall>x \<in> set a. \<forall>y \<in> set b. x < y" and "\<forall>y \<in> set b. \<forall>z \<in> set c. y < z" and "\<forall>x \<in> set a. \<forall>z \<in> set c. x < z"
    and "distinct a" "distinct b" "distinct c"
proof -
  have ts: "interval_times rows = a @ b @ c" using assms by (simp add: cut_def)
  then show "set a \<union> set b \<union> set c = fr_interval_start ` set rows" using interval_times_set [of rows] by auto
  show "\<forall>x \<in> set a. \<forall>y \<in> set b. x < y" "\<forall>y \<in> set b. \<forall>z \<in> set c. y < z" "\<forall>x \<in> set a. \<forall>z \<in> set c. x < z"
    using interval_times_strict [of rows] unfolding ts by (auto simp: sorted_wrt_append)
  show "distinct a" "distinct b" "distinct c" using interval_times_sorted(2) [of rows] unfolding ts by auto
qed

lemma rows_at_times: "set a \<subseteq> fr_interval_start ` set rows \<Longrightarrow> fr_interval_start ` set (rows_at a rows) = set a"
  by (auto simp: rows_at_def)

lemma filter_parts:
  assumes "\<forall>x \<in> set xs. P x \<and> \<not> Q x \<and> \<not> R x \<or> \<not> P x \<and> Q x \<and> \<not> R x \<or> \<not> P x \<and> \<not> Q x \<and> R x"
  shows "mset (filter P xs @ filter Q xs @ filter R xs) = mset xs"
  using assms by (induction xs) auto

lemma split_blocks:
  assumes "validate config = None" "chronological_split rows config = Inr s"
  shows "mset (cs_train s @ cs_validation s @ cs_test s) = mset rows"
    and "\<lbrakk>r \<in> set (cs_train s); v \<in> set (cs_validation s)\<rbrakk> \<Longrightarrow> fr_interval_start r < fr_interval_start v"
    and "\<lbrakk>v \<in> set (cs_validation s); t \<in> set (cs_test s)\<rbrakk> \<Longrightarrow> fr_interval_start v < fr_interval_start t"
    and "\<lbrakk>r \<in> set (cs_train s); t \<in> set (cs_test s)\<rbrakk> \<Longrightarrow> fr_interval_start r < fr_interval_start t"
    and "cs_train_end s < cs_validation_start s" "cs_validation_end s < cs_test_start s"
    and "mc_min_intervals config \<le> int (card (fr_interval_start ` set (cs_train s)))"
      "mc_min_intervals config \<le> int (card (fr_interval_start ` set (cs_validation s)))"
      "mc_min_intervals config \<le> int (card (fr_interval_start ` set (cs_test s)))"
proof -
  obtain a b c where cut: "cut (interval_times rows) a b c (mc_min_intervals config)" and ne: "a \<noteq> []" "b \<noteq> []" "c \<noteq> []"
    and s: "s = \<lparr>cs_train = rows_at a rows, cs_validation = rows_at b rows, cs_test = rows_at c rows,
          cs_train_start = Min (set a), cs_train_end = Max (set a),
          cs_validation_start = Min (set b), cs_validation_end = Max (set b),
          cs_test_start = Min (set c), cs_test_end = Max (set c)\<rparr>"
    by (rule split_cut [OF assms])
  note sets = cut_sets [OF cut]
  have "\<forall>r \<in> set rows. fr_interval_start r \<in> set a \<union> set b \<union> set c" using sets(1) by auto
  then show "mset (cs_train s @ cs_validation s @ cs_test s) = mset rows"
    unfolding s rows_at_def using sets(2-4) by (auto simp del: mset_append intro!: filter_parts)
  show "\<lbrakk>r \<in> set (cs_train s); v \<in> set (cs_validation s)\<rbrakk> \<Longrightarrow> fr_interval_start r < fr_interval_start v"
    "\<lbrakk>v \<in> set (cs_validation s); t \<in> set (cs_test s)\<rbrakk> \<Longrightarrow> fr_interval_start v < fr_interval_start t"
    "\<lbrakk>r \<in> set (cs_train s); t \<in> set (cs_test s)\<rbrakk> \<Longrightarrow> fr_interval_start r < fr_interval_start t"
    using sets(2-4) by (auto simp: s rows_at_def)
  show "cs_train_end s < cs_validation_start s" "cs_validation_end s < cs_test_start s"
    using sets(2,3) ne by (simp_all add: s)
  have "fr_interval_start ` set (rows_at a rows) = set a" "fr_interval_start ` set (rows_at b rows) = set b"
    "fr_interval_start ` set (rows_at c rows) = set c"
    using sets(1) by (auto intro!: rows_at_times)
  then show "mc_min_intervals config \<le> int (card (fr_interval_start ` set (cs_train s)))"
    "mc_min_intervals config \<le> int (card (fr_interval_start ` set (cs_validation s)))"
    "mc_min_intervals config \<le> int (card (fr_interval_start ` set (cs_test s)))"
    using cut sets(5-7) by (simp_all add: s cut_def distinct_card)
qed

section \<open>The folds\<close>

text \<open>Fold \<open>origin\<close> in terms of the start of its validation stretch.\<close>

definition fold_rows :: "feature_row list \<Rightarrow> int list \<Rightarrow> int \<Rightarrow> int \<Rightarrow> feature_row list \<times> feature_row list" where
  "fold_rows eligible ts width origin =
     (let start_index = nat (int (length ts) - origin * width) in
      (rows_at (take start_index ts) eligible, rows_at (take (nat width) (drop start_index ts)) eligible))"

lemma fold_at_rows:
  assumes "1 \<le> origin" "1 \<le> width" "1 \<le> mc_min_intervals config"
  shows "fold_at config eligible ts width origin =
    (if int (length ts) - origin * width < mc_min_intervals config then [] else [fold_rows eligible ts width origin])"
proof -
  let ?start = "int (length ts) - origin * width" and ?stop = "int (length ts) - (origin - 1) * width"
  have end_eq: "?stop = ?start + width" by (simp add: algebra_simps)
  show ?thesis
  proof (cases "?start < mc_min_intervals config")
    case False
    with assms have "0 \<le> ?start" by linarith
    moreover have "drop (nat ?start) (take (nat (?start + width)) ts) = take (nat width) (drop (nat ?start) ts)"
      using \<open>0 \<le> ?start\<close> assms(2) by (simp add: drop_take nat_add_distrib)
    moreover have "?stop - width = ?start" using end_eq by simp
    ultimately show ?thesis
      using False assms(2) by (simp add: fold_at_def fold_rows_def Let_def slice_0 slice_mid end_eq)
  qed (simp add: fold_at_def Let_def algebra_simps)
qed

lemma int_le_div:
  assumes "1 \<le> (w::int)"
  shows "i \<le> x div w \<longleftrightarrow> i * w \<le> x"
proof
  assume "i \<le> x div w"
  then have "i * w \<le> x div w * w" using assms by (intro mult_right_mono) auto
  also have "\<dots> \<le> x" using div_mult_mod_eq [of x w] pos_mod_sign [of w x] assms by linarith
  finally show "i * w \<le> x" .
next
  assume "i * w \<le> x"
  then have "i * w div w \<le> x div w" using assms by (intro zdiv_mono1) auto
  then show "i \<le> x div w" using assms by simp
qed

lemma upto_filter:
  assumes "1 \<le> (w::int)"
  shows "filter (\<lambda>o'. \<not> n - o' * w < m) (rev [1..k]) = rev [1..min k ((n - m) div w)]"
proof -
  have "\<not> n - i * w < m \<longleftrightarrow> i \<le> (n - m) div w" for i
    using int_le_div [OF assms, of i "n - m"] by (simp add: not_less algebra_simps)
  then have "filter (\<lambda>o'. \<not> n - o' * w < m) [1..k] = filter (\<lambda>i. i \<le> (n - m) div w) [1..k]" by simp
  also have "\<dots> = [1..min k ((n - m) div w)]"
  proof (rule sorted_distinct_set_unique)
    show "set (filter (\<lambda>i. i \<le> (n - m) div w) [1..k]) = set [1..min k ((n - m) div w)]" by auto
  qed (simp_all add: sorted_wrt_filter)
  finally show ?thesis by (simp add: rev_filter [symmetric])
qed

text \<open>The folds, the earliest first: origin \<open>j\<close> down to 1.\<close>

definition eligible_rows :: "chronological \<Rightarrow> feature_row list" where
  "eligible_rows s = cs_train s @ cs_validation s"

definition fold_width :: "model_config \<Rightarrow> int list \<Rightarrow> int" where
  "fold_width config ts = max (mc_min_intervals config) (int (length ts) div (mc_rolling_origins config + 2))"

lemma concat_singles: "concat (map (\<lambda>x. if P x then [] else [f x]) xs) = map f (filter (\<lambda>x. \<not> P x) xs)"
  by (induction xs) auto

lemma folds_eq:
  assumes "validate config = None" "chronological_split rows config = Inr s"
  defines "ts \<equiv> interval_times (eligible_rows s)"
  shows "rolling_origin_folds rows config = Inr (map (fold_rows (eligible_rows s) ts (fold_width config ts))
    (rev [1..min (mc_rolling_origins config) ((int (length ts) - mc_min_intervals config) div fold_width config ts)]))"
proof -
  let ?w = "fold_width config ts" and ?k = "mc_rolling_origins config" and ?n = "int (length ts)" and ?m = "mc_min_intervals config"
  have pos: "1 \<le> ?w" "1 \<le> ?m" "1 \<le> ?k" using validated [OF assms(1)] by (auto simp: fold_width_def)
  have "map (fold_at config (eligible_rows s) ts ?w) (rev [1..?k]) =
      map (\<lambda>i. if ?n - i * ?w < ?m then [] else [fold_rows (eligible_rows s) ts ?w i]) (rev [1..?k])"
    using pos by (intro map_cong) (auto simp: fold_at_rows)
  then have "concat (map (fold_at config (eligible_rows s) ts ?w) (rev [1..?k])) =
      map (fold_rows (eligible_rows s) ts ?w) (filter (\<lambda>i. \<not> ?n - i * ?w < ?m) (rev [1..?k]))"
    by (simp only: concat_singles)
  also have "filter (\<lambda>i. \<not> ?n - i * ?w < ?m) (rev [1..?k]) = rev [1..min ?k ((?n - ?m) div ?w)]"
    by (rule upto_filter [OF pos(1)])
  finally show ?thesis
    using pos(3) assms(2) by (simp add: rolling_origin_folds_def Let_def ts_def eligible_rows_def fold_width_def)
qed

text \<open>Consecutive folds: what one validates the next trains on.\<close>

lemma rows_at_append: "set (rows_at (a @ b) rows) = set (rows_at a rows) \<union> set (rows_at b rows)"
  by (auto simp: rows_at_def)

lemma fold_rows_next:
  assumes "1 \<le> width" "0 \<le> int (length ts) - (origin + 1) * width"
  shows "set (fst (fold_rows rows ts width origin)) =
    set (fst (fold_rows rows ts width (origin + 1))) \<union> set (snd (fold_rows rows ts width (origin + 1)))"
proof -
  let ?i = "nat (int (length ts) - (origin + 1) * width)"
  have "nat (int (length ts) - origin * width) = ?i + nat width"
    using assms by (simp add: algebra_simps flip: nat_add_distrib)
  then have "take (nat (int (length ts) - origin * width)) ts = take ?i ts @ take (nat width) (drop ?i ts)"
    by (simp add: take_add)
  then show ?thesis by (simp add: fold_rows_def Let_def rows_at_append)
qed

lemma fold_rows_last:
  assumes "1 \<le> width" "0 \<le> int (length (interval_times rows)) - width"
  shows "set (fst (fold_rows rows (interval_times rows) width 1)) \<union> set (snd (fold_rows rows (interval_times rows) width 1)) = set rows"
proof -
  let ?ts = "interval_times rows" let ?i = "nat (int (length ?ts) - width)"
  have "take (nat width) (drop ?i ?ts) = drop ?i ?ts" using assms by simp
  then have "set (rows_at (take ?i ?ts) rows) \<union> set (rows_at (take (nat width) (drop ?i ?ts)) rows) = set (rows_at ?ts rows)"
    by (simp flip: rows_at_append)
  also have "\<dots> = set rows" by (auto simp: rows_at_def)
  finally show ?thesis by (simp add: fold_rows_def Let_def)
qed

lemma fold_rows_order:
  assumes "r \<in> set (fst (fold_rows rows (interval_times rows) width origin))"
    "v \<in> set (snd (fold_rows rows (interval_times rows) width origin))"
  shows "fr_interval_start r < fr_interval_start v" "r \<in> set rows" "v \<in> set rows"
proof -
  let ?ts = "interval_times rows" let ?i = "nat (int (length ?ts) - origin * width)"
  have "sorted_wrt (<) (take ?i ?ts @ drop ?i ?ts)" using interval_times_strict [of rows] by simp
  then have "\<forall>x \<in> set (take ?i ?ts). \<forall>y \<in> set (drop ?i ?ts). x < y" unfolding sorted_wrt_append by blast
  moreover have "fr_interval_start v \<in> set (drop ?i ?ts)" "fr_interval_start r \<in> set (take ?i ?ts)"
    using assms by (auto simp: fold_rows_def Let_def rows_at_def dest: in_set_takeD)
  ultimately show "fr_interval_start r < fr_interval_start v" by blast
  show "r \<in> set rows" "v \<in> set rows" using assms by (auto simp: fold_rows_def Let_def rows_at_def)
qed

lemma fold_rows_sizes:
  assumes "1 \<le> width" "1 \<le> origin" "m \<le> int (length (interval_times rows)) - origin * width" "1 \<le> m"
  shows "m \<le> int (card (fr_interval_start ` set (fst (fold_rows rows (interval_times rows) width origin))))"
    "int (card (fr_interval_start ` set (snd (fold_rows rows (interval_times rows) width origin)))) = width"
proof -
  let ?ts = "interval_times rows" let ?i = "nat (int (length ?ts) - origin * width)"
  have "width \<le> origin * width" using assms(1,2) by simp
  then have i: "?i + nat width \<le> length ?ts" "m \<le> int ?i" using assms by linarith+
  have sub: "set (take ?i ?ts) \<subseteq> fr_interval_start ` set rows" "set (take (nat width) (drop ?i ?ts)) \<subseteq> fr_interval_start ` set rows"
    using set_take_subset [of ?i ?ts] set_take_subset [of "nat width" "drop ?i ?ts"] set_drop_subset [of ?i ?ts] by auto
  have "distinct (take ?i ?ts)" "distinct (take (nat width) (drop ?i ?ts))"
    using interval_times_sorted(2) [of rows] by (simp_all add: distinct_take distinct_drop)
  then show "m \<le> int (card (fr_interval_start ` set (fst (fold_rows rows ?ts width origin))))"
    "int (card (fr_interval_start ` set (snd (fold_rows rows ?ts width origin)))) = width"
    using i assms(1) sub by (simp_all add: fold_rows_def Let_def rows_at_times distinct_card)
qed

text \<open>The numbers of a split: there is room for at least one fold.\<close>

lemma eligible_times:
  assumes "validate config = None" "chronological_split rows config = Inr s"
  shows "2 * mc_min_intervals config \<le> int (length (interval_times (eligible_rows s)))"
proof -
  let ?a = "fr_interval_start ` set (cs_train s)" and ?b = "fr_interval_start ` set (cs_validation s)"
  have "?a \<inter> ?b = {}" using split_blocks(2) [OF assms] by force
  then have "card (?a \<union> ?b) = card ?a + card ?b" by (intro card_Un_disjoint) auto
  moreover have "length (interval_times (eligible_rows s)) = card (?a \<union> ?b)"
    using distinct_card [OF interval_times_sorted(2) [of "eligible_rows s"]] by (simp add: eligible_rows_def image_Un)
  ultimately show ?thesis using split_blocks(7,8) [OF assms] by linarith
qed

lemma fold_width_bounds:
  assumes "1 \<le> m" "1 \<le> k" "2 * m \<le> (n::int)"
  shows "1 \<le> max m (n div (k + 2))" "max m (n div (k + 2)) \<le> n - m"
proof -
  have "n div (k + 2) \<le> n div 2" using assms by (intro zdiv_mono2) auto
  moreover have "n div 2 \<le> n - m" using assms by linarith
  ultimately show "max m (n div (k + 2)) \<le> n - m" using assms by linarith
qed (use assms in simp)

lemma rev_upto_nth: "i < nat j \<Longrightarrow> rev [1..j] ! i = j - int i"
proof -
  assume i: "i < nat j"
  then have "int (nat j - Suc i) = j - 1 - int i" by linarith
  with i nth_upto [of 1 "nat j - Suc i" j] show ?thesis by (simp add: rev_nth)
qed

lemma folds_exist:
  assumes "validate config = None" "chronological_split rows config = Inr s"
  obtains j w where "rolling_origin_folds rows config =
      Inr (map (fold_rows (eligible_rows s) (interval_times (eligible_rows s)) w) (rev [1..j]))"
    "1 \<le> w" "mc_min_intervals config \<le> w" "1 \<le> j" "j \<le> mc_rolling_origins config"
    "\<And>i. i \<le> j \<Longrightarrow> mc_min_intervals config \<le> int (length (interval_times (eligible_rows s))) - i * w"
proof -
  let ?ts = "interval_times (eligible_rows s)"
  let ?w = "fold_width config ?ts" and ?m = "mc_min_intervals config" and ?n = "int (length ?ts)"
  let ?j = "min (mc_rolling_origins config) ((?n - ?m) div ?w)"
  note v = validated [OF assms(1)]
  have w: "1 \<le> ?w" "?w \<le> ?n - ?m"
    using fold_width_bounds [OF v(1,2) eligible_times [OF assms]] by (simp_all add: fold_width_def)
  have "1 \<le> (?n - ?m) div ?w" using int_le_div [OF w(1), of 1 "?n - ?m"] w(2) by simp
  moreover have "?m \<le> ?n - i * ?w" if "i \<le> ?j" for i
    using that int_le_div [OF w(1), of i "?n - ?m"] by simp
  moreover have "?m \<le> ?w" by (simp add: fold_width_def)
  ultimately show ?thesis
    using v(2) w(1) by (intro that [OF folds_eq [OF assms]]) auto
qed

lemma fold_chain:
  fixes rows ts
  assumes "1 \<le> w" "\<And>i. i \<le> j \<Longrightarrow> 0 \<le> int (length ts) - i * w"
  defines "folds \<equiv> map (fold_rows rows ts w) (rev [1..j])"
  shows "Suc i < length folds \<Longrightarrow> set (fst (folds ! Suc i)) = set (fst (folds ! i)) \<union> set (snd (folds ! i))"
proof -
  assume i: "Suc i < length folds"
  then have "folds ! Suc i = fold_rows rows ts w (j - int i - 1)" "folds ! i = fold_rows rows ts w (j - int i - 1 + 1)"
    by (simp_all add: folds_def rev_upto_nth algebra_simps)
  then show ?thesis
    using fold_rows_next [OF assms(1), of ts "j - int i - 1" rows] assms(2) [of "j - int i"] by simp
qed

text \<open>A fold trains on earlier times than it validates on, both before the test block.\<close>

lemma fold_before_test:
  assumes "validate config = None" "chronological_split rows config = Inr s"
    and w: "1 \<le> w" "mc_min_intervals config \<le> w"
    and i: "1 \<le> i" "mc_min_intervals config \<le> int (length (interval_times (eligible_rows s))) - i * w"
    and eq: "fold_rows (eligible_rows s) (interval_times (eligible_rows s)) w i = (train, validation)"
  shows "(\<forall>r \<in> set train. \<forall>v \<in> set validation. \<forall>t \<in> set (cs_test s).
         fr_interval_start r < fr_interval_start v \<and> fr_interval_start v < fr_interval_start t) \<and>
      mc_min_intervals config \<le> int (card (fr_interval_start ` set train)) \<and>
      mc_min_intervals config \<le> int (card (fr_interval_start ` set validation))"
proof (intro conjI ballI)
  note sizes = fold_rows_sizes [OF w(1) i validated(1) [OF assms(1)]]
  show "mc_min_intervals config \<le> int (card (fr_interval_start ` set train))"
    "mc_min_intervals config \<le> int (card (fr_interval_start ` set validation))"
    using sizes w(2) by (simp_all add: eq)
  fix r v t assume rv: "r \<in> set train" "v \<in> set validation" and t: "t \<in> set (cs_test s)"
  note order = fold_rows_order [of r "eligible_rows s" w i v, unfolded eq fst_conv snd_conv, OF rv]
  show "fr_interval_start r < fr_interval_start v" by (rule order(1))
  show "fr_interval_start v < fr_interval_start t"
    using order(3) t split_blocks(3,4) [OF assms(1,2)] by (auto simp: eligible_rows_def)
qed

end
