(* ===== verification/Forecast_Properties.thy ===== *)
theory Forecast_Properties
  imports Forecast_Isotonic Forecast_Split
begin

text \<open>
  The properties of the calibrator (what it fits, that calibrated probabilities keep the order of
  the raw ones, that a written artifact is read back) and of the splits (no leak from a later block
  into an earlier one, folds that roll up to the test block).
\<close>

section \<open>A concrete numpy\<close>

definition reference_numpy :: numpy where
  "reference_numpy =
     \<lparr>np_argsort = (\<lambda>xs. sort_key (\<lambda>i. xs ! i) [0..<length xs]),
      np_searchsorted = (\<lambda>xs v. length (takeWhile (\<lambda>x. x < v) xs)),
      np_clip = (\<lambda>x lo hi. if dlt x lo then lo else if dlt hi x then hi else x)\<rparr>"

lemma reference_numpy_documented: "documented reference_numpy"
  by (simp add: documented_def reference_numpy_def)

definition demo_counts :: "double list" where
  "demo_counts = [Fin 0, Fin 2, Fin 0, Fin 1]"

definition demo_probabilities :: "double list" where
  "demo_probabilities = [Fin (1 / 8), Fin (1 / 4), Fin (1 / 2), Fin (3 / 4)]"

definition demo_calibrator :: calibrator where
  "demo_calibrator = \<lparr>cal_thresholds = [Fin (1 / 8), Fin (1 / 2), Fin (3 / 4)], cal_values = [Fin 0, Fin (1 / 2), Fin 1]\<rparr>"

lemma demo_fit: "fit reference_numpy demo_counts demo_probabilities = Inr demo_calibrator"
  by code_simp

lemma demo_small: "length demo_counts \<le> 2 ^ 26"
  by (simp add: demo_counts_def)

text \<open>Rows with equal probabilities are not pooled: the fit, and what is predicted, depend on their order.\<close>

lemma tied_rows_by_input_order:
  "fit reference_numpy [Fin 0, Fin 1] [Fin (1 / 2), Fin (1 / 2)] =
     Inr \<lparr>cal_thresholds = [Fin (1 / 2), Fin (1 / 2)], cal_values = [Fin 0, Fin 1]\<rparr>"
  "fit reference_numpy [Fin 1, Fin 0] [Fin (1 / 2), Fin (1 / 2)] =
     Inr \<lparr>cal_thresholds = [Fin (1 / 2)], cal_values = [Fin (1 / 2)]\<rparr>"
  by code_simp+

section \<open>Properties\<close>

text \<open>C9: fitting is isotonic regression: the calibrated values are the rounded means of the groups that pooling forms
in the order of the raw probabilities, and those means are the non-decreasing fit of the labels with the least squared
error (up to \<open>2 ^ 26\<close> rows, where sums of counts are exact doubles).\<close>

theorem fit_is_isotonic_regression:
  assumes "documented np" and "length counts \<le> 2 ^ 26" and "fit np counts probs = Inr c"
  shows "cal_values c = map (\<lambda>g. Fin (round_rat (mean g))) (groups (labels counts probs)) \<and>
    isotonic_fit (labels counts probs) (regression (labels counts probs))"
  using values_of_fit [OF assms] regression_optimal by simp

theorem fit_is_isotonic_regression_witness:
  "cal_values demo_calibrator = map (\<lambda>g. Fin (round_rat (mean g))) (groups [0, 1, 0, 1]) \<and>
   isotonic_fit [0, 1, 0, 1] (regression [0, 1, 0, 1]) \<and> groups [0, 1, 0, 1] = [[0], [1, 0], [1]]"
proof -
  have "labels demo_counts demo_probabilities = [0, 1, 0, 1]" "groups [0, 1, 0, 1] = [[0], [1, 0], [1]]"
    by code_simp+
  with demo_small fit_is_isotonic_regression [OF reference_numpy_documented _ demo_fit] show ?thesis by simp
qed

text \<open>C18: a calibrator that was fitted or read from an artifact maps every double to a probability from 0 to 1 and never
reverses two raw probabilities.\<close>

theorem calibrated_probability_is_monotone:
  assumes "documented np" and "length counts \<le> 2 ^ 26"
    and "fit np counts probs = Inr c \<or> from_dict tf payload = Inr c"
  shows "\<exists>p q. predict np c x = Inr p \<and> predict np c y = Inr q \<and> (x \<le> y \<longrightarrow> p \<le> q) \<and> Fin 0 \<le> p \<and> p \<le> Fin 1"
  using assms fit_ordered [of np counts probs c] from_dict_ordered [of tf payload c] predict_ordered [of np c x y] by blast

theorem calibrated_probability_is_monotone_witness:
  "\<exists>p q. predict reference_numpy demo_calibrator (Fin (1 / 5)) = Inr p \<and> predict reference_numpy demo_calibrator (Fin 2) = Inr q \<and>
     p \<le> q \<and> p = Fin (1 / 2) \<and> q = Fin 1"
proof -
  have "Fin (1 / 5) \<le> Fin 2" by simp
  moreover have "predict reference_numpy demo_calibrator (Fin (1 / 5)) = Inr (Fin (1 / 2))"
    "predict reference_numpy demo_calibrator (Fin 2) = Inr (Fin 1)" by code_simp+
  ultimately show ?thesis
    using calibrated_probability_is_monotone [OF reference_numpy_documented, of demo_counts demo_probabilities demo_calibrator _ _ "Fin (1 / 5)" "Fin 2"]
      demo_small demo_fit by auto
qed

section \<open>The artifact\<close>

text \<open>What \<open>repr\<close> is documented to do: the text of a finite float is a literal that reads back as it.\<close>

definition reads_back :: "text_functions \<Rightarrow> double \<Rightarrow> bool" where
  "reads_back tf x \<longleftrightarrow> float_literal (repr_of tf x) \<and> double_of_text (repr_of tf x) = x"

lemma parsed_texts: "\<forall>x \<in> set xs. reads_back tf x \<Longrightarrow> map_raising py_float (map (\<lambda>x. JFloat (repr_of tf x)) xs) = Inr xs"
  by (induction xs) (simp_all add: py_float_def reads_back_def)

lemma from_dict_to_dict:
  assumes "ordered c" "\<forall>x \<in> set (cal_thresholds c). Fin 0 \<le> x \<and> x \<le> Fin 1"
    "\<forall>x \<in> set (cal_thresholds c) \<union> set (cal_values c). reads_back tf x"
  shows "from_dict tf (to_dict tf c) = Inr c"
proof -
  have "\<not> not_a_ramp (cal_thresholds c)" "\<not> not_a_ramp (cal_values c)"
    using assms(1,2) by (simp_all add: ramp ordered_def)
  then show ?thesis
    using assms parsed_texts [of "cal_thresholds c" tf] parsed_texts [of "cal_values c" tf]
    by (cases c) (simp add: from_dict_def to_dict_def member_def Let_def ordered_def)
qed

lemma loads_to_dict:
  "\<forall>x \<in> set (cal_thresholds c) \<union> set (cal_values c). reads_back tf x \<Longrightarrow>
     loads (dumps (JObj (to_dict tf c))) = Some (JObj (to_dict tf c))"
  by (intro loads_dumps) (auto simp: to_dict_def reads_back_def list_all_iff)

text \<open>C20: the artifact of a fitted calibrator survives writing and reading: its JSON text parses to what was written,
and reading it gives the calibrator back, provided \<open>repr\<close> writes each of its floats as a literal of that float.\<close>

theorem calibration_artifact_round_trip:
  assumes "documented np" and "length counts \<le> 2 ^ 26" and "fit np counts probs = Inr c" and "NaN \<notin> set probs"
    and "\<forall>x \<in> set (cal_thresholds c) \<union> set (cal_values c). reads_back tf x"
  shows "loads (dumps (JObj (to_dict tf c))) = Some (JObj (to_dict tf c)) \<and> from_dict tf (to_dict tf c) = Inr c"
proof -
  have unit: "\<forall>x \<in> set (cal_thresholds c). Fin 0 \<le> x \<and> x \<le> Fin 1"
  proof
    fix x assume "x \<in> set (cal_thresholds c)"
    then obtain p where "p \<in> set probs" "x = unit_clip p" using fit_thresholds(2) [OF assms(1-3)] by auto
    with assms(4) unit_clip_unit [of p] show "Fin 0 \<le> x \<and> x \<le> Fin 1" by auto
  qed
  show ?thesis
    by (rule conjI [OF loads_to_dict [OF assms(5)] from_dict_to_dict [OF fit_ordered [OF assms(1-3)] unit assms(5)]])
qed

definition demo_texts :: text_functions where
  "demo_texts =
     \<lparr>repr_of = (\<lambda>x. if x = Fin 0 then ''0.0'' else if x = Fin (1 / 8) then ''0.125'' else if x = Fin (1 / 2) then ''0.5''
        else if x = Fin (3 / 4) then ''0.75'' else ''1.0''), sha_of = (\<lambda>s. replicate 64 (CHR ''a''))\<rparr>"

theorem calibration_artifact_round_trip_witness:
  "loads (dumps (JObj (to_dict demo_texts demo_calibrator))) = Some (JObj (to_dict demo_texts demo_calibrator)) \<and>
   from_dict demo_texts (to_dict demo_texts demo_calibrator) = Inr demo_calibrator"
proof (rule calibration_artifact_round_trip [OF reference_numpy_documented demo_small demo_fit])
  show "NaN \<notin> set demo_probabilities" by code_simp
  have "list_all (reads_back demo_texts) (cal_thresholds demo_calibrator @ cal_values demo_calibrator)" by code_simp
  then show "\<forall>x \<in> set (cal_thresholds demo_calibrator) \<union> set (cal_values demo_calibrator). reads_back demo_texts x"
    by (auto simp: list_all_iff)
qed

section \<open>Splits\<close>

definition demo_config :: model_config where
  "demo_config =
     \<lparr>mc_schema_version = ''1.0.0'', mc_experiment_name = ''demo'', mc_target = ''event_count'', mc_window_hours = 6,
      mc_train_fraction = to_double (6 / 10), mc_validation_fraction = to_double (2 / 10), mc_min_intervals = 1,
      mc_poisson_l2 = Fin 1, mc_poisson_max_iterations = 100, mc_poisson_tolerance = to_double (1 / 10 ^ 7),
      mc_min_relative_gain = to_double (1 / 100), mc_primary_metric = ''poisson_deviance'',
      mc_top_k_fraction = to_double (1 / 10), mc_calibration_bins = 10, mc_min_training_events = 3,
      mc_risk_thresholds = [to_double (1 / 5), Fin (1 / 2), Fin (3 / 4)], mc_enable_lightgbm = True,
      mc_random_seed = 20260829, mc_rolling_origins = 2, mc_bootstrap_samples = 200, mc_explicit_train_end = None,
      mc_explicit_validation_end = None, mc_features = [''lag_1'']\<rparr>"

definition demo_feature_row :: "int \<Rightarrow> feature_row" where
  "demo_feature_row t =
     \<lparr>fr_tenant_id = ''t'', fr_cell_id = ''c'', fr_interval_start = t, fr_category = ''theft'', fr_data_as_of = t - 1,
      fr_target = Fin 1, fr_features = [(''lag_1'', Fin 0)], fr_raw = []\<rparr>"

definition demo_rows :: "feature_row list" where
  "demo_rows = map demo_feature_row [40, 10, 20, 50, 30]"

lemma demo_config_valid: "validate demo_config = None"
  by code_simp

lemma demo_split:
  "\<exists>s. chronological_split demo_rows demo_config = Inr s \<and> map fr_interval_start (cs_train s) = [10, 20, 30] \<and>
     map fr_interval_start (cs_validation s) = [40] \<and> map fr_interval_start (cs_test s) = [50]"
proof -
  have "(case chronological_split demo_rows demo_config of Inl e \<Rightarrow> False
    | Inr s \<Rightarrow> map fr_interval_start (cs_train s) = [10, 20, 30] \<and>
        map fr_interval_start (cs_validation s) = [40] \<and> map fr_interval_start (cs_test s) = [50])" by code_simp
  then show ?thesis by (simp split: sum.split_asm)
qed

text \<open>C8: a chronological split hands out every row once, puts every training interval before every validation interval
and those before every test interval, and leaves each block the configured number of intervals.\<close>

theorem split_never_leaks:
  assumes "validate config = None" and "chronological_split rows config = Inr s"
  shows "mset (cs_train s @ cs_validation s @ cs_test s) = mset rows \<and>
    (\<forall>r \<in> set (cs_train s). \<forall>v \<in> set (cs_validation s). \<forall>t \<in> set (cs_test s).
       fr_interval_start r < fr_interval_start v \<and> fr_interval_start v < fr_interval_start t) \<and>
    (\<forall>block \<in> {cs_train s, cs_validation s, cs_test s}.
       mc_min_intervals config \<le> int (card (fr_interval_start ` set block)))"
  using split_blocks [OF assms] by simp

theorem split_never_leaks_witness:
  "\<exists>s. chronological_split demo_rows demo_config = Inr s \<and>
     mset (cs_train s @ cs_validation s @ cs_test s) = mset demo_rows \<and>
     (\<forall>block \<in> {cs_train s, cs_validation s, cs_test s}. 1 \<le> card (fr_interval_start ` set block))"
proof -
  obtain s where s: "chronological_split demo_rows demo_config = Inr s" using demo_split by blast
  have one: "mc_min_intervals demo_config = 1" by (simp add: demo_config_def)
  from s split_never_leaks [OF demo_config_valid s, unfolded one] show ?thesis by auto
qed

text \<open>C17: whenever the split succeeds, the rolling origins succeed: at most the configured number of folds, each with
its training intervals before its validation intervals and both before the test block, each training set the one
before with its validation block, the last ending where the test block starts.\<close>

theorem folds_roll_forward:
  assumes "validate config = None" and "chronological_split rows config = Inr s"
  shows "\<exists>folds. rolling_origin_folds rows config = Inr folds \<and> folds \<noteq> [] \<and> int (length folds) \<le> mc_rolling_origins config \<and>
    (\<forall>(train, validation) \<in> set folds.
       (\<forall>r \<in> set train. \<forall>v \<in> set validation. \<forall>t \<in> set (cs_test s).
          fr_interval_start r < fr_interval_start v \<and> fr_interval_start v < fr_interval_start t) \<and>
       mc_min_intervals config \<le> int (card (fr_interval_start ` set train)) \<and>
       mc_min_intervals config \<le> int (card (fr_interval_start ` set validation))) \<and>
    (\<forall>i. Suc i < length folds \<longrightarrow> set (fst (folds ! Suc i)) = set (fst (folds ! i)) \<union> set (snd (folds ! i))) \<and>
    set (fst (last folds)) \<union> set (snd (last folds)) = set (cs_train s) \<union> set (cs_validation s)"
proof -
  let ?ts = "interval_times (eligible_rows s)" and ?m = "mc_min_intervals config"
  obtain j w where folds: "rolling_origin_folds rows config = Inr (map (fold_rows (eligible_rows s) ?ts w) (rev [1..j]))"
    and w: "1 \<le> w" "?m \<le> w" and j: "1 \<le> j" "j \<le> mc_rolling_origins config"
    and room: "\<And>i. i \<le> j \<Longrightarrow> ?m \<le> int (length ?ts) - i * w"
    using folds_exist [OF assms] by metis
  let ?folds = "map (fold_rows (eligible_rows s) ?ts w) (rev [1..j])"
  have m: "1 \<le> ?m" by (rule validated(1) [OF assms(1)])
  have "\<forall>(train, validation) \<in> set ?folds.
      (\<forall>r \<in> set train. \<forall>v \<in> set validation. \<forall>t \<in> set (cs_test s).
         fr_interval_start r < fr_interval_start v \<and> fr_interval_start v < fr_interval_start t) \<and>
      ?m \<le> int (card (fr_interval_start ` set train)) \<and> ?m \<le> int (card (fr_interval_start ` set validation))"
  proof (clarify)
    fix train validation assume "(train, validation) \<in> set ?folds"
    then obtain i where "1 \<le> i" "i \<le> j" "fold_rows (eligible_rows s) ?ts w i = (train, validation)" by auto
    then show "(\<forall>r \<in> set train. \<forall>v \<in> set validation. \<forall>t \<in> set (cs_test s).
         fr_interval_start r < fr_interval_start v \<and> fr_interval_start v < fr_interval_start t) \<and>
      ?m \<le> int (card (fr_interval_start ` set train)) \<and> ?m \<le> int (card (fr_interval_start ` set validation))"
      by (rule fold_before_test [OF assms w _ room])
  qed
  moreover have "set (fst (last ?folds)) \<union> set (snd (last ?folds)) = set (cs_train s) \<union> set (cs_validation s)"
    using fold_rows_last [OF w(1), of "eligible_rows s"] room [of 1] j m by (simp add: last_map last_rev eligible_rows_def upto_rec1 [of 1 j])
  moreover have "\<forall>i. Suc i < length ?folds \<longrightarrow> set (fst (?folds ! Suc i)) = set (fst (?folds ! i)) \<union> set (snd (?folds ! i))"
    using fold_chain [where rows = "eligible_rows s" and ts = ?ts and j = j, OF w(1)] room m by (meson order_trans zero_le_one)
  ultimately show ?thesis using folds j by (intro exI [of _ ?folds]) simp
qed

theorem folds_roll_forward_witness:
  "\<exists>folds. rolling_origin_folds demo_rows demo_config = Inr folds \<and> folds \<noteq> [] \<and> length folds \<le> 2 \<and>
     set (fst (folds ! 1)) = set (fst (folds ! 0)) \<union> set (snd (folds ! 0)) \<and>
     map (map fr_interval_start \<circ> snd) folds = [[30], [40]]"
proof -
  obtain s where s: "chronological_split demo_rows demo_config = Inr s" using demo_split by blast
  obtain folds where folds: "rolling_origin_folds demo_rows demo_config = Inr folds" "int (length folds) \<le> 2" "folds \<noteq> []"
    "\<forall>i. Suc i < length folds \<longrightarrow> set (fst (folds ! Suc i)) = set (fst (folds ! i)) \<union> set (snd (folds ! i))"
    using folds_roll_forward [OF demo_config_valid s] by (auto simp: demo_config_def)
  have "case rolling_origin_folds demo_rows demo_config of Inl e \<Rightarrow> False
    | Inr folds \<Rightarrow> map (map fr_interval_start \<circ> snd) folds = [[30], [40]]" by code_simp
  with folds have blocks: "map (map fr_interval_start \<circ> snd) folds = [[30], [40]]" by simp
  then have "length folds = 2" by (metis length_map length_Cons list.size(3) numeral_2_eq_2)
  with folds blocks show ?thesis by auto
qed

end
