(* ===== verification/Forecast_Features.thy ===== *)
theory Forecast_Features
  imports Py_Double Video_Store
begin

text \<open>
  builder.py and future.py: the feature table over a fixed domain of cells, and the unlabelled
  snapshot of one future interval, on the ingestion store and the video store. The H3 library, the
  sine and cosine, the text of a float and the JSON Schema validator are parameters. Aware
  date-times are instants; the range of a configuration may be naive, which \<open>validate\<close> refuses.
\<close>

section \<open>Configuration\<close>

record feature_env =
  fe_base :: ingestion_env
  fe_valid_cell :: "string \<Rightarrow> bool"
  fe_resolution :: "string \<Rightarrow> int"
  fe_grid_disk :: "string \<Rightarrow> string list"
  fe_sin :: "double \<Rightarrow> double"
  fe_cos :: "double \<Rightarrow> double"
  fe_repr :: "double \<Rightarrow> string"

record feature_config =
  fc_tenant_id :: string
  fc_source_ids :: "string list"
  fc_start :: datetime
  fc_end :: datetime
  fc_interval :: int
  fc_h3_resolution :: int
  fc_domain_cells :: "string list"
  fc_categories :: "string list"
  fc_coverage_ratio :: double

abbreviation value_error :: iexn where
  "value_error \<equiv> OtherFailure ''ValueError''"

text \<open>\<open>timedelta.total_seconds()\<close> and \<open>datetime.timestamp()\<close>: microseconds over a million, as a double.\<close>

definition float_seconds :: "int \<Rightarrow> rat" where
  "float_seconds us = round_rat (of_int us / 1000000)"

definition whole_minutes :: "int \<Rightarrow> bool" where
  "whole_minutes us \<longleftrightarrow> (let x = float_seconds us in of_int \<lfloor>x / 60\<rfloor> * 60 = x)"

definition feature_config_error :: "feature_env \<Rightarrow> feature_config \<Rightarrow> iexn option" where
  "feature_config_error env c = first_error
     ([(\<not> is_aware (fc_start c) \<or> \<not> is_aware (fc_end c), value_error),
       (dt_le (fc_end c) (fc_start c), value_error),
       (float_seconds (fc_interval c) \<le> 0, value_error),
       (\<not> whole_minutes (fc_interval c), value_error),
       (fc_domain_cells c = [], value_error),
       (fc_source_ids c = [], value_error),
       (fc_categories c = [], value_error),
       (\<not> (dle (Fin 0) (fc_coverage_ratio c) \<and> dle (fc_coverage_ratio c) (Fin 1)), value_error)] @
      concat (map (\<lambda>cell. [(\<not> fe_valid_cell env cell, value_error),
                           (fe_resolution env cell \<noteq> fc_h3_resolution c, value_error)]) (fc_domain_cells c)))"

section \<open>Times\<close>

text \<open>\<open>parse_utc\<close>: an aware ISO text as its instant.\<close>

definition parse_stored_utc :: "string \<Rightarrow> iexn + int" where
  "parse_stored_utc text =
     (case parse_iso (replace_z text) of
        Some (Aware w off) \<Rightarrow> if in_calendar (w - off) then Inr (w - off) else Inl (OtherFailure ''OverflowError'')
      | _ \<Rightarrow> Inl value_error)"

text \<open>\<open>floor_interval\<close>: both \<open>int\<close> truncate a double.\<close>

definition floor_interval :: "int \<Rightarrow> int \<Rightarrow> iexn + int" where
  "floor_interval t interval =
     (let interval_seconds = truncate_rat (float_seconds interval) in
      if interval_seconds \<le> 0 then Inl value_error
      else (let epoch_seconds = truncate_rat (float_seconds t) in
            Inr (seconds (epoch_seconds - epoch_seconds mod interval_seconds))))"

section \<open>Events\<close>

record prepared_event =
  pe_occurred_at :: int
  pe_received_at :: int
  pe_category :: string
  pe_cell_id :: string

fun prepare_each :: "feature_config \<Rightarrow> aggregated_event list \<Rightarrow> iexn + prepared_event list" where
  "prepare_each c [] = Inr []"
| "prepare_each c (row # rest) =
     (if ag_cell_id row \<notin> set (fc_domain_cells c) \<or> ag_category row \<notin> set (fc_categories c) then prepare_each c rest
      else (case parse_stored_utc (ag_occurred_at row) of Inl e \<Rightarrow> Inl e | Inr occurred \<Rightarrow>
            case parse_stored_utc (ag_received_at row) of Inl e \<Rightarrow> Inl e | Inr received \<Rightarrow>
            case prepare_each c rest of Inl e \<Rightarrow> Inl e | Inr events \<Rightarrow>
              Inr (\<lparr>pe_occurred_at = occurred, pe_received_at = received, pe_category = ag_category row,
                    pe_cell_id = ag_cell_id row\<rparr> # events)))"

definition prepare_events :: "feature_env \<Rightarrow> feature_config \<Rightarrow> prepared_event list store_op" where
  "prepare_events env c s =
     and_then (list_aggregated_events (fe_base env) (fc_tenant_id c) (fc_h3_resolution c) (fc_source_ids c) s) (\<lambda>aggregated s.
     (prepare_each c aggregated, s))"

text \<open>A cell, a category and a bucket; the default dictionaries count the events of a key.\<close>

type_synonym count_key = "string \<times> string \<times> int"

definition bucket_of :: "feature_config \<Rightarrow> prepared_event \<Rightarrow> int" where
  "bucket_of c e = (case floor_interval (pe_occurred_at e) (fc_interval c) of Inl _ \<Rightarrow> 0 | Inr b \<Rightarrow> b)"

definition tally_key :: "feature_config \<Rightarrow> prepared_event \<Rightarrow> count_key" where
  "tally_key c e = (pe_cell_id e, pe_category e, bucket_of c e)"

definition event_tally :: "feature_config \<Rightarrow> prepared_event list \<Rightarrow> count_key \<Rightarrow> int" where
  "event_tally c events key = int (length (filter (\<lambda>e. tally_key c e = key) events))"

definition visible_before :: "feature_config \<Rightarrow> int \<Rightarrow> prepared_event list \<Rightarrow> prepared_event list" where
  "visible_before c t events = filter (\<lambda>e. bucket_of c e < t \<and> pe_received_at e < t) events"

section \<open>Rows\<close>

text \<open>\<open>math.pi\<close>, and the true division of integers and of floats by a nonzero integer.\<close>

definition math_pi :: double where
  "math_pi = Fin (884279719003555 / 281474976710656)"

definition int_quotient :: "int \<Rightarrow> int \<Rightarrow> double" where
  "int_quotient a b = to_double (of_int a / of_int b)"

definition float_quotient :: "double \<Rightarrow> int \<Rightarrow> double" where
  "float_quotient x b = (case ddiv x (of_integer b) of None \<Rightarrow> NaN | Some q \<Rightarrow> q)"

definition hour_angle :: "int \<Rightarrow> double" where
  "hour_angle t =
     (let day_seconds = t div 1000000 mod 86400;
          hour_fraction = dadd (of_integer (day_seconds div 3600)) (int_quotient (day_seconds div 60 mod 60) 60) in
      float_quotient (dmul (dmul (of_integer 2) math_pi) hour_fraction) 24)"

text \<open>1970-01-01 was a Thursday, weekday 3.\<close>

definition day_angle :: "int \<Rightarrow> double" where
  "day_angle t = float_quotient (dmul (dmul (of_integer 2) math_pi) (of_integer ((t div seconds 86400 + 3) mod 7))) 7"

definition lag :: "feature_config \<Rightarrow> (count_key \<Rightarrow> int) \<Rightarrow> int \<Rightarrow> string \<Rightarrow> string \<Rightarrow> int \<Rightarrow> int" where
  "lag c visible t category cell offset = visible (cell, category, t - fc_interval c * offset)"

definition neighbors_of :: "feature_env \<Rightarrow> feature_config \<Rightarrow> string \<Rightarrow> string list" where
  "neighbors_of env c cell = filter (\<lambda>n. n \<noteq> cell \<and> n \<in> set (fc_domain_cells c)) (remdups (fe_grid_disk env cell))"

definition feature_row_json :: "feature_env \<Rightarrow> feature_config \<Rightarrow> (count_key \<Rightarrow> int) \<Rightarrow> (count_key \<Rightarrow> int) \<Rightarrow> int \<Rightarrow> string \<Rightarrow> string \<Rightarrow> (string \<times> json) list" where
  "feature_row_json env c labels visible t category cell =
     (let past = lag c visible t category cell; number = (\<lambda>x. JFloat (fe_repr env x));
          last_seven = map past [1..7]; last_fourteen = map past [1..14];
          recent_three = int_quotient (sum_list (take 3 last_fourteen)) 3;
          previous_three = int_quotient (sum_list (take 3 (drop 3 last_fourteen))) 3;
          neighbor_lag = sum_list (map (\<lambda>n. lag c visible t category n 1) (neighbors_of env c cell)) in
      [(''schema_version'', JStr ''2.0.0''), (''tenant_id'', JStr (fc_tenant_id c)), (''cell_id'', JStr cell),
       (''interval_start'', JStr (iso_utc t)), (''category'', JStr category),
       (''event_count'', JInt (labels (cell, category, t))),
       (''lag_1'', JInt (past 1)), (''lag_2'', JInt (past 2)), (''lag_7'', JInt (past 7)), (''lag_14'', JInt (past 14)),
       (''rolling_7_mean'', number (int_quotient (sum_list last_seven) 7)),
       (''rolling_14_mean'', number (int_quotient (sum_list last_fourteen) 14)),
       (''neighbor_lag_1'', number (of_integer neighbor_lag)),
       (''recent_trend'', number (dsub recent_three previous_three)),
       (''hour_sin'', number (fe_sin env (hour_angle t))), (''hour_cos'', number (fe_cos env (hour_angle t))),
       (''day_of_week_sin'', number (fe_sin env (day_angle t))), (''day_of_week_cos'', number (fe_cos env (day_angle t))),
       (''coverage_ratio'', number (fc_coverage_ratio c)), (''data_as_of'', JStr (iso_utc (t - seconds 1)))])"

text \<open>The \<open>while cursor < end\<close> loop; \<open>validate\<close> has refused an interval that is not positive.\<close>

function interval_starts :: "int \<Rightarrow> int \<Rightarrow> int \<Rightarrow> int list" where
  "interval_starts cursor end_time interval =
     (if cursor < end_time \<and> 0 < interval then cursor # interval_starts (cursor + interval) end_time interval else [])"
  by auto
termination by (relation "measure (\<lambda>(cursor, end_time, _). nat (end_time - cursor))") auto

declare interval_starts.simps [simp del]

definition rows_for :: "feature_env \<Rightarrow> feature_config \<Rightarrow> prepared_event list \<Rightarrow> int \<Rightarrow> (string \<times> json) list list" where
  "rows_for env c events t =
     concat (map (\<lambda>category. map (\<lambda>cell.
         feature_row_json env c (event_tally c events) (event_tally c (visible_before c t events)) t category cell)
       (fc_domain_cells c)) (fc_categories c))"

fun check_contracts :: "feature_env \<Rightarrow> string \<Rightarrow> (string \<times> json) list list \<Rightarrow> iexn option" where
  "check_contracts env schema_name [] = None"
| "check_contracts env schema_name (row # rows) =
     (case validate_contract (fe_base env) schema_name (JObj row) of Some e \<Rightarrow> Some e | None \<Rightarrow> check_contracts env schema_name rows)"

definition build_rows :: "feature_env \<Rightarrow> feature_config \<Rightarrow> (string \<times> json) list list store_op" where
  "build_rows env c s =
     and_then (raise_opt (feature_config_error env c) s) (\<lambda>_ s.
     let start = instant (fc_start c); end_time = instant (fc_end c) in
     and_then (lift (floor_interval start (fc_interval c)) s) (\<lambda>floor_start s.
     and_then (raise_if (floor_start \<noteq> start) value_error s) (\<lambda>_ s.
     and_then (lift (floor_interval end_time (fc_interval c)) s) (\<lambda>floor_end s.
     and_then (raise_if (floor_end \<noteq> end_time) value_error s) (\<lambda>_ s.
     and_then (prepare_events env c s) (\<lambda>events s.
     let rows = concat (map (rows_for env c events) (interval_starts start end_time (fc_interval c))) in
     and_then (raise_opt (check_contracts env ''feature-row.schema.json'' rows) s) (\<lambda>_ s. (Inr rows, s))))))))"

section \<open>Future snapshots\<close>

text \<open>\<open>build_and_persist\<close>: \<open>astimezone\<close> of a naive start reads it as UTC here; \<open>build_rows\<close> then refuses it. A
difference of a naive and an aware time is a \<open>TypeError\<close>.\<close>

definition unlabelled :: "(string \<times> json) list \<Rightarrow> (string \<times> json) list" where
  "unlabelled row =
     map (\<lambda>(k, v). if k = ''schema_version'' then (k, JStr ''1.0.0'') else (k, v)) (filter (\<lambda>(k, v). k \<noteq> ''event_count'') row)"

definition snapshot_version :: "feature_env \<Rightarrow> string option \<Rightarrow> (string \<times> json) list list \<Rightarrow> string" where
  "snapshot_version env version base_rows =
     (case version of
        Some v \<Rightarrow> v
      | None \<Rightarrow> ''future-'' @ take 24 (ie_sha (fe_base env) (dumps (sort_keys (JArr (map JObj base_rows))))))"

definition build_and_persist :: "feature_env \<Rightarrow> feature_config \<Rightarrow> string option \<Rightarrow> (string \<times> json) list list video_op" where
  "build_and_persist env c version s =
     and_then (raise_if (is_aware (fc_end c) \<noteq> is_aware (fc_start c)) (Failure ''TypeError'') s) (\<lambda>_ s.
     and_then (raise_if (instant (fc_end c) - instant (fc_start c) \<noteq> fc_interval c) (Failure ''ValueError'') s) (\<lambda>_ s.
     let target = instant (fc_start c) in
     and_then (latest_coverage_ratio (fc_tenant_id c) (fc_source_ids c) (iso_utc target) s) (\<lambda>(available, expected) s.
     and_then (on_ingestion_store (build_rows env (c\<lparr>fc_coverage_ratio := int_quotient available expected\<rparr>)) s) (\<lambda>labelled s.
     let base_rows = map unlabelled labelled;
         snapshot = snapshot_version env version base_rows;
         rows = map (\<lambda>row. row @ [(''feature_snapshot_version'', JStr snapshot)]) base_rows in
     and_then (raise_opt (map_option outer_exn (check_contracts env ''forecast-feature-row.schema.json'' rows)) s) (\<lambda>_ s.
     and_then (put_future_snapshot (fe_base env) (fc_tenant_id c) snapshot (iso_utc target) (JArr (map JObj rows)) s) (\<lambda>_ s.
     (Inr rows, s)))))))"

text \<open>\<open>ScheduledFeatureGenerator.run\<close>.\<close>

definition next_target :: "int \<Rightarrow> int \<Rightarrow> iexn + int" where
  "next_target current interval =
     (case floor_interval current interval of
        Inl e \<Rightarrow> Inl e | Inr aligned \<Rightarrow> Inr (if current = aligned then aligned else aligned + interval))"

definition run_scheduled :: "feature_env \<Rightarrow> feature_config \<Rightarrow> int option \<Rightarrow> (string \<times> json) list list video_op" where
  "run_scheduled env template now s =
     and_then (case now of Some t \<Rightarrow> (Inr t, s) | None \<Rightarrow> video_now (fe_base env) s) (\<lambda>current s.
     and_then (lift (case next_target current (fc_interval template) of Inl e \<Rightarrow> Inl (outer_exn e) | Inr t \<Rightarrow> Inr t) s) (\<lambda>target s.
     build_and_persist env
       (template\<lparr>fc_start := Aware target 0, fc_end := Aware (target + fc_interval template) 0\<rparr>) None s))"

end
