(* ===== verification/Forecast_Snapshot.thy ===== *)
theory Forecast_Snapshot
  imports Forecast_Features "HOL-Library.Multiset"
begin

text \<open>
  What the feature table holds: the label of a row counts the events of its cell, category and
  interval, every other field depends only on events that happened and were received before the
  interval; a future snapshot carries no label; the scheduler aims at the next aligned interval.
  Truncating the double of \<open>timestamp()\<close> is exact up to \<open>2 ^ 33\<close> seconds, the year 2242.
\<close>

section \<open>Seconds\<close>

abbreviation horizon :: int where
  "horizon \<equiv> seconds (2 ^ 33)"

lemma float_seconds_near:
  assumes "0 \<le> us" "us < horizon"
  shows "\<bar>float_seconds us - of_int us / 1000000\<bar> < 1 / 1000000"
proof (cases "us = 0")
  case False
  let ?q = "of_int us / 1000000 :: rat"
  have "of_int us < (of_int horizon :: rat)" using assms(2) by (simp only: of_int_less_iff)
  then have "0 < ?q" "?q < 2 ^ 33" using assms False by simp_all
  from round_rat_error_below [OF this] have "\<bar>float_seconds us - ?q\<bar> \<le> 2 ^ 33 / 2 ^ 54" by (simp only: float_seconds_def)
  also have "\<dots> < (1 / 1000000 :: rat)" by simp
  finally show ?thesis .
qed (simp add: float_seconds_def)

lemma truncated_seconds:
  assumes "0 \<le> us" "us < horizon"
  shows "truncate_rat (float_seconds us) = us div 1000000"
proof -
  let ?k = "us div 1000000" and ?q = "of_int us / 1000000 :: rat"
  have k: "1000000 * ?k \<le> us" "us + 1 \<le> 1000000 * ?k + 1000000" "0 \<le> ?k" using assms(1) by linarith+
  have "of_int (1000000 * ?k) \<le> (of_int us :: rat)" "of_int (us + 1) \<le> (of_int (1000000 * ?k + 1000000) :: rat)"
    using k(1,2) by (simp_all only: of_int_le_iff)
  then have q: "of_int ?k \<le> ?q" "?q + 1 / 1000000 \<le> of_int ?k + 1" by simp_all
  have "\<bar>?k\<bar> \<le> 2 ^ 53" using k assms(2) by simp
  then have "of_int ?k \<le> float_seconds us"
    using round_rat_mono [OF q(1)] round_rat_of_int [of ?k] by (simp add: float_seconds_def)
  moreover have "float_seconds us < of_int ?k + 1" using float_seconds_near [OF assms] q(2) by linarith
  ultimately have "\<lfloor>float_seconds us\<rfloor> = ?k" by (simp add: floor_eq_iff)
  moreover have "0 \<le> float_seconds us" using \<open>of_int ?k \<le> float_seconds us\<close> k(3) by (metis of_int_0_le_iff order_trans)
  ultimately show ?thesis by (simp add: truncate_rat_def)
qed

lemma whole_minutes_exact:
  assumes "0 \<le> us" "us < horizon" "whole_minutes us"
  shows "us = seconds (us div 1000000)"
proof -
  obtain n :: int where n: "float_seconds us = of_int n"
    using assms(3) by (metis of_int_mult of_int_numeral whole_minutes_def)
  have "\<bar>of_int (n * 1000000 - us) / 1000000 :: rat\<bar> < 1 / 1000000"
    using float_seconds_near [OF assms(1,2)] by (simp add: n diff_divide_distrib)
  then have "\<bar>of_int (n * 1000000 - us) :: rat\<bar> < 1" by (simp add: abs_divide)
  then have "us = n * 1000000" by linarith
  then show ?thesis by simp
qed

definition regular :: "int \<Rightarrow> bool" where
  "regular interval \<longleftrightarrow> 0 < interval \<and> interval < horizon \<and> whole_minutes interval"

lemma regular_interval:
  assumes "regular interval"
  shows "interval = seconds (interval div 1000000)" "0 < interval div 1000000"
    "truncate_rat (float_seconds interval) = interval div 1000000"
proof -
  show i: "interval = seconds (interval div 1000000)" using assms by (intro whole_minutes_exact) (auto simp: regular_def)
  then show "0 < interval div 1000000" using assms unfolding regular_def by linarith
  show "truncate_rat (float_seconds interval) = interval div 1000000"
    using assms by (intro truncated_seconds) (auto simp: regular_def)
qed

text \<open>A floor is a multiple of the interval; of a time up to the horizon it is the greatest one below.\<close>

lemma floor_interval_multiple:
  assumes "regular interval" "floor_interval t interval = Inr b"
  shows "b mod interval = 0"
proof -
  let ?S = "interval div 1000000" and ?x = "truncate_rat (float_seconds t)"
  have "b = seconds (?x - ?x mod ?S)"
    using assms(2) regular_interval [OF assms(1)] by (simp add: floor_interval_def Let_def)
  also have "\<dots> = interval * (?x div ?S)"
    by (subst regular_interval(1) [OF assms(1)]) (simp add: minus_mod_eq_mult_div)
  finally show ?thesis by simp
qed

lemma floor_interval_floor:
  assumes "regular interval" "0 \<le> t" "t < horizon"
  shows "floor_interval t interval = Inr (interval * (t div interval))"
proof -
  let ?S = "interval div 1000000" and ?x = "t div 1000000"
  note i = regular_interval [OF assms(1)]
  have "floor_interval t interval = Inr (seconds (?x - ?x mod ?S))"
    using i truncated_seconds [OF assms(2,3)] by (simp add: floor_interval_def Let_def)
  also have "seconds (?x - ?x mod ?S) = seconds (?S * (?x div ?S))" by (simp add: minus_mod_eq_mult_div)
  also have "\<dots> = interval * (?x div ?S)" by (subst (3) i(1)) simp
  also have "?x div ?S = t div interval"
    using zdiv_zmult2_eq [of ?S t 1000000] i(2) by (subst (2) i(1)) (simp add: mult.commute)
  finally show ?thesis .
qed

lemma next_target_window:
  assumes "regular interval" "0 \<le> now" "now < horizon"
  shows "\<exists>t. next_target now interval = Inr t \<and> now \<le> t \<and> t < now + interval \<and> t mod interval = 0"
proof -
  have pos: "0 < interval" using assms(1) by (simp add: regular_def)
  have split: "interval * (now div interval) + now mod interval = now" "0 \<le> now mod interval" "now mod interval < interval"
    using pos by (simp_all add: mult.commute)
  show ?thesis
  proof (cases "now = interval * (now div interval)")
    case True
    then have "now mod interval = 0" using split(1) by linarith
    with True pos show ?thesis by (simp add: next_target_def floor_interval_floor [OF assms])
  next
    case False
    have "now \<le> interval * (now div interval) + interval" "interval * (now div interval) < now"
      using False split by linarith+
    with False show ?thesis by (simp add: next_target_def floor_interval_floor [OF assms])
  qed
qed

section \<open>Rows\<close>

lemma interval_starts_set:
  "0 < interval \<Longrightarrow> set (interval_starts cursor e interval) = {t. cursor \<le> t \<and> t < e \<and> (t - cursor) mod interval = 0}"
proof (induction cursor e interval rule: interval_starts.induct)
  case (1 cursor e interval)
  show ?case
  proof (cases "cursor < e")
    case True
    then have "set (interval_starts cursor e interval) =
        insert cursor {t. cursor + interval \<le> t \<and> t < e \<and> (t - (cursor + interval)) mod interval = 0}"
      using 1 by (subst interval_starts.simps) simp
    also have "\<dots> = {t. cursor \<le> t \<and> t < e \<and> (t - cursor) mod interval = 0}"
    proof -
      have "(t - (cursor + interval)) mod interval = (t - cursor) mod interval" for t
        by (metis diff_diff_eq minus_mod_self2)
      moreover have "t = cursor \<or> cursor + interval \<le> t" if "cursor \<le> t" "interval dvd t - cursor" for t
        using that zdvd_imp_le [of interval "t - cursor"] by linarith
      ultimately show ?thesis using True "1.prems" by auto
    qed
    finally show ?thesis .
  qed (use 1 in \<open>simp add: interval_starts.simps [of cursor e interval]\<close>)
qed

lemma interval_starts_distinct: "distinct (interval_starts cursor e interval)"
proof (induction cursor e interval rule: interval_starts.induct)
  case (1 cursor e interval)
  then show ?case
    using interval_starts_set [of interval "cursor + interval" e] by (subst interval_starts.simps) auto
qed

text \<open>What the label of a row counts, and what the rest of it depends on.\<close>

definition label_of :: "(string \<times> json) list \<Rightarrow> int" where
  "label_of row = (case member row ''event_count'' of Some (JInt n) \<Rightarrow> n | _ \<Rightarrow> 0)"

lemma label_of_row: "label_of (feature_row_json env c labels visible t category cell) = labels (cell, category, t)"
  by (simp add: label_of_def feature_row_json_def Let_def member_def)

lemma start_of_row:
  "member (feature_row_json env c labels visible t category cell) ''interval_start'' = Some (JStr (iso_utc t))"
  by (simp add: feature_row_json_def Let_def member_def)

lemma unlabelled_row:
  "unlabelled (feature_row_json env c labels visible t category cell) = unlabelled (feature_row_json env c labels' visible t category cell)"
  by (simp add: unlabelled_def feature_row_json_def Let_def)

lemma event_tally_mset: "mset es = mset es' \<Longrightarrow> event_tally c es = event_tally c es'"
proof
  fix key
  assume "mset es = mset es'"
  then have "mset (filter (\<lambda>e. tally_key c e = key) es) = mset (filter (\<lambda>e. tally_key c e = key) es')" by simp
  then show "event_tally c es key = event_tally c es' key" unfolding event_tally_def by (metis size_mset)
qed

lemma rows_for_past:
  assumes "mset (visible_before c t es) = mset (visible_before c t es')"
  shows "map unlabelled (rows_for env c es t) = map unlabelled (rows_for env c es' t)"
  unfolding rows_for_def event_tally_mset [OF assms] map_concat map_map comp_def
  by (intro arg_cong [where f = concat] map_cong refl unlabelled_row)

lemma length_rows_for [simp]: "length (rows_for env c es t) = length (fc_categories c) * length (fc_domain_cells c)"
  by (simp add: rows_for_def length_concat comp_def sum_list_triv)

lemma rows_for_start: "row \<in> set (rows_for env c es t) \<Longrightarrow> member row ''interval_start'' = Some (JStr (iso_utc t))"
  by (auto simp: rows_for_def start_of_row)

text \<open>The keys of a table, and the sum of counts over them.\<close>

definition table_keys :: "feature_config \<Rightarrow> int list \<Rightarrow> count_key list" where
  "table_keys c ts = map (\<lambda>(t, category, cell). (cell, category, t)) (List.product ts (List.product (fc_categories c) (fc_domain_cells c)))"

lemma labels_of_rows: "map label_of (concat (map (rows_for env c es) ts)) = map (event_tally c es) (table_keys c ts)"
  by (induction ts) (simp_all add: rows_for_def table_keys_def map_concat comp_def label_of_row product_concat_map)

lemma event_tally_total:
  "distinct keys \<Longrightarrow> sum_list (map (event_tally c es) keys) = int (length (filter (\<lambda>e. tally_key c e \<in> set keys) es))"
proof (induction es)
  case (Cons e es)
  have "sum_list (map (event_tally c (e # es)) keys) = sum_list (map (event_tally c es) keys) + (if tally_key c e \<in> set keys then 1 else 0)"
    using Cons.prems
  proof (induction keys)
    case (Cons k keys)
    then show ?case by (auto simp: event_tally_def)
  qed simp
  with Cons show ?case by simp
next
  case Nil
  have "event_tally c [] = (\<lambda>_. 0)" by (simp add: fun_eq_iff event_tally_def)
  then show ?case by simp
qed

section \<open>Tables\<close>

lemma build_rows_InrE:
  assumes "build_rows env c s = (Inr rows, s')"
  obtains events where "prepare_events env c s = (Inr events, s)" "s' = s" "feature_config_error env c = None"
    "rows = concat (map (rows_for env c events) (interval_starts (instant (fc_start c)) (instant (fc_end c)) (fc_interval c)))"
    "floor_interval (instant (fc_start c)) (fc_interval c) = Inr (instant (fc_start c))"
proof -
  have same: "t = s" if "prepare_events env c s = (r, t)" for r t
    using that by (auto simp: prepare_events_def list_aggregated_events_def and_then_def raise_if_def split: if_split_asm)
  show ?thesis
    using assms by (auto simp: build_rows_def Let_def effect_simps dest: same intro!: that)
qed

lemma prepare_each_domain:
  "prepare_each c rows = Inr events \<Longrightarrow> e \<in> set events \<Longrightarrow> pe_cell_id e \<in> set (fc_domain_cells c) \<and> pe_category e \<in> set (fc_categories c)"
  by (induction c rows arbitrary: events rule: prepare_each.induct) (auto split: if_split_asm sum.split_asm)

lemma prepared_domain:
  assumes "prepare_events env c s = (Inr events, t)" "e \<in> set events"
  shows "pe_cell_id e \<in> set (fc_domain_cells c)" "pe_category e \<in> set (fc_categories c)"
  using assms prepare_each_domain [of c _ events e] by (auto simp: prepare_events_def effect_simps lift_def)

lemma bucket_multiple:
  assumes "regular (fc_interval c)"
  shows "bucket_of c e mod fc_interval c = 0"
  using floor_interval_multiple [OF assms] by (auto simp: bucket_of_def split: sum.split)

text \<open>The table counts every event of its range once.\<close>

lemma table_labels:
  assumes "build_rows env c s = (Inr rows, s')" "prepare_events env c s = (Inr events, t)"
    and "regular (fc_interval c)" "distinct (fc_categories c)" "distinct (fc_domain_cells c)"
  shows "sum_list (map label_of rows) =
    int (length (filter (\<lambda>e. instant (fc_start c) \<le> bucket_of c e \<and> bucket_of c e < instant (fc_end c)) events))"
proof -
  let ?start = "instant (fc_start c)" and ?stop = "instant (fc_end c)" and ?I = "fc_interval c"
  let ?ts = "interval_starts ?start ?stop ?I"
  have rows: "rows = concat (map (rows_for env c events) ?ts)" and aligned: "floor_interval ?start ?I = Inr ?start"
    using build_rows_InrE [OF assms(1)] assms(2) by (metis prod.inject sum.inject(2))+
  have "distinct (table_keys c ?ts)"
    using assms(4,5) interval_starts_distinct [of ?start ?stop ?I]
    by (auto simp: table_keys_def distinct_map inj_on_def distinct_product)
  then have "sum_list (map label_of rows) = int (length (filter (\<lambda>e. tally_key c e \<in> set (table_keys c ?ts)) events))"
    by (simp only: rows labels_of_rows event_tally_total)
  also have "filter (\<lambda>e. tally_key c e \<in> set (table_keys c ?ts)) events =
      filter (\<lambda>e. ?start \<le> bucket_of c e \<and> bucket_of c e < ?stop) events"
  proof (rule filter_cong [OF refl])
    fix e assume "e \<in> set events"
    note domain = prepared_domain [OF assms(2) this]
    have "?start mod ?I = 0" by (rule floor_interval_multiple [OF assms(3) aligned])
    with bucket_multiple [OF assms(3), of e] have "(bucket_of c e - ?start) mod ?I = 0"
      by (metis diff_0_right mod_diff_eq mod_0)
    then show "tally_key c e \<in> set (table_keys c ?ts) \<longleftrightarrow> ?start \<le> bucket_of c e \<and> bucket_of c e < ?stop"
      using domain interval_starts_set [of ?I ?start ?stop] assms(3)
      by (force simp: table_keys_def tally_key_def regular_def image_iff)
  qed
  finally show ?thesis .
qed

text \<open>The interval a row is of, by its position.\<close>

definition row_times :: "feature_config \<Rightarrow> int list" where
  "row_times c = concat (map (replicate (length (fc_categories c) * length (fc_domain_cells c)))
     (interval_starts (instant (fc_start c)) (instant (fc_end c)) (fc_interval c)))"

lemma blockwise:
  assumes "\<And>t. length (f t) = n" "\<And>t. length (g t) = n" "\<And>t i. i < n \<Longrightarrow> P t (f t ! i) (g t ! i)"
  shows "length (concat (map f ts)) = length (concat (map (replicate n) ts)) \<and>
    (\<forall>i < length (concat (map f ts)). P (concat (map (replicate n) ts) ! i) (concat (map f ts) ! i) (concat (map g ts) ! i))"
proof (induction ts)
  case (Cons t ts)
  have "P (concat (map (replicate n) (t # ts)) ! i) (concat (map f (t # ts)) ! i) (concat (map g (t # ts)) ! i)"
    if "i < length (concat (map f (t # ts)))" for i
  proof (cases "i < n")
    case True
    then show ?thesis using assms(1,2)[of t] assms(3) [of i t] by (simp add: nth_append)
  next
    case False
    then have "i - n < length (concat (map f ts))" using that assms(1) by simp
    with Cons.IH False show ?thesis using assms(1,2)[of t] by (simp add: nth_append)
  qed
  with Cons.IH assms(1) show ?case by simp
qed simp

lemma table_past:
  assumes "build_rows env c s1 = (Inr rows1, t1)" "build_rows env c s2 = (Inr rows2, t2)"
    and "prepare_events env c s1 = (Inr events1, u1)" "prepare_events env c s2 = (Inr events2, u2)"
  shows "length rows1 = length (row_times c)" "length rows2 = length rows1"
    and "i < length rows1 \<Longrightarrow> member (rows1 ! i) ''interval_start'' = Some (JStr (iso_utc (row_times c ! i)))"
    and "i < length rows1 \<Longrightarrow> mset (visible_before c (row_times c ! i) events1) = mset (visible_before c (row_times c ! i) events2)
      \<Longrightarrow> unlabelled (rows1 ! i) = unlabelled (rows2 ! i)"
proof -
  let ?ts = "interval_starts (instant (fc_start c)) (instant (fc_end c)) (fc_interval c)"
  let ?n = "length (fc_categories c) * length (fc_domain_cells c)"
  define P where "P t r1 r2 \<longleftrightarrow> member r1 ''interval_start'' = Some (JStr (iso_utc t)) \<and>
    (mset (visible_before c t events1) = mset (visible_before c t events2) \<longrightarrow> unlabelled r1 = unlabelled r2)" for t r1 r2
  have rows: "rows1 = concat (map (rows_for env c events1) ?ts)" "rows2 = concat (map (rows_for env c events2) ?ts)"
    using build_rows_InrE [OF assms(1)] build_rows_InrE [OF assms(2)] assms(3,4) by (metis prod.inject sum.inject(2))+
  have "P t (rows_for env c events1 t ! i) (rows_for env c events2 t ! i)" if "i < ?n" for t i
  proof -
    have "rows_for env c events1 t ! i \<in> set (rows_for env c events1 t)" using that by (intro nth_mem) simp
    moreover have "unlabelled (rows_for env c events1 t ! i) = unlabelled (rows_for env c events2 t ! i)"
      if "mset (visible_before c t events1) = mset (visible_before c t events2)"
      using arg_cong [OF rows_for_past [OF that, of env], of "\<lambda>rs. rs ! i"] \<open>i < ?n\<close> by simp
    ultimately show ?thesis using rows_for_start by (simp add: P_def)
  qed
  from blockwise [of "rows_for env c events1" ?n "rows_for env c events2" P ?ts, OF _ _ this]
  have all: "length rows1 = length (row_times c)" "\<forall>i < length rows1. P (row_times c ! i) (rows1 ! i) (rows2 ! i)"
    by (simp_all add: rows row_times_def)
  show "length rows2 = length rows1" by (simp add: rows length_concat comp_def)
  show "length rows1 = length (row_times c)" by (rule all)
  show "i < length rows1 \<Longrightarrow> member (rows1 ! i) ''interval_start'' = Some (JStr (iso_utc (row_times c ! i)))"
    "i < length rows1 \<Longrightarrow> mset (visible_before c (row_times c ! i) events1) = mset (visible_before c (row_times c ! i) events2)
      \<Longrightarrow> unlabelled (rows1 ! i) = unlabelled (rows2 ! i)"
    using all(2) by (auto simp: P_def)
qed

section \<open>Future snapshots\<close>

lemma coverage_reads_only: "snd (latest_coverage_ratio tenant sources before s) = s"
proof -
  have item: "snd (text_item p k s) = s" "snd (int_item p k s) = s" for p k
    by (auto simp: text_item_def int_item_def item_def and_then_def fetch_def split: option.split json.split)
  have first: "snd (first_ended before ps s) = s" for ps
    by (induction ps) (auto intro!: and_then_preserves [where P = "\<lambda>t. t = s"] simp: item)
  have latest: "snd (latest_snapshots tenant srcs before s) = s" for srcs
    by (induction srcs) (auto intro!: and_then_preserves [where P = "\<lambda>t. t = s"] simp: first split: option.split)
  have total: "snd (sum_items k ps s) = s" for k ps
    by (induction ps) (auto intro!: and_then_preserves [where P = "\<lambda>t. t = s"] simp: item)
  show ?thesis unfolding latest_coverage_ratio_def seconds_ratio_def
    by (auto intro!: and_then_preserves [where P = "\<lambda>t. t = s"] simp: latest total raise_if_def)
qed

lemma build_rows_reads_only: "snd (build_rows env c s) = s"
proof -
  have "snd (prepare_events env c s) = s"
    by (auto intro!: and_then_preserves [where P = "\<lambda>t. t = s"] simp: prepare_events_def list_aggregated_events_def raise_if_def)
  then show ?thesis unfolding build_rows_def Let_def
    by (auto intro!: and_then_preserves [where P = "\<lambda>t. t = s"] simp: raise_if_def raise_opt_def lift_def split: option.split)
qed

lemma on_db_reads_only: "snd (on_ingestion_store (build_rows env c) s) = s"
  using build_rows_reads_only [of env c "vs_db s"] by (auto simp: on_ingestion_store_def split: prod.split sum.split)

lemma persist_error:
  assumes "build_and_persist env c version s = (Inl e, s')"
  shows "s' = s"
proof -
  have "put_future_snapshot benv tn v i rows t \<noteq> (Inl e, u)" for benv tn v i rows t u
    by (simp add: put_future_snapshot_def video_now_def Let_def)
  then show ?thesis
    using assms coverage_reads_only [of "fc_tenant_id c" "fc_source_ids c" "iso_utc (instant (fc_start c))" s]
      on_db_reads_only [of env _ s]
    by (auto simp: build_and_persist_def Let_def effect_simps split: prod.split_asm) (metis snd_conv)+
qed

lemma persist_InrE:
  assumes "build_and_persist env c version s = (Inr rows, s')"
  obtains available expected labelled snapshot where
    "latest_coverage_ratio (fc_tenant_id c) (fc_source_ids c) (iso_utc (instant (fc_start c))) s = (Inr (available, expected), s)"
    "build_rows env (c\<lparr>fc_coverage_ratio := int_quotient available expected\<rparr>) (vs_db s) = (Inr labelled, vs_db s)"
    "snapshot = snapshot_version env version (map unlabelled labelled)"
    "rows = map (\<lambda>row. unlabelled row @ [(''feature_snapshot_version'', JStr snapshot)]) labelled"
    "put_future_snapshot (fe_base env) (fc_tenant_id c) snapshot (iso_utc (instant (fc_start c))) (JArr (map JObj rows)) s = (Inr (), s')"
    "instant (fc_end c) - instant (fc_start c) = fc_interval c"
proof -
  let ?target = "iso_utc (instant (fc_start c))"
  obtain a e s1 labelled s2 where one: "instant (fc_end c) - instant (fc_start c) = fc_interval c"
    and cov: "latest_coverage_ratio (fc_tenant_id c) (fc_source_ids c) ?target s = (Inr (a, e), s1)"
    and build: "on_ingestion_store (build_rows env (c\<lparr>fc_coverage_ratio := int_quotient a e\<rparr>)) s1 = (Inr labelled, s2)"
    and rows: "rows = map (\<lambda>row. unlabelled row @
        [(''feature_snapshot_version'', JStr (snapshot_version env version (map unlabelled labelled)))]) labelled"
    and put: "put_future_snapshot (fe_base env) (fc_tenant_id c) (snapshot_version env version (map unlabelled labelled)) ?target
        (JArr (map JObj rows)) s2 = (Inr (), s')"
    using assms by (auto simp: build_and_persist_def Let_def effect_simps comp_def split: prod.split_asm)
  have same: "s1 = s" "s2 = s"
    using coverage_reads_only [of "fc_tenant_id c" "fc_source_ids c" ?target s] on_db_reads_only [of env _ s1] cov build
    by (metis snd_conv)+
  have "build_rows env (c\<lparr>fc_coverage_ratio := int_quotient a e\<rparr>) (vs_db s) = (Inr labelled, vs_db s)"
    using build build_rows_reads_only [of env "c\<lparr>fc_coverage_ratio := int_quotient a e\<rparr>" "vs_db s"]
    by (auto simp: same on_ingestion_store_def split: prod.split_asm sum.split_asm)
  with one cov rows put show ?thesis by (intro that [OF _ _ refl]) (simp_all add: same)
qed

lemma single_interval: "0 < interval \<Longrightarrow> interval_starts t (t + interval) interval = [t]"
  by (simp add: interval_starts.simps [of t] interval_starts.simps [of "t + interval"])

text \<open>A row of the snapshot: no label, the target interval, the measured coverage, its version.\<close>

definition future_row :: "feature_env \<Rightarrow> feature_config \<Rightarrow> double \<Rightarrow> string \<Rightarrow> (string \<times> json) list \<Rightarrow> bool" where
  "future_row env c coverage snapshot row \<longleftrightarrow>
     member row ''event_count'' = None \<and>
     member row ''schema_version'' = Some (JStr ''1.0.0'') \<and>
     member row ''tenant_id'' = Some (JStr (fc_tenant_id c)) \<and>
     member row ''interval_start'' = Some (JStr (iso_utc (instant (fc_start c)))) \<and>
     member row ''coverage_ratio'' = Some (JFloat (fe_repr env coverage)) \<and>
     member row ''feature_snapshot_version'' = Some (JStr snapshot)"

lemma future_row_of:
  "future_row env c q snapshot (unlabelled (feature_row_json env (c\<lparr>fc_coverage_ratio := q\<rparr>) labels visible (instant (fc_start c)) category cell) @
     [(''feature_snapshot_version'', JStr snapshot)])"
  by (simp add: future_row_def unlabelled_def feature_row_json_def Let_def member_def)

lemma persisted_table:
  assumes "build_rows env (c\<lparr>fc_coverage_ratio := q\<rparr>) db = (Inr labelled, db')"
    and "instant (fc_end c) - instant (fc_start c) = fc_interval c"
  obtains events where "labelled = rows_for env (c\<lparr>fc_coverage_ratio := q\<rparr>) events (instant (fc_start c))"
proof -
  let ?c = "c\<lparr>fc_coverage_ratio := q\<rparr>" and ?t = "instant (fc_start c)"
  obtain events where err: "feature_config_error env ?c = None"
    and rows: "labelled = concat (map (rows_for env ?c events) (interval_starts ?t (instant (fc_end c)) (fc_interval c)))"
    using build_rows_InrE [OF assms(1)] by auto
  from err have "\<not> float_seconds (fc_interval c) \<le> 0" by (simp add: feature_config_error_def)
  have "0 < fc_interval c"
  proof (rule ccontr)
    assume "\<not> 0 < fc_interval c"
    then have "of_int (fc_interval c) / 1000000 \<le> (0::rat)" by (simp add: divide_le_0_iff)
    from round_rat_mono [OF this] \<open>\<not> float_seconds (fc_interval c) \<le> 0\<close> show False by (simp add: float_seconds_def)
  qed
  then have "labelled = rows_for env ?c events ?t"
    using single_interval [of "fc_interval c" ?t] assms(2) by (simp add: rows algebra_simps)
  then show ?thesis by (rule that)
qed

lemma persisted_rows:
  fixes snapshot
  assumes "build_rows env (c\<lparr>fc_coverage_ratio := q\<rparr>) db = (Inr labelled, db')"
    and "instant (fc_end c) - instant (fc_start c) = fc_interval c"
  defines "rows \<equiv> map (\<lambda>row. unlabelled row @ [(''feature_snapshot_version'', JStr snapshot)]) labelled"
  shows "length rows = length (fc_categories c) * length (fc_domain_cells c)"
    and "row \<in> set rows \<Longrightarrow> future_row env c q snapshot row"
proof -
  obtain events where labelled: "labelled = rows_for env (c\<lparr>fc_coverage_ratio := q\<rparr>) events (instant (fc_start c))"
    by (rule persisted_table [OF assms(1,2)])
  then show "length rows = length (fc_categories c) * length (fc_domain_cells c)" by (simp add: rows_def)
  show "row \<in> set rows \<Longrightarrow> future_row env c q snapshot row"
    using future_row_of unfolding rows_def labelled by (auto simp: rows_for_def)
qed

lemma snapshot_stored:
  assumes "put_future_snapshot benv tenant version start rows s = (Inr (), s')"
  shows "\<exists>r \<in> set (vs_snapshots s'). sn_tenant_id r = tenant \<and> sn_version r = version \<and> sn_rows r = rows"
proof (cases "list_ex (\<lambda>r. sn_tenant_id r = tenant \<and> sn_version r = version) (vs_snapshots s)")
  case True
  then obtain r where "r \<in> set (vs_snapshots s)" "sn_tenant_id r = tenant" "sn_version r = version" by (auto simp: list_ex_iff)
  with True assms have "r\<lparr>sn_rows := rows\<rparr> \<in> set (vs_snapshots s')"
    by (auto simp: put_future_snapshot_def video_now_def Let_def upsert_row_def update_rows_def)
  with \<open>sn_tenant_id r = tenant\<close> \<open>sn_version r = version\<close> show ?thesis by (intro bexI) auto
next
  case False
  with assms show ?thesis by (auto simp: put_future_snapshot_def video_now_def Let_def upsert_row_def)
qed

end
