(* ===== verification/Forecast_Guarantees.thy ===== *)
theory Forecast_Guarantees
  imports Forecast_Snapshot
begin

text \<open>
  The properties of the feature table and of the future snapshot, on a small table of one cell.
\<close>

section \<open>A concrete table\<close>

definition demo_feature_env :: feature_env where
  "demo_feature_env =
     \<lparr>fe_base = \<lparr>ie_clock = (\<lambda>n. 0), ie_uuid = (\<lambda>n. ''u''), ie_sha = (\<lambda>s. ''0123456789abcdef0123456789abcdef''),
        ie_problems = (\<lambda>schema v. []), ie_cell = (\<lambda>lat lon resolution. ''cell''), ie_unavailable = (\<lambda>n. False)\<rparr>,
      fe_valid_cell = (\<lambda>cell. True), fe_resolution = (\<lambda>cell. 8), fe_grid_disk = (\<lambda>cell. [cell]),
      fe_sin = (\<lambda>x. Fin 0), fe_cos = (\<lambda>x. Fin 1), fe_repr = (\<lambda>x. ''0.5'')\<rparr>"

text \<open>One hour from 2026-01-01T10:00 on.\<close>

definition demo_hour :: int where
  "demo_hour = seconds (20454 * 86400 + 36000)"

definition demo_feature_config :: feature_config where
  "demo_feature_config =
     \<lparr>fc_tenant_id = ''t'', fc_source_ids = [''s''], fc_start = Aware demo_hour 0, fc_end = Aware (demo_hour + seconds 3600) 0,
      fc_interval = seconds 3600, fc_h3_resolution = 8, fc_domain_cells = [''cell''], fc_categories = [''theft''],
      fc_coverage_ratio = Fin 1\<rparr>"

definition demo_stored_event :: "string \<Rightarrow> string \<Rightarrow> string \<Rightarrow> accepted_event" where
  "demo_stored_event event_id occurred received =
     \<lparr>ev_tenant_id = ''t'', ev_source_id = ''s'', ev_external_event_id = event_id, ev_occurred_at = occurred,
      ev_received_at = received, ev_category = ''theft'', ev_latitude = JInt 0, ev_longitude = JInt 0,
      ev_accuracy_meters = None, ev_source_sequence = JNull, ev_attributes = JObj [], ev_hash = [], ev_ingested_at = received\<rparr>"

text \<open>An event of the hour before; then one of the hour itself, and one before it that arrives late.\<close>

definition demo_past :: ingestion_store where
  "demo_past = empty_ingestion_store\<lparr>is_events := [demo_stored_event ''1'' ''2026-01-01T09:15:00Z'' ''2026-01-01T09:20:00Z'']\<rparr>"

definition demo_later :: ingestion_store where
  "demo_later = empty_ingestion_store\<lparr>is_events :=
     [demo_stored_event ''1'' ''2026-01-01T09:15:00Z'' ''2026-01-01T09:20:00Z'',
      demo_stored_event ''2'' ''2026-01-01T10:30:00Z'' ''2026-01-01T10:31:00Z'',
      demo_stored_event ''3'' ''2026-01-01T09:50:00Z'' ''2026-01-01T10:00:00Z'']\<rparr>"

definition demo_prepared :: "ingestion_store \<Rightarrow> prepared_event list" where
  "demo_prepared s = (case fst (prepare_events demo_feature_env demo_feature_config s) of Inl e \<Rightarrow> [] | Inr events \<Rightarrow> events)"

definition demo_table :: "ingestion_store \<Rightarrow> (string \<times> json) list list" where
  "demo_table s = rows_for demo_feature_env demo_feature_config (demo_prepared s) demo_hour"

lemma demo_prepared:
  "prepare_events demo_feature_env demo_feature_config demo_past = (Inr (demo_prepared demo_past), demo_past)"
  "prepare_events demo_feature_env demo_feature_config demo_later = (Inr (demo_prepared demo_later), demo_later)"
  by code_simp+

text \<open>When every row satisfies its contract, the table is returned.\<close>

lemma build_rows_returns:
  assumes "feature_config_error env c = None" "floor_interval (instant (fc_start c)) (fc_interval c) = Inr (instant (fc_start c))"
    "floor_interval (instant (fc_end c)) (fc_interval c) = Inr (instant (fc_end c))"
    "prepare_events env c s = (Inr events, s)" "\<And>schema v. ie_problems (fe_base env) schema v = []"
  shows "build_rows env c s =
    (Inr (concat (map (rows_for env c events) (interval_starts (instant (fc_start c)) (instant (fc_end c)) (fc_interval c)))), s)"
proof -
  have "check_contracts env schema rows = None" for schema rows
    by (induction rows) (simp_all add: validate_contract_def assms(5))
  with assms show ?thesis by (simp add: build_rows_def Let_def)
qed

lemma demo_config_ok:
  "feature_config_error demo_feature_env demo_feature_config = None"
  "floor_interval demo_hour (seconds 3600) = Inr demo_hour"
  "floor_interval (demo_hour + seconds 3600) (seconds 3600) = Inr (demo_hour + seconds 3600)"
  by code_simp+

lemma demo_single: "interval_starts demo_hour (demo_hour + seconds 3600) (seconds 3600) = [demo_hour]"
  by (rule single_interval) simp

lemma demo_table:
  "build_rows demo_feature_env demo_feature_config demo_past = (Inr (demo_table demo_past), demo_past)"
  "build_rows demo_feature_env demo_feature_config demo_later = (Inr (demo_table demo_later), demo_later)"
proof -
  have "build_rows demo_feature_env demo_feature_config s = (Inr (demo_table s), s)"
    if "prepare_events demo_feature_env demo_feature_config s = (Inr (demo_prepared s), s)" for s
  proof -
    have fields: "instant (fc_start demo_feature_config) = demo_hour" "instant (fc_end demo_feature_config) = demo_hour + seconds 3600"
      "fc_interval demo_feature_config = seconds 3600" by (simp_all add: demo_feature_config_def)
    show ?thesis
      using build_rows_returns [of demo_feature_env demo_feature_config s, unfolded fields, OF demo_config_ok that] demo_single
      by (simp add: demo_feature_env_def demo_table_def)
  qed
  from this [OF demo_prepared(1)] this [OF demo_prepared(2)]
  show "build_rows demo_feature_env demo_feature_config demo_past = (Inr (demo_table demo_past), demo_past)"
    "build_rows demo_feature_env demo_feature_config demo_later = (Inr (demo_table demo_later), demo_later)" .
qed

lemma demo_label: "label_of (demo_table s ! 0) = event_tally demo_feature_config (demo_prepared s) (''cell'', ''theft'', demo_hour)"
  by (simp add: demo_table_def rows_for_def demo_feature_config_def label_of_row)

section \<open>The feature table\<close>

text \<open>C6: a feature row never depends on the future. Its table position fixes its interval; two stores that agree on
the events that happened and were received before that interval give, label apart, the same row, whatever else they
hold.\<close>

theorem features_ignore_the_future:
  assumes "build_rows env c s1 = (Inr rows1, t1)" and "build_rows env c s2 = (Inr rows2, t2)"
    and "prepare_events env c s1 = (Inr events1, u1)" and "prepare_events env c s2 = (Inr events2, u2)"
  shows "length rows1 = length (row_times c) \<and> length rows2 = length (row_times c) \<and>
    (\<forall>i < length (row_times c).
       member (rows1 ! i) ''interval_start'' = Some (JStr (iso_utc (row_times c ! i))) \<and>
       (mset (filter (\<lambda>e. bucket_of c e < row_times c ! i \<and> pe_received_at e < row_times c ! i) events1) =
          mset (filter (\<lambda>e. bucket_of c e < row_times c ! i \<and> pe_received_at e < row_times c ! i) events2) \<longrightarrow>
        unlabelled (rows1 ! i) = unlabelled (rows2 ! i)))"
  using table_past [OF assms, unfolded visible_before_def] by simp

theorem features_ignore_the_future_witness:
  "unlabelled (demo_table demo_past ! 0) = unlabelled (demo_table demo_later ! 0) \<and>
   label_of (demo_table demo_past ! 0) = 0 \<and> label_of (demo_table demo_later ! 0) = 1"
proof -
  have facts: "row_times demo_feature_config = [demo_hour]"
    "filter (\<lambda>e. bucket_of demo_feature_config e < demo_hour \<and> pe_received_at e < demo_hour) (demo_prepared demo_past) =
     filter (\<lambda>e. bucket_of demo_feature_config e < demo_hour \<and> pe_received_at e < demo_hour) (demo_prepared demo_later)"
    "event_tally demo_feature_config (demo_prepared demo_past) (''cell'', ''theft'', demo_hour) = 0"
    "event_tally demo_feature_config (demo_prepared demo_later) (''cell'', ''theft'', demo_hour) = 1" by code_simp+
  with demo_label features_ignore_the_future [OF demo_table demo_prepared] show ?thesis by simp
qed

text \<open>C10: the labels of a table count every event of its range once: their sum is the number of prepared events whose
interval starts in it (an interval of whole minutes below \<open>2 ^ 33\<close> seconds; no category or cell listed twice).\<close>

theorem labels_count_every_event_once:
  assumes "build_rows env c s = (Inr rows, s')" and "prepare_events env c s = (Inr events, t)"
    and "0 < fc_interval c" and "fc_interval c < seconds (2 ^ 33)"
    and "distinct (fc_categories c)" and "distinct (fc_domain_cells c)"
  shows "sum_list (map label_of rows) =
    int (length (filter (\<lambda>e. instant (fc_start c) \<le> bucket_of c e \<and> bucket_of c e < instant (fc_end c)) events))"
proof -
  have "feature_config_error env c = None" using build_rows_InrE [OF assms(1)] by blast
  then have "regular (fc_interval c)" using assms(3,4) by (simp add: feature_config_error_def regular_def)
  then show ?thesis by (rule table_labels [OF assms(1,2) _ assms(5,6)])
qed

theorem labels_count_every_event_once_witness:
  "sum_list (map label_of (demo_table demo_later)) = 1 \<and> length (demo_prepared demo_later) = 3"
proof -
  have facts: "0 < fc_interval demo_feature_config" "fc_interval demo_feature_config < seconds (2 ^ 33)"
    "distinct (fc_categories demo_feature_config)" "distinct (fc_domain_cells demo_feature_config)"
    by (simp_all add: demo_feature_config_def)
  have "length (filter (\<lambda>e. instant (fc_start demo_feature_config) \<le> bucket_of demo_feature_config e \<and>
      bucket_of demo_feature_config e < instant (fc_end demo_feature_config)) (demo_prepared demo_later)) = 1"
    "length (demo_prepared demo_later) = 3" by code_simp+
  with labels_count_every_event_once [OF demo_table(2) demo_prepared(2) facts] show ?thesis by simp
qed

section \<open>The future snapshot\<close>

text \<open>One source, measured for half of the hour before; the snapshot of the next hour is then stored.\<close>

definition demo_measured :: video_store where
  "demo_measured = empty_video_store\<lparr>vs_db := demo_past,
     vs_coverage := [\<lparr>cv_tenant_id = ''t'', cv_source_id = ''s'', cv_interval_start = ''2026-01-01T09:00:00Z'',
        cv_payload = [(''interval_end'', JStr ''2026-01-01T10:00:00Z''), (''expected_seconds'', JInt 3600),
          (''detector_available_seconds'', JInt 1800)]\<rparr>]\<rparr>"

lemma demo_coverage_ratio:
  "latest_coverage_ratio ''t'' [''s''] (iso_utc demo_hour) demo_measured = (Inr (1800, 3600), demo_measured)"
proof -
  have "fst (latest_coverage_ratio ''t'' [''s''] (iso_utc demo_hour) demo_measured) = Inr (1800, 3600)" by code_simp
  then show ?thesis by (metis coverage_reads_only prod.collapse)
qed

lemma no_problems: "(\<And>schema v. ie_problems (fe_base env) schema v = []) \<Longrightarrow> check_contracts env schema rows = None"
  by (induction rows) (simp_all add: validate_contract_def)

lemma demo_persisted:
  "\<exists>rows s'. build_and_persist demo_feature_env demo_feature_config (Some ''v1'') demo_measured = (Inr rows, s')"
proof -
  let ?c = "demo_feature_config\<lparr>fc_coverage_ratio := int_quotient 1800 3600\<rparr>"
  have fields: "instant (fc_start ?c) = demo_hour" "instant (fc_end ?c) = demo_hour + seconds 3600" "fc_interval ?c = seconds 3600"
    "fc_tenant_id demo_feature_config = ''t''" "fc_source_ids demo_feature_config = [''s'']"
    "instant (fc_start demo_feature_config) = demo_hour" "instant (fc_end demo_feature_config) = demo_hour + seconds 3600"
    "fc_interval demo_feature_config = seconds 3600"
    "is_aware (fc_end demo_feature_config) = is_aware (fc_start demo_feature_config)" by (simp_all add: demo_feature_config_def)
  have "feature_config_error demo_feature_env ?c = None" by code_simp
  moreover have "prepare_events demo_feature_env ?c demo_past = prepare_events demo_feature_env demo_feature_config demo_past"
    by code_simp
  ultimately have "\<exists>rows. build_rows demo_feature_env ?c (vs_db demo_measured) = (Inr rows, vs_db demo_measured)"
    using build_rows_returns [of demo_feature_env ?c demo_past, unfolded fields] demo_config_ok(2,3) demo_prepared(1)
    by (simp add: demo_measured_def demo_feature_env_def)
  then obtain rows where rows: "build_rows demo_feature_env ?c (vs_db demo_measured) = (Inr rows, vs_db demo_measured)" by blast
  have none: "check_contracts demo_feature_env schema checked = None" for schema checked
    by (rule no_problems) (simp add: demo_feature_env_def)
  show ?thesis
    using rows demo_coverage_ratio
    by (simp add: build_and_persist_def fields raise_if_def Let_def on_ingestion_store_def none put_future_snapshot_def video_now_def)
qed

text \<open>The rows of a snapshot go through the categories and, for each, through the cells of the domain.\<close>

lemma row_keys:
  "map (\<lambda>row. (member (unlabelled row @ [(''feature_snapshot_version'', v)]) ''category'',
      member (unlabelled row @ [(''feature_snapshot_version'', v)]) ''cell_id'')) (rows_for env c events t) =
   map (\<lambda>(category, cell). (Some (JStr category), Some (JStr cell))) (List.product (fc_categories c) (fc_domain_cells c))"
  by (simp add: rows_for_def map_concat comp_def product_concat_map unlabelled_def feature_row_json_def Let_def member_def)

lemma persisted_keys:
  assumes "build_rows env (c\<lparr>fc_coverage_ratio := q\<rparr>) db = (Inr labelled, db')"
    and "instant (fc_end c) - instant (fc_start c) = fc_interval c"
  shows "map (\<lambda>row. (member row ''category'', member row ''cell_id''))
      (map (\<lambda>row. unlabelled row @ [(''feature_snapshot_version'', JStr snapshot)]) labelled) =
    map (\<lambda>(category, cell). (Some (JStr category), Some (JStr cell))) (List.product (fc_categories c) (fc_domain_cells c))"
proof -
  obtain events where "labelled = rows_for env (c\<lparr>fc_coverage_ratio := q\<rparr>) events (instant (fc_start c))"
    by (rule persisted_table [OF assms])
  then show ?thesis by (simp add: comp_def row_keys)
qed

text \<open>C14: the rows a future snapshot returns carry no label; they are exactly one for each category and each cell of the domain, in
that order, all of the target interval, with the coverage measured from the snapshots of the sources that ended by then and the requested version, and the
same rows are stored under that version. A run that raises stores nothing.\<close>

theorem future_snapshot_is_measured_and_unlabelled:
  assumes "build_and_persist env c version s = (r, s')"
  shows "case r of
      Inl e \<Rightarrow> s' = s
    | Inr rows \<Rightarrow> \<exists>available expected snapshot.
        latest_coverage_ratio (fc_tenant_id c) (fc_source_ids c) (iso_utc (instant (fc_start c))) s = (Inr (available, expected), s) \<and>
        (\<forall>v. version = Some v \<longrightarrow> snapshot = v) \<and>
        map (\<lambda>row. (member row ''category'', member row ''cell_id'')) rows =
          map (\<lambda>(category, cell). (Some (JStr category), Some (JStr cell))) (List.product (fc_categories c) (fc_domain_cells c)) \<and>
        (\<forall>row \<in> set rows. future_row env c (int_quotient available expected) snapshot row) \<and>
        (\<exists>stored \<in> set (vs_snapshots s'). sn_tenant_id stored = fc_tenant_id c \<and> sn_version stored = snapshot \<and>
           sn_rows stored = JArr (map JObj rows))"
proof (cases r)
  case (Inl e)
  with assms persist_error show ?thesis by auto
next
  case (Inr rows)
  with assms have ok: "build_and_persist env c version s = (Inr rows, s')" by simp
  from persist_InrE [OF ok] obtain available expected labelled snapshot where
    coverage: "latest_coverage_ratio (fc_tenant_id c) (fc_source_ids c) (iso_utc (instant (fc_start c))) s = (Inr (available, expected), s)"
    and build: "build_rows env (c\<lparr>fc_coverage_ratio := int_quotient available expected\<rparr>) (vs_db s) = (Inr labelled, vs_db s)"
    and version: "snapshot = snapshot_version env version (map unlabelled labelled)"
    and rows: "rows = map (\<lambda>row. unlabelled row @ [(''feature_snapshot_version'', JStr snapshot)]) labelled"
    and put: "put_future_snapshot (fe_base env) (fc_tenant_id c) snapshot (iso_utc (instant (fc_start c))) (JArr (map JObj rows)) s = (Inr (), s')"
    and one: "instant (fc_end c) - instant (fc_start c) = fc_interval c" by metis
  have "map (\<lambda>row. (member row ''category'', member row ''cell_id'')) rows =
      map (\<lambda>(category, cell). (Some (JStr category), Some (JStr cell))) (List.product (fc_categories c) (fc_domain_cells c))"
    "\<forall>row \<in> set rows. future_row env c (int_quotient available expected) snapshot row"
    using persisted_keys [OF build one, where snapshot = snapshot] persisted_rows(2) [OF build one, where snapshot = snapshot]
    by (simp_all only: rows) blast
  moreover have "\<forall>v. version = Some v \<longrightarrow> snapshot = v" by (simp add: version snapshot_version_def)
  ultimately show ?thesis using coverage snapshot_stored [OF put] unfolding Inr sum.case by blast
qed

theorem future_snapshot_is_measured_and_unlabelled_witness:
  "\<exists>rows s'. build_and_persist demo_feature_env demo_feature_config (Some ''v1'') demo_measured = (Inr rows, s') \<and>
     map (\<lambda>row. (member row ''category'', member row ''cell_id'')) rows = [(Some (JStr ''theft''), Some (JStr ''cell''))] \<and>
     (\<forall>row \<in> set rows. future_row demo_feature_env demo_feature_config (int_quotient 1800 3600) ''v1'' row)"
proof -
  obtain rows s' where ok: "build_and_persist demo_feature_env demo_feature_config (Some ''v1'') demo_measured = (Inr rows, s')"
    using demo_persisted by blast
  have "fc_tenant_id demo_feature_config = ''t''" "fc_source_ids demo_feature_config = [''s'']"
    "instant (fc_start demo_feature_config) = demo_hour"
    "map (\<lambda>(category, cell). (Some (JStr category), Some (JStr cell)))
       (List.product (fc_categories demo_feature_config) (fc_domain_cells demo_feature_config)) = [(Some (JStr ''theft''), Some (JStr ''cell''))]"
    by (simp_all add: demo_feature_config_def)
  with future_snapshot_is_measured_and_unlabelled [OF ok] demo_coverage_ratio ok show ?thesis by auto
qed

end
