(* ===== verification/Forecast_Operational.thy ===== *)
theory Forecast_Operational
  imports Forecast_Data Forecast_Features
begin

text \<open>
  operational.py: the forecast of one future row, with an approved model or the historical rate,
  its intervals, its calibrated probability and its suppression; and the approved estimator of
  registry.py with the checks of its uncertainty artifact. Parameters: the JSON Schema validator,
  \<open>math.exp\<close>, \<open>np.quantile\<close>, \<open>uuid5\<close>, the text of a float, and the estimator inside a bundle.
\<close>

section \<open>Results\<close>

definition result_then :: "'e + 'a \<Rightarrow> ('a \<Rightarrow> 'e + 'b) \<Rightarrow> 'e + 'b" where
  "result_then r f = (case r of Inl e \<Rightarrow> Inl e | Inr x \<Rightarrow> f x)"

declare result_then_def [code_unfold]

lemma result_then_simps [simp]: "result_then (Inl e) f = Inl e" "result_then (Inr x) f = f x"
  by (simp_all add: result_then_def)

lemma result_then_Inr: "result_then r f = Inr y \<longleftrightarrow> (\<exists>x. r = Inr x \<and> f x = Inr y)"
  by (cases r) auto

definition refuse :: "bool \<Rightarrow> 'e \<Rightarrow> 'e + unit" where
  "refuse b e = (if b then Inl e else Inr ())"

lemma refuse_Inr [simp]: "refuse b e = Inr u \<longleftrightarrow> \<not> b"
  by (simp add: refuse_def)

lemma refuse_simps [simp]: "refuse True e = Inl e" "refuse False e = Inr ()"
  by (simp_all add: refuse_def)

section \<open>Environment\<close>

record operational_env =
  oe_problems :: "string \<Rightarrow> json \<Rightarrow> string list"
  oe_numpy :: numpy
  oe_texts :: text_functions
  oe_exp :: "double \<Rightarrow> double"
  oe_quantile :: "double list \<Rightarrow> double \<Rightarrow> double"
  oe_uuid5 :: "string \<Rightarrow> string"

definition check_contract :: "operational_env \<Rightarrow> string \<Rightarrow> json \<Rightarrow> model_error + unit" where
  "check_contract env schema v = refuse (oe_problems env schema v \<noteq> []) (Data_Contract_Error ''contract validation failed'')"

text \<open>\<open>payload[key]\<close>, as it is, as a string, as a float.\<close>

definition field :: "(string \<times> json) list \<Rightarrow> string \<Rightarrow> model_error + json" where
  "field payload key = (case member payload key of None \<Rightarrow> Inl (Python_Error ''KeyError'') | Some v \<Rightarrow> Inr v)"

definition text_field :: "(string \<times> json) list \<Rightarrow> string \<Rightarrow> model_error + string" where
  "text_field payload key =
     result_then (field payload key) (\<lambda>v. case v of JStr s \<Rightarrow> Inr s | _ \<Rightarrow> Inl (Python_Error ''TypeError''))"

definition number_field :: "(string \<times> json) list \<Rightarrow> string \<Rightarrow> model_error + double" where
  "number_field payload key = result_then (field payload key) py_float"

text \<open>Python's \<open>max\<close> and \<open>min\<close> of two floats: the first argument unless the second is beyond it.\<close>

definition py_max :: "double \<Rightarrow> double \<Rightarrow> double" where
  "py_max x y = (if dlt x y then y else x)"

definition py_min :: "double \<Rightarrow> double \<Rightarrow> double" where
  "py_min x y = (if dlt y x then y else x)"

section \<open>Policy and estimators\<close>

record forecast_policy =
  po_window_minutes :: int
  po_minimum_recent_support :: double
  po_minimum_coverage_ratio :: double
  po_interval_level :: double
  po_low :: double
  po_typical :: double
  po_elevated :: double

definition policy_error :: "forecast_policy \<Rightarrow> model_error option" where
  "policy_error p = first_error
     [(po_window_minutes p < 1, Python_Error ''ValueError''),
      (dlt (po_minimum_recent_support p) (Fin 0), Python_Error ''ValueError''),
      (\<not> (dle (Fin 0) (po_minimum_coverage_ratio p) \<and> dle (po_minimum_coverage_ratio p) (Fin 1)), Python_Error ''ValueError''),
      (\<not> between (Fin 0) (po_interval_level p) (Fin 1), Python_Error ''ValueError''),
      (sort [po_low p, po_typical p, po_elevated p] \<noteq> [po_low p, po_typical p, po_elevated p], Python_Error ''ValueError'')]"

type_synonym payload_row = "(string \<times> json) list"

record estimator =
  es_tenant_id :: string
  es_model_version :: string
  es_data_version :: string
  es_window_minutes :: int
  es_predict :: "payload_row \<Rightarrow> model_error + double"
  es_drivers :: "payload_row \<Rightarrow> int \<Rightarrow> json list"
  es_calibrate :: "(double \<Rightarrow> model_error + double) option"
  es_interval :: "(payload_row \<Rightarrow> double \<Rightarrow> model_error + double \<times> double \<times> string) option"
  es_calibration_version :: "string option"

text \<open>The checks of \<open>_load\<close> on an uncertainty artifact; \<open>set(components)\<close> of a list of strings or of an object.\<close>

definition uncertainty_fields :: "string list" where
  "uncertainty_fields = [''uncertainty_version'', ''method'', ''interval_level'', ''residual_lower'', ''residual_upper'',
     ''coverage_inflation_per_missing_ratio'', ''components'', ''estimated_from'', ''model_version'']"

definition uncertainty_components :: "string list" where
  "uncertainty_components = [''model_refit_variation'', ''temporal_residual_variation'', ''data_coverage_availability'']"

definition component_names :: "json \<Rightarrow> model_error + json list" where
  "component_names v =
     (case v of
        JArr xs \<Rightarrow> if list_ex (\<lambda>x. case x of JArr _ \<Rightarrow> True | JObj _ \<Rightarrow> True | _ \<Rightarrow> False) xs
                   then Inl (Python_Error ''TypeError'') else Inr xs
      | JObj kvs \<Rightarrow> Inr (map (JStr \<circ> fst) kvs)
      | JStr s \<Rightarrow> Inr (map (\<lambda>c. JStr [c]) s)
      | _ \<Rightarrow> Inl (Python_Error ''TypeError''))"

definition check_uncertainty :: "string \<Rightarrow> payload_row \<Rightarrow> model_error + unit" where
  "check_uncertainty model_version u =
     result_then (refuse (member u ''model_version'' \<noteq> Some (JStr model_version))
       (Data_Contract_Error ''Uncertainty artifact model version does not match'')) (\<lambda>_.
     result_then (refuse (set (map fst u) \<noteq> set uncertainty_fields)
       (Data_Contract_Error ''Uncertainty artifact fields are invalid'')) (\<lambda>_.
     result_then (refuse (member u ''method'' \<noteq> Some (JStr ''rolling_origin_model_data_temporal_v1''))
       (Data_Contract_Error ''Uncertainty artifact method is not approved'')) (\<lambda>_.
     result_then (number_field u ''interval_level'') (\<lambda>level.
     result_then (refuse (\<not> is_finite level) (Data_Contract_Error ''Uncertainty artifact contains a non-finite value'')) (\<lambda>_.
     result_then (number_field u ''residual_lower'') (\<lambda>low.
     result_then (refuse (\<not> is_finite low) (Data_Contract_Error ''Uncertainty artifact contains a non-finite value'')) (\<lambda>_.
     result_then (number_field u ''residual_upper'') (\<lambda>high.
     result_then (refuse (\<not> is_finite high) (Data_Contract_Error ''Uncertainty artifact contains a non-finite value'')) (\<lambda>_.
     result_then (number_field u ''coverage_inflation_per_missing_ratio'') (\<lambda>growth.
     result_then (refuse (\<not> is_finite growth) (Data_Contract_Error ''Uncertainty artifact contains a non-finite value'')) (\<lambda>_.
     result_then (refuse (\<not> between (Fin 0) level (Fin 1)) (Data_Contract_Error ''Uncertainty interval level is invalid'')) (\<lambda>_.
     result_then (refuse (dlt (Fin 0) low \<or> dlt high (Fin 0)) (Data_Contract_Error ''Uncertainty residual bounds are invalid'')) (\<lambda>_.
     result_then (refuse (dlt growth (Fin 0)) (Data_Contract_Error ''Uncertainty coverage inflation is invalid'')) (\<lambda>_.
     result_then (field u ''components'') (\<lambda>components.
     result_then (component_names components) (\<lambda>names.
     refuse (set names \<noteq> set (map JStr uncertainty_components))
       (Data_Contract_Error ''Uncertainty artifact does not include all required components'')))))))))))))))))"

definition count_interval :: "payload_row \<Rightarrow> payload_row \<Rightarrow> double \<Rightarrow> model_error + double \<times> double \<times> string" where
  "count_interval u row expected =
     result_then (number_field row ''coverage_ratio'') (\<lambda>coverage.
     result_then (number_field u ''coverage_inflation_per_missing_ratio'') (\<lambda>growth.
     let inflation = dadd (Fin 1) (dmul (dsub (Fin 1) coverage) growth) in
     result_then (number_field u ''residual_lower'') (\<lambda>low.
     let lower = py_max (Fin 0) (dadd expected (dmul low inflation)) in
     result_then (number_field u ''residual_upper'') (\<lambda>high.
     let upper = py_max expected (dadd expected (dmul high inflation)) in
     result_then (text_field u ''method'') (\<lambda>method. Inr (py_min lower expected, upper, method))))))"

text \<open>\<open>ApprovedOperationalEstimator\<close>, around the estimator of a bundle.\<close>

record bundle_model =
  bm_tenant_id :: string
  bm_model_version :: string
  bm_data_version :: string
  bm_window_minutes :: int
  bm_predict :: "payload_row \<Rightarrow> model_error + double"
  bm_drivers :: "payload_row \<Rightarrow> int \<Rightarrow> json list"

definition approved_estimator :: "numpy \<Rightarrow> bundle_model \<Rightarrow> calibrator \<Rightarrow> string \<Rightarrow> payload_row \<Rightarrow> estimator" where
  "approved_estimator np b c version u =
     \<lparr>es_tenant_id = bm_tenant_id b, es_model_version = bm_model_version b, es_data_version = bm_data_version b,
      es_window_minutes = bm_window_minutes b, es_predict = bm_predict b, es_drivers = bm_drivers b,
      es_calibrate = Some (predict np c), es_interval = Some (count_interval u), es_calibration_version = Some version\<rparr>"

section \<open>Forecasts\<close>

record estimate =
  et_value :: "double option"
  et_lower :: "double option"
  et_upper :: "double option"
  et_level :: double
  et_method :: string

record forecast_result =
  fo_tenant_id :: string
  fo_forecast_id :: string
  fo_cell_id :: string
  fo_window_start :: int
  fo_window_end :: int
  fo_category :: string
  fo_generated_at :: int
  fo_data_as_of :: int
  fo_expected_count :: estimate
  fo_probability :: estimate
  fo_calibration_version :: "string option"
  fo_risk_band :: string
  fo_coverage_ratio :: double
  fo_drivers :: "json list"
  fo_model_version :: string
  fo_data_version :: string
  fo_snapshot_version :: string
  fo_reason :: "string option"

definition null_or :: "('a \<Rightarrow> json) \<Rightarrow> 'a option \<Rightarrow> json" where
  "null_or f x = (case x of None \<Rightarrow> JNull | Some v \<Rightarrow> f v)"

definition estimate_members :: "operational_env \<Rightarrow> estimate \<Rightarrow> payload_row" where
  "estimate_members env e =
     (let number = (\<lambda>x. JFloat (repr_of (oe_texts env) x)) in
      [(''value'', null_or number (et_value e)), (''lower'', null_or number (et_lower e)), (''upper'', null_or number (et_upper e)),
       (''interval_level'', number (et_level e)), (''method'', JStr (et_method e))])"

definition forecast_json :: "operational_env \<Rightarrow> forecast_result \<Rightarrow> payload_row" where
  "forecast_json env f =
     [(''schema_version'', JStr ''1.0.0''), (''tenant_id'', JStr (fo_tenant_id f)), (''forecast_id'', JStr (fo_forecast_id f)),
      (''cell_id'', JStr (fo_cell_id f)), (''window_start'', JStr (iso_utc (fo_window_start f))),
      (''window_end'', JStr (iso_utc (fo_window_end f))), (''category'', JStr (fo_category f)),
      (''generated_at'', JStr (iso_utc (fo_generated_at f))), (''data_as_of'', JStr (iso_utc (fo_data_as_of f))),
      (''expected_count'', JObj (estimate_members env (fo_expected_count f))),
      (''occurrence_probability'', JObj (estimate_members env (fo_probability f) @
         [(''calibration_version'', null_or JStr (fo_calibration_version f))])),
      (''risk_band'', JStr (fo_risk_band f)), (''coverage_ratio'', JFloat (repr_of (oe_texts env) (fo_coverage_ratio f))),
      (''drivers'', JArr (fo_drivers f)), (''model_version'', JStr (fo_model_version f)), (''data_version'', JStr (fo_data_version f)),
      (''feature_snapshot_version'', JStr (fo_snapshot_version f)),
      (''suppression'', JObj [(''suppressed'', JBool (fo_reason f \<noteq> None)), (''reason'', null_or JStr (fo_reason f))])]"

definition history_fields :: "string list" where
  "history_fields = [''lag_1'', ''lag_2'', ''lag_7'', ''lag_14'', ''rolling_7_mean'', ''rolling_14_mean'']"

text \<open>\<open>_empirical_interval\<close>.\<close>

definition empirical_interval :: "operational_env \<Rightarrow> payload_row \<Rightarrow> double \<Rightarrow> model_error + double \<times> double" where
  "empirical_interval env row expected =
     result_then (map_raising (number_field row) history_fields) (\<lambda>historical.
     let lower = oe_quantile env historical (to_double (5 / 100)); upper = oe_quantile env historical (to_double (95 / 100)) in
     Inr (py_max (Fin 0) (py_min lower expected), py_max upper expected))"

definition fallback_expected_count :: "payload_row \<Rightarrow> model_error + double" where
  "fallback_expected_count row =
     result_then (number_field row ''lag_1'') (\<lambda>a. result_then (number_field row ''lag_2'') (\<lambda>b.
     result_then (number_field row ''rolling_7_mean'') (\<lambda>c.
     let recent = float_quotient (dadd (dadd a b) c) 3 in
     result_then (number_field row ''lag_7'') (\<lambda>a. result_then (number_field row ''lag_14'') (\<lambda>b.
     result_then (number_field row ''rolling_14_mean'') (\<lambda>c.
     let seasonal = float_quotient (dadd (dadd a b) c) 3 in
     Inr (py_max (Fin 0) (dadd (dmul (Fin (1 / 2)) recent) (dmul (Fin (1 / 2)) seasonal)))))))))"

definition risk_band :: "forecast_policy \<Rightarrow> double \<Rightarrow> string" where
  "risk_band p probability =
     (if dlt probability (po_low p) then ''low'' else if dlt probability (po_typical p) then ''typical''
      else if dlt probability (po_elevated p) then ''elevated'' else ''high'')"

text \<open>\<open>sum(float(raw_row[name]) ...)\<close> of the four lags.\<close>

definition recent_support :: "payload_row \<Rightarrow> model_error + double" where
  "recent_support row =
     result_then (map_raising (number_field row) [''lag_1'', ''lag_2'', ''lag_7'', ''lag_14'']) (\<lambda>xs. Inr (foldl dadd (Fin 0) xs))"

text \<open>The checks before any inference; the result is the interval and the data time.\<close>

definition forecast_times :: "operational_env \<Rightarrow> payload_row \<Rightarrow> string \<Rightarrow> datetime \<Rightarrow> model_error + int \<times> int" where
  "forecast_times env raw tenant_id generated =
     result_then (check_contract env ''forecast-feature-row'' (JObj raw)) (\<lambda>_.
     result_then (field raw ''tenant_id'') (\<lambda>owner.
     result_then (refuse (owner \<noteq> JStr tenant_id)
       (Data_Contract_Error ''Future feature snapshot tenant does not match authenticated tenant'')) (\<lambda>_.
     result_then (result_then (field raw ''interval_start'') (\<lambda>v. parse_row_time (Some v))) (\<lambda>interval_start.
     result_then (result_then (field raw ''data_as_of'') (\<lambda>v. parse_row_time (Some v))) (\<lambda>data_as_of.
     result_then (refuse (case generated of Naive _ \<Rightarrow> True | Aware _ off \<Rightarrow> off \<noteq> 0)
       (Data_Contract_Error ''generated_at must be timezone-aware UTC'')) (\<lambda>_.
     result_then (refuse (interval_start \<le> data_as_of)
       (Data_Contract_Error ''data_as_of must be strictly before the forecast interval'')) (\<lambda>_.
     result_then (refuse (interval_start < instant generated)
       (Data_Contract_Error ''Operational forecasts cannot be generated after their window starts'')) (\<lambda>_.
     Inr (interval_start, data_as_of)))))))))"

text \<open>What the model, or the fallback, contributes.\<close>

record inference =
  in_expected :: double
  in_model_version :: string
  in_data_version :: string
  in_drivers :: "json list"
  in_calibrate :: "(double \<Rightarrow> model_error + double) option"
  in_interval :: "(payload_row \<Rightarrow> double \<Rightarrow> model_error + double \<times> double \<times> string) option"
  in_calibration_version :: "string option"
  in_probability_method :: "string option"

definition infer :: "forecast_policy \<Rightarrow> estimator option \<Rightarrow> payload_row \<Rightarrow> string \<Rightarrow> model_error + inference" where
  "infer policy model raw tenant_id =
     (case model of
        Some m \<Rightarrow>
          result_then (refuse (es_tenant_id m \<noteq> tenant_id)
            (Data_Contract_Error ''Approved model tenant does not match authenticated tenant'')) (\<lambda>_.
          result_then (refuse (es_window_minutes m \<noteq> po_window_minutes policy)
            (Data_Contract_Error ''Approved model interval does not match forecast policy'')) (\<lambda>_.
          result_then (es_predict m raw) (\<lambda>expected.
          result_then (refuse (\<not> is_finite expected \<or> dlt expected (Fin 0))
            (Data_Contract_Error ''Approved model produced an invalid aggregate count'')) (\<lambda>_.
          Inr \<lparr>in_expected = expected, in_model_version = es_model_version m, in_data_version = es_data_version m,
               in_drivers = es_drivers m raw 5, in_calibrate = es_calibrate m, in_interval = es_interval m,
               in_calibration_version = es_calibration_version m, in_probability_method = None\<rparr>))))
      | None \<Rightarrow>
          result_then (fallback_expected_count raw) (\<lambda>expected.
          result_then (text_field raw ''feature_snapshot_version'') (\<lambda>version.
          Inr \<lparr>in_expected = expected, in_model_version = ''historical-rate-operational-fallback-v1'', in_data_version = version,
               in_drivers = [JObj [(''feature'', JStr ''historical comparable-window rate''), (''direction'', JStr ''higher'')]],
               in_calibrate = None, in_interval = None, in_calibration_version = None,
               in_probability_method = Some ''poisson_link_fallback_uncalibrated''\<rparr>)))"

definition suppression :: "forecast_policy \<Rightarrow> payload_row \<Rightarrow> model_error + string option" where
  "suppression policy raw =
     result_then (recent_support raw) (\<lambda>support.
     result_then (number_field raw ''coverage_ratio'') (\<lambda>coverage.
     Inr (if dlt coverage (po_minimum_coverage_ratio policy) then Some ''low_coverage''
          else if dlt support (po_minimum_recent_support policy) then Some ''low_support'' else None)))"

definition count_bounds :: "operational_env \<Rightarrow> inference \<Rightarrow> payload_row \<Rightarrow> model_error + double \<times> double \<times> string" where
  "count_bounds env i raw =
     (case in_interval i of
        Some interval \<Rightarrow> interval raw (in_expected i)
      | None \<Rightarrow> result_then (empirical_interval env raw (in_expected i)) (\<lambda>(lower, upper).
          Inr (lower, upper, ''comparable_window_empirical_interval_v1'')))"

definition occurrence_probability :: "operational_env \<Rightarrow> double \<Rightarrow> double" where
  "occurrence_probability env count = dsub (Fin 1) (oe_exp env (dneg count))"

definition probability_bounds :: "operational_env \<Rightarrow> inference \<Rightarrow> double \<Rightarrow> double \<Rightarrow> model_error + double \<times> double \<times> double \<times> string option" where
  "probability_bounds env i lower upper =
     (let raw = occurrence_probability env (in_expected i); raw_lower = occurrence_probability env lower;
          raw_upper = occurrence_probability env upper in
      case in_calibrate i of
        None \<Rightarrow> Inr (raw, raw_lower, raw_upper, in_probability_method i)
      | Some calibrate \<Rightarrow>
          result_then (calibrate raw) (\<lambda>p. result_then (calibrate raw_lower) (\<lambda>q. result_then (calibrate raw_upper) (\<lambda>r.
          Inr (p, py_min p q, py_max p r, Some ''validation_isotonic_pav_v1'')))))"

text \<open>\<open>forecast_id\<close>: a name-based identifier of what is forecast and by which model.\<close>

definition forecast_id :: "operational_env \<Rightarrow> payload_row \<Rightarrow> string \<Rightarrow> string \<Rightarrow> model_error + string" where
  "forecast_id env raw tenant_id model_version =
     result_then (map_raising (text_field raw) [''cell_id'', ''interval_start'', ''category'', ''feature_snapshot_version'']) (\<lambda>texts.
     Inr (oe_uuid5 env (join ''|'' ([tenant_id] @ texts @ [model_version]))))"

text \<open>A local variable that is read: the model branch never sets \<open>probability_method\<close>, calibration does.\<close>

definition set_local :: "'a option \<Rightarrow> model_error + 'a" where
  "set_local v = (case v of None \<Rightarrow> Inl (Python_Error ''UnboundLocalError'') | Some x \<Rightarrow> Inr x)"

definition estimate_of :: "string option \<Rightarrow> double \<Rightarrow> double \<Rightarrow> double \<Rightarrow> double \<Rightarrow> string \<Rightarrow> estimate" where
  "estimate_of reason v lower upper level method =
     (let shown = (\<lambda>x. if reason = None then Some x else None) in
      \<lparr>et_value = shown v, et_lower = shown lower, et_upper = shown upper, et_level = level, et_method = method\<rparr>)"

definition make_forecast ::
  "operational_env \<Rightarrow> (string \<Rightarrow> model_error + estimator option) \<Rightarrow> forecast_policy \<Rightarrow> payload_row \<Rightarrow> string \<Rightarrow> datetime \<Rightarrow> model_error + forecast_result" where
  "make_forecast env approved_for policy raw tenant_id generated =
     result_then (forecast_times env raw tenant_id generated) (\<lambda>(interval_start, data_as_of).
     result_then (approved_for tenant_id) (\<lambda>model.
     result_then (infer policy model raw tenant_id) (\<lambda>i.
     result_then (suppression policy raw) (\<lambda>reason.
     result_then (count_bounds env i raw) (\<lambda>(count_lower, count_upper, count_method).
     result_then (probability_bounds env i count_lower count_upper) (\<lambda>(p, p_lower, p_upper, method_if_set).
     result_then (forecast_id env raw tenant_id (in_model_version i)) (\<lambda>identifier.
     result_then (text_field raw ''cell_id'') (\<lambda>cell_id.
     let window_end = interval_start + po_window_minutes policy * seconds 60 in
     result_then (refuse (\<not> in_calendar window_end) (Python_Error ''OverflowError'')) (\<lambda>_.
     result_then (text_field raw ''category'') (\<lambda>category.
     result_then (set_local method_if_set) (\<lambda>p_method.
     result_then (number_field raw ''coverage_ratio'') (\<lambda>coverage.
     result_then (text_field raw ''feature_snapshot_version'') (\<lambda>version.
     Inr
       \<lparr>fo_tenant_id = tenant_id, fo_forecast_id = identifier, fo_cell_id = cell_id, fo_window_start = interval_start,
        fo_window_end = window_end, fo_category = category, fo_generated_at = instant generated, fo_data_as_of = data_as_of,
        fo_expected_count = estimate_of reason (in_expected i) count_lower count_upper (po_interval_level policy) count_method,
        fo_probability = estimate_of reason p p_lower p_upper (po_interval_level policy) p_method,
        fo_calibration_version = in_calibration_version i,
        fo_risk_band = (if reason = None then risk_band policy p else ''suppressed''), fo_coverage_ratio = coverage,
        fo_drivers = (if reason = None then in_drivers i else []), fo_model_version = in_model_version i,
        fo_data_version = in_data_version i, fo_snapshot_version = version, fo_reason = reason\<rparr>)))))))))))))"

definition forecast ::
  "operational_env \<Rightarrow> (string \<Rightarrow> model_error + estimator option) \<Rightarrow> forecast_policy \<Rightarrow> payload_row \<Rightarrow> string \<Rightarrow> datetime \<Rightarrow> model_error + payload_row" where
  "forecast env approved_for policy raw tenant_id generated =
     result_then (make_forecast env approved_for policy raw tenant_id generated) (\<lambda>f.
     result_then (check_contract env ''forecast'' (JObj (forecast_json env f))) (\<lambda>_. Inr (forecast_json env f)))"

end
