(* ===== verification/Forecast_Publish.thy ===== *)
theory Forecast_Publish
  imports Forecast_Operational "HOL-Library.AList"
begin

text \<open>
  forecasting.py: the in-memory forecast repository with its two indices, the orchestrator that
  turns the rows of one future window into published forecasts, and the scheduled runner over all
  tenants. A stored forecast is a copy of its JSON object; its five key fields are strings, as the
  forecast contract has them. The lock makes each method one step.
\<close>

section \<open>The repository\<close>

type_synonym prediction_key = "string \<times> string \<times> string \<times> string"

definition prediction_key :: "payload_row \<Rightarrow> prediction_key" where
  "prediction_key entry =
     (identity_text entry ''tenant_id'', identity_text entry ''cell_id'', identity_text entry ''window_start'', identity_text entry ''category'')"

record forecast_repository =
  fr_by_key :: "(prediction_key \<times> payload_row) list"
  fr_by_id :: "string \<times> string \<rightharpoonup> payload_row"

definition empty_forecasts :: forecast_repository where
  "empty_forecasts = \<lparr>fr_by_key = [], fr_by_id = Map.empty\<rparr>"

text \<open>The first loop of \<open>publish\<close>: nothing is stored before every entry has passed it.\<close>

fun check_publication :: "operational_env \<Rightarrow> string \<Rightarrow> prediction_key list \<Rightarrow> payload_row list \<Rightarrow> model_error + unit" where
  "check_publication env tenant_id seen [] = Inr ()"
| "check_publication env tenant_id seen (entry # entries) =
     result_then (check_contract env ''forecast'' (JObj entry)) (\<lambda>_.
     result_then (refuse (identity_text entry ''tenant_id'' \<noteq> tenant_id) (Data_Contract_Error ''Forecast publication tenant mismatch'')) (\<lambda>_.
     result_then (refuse (prediction_key entry \<in> set seen)
       (Data_Contract_Error ''Forecast publication contains a duplicate prediction key'')) (\<lambda>_.
     check_publication env tenant_id (prediction_key entry # seen) entries)))"

definition store_forecast :: "string \<Rightarrow> payload_row \<Rightarrow> forecast_repository \<Rightarrow> forecast_repository" where
  "store_forecast tenant_id entry s =
     (let key = prediction_key entry;
          by_id = (case map_of (fr_by_key s) key of
                     None \<Rightarrow> fr_by_id s
                   | Some previous \<Rightarrow> (fr_by_id s)((tenant_id, identity_text previous ''forecast_id'') := None)) in
      \<lparr>fr_by_key = AList.update key entry (fr_by_key s), fr_by_id = by_id((tenant_id, identity_text entry ''forecast_id'') \<mapsto> entry)\<rparr>)"

definition publish :: "operational_env \<Rightarrow> string \<Rightarrow> payload_row list \<Rightarrow> forecast_repository \<Rightarrow> (model_error, unit, forecast_repository) outcome" where
  "publish env tenant_id forecasts s =
     and_then (lift (check_publication env tenant_id [] forecasts) s) (\<lambda>_ s.
     (Inr (), fold (store_forecast tenant_id) forecasts s))"

definition list_window :: "string \<Rightarrow> string \<Rightarrow> string \<Rightarrow> forecast_repository \<Rightarrow> payload_row list" where
  "list_window tenant_id window_start category s =
     map snd (filter (\<lambda>((t, cell, start, c), entry). t = tenant_id \<and> start = window_start \<and> c = category)
       (sort_key fst (fr_by_key s)))"

definition get_forecast :: "string \<Rightarrow> string \<Rightarrow> forecast_repository \<Rightarrow> payload_row option" where
  "get_forecast tenant_id identifier s = fr_by_id s (tenant_id, identifier)"

section \<open>The orchestrator\<close>

text \<open>The loop over the rows: \<open>keys\<close> are those of the rows before. The repository is any with a \<open>publish\<close>.\<close>

fun forecast_rows ::
  "operational_env \<Rightarrow> (string \<Rightarrow> model_error + estimator option) \<Rightarrow> forecast_policy \<Rightarrow> string \<Rightarrow> datetime \<Rightarrow>
   (string \<times> string \<times> string) list \<Rightarrow> payload_row list \<Rightarrow> model_error + payload_row list" where
  "forecast_rows env approved_for policy tenant_id generated keys [] = Inr []"
| "forecast_rows env approved_for policy tenant_id generated keys (row # rows) =
     result_then (check_contract env ''forecast-feature-row'' (JObj row)) (\<lambda>_.
     result_then (field row ''tenant_id'') (\<lambda>owner.
     result_then (refuse (owner \<noteq> JStr tenant_id) (Data_Contract_Error ''Scheduled feature tenant mismatch'')) (\<lambda>_.
     result_then (result_then (field row ''data_as_of'') (\<lambda>v. parse_row_time (Some v))) (\<lambda>data_as_of.
     result_then (result_then (field row ''interval_start'') (\<lambda>v. parse_row_time (Some v))) (\<lambda>interval_start.
     result_then (refuse (interval_start \<le> data_as_of)
       (Data_Contract_Error ''Scheduled features are not strictly future-facing'')) (\<lambda>_.
     let key = (identity_text row ''cell_id'', identity_text row ''interval_start'', identity_text row ''category'') in
     result_then (refuse (key \<in> set keys)
       (Data_Contract_Error ''Scheduled feature batch contains a duplicate prediction key'')) (\<lambda>_.
     result_then (forecast env approved_for policy row tenant_id generated) (\<lambda>entry.
     result_then (forecast_rows env approved_for policy tenant_id generated (key # keys) rows) (\<lambda>entries.
     Inr (entry # entries))))))))))"

definition publish_future_rows ::
  "(string \<Rightarrow> payload_row list \<Rightarrow> 'r \<Rightarrow> (model_error, unit, 'r) outcome) \<Rightarrow> operational_env \<Rightarrow> (string \<Rightarrow> model_error + estimator option) \<Rightarrow> forecast_policy \<Rightarrow> string \<Rightarrow> payload_row list \<Rightarrow> datetime \<Rightarrow>
   'r \<Rightarrow> (model_error, payload_row list, 'r) outcome" where
  "publish_future_rows put env approved_for policy tenant_id rows generated s =
     and_then (raise_if (rows = []) (Data_Contract_Error ''Scheduled inference requires at least one future row'') s) (\<lambda>_ s.
     and_then (raise_if (card (set (map (\<lambda>row. member row ''interval_start'') rows)) \<noteq> 1)
       (Data_Contract_Error ''A scheduled inference batch must contain one future window'') s) (\<lambda>_ s.
     and_then (lift (forecast_rows env approved_for policy tenant_id generated [] rows) s) (\<lambda>output s.
     and_then (put tenant_id output s) (\<lambda>_ s. (Inr output, s)))))"

section \<open>The scheduled runner\<close>

text \<open>A generator is the scheduled feature generator of a tenant, on the shared video store.\<close>

datatype run_error = Generation vexn | Inference model_error

record forecast_world =
  fw_video :: video_store
  fw_forecasts :: forecast_repository

definition run_tenant ::
  "feature_env \<Rightarrow> operational_env \<Rightarrow> (string \<Rightarrow> model_error + estimator option) \<Rightarrow> forecast_policy \<Rightarrow> int \<Rightarrow> string \<times> feature_config \<Rightarrow>
   forecast_world \<Rightarrow> (run_error, int, forecast_world) outcome" where
  "run_tenant fenv env approved_for policy now generator w =
     (case run_scheduled fenv (snd generator) (Some now) (fw_video w) of
        (Inl e, video) \<Rightarrow> (Inl (Generation e), w\<lparr>fw_video := video\<rparr>)
      | (Inr rows, video) \<Rightarrow>
          (case publish_future_rows (publish env) env approved_for policy (fst generator) rows (Aware now 0) (fw_forecasts w) of
             (Inl e, forecasts) \<Rightarrow> (Inl (Inference e), w\<lparr>fw_video := video, fw_forecasts := forecasts\<rparr>)
           | (Inr published, forecasts) \<Rightarrow>
               (Inr (int (length published)), w\<lparr>fw_video := video, fw_forecasts := forecasts\<rparr>)))"

fun run_tenants ::
  "feature_env \<Rightarrow> operational_env \<Rightarrow> (string \<Rightarrow> model_error + estimator option) \<Rightarrow> forecast_policy \<Rightarrow> int \<Rightarrow>
   (string \<times> feature_config) list \<Rightarrow> forecast_world \<Rightarrow> (run_error, (string \<times> int) list, forecast_world) outcome" where
  "run_tenants fenv env approved_for policy now [] w = (Inr [], w)"
| "run_tenants fenv env approved_for policy now (generator # generators) w =
     and_then (run_tenant fenv env approved_for policy now generator w) (\<lambda>n w.
     and_then (run_tenants fenv env approved_for policy now generators w) (\<lambda>results w.
     (Inr ((fst generator, n) # results), w)))"

definition run_once ::
  "feature_env \<Rightarrow> operational_env \<Rightarrow> (string \<Rightarrow> model_error + estimator option) \<Rightarrow> forecast_policy \<Rightarrow>
   (string \<times> feature_config) list \<Rightarrow> int \<Rightarrow> forecast_world \<Rightarrow> (run_error, (string \<times> int) list, forecast_world) outcome" where
  "run_once fenv env approved_for policy generators now w =
     run_tenants fenv env approved_for policy now (sort_key fst generators) w"

end
