(* ===== verification/Forecast_Inference.thy ===== *)
theory Forecast_Inference
  imports Forecast_Operational Forecast_Isotonic
begin

text \<open>
  What a forecast promises, whichever model made it: times in order, nulls when suppressed, and
  otherwise bounds around the value and probabilities from 0 to 1. The mathematical functions are
  parameters with their documented behaviour \<open>documented_maths\<close>.
\<close>

section \<open>Parameters\<close>

definition documented_maths :: "operational_env \<Rightarrow> bool" where
  "documented_maths env \<longleftrightarrow>
     documented (oe_numpy env) \<and>
     (\<forall>x y. x \<le> y \<and> y \<noteq> NaN \<longrightarrow> oe_exp env x \<le> oe_exp env y) \<and>
     (\<forall>x. x \<le> Fin 0 \<longrightarrow> Fin 0 \<le> oe_exp env x \<and> oe_exp env x \<le> Fin 1) \<and>
     (\<forall>xs q. xs \<noteq> [] \<and> (\<forall>x \<in> set xs. is_finite x \<and> Fin 0 \<le> x) \<longrightarrow> is_finite (oe_quantile env xs q))"

text \<open>The six counts and means of a row are finite and not negative, as the contract and JSON have them.\<close>

definition finite_history :: "payload_row \<Rightarrow> bool" where
  "finite_history raw \<longleftrightarrow> (\<exists>xs. map_raising (number_field raw) history_fields = Inr xs \<and> (\<forall>x \<in> set xs. is_finite x \<and> Fin 0 \<le> x))"

text \<open>A model of the registry has a calibrator that was read from its artifact.\<close>

definition registry_model :: "operational_env \<Rightarrow> estimator \<Rightarrow> bool" where
  "registry_model env m \<longleftrightarrow>
     (\<exists>b c version u payload. m = approved_estimator (oe_numpy env) b c version u \<and> from_dict (oe_texts env) payload = Inr c)"

section \<open>Counts: doubles that are zero or more\<close>

abbreviation nonneg :: "double \<Rightarrow> bool" where
  "nonneg x \<equiv> dle (Fin 0) x"

lemma dle_dest: "dle x y \<Longrightarrow> x \<noteq> NaN \<and> y \<noteq> NaN \<and> x \<le> y"
  by (simp add: dle_def)

lemma nonneg_cases: "nonneg x \<Longrightarrow> (\<And>a. x = Fin a \<Longrightarrow> 0 \<le> a \<Longrightarrow> thesis) \<Longrightarrow> (x = PInf \<Longrightarrow> thesis) \<Longrightarrow> thesis"
  by (cases x) (auto simp: dle_def)

lemma nonneg_to_double: "0 \<le> q \<Longrightarrow> nonneg (to_double q)"
  using to_double_mono [of 0 q] by (simp add: dle_def)

lemma nonneg_dadd: "nonneg x \<Longrightarrow> nonneg y \<Longrightarrow> nonneg (dadd x y)"
  by (elim nonneg_cases) (simp_all add: nonneg_to_double, simp_all add: dle_def)

lemma nonneg_dmul: "nonneg x \<Longrightarrow> 0 < a \<Longrightarrow> nonneg (dmul (Fin a) x)"
  by (elim nonneg_cases) (simp_all add: nonneg_to_double Let_def, simp add: dle_def)

lemma nonneg_third: "nonneg x \<Longrightarrow> nonneg (float_quotient x 3)"
proof -
  have "of_integer 3 = Fin 3" using of_integer_small [of 3] by simp
  then show "nonneg x \<Longrightarrow> ?thesis"
    by (elim nonneg_cases) (simp_all add: float_quotient_def nonneg_to_double, simp add: dle_def)
qed

lemma nonneg_max: "nonneg (py_max (Fin 0) y)"
  by (auto simp: py_max_def dle_def dlt_def)

lemma above_max: "x \<noteq> NaN \<Longrightarrow> dle x (py_max x y)" "y \<noteq> NaN \<Longrightarrow> x \<noteq> NaN \<Longrightarrow> dle y (py_max x y)"
  by (auto simp: py_max_def dle_def dlt_def)

lemma below_min: "x \<noteq> NaN \<Longrightarrow> dle (py_min x y) x" "y \<noteq> NaN \<Longrightarrow> x \<noteq> NaN \<Longrightarrow> dle (py_min x y) y"
  by (auto simp: py_min_def dle_def dlt_def)

lemma nonneg_min: "nonneg x \<Longrightarrow> nonneg y \<Longrightarrow> nonneg (py_min x y)"
  by (simp add: py_min_def)

lemma dle_trans: "dle x y \<Longrightarrow> dle y z \<Longrightarrow> dle x z"
  by (auto simp: dle_def)

section \<open>Bounds\<close>

text \<open>A value with its bounds, at least zero.\<close>

definition bracketed :: "double \<Rightarrow> double \<Rightarrow> double \<Rightarrow> bool" where
  "bracketed l v u \<longleftrightarrow> nonneg l \<and> dle l v \<and> dle v u"

lemma count_interval_bracketed:
  assumes "count_interval u raw expected = Inr (l, h, m)" "nonneg expected"
  shows "bracketed l expected h"
proof -
  obtain y z where l: "l = py_min (py_max (Fin 0) y) expected" and h: "h = py_max expected z"
    using assms(1) by (auto simp: count_interval_def result_then_Inr Let_def)
  have real: "py_max (Fin 0) y \<noteq> NaN" "expected \<noteq> NaN" using nonneg_max [of y] assms(2) by (auto dest: dle_dest)
  show ?thesis
    unfolding bracketed_def l h
    using nonneg_min [OF nonneg_max assms(2)] below_min(2) [OF real(2,1)] above_max(1) [OF real(2)] by blast
qed

lemma empirical_interval_bracketed:
  assumes "empirical_interval env raw expected = Inr (l, h)" "nonneg expected" "finite_history raw" "documented_maths env"
  shows "bracketed l expected h"
proof -
  obtain xs where xs: "map_raising (number_field raw) history_fields = Inr xs" "\<forall>x \<in> set xs. is_finite x \<and> Fin 0 \<le> x"
    using assms(3) by (auto simp: finite_history_def)
  let ?low = "oe_quantile env xs (to_double (5 / 100))" and ?high = "oe_quantile env xs (to_double (95 / 100))"
  have l: "l = py_max (Fin 0) (py_min ?low expected)" and h: "h = py_max ?high expected"
    using assms(1) xs(1) by (simp_all add: empirical_interval_def Let_def)
  have "length xs = length history_fields" by (rule map_raising_length [OF xs(1)])
  then have "xs \<noteq> []" by (auto simp: history_fields_def)
  with assms(4) xs(2) have "is_finite ?low" "is_finite ?high" unfolding documented_maths_def by blast+
  then have "?low \<noteq> NaN" "?high \<noteq> NaN" by (auto simp: is_finite_def)
  moreover have "expected \<noteq> NaN" using assms(2) by (auto dest: dle_dest)
  ultimately have "dle (py_min ?low expected) expected" "dle expected h"
    using below_min(2) [of expected ?low] above_max(2) [of expected ?high] by (simp_all add: h)
  moreover have "nonneg l" by (simp add: l nonneg_max)
  moreover have "dle l expected" using calculation(1) assms(2) by (simp add: l py_max_def)
  ultimately show ?thesis by (simp add: bracketed_def)
qed

lemma fallback_nonneg: "fallback_expected_count raw = Inr x \<Longrightarrow> nonneg x"
  by (auto simp: fallback_expected_count_def result_then_Inr Let_def nonneg_max)

text \<open>Probabilities.\<close>

lemma occurrence_probability_ordered:
  assumes "documented_maths env" "nonneg x" "dle x y"
  shows "dle (occurrence_probability env x) (occurrence_probability env y)"
    and "dle (Fin 0) (occurrence_probability env x)" "dle (occurrence_probability env x) (Fin 1)"
proof -
  have unit: "\<exists>a. oe_exp env (dneg z) = Fin a \<and> 0 \<le> a \<and> a \<le> 1" if "nonneg z" for z
  proof -
    have "dneg z \<le> Fin 0" using that by (elim nonneg_cases) simp_all
    with assms(1) have "Fin 0 \<le> oe_exp env (dneg z)" "oe_exp env (dneg z) \<le> Fin 1" by (auto simp: documented_maths_def)
    then show ?thesis by (elim le_Fin_E) auto
  qed
  have y: "nonneg y" using dle_trans [OF assms(2,3)] .
  obtain a b where ab: "oe_exp env (dneg x) = Fin a" "0 \<le> a" "a \<le> 1" "oe_exp env (dneg y) = Fin b" "0 \<le> b" "b \<le> 1"
    using unit [OF assms(2)] unit [OF y] by blast
  have "dneg y \<le> dneg x" "dneg x \<noteq> NaN" using assms(2,3) y by (elim nonneg_cases; simp add: dle_def)+
  with assms(1) have "oe_exp env (dneg y) \<le> oe_exp env (dneg x)" by (simp add: documented_maths_def)
  with ab have "to_double (1 - a) \<le> to_double (1 - b)" by (intro to_double_mono) simp
  moreover have "Fin 0 \<le> to_double (1 - a)" "to_double (1 - a) \<le> Fin 1"
    using to_double_mono [of 0 "1 - a"] to_double_mono [of "1 - a" 1] ab by simp_all
  ultimately show "dle (occurrence_probability env x) (occurrence_probability env y)"
    "dle (Fin 0) (occurrence_probability env x)" "dle (occurrence_probability env x) (Fin 1)"
    using ab by (simp_all add: occurrence_probability_def dsub_def dle_def)
qed

text \<open>Calibration maps every raw probability into the unit interval.\<close>

definition unit_valued :: "(double \<Rightarrow> model_error + double) option \<Rightarrow> bool" where
  "unit_valued calibrate \<longleftrightarrow> (\<forall>f x p. calibrate = Some f \<and> f x = Inr p \<longrightarrow> dle (Fin 0) p \<and> dle p (Fin 1))"

lemma registry_unit_valued:
  assumes "registry_model env m" "documented_maths env"
  shows "unit_valued (es_calibrate m)"
proof -
  obtain b c version u payload where m: "m = approved_estimator (oe_numpy env) b c version u"
    and "from_dict (oe_texts env) payload = Inr c"
    using assms(1) by (auto simp: registry_model_def)
  then have "ordered c" by (intro from_dict_ordered)
  have "dle (Fin 0) p \<and> dle p (Fin 1)" if "predict (oe_numpy env) c x = Inr p" for x p
  proof -
    have "Fin 0 \<le> p" "p \<le> Fin 1"
      using predict_ordered [of "oe_numpy env" c x x] that \<open>ordered c\<close> assms(2) by (auto simp: documented_maths_def)
    then show ?thesis by (cases p) (auto simp: dle_def)
  qed
  then show ?thesis by (simp add: unit_valued_def m approved_estimator_def)
qed

lemma probability_bounds_bracketed:
  assumes "probability_bounds env i l h = Inr (p, q, r, m)" "bracketed l (in_expected i) h"
    and "documented_maths env" "unit_valued (in_calibrate i)"
  shows "bracketed q p r \<and> dle r (Fin 1)"
proof (cases "in_calibrate i")
  case None
  have order: "nonneg l" "dle l (in_expected i)" "dle (in_expected i) h" "nonneg (in_expected i)" "nonneg h"
    using assms(2) dle_trans unfolding bracketed_def by blast+
  have "q = occurrence_probability env l" "p = occurrence_probability env (in_expected i)" "r = occurrence_probability env h"
    using assms(1) None by (simp_all add: probability_bounds_def Let_def)
  with occurrence_probability_ordered [OF assms(3) order(1,2)] occurrence_probability_ordered [OF assms(3) order(4,3)]
    occurrence_probability_ordered(3) [OF assms(3) order(5), of h] order(5)
  show ?thesis by (auto simp: bracketed_def dle_def)
next
  case (Some f)
  then obtain x y z a b where f: "f x = Inr p" "f y = Inr a" "f z = Inr b" and q: "q = py_min p a" "r = py_max p b"
    using assms(1) by (auto simp: probability_bounds_def Let_def result_then_Inr)
  have unit: "dle (Fin 0) v \<and> dle v (Fin 1)" if "f w = Inr v" for v w using assms(4) Some that by (auto simp: unit_valued_def)
  note units = unit [OF f(1)] unit [OF f(2)] unit [OF f(3)]
  then have "p \<noteq> NaN" by (auto dest: dle_dest)
  with units show ?thesis
    using below_min(1) [of p a] above_max(1) [of p b] nonneg_min [of p a] by (auto simp: bracketed_def q py_max_def)
qed

section \<open>The forecast\<close>

definition hidden :: "estimate \<Rightarrow> bool" where
  "hidden e \<longleftrightarrow> et_value e = None \<and> et_lower e = None \<and> et_upper e = None"

definition shown_within :: "estimate \<Rightarrow> (double \<Rightarrow> bool) \<Rightarrow> bool" where
  "shown_within e limit \<longleftrightarrow>
     (\<exists>v l u. et_value e = Some v \<and> et_lower e = Some l \<and> et_upper e = Some u \<and> bracketed l v u \<and> limit u)"

lemma checked_nonneg: "is_finite x \<Longrightarrow> \<not> dlt x (Fin 0) \<Longrightarrow> nonneg x"
  by (cases x) (simp_all add: is_finite_def)

lemma infer_nonneg: "infer policy model raw tenant = Inr i \<Longrightarrow> nonneg (in_expected i)"
  using checked_nonneg by (cases model) (auto simp: infer_def result_then_Inr fallback_nonneg)

lemma infer_calibrate:
  "infer policy model raw tenant = Inr i \<Longrightarrow> in_calibrate i = (case model of None \<Rightarrow> None | Some m \<Rightarrow> es_calibrate m)"
  "infer policy model raw tenant = Inr i \<Longrightarrow> in_interval i = (case model of None \<Rightarrow> None | Some m \<Rightarrow> es_interval m)"
  by (cases model; force simp: infer_def result_then_Inr)+

lemma count_bounds_bracketed:
  assumes "count_bounds env i raw = Inr (l, h, m)" "nonneg (in_expected i)" "finite_history raw" "documented_maths env"
    and "in_interval i = None \<or> (\<exists>u. in_interval i = Some (count_interval u))"
  shows "bracketed l (in_expected i) h"
  using assms count_interval_bracketed empirical_interval_bracketed
  by (auto simp: count_bounds_def result_then_Inr split: prod.split_asm)

lemma make_forecast_InrE:
  assumes "make_forecast env approved_for policy raw tenant generated = Inr f"
  obtains i l h cm p q r pm model where
    "forecast_times env raw tenant generated = Inr (fo_window_start f, fo_data_as_of f)" "fo_generated_at f = instant generated"
    "approved_for tenant = Inr model" "infer policy model raw tenant = Inr i" "suppression policy raw = Inr (fo_reason f)"
    "count_bounds env i raw = Inr (l, h, cm)" "probability_bounds env i l h = Inr (p, q, r, pm)"
    "fo_expected_count f = estimate_of (fo_reason f) (in_expected i) l h (po_interval_level policy) cm"
    "\<exists>label. fo_probability f = estimate_of (fo_reason f) p q r (po_interval_level policy) label"
    "fo_drivers f = (if fo_reason f = None then in_drivers i else [])"
    "fo_risk_band f = (if fo_reason f = None then risk_band policy p else ''suppressed'')"
proof -
  from assms obtain t d model i reason l h cm p q r pm label where
    parts: "forecast_times env raw tenant generated = Inr (t, d)" "approved_for tenant = Inr model"
      "infer policy model raw tenant = Inr i" "suppression policy raw = Inr reason" "count_bounds env i raw = Inr (l, h, cm)"
      "probability_bounds env i l h = Inr (p, q, r, pm)"
    and f: "fo_window_start f = t" "fo_data_as_of f = d" "fo_generated_at f = instant generated" "fo_reason f = reason"
      "fo_expected_count f = estimate_of reason (in_expected i) l h (po_interval_level policy) cm"
      "fo_probability f = estimate_of reason p q r (po_interval_level policy) label"
      "fo_drivers f = (if reason = None then in_drivers i else [])"
      "fo_risk_band f = (if reason = None then risk_band policy p else ''suppressed'')"
    by (auto simp: make_forecast_def result_then_Inr Let_def split: prod.split_asm)
  show ?thesis
    by (rule that [of model i l h cm p q r pm]) (use parts f in blast | simp add: parts f)+
qed

lemma forecast_times_ordered:
  "forecast_times env raw tenant generated = Inr (t, d) \<Longrightarrow> d < t \<and> instant generated \<le> t"
  by (auto simp: forecast_times_def result_then_Inr)

lemma estimate_hidden: "hidden (estimate_of (Some r) v l u level m)"
  by (simp add: hidden_def estimate_of_def Let_def)

lemma estimate_shown: "bracketed l v u \<Longrightarrow> limit u \<Longrightarrow> shown_within (estimate_of None v l u level m) limit"
  by (auto simp: shown_within_def estimate_of_def Let_def)

lemma forecast_promises:
  assumes "documented_maths env" "finite_history raw"
    and "\<And>m. approved_for tenant = Inr (Some m) \<Longrightarrow> registry_model env m"
    and "make_forecast env approved_for policy raw tenant generated = Inr f"
  shows "fo_data_as_of f < fo_window_start f" "instant generated \<le> fo_window_start f" "fo_generated_at f = instant generated"
    and "suppression policy raw = Inr (fo_reason f)"
    and "fo_reason f \<noteq> None \<Longrightarrow>
      hidden (fo_expected_count f) \<and> hidden (fo_probability f) \<and> fo_drivers f = [] \<and> fo_risk_band f = ''suppressed''"
    and "fo_reason f = None \<Longrightarrow>
      shown_within (fo_expected_count f) (\<lambda>_. True) \<and> shown_within (fo_probability f) (\<lambda>u. dle u (Fin 1))"
proof -
  obtain i l h cm p q r pm model where f: "forecast_times env raw tenant generated = Inr (fo_window_start f, fo_data_as_of f)"
    "fo_generated_at f = instant generated" "suppression policy raw = Inr (fo_reason f)"
    and model: "approved_for tenant = Inr model" "infer policy model raw tenant = Inr i"
    and bounds: "count_bounds env i raw = Inr (l, h, cm)" "probability_bounds env i l h = Inr (p, q, r, pm)"
    and out: "fo_expected_count f = estimate_of (fo_reason f) (in_expected i) l h (po_interval_level policy) cm"
      "\<exists>label. fo_probability f = estimate_of (fo_reason f) p q r (po_interval_level policy) label"
      "fo_drivers f = (if fo_reason f = None then in_drivers i else [])"
      "fo_risk_band f = (if fo_reason f = None then risk_band policy p else ''suppressed'')"
    by (rule make_forecast_InrE [OF assms(4)])
  show "fo_generated_at f = instant generated" "suppression policy raw = Inr (fo_reason f)" by fact+
  show "fo_data_as_of f < fo_window_start f" "instant generated \<le> fo_window_start f" using forecast_times_ordered [OF f(1)] by simp_all
  show "hidden (fo_expected_count f) \<and> hidden (fo_probability f) \<and> fo_drivers f = [] \<and> fo_risk_band f = ''suppressed''"
    if "fo_reason f \<noteq> None"
    using that out by (auto simp: estimate_hidden)
  have unit: "unit_valued (in_calibrate i)" and interval: "in_interval i = None \<or> (\<exists>u. in_interval i = Some (count_interval u))"
  proof (atomize (full), cases model)
    case None
    then show "unit_valued (in_calibrate i) \<and> (in_interval i = None \<or> (\<exists>u. in_interval i = Some (count_interval u)))"
      using infer_calibrate [OF model(2)] by (simp add: unit_valued_def)
  next
    case (Some m)
    then have "registry_model env m" using assms(3) model(1) by simp
    then show "unit_valued (in_calibrate i) \<and> (in_interval i = None \<or> (\<exists>u. in_interval i = Some (count_interval u)))"
      using infer_calibrate [OF model(2)] registry_unit_valued [OF _ assms(1)] Some
      by (auto simp: registry_model_def approved_estimator_def)
  qed
  have count: "bracketed l (in_expected i) h"
    using count_bounds_bracketed [OF bounds(1) infer_nonneg [OF model(2)] assms(2,1) interval] .
  with probability_bounds_bracketed [OF bounds(2) _ assms(1) unit] have "bracketed q p r \<and> dle r (Fin 1)" by simp
  with count out show "shown_within (fo_expected_count f) (\<lambda>_. True) \<and> shown_within (fo_probability f) (\<lambda>u. dle u (Fin 1))"
    if "fo_reason f = None"
    using that estimate_shown by auto
qed

end
