(* ===== verification/Forecast_Serving.thy ===== *)
theory Forecast_Serving
  imports Forecast_Publish Forecast_Inference
begin

text \<open>
  What consumers of forecasts rely on: the two indices of the repository show the same forecasts,
  one per prediction key; a batch is published as a whole or not at all; the scheduled runner
  stops at the first tenant that fails.
\<close>

section \<open>The indices of the repository\<close>

abbreviation identifier_of :: "payload_row \<Rightarrow> string" where
  "identifier_of entry \<equiv> identity_text entry ''forecast_id''"

abbreviation owner_of :: "payload_row \<Rightarrow> string" where
  "owner_of entry \<equiv> identity_text entry ''tenant_id''"

definition indexed :: "forecast_repository \<Rightarrow> bool" where
  "indexed s \<longleftrightarrow>
     distinct (map fst (fr_by_key s)) \<and>
     (\<forall>k e. map_of (fr_by_key s) k = Some e \<longrightarrow> prediction_key e = k \<and> fr_by_id s (owner_of e, identifier_of e) = Some e) \<and>
     (\<forall>t i e. fr_by_id s (t, i) = Some e \<longrightarrow> owner_of e = t \<and> identifier_of e = i \<and> map_of (fr_by_key s) (prediction_key e) = Some e)"

text \<open>Forecast identifiers tell prediction keys apart.\<close>

definition identifiers_name_keys :: "payload_row set \<Rightarrow> bool" where
  "identifiers_name_keys entries \<longleftrightarrow>
     (\<forall>e \<in> entries. \<forall>e' \<in> entries. owner_of e = owner_of e' \<and> identifier_of e = identifier_of e' \<longrightarrow> prediction_key e = prediction_key e')"

definition stored :: "forecast_repository \<Rightarrow> payload_row set" where
  "stored s = {e. \<exists>k. map_of (fr_by_key s) k = Some e}"

lemma empty_indexed: "indexed empty_forecasts" "stored empty_forecasts = {}"
  by (simp_all add: indexed_def empty_forecasts_def stored_def)

lemma owner_in_key: "prediction_key e = prediction_key e' \<Longrightarrow> owner_of e = owner_of e'"
  by (simp add: prediction_key_def)

lemma store_by_key [simp]:
  "map_of (fr_by_key (store_forecast t e s)) = (map_of (fr_by_key s))(prediction_key e \<mapsto> e)"
  by (simp add: store_forecast_def Let_def update_conv')

lemma store_by_id:
  "fr_by_id (store_forecast t e s) =
     (case map_of (fr_by_key s) (prediction_key e) of None \<Rightarrow> fr_by_id s
      | Some previous \<Rightarrow> (fr_by_id s)((t, identifier_of previous) := None))((t, identifier_of e) \<mapsto> e)"
  by (simp add: store_forecast_def Let_def)

lemma store_indexed:
  assumes "indexed s" "owner_of e = t" "identifiers_name_keys (insert e (stored s))"
  shows "indexed (store_forecast t e s)"
proof -
  let ?key = "prediction_key e" and ?s = "store_forecast t e s"
  have keys: "map_of (fr_by_key s) k = Some x \<Longrightarrow> prediction_key x = k \<and> fr_by_id s (owner_of x, identifier_of x) = Some x" for k x
    using assms(1) unfolding indexed_def by blast
  have ids: "fr_by_id s (u, i) = Some x \<Longrightarrow> owner_of x = u \<and> identifier_of x = i \<and> map_of (fr_by_key s) (prediction_key x) = Some x" for u i x
    using assms(1) unfolding indexed_def by blast
  have same: "prediction_key x = ?key" if "map_of (fr_by_key s) k = Some x" "owner_of x = t" "identifier_of x = identifier_of e" for k x
  proof -
    have "x \<in> stored s" using that(1) unfolding stored_def by blast
    then show ?thesis using assms(2,3) that(2,3) unfolding identifiers_name_keys_def by blast
  qed
  have old: "fr_by_id ?s (owner_of x, identifier_of x) = fr_by_id s (owner_of x, identifier_of x)"
    if x: "map_of (fr_by_key s) k = Some x" "k \<noteq> ?key" for k x
  proof -
    have "(owner_of x, identifier_of x) \<noteq> (t, identifier_of e)" using same [OF x(1)] keys [OF x(1)] x(2) by auto
    moreover have "(owner_of x, identifier_of x) \<noteq> (t, identifier_of p)" if "map_of (fr_by_key s) ?key = Some p" for p
    proof
      assume eq: "(owner_of x, identifier_of x) = (t, identifier_of p)"
      have "owner_of p = t" using keys [OF that] owner_in_key [of p e] assms(2) by simp
      with eq keys [OF x(1)] keys [OF that] have "x = p" by simp
      with keys [OF x(1)] keys [OF that] x(2) show False by simp
    qed
    ultimately show ?thesis by (auto simp: store_by_id split: option.split)
  qed
  have new: "fr_by_id s (u, i) = Some x \<and> prediction_key x \<noteq> ?key"
    if x: "fr_by_id ?s (u, i) = Some x" "(u, i) \<noteq> (t, identifier_of e)" for u i x
  proof (cases "map_of (fr_by_key s) ?key")
    case None
    with x have "fr_by_id s (u, i) = Some x" by (simp add: store_by_id split: if_split_asm)
    with ids [OF this] None show ?thesis by auto
  next
    case (Some p)
    with x have found: "fr_by_id s (u, i) = Some x" and differ: "(u, i) \<noteq> (t, identifier_of p)"
      by (auto simp: store_by_id split: if_split_asm)
    have "x \<noteq> p" using ids [OF found] differ keys [OF Some] owner_in_key [of p e] assms(2) by auto
    with ids [OF found] Some found show ?thesis by auto
  qed
  have distinct: "distinct (map fst (fr_by_key ?s))"
    using assms(1) by (simp add: indexed_def store_forecast_def Let_def distinct_update)
  have "prediction_key x = k \<and> fr_by_id ?s (owner_of x, identifier_of x) = Some x" if "map_of (fr_by_key ?s) k = Some x" for k x
  proof (cases "k = ?key")
    case True
    with that assms(2) show ?thesis by (simp add: store_by_id)
  next
    case False
    with that have "map_of (fr_by_key s) k = Some x" by simp
    with keys [OF this] old [OF this False] show ?thesis by simp
  qed
  moreover have "owner_of x = u \<and> identifier_of x = i \<and> map_of (fr_by_key ?s) (prediction_key x) = Some x"
    if "fr_by_id ?s (u, i) = Some x" for u i x
  proof (cases "(u, i) = (t, identifier_of e)")
    case True
    with that assms(2) show ?thesis by (simp add: store_by_id)
  next
    case False
    with new [OF that False] ids show ?thesis by auto
  qed
  ultimately show ?thesis using distinct unfolding indexed_def by blast
qed

lemma store_stored: "stored (store_forecast t e s) \<subseteq> insert e (stored s)"
  by (auto simp: stored_def)

text \<open>A publication stores its forecasts when all of them passed, all owned by the tenant.\<close>

lemma check_publication_InrD:
  "check_publication env t seen es = Inr u \<Longrightarrow> (\<forall>e \<in> set es. owner_of e = t) \<and> distinct (map prediction_key es) \<and>
     set seen \<inter> prediction_key ` set es = {}"
  by (induction env t seen es rule: check_publication.induct) (auto simp: result_then_Inr)

lemma publish_cases:
  assumes "publish env t es s = (r, s')"
  shows "(\<exists>e. r = Inl e) \<and> s' = s \<or>
    r = Inr () \<and> s' = fold (store_forecast t) es s \<and> (\<forall>e \<in> set es. owner_of e = t) \<and> distinct (map prediction_key es)"
proof (cases "check_publication env t [] es")
  case (Inl e)
  with assms have "(r, s') = (Inl e, s)" by (simp add: publish_def lift_def)
  then show ?thesis by simp
next
  case (Inr u)
  with assms check_publication_InrD [OF Inr] show ?thesis by (simp add: publish_def lift_def)
qed

lemma identifiers_subset: "identifiers_name_keys entries \<Longrightarrow> entries' \<subseteq> entries \<Longrightarrow> identifiers_name_keys entries'"
  unfolding identifiers_name_keys_def by blast

lemma fold_store_indexed:
  assumes "indexed s" "\<forall>e \<in> set es. owner_of e = t" "identifiers_name_keys entries" "stored s \<union> set es \<subseteq> entries"
  shows "indexed (fold (store_forecast t) es s) \<and> stored (fold (store_forecast t) es s) \<subseteq> entries"
  using assms
proof (induction es arbitrary: s)
  case (Cons e es)
  have "identifiers_name_keys (insert e (stored s))" by (rule identifiers_subset [OF Cons.prems(3)]) (use Cons.prems(4) in auto)
  with Cons.prems have "indexed (store_forecast t e s)" by (intro store_indexed) auto
  moreover have "stored (store_forecast t e s) \<union> set es \<subseteq> entries" using store_stored [of t e s] Cons.prems(4) by auto
  ultimately show ?case using Cons.IH [of "store_forecast t e s"] Cons.prems(2,3) by simp
qed simp

definition publications :: "operational_env \<Rightarrow> (string \<times> payload_row list) list \<Rightarrow> forecast_repository" where
  "publications env batches = fold (\<lambda>(t, es) s. snd (publish env t es s)) batches empty_forecasts"

lemma publications_indexed:
  assumes "identifiers_name_keys (\<Union>(t, es) \<in> set batches. set es)"
  shows "indexed (publications env batches)"
proof -
  define entries where "entries = (\<Union>(t, es) \<in> set batches. set es)"
  have names: "identifiers_name_keys entries" using assms by (simp add: entries_def)
  have part: "(t, es) \<in> set batches \<Longrightarrow> set es \<subseteq> entries" for t es by (auto simp: entries_def)
  have "indexed (fold (\<lambda>(t, es) s. snd (publish env t es s)) bs s)"
    if "set bs \<subseteq> set batches" "indexed s" "stored s \<subseteq> entries" for bs s
    using that
  proof (induction bs arbitrary: s)
    case (Cons b bs)
    obtain t es where b: "b = (t, es)" by (cases b)
    then have es: "set es \<subseteq> entries" using Cons.prems(1) part by auto
    have "indexed (snd (publish env t es s)) \<and> stored (snd (publish env t es s)) \<subseteq> entries"
    proof (cases "fst (publish env t es s)")
      case (Inl e)
      with publish_cases [of env t es s "Inl e" "snd (publish env t es s)"] Cons.prems show ?thesis by (auto simp: prod_eq_iff)
    next
      case (Inr u)
      with publish_cases [of env t es s "Inr u" "snd (publish env t es s)"]
      have "snd (publish env t es s) = fold (store_forecast t) es s" "\<forall>e \<in> set es. owner_of e = t" by (simp_all add: prod_eq_iff)
      with fold_store_indexed [OF Cons.prems(2) _ names] Cons.prems(3) es show ?thesis by simp
    qed
    with Cons.IH [of "snd (publish env t es s)"] Cons.prems(1) b show ?case by simp
  qed simp
  then show ?thesis by (simp add: publications_def empty_indexed entries_def)
qed

lemma list_window_entries:
  assumes "indexed s"
  shows "e \<in> set (list_window t w c s) \<longleftrightarrow>
    map_of (fr_by_key s) (prediction_key e) = Some e \<and> owner_of e = t \<and> identity_text e ''window_start'' = w \<and> identity_text e ''category'' = c"
proof -
  have entry: "(k, e) \<in> set (fr_by_key s) \<longleftrightarrow> map_of (fr_by_key s) k = Some e" for k
    using assms by (simp add: indexed_def)
  have key: "map_of (fr_by_key s) k = Some e \<Longrightarrow> prediction_key e = k" for k using assms unfolding indexed_def by blast
  show ?thesis
    using key by (auto simp: list_window_def entry image_iff prediction_key_def)
qed

lemma window_keys_distinct:
  assumes "indexed s"
  shows "distinct (map prediction_key (list_window t w c s))"
proof -
  let ?P = "\<lambda>((t', cell, start, c'), entry :: payload_row). t' = t \<and> start = w \<and> c' = c"
  have own: "prediction_key e = k" if "(k, e) \<in> set (fr_by_key s)" for k e
    using assms that unfolding indexed_def by (metis map_of_is_SomeI)
  have "map prediction_key (list_window t w c s) = map fst (filter ?P (sort_key fst (fr_by_key s)))"
    by (auto simp: list_window_def own)
  moreover have "distinct (map fst (sort_key fst (fr_by_key s)))"
    using assms by (simp add: indexed_def distinct_map)
  ultimately show ?thesis by (simp add: distinct_map_filter)
qed

lemma listed_or_found:
  assumes "indexed s"
  shows "e \<in> set (list_window t w c s) \<longleftrightarrow>
    get_forecast t (identifier_of e) s = Some e \<and> identity_text e ''window_start'' = w \<and> identity_text e ''category'' = c"
proof -
  have keys: "map_of (fr_by_key s) k = Some x \<Longrightarrow> prediction_key x = k \<and> fr_by_id s (owner_of x, identifier_of x) = Some x" for k x
    using assms unfolding indexed_def by blast
  have ids: "fr_by_id s (u, i) = Some x \<Longrightarrow> owner_of x = u \<and> map_of (fr_by_key s) (prediction_key x) = Some x" for u i x
    using assms unfolding indexed_def by blast
  show ?thesis
    using keys [of "prediction_key e" e] ids [of t "identifier_of e" e]
    by (auto simp: list_window_entries [OF assms] get_forecast_def)
qed

section \<open>Publication of a batch\<close>

text \<open>What the orchestrator asks of a forecast repository, the in-memory one or another.\<close>

locale forecast_store =
  fixes put :: "string \<Rightarrow> payload_row list \<Rightarrow> 'r \<Rightarrow> (model_error, unit, 'r) outcome"
    and current :: "'r \<Rightarrow> prediction_key \<rightharpoonup> payload_row"
  assumes put_error: "put t es s = (Inl failure, s') \<Longrightarrow> s' = s"
    and put_current: "put t es s = (Inr u, s') \<Longrightarrow> e \<in> set es \<Longrightarrow> current s' (prediction_key e) = Some e"
    and put_others: "put t es s = (Inr u, s') \<Longrightarrow> k \<notin> prediction_key ` set es \<Longrightarrow> current s' k = current s k"
begin

text \<open>A batch is published as a whole, or nothing changes.\<close>

lemma published_whole:
  assumes "publish_future_rows put env approved_for policy t rows generated s = (r, s')"
  shows "case r of
      Inl e \<Rightarrow> s' = s
    | Inr made \<Rightarrow> forecast_rows env approved_for policy t generated [] rows = Inr made \<and>
        (\<forall>e \<in> set made. current s' (prediction_key e) = Some e) \<and>
        (\<forall>k. k \<notin> prediction_key ` set made \<longrightarrow> current s' k = current s k)"
proof (cases r)
  case (Inl e)
  with assms put_error show ?thesis by (auto simp: publish_future_rows_def effect_simps)
next
  case (Inr made)
  with assms have "forecast_rows env approved_for policy t generated [] rows = Inr made" "put t made s = (Inr (), s')"
    by (auto simp: publish_future_rows_def effect_simps)
  with Inr put_current [OF this(2)] put_others [OF this(2)] show ?thesis by simp
qed

end

lemma fold_store_current:
  "distinct (map prediction_key es) \<Longrightarrow>
     map_of (fr_by_key (fold (store_forecast t) es s)) =
       (\<lambda>k. case find (\<lambda>e. prediction_key e = k) es of Some e \<Rightarrow> Some e | None \<Rightarrow> map_of (fr_by_key s) k)"
proof (induction es arbitrary: s)
  case (Cons e es)
  have "find (\<lambda>x. prediction_key x = prediction_key e) es = None" using Cons.prems by (force simp: find_None_iff image_iff)
  with Cons show ?case by (auto simp: fun_eq_iff split: option.split)
qed simp

lemma find_by_key:
  "distinct (map prediction_key es) \<Longrightarrow> e \<in> set es \<Longrightarrow> find (\<lambda>x. prediction_key x = prediction_key e) es = Some e"
  by (induction es) auto

interpretation memory: forecast_store "publish env" "\<lambda>s. map_of (fr_by_key s)" for env
proof unfold_locales
  fix t es s s' e failure and u :: unit and k
  show "publish env t es s = (Inl failure, s') \<Longrightarrow> s' = s" using publish_cases by blast
  assume "publish env t es s = (Inr u, s')"
  from publish_cases [OF this] have s': "s' = fold (store_forecast t) es s" "distinct (map prediction_key es)" by auto
  show "e \<in> set es \<Longrightarrow> map_of (fr_by_key s') (prediction_key e) = Some e"
    by (simp add: s'(1) fold_store_current [OF s'(2)] find_by_key [OF s'(2)])
  show "map_of (fr_by_key s') k = map_of (fr_by_key s) k" if "k \<notin> prediction_key ` set es"
  proof -
    have "find (\<lambda>x. prediction_key x = k) es = None" using that by (auto simp: find_None_iff)
    then show ?thesis by (simp add: s'(1) fold_store_current [OF s'(2)])
  qed
qed

text \<open>The forecasts of a batch are those of its rows, in order.\<close>

lemma forecast_rows_each:
  "forecast_rows env approved_for policy t generated keys rows = Inr made \<Longrightarrow>
     list_all2 (\<lambda>row e. forecast env approved_for policy row t generated = Inr e) rows made"
  by (induction env approved_for policy t generated keys rows arbitrary: made rule: forecast_rows.induct)
    (auto simp: result_then_Inr Let_def)

section \<open>The scheduled runner\<close>

lemma run_tenants_append:
  "run_tenants fenv env approved_for policy now (gs @ hs) w =
     and_then (run_tenants fenv env approved_for policy now gs w) (\<lambda>xs w.
     and_then (run_tenants fenv env approved_for policy now hs w) (\<lambda>ys w. (Inr (xs @ ys), w)))"
  by (induction gs arbitrary: w) (auto simp: and_then_def split: prod.split sum.split)

text \<open>A tenant that fails ends the run: the tenants after it get nothing, those before it keep theirs.\<close>

lemma failing_tenant_ends_the_run:
  assumes "sort_key fst generators = before @ failing # after"
    and "run_tenants fenv env approved_for policy now before w = (Inr results, w1)"
    and "run_tenant fenv env approved_for policy now failing w1 = (Inl e, w2)"
  shows "run_once fenv env approved_for policy generators now w = (Inl e, w2)"
  using assms(2,3) by (simp add: run_once_def assms(1) run_tenants_append)

end
