(* ===== verification/Forecast_Predictions.thy ===== *)
theory Forecast_Predictions
  imports Forecast_Serving Forecast_Properties
begin

text \<open>
  The properties of forecasts and of their publication, on a model with a small calibrator.
\<close>

section \<open>A concrete service\<close>

definition demo_operational :: operational_env where
  "demo_operational =
     \<lparr>oe_problems = (\<lambda>schema v. []), oe_numpy = reference_numpy, oe_texts = demo_texts,
      oe_exp = (\<lambda>x. case x of Fin q \<Rightarrow> if q < 0 then Fin (1 / 4) else Fin 1 | PInf \<Rightarrow> PInf | NInf \<Rightarrow> Fin 0 | NaN \<Rightarrow> NaN),
      oe_quantile = (\<lambda>xs q. hd xs), oe_uuid5 = (\<lambda>s. s)\<rparr>"

lemma demo_maths: "documented_maths demo_operational"
proof -
  let ?exp = "oe_exp demo_operational"
  have "?exp x \<le> ?exp y" if "x \<le> y" "y \<noteq> NaN" for x y
    using that by (cases x; cases y) (auto simp: demo_operational_def)
  moreover have "Fin 0 \<le> ?exp x \<and> ?exp x \<le> Fin 1" if "x \<le> Fin 0" for x
    using that by (cases x) (auto simp: demo_operational_def)
  moreover have "is_finite (oe_quantile demo_operational xs q)" if "xs \<noteq> []" "\<forall>x \<in> set xs. is_finite x \<and> Fin 0 \<le> x" for xs q
    using that by (simp add: demo_operational_def)
  ultimately show ?thesis
    unfolding documented_maths_def using reference_numpy_documented by (simp add: demo_operational_def)
qed

definition demo_policy :: forecast_policy where
  "demo_policy =
     \<lparr>po_window_minutes = 360, po_minimum_recent_support = Fin 3, po_minimum_coverage_ratio = Fin (1 / 2),
      po_interval_level = to_double (9 / 10), po_low = to_double (2 / 10), po_typical = Fin (1 / 2), po_elevated = Fin (3 / 4)\<rparr>"

definition demo_future_row :: "string \<Rightarrow> string \<Rightarrow> payload_row" where
  "demo_future_row cell coverage =
     [(''schema_version'', JStr ''1.0.0''), (''tenant_id'', JStr ''t''), (''cell_id'', JStr cell),
      (''interval_start'', JStr ''2026-01-01T12:00:00Z''), (''category'', JStr ''theft''), (''lag_1'', JInt 2), (''lag_2'', JInt 1),
      (''lag_7'', JInt 1), (''lag_14'', JInt 1), (''rolling_7_mean'', JFloat ''1.0''), (''rolling_14_mean'', JFloat ''0.5''),
      (''coverage_ratio'', JFloat coverage), (''data_as_of'', JStr ''2026-01-01T11:59:59Z''),
      (''feature_snapshot_version'', JStr ''v1'')]"

definition demo_generated :: datetime where
  "demo_generated = Aware (seconds (20454 * 86400 + 39600)) 0"

definition demo_uncertainty :: payload_row where
  "demo_uncertainty =
     [(''uncertainty_version'', JStr ''1''), (''method'', JStr ''rolling_origin_model_data_temporal_v1''), (''interval_level'', JFloat ''0.75''),
      (''residual_lower'', JFloat ''-0.5''), (''residual_upper'', JFloat ''0.5''), (''coverage_inflation_per_missing_ratio'', JFloat ''1.0''),
      (''components'', JArr (map JStr uncertainty_components)), (''estimated_from'', JNull), (''model_version'', JStr ''m1'')]"

definition demo_model :: estimator where
  "demo_model = approved_estimator reference_numpy
     \<lparr>bm_tenant_id = ''t'', bm_model_version = ''m1'', bm_data_version = ''d1'', bm_window_minutes = 360,
      bm_predict = (\<lambda>row. Inr (Fin 1)), bm_drivers = (\<lambda>row limit. [])\<rparr> demo_calibrator ''c1'' demo_uncertainty"

definition demo_models :: "string \<Rightarrow> model_error + estimator option" where
  "demo_models tenant_id = Inr (if tenant_id = ''t'' then Some demo_model else None)"

lemma demo_registry_model: "registry_model demo_operational demo_model"
proof -
  have "from_dict demo_texts
      [(''method'', JStr ''validation_isotonic_pav_v1''), (''thresholds'', JArr [JFloat ''0.125'', JFloat ''0.5'', JFloat ''0.75'']),
       (''values'', JArr [JFloat ''0.0'', JFloat ''0.5'', JFloat ''1.0''])] = Inr demo_calibrator"
    by code_simp
  then show ?thesis by (auto simp: registry_model_def demo_model_def demo_operational_def)
qed

lemma demo_history: "finite_history (demo_future_row cell coverage)"
proof -
  have "map_raising (number_field (demo_future_row cell coverage)) history_fields = Inr [Fin 2, Fin 1, Fin 1, Fin 1, Fin 1, Fin (1 / 2)]"
  proof -
    have "py_float (JInt 2) = Inr (Fin 2)" "py_float (JInt 1) = Inr (Fin 1)" "py_float (JFloat ''1.0'') = Inr (Fin 1)"
      "py_float (JFloat ''0.5'') = Inr (Fin (1 / 2))" by code_simp+
    then show ?thesis by (simp add: number_field_def field_def demo_future_row_def history_fields_def member_def)
  qed
  then show ?thesis by (simp add: finite_history_def is_finite_def)
qed

section \<open>Properties\<close>

text \<open>The reason of a suppression, in the fields of the row.\<close>

lemma suppression_reason:
  assumes "suppression policy raw = Inr reason"
  obtains coverage l1 l2 l7 l14 where "number_field raw ''coverage_ratio'' = Inr coverage"
    "number_field raw ''lag_1'' = Inr l1" "number_field raw ''lag_2'' = Inr l2"
    "number_field raw ''lag_7'' = Inr l7" "number_field raw ''lag_14'' = Inr l14"
    "reason = (if dlt coverage (po_minimum_coverage_ratio policy) then Some ''low_coverage''
       else if dlt (dadd (dadd (dadd (dadd (Fin 0) l1) l2) l7) l14) (po_minimum_recent_support policy) then Some ''low_support''
       else None)"
  using assms by (auto simp: suppression_def recent_support_def result_then_Inr split: sum.split_asm intro: that)

text \<open>C2: whatever the features and whoever made the prediction, a forecast of the service is about a window after its data and
not before the time it was made. It is suppressed exactly when the coverage of its row is below the minimum, or else the sum of the
four lags is, with that reason, and then without any number or driver; otherwise the count and the probability lie within their
bounds, none below zero, the probabilities at most one.\<close>

theorem forecasts_keep_their_bounds:
  assumes "documented_maths env" and "finite_history raw"
    and "\<forall>m. approved_for tenant = Inr (Some m) \<longrightarrow> registry_model env m"
    and "forecast env approved_for policy raw tenant generated = Inr result"
  shows "\<exists>f coverage l1 l2 l7 l14. result = forecast_json env f \<and>
    fo_data_as_of f < fo_window_start f \<and> fo_generated_at f = instant generated \<and> instant generated \<le> fo_window_start f \<and>
    number_field raw ''coverage_ratio'' = Inr coverage \<and>
    number_field raw ''lag_1'' = Inr l1 \<and> number_field raw ''lag_2'' = Inr l2 \<and>
    number_field raw ''lag_7'' = Inr l7 \<and> number_field raw ''lag_14'' = Inr l14 \<and>
    fo_reason f =
      (if dlt coverage (po_minimum_coverage_ratio policy) then Some ''low_coverage''
       else if dlt (dadd (dadd (dadd (dadd (Fin 0) l1) l2) l7) l14) (po_minimum_recent_support policy) then Some ''low_support''
       else None) \<and>
    (if fo_reason f = None
     then shown_within (fo_expected_count f) (\<lambda>_. True) \<and> shown_within (fo_probability f) (\<lambda>u. dle u (Fin 1))
     else hidden (fo_expected_count f) \<and> hidden (fo_probability f) \<and> fo_drivers f = [] \<and> fo_risk_band f = ''suppressed'')"
proof -
  from assms(4) obtain f where made: "make_forecast env approved_for policy raw tenant generated = Inr f" and f: "result = forecast_json env f"
    by (auto simp: forecast_def result_then_Inr)
  from assms(3) have "registry_model env m" if "approved_for tenant = Inr (Some m)" for m using that by blast
  note promises = forecast_promises [OF assms(1,2) this made]
  have shown: "if fo_reason f = None
     then shown_within (fo_expected_count f) (\<lambda>_. True) \<and> shown_within (fo_probability f) (\<lambda>u. dle u (Fin 1))
     else hidden (fo_expected_count f) \<and> hidden (fo_probability f) \<and> fo_drivers f = [] \<and> fo_risk_band f = ''suppressed''"
    using promises(5,6) by simp
  have "suppression policy raw = Inr (fo_reason f)" by (rule promises(4))
  then show ?thesis
    by (rule suppression_reason, intro exI [of _ f] exI) (intro conjI f promises(1-3) shown; assumption)
qed

text \<open>A shown forecast of the model, and a suppressed one where three quarters of the coverage are missing.\<close>

theorem forecasts_keep_their_bounds_witness:
  "(\<exists>f. forecast demo_operational demo_models demo_policy (demo_future_row ''c'' ''0.75'') ''t'' demo_generated = Inr (forecast_json demo_operational f) \<and>
      fo_reason f = None \<and> shown_within (fo_probability f) (\<lambda>u. dle u (Fin 1))) \<and>
   (\<exists>f. forecast demo_operational demo_models demo_policy (demo_future_row ''c'' ''0.25'') ''t'' demo_generated = Inr (forecast_json demo_operational f) \<and>
      fo_reason f = Some ''low_coverage'' \<and> hidden (fo_probability f))"
proof -
  have models: "\<forall>m. demo_models ''t'' = Inr (Some m) \<longrightarrow> registry_model demo_operational m"
    using demo_registry_model by (simp add: demo_models_def)
  have made: "\<exists>r. forecast demo_operational demo_models demo_policy (demo_future_row ''c'' coverage) ''t'' demo_generated = Inr r"
    if "case forecast demo_operational demo_models demo_policy (demo_future_row ''c'' coverage) ''t'' demo_generated of Inl e \<Rightarrow> False | Inr r \<Rightarrow> True" for coverage
    using that by (auto split: sum.split_asm)
  have "case forecast demo_operational demo_models demo_policy (demo_future_row ''c'' ''0.75'') ''t'' demo_generated of Inl e \<Rightarrow> False | Inr r \<Rightarrow> True"
    by code_simp
  moreover have "case forecast demo_operational demo_models demo_policy (demo_future_row ''c'' ''0.25'') ''t'' demo_generated of Inl e \<Rightarrow> False | Inr r \<Rightarrow> True"
    by code_simp
  ultimately obtain r q where r: "forecast demo_operational demo_models demo_policy (demo_future_row ''c'' ''0.75'') ''t'' demo_generated = Inr r"
    and q: "forecast demo_operational demo_models demo_policy (demo_future_row ''c'' ''0.25'') ''t'' demo_generated = Inr q"
    using made by blast
  have fields: "number_field (demo_future_row ''c'' ''0.75'') ''coverage_ratio'' = Inr (Fin (3 / 4))"
    "number_field (demo_future_row ''c'' ''0.25'') ''coverage_ratio'' = Inr (Fin (1 / 4))"
    "number_field (demo_future_row ''c'' ''0.75'') ''lag_1'' = Inr (Fin 2)" "number_field (demo_future_row ''c'' ''0.75'') ''lag_2'' = Inr (Fin 1)"
    "number_field (demo_future_row ''c'' ''0.75'') ''lag_7'' = Inr (Fin 1)" "number_field (demo_future_row ''c'' ''0.75'') ''lag_14'' = Inr (Fin 1)"
    "\<not> dlt (Fin (3 / 4)) (po_minimum_coverage_ratio demo_policy)" "dlt (Fin (1 / 4)) (po_minimum_coverage_ratio demo_policy)"
    "\<not> dlt (dadd (dadd (dadd (dadd (Fin 0) (Fin 2)) (Fin 1)) (Fin 1)) (Fin 1)) (po_minimum_recent_support demo_policy)"
    by code_simp+
  from forecasts_keep_their_bounds [OF demo_maths demo_history models r] fields r
  have "\<exists>f. forecast demo_operational demo_models demo_policy (demo_future_row ''c'' ''0.75'') ''t'' demo_generated = Inr (forecast_json demo_operational f) \<and>
      fo_reason f = None \<and> shown_within (fo_probability f) (\<lambda>u. dle u (Fin 1))" by auto
  moreover from forecasts_keep_their_bounds [OF demo_maths demo_history models q] fields q
  have "\<exists>f. forecast demo_operational demo_models demo_policy (demo_future_row ''c'' ''0.25'') ''t'' demo_generated = Inr (forecast_json demo_operational f) \<and>
      fo_reason f = Some ''low_coverage'' \<and> hidden (fo_probability f)" by auto
  ultimately show ?thesis ..
qed

text \<open>C7: after any publications the two indices of the repository show the same forecasts: a forecast is found by its identifier
exactly when its window lists it, and no two listed forecasts share tenant, cell, window and category. Identifiers must
tell prediction keys apart, as those of the service do unless SHA-1 collides.\<close>

theorem indices_show_the_same_forecasts:
  assumes "identifiers_name_keys (\<Union>(t, es) \<in> set batches. set es)"
  shows "(e \<in> set (list_window t w c (publications env batches)) \<longleftrightarrow>
      get_forecast t (identifier_of e) (publications env batches) = Some e \<and>
      identity_text e ''window_start'' = w \<and> identity_text e ''category'' = c) \<and>
    distinct (map prediction_key (list_window t w c (publications env batches)))"
  using listed_or_found publications_indexed [OF assms] window_keys_distinct by blast

definition demo_entry :: "string \<Rightarrow> string \<Rightarrow> payload_row" where
  "demo_entry cell identifier =
     [(''tenant_id'', JStr ''t''), (''forecast_id'', JStr identifier), (''cell_id'', JStr cell),
      (''window_start'', JStr ''2026-01-01T12:00:00Z''), (''category'', JStr ''theft'')]"

text \<open>A forecast of a cell is replaced by one with another identifier.\<close>

definition demo_batches :: "(string \<times> payload_row list) list" where
  "demo_batches = [(''t'', [demo_entry ''a'' ''1'', demo_entry ''b'' ''2'']), (''t'', [demo_entry ''a'' ''3''])]"

theorem indices_show_the_same_forecasts_witness:
  "demo_entry ''a'' ''3'' \<in> set (list_window ''t'' ''2026-01-01T12:00:00Z'' ''theft'' (publications demo_operational demo_batches)) \<and>
   demo_entry ''a'' ''1'' \<notin> set (list_window ''t'' ''2026-01-01T12:00:00Z'' ''theft'' (publications demo_operational demo_batches))"
proof -
  have names: "identifiers_name_keys (\<Union>(t, es) \<in> set demo_batches. set es)"
    by (auto simp: identifiers_name_keys_def demo_batches_def demo_entry_def identity_text_def prediction_key_def member_def)
  have "get_forecast ''t'' ''3'' (publications demo_operational demo_batches) = Some (demo_entry ''a'' ''3'')"
    "get_forecast ''t'' ''1'' (publications demo_operational demo_batches) = None" by code_simp+
  then show ?thesis
    using indices_show_the_same_forecasts [OF names, where env = demo_operational and t = "''t''" and w = "''2026-01-01T12:00:00Z''" and c = "''theft''"]
    by (auto simp: demo_entry_def identity_text_def member_def)
qed

text \<open>C11: a batch of one window is published as a whole or not at all: when a row, the inference or a forecast fails its checks,
the repository stays as it was; otherwise each row's forecast is the current one of its key and every other key keeps
its forecast.\<close>

theorem batches_are_published_whole:
  assumes "publish_future_rows (publish env) env approved_for policy tenant rows generated s = (r, s')"
  shows "case r of
      Inl e \<Rightarrow> s' = s
    | Inr published \<Rightarrow>
        list_all2 (\<lambda>row e. forecast env approved_for policy row tenant generated = Inr e) rows published \<and>
        (\<forall>e \<in> set published. map_of (fr_by_key s') (prediction_key e) = Some e) \<and>
        (\<forall>k. k \<notin> prediction_key ` set published \<longrightarrow> map_of (fr_by_key s') k = map_of (fr_by_key s) k)"
  using memory.published_whole [OF assms] forecast_rows_each by (cases r) auto

theorem batches_are_published_whole_witness:
  "(\<exists>e. fst (publish_future_rows (publish demo_operational) demo_operational demo_models demo_policy ''t''
          [demo_future_row ''a'' ''0.75'', demo_future_row ''a'' ''0.75''] demo_generated empty_forecasts) = Inl e) \<and>
   snd (publish_future_rows (publish demo_operational) demo_operational demo_models demo_policy ''t''
          [demo_future_row ''a'' ''0.75'', demo_future_row ''a'' ''0.75''] demo_generated empty_forecasts) = empty_forecasts \<and>
   (\<exists>e s'. publish_future_rows (publish demo_operational) demo_operational demo_models demo_policy ''t''
          [demo_future_row ''a'' ''0.25''] demo_generated empty_forecasts = (Inr [e], s') \<and> map_of (fr_by_key s') (prediction_key e) = Some e)"
proof -
  let ?publish = "\<lambda>rows. publish_future_rows (publish demo_operational) demo_operational demo_models demo_policy ''t'' rows demo_generated empty_forecasts"
  let ?twice = "?publish [demo_future_row ''a'' ''0.75'', demo_future_row ''a'' ''0.75'']" and ?once = "?publish [demo_future_row ''a'' ''0.25'']"
  have "case fst ?twice of Inl e \<Rightarrow> True | Inr x \<Rightarrow> False" by code_simp
  then obtain e where e: "fst ?twice = Inl e" by (auto split: sum.split_asm)
  with batches_are_published_whole [of demo_operational demo_models demo_policy "''t''" _ demo_generated empty_forecasts "Inl e" "snd ?twice"]
  have "snd ?twice = empty_forecasts" by (simp add: prod_eq_iff)
  moreover have "case fst ?once of Inl e \<Rightarrow> False | Inr xs \<Rightarrow> length xs = 1" by code_simp
  then obtain x where x: "fst ?once = Inr [x]" by (auto split: sum.split_asm simp: length_Suc_conv)
  with batches_are_published_whole [of demo_operational demo_models demo_policy "''t''" _ demo_generated empty_forecasts "Inr [x]" "snd ?once"]
  have "map_of (fr_by_key (snd ?once)) (prediction_key x) = Some x" by (simp add: prod_eq_iff)
  ultimately show ?thesis using e x by (metis prod.collapse)
qed

end
