(* ===== verification/Api_Tenancy.thy ===== *)
theory Api_Tenancy
  imports Py_Uuid Py_Iso
begin

text \<open>
  tenancy.py: who a bearer token stands for and which tenant a request acts on. The development
  provider and the OIDC provider are both models of the interface \<open>authentication\<close>; the token
  library is the parameter \<open>oi_decode\<close>, the text of a JSON value that is not a string \<open>oi_str\<close>, the
  process environment \<open>getenv\<close>. The store of active tenants is the in-memory one.
\<close>

section \<open>Errors\<close>

text \<open>An \<open>HTTPException\<close> by its status and code; any other exception by its class.\<close>

datatype http_error = Http int string | Unhandled string

section \<open>Principals\<close>

definition roles :: "string list" where
  "roles = [''viewer'', ''reviewer'', ''tenant_admin'', ''platform_operator'']"

record membership =
  mb_tenant_id :: string
  mb_slug :: string
  mb_display_name :: string
  mb_role :: string

definition new_membership :: "membership \<Rightarrow> string + membership" where
  "new_membership m = construct (\<lambda>m. first_error [(mb_role m \<notin> set roles, ''ValueError'')]) m"

record principal =
  pr_principal_id :: string
  pr_memberships :: "membership list"
  pr_active_tenant_id :: string

record tenant_context =
  tc_request_id :: string
  tc_principal_id :: string
  tc_tenant_id :: string
  tc_slug :: string
  tc_display_name :: string
  tc_role :: string
  tc_authenticated_at :: string

definition tenant_ids :: "principal \<Rightarrow> string list" where
  "tenant_ids p = map mb_tenant_id (pr_memberships p)"

text \<open>\<open>context_for\<close>: \<open>next\<close> without a default.\<close>

definition context_for :: "principal \<Rightarrow> string \<Rightarrow> int \<Rightarrow> http_error + tenant_context" where
  "context_for p request_id now =
     (case find (\<lambda>m. mb_tenant_id m = pr_active_tenant_id p) (pr_memberships p) of
        None \<Rightarrow> Inl (Unhandled ''StopIteration'')
      | Some m \<Rightarrow> Inr
          \<lparr>tc_request_id = request_id, tc_principal_id = pr_principal_id p, tc_tenant_id = mb_tenant_id m, tc_slug = mb_slug m,
           tc_display_name = mb_display_name m, tc_role = mb_role m, tc_authenticated_at = iso_utc now\<rparr>)"

section \<open>The development provider\<close>

definition demo_tenant_one :: string where
  "demo_tenant_one = ''00000000-0000-4000-8000-000000000001''"

definition demo_tenant_two :: string where
  "demo_tenant_two = ''00000000-0000-4000-8000-000000000002''"

definition member_one :: "string \<Rightarrow> membership" where
  "member_one role = \<lparr>mb_tenant_id = demo_tenant_one, mb_slug = ''demo-one'', mb_display_name = ''Demo Tenant One'', mb_role = role\<rparr>"

definition member_two :: "string \<Rightarrow> membership" where
  "member_two role = \<lparr>mb_tenant_id = demo_tenant_two, mb_slug = ''demo-two'', mb_display_name = ''Demo Tenant Two'', mb_role = role\<rparr>"

definition demo_principal :: "string \<Rightarrow> membership list \<Rightarrow> string \<Rightarrow> principal" where
  "demo_principal name ms active = \<lparr>pr_principal_id = name, pr_memberships = ms, pr_active_tenant_id = active\<rparr>"

text \<open>\<open>os.environ.get(name, default)\<close>; in a dictionary literal the last of equal keys wins.\<close>

definition demo_principals :: "(string \<Rightarrow> string option) \<Rightarrow> (string \<times> principal) list" where
  "demo_principals getenv =
     (let token = (\<lambda>name fallback. case getenv name of None \<Rightarrow> fallback | Some v \<Rightarrow> v) in
      [(token ''DEMO_TOKEN_ONE'' ''demo-token-one'',
          demo_principal ''principal-demo-admin'' [member_one ''tenant_admin'', member_two ''viewer''] demo_tenant_one),
       (token ''DEMO_TOKEN_TWO'' ''demo-token-two'', demo_principal ''principal-demo-viewer'' [member_two ''viewer''] demo_tenant_two),
       (token ''DEMO_REVIEWER_TOKEN'' ''demo-reviewer-one'',
          demo_principal ''principal-demo-reviewer'' [member_one ''reviewer''] demo_tenant_one),
       (token ''DEMO_VIEWER_TOKEN'' ''demo-viewer-one'',
          demo_principal ''principal-demo-viewer-one'' [member_one ''viewer''] demo_tenant_one),
       (token ''DEMO_OPERATOR_TOKEN'' ''demo-operator-one'',
          demo_principal ''principal-demo-operator'' [member_one ''platform_operator''] demo_tenant_one),
       (token ''DEMO_ADMIN_TWO_TOKEN'' ''demo-admin-two'',
          demo_principal ''principal-demo-admin-two'' [member_two ''tenant_admin''] demo_tenant_two),
       (token ''DEMO_REVIEWER_TWO_TOKEN'' ''demo-reviewer-two'',
          demo_principal ''principal-demo-reviewer-two'' [member_two ''reviewer''] demo_tenant_two)])"

type_synonym development = "(string \<rightharpoonup> principal) \<times> (string \<rightharpoonup> string)"

definition development_init :: "(string \<Rightarrow> string option) \<Rightarrow> development" where
  "development_init getenv =
     (let principals = map_of (rev (demo_principals getenv)) in
      (principals, \<lambda>token. map_option pr_active_tenant_id (principals token)))"

definition dev_authenticate :: "string \<Rightarrow> development \<Rightarrow> http_error + principal" where
  "dev_authenticate token s =
     (if token = ''expired-demo-token'' then Inl (Http 401 ''expired_token'')
      else case fst s token of
        None \<Rightarrow> Inl (Http 401 ''invalid_token'')
      | Some p \<Rightarrow>
          (case snd s token of None \<Rightarrow> Inl (Unhandled ''KeyError'') | Some active \<Rightarrow> Inr (p\<lparr>pr_active_tenant_id := active\<rparr>)))"

definition dev_switch :: "string \<Rightarrow> string \<Rightarrow> development \<Rightarrow> (http_error, principal, development) outcome" where
  "dev_switch token tenant_id s =
     and_then (lift (dev_authenticate token s) s) (\<lambda>p s.
     and_then (raise_if (tenant_id \<notin> set (tenant_ids p)) (Http 403 ''tenant_forbidden'') s) (\<lambda>_ s.
     let s = (fst s, (snd s)(token \<mapsto> tenant_id)) in
     lift (dev_authenticate token s) s))"

section \<open>The OIDC provider\<close>

text \<open>What decoding a token gives: the claims, an expired signature, or any other error of the library.\<close>

datatype token_outcome = Verified_Claims json | Expired_Signature | Jwt_Error

record oidc =
  oi_memberships_claim :: string
  oi_decode :: "string \<Rightarrow> token_outcome"
  oi_str :: "json \<Rightarrow> string"

definition oidc_post_init :: "string \<Rightarrow> string \<Rightarrow> string \<Rightarrow> string list \<Rightarrow> oidc \<Rightarrow> string option" where
  "oidc_post_init issuer jwks_url audience algorithms env = first_error
     [(\<not> prefix ''https://'' issuer \<or> \<not> prefix ''https://'' jwks_url, ''ValueError''),
      (audience = [] \<or> oi_memberships_claim env = [], ''ValueError''),
      (algorithms = [] \<or> \<not> set algorithms \<subseteq> {''RS256'', ''RS384'', ''RS512'', ''ES256'', ''ES384'', ''ES512''}, ''ValueError'')]"

definition decode_claims :: "oidc \<Rightarrow> string \<Rightarrow> http_error + (string \<times> json) list" where
  "decode_claims env token =
     (case oi_decode env token of
        Expired_Signature \<Rightarrow> Inl (Http 401 ''expired_token'')
      | Jwt_Error \<Rightarrow> Inl (Http 401 ''invalid_token'')
      | Verified_Claims v \<Rightarrow> (case v of JObj claims \<Rightarrow> Inr claims | _ \<Rightarrow> Inl (Http 401 ''invalid_token'')))"

definition claim_text :: "oidc \<Rightarrow> json \<Rightarrow> string" where
  "claim_text env v = (case v of JStr s \<Rightarrow> s | _ \<Rightarrow> oi_str env v)"

text \<open>One entry of the memberships claim.\<close>

definition membership_keys :: "(string \<times> json) list \<Rightarrow> bool" where
  "membership_keys kvs \<longleftrightarrow> set (map fst kvs) = {''tenant_id'', ''slug'', ''display_name'', ''role''}"

definition read_membership :: "oidc \<Rightarrow> json \<Rightarrow> http_error + membership" where
  "read_membership env raw =
     (case raw of
        JObj kvs \<Rightarrow>
          if \<not> membership_keys kvs then Inl (Http 401 ''invalid_token'')
          else (let str = (\<lambda>key. case member kvs key of None \<Rightarrow> [] | Some v \<Rightarrow> claim_text env v) in
            if \<not> valid_uuid (str ''tenant_id'') then Inl (Http 401 ''invalid_token'')
            else (case new_membership
                  \<lparr>mb_tenant_id = str ''tenant_id'', mb_slug = take 80 (str ''slug''), mb_display_name = take 120 (str ''display_name''),
                   mb_role = str ''role''\<rparr> of
                Inl _ \<Rightarrow> Inl (Http 401 ''invalid_token'') | Inr m \<Rightarrow> Inr m))
      | _ \<Rightarrow> Inl (Http 401 ''invalid_token''))"

fun read_memberships :: "oidc \<Rightarrow> string list \<Rightarrow> json list \<Rightarrow> http_error + membership list" where
  "read_memberships env seen [] = Inr []"
| "read_memberships env seen (raw # rest) =
     (case read_membership env raw of Inl e \<Rightarrow> Inl e | Inr m \<Rightarrow>
        if mb_tenant_id m \<in> set seen then Inl (Http 401 ''invalid_token'')
        else (case read_memberships env (mb_tenant_id m # seen) rest of Inl e \<Rightarrow> Inl e | Inr ms \<Rightarrow> Inr (m # ms)))"

text \<open>The tenant to start with: the stored choice, the claimed one, or the first; \<open>in\<close> needs a hashable value.\<close>

definition requested_tenant :: "json option \<Rightarrow> membership list \<Rightarrow> http_error + string" where
  "requested_tenant requested ms =
     (case requested of
        Some (JArr _) \<Rightarrow> Inl (Unhandled ''TypeError'')
      | Some (JObj _) \<Rightarrow> Inl (Unhandled ''TypeError'')
      | Some (JStr t) \<Rightarrow> Inr (if t \<in> set (map mb_tenant_id ms) then t else mb_tenant_id (hd ms))
      | _ \<Rightarrow> Inr (mb_tenant_id (hd ms)))"

definition subject_of :: "(string \<times> json) list \<Rightarrow> string" where
  "subject_of claims = (case member claims ''sub'' of Some (JStr s) \<Rightarrow> s | _ \<Rightarrow> [])"

type_synonym active_tenants = "string \<rightharpoonup> string"

definition oidc_principal :: "oidc \<Rightarrow> (string \<times> json) list \<Rightarrow> active_tenants \<Rightarrow> http_error + principal" where
  "oidc_principal env claims store =
     (case member claims (oi_memberships_claim env) of
        Some (JArr raws) \<Rightarrow>
          if subject_of claims = [] then Inl (Http 403 ''tenant_membership_missing'')
          else (case read_memberships env [] raws of Inl e \<Rightarrow> Inl e | Inr ms \<Rightarrow>
            if ms = [] then Inl (Http 403 ''tenant_membership_missing'')
            else (case (case store (subject_of claims) of
                          Some t \<Rightarrow> if t \<in> set (map mb_tenant_id ms) then Inr t else requested_tenant (member claims ''active_tenant_id'') ms
                        | None \<Rightarrow> requested_tenant (member claims ''active_tenant_id'') ms) of
                Inl e \<Rightarrow> Inl e
              | Inr active \<Rightarrow> Inr \<lparr>pr_principal_id = take 200 (subject_of claims), pr_memberships = ms, pr_active_tenant_id = active\<rparr>))
      | _ \<Rightarrow> Inl (Http 403 ''tenant_membership_missing''))"

definition oidc_authenticate :: "oidc \<Rightarrow> string \<Rightarrow> active_tenants \<Rightarrow> http_error + principal" where
  "oidc_authenticate env token store =
     (if length token < 1 \<or> 16384 < length token then Inl (Http 401 ''invalid_token'')
      else case decode_claims env token of Inl e \<Rightarrow> Inl e | Inr claims \<Rightarrow> oidc_principal env claims store)"

definition oidc_switch :: "oidc \<Rightarrow> string \<Rightarrow> string \<Rightarrow> active_tenants \<Rightarrow> (http_error, principal, active_tenants) outcome" where
  "oidc_switch env token tenant_id store =
     and_then (lift (oidc_authenticate env token store) store) (\<lambda>p store.
     and_then (raise_if (tenant_id \<notin> set (tenant_ids p)) (Http 403 ''tenant_forbidden'') store) (\<lambda>_ store.
     let store = store(pr_principal_id p \<mapsto> tenant_id) in
     lift (oidc_authenticate env token store) store))"

section \<open>Requests\<close>

text \<open>\<open>require_tenant\<close> and \<open>require_roles\<close>, over either provider.\<close>

definition require_tenant ::
  "(string \<Rightarrow> 's \<Rightarrow> http_error + principal) \<Rightarrow> string option \<Rightarrow> string list \<Rightarrow> string \<Rightarrow> int \<Rightarrow> 's \<Rightarrow> http_error + tenant_context" where
  "require_tenant authenticate credentials query_keys request_id now s =
     (case credentials of
        None \<Rightarrow> Inl (Http 401 ''missing_token'')
      | Some token \<Rightarrow>
          if ''tenant_id'' \<in> set query_keys then Inl (Http 400 ''client_tenant_forbidden'')
          else (case authenticate token s of Inl e \<Rightarrow> Inl e | Inr p \<Rightarrow> context_for p request_id now))"

definition require_roles :: "string list \<Rightarrow> string + (tenant_context \<Rightarrow> http_error + tenant_context)" where
  "require_roles allowed =
     (if set allowed \<subseteq> set roles
      then Inr (\<lambda>c. if tc_role c \<in> set allowed then Inr c else Inl (Http 403 ''role_forbidden''))
      else Inl ''ValueError'')"

end
