(* ===== verification/Api_Access.thy ===== *)
theory Api_Access
  imports Api_Tenancy
begin

text \<open>
  What the routes rely on: a request acts on a tenant and with a role that its verified token
  grants, whatever active tenant is stored or asked for. The law is the locale \<open>authentication\<close>,
  interpreted on both providers.
\<close>

section \<open>The interface\<close>

lemma find_member: "find P xs = Some x \<Longrightarrow> x \<in> set xs \<and> P x"
  by (induction xs) (auto split: if_split_asm)

lemma context_for_InrE:
  assumes "context_for p request_id now = Inr c"
  obtains m where "m \<in> set (pr_memberships p)" "tc_tenant_id c = mb_tenant_id m" "tc_role c = mb_role m"
  using assms by (auto simp: context_for_def dest!: find_member split: option.split_asm)

locale authentication =
  fixes authenticate :: "string \<Rightarrow> 's \<Rightarrow> http_error + principal"
    and switch :: "string \<Rightarrow> string \<Rightarrow> 's \<Rightarrow> (http_error, principal, 's) outcome"
    and grants :: "string \<Rightarrow> 's \<Rightarrow> membership \<Rightarrow> bool"
    and inv :: "'s \<Rightarrow> bool"
  assumes active_member: "inv s \<Longrightarrow> authenticate token s = Inr p \<Longrightarrow> pr_active_tenant_id p \<in> set (tenant_ids p)"
    and granted: "inv s \<Longrightarrow> authenticate token s = Inr p \<Longrightarrow> m \<in> set (pr_memberships p) \<Longrightarrow> grants token s m \<and> mb_role m \<in> set roles"
    and switch_inv: "inv s \<Longrightarrow> switch token t s = (r, s') \<Longrightarrow> inv s'"
    and switch_grants: "inv s \<Longrightarrow> switch token t s = (r, s') \<Longrightarrow> grants other s' = grants other s"
begin

text \<open>The context is one of the memberships the token grants.\<close>

lemma context_granted:
  assumes "inv s" "require_tenant authenticate (Some token) query request_id now s = Inr c"
  shows "\<exists>m. grants token s m \<and> tc_tenant_id c = mb_tenant_id m \<and> tc_role c = mb_role m \<and> tc_role c \<in> set roles"
proof -
  obtain p m where p: "authenticate token s = Inr p" and m: "m \<in> set (pr_memberships p)" "tc_tenant_id c = mb_tenant_id m" "tc_role c = mb_role m"
    using assms(2) by (auto simp: require_tenant_def elim!: context_for_InrE split: if_split_asm sum.split_asm)
  from granted [OF assms(1) p m(1)] m(2,3) show ?thesis by auto
qed

lemma context_found: "inv s \<Longrightarrow> authenticate token s = Inr p \<Longrightarrow> \<exists>c. context_for p request_id now = Inr c"
  using active_member [of s token p] by (auto simp: context_for_def tenant_ids_def find_None_iff split: option.split)

text \<open>Switching, by any tokens in any order, never widens what a token grants.\<close>

lemma grants_kept:
  assumes "inv s" "s' = fold (\<lambda>(token, t) s. snd (switch token t s)) switches s"
  shows "inv s' \<and> grants other s' = grants other s"
  using assms
proof (induction switches arbitrary: s)
  case (Cons x switches)
  obtain token t where x: "x = (token, t)" by (cases x)
  let ?next = "snd (switch token t s)"
  have "inv ?next" "grants other ?next = grants other s"
    using switch_inv [OF Cons.prems(1)] switch_grants [OF Cons.prems(1)] by (metis prod.collapse)+
  with Cons.IH [of ?next] Cons.prems(2) x show ?case by simp
qed simp

end

section \<open>The development provider\<close>

definition development_ok :: "development \<Rightarrow> bool" where
  "development_ok s \<longleftrightarrow>
     (\<forall>token p. fst s token = Some p \<longrightarrow>
        (\<exists>t. snd s token = Some t \<and> t \<in> set (tenant_ids p)) \<and> (\<forall>m \<in> set (pr_memberships p). mb_role m \<in> set roles))"

definition dev_grants :: "string \<Rightarrow> development \<Rightarrow> membership \<Rightarrow> bool" where
  "dev_grants token s m \<longleftrightarrow> (\<exists>p. fst s token = Some p \<and> m \<in> set (pr_memberships p))"

lemma dev_authenticate_InrE:
  assumes "dev_authenticate token s = Inr p"
  obtains q t where "fst s token = Some q" "snd s token = Some t" "p = q\<lparr>pr_active_tenant_id := t\<rparr>"
  using assms by (auto simp: dev_authenticate_def split: if_split_asm option.split_asm)

lemma dev_switch_cases:
  "dev_switch token t s = (r, s') \<Longrightarrow>
     s' = s \<or> s' = (fst s, (snd s)(token \<mapsto> t)) \<and> (\<exists>p. dev_authenticate token s = Inr p \<and> t \<in> set (tenant_ids p))"
  by (cases "dev_authenticate token s") (auto simp: dev_switch_def lift_def raise_if_def and_then_def Let_def split: if_split_asm)

lemma development_init_ok: "development_ok (development_init getenv)"
proof -
  have "\<forall>(token, p) \<in> set (demo_principals getenv). pr_active_tenant_id p \<in> set (tenant_ids p) \<and> (\<forall>m \<in> set (pr_memberships p). mb_role m \<in> set roles)"
    by (simp add: demo_principals_def Let_def demo_principal_def tenant_ids_def member_one_def member_two_def roles_def)
  moreover have "(token, p) \<in> set (demo_principals getenv)" if "map_of (rev (demo_principals getenv)) token = Some p" for token p
    using map_of_SomeD [OF that] by simp
  ultimately show ?thesis by (fastforce simp: development_ok_def development_init_def Let_def)
qed

interpretation dev: authentication dev_authenticate dev_switch dev_grants development_ok
proof unfold_locales
  fix s token other p m t r s'
  assume ok: "development_ok s"
  show "pr_active_tenant_id p \<in> set (tenant_ids p)" if "dev_authenticate token s = Inr p"
    using that ok by (elim dev_authenticate_InrE) (fastforce simp: development_ok_def tenant_ids_def)
  show "dev_grants token s m \<and> mb_role m \<in> set roles" if "dev_authenticate token s = Inr p" "m \<in> set (pr_memberships p)"
    using that ok by (elim dev_authenticate_InrE) (auto simp: development_ok_def dev_grants_def)
  assume "dev_switch token t s = (r, s')"
  from dev_switch_cases [OF this] show "development_ok s'" "dev_grants other s' = dev_grants other s"
    using ok by (auto simp: development_ok_def dev_grants_def fun_eq_iff tenant_ids_def elim!: dev_authenticate_InrE)
qed

section \<open>The OIDC provider\<close>

text \<open>A token grants the memberships its verified claims list.\<close>

definition claims_grant :: "oidc \<Rightarrow> string \<Rightarrow> membership \<Rightarrow> bool" where
  "claims_grant env token m \<longleftrightarrow>
     (\<exists>claims raws. decode_claims env token = Inr claims \<and> member claims (oi_memberships_claim env) = Some (JArr raws) \<and>
        (\<exists>raw \<in> set raws. read_membership env raw = Inr m) \<and>
        (\<forall>raw \<in> set raws. \<forall>m'. read_membership env raw = Inr m' \<and> mb_tenant_id m' = mb_tenant_id m \<longrightarrow> m' = m))"

lemma list_all2_members:
  assumes "list_all2 P xs ys"
  shows "y \<in> set ys \<Longrightarrow> \<exists>x \<in> set xs. P x y" and "x \<in> set xs \<Longrightarrow> \<exists>y \<in> set ys. P x y"
  using assms by (induction rule: list_all2_induct) auto

lemma read_memberships_list:
  "read_memberships env seen raws = Inr ms \<Longrightarrow>
     list_all2 (\<lambda>raw m. read_membership env raw = Inr m) raws ms \<and> distinct (map mb_tenant_id ms) \<and> (\<forall>m \<in> set ms. mb_tenant_id m \<notin> set seen)"
proof (induction raws arbitrary: seen ms)
  case (Cons raw raws)
  obtain m rest where m: "read_membership env raw = Inr m" "mb_tenant_id m \<notin> set seen"
    and rest: "read_memberships env (mb_tenant_id m # seen) raws = Inr rest" and ms: "ms = m # rest"
    using Cons.prems by (auto split: sum.split_asm if_split_asm)
  from Cons.IH [OF rest] m show ?case by (auto simp: ms)
qed simp

lemma new_membership_role: "new_membership x = Inr m \<Longrightarrow> mb_role m \<in> set roles"
  by (auto simp: new_membership_def construct_Inr)

lemma read_membership_role:
  assumes "read_membership env raw = Inr m"
  shows "mb_role m \<in> set roles"
proof -
  obtain x where "new_membership x = Inr m"
    using assms unfolding read_membership_def Let_def by (simp split: json.split_asm if_split_asm sum.split_asm)
  then show ?thesis by (rule new_membership_role)
qed

lemma requested_member: "requested_tenant requested ms = Inr t \<Longrightarrow> ms \<noteq> [] \<Longrightarrow> t \<in> set (map mb_tenant_id ms)"
  by (auto simp: requested_tenant_def split: option.split_asm json.split_asm if_split_asm)

lemma oidc_principal_InrE:
  assumes "oidc_principal env claims store = Inr p"
  obtains raws ms where "member claims (oi_memberships_claim env) = Some (JArr raws)" "read_memberships env [] raws = Inr ms" "ms \<noteq> []"
    "pr_memberships p = ms" "pr_principal_id p = take 200 (subject_of claims)" "pr_active_tenant_id p \<in> set (map mb_tenant_id ms)"
  using assms requested_member
  by (auto simp: oidc_principal_def split: option.split_asm json.split_asm if_split_asm sum.split_asm)

lemma oidc_authenticate_InrE:
  assumes "oidc_authenticate env token store = Inr p"
  obtains claims where "decode_claims env token = Inr claims" "oidc_principal env claims store = Inr p"
  using assms by (auto simp: oidc_authenticate_def split: if_split_asm sum.split_asm)

lemma oidc_grants:
  assumes "oidc_authenticate env token store = Inr p" "m \<in> set (pr_memberships p)"
  shows "claims_grant env token m \<and> mb_role m \<in> set roles"
proof -
  obtain claims raws ms where c: "decode_claims env token = Inr claims" "member claims (oi_memberships_claim env) = Some (JArr raws)"
    "read_memberships env [] raws = Inr ms" "pr_memberships p = ms"
    using assms(1) by (elim oidc_authenticate_InrE oidc_principal_InrE)
  from read_memberships_list [OF c(3)] have each: "list_all2 (\<lambda>raw m. read_membership env raw = Inr m) raws ms" and one: "distinct (map mb_tenant_id ms)"
    by simp_all
  obtain raw where raw: "raw \<in> set raws" "read_membership env raw = Inr m"
    using list_all2_members(1) [OF each, of m] assms(2) c(4) by auto
  have "m' = m" if other: "raw' \<in> set raws" "read_membership env raw' = Inr m'" "mb_tenant_id m' = mb_tenant_id m" for raw' m'
  proof -
    have "m' \<in> set ms" using list_all2_members(2) [OF each other(1)] other(2) by auto
    with one other(3) assms(2) c(4) show ?thesis by (auto simp: distinct_map dest: inj_onD)
  qed
  with c raw read_membership_role [OF raw(2)] show ?thesis unfolding claims_grant_def by blast
qed

interpretation oidc: authentication "oidc_authenticate env" "oidc_switch env" "\<lambda>token _. claims_grant env token" "\<lambda>_. True" for env
proof unfold_locales
  fix s token p m
  assume p: "oidc_authenticate env token s = Inr p"
  then show "pr_active_tenant_id p \<in> set (tenant_ids p)"
    by (elim oidc_authenticate_InrE oidc_principal_InrE) (simp add: tenant_ids_def)
  show "claims_grant env token m \<and> mb_role m \<in> set roles" if "m \<in> set (pr_memberships p)" using oidc_grants [OF p that] .
qed simp_all

lemma oidc_same_principal:
  assumes "oidc_authenticate env token store = Inr p" "decode_claims env token = Inr claims"
  shows "pr_principal_id p = take 200 (subject_of claims)"
    and "\<exists>raws ms. member claims (oi_memberships_claim env) = Some (JArr raws) \<and> read_memberships env [] raws = Inr ms \<and> pr_memberships p = ms"
  using assms by (auto elim!: oidc_authenticate_InrE oidc_principal_InrE)

text \<open>The one \<open>StopIteration\<close> of the code is that of \<open>context_for\<close>.\<close>

lemma no_crash: "oidc_authenticate env token store \<noteq> Inl (Unhandled ''StopIteration'')"
proof -
  have "read_membership env raw \<noteq> Inl (Unhandled x)" for raw x
    by (auto simp: read_membership_def Let_def split: json.split sum.split)
  then have "read_memberships env seen raws \<noteq> Inl (Unhandled x)" for seen raws x
    by (induction env seen raws rule: read_memberships.induct) (auto split: sum.split)
  moreover have "requested_tenant requested ms \<noteq> Inl (Unhandled ''StopIteration'')" for requested ms
    by (auto simp: requested_tenant_def split: option.split json.split)
  ultimately show ?thesis
    by (auto simp: oidc_authenticate_def decode_claims_def oidc_principal_def split: token_outcome.split json.split option.split sum.split)
qed

text \<open>What the stored choice of a subject does.\<close>

lemma oidc_principal_stored:
  "store (subject_of claims) = store' (subject_of claims) \<Longrightarrow> oidc_principal env claims store = oidc_principal env claims store'"
  by (simp only: oidc_principal_def)

lemma oidc_authenticate_stored:
  "\<forall>claims. decode_claims env token = Inr claims \<longrightarrow> store (subject_of claims) = store' (subject_of claims) \<Longrightarrow>
     oidc_authenticate env token store = oidc_authenticate env token store'"
  by (simp add: oidc_authenticate_def split: sum.split) (metis oidc_principal_stored)

lemma oidc_principal_chosen:
  "store (subject_of claims) = Some t \<Longrightarrow> oidc_principal env claims store = Inr p \<Longrightarrow> t \<in> set (tenant_ids p) \<Longrightarrow> pr_active_tenant_id p = t"
  by (auto simp: oidc_principal_def tenant_ids_def split: option.split_asm json.split_asm if_split_asm sum.split_asm)

lemma oidc_switch_InrE:
  assumes "oidc_switch env token t store = (Inr p, store')"
  obtains q where "oidc_authenticate env token store = Inr q" "t \<in> set (tenant_ids q)" "store' = store(pr_principal_id q \<mapsto> t)"
    "oidc_authenticate env token store' = Inr p"
  using assms by (auto simp: oidc_switch_def effect_simps Let_def)

section \<open>Properties\<close>

definition demo_claims :: "(string \<times> json) list" where
  "demo_claims =
     [(''sub'', JStr ''user''),
      (''tenants'', JArr
        [JObj [(''tenant_id'', JStr demo_tenant_one), (''slug'', JStr ''one''), (''display_name'', JStr ''One''), (''role'', JStr ''viewer'')],
         JObj [(''tenant_id'', JStr demo_tenant_two), (''slug'', JStr ''two''), (''display_name'', JStr ''Two''), (''role'', JStr ''reviewer'')]])]"

definition demo_oidc :: oidc where
  "demo_oidc =
     \<lparr>oi_memberships_claim = ''tenants'', oi_decode = (\<lambda>token. if token = ''good'' then Verified_Claims (JObj demo_claims) else Jwt_Error),
      oi_str = (\<lambda>v. [])\<rparr>"

text \<open>C12: a request acts on a tenant that its verified token lists and with the role the token gives for it, which is one of the
four roles: no stored choice, claimed tenant or request parameter can name another. A tenant in the query is refused, a
token whose principal is accepted always has a context, and a route lets only its allowed roles through.\<close>

theorem requests_act_on_a_granted_tenant:
  assumes "require_tenant (oidc_authenticate env) credentials query request_id now store = r"
  shows "case r of
      Inl e \<Rightarrow> e \<noteq> Unhandled ''StopIteration''
    | Inr c \<Rightarrow> ''tenant_id'' \<notin> set query \<and> tc_role c \<in> set roles \<and>
        (\<exists>token m. credentials = Some token \<and> claims_grant env token m \<and> tc_tenant_id c = mb_tenant_id m \<and> tc_role c = mb_role m) \<and>
        (\<forall>allowed dependency c'. require_roles allowed = Inr dependency \<and> dependency c = Inr c' \<longrightarrow> c' = c \<and> tc_role c \<in> set allowed)"
proof (cases r)
  case (Inl e)
  have "e \<noteq> Unhandled ''StopIteration''"
  proof
    assume crash: "e = Unhandled ''StopIteration''"
    then obtain token where token: "(case oidc_authenticate env token store of Inl e \<Rightarrow> Inl e | Inr p \<Rightarrow> context_for p request_id now) = Inl e"
      using assms Inl by (auto simp: require_tenant_def split: option.split_asm if_split_asm)
    then show False
    proof (cases "oidc_authenticate env token store")
      case (Inl x)
      with token crash no_crash show False by simp
    next
      case (Inr p)
      with token oidc.context_found [OF TrueI Inr, of request_id now] show False by auto
    qed
  qed
  with Inl show ?thesis by simp
next
  case (Inr c)
  with assms obtain token where token: "credentials = Some token" "''tenant_id'' \<notin> set query"
    by (auto simp: require_tenant_def split: option.split_asm if_split_asm)
  with Inr assms oidc.context_granted [OF TrueI, of env token query request_id now store c] show ?thesis
    by (auto simp: require_roles_def split: if_split_asm)
qed

theorem requests_act_on_a_granted_tenant_witness:
  "\<exists>c. require_tenant (oidc_authenticate demo_oidc) (Some ''good'') [] ''r'' 0 (Map.empty(''user'' \<mapsto> demo_tenant_two)) = Inr c \<and>
     tc_tenant_id c = demo_tenant_two \<and> tc_role c \<in> set roles"
proof -
  let ?r = "require_tenant (oidc_authenticate demo_oidc) (Some ''good'') [] ''r'' 0 (Map.empty(''user'' \<mapsto> demo_tenant_two))"
  have "case ?r of Inl e \<Rightarrow> False | Inr c \<Rightarrow> tc_tenant_id c = demo_tenant_two" by code_simp
  with requests_act_on_a_granted_tenant [of demo_oidc "Some ''good''" "[]" "''r''" 0 "Map.empty(''user'' \<mapsto> demo_tenant_two)" ?r]
  show ?thesis by (auto split: sum.split_asm)
qed

text \<open>C15: switching follows the subject, not the token: after a switch every token of that subject that lists the tenant acts on it,
and tokens of other subjects are unaffected. This needs a subject of at most 200 characters: for a longer one the choice
is stored under its first 200 characters, so its own tokens do not change and the call returns the old tenant.\<close>

theorem switch_follows_the_subject:
  assumes "oidc_switch env token tenant store = (Inr p, store')" and "decode_claims env token = Inr claims"
  shows "if length (subject_of claims) \<le> 200
    then pr_active_tenant_id p = tenant \<and>
      (\<forall>other q c. decode_claims env other = Inr c \<and> oidc_authenticate env other store' = Inr q \<longrightarrow>
         (if subject_of c = subject_of claims
          then tenant \<in> set (tenant_ids q) \<longrightarrow> pr_active_tenant_id q = tenant
          else oidc_authenticate env other store = Inr q))
    else oidc_authenticate env token store = Inr p \<and> store' (take 200 (subject_of claims)) = Some tenant"
proof -
  obtain q where q: "oidc_authenticate env token store = Inr q" "tenant \<in> set (tenant_ids q)" "store' = store(pr_principal_id q \<mapsto> tenant)"
    "oidc_authenticate env token store' = Inr p"
    by (rule oidc_switch_InrE [OF assms(1)])
  have name: "pr_principal_id q = take 200 (subject_of claims)" by (rule oidc_same_principal(1) [OF q(1) assms(2)])
  have same: "tenant_ids p = tenant_ids q"
    using oidc_same_principal(2) [OF q(1) assms(2)] oidc_same_principal(2) [OF q(4) assms(2)] by (auto simp: tenant_ids_def)
  show ?thesis
  proof (cases "length (subject_of claims) \<le> 200")
    case True
    then have chosen: "store' = store(subject_of claims \<mapsto> tenant)" by (simp add: q(3) name)
    have "pr_active_tenant_id x = tenant"
      if "decode_claims env other = Inr c" "oidc_authenticate env other store' = Inr x" "subject_of c = subject_of claims" "tenant \<in> set (tenant_ids x)"
      for other c x
      using that(2) oidc_principal_chosen [of store' c tenant env x]
      by (elim oidc_authenticate_InrE) (use that chosen in simp)
    moreover have "oidc_authenticate env other store = Inr x"
      if "decode_claims env other = Inr c" "oidc_authenticate env other store' = Inr x" "subject_of c \<noteq> subject_of claims" for other c x
      using that oidc_authenticate_stored [of env other store store'] by (simp add: chosen)
    ultimately show ?thesis using True q(2,4) assms(2) same by auto
  next
    case False
    then have "subject_of claims \<noteq> take 200 (subject_of claims)" by (metis length_take min.cobounded2 min_def nat_le_linear)
    then have "oidc_authenticate env token store = oidc_authenticate env token store'"
      using assms(2) by (intro oidc_authenticate_stored) (simp add: q(3) name)
    with False q(3,4) name show ?thesis by simp
  qed
qed

theorem switch_follows_the_subject_witness:
  "\<exists>p store'. oidc_switch demo_oidc ''good'' demo_tenant_two Map.empty = (Inr p, store') \<and> pr_active_tenant_id p = demo_tenant_two"
proof -
  have "case fst (oidc_switch demo_oidc ''good'' demo_tenant_two Map.empty) of Inl e \<Rightarrow> False | Inr p \<Rightarrow> True" by code_simp
  then obtain p store' where op: "oidc_switch demo_oidc ''good'' demo_tenant_two Map.empty = (Inr p, store')"
    by (cases "oidc_switch demo_oidc ''good'' demo_tenant_two Map.empty") (auto split: sum.split_asm)
  moreover have "decode_claims demo_oidc ''good'' = Inr demo_claims" "length (subject_of demo_claims) \<le> 200" by code_simp+
  ultimately show ?thesis using switch_follows_the_subject [OF op] by auto
qed

end
