(* ===== verification/Spec2Isabelle.thy ===== *)
theory Spec2Isabelle
  imports Dispatch_Properties Dispatch_Delivery Ingestion_Properties Video_Recovery Video_Finality Video_Guarantees Video_Formats
    Forecast_Properties Forecast_Guarantees Forecast_Predictions
    Api_Access
begin

text \<open>
  A model of the crime-prediction backend: the emergency dispatch workflow
  (\<open>src/src/data/dispatch\<close>), the restricted ingestion of incident events (\<open>src/src/data\<close>), the
  video pipeline that turns camera media into reviewed incident events (\<open>src/src/data/video\<close>) and
  the data side of the forecast, from the events to feature tables, splits and calibrated
  probabilities (\<open>src/src/features\<close>, \<open>src/src/models\<close>), with the parts of Python they rest on.

  \<^bold>\<open>Foundations.\<close> \<open>Prelude\<close>: results (\<open>Inl\<close> the exception, \<open>Inr\<close> the value), computations that
  thread a state and keep it when they raise (\<open>and_then\<close>), the regular expressions as predicates,
  string methods, date-times, and the two locales every stateful component interprets: a machine
  with an invariant and one whose operations respect a preorder. \<open>Py_Json\<close> is the \<open>json\<close> module
  with \<open>loads (dumps v) = v\<close>; \<open>Py_Uuid\<close> what \<open>uuid.UUID(text)\<close> accepts; \<open>Py_Iso\<close> ISO texts of
  instants; \<open>Py_Float\<close> what the code asks of the text of a float (finite, comparisons with an
  integer, microseconds); \<open>Sql_Table\<close> the SQL statements on lists of rows and the order of text
  timestamps.

  \<^bold>\<open>Dispatch.\<close> In the order of the code: \<open>Dispatch_Errors\<close> (errors.py), \<open>Dispatch_Models\<close>
  (models.py: records, enums and the \<open>__post_init__\<close> guards), \<open>Dispatch_Directory\<close> (directory.py),
  \<open>Dispatch_Voice\<close> (twilio.py: the mock provider and the requests of the SDK provider),
  \<open>Dispatch_Repository\<close> (repository.py: the in-memory repository), \<open>Dispatch_Service\<close> (service.py:
  the coordinator), \<open>Dispatch_Broker\<close> and \<open>Dispatch_Worker\<close> (broker.py, worker.py). A method is a
  function of the state that returns a result and the new state, so an exception keeps the writes
  made before it. The clock, random identifiers, SHA-256/HMAC, the time zone data base and the
  responses of Twilio are fields of the environment.

  The invariants of the repository and of the coordinator are in \<open>Dispatch_Repository_Inv\<close>,
  \<open>Dispatch_Repository_Ops\<close>, \<open>Dispatch_Repository_Advance\<close> and \<open>Dispatch_Service_Inv\<close>; runs of
  arbitrary operations in \<open>Dispatch_Runs\<close>, whose interpretations carry the invariant and the
  preorder of histories to every reachable state. The properties: \<open>Dispatch_Authorize\<close>,
  \<open>Dispatch_Acknowledge\<close>, \<open>Dispatch_Properties\<close>, \<open>Dispatch_Guarantees\<close> and, for the worker,
  \<open>Dispatch_Delivery\<close>. \<open>Dispatch_Demo\<close> is a concrete coordinator the witnesses evaluate.

  \<^bold>\<open>Ingestion.\<close> \<open>Ingestion_Store\<close> models contracts.py, source.py and store.py, \<open>Ingestion_Service\<close>
  category_map.py, adapters/replay.py and service.py with the whole loop of a replay.
  \<open>Ingestion_Facts\<close> describes one record and one run, \<open>Ingestion_Invariant\<close> the constraints of the
  tables under any calls, \<open>Ingestion_Properties\<close> has the properties, on \<open>Ingestion_Demo\<close>.

  \<^bold>\<open>Video.\<close> The tables of video/store.py are the record \<open>video_store\<close> of \<open>Video_Tables\<close>, which also
  holds the incident store, the media files and a counter of provider calls; an operation maps it to
  a result and a new store. \<open>Video_Errors\<close> is errors.py; \<open>Video_Jobs\<close> the job table with its leases
  (store.py 261-477, 699-704) and \<open>Video_Store\<close> the other tables; \<open>Video_Execute\<close> the operations of a
  job (service.py: upload, index, analyze, delete, and storage.py's local adapter), \<open>Video_Service\<close>
  registration, uploads, processing, re-analysis and retention, \<open>Video_Review\<close> reviews, expiry and
  coverage (service.py, coverage.py), \<open>Video_Broker\<close> the SQS and database queues (broker.py) and
  \<open>Video_Worker\<close> the worker (worker.py). The vision provider is a parameter of these; its client is
  modelled apart, in \<open>Video_Reka\<close> (reading its answers) and \<open>Video_Provider\<close> (the requests over HTTP,
  reka.py), and \<open>with_reka\<close> makes it the service's provider. The worker acts on a store that others change too: while an
  operation runs, \<open>we_others\<close> applies any calls to the job table.

  \<open>Video_Lease\<close> makes the job methods a machine with its invariant and history; \<open>Video_Recovery\<close> has
  what a lease protects, when recovery takes it back and that a crashing job ends. \<open>Video_Frames\<close> has
  the locales of what operations leave alone; \<open>Video_Candidates\<close> what an analysis stores,
  \<open>Video_Finality\<close> the machine of the whole pipeline and the finality of reviews, \<open>Video_Settlement\<close>
  the answers of the worker, \<open>Video_Retention\<close> deletion, \<open>Video_Guarantees\<close> the other properties,
  witnesses and examples of defects, on \<open>Video_Demo\<close>. \<open>Video_Boundary\<close> and \<open>Video_Formats\<close> show what
  crosses the boundary to the vision provider and which written forms are read.

  \<^bold>\<open>Forecast.\<close> \<open>Py_Double\<close> is the arithmetic of IEEE doubles, every operation the exact one rounded to
  the nearest double. \<open>Forecast_Features\<close> models builder.py and future.py: the feature table over the
  events of the ingestion store and the unlabelled snapshot stored in the video store;
  \<open>Forecast_Snapshot\<close> shows what a row depends on, what a label counts and what is stored, and
  \<open>Forecast_Guarantees\<close> has the properties. \<open>Forecast_Data\<close> models config.py, data.py and split.py,
  \<open>Forecast_Split\<close> proves the blocks and folds. \<open>Forecast_Calibration\<close> models calibration.py;
  \<open>Forecast_Isotonic\<close> defines isotonic regression on exact numbers, proves it optimal and shows that
  the calibrator's loop on doubles computes it. \<open>Forecast_Properties\<close> has the properties of both.
  \<open>Forecast_Operational\<close> models operational.py and the approved estimator of registry.py,
  \<open>Forecast_Publish\<close> models api/forecasting.py (repository, orchestrator, scheduled runner over the
  modelled feature generators); \<open>Forecast_Inference\<close> proves the bounds of a forecast, \<open>Forecast_Serving\<close>
  the indices of the repository and the publication of a batch over any store with the laws of the
  locale \<open>forecast_store\<close>, and \<open>Forecast_Predictions\<close> has the properties.

  \<^bold>\<open>Access.\<close> \<open>Api_Tenancy\<close> models api/tenancy.py: the development and the OIDC provider, the tenant
  context of a request and the role check. \<open>Api_Access\<close> states what the routes rely on as the locale
  \<open>authentication\<close>, interprets it on both providers and has the properties.

  \<^bold>\<open>Bounds and fuel.\<close> Strings are sequences of code points below 256, integers are unbounded as
  in Python; outside the forecast floats appear only as literals. The calibrator's sums of labels are
  exact up to \<open>2 ^ 26\<close> rows, the truncation of timestamps to seconds up to \<open>2 ^ 33\<close> seconds (year 2242). The only fuel is that of the JSON parser, the length
  of its input, and \<open>loads_dumps\<close> shows it is enough for every text \<open>dumps\<close> writes. Instants are
  integers of microseconds; the texts the code compares are compared as texts.

  \<^bold>\<open>Not modelled.\<close> Sockets, files, threads (each method holds the lock of its object for its whole
  body, so methods interleave as wholes) and logging. Parameters of the model are the clock,
  identifiers, hashes, JSON Schema, path resolution, the text of a float quotient, SQS, Twilio, the
  HTTP answers of the vision provider, H3, sine, cosine, exp and quantile, numpy's argsort,
  searchsorted and clip, and the estimator inside a model bundle. The PostgreSQL variants of the
  repositories and brokers are SQL and row policies, whose semantics is not in the source; the S3
  storage, the malware scanner, ffmpeg and ffprobe are calls of other programs; the routes of the HTTP
  layer (src/src/api) and the training of the models (the other files of src/src/models:
  scikit-learn estimators and numpy statistics) are listed in the manifest.
\<close>

end
